(* ===== verification/Prelude.thy ===== *)
theory Prelude
  imports
    Main
    "HOL-Library.Char_ord"
    "HOL-Library.List_Lexorder"
    "HOL-Library.Sublist"
    "HOL-Library.Word"
begin

text \<open>
  Shared vocabulary of the development: results and options, the part of Rust's \<open>str\<close>
  API that the sources use, decimal printing, and the ordered map that stands for
  \<open>BTreeMap\<close>.

  A Rust \<open>char\<close> is modelled by the type \<open>char\<close>, that is by the code points below 256, and a
  \<open>String\<close> by a list of them. \<open>is_whitespace\<close> below is exact on that range. Strings with
  code points from 256 on are outside the model.
\<close>

named_theorems str_simps \<open>equations of the string helpers\<close>
named_theorems res_simps \<open>equations of the result helpers\<close>

section \<open>Results\<close>

type_synonym ('e, 'a) result = "'e + 'a"

abbreviation Err :: "'e \<Rightarrow> ('e, 'a) result" where
  "Err \<equiv> Inl"

abbreviation Ok :: "'a \<Rightarrow> ('e, 'a) result" where
  "Ok \<equiv> Inr"

definition and_then :: "('e, 'a) result \<Rightarrow> ('a \<Rightarrow> ('e, 'b) result) \<Rightarrow> ('e, 'b) result" where
  "and_then r f = (case r of Err e \<Rightarrow> Err e | Ok x \<Rightarrow> f x)"

lemma and_then_simps [simp, res_simps]:
  "and_then (Err e) f = Err e"
  "and_then (Ok x) f = f x"
  by (simp_all add: and_then_def)

lemma and_then_Ok_iff: "and_then r f = Ok y \<longleftrightarrow> (\<exists>x. r = Ok x \<and> f x = Ok y)"
  by (cases r) auto

text \<open>\<open>collect::<Result<Vec<_>, _>>()\<close>: the first error wins.\<close>

fun collect_results :: "('e, 'a) result list \<Rightarrow> ('e, 'a list) result" where
  "collect_results [] = Ok []"
| "collect_results (r # rs) = and_then r (\<lambda>x. and_then (collect_results rs) (\<lambda>xs. Ok (x # xs)))"

lemma collect_results_Ok_iff:
  "collect_results rs = Ok xs \<longleftrightarrow> rs = map Ok xs"
proof (induction rs arbitrary: xs)
  case Nil
  then show ?case by auto
next
  case (Cons r rs)
  then show ?case by (cases xs) (auto simp: and_then_Ok_iff)
qed

lemma collect_results_map_Ok_iff:
  "collect_results (map f xs) = Ok ys \<longleftrightarrow> list_all2 (\<lambda>x y. f x = Ok y) xs ys"
proof (induction xs arbitrary: ys)
  case Nil
  then show ?case by auto
next
  case (Cons x xs)
  then show ?case by (cases ys) (auto simp: and_then_Ok_iff)
qed

lemma collect_results_memD:
  assumes "collect_results (map f xs) = Ok ys" and "y \<in> set ys"
  shows "\<exists>x \<in> set xs. f x = Ok y"
  using assms by (force simp: collect_results_map_Ok_iff list_all2_conv_all_nth in_set_conv_nth)

lemma collect_results_append:
  "collect_results (rs @ rs') =
     and_then (collect_results rs) (\<lambda>xs. and_then (collect_results rs') (\<lambda>ys. Ok (xs @ ys)))"
  by (induction rs) (auto simp: and_then_def split: sum.split)

text \<open>Two results agree when they are the same error or related values.\<close>

definition result_rel :: "('a \<Rightarrow> 'b \<Rightarrow> bool) \<Rightarrow> ('e, 'a) result \<Rightarrow> ('e, 'b) result \<Rightarrow> bool" where
  "result_rel R = rel_sum (=) R"

lemma result_rel_simps [simp, res_simps]:
  "result_rel R (Ok x) (Ok y) = R x y" "result_rel R (Err e) (Err e') = (e = e')"
  "\<not> result_rel R (Ok x) (Err e')" "\<not> result_rel R (Err e) (Ok y)"
  by (simp_all add: result_rel_def)

lemma result_rel_refl: "(\<And>x. R x x) \<Longrightarrow> result_rel R r r"
  by (cases r) auto

lemma result_rel_and_then:
  "result_rel R r r' \<Longrightarrow> (\<And>x y. R x y \<Longrightarrow> result_rel S (f x) (g y)) \<Longrightarrow>
     result_rel S (and_then r f) (and_then r' g)"
  by (cases r; cases r') auto

lemma result_rel_collect:
  "list_all2 (result_rel R) rs rs' \<Longrightarrow>
     result_rel (list_all2 R) (collect_results rs) (collect_results rs')"
  by (induction rule: list_all2_induct) (auto intro!: result_rel_and_then)

definition is_ok :: "('e, 'a) result \<Rightarrow> bool" where
  "is_ok r = (case r of Err _ \<Rightarrow> False | Ok _ \<Rightarrow> True)"

lemma is_ok_simps [simp, res_simps]: "is_ok (Ok x)" "\<not> is_ok (Err e)"
  by (simp_all add: is_ok_def)

lemma is_ok_iff: "is_ok r \<longleftrightarrow> (\<exists>x. r = Ok x)"
  by (cases r) auto

text \<open>Steps on a state: the state is kept where a step fails, and the rest is left out.\<close>

definition then_do ::
  "('e, 'a) result \<times> 's \<Rightarrow> ('a \<Rightarrow> 's \<Rightarrow> ('e, 'b) result \<times> 's) \<Rightarrow> ('e, 'b) result \<times> 's" where
  "then_do r k = (case r of (Err e, s) \<Rightarrow> (Err e, s) | (Ok x, s) \<Rightarrow> k x s)"

lemma then_do_simps [simp]: "then_do (Err e, s) k = (Err e, s)" "then_do (Ok x, s) k = k x s"
  by (simp_all add: then_do_def)

lemma then_do_assoc: "then_do (then_do r k) k' = then_do r (\<lambda>x s. then_do (k x s) k')"
  by (simp add: then_do_def split: prod.split sum.split)

lemma then_do_Ok_iff: "then_do r k = (Ok y, s') \<longleftrightarrow> (\<exists>x s1. r = (Ok x, s1) \<and> k x s1 = (Ok y, s'))"
  by (auto simp: then_do_def split: prod.split sum.split)

text \<open>A relation between the states before and after that holds of a step and of what follows it.\<close>

lemma then_do_state:
  assumes "then_do r k = (res, s')" and "R s (snd r)" and "transp R"
    and "\<And>x s1. r = (Ok x, s1) \<Longrightarrow> R s1 (snd (k x s1))"
  shows "R s s'"
proof (cases r)
  case (Pair r0 s1)
  show ?thesis
  proof (cases r0)
    case (Inl e)
    with assms(1,2) Pair show ?thesis by simp
  next
    case (Inr x)
    with assms(1) Pair have "snd (k x s1) = s'" by simp
    with assms(4) [of x s1] Pair Inr have "R s1 s'" by simp
    with assms(2,3) Pair show ?thesis by (auto dest: transpD)
  qed
qed

section \<open>Characters\<close>

definition NL :: char where "NL = CHR 0x0A"

definition is_whitespace :: "char \<Rightarrow> bool" where
  "is_whitespace c \<longleftrightarrow>
     c \<in> {CHR 0x09, CHR 0x0A, CHR 0x0B, CHR 0x0C, CHR 0x0D, CHR '' '', CHR 0x85, CHR 0xA0}"

definition char_between :: "char \<Rightarrow> char \<Rightarrow> char \<Rightarrow> bool" where
  "char_between lo hi c \<longleftrightarrow> (of_char lo :: nat) \<le> of_char c \<and> (of_char c :: nat) \<le> of_char hi"

definition is_ascii_digit :: "char \<Rightarrow> bool" where
  "is_ascii_digit c = char_between (CHR ''0'') (CHR ''9'') c"

definition is_ascii_lowercase :: "char \<Rightarrow> bool" where
  "is_ascii_lowercase c = char_between (CHR ''a'') (CHR ''z'') c"

definition is_ascii_uppercase :: "char \<Rightarrow> bool" where
  "is_ascii_uppercase c = char_between (CHR ''A'') (CHR ''Z'') c"

definition is_ascii_alphabetic :: "char \<Rightarrow> bool" where
  "is_ascii_alphabetic c \<longleftrightarrow> is_ascii_lowercase c \<or> is_ascii_uppercase c"

definition is_ascii_alphanumeric :: "char \<Rightarrow> bool" where
  "is_ascii_alphanumeric c \<longleftrightarrow> is_ascii_alphabetic c \<or> is_ascii_digit c"

definition is_ascii_hexdigit :: "char \<Rightarrow> bool" where
  "is_ascii_hexdigit c \<longleftrightarrow>
     is_ascii_digit c \<or> char_between (CHR ''a'') (CHR ''f'') c \<or> char_between (CHR ''A'') (CHR ''F'') c"

definition to_ascii_lowercase :: "char \<Rightarrow> char" where
  "to_ascii_lowercase c = (if is_ascii_uppercase c then char_of ((of_char c :: nat) + 32) else c)"

lemmas char_class_defs =
  is_whitespace_def is_ascii_digit_def is_ascii_lowercase_def is_ascii_uppercase_def
  is_ascii_alphabetic_def is_ascii_alphanumeric_def is_ascii_hexdigit_def char_between_def

definition eq_ignore_ascii_case :: "string \<Rightarrow> string \<Rightarrow> bool" where
  "eq_ignore_ascii_case a b \<longleftrightarrow> map to_ascii_lowercase a = map to_ascii_lowercase b"

lemma eq_ignore_ascii_case_refl [simp]: "eq_ignore_ascii_case a a"
  by (simp add: eq_ignore_ascii_case_def)

section \<open>The string helpers\<close>

definition starts_with :: "string \<Rightarrow> string \<Rightarrow> bool" where
  "starts_with s p = prefix p s"

lemma starts_with_simps [simp, str_simps]:
  "starts_with s []"
  "\<not> starts_with [] (c # p)"
  "starts_with (d # s) (c # p) \<longleftrightarrow> c = d \<and> starts_with s p"
  by (auto simp: starts_with_def)

lemma starts_with_append [simp]: "starts_with (p @ s) p"
  by (simp add: starts_with_def)

fun strip_prefix :: "string \<Rightarrow> string \<Rightarrow> string option" where
  "strip_prefix s [] = Some s"
| "strip_prefix [] (c # p) = None"
| "strip_prefix (d # s) (c # p) = (if c = d then strip_prefix s p else None)"

lemma strip_prefix_Some_iff: "strip_prefix s p = Some r \<longleftrightarrow> s = p @ r"
  by (induction s p rule: strip_prefix.induct) auto

lemma strip_prefix_append [simp]: "strip_prefix (p @ r) p = Some r"
  by (simp add: strip_prefix_Some_iff)

fun split_once :: "char \<Rightarrow> string \<Rightarrow> (string \<times> string) option" where
  "split_once c [] = None"
| "split_once c (d # s) =
     (if d = c then Some ([], s)
      else map_option (\<lambda>(a, b). (d # a, b)) (split_once c s))"

lemma split_once_Some_iff:
  "split_once c s = Some (a, b) \<longleftrightarrow> s = a @ c # b \<and> c \<notin> set a"
proof (induction s arbitrary: a b)
  case Nil
  then show ?case by simp
next
  case (Cons d s)
  show ?case
  proof (cases a)
    case Nil
    then show ?thesis by (auto split: prod.splits)
  next
    case (Cons x a')
    then show ?thesis using Cons.IH [of a' b] by (auto split: prod.splits)
  qed
qed

lemma split_once_None_iff: "split_once c s = None \<longleftrightarrow> c \<notin> set s"
  by (induction s) auto

definition rsplit_once :: "char \<Rightarrow> string \<Rightarrow> (string \<times> string) option" where
  "rsplit_once c s = map_option (\<lambda>(a, b). (rev b, rev a)) (split_once c (rev s))"

lemma rsplit_once_Some_iff:
  "rsplit_once c s = Some (a, b) \<longleftrightarrow> s = a @ c # b \<and> c \<notin> set b"
proof -
  have "rsplit_once c s = Some (a, b) \<longleftrightarrow> split_once c (rev s) = Some (rev b, rev a)"
    by (auto simp: rsplit_once_def)
  also have "\<dots> \<longleftrightarrow> rev s = rev b @ c # rev a \<and> c \<notin> set b"
    by (simp add: split_once_Some_iff)
  also have "\<dots> \<longleftrightarrow> s = a @ c # b \<and> c \<notin> set b"
    by (metis append.assoc append_Cons append_Nil rev.simps(2) rev_append rev_rev_ident)
  finally show ?thesis .
qed

lemma rsplit_once_None_iff: "rsplit_once c s = None \<longleftrightarrow> c \<notin> set s"
  by (simp add: rsplit_once_def split_once_None_iff)

text \<open>\<open>str::split(c)\<close>: never empty, one piece more than there are separators.\<close>

fun split_on :: "char \<Rightarrow> string \<Rightarrow> string list" where
  "split_on c [] = [[]]"
| "split_on c (d # s) =
     (if d = c then [] # split_on c s
      else (case split_on c s of [] \<Rightarrow> [[d]] | p # ps \<Rightarrow> (d # p) # ps))"

lemma split_on_nonempty [simp]: "split_on c s \<noteq> []"
  by (induction s) (auto split: list.splits)

fun join :: "string \<Rightarrow> string list \<Rightarrow> string" where
  "join sep [] = []"
| "join sep [x] = x"
| "join sep (x # y # xs) = x @ sep @ join sep (y # xs)"

lemma join_Cons: "join sep (x # xs) = x @ (if xs = [] then [] else sep @ join sep xs)"
  by (cases xs) auto

lemma join_split_on: "join [c] (split_on c s) = s"
proof (induction s)
  case Nil
  then show ?case by simp
next
  case (Cons d s)
  then show ?case by (cases "split_on c s") (auto simp: join_Cons)
qed

lemma split_on_no_sep: "c \<notin> set s \<Longrightarrow> split_on c s = [s]"
  by (induction s) auto

lemma split_on_append_sep: "c \<notin> set a \<Longrightarrow> split_on c (a @ c # b) = a # split_on c b"
  by (induction a) auto

lemma split_on_append: "split_on c (a @ c # b) = split_on c a @ split_on c b"
  by (induction a) (auto split: list.split)

lemma split_on_snoc: "split_on c (a @ [c]) = split_on c a @ [[]]"
  using split_on_append [of c a "[]"] by simp

definition trim_start :: "string \<Rightarrow> string" where
  "trim_start s = dropWhile is_whitespace s"

definition trim_end :: "string \<Rightarrow> string" where
  "trim_end s = rev (dropWhile is_whitespace (rev s))"

definition trim :: "string \<Rightarrow> string" where
  "trim s = trim_end (trim_start s)"

definition trim_start_matches :: "char \<Rightarrow> string \<Rightarrow> string" where
  "trim_start_matches c s = dropWhile (\<lambda>d. d = c) s"

definition trim_end_matches :: "char \<Rightarrow> string \<Rightarrow> string" where
  "trim_end_matches c s = rev (dropWhile (\<lambda>d. d = c) (rev s))"

text \<open>\<open>line.trim().is_empty()\<close>, the test the line readers use.\<close>

definition is_blank :: "string \<Rightarrow> bool" where
  "is_blank s \<longleftrightarrow> trim s = []"

lemma is_blank_iff: "is_blank s \<longleftrightarrow> (\<forall>c \<in> set s. is_whitespace c)"
proof -
  have "trim s = [] \<longleftrightarrow> (\<forall>c \<in> set (dropWhile is_whitespace s). is_whitespace c)"
    by (simp add: trim_def trim_end_def trim_start_def)
  also have "\<dots> \<longleftrightarrow> (\<forall>c \<in> set s. is_whitespace c)"
    by (induction s) auto
  finally show ?thesis by (simp add: is_blank_def)
qed

fun contains_str :: "string \<Rightarrow> string \<Rightarrow> bool" where
  "contains_str [] p = (p = [])"
| "contains_str (c # s) p = (starts_with (c # s) p \<or> contains_str s p)"

text \<open>\<open>str::replace\<close>: non-overlapping occurrences from the left; the empty pattern occurs around every
  character.\<close>

function replace_nonempty :: "string \<Rightarrow> string \<Rightarrow> string \<Rightarrow> string" where
  "replace_nonempty pat to [] = []"
| "replace_nonempty pat to (c # s) =
     (if pat \<noteq> [] \<and> starts_with (c # s) pat
      then to @ replace_nonempty pat to (drop (length pat) (c # s))
      else c # replace_nonempty pat to s)"
  by pat_completeness auto
termination
  by (relation "measure (\<lambda>(pat, to, s). length s)") (auto simp: neq_Nil_conv)

definition str_replace :: "string \<Rightarrow> string \<Rightarrow> string \<Rightarrow> string" where
  "str_replace pat to s =
     (if pat = [] then to @ concat (map (\<lambda>c. c # to) s) else replace_nonempty pat to s)"

text \<open>\<open>s.matches(pat).count()\<close> for a non-empty pattern: occurrences that do not overlap.\<close>

function count_matches :: "string \<Rightarrow> string \<Rightarrow> nat" where
  "count_matches pat [] = 0"
| "count_matches pat (c # s) =
     (if pat \<noteq> [] \<and> starts_with (c # s) pat then Suc (count_matches pat (drop (length pat) (c # s)))
      else count_matches pat s)"
  by pat_completeness auto
termination
  by (relation "measure (\<lambda>(pat, s). length s)") (auto simp: neq_Nil_conv)

definition strip_suffix :: "string \<Rightarrow> string \<Rightarrow> string option" where
  "strip_suffix s p = map_option rev (strip_prefix (rev s) (rev p))"

lemma strip_suffix_Some_iff: "strip_suffix s p = Some r \<longleftrightarrow> s = r @ p"
proof -
  have "strip_suffix s p = Some r \<longleftrightarrow> rev s = rev p @ rev r"
    by (auto simp: strip_suffix_def strip_prefix_Some_iff)
  also have "\<dots> \<longleftrightarrow> s = r @ p"
    by (metis rev_append rev_rev_ident)
  finally show ?thesis .
qed

text \<open>\<open>str::lines\<close>: pieces between newlines, one trailing carriage return dropped from a
  terminated piece, no piece after a final newline.\<close>

definition chomp_cr :: "string \<Rightarrow> string" where
  "chomp_cr s = (if s \<noteq> [] \<and> last s = CHR 0x0D then butlast s else s)"

definition str_lines :: "string \<Rightarrow> string list" where
  "str_lines s =
     (let ps = split_on NL s
      in map chomp_cr (butlast ps) @ (if last ps = [] then [] else [last ps]))"

text \<open>A text of complete lines grows by one line.\<close>

definition line_ok :: "string \<Rightarrow> bool" where
  "line_ok l \<longleftrightarrow> NL \<notin> set l \<and> \<not> is_blank l \<and> last l \<noteq> CHR 0x0D"

definition text_complete :: "string \<Rightarrow> bool" where
  "text_complete t \<longleftrightarrow> t = [] \<or> last t = NL"

lemma text_complete_line [simp]: "text_complete []" "text_complete (t @ l @ [NL])"
  by (simp_all add: text_complete_def)

lemma str_lines_append:
  assumes "text_complete t" and "line_ok l"
  shows "str_lines (t @ l @ [NL]) = str_lines t @ [l]"
proof -
  have l: "NL \<notin> set l" "chomp_cr l = l"
    using assms(2) by (auto simp: line_ok_def chomp_cr_def)
  show ?thesis
  proof (cases "t = []")
    case True
    with l show ?thesis by (simp add: str_lines_def split_on_snoc split_on_no_sep Let_def)
  next
    case False
    with assms(1) obtain u where t: "t = u @ [NL]"
      by (metis append_butlast_last_id text_complete_def)
    have "split_on NL (t @ l @ [NL]) = split_on NL u @ [l, []]"
      using split_on_append [of NL u "l @ [NL]"] l(1) by (simp add: t split_on_snoc split_on_no_sep)
    with l(2) show ?thesis
      by (simp add: str_lines_def t split_on_snoc Let_def butlast_append)
  qed
qed

section \<open>Decimal printing\<close>

fun dec_nat :: "nat \<Rightarrow> string" where
  "dec_nat n =
     (if n < 10 then [char_of (48 + n)] else dec_nat (n div 10) @ [char_of (48 + n mod 10)])"

declare dec_nat.simps [simp del]

definition dec_int :: "int \<Rightarrow> string" where
  "dec_int i = (if i < 0 then CHR ''-'' # dec_nat (nat (- i)) else dec_nat (nat i))"

definition undec_digits :: "string \<Rightarrow> nat" where
  "undec_digits s = foldl (\<lambda>acc c. 10 * acc + ((of_char c :: nat) - 48)) 0 s"

lemma of_char_digit: "d < 10 \<Longrightarrow> (of_char (char_of (48 + d) :: char) :: nat) = 48 + d"
  by simp

lemma undec_dec_nat [simp]: "undec_digits (dec_nat n) = n"
proof (induction n rule: dec_nat.induct)
  case (1 n)
  show ?case
  proof (cases "n < 10")
    case True
    then show ?thesis by (subst dec_nat.simps) (simp add: undec_digits_def)
  next
    case False
    with 1 show ?thesis by (subst dec_nat.simps) (simp add: undec_digits_def)
  qed
qed

lemma dec_nat_inject [simp]: "dec_nat m = dec_nat n \<longleftrightarrow> m = n"
  by (metis undec_dec_nat)

lemma dec_nat_digits: "c \<in> set (dec_nat n) \<Longrightarrow> is_ascii_digit c"
proof (induction n rule: dec_nat.induct)
  case (1 n)
  have digit: "is_ascii_digit (char_of (48 + d))" if "d < 10" for d :: nat
    using that by (simp add: is_ascii_digit_def char_between_def)
  show ?case
  proof (cases "n < 10")
    case True
    with "1.prems" digit show ?thesis by (subst (asm) dec_nat.simps) simp
  next
    case False
    with "1.prems" have "c \<in> set (dec_nat (n div 10)) \<or> c = char_of (48 + n mod 10)"
      by (subst (asm) dec_nat.simps) auto
    with "1.IH" False digit [of "n mod 10"] show ?thesis by auto
  qed
qed

lemma dec_nat_nonempty [simp]: "dec_nat n \<noteq> []"
  by (subst dec_nat.simps) simp

lemma not_digit_special [simp]:
  "\<not> is_ascii_digit (CHR ''-'')" "\<not> is_ascii_digit NL" "\<not> is_ascii_digit (CHR '','')"
  "\<not> is_ascii_digit (CHR ''}'')" "\<not> is_ascii_digit (CHR '']'')"
  by (simp_all add: is_ascii_digit_def char_between_def NL_def)

lemma dec_int_inject [simp]: "dec_int i = dec_int j \<longleftrightarrow> i = j"
proof -
  have minus: "CHR ''-'' \<notin> set (dec_nat n)" for n
    using dec_nat_digits [of "CHR ''-''" n] by auto
  have "CHR ''-'' # s \<noteq> dec_nat n" for s n
    using minus [of n] by (metis list.set_intros(1))
  then show ?thesis
    by (auto simp: dec_int_def split: if_splits) metis+
qed

lemma dec_int_chars: "c \<in> set (dec_int i) \<Longrightarrow> is_ascii_digit c \<or> c = CHR ''-''"
  by (auto simp: dec_int_def dest: dec_nat_digits split: if_splits)

section \<open>Searching a list\<close>

text \<open>A loop that returns at the first hit (\<open>find_map\<close>).\<close>

fun find_map :: "('a \<Rightarrow> 'b option) \<Rightarrow> 'a list \<Rightarrow> 'b option" where
  "find_map f [] = None"
| "find_map f (x # xs) = (case f x of Some y \<Rightarrow> Some y | None \<Rightarrow> find_map f xs)"

lemma find_map_cong [fundef_cong]:
  "xs = ys \<Longrightarrow> (\<And>x. x \<in> set ys \<Longrightarrow> f x = g x) \<Longrightarrow> find_map f xs = find_map g ys"
  by (hypsubst_thin, induction ys) (auto split: option.split)

lemma find_map_append:
  "find_map f (xs @ ys) = (case find_map f xs of Some y \<Rightarrow> Some y | None \<Rightarrow> find_map f ys)"
  by (induction xs) (auto split: option.split)

lemma find_map_None_iff: "find_map f xs = None \<longleftrightarrow> (\<forall>x \<in> set xs. f x = None)"
  by (induction xs) (auto split: option.split)

lemma find_map_SomeD: "find_map f xs = Some y \<Longrightarrow> \<exists>x \<in> set xs. f x = Some y"
  by (induction xs) (auto split: option.splits)

lemma find_map_hit: "x \<in> set xs \<Longrightarrow> f x \<noteq> None \<Longrightarrow> find_map f xs \<noteq> None"
  by (auto simp: find_map_None_iff)

lemma find_append:
  "find P (xs @ ys) = (case find P xs of Some x \<Rightarrow> Some x | None \<Rightarrow> find P ys)"
  by (induction xs) auto

lemma find_member: "find P xs = Some x \<Longrightarrow> x \<in> set xs \<and> P x"
  by (metis find_Some_iff nth_mem)

section \<open>Collecting without repetition\<close>

text \<open>A \<open>Vec\<close> beside a \<open>HashSet\<close> of what it holds: an element is pushed the first time only.\<close>

definition push_new :: "'a \<Rightarrow> 'a list \<Rightarrow> 'a list" where
  "push_new x out = (if x \<in> set out then out else out @ [x])"

lemma set_push_new [simp]: "set (push_new x out) = insert x (set out)"
  by (auto simp: push_new_def)

lemma distinct_push_new [simp]: "distinct (push_new x out) = distinct out"
  by (auto simp: push_new_def)

lemma set_foldl_union:
  "(\<And>out x. x \<in> set xs \<Longrightarrow> set (f out x) = set out \<union> g x) \<Longrightarrow>
     set (foldl f out xs) = set out \<union> (\<Union>x \<in> set xs. g x)"
  by (induction xs arbitrary: out) auto

lemma foldl_invariant:
  "P out \<Longrightarrow> (\<And>out x. x \<in> set xs \<Longrightarrow> P out \<Longrightarrow> P (f out x)) \<Longrightarrow> P (foldl f out xs)"
  by (induction xs arbitrary: out) auto

section \<open>Debug printing of strings\<close>

text \<open>The \<open>{:?}\<close> format of \<open>str\<close>: quotes, backslashes and the usual escapes; characters that
  are not printable are written by their code point.\<close>

definition lower_hex :: "nat \<Rightarrow> char" where
  "lower_hex n = (if n < 10 then char_of (48 + n) else char_of (87 + n))"

definition debug_hex :: "nat \<Rightarrow> string" where
  "debug_hex n = (if n < 16 then [lower_hex n] else [lower_hex (n div 16), lower_hex (n mod 16)])"

definition debug_char :: "char \<Rightarrow> string" where
  "debug_char c =
     (let n = of_char c :: nat
      in if c = CHR 0x22 then [CHR 0x5C, CHR 0x22]
         else if c = CHR 0x5C then [CHR 0x5C, CHR 0x5C]
         else if c = CHR 0x0A then [CHR 0x5C, CHR ''n'']
         else if c = CHR 0x0D then [CHR 0x5C, CHR ''r'']
         else if c = CHR 0x09 then [CHR 0x5C, CHR ''t'']
         else if c = CHR 0x00 then [CHR 0x5C, CHR ''0'']
         else if n < 32 \<or> (127 \<le> n \<and> n \<le> 160) \<or> n = 173
           then [CHR 0x5C, CHR ''u'', CHR 0x7B] @ debug_hex n @ [CHR 0x7D]
         else [c])"

definition debug_str :: "string \<Rightarrow> string" where
  "debug_str s = [CHR 0x22] @ concat (map debug_char s) @ [CHR 0x22]"

text \<open>A character alone is quoted with apostrophes.\<close>

definition debug_char_literal :: "char \<Rightarrow> string" where
  "debug_char_literal c =
     [CHR 0x27] @
     (if c = CHR 0x27 then [CHR 0x5C, CHR 0x27] else if c = CHR 0x22 then [c] else debug_char c) @ [CHR 0x27]"

end
