(* ===== verification/Extern.thy ===== *)
theory Extern
  imports Prelude
begin

text \<open>
  The functions the sources call but do not contain, as one record that the definitions
  take as an argument: SHA-256 (\<open>sha2\<close>), hex and base64 encoding (\<open>hex\<close>,
  \<open>base64\<close>), ed25519 signatures (\<open>ed25519_dalek\<close>), the calendar range of
  \<open>time::OffsetDateTime::from_unix_timestamp\<close> and its RFC 3339 formatting and parsing.
  Byte strings are modelled as \<open>string\<close>; hashing several \<open>update\<close> calls is hashing their
  concatenation.

  \<open>crypto_ok\<close> names the documented behaviour the proofs of signing code rely on: a signature
  made with a key verifies under its public key, is 64 bytes long, and base64 decoding inverts
  encoding. It says nothing about forgery. \<open>demo_extern\<close> is a concrete instance on which
  the witnesses run.
\<close>

section \<open>The record\<close>

record extern =
  sha256 :: "string \<Rightarrow> string"
  hex_encode :: "string \<Rightarrow> string"
  ed_public :: "string \<Rightarrow> string"
  ed_sign :: "string \<Rightarrow> string \<Rightarrow> string"
  ed_verify :: "string \<Rightarrow> string \<Rightarrow> string \<Rightarrow> bool"
  b64_encode :: "string \<Rightarrow> string"
  b64_decode :: "string \<Rightarrow> string option"
  timestamp_in_range :: "int \<Rightarrow> bool"
  rfc3339_format :: "int \<Rightarrow> string"
  rfc3339_parse :: "string \<Rightarrow> int option"

definition sha256_hex :: "extern \<Rightarrow> string \<Rightarrow> string" where
  "sha256_hex E bytes = hex_encode E (sha256 E bytes)"

definition crypto_ok :: "extern \<Rightarrow> bool" where
  "crypto_ok E \<longleftrightarrow>
     (\<forall>sk m. ed_verify E (ed_public E sk) m (ed_sign E sk m)) \<and>
     (\<forall>sk m. length (ed_sign E sk m) = 64) \<and>
     (\<forall>b. b64_decode E (b64_encode E b) = Some b)"

lemma crypto_okD:
  assumes "crypto_ok E"
  shows "ed_verify E (ed_public E sk) m (ed_sign E sk m)"
    and "length (ed_sign E sk m) = 64"
    and "b64_decode E (b64_encode E b) = Some b"
  using assms by (auto simp: crypto_ok_def)

section \<open>Time\<close>

text \<open>
  An \<open>OffsetDateTime\<close> is its distance from the epoch in nanoseconds;
  \<open>unix_timestamp\<close> rounds down to seconds.
\<close>

type_synonym time = int

definition nanos_per_second :: int where
  "nanos_per_second = 1000000000"

definition unix_timestamp :: "time \<Rightarrow> int" where
  "unix_timestamp t = t div nanos_per_second"

definition of_seconds :: "int \<Rightarrow> time" where
  "of_seconds s = s * nanos_per_second"

definition UNIX_EPOCH :: time where
  "UNIX_EPOCH = 0"

definition from_unix_timestamp :: "extern \<Rightarrow> int \<Rightarrow> time option" where
  "from_unix_timestamp E s = (if timestamp_in_range E s then Some (of_seconds s) else None)"

lemma unix_timestamp_of_seconds [simp]: "unix_timestamp (of_seconds s) = s"
  by (simp add: unix_timestamp_def of_seconds_def nanos_per_second_def)

lemma unix_timestamp_add: "unix_timestamp (t + of_seconds s) = unix_timestamp t + s"
  by (simp add: unix_timestamp_def of_seconds_def nanos_per_second_def)

lemma unix_timestamp_mono: "t \<le> u \<Longrightarrow> unix_timestamp t \<le> unix_timestamp u"
  by (simp add: unix_timestamp_def nanos_per_second_def zdiv_mono1)

section \<open>A concrete instance for the witnesses\<close>

text \<open>
  A "signature" that is the first 64 characters of key and message, padded; a hash that is 64
  hex digits naming the length of its input. Neither is cryptography: the record only has to
  satisfy \<open>crypto_ok\<close>.
\<close>

definition demo_sign :: "string \<Rightarrow> string \<Rightarrow> string" where
  "demo_sign sk m = take 64 (sk @ m @ replicate 64 (CHR ''.''))"

definition demo_hash :: "string \<Rightarrow> string" where
  "demo_hash m = take 64 (dec_nat (length m) @ replicate 64 (CHR ''a''))"

definition demo_extern :: extern where
  "demo_extern =
     \<lparr>sha256 = demo_hash, hex_encode = (\<lambda>b. b), ed_public = (\<lambda>sk. sk), ed_sign = demo_sign,
      ed_verify = (\<lambda>vk m s. s = demo_sign vk m), b64_encode = (\<lambda>b. b), b64_decode = Some,
      timestamp_in_range = (\<lambda>s. - 377705116800 \<le> s \<and> s \<le> 253402300799),
      rfc3339_format = dec_int, rfc3339_parse = (\<lambda>s. Some (int (undec_digits s)))\<rparr>"

lemma crypto_ok_demo: "crypto_ok demo_extern"
  by (auto simp: crypto_ok_def demo_extern_def demo_sign_def min_def)

end
