(* ===== verification/Json.thy ===== *)
theory Json
  imports Extern
begin

text \<open>
  JSON values (\<open>serde_json::Value\<close> with the \<open>preserve_order\<close> feature: an object is an
  insertion-ordered list of members with distinct keys), tool calls, and the canonical encoding
  of \<open>crates/gommage-core/src/toolcall.rs\<close> that the input hash is taken over.
\<close>

section \<open>Values\<close>

text \<open>
  A number prints as \<open>Number::to_string\<close>: decimal for an integer; the text of a float is kept
  as the library prints it.
\<close>

datatype jnumber = JInt int | JFloat string

datatype json =
    JNull
  | JBool bool
  | JNumber jnumber
  | JString string
  | JArray "json list"
  | JObject "(string \<times> json) list"

fun number_to_string :: "jnumber \<Rightarrow> string" where
  "number_to_string (JInt i) = dec_int i"
| "number_to_string (JFloat s) = s"

fun json_get :: "json \<Rightarrow> string \<Rightarrow> json option" where
  "json_get (JObject ms) k = map_of ms k"
| "json_get _ k = None"

fun as_str :: "json \<Rightarrow> string option" where
  "as_str (JString s) = Some s"
| "as_str _ = None"

fun as_bool :: "json \<Rightarrow> bool option" where
  "as_bool (JBool b) = Some b"
| "as_bool _ = None"

fun as_array :: "json \<Rightarrow> json list option" where
  "as_array (JArray a) = Some a"
| "as_array _ = None"

text \<open>\<open>Map::insert\<close>: an existing key keeps its place, a new one goes to the end.\<close>

fun member_insert :: "string \<Rightarrow> 'v \<Rightarrow> (string \<times> 'v) list \<Rightarrow> (string \<times> 'v) list" where
  "member_insert k v [] = [(k, v)]"
| "member_insert k v ((k', v') # ms) =
     (if k' = k then (k, v) # ms else (k', v') # member_insert k v ms)"

lemma map_of_member_insert: "map_of (member_insert k v ms) = (map_of ms)(k \<mapsto> v)"
  by (induction k v ms rule: member_insert.induct) (auto simp: fun_eq_iff)

lemma keys_member_insert: "fst ` set (member_insert k v ms) = insert k (fst ` set ms)"
  by (induction k v ms rule: member_insert.induct) auto

lemma distinct_member_insert:
  "distinct (map fst ms) \<Longrightarrow> distinct (map fst (member_insert k v ms))"
  by (induction k v ms rule: member_insert.induct) (auto simp: keys_member_insert)

section \<open>The canonical encoding\<close>

definition hex_digit :: "nat \<Rightarrow> char" where
  "hex_digit n = (if n < 10 then char_of (48 + n) else char_of (87 + n))"

definition escape_char :: "char \<Rightarrow> string" where
  "escape_char c =
     (if c = CHR 0x22 then [CHR 0x5C, CHR 0x22]
      else if c = CHR 0x5C then [CHR 0x5C, CHR 0x5C]
      else if c = CHR 0x0A then [CHR 0x5C, CHR ''n'']
      else if c = CHR 0x0D then [CHR 0x5C, CHR ''r'']
      else if c = CHR 0x09 then [CHR 0x5C, CHR ''t'']
      else if (of_char c :: nat) < 32
        then [CHR 0x5C, CHR ''u'', CHR ''0'', CHR ''0'',
              hex_digit (of_char c div 16), hex_digit (of_char c mod 16)]
      else [c])"

definition write_string :: "string \<Rightarrow> string" where
  "write_string s = CHR 0x22 # concat (map escape_char s) @ [CHR 0x22]"

fun write_value :: "json \<Rightarrow> string" where
  "write_value JNull = ''null''"
| "write_value (JBool b) = (if b then ''true'' else ''false'')"
| "write_value (JNumber n) = number_to_string n"
| "write_value (JString s) = write_string s"
| "write_value (JArray a) = ''['' @ join '','' (map write_value a) @ '']''"
| "write_value (JObject ms) =
     ''{'' @ join '',''
       (map (\<lambda>(k, r). write_string k @ '':'' @ r)
          (sort_key fst (map (\<lambda>(k, v). (k, write_value v)) ms))) @ ''}''"

definition canonical_to_string :: "json \<Rightarrow> string" where
  "canonical_to_string v = write_value v"

section \<open>Tool calls\<close>

record toolcall =
  tool :: string
  input :: json

definition input_hash :: "extern \<Rightarrow> toolcall \<Rightarrow> string" where
  "input_hash E call =
     ''sha256:'' @ sha256_hex E
       (canonical_to_string (JObject [(''tool'', JString (tool call)), (''input'', input call)]))"

section \<open>Canonical forms\<close>

text \<open>\<open>canon\<close> sorts the members of every object by key; \<open>json_wf\<close> says that keys are
  distinct and that a float prints as a JSON number that is not an integer.\<close>

fun canon :: "json \<Rightarrow> json" where
  "canon (JArray a) = JArray (map canon a)"
| "canon (JObject ms) = JObject (sort_key fst (map (\<lambda>(k, v). (k, canon v)) ms))"
| "canon v = v"

definition number_start :: "char \<Rightarrow> bool" where
  "number_start c \<longleftrightarrow> is_ascii_digit c \<or> c = CHR ''-''"

definition number_char :: "char \<Rightarrow> bool" where
  "number_char c \<longleftrightarrow> number_start c \<or> c \<in> {CHR ''.'', CHR ''e'', CHR ''E'', CHR ''+''}"

fun number_wf :: "jnumber \<Rightarrow> bool" where
  "number_wf (JInt i) = True"
| "number_wf (JFloat s) =
     (s \<noteq> [] \<and> number_start (hd s) \<and> (\<forall>c \<in> set s. number_char c) \<and>
      (\<exists>c \<in> set s. \<not> number_start c))"

fun json_wf :: "json \<Rightarrow> bool" where
  "json_wf (JNumber n) = number_wf n"
| "json_wf (JArray a) = (\<forall>v \<in> set a. json_wf v)"
| "json_wf (JObject ms) = (distinct (map fst ms) \<and> (\<forall>m \<in> set ms. json_wf (snd m)))"
| "json_wf v = True"

text \<open>The encoding without the sorting: what is left to write once keys are in order.\<close>

fun write_plain :: "json \<Rightarrow> string" where
  "write_plain (JArray a) = ''['' @ join '','' (map write_plain a) @ '']''"
| "write_plain (JObject ms) =
     ''{'' @ join '','' (map (\<lambda>(k, v). write_string k @ '':'' @ write_plain v) ms) @ ''}''"
| "write_plain v = write_value v"

lemma sort_key_map_snd:
  "sort_key fst (map (\<lambda>(k, v). (k, f v)) ms) = map (\<lambda>(k, v). (k, f v)) (sort_key fst ms)"
proof (induction ms)
  case Nil
  then show ?case by simp
next
  case (Cons m ms)
  have "insort_key fst (a, f b) (map (\<lambda>(k, v). (k, f v)) xs) =
        map (\<lambda>(k, v). (k, f v)) (insort_key fst (a, b) xs)" for a b xs
    by (induction xs) auto
  with Cons show ?case by (cases m) simp
qed

lemma write_value_canon: "write_value v = write_plain (canon v)"
proof (induction v)
  case (JArray a)
  then show ?case by (simp cong: map_cong)
next
  case (JObject ms)
  have "map (\<lambda>(k, v). (k, write_value v)) ms = map (\<lambda>(k, v). (k, write_plain (canon v))) ms"
    using JObject by (force intro: map_cong)
  then have "sort_key fst (map (\<lambda>(k, v). (k, write_value v)) ms) =
      map (\<lambda>(k, v). (k, write_plain (canon v))) (sort_key fst ms)"
    by (simp add: sort_key_map_snd)
  then show ?case
    by (simp add: sort_key_map_snd [of canon] comp_def case_prod_beta)
qed simp_all

end
