(* ===== verification/Json_Canonical.thy ===== *)
theory Json_Canonical
  imports Json
begin

text \<open>
  The canonical encoding identifies a JSON value up to the order of object members: two
  well-formed values are written alike exactly when their canonical forms are equal. Reading
  from the left, every piece of the text says where it ends (a string at its closing quote, a
  number before a separator), so equal texts can be split in only one way.
\<close>

section \<open>Strings are delimited\<close>

lemma escape_char_split:
  "(\<exists>x. escape_char c = [CHR 0x5C, x] \<and> x \<in> {CHR 0x22, CHR 0x5C, CHR ''n'', CHR ''r'', CHR ''t''}) \<or>
   (\<exists>h l. escape_char c = [CHR 0x5C, CHR ''u'', CHR ''0'', CHR ''0'', h, l]) \<or>
   (escape_char c = [c] \<and> c \<noteq> CHR 0x22 \<and> c \<noteq> CHR 0x5C)"
  by (simp add: escape_char_def)

lemma hex_digit_inject: "m < 16 \<Longrightarrow> n < 16 \<Longrightarrow> hex_digit m = hex_digit n \<Longrightarrow> m = n"
  by (auto simp: hex_digit_def take_bit_eq_mod split: if_splits
      dest!: arg_cong [where f = "of_char :: char \<Rightarrow> nat"])

lemma control_escape_inject:
  assumes "(of_char c :: nat) < 32" and "(of_char d :: nat) < 32"
    and "hex_digit (of_char c div 16) = hex_digit (of_char d div 16)"
    and "hex_digit (of_char c mod 16) = hex_digit (of_char d mod 16)"
  shows "c = d"
proof -
  have "(of_char c :: nat) div 16 = of_char d div 16"
    using assms by (intro hex_digit_inject) auto
  moreover have "(of_char c :: nat) mod 16 = of_char d mod 16"
    using assms by (intro hex_digit_inject) auto
  ultimately have "(of_char c :: nat) = of_char d"
    by (metis div_mult_mod_eq)
  then show ?thesis by simp
qed

lemma escape_char_inject: "escape_char c @ r = escape_char d @ r' \<Longrightarrow> c = d \<and> r = r'"
  unfolding escape_char_def
  by (auto split: if_splits dest: control_escape_inject)

lemma escape_char_no_quote: "escape_char c @ r \<noteq> CHR 0x22 # r'"
  by (auto simp: escape_char_def)

lemma write_string_inject:
  "write_string s @ r = write_string s' @ r' \<Longrightarrow> s = s' \<and> r = r'"
proof -
  have "concat (map escape_char s) @ CHR 0x22 # r = concat (map escape_char s') @ CHR 0x22 # r'
      \<Longrightarrow> s = s' \<and> r = r'"
  proof (induction s arbitrary: s')
    case Nil
    then show ?case
      by (cases s') (use escape_char_no_quote [symmetric] in auto)
  next
    case (Cons c s)
    show ?case
    proof (cases s')
      case Nil
      with Cons.prems show ?thesis by (simp add: escape_char_no_quote)
    next
      case (Cons d t)
      with Cons.prems have "escape_char c @ concat (map escape_char s) @ CHR 0x22 # r =
          escape_char d @ concat (map escape_char t) @ CHR 0x22 # r'" by simp
      from escape_char_inject [OF this] Cons Cons.IH [of t] show ?thesis by simp
    qed
  qed
  then show "write_string s @ r = write_string s' @ r' \<Longrightarrow> s = s' \<and> r = r'"
    by (simp add: write_string_def)
qed

section \<open>Numbers are delimited\<close>

text \<open>What may follow a value inside a text: nothing, a separator or a closing bracket.\<close>

definition stops :: "string \<Rightarrow> bool" where
  "stops r \<longleftrightarrow> r = [] \<or> hd r \<in> {CHR '','', CHR '']'', CHR ''}''}"

lemma stops_simps [simp]:
  "stops []" "stops (CHR '','' # r)" "stops (CHR '']'' # r)" "stops (CHR ''}'' # r)"
  by (simp_all add: stops_def)

lemma not_number_char_stop [simp]:
  "\<not> number_char (CHR '','')" "\<not> number_char (CHR '']'')" "\<not> number_char (CHR ''}'')"
  by (simp_all add: number_char_def number_start_def char_class_defs)

lemma number_chars:
  "number_wf n \<Longrightarrow> number_to_string n \<noteq> [] \<and> number_start (hd (number_to_string n)) \<and>
     (\<forall>c \<in> set (number_to_string n). number_char c)"
proof (cases n)
  case (JInt i)
  have "dec_int i \<noteq> []" by (simp add: dec_int_def)
  moreover have "number_start c" if "c \<in> set (dec_int i)" for c
    using dec_int_chars [OF that] by (auto simp: number_start_def)
  ultimately show ?thesis using JInt by (auto simp: number_char_def)
qed simp

lemma number_to_string_inject:
  assumes "number_wf m" and "number_wf n" and "number_to_string m = number_to_string n"
  shows "m = n"
proof -
  have "number_start c" if "c \<in> set (dec_int i)" for c i
    using dec_int_chars [OF that] by (auto simp: number_start_def)
  with assms show ?thesis by (cases m; cases n) auto
qed

lemma takeWhile_number:
  assumes "\<forall>c \<in> set s. number_char c" and "stops r"
  shows "takeWhile number_char (s @ r) = s"
proof -
  have "takeWhile number_char r = []"
    using assms(2) by (cases r) (auto simp: stops_def)
  with assms(1) show ?thesis by (simp add: takeWhile_append2)
qed

lemma number_split:
  assumes "number_wf m" "number_wf n" "stops r" "stops r'"
    and "number_to_string m @ r = number_to_string n @ r'"
  shows "m = n \<and> r = r'"
proof -
  from assms number_chars have "number_to_string m = number_to_string n"
    by (metis takeWhile_number)
  with assms number_to_string_inject show ?thesis by auto
qed

section \<open>Values are delimited\<close>

text \<open>The first character tells the constructor.\<close>

fun starts_ok :: "json \<Rightarrow> char \<Rightarrow> bool" where
  "starts_ok JNull c \<longleftrightarrow> c = CHR ''n''"
| "starts_ok (JBool b) c \<longleftrightarrow> c = (if b then CHR ''t'' else CHR ''f'')"
| "starts_ok (JNumber n) c \<longleftrightarrow> number_start c"
| "starts_ok (JString s) c \<longleftrightarrow> c = CHR 0x22"
| "starts_ok (JArray a) c \<longleftrightarrow> c = CHR ''[''"
| "starts_ok (JObject ms) c \<longleftrightarrow> c = CHR ''{''"

lemma write_plain_start:
  "json_wf v \<Longrightarrow> \<exists>c t. write_plain v = c # t \<and> starts_ok v c"
  using number_chars
  by (cases v) (auto simp: write_string_def neq_Nil_conv, metis list.sel(1) neq_Nil_conv)

lemma number_start_iff:
  "number_start c \<Longrightarrow> c \<notin> {CHR ''n'', CHR ''t'', CHR ''f'', CHR 0x22, CHR ''['', CHR ''{'', CHR '']'', CHR ''}''}"
  by (auto simp: number_start_def char_class_defs)

lemma starts_ok_constructor:
  "starts_ok v c \<Longrightarrow> starts_ok w c \<Longrightarrow>
     (v = JNull \<and> w = JNull) \<or> (\<exists>b. v = JBool b \<and> w = JBool b) \<or>
     (\<exists>m n. v = JNumber m \<and> w = JNumber n) \<or> (\<exists>s t. v = JString s \<and> w = JString t) \<or>
     (\<exists>a b. v = JArray a \<and> w = JArray b) \<or> (\<exists>a b. v = JObject a \<and> w = JObject b)"
  by (cases v; cases w) (auto dest: number_start_iff split: if_splits)

definition delimited :: "json \<Rightarrow> bool" where
  "delimited v \<longleftrightarrow>
     (\<forall>w r r'. json_wf w \<longrightarrow> stops r \<longrightarrow> stops r' \<longrightarrow>
        write_plain v @ r = write_plain w @ r' \<longrightarrow> v = w \<and> r = r')"

lemma delimitedD:
  "delimited v \<Longrightarrow> json_wf w \<Longrightarrow> stops r \<Longrightarrow> stops r' \<Longrightarrow>
     write_plain v @ r = write_plain w @ r' \<Longrightarrow> v = w \<and> r = r'"
  unfolding delimited_def by blast

text \<open>A separated list of delimited pieces, closed by a bracket, is delimited.\<close>

lemma join_split:
  assumes piece: "\<And>x y r r'. x \<in> set xs \<Longrightarrow> y \<in> set ys \<Longrightarrow> stops r \<Longrightarrow> stops r' \<Longrightarrow>
        f x @ r = f y @ r' \<Longrightarrow> x = y \<and> r = r'"
    and start: "\<And>z. z \<in> set xs \<union> set ys \<Longrightarrow> \<exists>c t. f z = c # t \<and> c \<noteq> q"
    and q: "q \<in> {CHR '']'', CHR ''}''}"
    and eq: "join '','' (map f xs) @ q # r = join '','' (map f ys) @ q # r'"
  shows "xs = ys \<and> r = r'"
  using piece start eq
proof (induction xs arbitrary: ys)
  case Nil
  then show ?case by (cases ys) (fastforce simp: join_Cons)+
next
  case (Cons x xs)
  show ?case
  proof (cases ys)
    case Nil
    with Cons.prems(2) [of x] Cons.prems(3) show ?thesis by (auto simp: join_Cons)
  next
    case (Cons y ys')
    define u where "u = (if xs = [] then [] else CHR '','' # join '','' (map f xs)) @ q # r"
    define u' where "u' = (if ys' = [] then [] else CHR '','' # join '','' (map f ys')) @ q # r'"
    have stop: "stops u" "stops u'" using q by (auto simp: u_def u'_def)
    have "f x @ u = f y @ u'"
      using Cons.prems(3) Cons
      by (cases "xs = []"; cases "ys' = []") (simp_all add: join_Cons u_def u'_def)
    with Cons.prems(1) Cons stop have "x = y" and "u = u'" by (metis list.set_intros(1))+
    from \<open>u = u'\<close> q have "join '','' (map f xs) @ q # r = join '','' (map f ys') @ q # r'"
      by (auto simp: u_def u'_def split: if_splits)
    then have "xs = ys' \<and> r = r'"
      using Cons.prems(1,2) Cons by (intro Cons.IH) auto
    with \<open>x = y\<close> Cons show ?thesis by simp
  qed
qed

lemma write_plain_delimited: "json_wf v \<Longrightarrow> delimited v"
proof (induction v)
  case (JArray a)
  have "JArray a = w \<and> r = r'"
    if w: "json_wf w" and eq: "write_plain (JArray a) @ r = write_plain w @ r'" for w r r'
  proof -
    obtain c t where "write_plain w = c # t" "starts_ok w c" using write_plain_start [OF w] by auto
    with eq obtain b where b: "w = JArray b" using starts_ok_constructor [of "JArray a" c w] by auto
    from eq b have "join '','' (map write_plain a) @ CHR '']'' # r = join '','' (map write_plain b) @ CHR '']'' # r'"
      by simp
    then have "a = b \<and> r = r'"
    proof (rule join_split [rotated 3])
      show "x = y \<and> u = u'" if "x \<in> set a" "y \<in> set b" "stops u" "stops u'"
        "write_plain x @ u = write_plain y @ u'" for x y u u'
        using that JArray w b by (intro delimitedD) auto
      show "\<exists>c t. write_plain z = c # t \<and> c \<noteq> CHR '']''" if "z \<in> set a \<union> set b" for z
      proof -
        from that JArray.prems w b have "json_wf z" by auto
        from write_plain_start [OF this] show ?thesis
          by (cases z) (auto dest: number_start_iff)
      qed
    qed simp
    with b show ?thesis by simp
  qed
  then show ?case unfolding delimited_def by blast
next
  case (JObject ms)
  let ?f = "\<lambda>(k, v). write_string k @ '':'' @ write_plain v"
  have "JObject ms = w \<and> r = r'"
    if w: "json_wf w" and eq: "write_plain (JObject ms) @ r = write_plain w @ r'" for w r r'
  proof -
    obtain c t where "write_plain w = c # t" "starts_ok w c" using write_plain_start [OF w] by auto
    with eq obtain ns where b: "w = JObject ns" using starts_ok_constructor [of "JObject ms" c w] by auto
    from eq b have "join '','' (map ?f ms) @ CHR ''}'' # r = join '','' (map ?f ns) @ CHR ''}'' # r'"
      by simp
    then have "ms = ns \<and> r = r'"
    proof (rule join_split [rotated 3])
      show "x = y \<and> u = u'" if xy: "x \<in> set ms" "y \<in> set ns" and s: "stops u" "stops u'"
        and e: "?f x @ u = ?f y @ u'" for x y u u'
      proof -
        obtain k v k' v' where kv: "x = (k, v)" "y = (k', v')" by (cases x; cases y)
        with e have "write_string k @ CHR '':'' # write_plain v @ u =
            write_string k' @ CHR '':'' # write_plain v' @ u'" by simp
        from write_string_inject [OF this] have k: "k = k'" and v: "write_plain v @ u = write_plain v' @ u'"
          by auto
        have "delimited v" using JObject kv xy(1) by force
        moreover have "json_wf v'" using w b kv xy(2) by force
        ultimately have "v = v' \<and> u = u'" using v s by (intro delimitedD) auto
        with k kv show ?thesis by simp
      qed
      show "\<exists>c t. ?f z = c # t \<and> c \<noteq> CHR ''}''" if "z \<in> set ms \<union> set ns" for z
        by (cases z) (simp add: write_string_def)
    qed simp
    with b show ?thesis by simp
  qed
  then show ?case unfolding delimited_def by blast
next
  case (JNumber n)
  have "JNumber n = w \<and> r = r'"
    if w: "json_wf w" and s: "stops r" "stops r'"
      and eq: "write_plain (JNumber n) @ r = write_plain w @ r'" for w r r'
  proof -
    obtain c t where ct: "write_plain w = c # t" "starts_ok w c" using write_plain_start [OF w] by auto
    obtain d u where "write_plain (JNumber n) = d # u" "starts_ok (JNumber n) d"
      using write_plain_start [OF JNumber.prems] by auto
    with eq ct obtain m where m: "w = JNumber m" using starts_ok_constructor [of "JNumber n" c w] by auto
    with eq s w JNumber.prems number_split [of n m r r'] show ?thesis by simp
  qed
  then show ?case unfolding delimited_def by blast
next
  case (JString s)
  have "JString s = w \<and> r = r'"
    if w: "json_wf w" and eq: "write_plain (JString s) @ r = write_plain w @ r'" for w r r'
  proof -
    obtain c t where "write_plain w = c # t" "starts_ok w c" using write_plain_start [OF w] by auto
    with eq obtain s' where "w = JString s'"
      using starts_ok_constructor [of "JString s" c w] by (auto simp: write_string_def)
    with eq write_string_inject [of s r s' r'] show ?thesis by simp
  qed
  then show ?case unfolding delimited_def by blast
next
  case JNull
  have "JNull = w \<and> r = r'"
    if w: "json_wf w" and eq: "write_plain JNull @ r = write_plain w @ r'" for w r r'
  proof -
    obtain c t where "write_plain w = c # t" "starts_ok w c" using write_plain_start [OF w] by auto
    with eq have "w = JNull" using starts_ok_constructor [of JNull c w] by auto
    with eq show ?thesis by simp
  qed
  then show ?case unfolding delimited_def by blast
next
  case (JBool b)
  have "JBool b = w \<and> r = r'"
    if w: "json_wf w" and eq: "write_plain (JBool b) @ r = write_plain w @ r'" for w r r'
  proof -
    obtain c t where "write_plain w = c # t" "starts_ok w c" using write_plain_start [OF w] by auto
    with eq have "w = JBool b" using starts_ok_constructor [of "JBool b" c w] by (auto split: if_splits)
    with eq show ?thesis by simp
  qed
  then show ?case unfolding delimited_def by blast
qed

lemma json_wf_canon: "json_wf v \<Longrightarrow> json_wf (canon v)"
proof (induction v)
  case (JObject ms)
  have "distinct (map fst (sort_key fst (map (\<lambda>(k, v). (k, canon v)) ms)))"
    using JObject.prems by (simp add: sort_key_map_snd comp_def case_prod_beta distinct_map)
  with JObject show ?case by fastforce
qed auto

lemma write_plain_inject:
  "json_wf v \<Longrightarrow> json_wf w \<Longrightarrow> write_plain v = write_plain w \<Longrightarrow> v = w"
  using delimitedD [OF write_plain_delimited, of v w "[]" "[]"] by simp

lemma write_value_eq_iff:
  "json_wf v \<Longrightarrow> json_wf w \<Longrightarrow> write_value v = write_value w \<longleftrightarrow> canon v = canon w"
  unfolding write_value_canon by (metis json_wf_canon write_plain_inject)

section \<open>Properties\<close>

text \<open>The canonical encoding identifies a JSON value up to the order of object members:
  for well-formed values, equal texts mean equal canonical forms, and values that differ only in
  member order are written alike.\<close>

theorem canonical_text_identifies:
  assumes "json_wf v" and "json_wf w"
  shows "canonical_to_string v = canonical_to_string w \<longleftrightarrow> canon v = canon w"
  unfolding canonical_to_string_def using assms by (rule write_value_eq_iff)

theorem canonical_text_identifies_witness:
  "canonical_to_string (JObject [(''b'', JNumber (JInt 1)), (''a'', JBool True)]) =
   canonical_to_string (JObject [(''a'', JBool True), (''b'', JNumber (JInt 1))])"
  using canonical_text_identifies
    [of "JObject [(''b'', JNumber (JInt 1)), (''a'', JBool True)]"
        "JObject [(''a'', JBool True), (''b'', JNumber (JInt 1))]"]
  by simp

text \<open>C40. The input hash binds the tool name and the input: unless SHA-256 collides on the two
  canonical texts, two calls with well-formed inputs have the same input hash exactly when they name
  the same tool and their inputs differ at most in member order.\<close>

theorem input_hash_binds_call:
  assumes "json_wf (input c)" and "json_wf (input d)"
    and no_collision: "sha256_hex E (canonical_to_string (JObject [(''tool'', JString (tool c)), (''input'', input c)])) =
      sha256_hex E (canonical_to_string (JObject [(''tool'', JString (tool d)), (''input'', input d)])) \<Longrightarrow>
      canonical_to_string (JObject [(''tool'', JString (tool c)), (''input'', input c)]) =
      canonical_to_string (JObject [(''tool'', JString (tool d)), (''input'', input d)])"
  shows "input_hash E c = input_hash E d \<longleftrightarrow> tool c = tool d \<and> canon (input c) = canon (input d)"
proof -
  let ?v = "\<lambda>c. JObject [(''tool'', JString (tool c)), (''input'', input c)]"
  have "input_hash E c = input_hash E d \<longleftrightarrow> write_value (?v c) = write_value (?v d)"
    using no_collision
    by (auto simp: input_hash_def canonical_to_string_def simp del: write_value.simps)
  also have "\<dots> \<longleftrightarrow> canon (?v c) = canon (?v d)"
    using assms(1,2) by (intro write_value_eq_iff) simp_all
  also have "\<dots> \<longleftrightarrow> tool c = tool d \<and> canon (input c) = canon (input d)"
    by auto
  finally show ?thesis .
qed

theorem input_hash_binds_call_witness:
  "input_hash (demo_extern\<lparr>sha256 := \<lambda>b. b\<rparr>)
     \<lparr>tool = ''Bash'', input = JObject [(''command'', JString ''ls''), (''timeout'', JNumber (JInt 5))]\<rparr> =
   input_hash (demo_extern\<lparr>sha256 := \<lambda>b. b\<rparr>)
     \<lparr>tool = ''Bash'', input = JObject [(''timeout'', JNumber (JInt 5)), (''command'', JString ''ls'')]\<rparr>"
  using input_hash_binds_call
    [of "\<lparr>tool = ''Bash'', input = JObject [(''command'', JString ''ls''), (''timeout'', JNumber (JInt 5))]\<rparr>"
        "\<lparr>tool = ''Bash'', input = JObject [(''timeout'', JNumber (JInt 5)), (''command'', JString ''ls'')]\<rparr>"
        "demo_extern\<lparr>sha256 := \<lambda>b. b\<rparr>"]
  by (simp add: sha256_hex_def demo_extern_def)

end
