(* ===== verification/Btree_Map.thy ===== *)
theory Btree_Map
  imports Prelude
begin

text \<open>
  The standard library's \<open>BTreeMap\<close>: an interface (a locale), and the association list
  sorted by key on which the model's clients run. The approval inbox replays its log into
  such a map; the iteration order of \<open>values()\<close> is the order of the keys.
\<close>

section \<open>The interface\<close>

locale ordered_map =
  fixes empty :: "'m"
    and get :: "'m \<Rightarrow> 'k::linorder \<Rightarrow> 'v option"
    and insert :: "'k \<Rightarrow> 'v \<Rightarrow> 'm \<Rightarrow> 'm"
    and items :: "'m \<Rightarrow> ('k \<times> 'v) list"
    and wf :: "'m \<Rightarrow> bool"
  assumes wf_empty: "wf empty"
    and wf_insert: "wf m \<Longrightarrow> wf (insert k v m)"
    and get_empty: "get empty = (\<lambda>_. None)"
    and get_insert: "wf m \<Longrightarrow> get (insert k v m) = (get m)(k \<mapsto> v)"
    and map_of_items: "wf m \<Longrightarrow> map_of (items m) = get m"
    and sorted_items: "wf m \<Longrightarrow> sorted_wrt (<) (map fst (items m))"
begin

lemma distinct_keys: "wf m \<Longrightarrow> distinct (map fst (items m))"
  using sorted_items strict_sorted_iff by blast

lemma in_items_iff: "wf m \<Longrightarrow> (k, v) \<in> set (items m) \<longleftrightarrow> get m k = Some v"
  by (metis distinct_keys map_of_items map_of_eq_Some_iff)

lemma value_iff: "wf m \<Longrightarrow> v \<in> set (map snd (items m)) \<longleftrightarrow> (\<exists>k. get m k = Some v)"
  by (force simp: in_items_iff [symmetric])

lemma find_value_None:
  "wf m \<Longrightarrow> find P (map snd (items m)) = None \<longleftrightarrow> (\<forall>k v. get m k = Some v \<longrightarrow> \<not> P v)"
  by (metis find_None_iff value_iff)

lemma find_value_Some:
  assumes "wf m" and "find P (map snd (items m)) = Some v"
  shows "P v \<and> (\<exists>k. get m k = Some v)"
proof -
  from assms(2) have "v \<in> set (map snd (items m))" and "P v"
    by (metis find_Some_iff nth_mem)+
  with assms(1) show ?thesis by (simp add: value_iff del: set_map)
qed

lemma get_insert_same: "wf m \<Longrightarrow> get (insert k v m) k = Some v"
  by (simp add: get_insert)

lemma get_insert_other: "wf m \<Longrightarrow> k' \<noteq> k \<Longrightarrow> get (insert k v m) k' = get m k'"
  by (simp add: get_insert)

end

section \<open>The sorted association list\<close>

type_synonym ('k, 'v) btree = "('k \<times> 'v) list"

definition bt_empty :: "('k, 'v) btree" where
  "bt_empty = []"

definition bt_get :: "('k, 'v) btree \<Rightarrow> 'k \<Rightarrow> 'v option" where
  "bt_get m k = map_of m k"

fun bt_insert :: "'k::linorder \<Rightarrow> 'v \<Rightarrow> ('k, 'v) btree \<Rightarrow> ('k, 'v) btree" where
  "bt_insert k v [] = [(k, v)]"
| "bt_insert k v ((k', v') # m) =
     (if k < k' then (k, v) # (k', v') # m
      else if k = k' then (k, v) # m
      else (k', v') # bt_insert k v m)"

definition bt_values :: "('k, 'v) btree \<Rightarrow> 'v list" where
  "bt_values m = map snd m"

definition bt_wf :: "('k::linorder, 'v) btree \<Rightarrow> bool" where
  "bt_wf m \<longleftrightarrow> sorted_wrt (<) (map fst m)"

text \<open>\<open>entry(k).or_insert(v)\<close> and an update through \<open>get_mut(k)\<close>.\<close>

definition bt_or_insert :: "'k::linorder \<Rightarrow> 'v \<Rightarrow> ('k, 'v) btree \<Rightarrow> ('k, 'v) btree" where
  "bt_or_insert k v m = (case bt_get m k of None \<Rightarrow> bt_insert k v m | Some _ \<Rightarrow> m)"

definition bt_modify :: "'k::linorder \<Rightarrow> ('v \<Rightarrow> 'v) \<Rightarrow> ('k, 'v) btree \<Rightarrow> ('k, 'v) btree" where
  "bt_modify k f m = (case bt_get m k of None \<Rightarrow> m | Some v \<Rightarrow> bt_insert k (f v) m)"

lemma set_fst_bt_insert: "fst ` set (bt_insert k v m) = {k} \<union> fst ` set m"
  by (induction k v m rule: bt_insert.induct) auto

lemma bt_wf_insert: "bt_wf m \<Longrightarrow> bt_wf (bt_insert k v m)"
proof (induction k v m rule: bt_insert.induct)
  case (1 k v)
  then show ?case by (simp add: bt_wf_def)
next
  case (2 k v k' v' m)
  then show ?case
    using set_fst_bt_insert [of k v m] by (fastforce simp: bt_wf_def)
qed

lemma bt_get_insert: "bt_wf m \<Longrightarrow> bt_get (bt_insert k v m) = (bt_get m)(k \<mapsto> v)"
proof (induction k v m rule: bt_insert.induct)
  case (1 k v)
  then show ?case by (auto simp: bt_get_def)
next
  case (2 k v k' v' m)
  then show ?case by (auto simp: bt_get_def bt_wf_def fun_eq_iff)
qed

interpretation bt: ordered_map bt_empty bt_get bt_insert "\<lambda>m. m" bt_wf
  by unfold_locales
    (simp_all add: bt_wf_insert bt_get_insert bt_empty_def bt_get_def fun_eq_iff,
     simp_all add: bt_wf_def)

lemmas bt_laws = bt.wf_empty bt.wf_insert bt.get_insert

lemma bt_wf_or_insert: "bt_wf m \<Longrightarrow> bt_wf (bt_or_insert k v m)"
  by (auto simp: bt_or_insert_def bt_laws split: option.splits)

lemma bt_wf_modify: "bt_wf m \<Longrightarrow> bt_wf (bt_modify k f m)"
  by (auto simp: bt_modify_def bt_laws split: option.splits)

lemma bt_get_or_insert:
  "bt_wf m \<Longrightarrow> bt_get (bt_or_insert k v m) =
     (case bt_get m k of None \<Rightarrow> (bt_get m)(k \<mapsto> v) | Some _ \<Rightarrow> bt_get m)"
  by (auto simp: bt_or_insert_def bt_laws split: option.splits)

lemma bt_get_modify:
  "bt_wf m \<Longrightarrow> bt_get (bt_modify k f m) = (bt_get m)(k := map_option f (bt_get m k))"
  by (auto simp: bt_modify_def bt_laws fun_upd_idem split: option.splits)

end
