(* ===== verification/Heredoc.thy ===== *)
theory Heredoc
  imports Prelude
begin

text \<open>
  Heredoc masking (\<open>mask_heredoc_bodies\<close> in \<open>crates/gommage-core/src/shell.rs\<close>): the lines a
  heredoc feeds to the standard input of a known data consumer are blanked before the shell
  scanners look at the command. The scanners of the source walk an index through a slice; here
  they walk the rest of the line, so "index just past the word" is the remaining list.
\<close>

section \<open>Command heads\<close>

definition head_basename :: "string \<Rightarrow> string" where
  "head_basename token =
     (case rsplit_once (CHR ''/'') token of
        Some (_, base) \<Rightarrow> if base \<noteq> [] then base else token
      | None \<Rightarrow> token)"

datatype heredoc_mask = MaskAll | MaskLiteralOnly

record pending_heredoc =
  delimiter :: string
  literal :: bool
  maskable :: bool

definition HEREDOC_DATA_CONSUMERS :: "string list" where
  "HEREDOC_DATA_CONSUMERS =
     [''cat'', ''git'', ''gh'', ''glab'', ''tee'', ''pbcopy'', ''wc'', ''grep'', ''rg'', ''sort'',
      ''uniq'', ''head'', ''tail'', ''diff'', ''patch'', ''jq'', ''yq'', ''mail'', ''mailx'',
      ''sendmail'', ''msmtp'', ''psql'', ''mysql'', ''sqlite3'', ''curl'', ''http'', ''wc'',
      ''column'', ''fold'', ''fmt'', ''tr'', ''base64'', ''harbard'', ''nahuali'', ''urd'',
      ''gommage'']"

definition HEREDOC_EXECUTORS :: "string list" where
  "HEREDOC_EXECUTORS =
     [''bash'', ''sh'', ''zsh'', ''dash'', ''ksh'', ''csh'', ''tcsh'', ''fish'', ''ash'',
      ''busybox'', ''eval'', ''source'', ''exec'', ''xargs'', ''env'', ''ssh'', ''scp'', ''sftp'',
      ''docker'', ''podman'', ''kubectl'', ''nsenter'', ''chroot'', ''su'', ''screen'', ''tmux'',
      ''python'', ''python2'', ''python3'', ''perl'', ''ruby'', ''node'', ''deno'', ''bun'',
      ''php'', ''lua'', ''tclsh'', ''expect'', ''awk'', ''osascript'', ''make'', ''just'',
      ''ansible'', ''ansible-playbook'']"

section \<open>May this line's heredocs be masked?\<close>

definition mask_separator :: "char \<Rightarrow> bool" where
  "mask_separator ch \<longleftrightarrow> is_whitespace ch \<or> ch \<in> set ''|&;()'' \<or> ch \<in> {CHR 0x27, CHR 0x22, CHR ''<'', CHR ''>''}"

fun mask_tokens :: "char list \<Rightarrow> string \<Rightarrow> string list \<Rightarrow> string list" where
  "mask_tokens [] token tokens = (if token \<noteq> [] then tokens @ [token] else tokens)"
| "mask_tokens (ch # rest) token tokens =
     (if mask_separator ch
      then mask_tokens rest [] (if token \<noteq> [] then tokens @ [token] else tokens)
      else mask_tokens rest (token @ [ch]) tokens)"

definition line_allows_masking :: "char list \<Rightarrow> bool" where
  "line_allows_masking line =
     (let basenames = map (\<lambda>t. head_basename (trim_start_matches (CHR ''$'') t)) (mask_tokens line [] [])
      in if (\<exists>b \<in> set basenames. b \<in> set HEREDOC_EXECUTORS) then False
         else (\<exists>b \<in> set basenames. b \<in> set HEREDOC_DATA_CONSUMERS))"

section \<open>Line spans\<close>

fun char_lines_from :: "nat \<Rightarrow> nat \<Rightarrow> char list \<Rightarrow> (nat \<times> nat) list" where
  "char_lines_from start index [] = [(start, index)]"
| "char_lines_from start index (ch # rest) =
     (if ch = NL then (start, index) # char_lines_from (Suc index) (Suc index) rest
      else char_lines_from start (Suc index) rest)"

definition char_lines :: "char list \<Rightarrow> (nat \<times> nat) list" where
  "char_lines chars = char_lines_from 0 0 chars"

definition slice :: "nat \<times> nat \<Rightarrow> 'a list \<Rightarrow> 'a list" where
  "slice span xs = take (snd span - fst span) (drop (fst span) xs)"

section \<open>Delimiter words\<close>

text \<open>A bare word: quotes and backslashes are dropped and make the body literal.\<close>

fun bare_delimiter :: "char list \<Rightarrow> string \<times> bool \<times> char list" where
  "bare_delimiter [] = ([], False, [])"
| "bare_delimiter (ch # rest) =
     (if is_whitespace ch \<or> ch \<in> set ''<>|&;()'' then ([], False, ch # rest)
      else
        (let (d, lit, rest') = bare_delimiter rest
         in if ch = CHR 0x5C \<or> ch = CHR 0x27 \<or> ch = CHR 0x22 then (d, True, rest')
            else (ch # d, lit, rest')))"

definition quoted_delimiter :: "char \<Rightarrow> char list \<Rightarrow> string \<times> bool \<times> char list" where
  "quoted_delimiter q rest =
     (takeWhile (\<lambda>c. c \<noteq> q) rest, True, drop 1 (dropWhile (\<lambda>c. c \<noteq> q) rest))"

definition read_heredoc_delimiter :: "char list \<Rightarrow> (string \<times> bool \<times> char list) option" where
  "read_heredoc_delimiter line =
     (case line of
        [] \<Rightarrow> None
      | ch # rest \<Rightarrow>
          (let (d, lit, rest') =
             (if ch = CHR 0x27 \<or> ch = CHR 0x22 then quoted_delimiter ch rest
              else bare_delimiter (ch # rest))
           in if d = [] then None else Some (d, lit, rest')))"

lemma bare_delimiter_length: "length (snd (snd (bare_delimiter line))) \<le> length line"
  by (induction line) (auto split: prod.splits)

lemma quoted_delimiter_length: "length (snd (snd (quoted_delimiter q line))) \<le> length line"
  using length_dropWhile_le [of "\<lambda>c. c \<noteq> q" line] by (simp add: quoted_delimiter_def)

lemma read_heredoc_delimiter_length:
  assumes "read_heredoc_delimiter line = Some (d, lit, rest)"
  shows "length rest \<le> length line"
proof (cases line)
  case Nil
  with assms show ?thesis by (simp add: read_heredoc_delimiter_def)
next
  case (Cons ch tl)
  with assms show ?thesis
    using bare_delimiter_length [of line] quoted_delimiter_length [of ch tl]
    by (auto simp: read_heredoc_delimiter_def split: if_splits prod.splits)
qed

section \<open>Heredoc operators on a command line\<close>

text \<open>What follows \<open><<\<close>: an optional dash, then blanks, then the delimiter.\<close>

definition heredoc_cursor :: "char list \<Rightarrow> char list" where
  "heredoc_cursor rest =
     dropWhile (\<lambda>c. c = CHR '' '' \<or> c = CHR 0x09)
       (case rest of ch # rest' \<Rightarrow> if ch = CHR ''-'' then rest' else rest | [] \<Rightarrow> [])"

lemma heredoc_cursor_length: "length (heredoc_cursor rest) \<le> length rest"
proof -
  have "length (dropWhile P ys) \<le> n" if "length ys \<le> n" for P and ys :: "char list" and n
    using that length_dropWhile_le [of P ys] by simp
  then show ?thesis by (auto simp: heredoc_cursor_def split: list.splits)
qed

lemma heredoc_cursor_less: "length (heredoc_cursor (drop (Suc 0) rest)) < Suc (length rest)"
  using heredoc_cursor_length [of "drop (Suc 0) rest"] by simp

lemma heredoc_delimiter_less:
  "read_heredoc_delimiter (heredoc_cursor (drop (Suc 0) rest)) = Some (d, lit, rest') \<Longrightarrow>
     length rest' < Suc (length rest)"
  using heredoc_cursor_less [of rest] read_heredoc_delimiter_length by fastforce

function scan_line :: "bool \<Rightarrow> char list \<Rightarrow> bool \<Rightarrow> bool \<Rightarrow> pending_heredoc list \<Rightarrow>
    bool \<times> bool \<times> pending_heredoc list" where
  "scan_line m [] single double pending = (single, double, pending)"
| "scan_line m (ch # rest) single double pending =
     (if ch = CHR 0x27 \<and> \<not> double then scan_line m rest (\<not> single) double pending
      else if ch = CHR 0x22 \<and> \<not> single then scan_line m rest single (\<not> double) pending
      else if ch = CHR 0x5C \<and> \<not> single then scan_line m (drop 1 rest) single double pending
      else if ch = CHR ''<'' \<and> \<not> single \<and> \<not> double \<and> starts_with rest ''<'' then
        (if starts_with rest ''<<'' then scan_line m (drop 2 rest) single double pending
         else
           (let cursor = heredoc_cursor (drop 1 rest)
            in case read_heredoc_delimiter cursor of
                 Some (d, lit, rest') \<Rightarrow>
                   scan_line m rest' single double
                     (pending @ [\<lparr>delimiter = d, literal = lit, maskable = m\<rparr>])
               | None \<Rightarrow> scan_line m cursor single double pending))
      else scan_line m rest single double pending)"
  by pat_completeness auto
termination
  by (relation "measure (\<lambda>(m, line, s, d, p). length line)")
    (auto simp: heredoc_cursor_less dest: heredoc_delimiter_less)

declare scan_line.simps [simp del]

definition scan_line_for_heredocs ::
  "char list \<Rightarrow> bool \<Rightarrow> bool \<Rightarrow> pending_heredoc list \<Rightarrow> bool \<times> bool \<times> pending_heredoc list" where
  "scan_line_for_heredocs line single double pending =
     scan_line (line_allows_masking line) line single double pending"

section \<open>The masking pass\<close>

record mask_state =
  pending :: "pending_heredoc list"
  body :: "(nat \<times> nat) list"
  current :: "pending_heredoc option"
  to_blank :: "(nat \<times> nat) list"
  in_single :: bool
  in_double :: bool

definition pop_front :: "'a list \<Rightarrow> 'a option \<times> 'a list" where
  "pop_front q = (case q of [] \<Rightarrow> (None, []) | x # xs \<Rightarrow> (Some x, xs))"

definition mask_line :: "heredoc_mask \<Rightarrow> char list \<Rightarrow> nat \<times> nat \<Rightarrow> mask_state \<Rightarrow> mask_state" where
  "mask_line mk out span st =
     (case current st of
        Some heredoc \<Rightarrow>
          if trim (slice span out) = delimiter heredoc then
            (let blanked =
               (if maskable heredoc \<and> (literal heredoc \<or> mk = MaskAll)
                then to_blank st @ body st @ [span] else to_blank st);
                 (cur, rest) = pop_front (pending st)
             in st\<lparr>pending := rest, body := [], current := cur, to_blank := blanked\<rparr>)
          else st\<lparr>body := body st @ [span]\<rparr>
      | None \<Rightarrow>
          (let (s, d, p) =
             scan_line_for_heredocs (slice span out) (in_single st) (in_double st) (pending st);
               (cur, rest) = pop_front p
           in st\<lparr>pending := rest, current := cur, in_single := s, in_double := d\<rparr>))"

definition blank_span :: "nat \<times> nat \<Rightarrow> char list \<Rightarrow> char list" where
  "blank_span span out =
     take (fst span) out @ replicate (snd span - fst span) (CHR '' '') @ drop (snd span) out"

definition mask_heredoc_bodies :: "string \<Rightarrow> heredoc_mask \<Rightarrow> string" where
  "mask_heredoc_bodies command mk =
     (if \<not> contains_str command ''<<'' then command
      else
        (let st = fold (mask_line mk command) (char_lines command)
               \<lparr>pending = [], body = [], current = None, to_blank = [],
                in_single = False, in_double = False\<rparr>
         in fold blank_span (to_blank st) command))"

section \<open>Masking only blanks characters inside lines\<close>

definition line_span :: "char list \<Rightarrow> nat \<times> nat \<Rightarrow> bool" where
  "line_span cmd span \<longleftrightarrow>
     fst span \<le> snd span \<and> snd span \<le> length cmd \<and>
     (\<forall>i. fst span \<le> i \<longrightarrow> i < snd span \<longrightarrow> cmd ! i \<noteq> NL)"

lemma char_lines_from_spans:
  assumes "cmd = pre @ rest" "index = length pre" "start \<le> index"
    and "\<forall>i. start \<le> i \<longrightarrow> i < index \<longrightarrow> cmd ! i \<noteq> NL"
    and "span \<in> set (char_lines_from start index rest)"
  shows "line_span cmd span"
  using assms
proof (induction rest arbitrary: pre index start)
  case Nil
  then show ?case by (auto simp: line_span_def)
next
  case (Cons ch rest)
  have cmd: "cmd = (pre @ [ch]) @ rest" and len: "Suc index = length (pre @ [ch])"
    using Cons.prems by auto
  have at: "cmd ! index = ch" using Cons.prems(1,2) by (simp add: nth_append)
  show ?case
  proof (cases "ch = NL")
    case True
    with Cons.prems consider "span = (start, index)"
      | "span \<in> set (char_lines_from (Suc index) (Suc index) rest)" by auto
    then show ?thesis
    proof cases
      case 1
      with Cons.prems show ?thesis by (auto simp: line_span_def)
    next
      case 2
      then show ?thesis by (intro Cons.IH [OF cmd len]) auto
    qed
  next
    case False
    with Cons.prems at show ?thesis
      by (intro Cons.IH [OF cmd len]) (auto simp: less_Suc_eq)
  qed
qed

lemma char_lines_spans: "span \<in> set (char_lines cmd) \<Longrightarrow> line_span cmd span"
  unfolding char_lines_def by (rule char_lines_from_spans [of cmd "[]" cmd]) auto

lemma mask_line_blank_subset:
  "set (to_blank (mask_line mk out span st)) \<union> set (body (mask_line mk out span st)) \<subseteq>
     insert span (set (to_blank st) \<union> set (body st))"
  by (auto simp: mask_line_def Let_def split: option.splits prod.splits)

lemma fold_mask_line_subset:
  "set (to_blank (fold (mask_line mk out) spans st)) \<union> set (body (fold (mask_line mk out) spans st))
     \<subseteq> set spans \<union> set (to_blank st) \<union> set (body st)"
proof (induction spans arbitrary: st)
  case Nil
  then show ?case by simp
next
  case (Cons span spans)
  from Cons.IH [of "mask_line mk out span st"] mask_line_blank_subset [of mk out span st]
  show ?case by auto
qed

definition blanked_from :: "char list \<Rightarrow> char list \<Rightarrow> bool" where
  "blanked_from cmd out \<longleftrightarrow>
     length out = length cmd \<and>
     (\<forall>i < length cmd. out ! i = cmd ! i \<or> (out ! i = CHR '' '' \<and> cmd ! i \<noteq> NL))"

lemma blanked_from_refl [simp]: "blanked_from cmd cmd"
  by (simp add: blanked_from_def)

lemma blank_span_blanked:
  assumes "blanked_from cmd out" and "line_span cmd span"
  shows "blanked_from cmd (blank_span span out)"
proof -
  obtain s e where span: "span = (s, e)" by (cases span)
  with assms have se: "s \<le> e" "e \<le> length out" "length out = length cmd"
    by (auto simp: line_span_def blanked_from_def)
  have at: "blank_span span out ! i = (if s \<le> i \<and> i < e then CHR '' '' else out ! i)"
    if "i < length cmd" for i
    using that se by (auto simp: blank_span_def span nth_append min_def)
  from se have "length (blank_span span out) = length cmd"
    by (simp add: blank_span_def span)
  with at assms show ?thesis by (auto simp: blanked_from_def line_span_def span)
qed

lemma fold_blank_span_blanked:
  "blanked_from cmd out \<Longrightarrow> \<forall>span \<in> set spans. line_span cmd span \<Longrightarrow>
     blanked_from cmd (fold blank_span spans out)"
  by (induction spans arbitrary: out) (auto intro: blank_span_blanked)

lemma mask_blanked_from: "blanked_from command (mask_heredoc_bodies command mk)"
proof -
  define st where "st = fold (mask_line mk command) (char_lines command)
    \<lparr>pending = [], body = [], current = None, to_blank = [], in_single = False, in_double = False\<rparr>"
  have "set (to_blank st) \<subseteq> set (char_lines command)"
    unfolding st_def by (rule subset_trans [OF Un_upper1 subset_trans [OF fold_mask_line_subset]]) simp
  then have "blanked_from command (fold blank_span (to_blank st) command)"
    by (intro fold_blank_span_blanked) (auto intro: char_lines_spans)
  then show ?thesis by (simp add: mask_heredoc_bodies_def st_def)
qed

lemma length_mask [simp]: "length (mask_heredoc_bodies command mk) = length command"
  using mask_blanked_from [of command mk] by (simp add: blanked_from_def)

lemma mask_no_heredoc [simp]: "\<not> contains_str command ''<<'' \<Longrightarrow> mask_heredoc_bodies command mk = command"
  by (simp add: mask_heredoc_bodies_def)

section \<open>Only heredocs of allowed lines are masked\<close>

lemma contains_str_drop: "\<not> contains_str s p \<Longrightarrow> \<not> contains_str (drop n s) p"
proof (induction n arbitrary: s)
  case (Suc n)
  then show ?case by (cases s) auto
qed simp

lemma scan_line_pending:
  "\<not> contains_str line ''<<'' \<Longrightarrow> snd (snd (scan_line m line s d p)) = p"
proof (induction m line s d p rule: scan_line.induct)
  case (2 m ch rest s d p)
  then have "\<not> starts_with (ch # rest) ''<<''" and "\<not> contains_str rest ''<<''"
    by auto
  moreover have "\<not> contains_str (drop 1 rest) ''<<''"
    using calculation by (intro contains_str_drop)
  ultimately show ?case
    using 2 by (subst scan_line.simps) (auto split: if_splits)
qed (simp add: scan_line.simps)

lemma scan_line_maskable:
  "\<forall>h \<in> set p. \<not> maskable h \<Longrightarrow> \<forall>h \<in> set (snd (snd (scan_line False line s d p))). \<not> maskable h"
proof (induction "False" line s d p rule: scan_line.induct)
  case (2 ch rest s d p)
  then show ?case
    by (subst scan_line.simps) (auto simp: Let_def split: option.splits)
qed (simp add: scan_line.simps)

definition no_maskable :: "mask_state \<Rightarrow> bool" where
  "no_maskable st \<longleftrightarrow>
     to_blank st = [] \<and> (\<forall>h \<in> set (pending st) \<union> set_option (current st). \<not> maskable h)"

lemma pop_front_set: "pop_front q = (x, xs) \<Longrightarrow> set_option x \<union> set xs = set q"
  by (auto simp: pop_front_def split: list.splits)

lemma scan_not_allowed:
  assumes "contains_str line ''<<'' \<longrightarrow> \<not> line_allows_masking line"
    and "\<forall>h \<in> set p. \<not> maskable h"
  shows "\<forall>h \<in> set (snd (snd (scan_line_for_heredocs line s d p))). \<not> maskable h"
proof (cases "contains_str line ''<<''")
  case True
  with assms show ?thesis by (simp add: scan_line_for_heredocs_def scan_line_maskable)
next
  case False
  with assms(2) show ?thesis by (simp add: scan_line_for_heredocs_def scan_line_pending)
qed

lemma mask_line_no_maskable:
  assumes "no_maskable st"
    and "contains_str (slice span out) ''<<'' \<longrightarrow> \<not> line_allows_masking (slice span out)"
  shows "no_maskable (mask_line mk out span st)"
proof (cases "current st")
  case None
  obtain s d p where scan: "scan_line_for_heredocs (slice span out) (in_single st) (in_double st) (pending st) = (s, d, p)"
    by (metis prod_cases3)
  obtain cur rest where pop: "pop_front p = (cur, rest)" by (cases "pop_front p")
  have "\<forall>h \<in> set p. \<not> maskable h"
    using scan_not_allowed [OF assms(2), of "pending st" "in_single st" "in_double st"] assms(1)
    by (simp add: scan no_maskable_def)
  with None scan pop assms(1) pop_front_set [OF pop] show ?thesis
    by (auto simp: mask_line_def no_maskable_def)
next
  case (Some h)
  obtain cur rest where pop: "pop_front (pending st) = (cur, rest)" by (cases "pop_front (pending st)")
  with Some assms(1) pop_front_set [OF pop] show ?thesis
    by (auto simp: mask_line_def no_maskable_def Let_def)
qed

lemma fold_mask_line_no_maskable:
  "no_maskable st \<Longrightarrow>
     \<forall>span \<in> set spans. contains_str (slice span out) ''<<'' \<longrightarrow> \<not> line_allows_masking (slice span out) \<Longrightarrow>
     no_maskable (fold (mask_line mk out) spans st)"
  by (induction spans arbitrary: st) (auto intro: mask_line_no_maskable)

lemma mask_not_allowed:
  assumes "\<forall>span \<in> set (char_lines command).
      contains_str (slice span command) ''<<'' \<longrightarrow> \<not> line_allows_masking (slice span command)"
  shows "mask_heredoc_bodies command mk = command"
proof -
  have "no_maskable (fold (mask_line mk command) (char_lines command)
      \<lparr>pending = [], body = [], current = None, to_blank = [], in_single = False, in_double = False\<rparr>)"
    using assms by (intro fold_mask_line_no_maskable) (simp_all add: no_maskable_def)
  then show ?thesis by (simp add: mask_heredoc_bodies_def no_maskable_def)
qed

section \<open>Properties\<close>

text \<open>Masking never moves or deletes a character and never touches a line break: the result
  has the length of the command, and every position holds the original character or a blank that
  replaced a character other than a newline.\<close>

theorem masking_only_blanks:
  "length (mask_heredoc_bodies command mk) = length command \<and>
   (i < length command \<longrightarrow>
      mask_heredoc_bodies command mk ! i = command ! i \<or>
      (mask_heredoc_bodies command mk ! i = CHR '' '' \<and> command ! i \<noteq> NL))"
  using mask_blanked_from [of command mk] by (simp add: blanked_from_def)

theorem masking_only_blanks_witness:
  "mask_heredoc_bodies (''cat <<X'' @ [NL] @ ''rm'' @ [NL] @ ''X'') MaskAll ! 8 = CHR '' ''"
proof -
  let ?cmd = "''cat <<X'' @ [NL] @ ''rm'' @ [NL] @ ''X''"
  have "mask_heredoc_bodies ?cmd MaskAll = ''cat <<X'' @ [NL] @ ''  '' @ [NL] @ '' ''"
    by code_simp
  with masking_only_blanks [of ?cmd MaskAll 8] show ?thesis by simp
qed

text \<open>Masking fails closed on interpreters: when no line with a heredoc operator is an allowed
  one (it names a data consumer and no executor), the command is scanned exactly as written.\<close>

theorem masking_needs_data_consumer:
  assumes "\<forall>span \<in> set (char_lines command).
      contains_str (slice span command) ''<<'' \<longrightarrow> \<not> line_allows_masking (slice span command)"
  shows "mask_heredoc_bodies command mk = command"
  using assms by (rule mask_not_allowed)

theorem masking_needs_data_consumer_witness:
  "mask_heredoc_bodies (''bash <<X'' @ [NL] @ ''rm'' @ [NL] @ ''X'') MaskAll =
     ''bash <<X'' @ [NL] @ ''rm'' @ [NL] @ ''X''"
  by (rule masking_needs_data_consumer) code_simp

end
