(* ===== verification/Shell.thy ===== *)
theory Shell
  imports Heredoc
begin

text \<open>
  The shell scanners of \<open>crates/gommage-core/src/shell.rs\<close>: splitting a command into segments
  of words, stripping wrapper prefixes and redirections, and finding redirect targets and command
  substitutions. Peekable iterators and indices of the source are the rest of the text here.
\<close>

section \<open>Segments\<close>

definition push_word :: "string list \<Rightarrow> string \<Rightarrow> string list" where
  "push_word words word = (if word \<noteq> [] then words @ [word] else words)"

definition push_segment :: "string list list \<Rightarrow> string list \<Rightarrow> string list list" where
  "push_segment segments words = (if words \<noteq> [] then segments @ [words] else segments)"

definition peek_is :: "char list \<Rightarrow> char \<Rightarrow> bool" where
  "peek_is rest c = (case rest of [] \<Rightarrow> False | d # _ \<Rightarrow> d = c)"

lemma peek_is_simps [simp]: "\<not> peek_is [] c" "peek_is (d # rest) c \<longleftrightarrow> d = c"
  by (simp_all add: peek_is_def)

text \<open>The arm of the \<open>match\<close> that a character takes, its guards tried in order. A separator
  arm tells how many characters it takes besides its first.\<close>

datatype segment_arm =
  ArmSingle | ArmDouble | ArmEscape | ArmSeparator nat | ArmSpace | ArmChar

definition segment_arm_of :: "char \<Rightarrow> char list \<Rightarrow> bool \<Rightarrow> bool \<Rightarrow> segment_arm" where
  "segment_arm_of ch rest single double =
     (if ch = CHR 0x27 \<and> \<not> double then ArmSingle
      else if ch = CHR 0x22 \<and> \<not> single then ArmDouble
      else if ch = CHR 0x5C \<and> \<not> single then ArmEscape
      else if (ch = CHR '';'' \<or> ch = NL) \<and> \<not> single \<and> \<not> double then ArmSeparator 0
      else if ch = CHR ''&'' \<and> \<not> single \<and> \<not> double \<and> peek_is rest (CHR ''&'') then ArmSeparator 1
      else if ch = CHR ''|'' \<and> \<not> single \<and> \<not> double then
        ArmSeparator (if peek_is rest (CHR ''|'') then 1 else 0)
      else if is_whitespace ch \<and> \<not> single \<and> \<not> double then ArmSpace
      else ArmChar)"

function segment_loop ::
  "char list \<Rightarrow> bool \<Rightarrow> bool \<Rightarrow> string \<Rightarrow> string list \<Rightarrow> string list list \<Rightarrow> string list list" where
  "segment_loop [] single double word words segments =
     push_segment segments (push_word words word)"
| "segment_loop (ch # rest) single double word words segments =
     (case segment_arm_of ch rest single double of
        ArmSingle \<Rightarrow> segment_loop rest (\<not> single) double word words segments
      | ArmDouble \<Rightarrow> segment_loop rest single (\<not> double) word words segments
      | ArmEscape \<Rightarrow> segment_loop (drop 1 rest) single double (word @ take 1 rest) words segments
      | ArmSeparator n \<Rightarrow>
          segment_loop (drop n rest) single double [] [] (push_segment segments (push_word words word))
      | ArmSpace \<Rightarrow> segment_loop rest single double [] (push_word words word) segments
      | ArmChar \<Rightarrow> segment_loop rest single double (word @ [ch]) words segments)"
  by pat_completeness auto
termination
  by (relation "measure (\<lambda>(cs, s, d, w, ws, segs). length cs)") auto

definition shell_segments :: "string \<Rightarrow> string list list" where
  "shell_segments command =
     segment_loop (mask_heredoc_bodies command MaskAll) False False [] [] []"

section \<open>Wrapper prefixes\<close>

definition is_assignment :: "string \<Rightarrow> bool" where
  "is_assignment word =
     (case split_once (CHR ''='') word of
        None \<Rightarrow> False
      | Some (name, _) \<Rightarrow>
          (case name of
             [] \<Rightarrow> False
           | ch # chars \<Rightarrow>
               (ch = CHR ''_'' \<or> is_ascii_alphabetic ch) \<and>
               (\<forall>c \<in> set chars. c = CHR ''_'' \<or> is_ascii_alphanumeric c)))"

text \<open>The option loop of \<open>sudo\<close>. A flag that takes an argument but ends the list moves the
  index past the end; \<open>None\<close> stands for that.\<close>

fun skip_sudo :: "string list \<Rightarrow> string list option" where
  "skip_sudo [] = Some []"
| "skip_sudo (w # ws) =
     (if starts_with w ''-'' then
        (if w \<in> {''-u'', ''--user'', ''-g'', ''--group'', ''-h'', ''--host''}
         then (case ws of [] \<Rightarrow> None | _ # ws' \<Rightarrow> skip_sudo ws')
         else skip_sudo ws)
      else Some (w # ws))"

fun skip_env :: "string list \<Rightarrow> string list" where
  "skip_env [] = []"
| "skip_env (w # ws) = (if is_assignment w \<or> starts_with w ''-'' then skip_env ws else w # ws)"

text \<open>The option loops of \<open>nice\<close>, \<open>timeout\<close> and \<open>stdbuf\<close> differ in the flags
  that take an argument.\<close>

fun skip_options :: "string list \<Rightarrow> string list \<Rightarrow> string list" where
  "skip_options takes_arg [] = []"
| "skip_options takes_arg (w # ws) =
     (if starts_with w ''-'' then
        skip_options takes_arg (if w \<in> set takes_arg then drop 1 ws else ws)
      else w # ws)"

lemma length_skip_sudo: "skip_sudo ws = Some ws' \<Longrightarrow> length ws' \<le> length ws"
  by (induction ws rule: skip_sudo.induct) (auto split: if_splits list.splits)

lemma length_skip_env: "length (skip_env ws) \<le> length ws"
  by (induction ws) auto

lemma length_skip_options: "length (skip_options fl ws) \<le> length ws"
proof (induction fl ws rule: skip_options.induct)
  case (2 fl w ws)
  then show ?case by (cases "w \<in> set fl") auto
qed simp

lemma length_skip_options_drop: "length (drop n (skip_options fl ws)) \<le> length ws"
  using length_skip_options [of fl ws] by simp

function command_words :: "string list \<Rightarrow> string list option" where
  "command_words [] = Some []"
| "command_words (w # ws) =
     (if w = ''sudo'' then
        (case skip_sudo ws of None \<Rightarrow> None | Some ws' \<Rightarrow> command_words ws')
      else if w = ''env'' then command_words (skip_env ws)
      else if w = ''nohup'' then command_words ws
      else if w = ''nice'' then command_words (skip_options [''-n''] ws)
      else if w = ''timeout'' then
        command_words (drop 1 (skip_options [''-s'', ''--signal'', ''-k''] ws))
      else if w = ''stdbuf'' then command_words (skip_options [''-i'', ''-o'', ''-e''] ws)
      else if is_assignment w then command_words ws
      else Some (w # ws))"
  by pat_completeness auto
termination
  by (relation "measure length")
    (auto simp: less_Suc_eq_le length_skip_env length_skip_options length_skip_options_drop
       intro: length_skip_sudo le_trans [OF diff_le_self])

declare command_words.simps(2) [simp del]

section \<open>Redirections and control tokens\<close>

datatype control_token = CtNone | CtSelfContained | CtBareOperator

definition operator_rest :: "string \<Rightarrow> string option" where
  "operator_rest rest =
     (if starts_with rest ''<<<'' then Some (drop 3 rest)
      else if starts_with rest ''>>'' \<or> starts_with rest ''<<'' \<or> starts_with rest ''<>'' \<or>
              starts_with rest ''>|'' then Some (drop 2 rest)
      else if starts_with rest ''>'' \<or> starts_with rest ''<'' then Some (drop 1 rest)
      else None)"

definition classify_control_token :: "string \<Rightarrow> control_token" where
  "classify_control_token word =
     (if word = ''&'' then CtSelfContained
      else
        (let rest =
           (case strip_prefix word ''&'' of
              Some after_amp \<Rightarrow> if starts_with after_amp ''>'' then Some after_amp else None
            | None \<Rightarrow>
                (let digits = takeWhile is_ascii_digit word; rest = drop (length digits) word
                 in if 0 < length digits \<and> \<not> (starts_with rest ''>'' \<or> starts_with rest ''<'')
                    then None else Some rest))
         in case rest of
              None \<Rightarrow> CtNone
            | Some rest \<Rightarrow>
                (case operator_rest rest of
                   None \<Rightarrow> CtNone
                 | Some tail \<Rightarrow> if tail = [] then CtBareOperator else CtSelfContained)))"

fun strip_redirections :: "string list \<Rightarrow> string list" where
  "strip_redirections [] = []"
| "strip_redirections (w # ws) =
     (case classify_control_token w of
        CtNone \<Rightarrow> w # strip_redirections ws
      | CtSelfContained \<Rightarrow> strip_redirections ws
      | CtBareOperator \<Rightarrow> strip_redirections (drop 1 ws))"

section \<open>The payload of a shell invocation\<close>

fun shell_c_payload :: "string list \<Rightarrow> string option" where
  "shell_c_payload [] = None"
| "shell_c_payload (arg # args) =
     (if arg = ''-c'' then (case args of [] \<Rightarrow> None | p # _ \<Rightarrow> Some p)
      else if starts_with arg ''-'' then shell_c_payload args
      else None)"

section \<open>Redirect targets\<close>

definition ends_target :: "char \<Rightarrow> bool" where
  "ends_target c \<longleftrightarrow> is_whitespace c \<or> c \<in> set ''><|&;''"

fun read_target :: "char list \<Rightarrow> bool \<Rightarrow> bool \<Rightarrow> string \<Rightarrow> string \<times> char list" where
  "read_target [] tsingle tdouble target = (target, [])"
| "read_target (c # rest) tsingle tdouble target =
     (if c = CHR 0x27 \<and> \<not> tdouble then read_target rest (\<not> tsingle) tdouble target
      else if c = CHR 0x22 \<and> \<not> tsingle then read_target rest tsingle (\<not> tdouble) target
      else if ends_target c \<and> \<not> tsingle \<and> \<not> tdouble
        then (target, c # rest)
      else read_target rest tsingle tdouble (target @ [c]))"

definition redirect_target_at :: "char list \<Rightarrow> string \<times> char list" where
  "redirect_target_at rest =
     read_target (dropWhile is_whitespace (if peek_is rest (CHR ''>'') then drop 1 rest else rest))
       False False []"

lemma length_read_target: "length (snd (read_target cs s d t)) \<le> length cs"
  by (induction cs s d t rule: read_target.induct) auto

lemma length_redirect_target_at: "length (snd (redirect_target_at rest)) \<le> length rest"
proof -
  have "length (dropWhile is_whitespace xs) \<le> length rest" if "length xs \<le> length rest" for xs
    using that length_dropWhile_le [of is_whitespace xs] by simp
  then show ?thesis
    unfolding redirect_target_at_def
    by (intro le_trans [OF length_read_target]) auto
qed

function redirect_loop :: "char list \<Rightarrow> bool \<Rightarrow> bool \<Rightarrow> string list \<Rightarrow> string list" where
  "redirect_loop [] single double targets = targets"
| "redirect_loop (ch # rest) single double targets =
     (if ch = CHR 0x27 \<and> \<not> double then redirect_loop rest (\<not> single) double targets
      else if ch = CHR 0x22 \<and> \<not> single then redirect_loop rest single (\<not> double) targets
      else if ch = CHR 0x5C \<and> \<not> single then redirect_loop (drop 1 rest) single double targets
      else if ch = CHR ''>'' \<and> \<not> single \<and> \<not> double then
        (let (target, rest') = redirect_target_at rest
         in redirect_loop rest' single double (if target \<noteq> [] then targets @ [target] else targets))
      else redirect_loop rest single double targets)"
  by pat_completeness auto
termination
proof (relation "measure (\<lambda>(cs, s, d, t). length cs)", goal_cases)
  case (5 ch rest single double targets x target rest')
  with length_redirect_target_at [of rest] have "length rest' \<le> length rest"
    by (metis snd_conv)
  then show ?case by simp
qed auto

declare redirect_loop.simps(2) [simp del]

definition redirect_targets :: "string \<Rightarrow> string list" where
  "redirect_targets command =
     redirect_loop (mask_heredoc_bodies command MaskAll) False False []"

section \<open>Command substitutions\<close>

text \<open>The body up to the closing parenthesis and what follows it, if it closes.\<close>

fun read_command_substitution ::
  "char list \<Rightarrow> nat \<Rightarrow> bool \<Rightarrow> bool \<Rightarrow> (string \<times> char list) option" where
  "read_command_substitution [] depth single double = None"
| "read_command_substitution (ch # rest) depth single double =
     (if ch = CHR 0x27 \<and> \<not> double
        then map_option (apfst (Cons ch)) (read_command_substitution rest depth (\<not> single) double)
      else if ch = CHR 0x22 \<and> \<not> single
        then map_option (apfst (Cons ch)) (read_command_substitution rest depth single (\<not> double))
      else if ch = CHR ''('' \<and> \<not> single \<and> \<not> double
        then map_option (apfst (Cons ch)) (read_command_substitution rest (depth + 1) single double)
      else if ch = CHR '')'' \<and> \<not> single \<and> \<not> double then
        (if depth - 1 = 0 then Some ([], rest)
         else map_option (apfst (Cons ch)) (read_command_substitution rest (depth - 1) single double))
      else map_option (apfst (Cons ch)) (read_command_substitution rest depth single double))"

definition read_backtick_substitution :: "char list \<Rightarrow> (string \<times> char list) option" where
  "read_backtick_substitution rest = split_once (CHR 0x60) rest"

lemma read_command_substitution_length:
  "read_command_substitution cs depth s d = Some (content, rest) \<Longrightarrow>
     length content + length rest < length cs"
  by (induction cs depth s d arbitrary: content rest rule: read_command_substitution.induct)
    (auto split: if_splits)

lemma read_backtick_substitution_length:
  "read_backtick_substitution cs = Some (content, rest) \<Longrightarrow>
     length content + length rest < length cs"
  by (auto simp: read_backtick_substitution_def split_once_Some_iff)

function substitution_loop :: "char list \<Rightarrow> bool \<Rightarrow> bool \<Rightarrow> string list" where
  "substitution_loop [] single double = []"
| "substitution_loop (ch # rest) single double =
     (if ch = CHR 0x27 \<and> \<not> double then substitution_loop rest (\<not> single) double
      else if ch = CHR 0x22 \<and> \<not> single then substitution_loop rest single (\<not> double)
      else if ch = CHR 0x5C \<and> \<not> single then substitution_loop (drop 1 rest) single double
      else if ch = CHR ''$'' \<and> \<not> single \<and> peek_is rest (CHR ''('') then
        (case read_command_substitution (drop 1 rest) 1 False False of
           Some (content, rest') \<Rightarrow> content # substitution_loop rest' single double
         | None \<Rightarrow> substitution_loop rest single double)
      else if ch = CHR 0x60 \<and> \<not> single then
        (case read_backtick_substitution rest of
           Some (content, rest') \<Rightarrow> content # substitution_loop rest' single double
         | None \<Rightarrow> substitution_loop rest single double)
      else substitution_loop rest single double)"
  by pat_completeness auto
termination
  by (relation "measure (\<lambda>(cs, s, d). length cs)")
    (auto dest!: read_command_substitution_length read_backtick_substitution_length)

declare substitution_loop.simps(2) [simp del]

definition command_substitutions :: "string \<Rightarrow> string list" where
  "command_substitutions command =
     substitution_loop (mask_heredoc_bodies command MaskLiteralOnly) False False"

end
