(* ===== verification/Shell_Targets.thy ===== *)
theory Shell_Targets
  imports Shell
begin

text \<open>
  Write targets of a shell command: \<open>shell_write_targets\<close> of \<open>crates/gommage-core/src/shell.rs\<close>,
  which the hook adapters use to attach the Git context of the files a command writes. The
  \<open>seen\<close> set of the source always holds the members of \<open>out\<close>, so membership is asked of \<open>out\<close>.
\<close>

definition first_non_flag_arg :: "string list \<Rightarrow> string option" where
  "first_non_flag_arg args = find (\<lambda>arg. \<not> starts_with arg ''-'') args"

definition last_non_flag_arg :: "string list \<Rightarrow> string option" where
  "last_non_flag_arg args = find (\<lambda>arg. \<not> starts_with arg ''-'') (rev args)"

definition is_sed_in_place_option :: "string \<Rightarrow> bool" where
  "is_sed_in_place_option arg \<longleftrightarrow>
     arg = ''-i'' \<or> starts_with arg ''-i.'' \<or> arg = ''--in-place'' \<or> starts_with arg ''--in-place=''"

text \<open>The option loop returns the flags and the arguments from the final index on. An index past
  the end reads like the empty rest.\<close>

definition separate_suffix :: "string \<Rightarrow> string list \<Rightarrow> bool" where
  "separate_suffix arg rest \<longleftrightarrow>
     (arg = ''-i'' \<or> arg = ''--in-place'') \<and>
     (case rest of [] \<Rightarrow> False | next # _ \<Rightarrow> next = [] \<or> starts_with next ''.'') \<and>
     2 < length rest"

function sed_options :: "string list \<Rightarrow> bool \<Rightarrow> bool \<Rightarrow> bool \<times> bool \<times> string list" where
  "sed_options [] in_place script = (in_place, script, [])"
| "sed_options (arg # rest) in_place script =
     (if arg = ''--'' then (in_place, script, rest)
      else if is_sed_in_place_option arg then
        sed_options (if separate_suffix arg rest then drop 1 rest else rest) True script
      else if arg = ''-e'' \<or> arg = ''-f'' then sed_options (drop 1 rest) in_place True
      else if (starts_with arg ''-e'' \<or> starts_with arg ''-f'') \<and> 2 < length arg
        then sed_options rest in_place True
      else if starts_with arg ''-'' then sed_options rest in_place script
      else (in_place, script, arg # rest))"
  by pat_completeness auto
termination
  by (relation "measure (\<lambda>(args, i, s). length args)") auto

definition get_arg :: "'a list \<Rightarrow> nat \<Rightarrow> 'a option" where
  "get_arg args i = (if i < length args then Some (args ! i) else None)"

definition sed_in_place_target :: "string list \<Rightarrow> string option" where
  "sed_in_place_target args =
     (case sed_options args False False of (in_place, script_from_option, rest) \<Rightarrow>
        if \<not> in_place then None
        else if script_from_option then get_arg rest 0
        else get_arg rest 1)"

definition push_target :: "string \<Rightarrow> string list \<Rightarrow> string list" where
  "push_target target out = (if target \<noteq> [] then push_new target out else out)"

definition push_opt :: "string option \<Rightarrow> string list \<Rightarrow> string list" where
  "push_opt t out = (case t of None \<Rightarrow> out | Some path \<Rightarrow> push_target path out)"

definition dd_target :: "string list \<Rightarrow> string \<Rightarrow> string list" where
  "dd_target out word =
     (case strip_prefix word ''of='' of
        None \<Rightarrow> out
      | Some path \<Rightarrow> if path \<noteq> [] then push_target path out else out)"

definition segment_targets :: "string list \<Rightarrow> string list \<Rightarrow> string list" where
  "segment_targets out segment =
     (case command_words segment of
        None \<Rightarrow> out
      | Some [] \<Rightarrow> out
      | Some (h # args) \<Rightarrow>
          (let head = head_basename h
           in if head = ''tee'' then push_opt (first_non_flag_arg args) out
              else if head \<in> {''cp'', ''install'', ''mv'', ''rsync'', ''ln''}
                then push_opt (last_non_flag_arg args) out
              else if head = ''sed'' then push_opt (sed_in_place_target args) out
              else if head = ''dd'' then foldl dd_target out args
              else out))"

definition shell_write_targets :: "string \<Rightarrow> string list" where
  "shell_write_targets command =
     foldl (\<lambda>out target. push_target target out)
       (foldl segment_targets [] (shell_segments command))
       (redirect_targets command)"

section \<open>Laws\<close>

definition wf_targets :: "string list \<Rightarrow> bool" where
  "wf_targets out \<longleftrightarrow> distinct out \<and> [] \<notin> set out"

lemma set_push_target: "set (push_target t out) = set out \<union> ({t} - {[]})"
  by (auto simp: push_target_def)

lemma wf_push_target: "wf_targets out \<Longrightarrow> wf_targets (push_target t out)"
  by (auto simp: push_target_def wf_targets_def)

lemma wf_push_opt: "wf_targets out \<Longrightarrow> wf_targets (push_opt t out)"
  by (simp add: push_opt_def wf_push_target split: option.split)

lemma wf_segment_targets: "wf_targets out \<Longrightarrow> wf_targets (segment_targets out seg)"
  by (auto simp: segment_targets_def wf_push_opt wf_push_target dd_target_def Let_def
      intro!: foldl_invariant [where P = wf_targets] split: option.split list.split)

lemma set_redirects:
  "set (foldl (\<lambda>out target. push_target target out) out ts) = set out \<union> (set ts - {[]})"
  by (subst set_foldl_union [where g = "\<lambda>t. {t} - {[]}"]) (auto simp: set_push_target)

text \<open>The write targets of a command are distinct and non-empty, and every target of an
  unquoted output redirection is among them.\<close>

theorem shell_write_targets_cover_redirects:
  "distinct (shell_write_targets command) \<and> [] \<notin> set (shell_write_targets command) \<and>
   set (redirect_targets command) - {[]} \<subseteq> set (shell_write_targets command)"
proof -
  have "wf_targets (foldl segment_targets [] (shell_segments command))"
    by (rule foldl_invariant) (simp_all add: wf_targets_def [of "[]"] wf_segment_targets)
  then have "wf_targets (shell_write_targets command)"
    unfolding shell_write_targets_def by (rule foldl_invariant) (rule wf_push_target)
  then show ?thesis
    by (auto simp: wf_targets_def shell_write_targets_def set_redirects)
qed

end
