(* ===== verification/Capability.thy ===== *)
theory Capability
  imports Prelude
begin

text \<open>Capabilities (\<open>crates/gommage-core/src/capability.rs\<close>): strings of the form
  \<open>namespace:payload\<close>.\<close>

type_synonym capability = string

definition namespace :: "capability \<Rightarrow> string" where
  "namespace cap = (case split_once (CHR '':'') cap of None \<Rightarrow> cap | Some (ns, _) \<Rightarrow> ns)"

definition payload :: "capability \<Rightarrow> string" where
  "payload cap = (case split_once (CHR '':'') cap of None \<Rightarrow> [] | Some (_, p) \<Rightarrow> p)"

lemma namespace_payload:
  assumes "CHR '':'' \<notin> set ns"
  shows "namespace (ns @ CHR '':'' # p) = ns" "payload (ns @ CHR '':'' # p) = p"
proof -
  have "split_once (CHR '':'') (ns @ CHR '':'' # p) = Some (ns, p)"
    using assms by (simp add: split_once_Some_iff)
  then show "namespace (ns @ CHR '':'' # p) = ns" "payload (ns @ CHR '':'' # p) = p"
    by (simp_all add: namespace_def payload_def)
qed

lemma capability_parts:
  "cap = (if CHR '':'' \<in> set cap then namespace cap @ CHR '':'' # payload cap else namespace cap)"
proof (cases "split_once (CHR '':'') cap")
  case None
  then have "CHR '':'' \<notin> set cap" by (simp add: split_once_None_iff)
  with None show ?thesis by (simp add: namespace_def)
next
  case (Some np)
  then show ?thesis
    using split_once_Some_iff [of "CHR '':''" cap "fst np" "snd np"]
    by (cases np) (auto simp: namespace_payload)
qed

definition proc_exec :: "string \<Rightarrow> capability" where
  "proc_exec command = ''proc.exec:'' @ command"

lemma proc_exec_parts [simp]:
  "namespace (proc_exec command) = ''proc.exec''" "payload (proc_exec command) = command"
  using namespace_payload [of "''proc.exec''" command] by (simp_all add: proc_exec_def)

end
