(* ===== verification/Shell_Laws.thy ===== *)
theory Shell_Laws
  imports Shell
begin

text \<open>
  Laws of the shell scanners: every segment is a non-empty list of non-empty words no longer than
  the command; separators at a neutral point split a command into the segments of its parts; plain
  words and single-quoted text come back as they were written.
\<close>

section \<open>The accumulator of the segment loop\<close>

lemma push_segment_append: "push_segment (segs @ segs') ws = segs @ push_segment segs' ws"
  by (simp add: push_segment_def)

lemma push_segment_acc: "push_segment segs ws = segs @ push_segment [] ws"
  using push_segment_append [of segs "[]"] by simp

lemma segment_loop_acc_append:
  "segment_loop cs s d w ws (segs @ segs') = segs @ segment_loop cs s d w ws segs'"
  by (induction cs s d w ws segs' rule: segment_loop.induct)
    (simp_all add: push_segment_append split: segment_arm.split)

lemma segment_loop_acc:
  "segment_loop cs s d w ws segs = segs @ segment_loop cs s d w ws []"
  using segment_loop_acc_append [of cs s d w ws segs "[]"] by simp

section \<open>Shape and size\<close>

definition wf_segments :: "string list list \<Rightarrow> bool" where
  "wf_segments segs \<longleftrightarrow> (\<forall>seg \<in> set segs. seg \<noteq> [] \<and> [] \<notin> set seg)"

definition words_size :: "string list \<Rightarrow> nat" where
  "words_size ws = sum_list (map length ws)"

definition segments_size :: "string list list \<Rightarrow> nat" where
  "segments_size segs = sum_list (map words_size segs)"

lemma size_simps [simp]:
  "words_size [] = 0" "words_size (w # ws) = length w + words_size ws"
  "words_size (ws @ ws') = words_size ws + words_size ws'"
  "segments_size [] = 0" "segments_size (seg # segs) = words_size seg + segments_size segs"
  "segments_size (segs @ segs') = segments_size segs + segments_size segs'"
  by (simp_all add: words_size_def segments_size_def)

lemma push_size:
  "words_size (push_word ws w) = words_size ws + length w"
  "segments_size (push_segment segs ws) = segments_size segs + words_size ws"
  by (auto simp: push_word_def push_segment_def)

lemma words_size_member: "w \<in> set ws \<Longrightarrow> length w \<le> words_size ws"
  by (induction ws) auto

lemma segments_size_member: "seg \<in> set segs \<Longrightarrow> words_size seg \<le> segments_size segs"
  by (induction segs) auto

lemma push_wf:
  "[] \<notin> set ws \<Longrightarrow> [] \<notin> set (push_word ws w)"
  "wf_segments segs \<Longrightarrow> [] \<notin> set ws \<Longrightarrow> wf_segments (push_segment segs ws)"
  by (auto simp: push_word_def push_segment_def wf_segments_def)

lemma segment_loop_wf:
  "wf_segments segs \<Longrightarrow> [] \<notin> set ws \<Longrightarrow> wf_segments (segment_loop cs s d w ws segs)"
  by (induction cs s d w ws segs rule: segment_loop.induct)
    (simp_all add: push_wf split: segment_arm.split)

lemma segment_loop_size:
  "segments_size (segment_loop cs s d w ws segs) \<le>
     length cs + length w + words_size ws + segments_size segs"
proof (induction cs s d w ws segs rule: segment_loop.induct)
  case (2 ch rest s d w ws segs)
  have "length (drop 1 rest) + length (take 1 rest) = length rest" by (cases rest) auto
  with 2 show ?case
    by (cases "segment_arm_of ch rest s d") (fastforce simp: push_size)+
qed (simp add: push_size)

lemma shell_segments_wf: "wf_segments (shell_segments command)"
  unfolding shell_segments_def by (rule segment_loop_wf) (simp_all add: wf_segments_def)

lemma shell_segments_size: "segments_size (shell_segments command) \<le> length command"
  using segment_loop_size [of "mask_heredoc_bodies command MaskAll" False False "[]" "[]" "[]"]
  by (simp add: shell_segments_def)

lemma segment_words_size: "seg \<in> set (shell_segments command) \<Longrightarrow> words_size seg \<le> length command"
  using segments_size_member shell_segments_size le_trans by blast


section \<open>Composition at separators\<close>

text \<open>Text is closed when it leaves the scanner outside quotes and after no dangling backslash.\<close>

function closed_from :: "char list \<Rightarrow> bool \<Rightarrow> bool \<Rightarrow> bool" where
  "closed_from [] single double = (\<not> single \<and> \<not> double)"
| "closed_from (ch # rest) single double =
     (case segment_arm_of ch rest single double of
        ArmSingle \<Rightarrow> closed_from rest (\<not> single) double
      | ArmDouble \<Rightarrow> closed_from rest single (\<not> double)
      | ArmEscape \<Rightarrow> rest \<noteq> [] \<and> closed_from (drop 1 rest) single double
      | ArmSeparator n \<Rightarrow> closed_from (drop n rest) single double
      | ArmSpace \<Rightarrow> closed_from rest single double
      | ArmChar \<Rightarrow> closed_from rest single double)"
  by pat_completeness auto
termination
  by (relation "measure (\<lambda>(cs, s, d). length cs)") auto

lemma segment_arm_of_append:
  assumes "rest \<noteq> [] \<or> \<not> peek_is post (CHR ''&'') \<and> \<not> peek_is post (CHR ''|'')"
  shows "segment_arm_of ch (rest @ post) s d = segment_arm_of ch rest s d"
  using assms by (cases rest) (auto simp: segment_arm_of_def)

lemma segment_arm_of_separator:
  "segment_arm_of ch rest s d = ArmSeparator n \<Longrightarrow> n = 0 \<or> n = 1 \<and> rest \<noteq> []"
  by (cases rest) (auto simp: segment_arm_of_def split: if_splits)

lemma segment_loop_append:
  assumes "closed_from cs s d" and "\<not> peek_is post (CHR ''&'')" and "\<not> peek_is post (CHR ''|'')"
    and "\<And>w ws segs. segment_loop post False False w ws segs =
           push_segment segs (push_word ws w) @ tl_segs"
  shows "segment_loop (cs @ post) s d w ws segs = segment_loop cs s d w ws segs @ tl_segs"
  using assms(1)
proof (induction cs s d w ws segs rule: segment_loop.induct)
  case (1 s d w ws segs)
  then show ?case by (simp add: assms(4))
next
  case (2 ch rest s d w ws segs)
  have arm: "segment_arm_of ch (rest @ post) s d = segment_arm_of ch rest s d"
    by (rule segment_arm_of_append) (use assms(2,3) in auto)
  show ?case
  proof (cases "segment_arm_of ch rest s d")
    case ArmEscape
    with 2 obtain y ys where "rest = y # ys" by (cases rest) auto
    with ArmEscape 2 arm show ?thesis by simp
  next
    case (ArmSeparator n)
    with segment_arm_of_separator [OF ArmSeparator]
    have "drop n (rest @ post) = drop n rest @ post" by (cases rest) auto
    with ArmSeparator 2 arm show ?thesis by simp
  qed (use 2 arm in simp_all)
qed

definition is_break :: "string \<Rightarrow> bool" where
  "is_break sep \<longleftrightarrow> sep \<in> {'';'', [NL], '' && '', '' || '', '' | '', ''; ''}"

lemma segment_loop_break:
  assumes "is_break sep"
  shows "segment_loop (sep @ post) False False w ws segs =
    push_segment segs (push_word ws w) @ segment_loop post False False [] [] []"
proof -
  let ?segs = "push_segment segs (push_word ws w)"
  have nil: "push_word ws [] = ws" for ws by (simp add: push_word_def)
  have "segment_loop (sep @ post) False False w ws segs = segment_loop post False False [] [] ?segs"
    using assms by (auto simp: is_break_def segment_arm_of_def is_whitespace_def NL_def nil)
  then show ?thesis using segment_loop_acc by metis
qed

lemma contains_str_sublist: "contains_str s p \<longleftrightarrow> sublist p s"
  by (induction s) (auto simp: starts_with_def sublist_Cons_right)

lemma no_heredoc_parts:
  assumes "\<not> contains_str (a @ b) ''<<''"
  shows "\<not> contains_str a ''<<''" and "\<not> contains_str b ''<<''"
  using assms by (auto simp: contains_str_sublist sublist_append)

lemma shell_segments_plain:
  "\<not> contains_str command ''<<'' \<Longrightarrow>
     shell_segments command = segment_loop command False False [] [] []"
  by (simp add: shell_segments_def)

lemma segments_of_break:
  assumes "\<not> contains_str (a @ sep @ b) ''<<''" and "closed_from a False False" and "is_break sep"
  shows "shell_segments (a @ sep @ b) = shell_segments a @ shell_segments b"
proof -
  note plain = no_heredoc_parts [OF assms(1)] no_heredoc_parts [of sep b]
  have "\<not> peek_is (sep @ b) (CHR ''&'')" "\<not> peek_is (sep @ b) (CHR ''|'')"
    using assms(3) by (auto simp: is_break_def NL_def)
  then have "segment_loop (a @ sep @ b) False False [] [] [] =
      segment_loop a False False [] [] [] @ segment_loop b False False [] [] []"
    using segment_loop_append [OF assms(2)] segment_loop_break [OF assms(3)] by metis
  then show ?thesis using assms(1) plain by (simp add: shell_segments_plain)
qed

text \<open>A compound command hides nothing: written after a separator (\<open>;\<close>, a newline, \<open>&&\<close>,
  \<open>||\<close>, \<open>|\<close>) behind text that closes its quotes, a command has exactly the segments it has
  alone, after those of the text before it.\<close>

theorem shell_segments_compose:
  assumes "\<not> contains_str (a @ sep @ b) ''<<''" and "closed_from a False False" and "is_break sep"
  shows "shell_segments (a @ sep @ b) = shell_segments a @ shell_segments b"
  using assms by (rule segments_of_break)

theorem shell_segments_compose_witness:
  "shell_segments (''git status'' @ '' && '' @ ''rm -rf /'') =
     shell_segments ''git status'' @ shell_segments ''rm -rf /''"
  by (rule shell_segments_compose) code_simp+

section \<open>Quoting\<close>

text \<open>The quoting a shell accepts for any word: single quotes, an inner quote written
  \<open>'\''\<close>.\<close>

definition quote_char :: "char \<Rightarrow> string" where
  "quote_char c = (if c = CHR 0x27 then [CHR 0x27, CHR 0x5C, CHR 0x27, CHR 0x27] else [c])"

definition quote_word :: "string \<Rightarrow> string" where
  "quote_word w = CHR 0x27 # concat (map quote_char w) @ [CHR 0x27]"

lemma segment_loop_quoted_body:
  "segment_loop (concat (map quote_char w) @ rest) True False acc ws segs =
     segment_loop rest True False (acc @ w) ws segs"
  by (induction w arbitrary: acc) (auto simp: quote_char_def segment_arm_of_def)

lemma segment_loop_quoted_word:
  "segment_loop (quote_word w @ rest) False False acc ws segs =
     segment_loop rest False False (acc @ w) ws segs"
  by (simp add: quote_word_def segment_loop_quoted_body segment_arm_of_def)

lemma segment_loop_quoted_words:
  "ws \<noteq> [] \<Longrightarrow> [] \<notin> set ws \<Longrightarrow>
     segment_loop (join '' '' (map quote_word ws)) False False [] acc segs = segs @ [acc @ ws]"
proof (induction ws arbitrary: acc rule: induct_list012)
  case (2 w)
  then show ?case
    using segment_loop_quoted_word [of w "[]" "[]" acc segs]
    by (simp add: push_word_def push_segment_def)
next
  case (3 w v ws)
  then show ?case
    by (auto simp: segment_loop_quoted_word segment_arm_of_def is_whitespace_def NL_def push_word_def)
qed simp

lemma segments_of_quoted:
  "ws \<noteq> [] \<Longrightarrow> [] \<notin> set ws \<Longrightarrow> \<not> contains_str (join '' '' (map quote_word ws)) ''<<'' \<Longrightarrow>
     shell_segments (join '' '' (map quote_word ws)) = [ws]"
  by (simp add: shell_segments_plain segment_loop_quoted_words)

text \<open>Quoting protects operators: a command whose words are written in shell quotes is read
  as the one segment of exactly those words, whatever separators, redirections, blanks, quotes or
  backslashes the words contain (heredoc operators apart).\<close>

theorem quoted_words_roundtrip:
  assumes "ws \<noteq> []" and "[] \<notin> set ws"
    and "\<not> contains_str (join '' '' (map quote_word ws)) ''<<''"
  shows "shell_segments (join '' '' (map quote_word ws)) = [ws]"
  using assms by (rule segments_of_quoted)

theorem quoted_words_roundtrip_witness:
  "shell_segments (join '' '' (map quote_word [''echo'', ''a; rm -rf / && b''])) =
     [[''echo'', ''a; rm -rf / && b'']]"
  by (rule quoted_words_roundtrip) code_simp+

section \<open>Redirections\<close>

lemma strip_redirections_subseq: "subseq (strip_redirections ws) ws"
proof (induction ws rule: strip_redirections.induct)
  case (2 w ws)
  have "subseq (drop 1 ws) ws" by (cases ws) auto
  with 2 show ?case
    by (auto split: control_token.split dest: subseq_order.trans)
qed simp

lemma strip_redirections_args:
  "w \<in> set (strip_redirections ws) \<Longrightarrow> classify_control_token w = CtNone"
  by (induction ws rule: strip_redirections.induct) (auto split: control_token.splits)

lemma strip_redirections_append:
  "list_all (\<lambda>w. classify_control_token w = CtNone) ws \<Longrightarrow>
     strip_redirections (ws @ vs) = ws @ strip_redirections vs"
  by (induction ws) auto

text \<open>Appending a redirection cannot change the arguments a rule sees: stripping
  keeps plain arguments as they are, drops a glued redirection or a background sign, drops a bare
  operator together with its target, and leaves no control token behind.\<close>

theorem strip_redirections_ignores:
  assumes "list_all (\<lambda>w. classify_control_token w = CtNone) ws"
    and "classify_control_token glued = CtSelfContained"
    and "classify_control_token bare = CtBareOperator"
  shows "strip_redirections ws = ws \<and>
    strip_redirections (ws @ glued # vs) = ws @ strip_redirections vs \<and>
    strip_redirections (ws @ bare # target # vs) = ws @ strip_redirections vs \<and>
    list_all (\<lambda>w. classify_control_token w = CtNone) (strip_redirections vs) \<and>
    subseq (strip_redirections vs) vs"
  using strip_redirections_append [OF assms(1)] strip_redirections_append [OF assms(1), of "[]"]
    assms(2,3) strip_redirections_subseq strip_redirections_args
  by (simp add: list_all_iff)

lemma strip_redirections_ignores_witness:
  "strip_redirections ([''git'', ''push'', ''origin'', ''main''] @ ''2>'' # ''err.log'' # [''2>&1''])
     = [''git'', ''push'', ''origin'', ''main''] @ strip_redirections [''2>&1'']"
proof -
  have "list_all (\<lambda>w. classify_control_token w = CtNone) [''git'', ''push'', ''origin'', ''main'']"
    and "classify_control_token ''2>&1'' = CtSelfContained"
    and "classify_control_token ''2>'' = CtBareOperator"
    by code_simp+
  from strip_redirections_ignores [OF this] show ?thesis by blast
qed
end
