(* ===== verification/Hardstop.thy ===== *)
theory Hardstop
  imports Capability Shell_Laws
begin

text \<open>
  The hardcoded hard stops (\<open>crates/gommage-core/src/hardstop.rs\<close>): a table of glob patterns and
  a semantic scan of shell commands. The glob matcher of the \<open>globset\<close> crate (with
  \<open>literal_separator(false)\<close>) is the parameter \<open>is_match pattern text\<close>.
\<close>

section \<open>The pattern table\<close>

definition HARD_STOPS :: "(string \<times> string) list" where
  "HARD_STOPS =
     [(''hs.rm-rf-root'', ''proc.exec:rm -rf /*''),
      (''hs.rm-rf-root-strict'', ''proc.exec:rm -rf /''),
      (''hs.sudo-rm-rf'', ''proc.exec:sudo rm -rf *''),
      (''hs.mkfs'', ''proc.exec:mkfs*''),
      (''hs.dd-to-device'', ''proc.exec:dd if=* of=/dev/*''),
      (''hs.fork-bomb'', ''proc.exec:*:|:&*''),
      (''hs.wipe-disk'', ''proc.exec:shred /dev/*''),
      (''hs.chmod-system'', ''proc.exec:chmod -R * /'')]"

definition SEMANTIC_RM_RF_ROOT_PATTERN :: string where
  "SEMANTIC_RM_RF_ROOT_PATTERN = ''proc.exec:<shell-semantic rm -rf absolute>''"

definition SEMANTIC_DD_DEVICE_PATTERN :: string where
  "SEMANTIC_DD_DEVICE_PATTERN = ''proc.exec:<shell-semantic dd of=/dev/*>''"

record hard_stop_hit =
  hit_name :: string
  hit_pattern :: string
  hit_capability :: capability

section \<open>Destructive argument lists\<close>

record rm_flags =
  rm_recursive :: bool
  rm_force :: bool
  rm_absolute :: bool

definition short_flags :: "string \<Rightarrow> string option" where
  "short_flags arg =
     (case strip_prefix arg ''-'' of
        None \<Rightarrow> None
      | Some flags \<Rightarrow> if flags \<noteq> [] \<and> list_all is_ascii_alphabetic flags then Some flags else None)"

definition has_recursive :: "string \<Rightarrow> bool" where
  "has_recursive flags \<longleftrightarrow> CHR ''r'' \<in> set flags \<or> CHR ''R'' \<in> set flags"

definition has_force :: "string \<Rightarrow> bool" where
  "has_force flags \<longleftrightarrow> CHR ''f'' \<in> set flags"

definition rm_step :: "rm_flags \<Rightarrow> string \<Rightarrow> rm_flags" where
  "rm_step st arg =
     (if arg = ''--'' then st
      else if arg = ''--recursive'' then st\<lparr>rm_recursive := True\<rparr>
      else if arg = ''--force'' then st\<lparr>rm_force := True\<rparr>
      else
        (case short_flags arg of
           Some flags \<Rightarrow>
             st\<lparr>rm_recursive := rm_recursive st \<or> has_recursive flags,
                rm_force := rm_force st \<or> has_force flags\<rparr>
         | None \<Rightarrow> st\<lparr>rm_absolute := rm_absolute st \<or> arg = ''/'' \<or> starts_with arg ''/''\<rparr>))"

definition rm_rf_absolute :: "string list \<Rightarrow> bool" where
  "rm_rf_absolute args =
     (let st = foldl rm_step \<lparr>rm_recursive = False, rm_force = False, rm_absolute = False\<rparr> args
      in rm_recursive st \<and> rm_force st \<and> rm_absolute st)"

definition dd_writes_device :: "string list \<Rightarrow> bool" where
  "dd_writes_device args = list_ex (\<lambda>arg. starts_with arg ''of=/dev/'') args"

definition rm_rf_flags :: "string list \<Rightarrow> bool" where
  "rm_rf_flags args =
     (let flags = List.map_filter (\<lambda>arg. strip_prefix arg ''-'') args
      in list_ex has_recursive flags \<and> list_ex has_force flags)"

definition windows :: "nat \<Rightarrow> 'a list \<Rightarrow> 'a list list" where
  "windows n xs = map (\<lambda>i. take n (drop i xs)) [0..<Suc (length xs) - n]"

definition rm_window :: "string list \<Rightarrow> bool" where
  "rm_window window = (case window of [] \<Rightarrow> False | w # args \<Rightarrow> w = ''rm'' \<and> rm_rf_flags args)"

definition xargs_invokes_rm_rf :: "string list \<Rightarrow> bool" where
  "xargs_invokes_rm_rf args \<longleftrightarrow>
     list_ex rm_window (windows 3 args) \<or> list_ex rm_window (windows 2 args)"

section \<open>The semantic scan\<close>

definition is_shell :: "string \<Rightarrow> bool" where
  "is_shell cmd \<longleftrightarrow> cmd \<in> {''bash'', ''sh'', ''zsh''}"

text \<open>A scan of a command reads its substitutions, then its segments; a shell invoked with
  \<open>-c\<close> is a scan of the script. Each of these is shorter than the command it is taken from.\<close>

lemma substitution_loop_length: "c \<in> set (substitution_loop cs s d) \<Longrightarrow> length c < length cs"
proof (induction cs arbitrary: s d rule: length_induct)
  case (1 cs)
  show ?case
  proof (cases cs)
    case Nil
    with "1.prems" show ?thesis by simp
  next
    case (Cons ch rest)
    have step: "length c < Suc (length rest)"
      if "c \<in> set (substitution_loop ys s' d')" and "length ys \<le> length rest" for ys s' d'
    proof -
      from that(2) Cons have "length ys < length cs" by simp
      with "1.IH" that(1) have "length c < length ys" by blast
      with that(2) show ?thesis by simp
    qed
    have skip: "length (drop (Suc 0) rest) \<le> length rest" by simp
    have "length c < Suc (length rest)"
      using "1.prems" unfolding Cons substitution_loop.simps(2)
      by (simp split: if_splits option.splits)
        (auto dest!: read_command_substitution_length read_backtick_substitution_length
          intro: step [OF _ skip] step)
    with Cons show ?thesis by simp
  qed
qed

lemma command_substitutions_length:
  "c \<in> set (command_substitutions command) \<Longrightarrow> length c < length command"
  unfolding command_substitutions_def by (drule substitution_loop_length) simp

lemma shell_c_payload_size:
  "shell_c_payload args = Some script \<Longrightarrow> length script < words_size args"
  by (induction args) (auto split: if_splits list.splits)

lemma skip_sudo_size: "skip_sudo ws = Some ws' \<Longrightarrow> words_size ws' \<le> words_size ws"
  by (induction ws rule: skip_sudo.induct) (auto split: if_splits list.splits)

lemma skip_env_size: "words_size (skip_env ws) \<le> words_size ws"
  by (induction ws) auto

lemma drop_size: "words_size (drop n ws) \<le> words_size ws"
  by (metis append_take_drop_id le_add2 size_simps(3))

lemma skip_options_size: "words_size (skip_options fl ws) \<le> words_size ws"
proof (induction fl ws rule: skip_options.induct)
  case (2 fl w ws)
  then show ?case using drop_size [of 1 ws] by (auto intro: le_trans trans_le_add2)
qed simp

lemma command_words_size:
  "command_words ws = Some ws' \<Longrightarrow> words_size ws' \<le> words_size ws"
proof (induction ws rule: length_induct)
  case (1 ws)
  show ?case
  proof (cases ws)
    case Nil
    with "1.prems" show ?thesis by simp
  next
    case (Cons w rest)
    have step: "words_size ws' \<le> words_size rest"
      if "command_words ys = Some ws'" and "length ys \<le> length rest"
        and "words_size ys \<le> words_size rest" for ys
    proof -
      from that(2) Cons have "length ys < length ws" by simp
      with "1.IH" that(1) have "words_size ws' \<le> words_size ys" by blast
      with that(3) show ?thesis by simp
    qed
    note sizes = length_skip_env [of rest] skip_env_size [of rest] skip_options_size [of _ rest]
      length_skip_options [of _ rest] length_skip_options_drop [of _ _ rest]
      le_trans [OF drop_size skip_options_size [of _ rest]]
    have "words_size ws' \<le> words_size rest \<or> ws' = w # rest"
      using "1.prems" unfolding Cons command_words.simps(2)
      by (simp split: if_splits option.splits)
        (auto intro: step [OF _ length_skip_sudo skip_sudo_size] step sizes)
    with Cons show ?thesis by auto
  qed
qed

lemma semantic_script_size:
  assumes "command_words words = Some (cmd_token # args)" and "shell_c_payload args = Some script"
  shows "length script < words_size words"
  using command_words_size [OF assms(1)] shell_c_payload_size [OF assms(2)] by simp

text \<open>The verdict on a segment, up to the scan of a \<open>-c\<close> script.\<close>

datatype segment_verdict = VScript string | VHit "string \<times> string" | VNone

definition segment_verdict_of :: "string list \<Rightarrow> segment_verdict" where
  "segment_verdict_of words =
     (case command_words words of
        None \<Rightarrow> VNone
      | Some [] \<Rightarrow> VNone
      | Some (cmd_token # args) \<Rightarrow>
          (let cmd = head_basename cmd_token
           in case (if is_shell cmd then shell_c_payload args else None) of
                Some script \<Rightarrow> VScript script
              | None \<Rightarrow>
                  if cmd = ''xargs'' \<and> xargs_invokes_rm_rf args
                    then VHit (''hs.xargs-rm-rf'', ''proc.exec:*xargs rm -rf*'')
                  else if cmd = ''rm'' \<and> rm_rf_absolute args
                    then VHit (''hs.rm-rf-root'', SEMANTIC_RM_RF_ROOT_PATTERN)
                  else if cmd = ''dd'' \<and> dd_writes_device args
                    then VHit (''hs.dd-to-device'', SEMANTIC_DD_DEVICE_PATTERN)
                  else VNone))"

lemma segment_verdict_script_size:
  assumes "segment_verdict_of words = VScript script"
  shows "length script < words_size words"
proof -
  from assms obtain t args where "command_words words = Some (t # args)"
    and "shell_c_payload args = Some script"
    by (auto simp: segment_verdict_of_def Let_def split: option.splits list.splits if_splits)
  then show ?thesis by (rule semantic_script_size)
qed

function semantic_proc_exec_hit :: "string \<Rightarrow> (string \<times> string) option"
  and semantic_segment_hit :: "string list \<Rightarrow> (string \<times> string) option" where
  "semantic_proc_exec_hit command =
     (case find_map semantic_proc_exec_hit (command_substitutions command) of
        Some hit \<Rightarrow> Some hit
      | None \<Rightarrow> find_map semantic_segment_hit (shell_segments command))"
| "semantic_segment_hit words =
     (case segment_verdict_of words of
        VScript script \<Rightarrow> semantic_proc_exec_hit script
      | VHit hit \<Rightarrow> Some hit
      | VNone \<Rightarrow> None)"
  by pat_completeness simp_all
termination
proof (relation "measure (case_sum (\<lambda>c. 2 * length c + 1) (\<lambda>ws. 2 * words_size ws))", goal_cases)
  case (2 command sub)
  then show ?case using command_substitutions_length by simp
next
  case (3 command segment)
  then show ?case using segment_words_size by (simp add: less_Suc_eq_le)
next
  case (4 words script)
  then show ?case using segment_verdict_script_size by fastforce
qed simp

declare semantic_proc_exec_hit.simps [simp del] semantic_segment_hit.simps [simp del]

section \<open>The check\<close>

definition pattern_hit ::
  "(string \<Rightarrow> string \<Rightarrow> bool) \<Rightarrow> capability list \<Rightarrow> string \<times> string \<Rightarrow> hard_stop_hit option" where
  "pattern_hit is_match caps = (\<lambda>(name, pat).
     find_map (\<lambda>cap.
       if is_match pat cap
       then Some \<lparr>hit_name = name,
                  hit_pattern = (case map_of HARD_STOPS name of Some p \<Rightarrow> p | None \<Rightarrow> []),
                  hit_capability = cap\<rparr>
       else None) caps)"

definition semantic_cap_hit :: "capability \<Rightarrow> hard_stop_hit option" where
  "semantic_cap_hit cap =
     (if namespace cap = ''proc.exec''
      then map_option (\<lambda>(name, pattern).
             \<lparr>hit_name = name, hit_pattern = pattern, hit_capability = cap\<rparr>)
             (semantic_proc_exec_hit (payload cap))
      else None)"

definition hardstop_check ::
  "(string \<Rightarrow> string \<Rightarrow> bool) \<Rightarrow> capability list \<Rightarrow> hard_stop_hit option" where
  "hardstop_check is_match caps =
     (case find_map (pattern_hit is_match caps) HARD_STOPS of
        Some hit \<Rightarrow> Some hit
      | None \<Rightarrow> find_map semantic_cap_hit caps)"

end
