(* ===== verification/Hardstop_Laws.thy ===== *)
theory Hardstop_Laws
  imports Hardstop
begin

text \<open>
  Why the semantic scan cannot be evaded by the shape of a command: wrappers, shells with
  \<open>-c\<close>, separators, substitutions and the order or spelling of flags leave its verdict alone, and
  quoted data does not trigger it.
\<close>

section \<open>Wrappers\<close>

text \<open>The wrapper prefixes of \<open>command_words\<close> with their options.\<close>

datatype wrapper =
    WAssign string string
  | WEnv "string list"
  | WSudo "string list"
  | WNohup
  | WNice "string list"
  | WTimeout "string list" string
  | WStdbuf "string list"

definition sudo_arg_flags :: "string list" where
  "sudo_arg_flags = [''-u'', ''--user'', ''-g'', ''--group'', ''-h'', ''--host'']"

fun options_ok :: "string list \<Rightarrow> string list \<Rightarrow> bool" where
  "options_ok takes_arg [] = True"
| "options_ok takes_arg (w # ws) =
     (starts_with w ''-'' \<and>
      (if w \<in> set takes_arg then (case ws of [] \<Rightarrow> False | _ # ws' \<Rightarrow> options_ok takes_arg ws')
       else options_ok takes_arg ws))"

fun wrapper_ok :: "wrapper \<Rightarrow> bool" where
  "wrapper_ok (WAssign name val) = is_assignment (name @ ''='' @ val)"
| "wrapper_ok (WEnv ws) = list_all (\<lambda>w. is_assignment w \<or> starts_with w ''-'') ws"
| "wrapper_ok (WSudo ws) = options_ok sudo_arg_flags ws"
| "wrapper_ok WNohup = True"
| "wrapper_ok (WNice ws) = options_ok [''-n''] ws"
| "wrapper_ok (WTimeout ws d) = (options_ok [''-s'', ''--signal'', ''-k''] ws \<and> \<not> starts_with d ''-'')"
| "wrapper_ok (WStdbuf ws) = options_ok [''-i'', ''-o'', ''-e''] ws"

fun wrap :: "wrapper \<Rightarrow> string list \<Rightarrow> string list" where
  "wrap (WAssign name val) ws = (name @ ''='' @ val) # ws"
| "wrap (WEnv opts) ws = ''env'' # opts @ ws"
| "wrap (WSudo opts) ws = ''sudo'' # opts @ ws"
| "wrap WNohup ws = ''nohup'' # ws"
| "wrap (WNice opts) ws = ''nice'' # opts @ ws"
| "wrap (WTimeout opts d) ws = ''timeout'' # opts @ d # ws"
| "wrap (WStdbuf opts) ws = ''stdbuf'' # opts @ ws"

definition wrapper_names :: "string list" where
  "wrapper_names = [''sudo'', ''env'', ''nohup'', ''nice'', ''timeout'', ''stdbuf'']"

definition real_command :: "string \<Rightarrow> bool" where
  "real_command cmd \<longleftrightarrow>
     \<not> starts_with cmd ''-'' \<and> \<not> is_assignment cmd \<and> cmd \<notin> set wrapper_names"

definition not_flag_head :: "string list \<Rightarrow> bool" where
  "not_flag_head ws = (case ws of [] \<Rightarrow> False | w # _ \<Rightarrow> \<not> starts_with w ''-'')"

lemma skip_options_ok:
  "options_ok fl opts \<Longrightarrow> not_flag_head ws \<Longrightarrow> skip_options fl (opts @ ws) = ws"
proof (induction fl opts rule: options_ok.induct)
  case (1 fl)
  then show ?case by (cases ws) (auto simp: not_flag_head_def)
next
  case (2 fl w opts)
  show ?case
  proof (cases "w \<in> set fl")
    case True
    with 2 show ?thesis by (cases opts) simp_all
  next
    case False
    with 2 show ?thesis by simp
  qed
qed

lemma skip_sudo_Cons:
  "skip_sudo (w # ws) =
     (if starts_with w ''-'' then
        (if w \<in> set sudo_arg_flags then (case ws of [] \<Rightarrow> None | _ # ws' \<Rightarrow> skip_sudo ws')
         else skip_sudo ws)
      else Some (w # ws))"
  by (simp only: skip_sudo.simps sudo_arg_flags_def list.set)

lemma skip_sudo_ok:
  "options_ok sudo_arg_flags opts \<Longrightarrow> not_flag_head ws \<Longrightarrow> skip_sudo (opts @ ws) = Some ws"
proof (induction sudo_arg_flags opts rule: options_ok.induct)
  case 1
  then show ?case by (cases ws) (auto simp: not_flag_head_def skip_sudo_Cons simp del: skip_sudo.simps(2))
next
  case (2 w opts)
  show ?case
  proof (cases "w \<in> set sudo_arg_flags")
    case True
    with 2 show ?thesis
      by (cases opts) (simp_all add: skip_sudo_Cons del: skip_sudo.simps(2))
  next
    case False
    with 2 show ?thesis by (simp add: skip_sudo_Cons del: skip_sudo.simps(2))
  qed
qed

lemma skip_env_ok:
  "list_all (\<lambda>w. is_assignment w \<or> starts_with w ''-'') opts \<Longrightarrow> skip_env (opts @ ws) = skip_env ws"
  by (induction opts) auto

lemma assignment_head:
  assumes "is_assignment w"
  shows "\<not> starts_with w ''-''" and "w \<notin> set wrapper_names"
proof -
  from assms obtain c cs rest where w: "split_once (CHR ''='') w = Some (c # cs, rest)"
    and c: "c = CHR ''_'' \<or> is_ascii_alphabetic c"
    by (auto simp: is_assignment_def split: option.splits prod.splits list.splits)
  then have eq: "w = c # cs @ CHR ''='' # rest" by (simp add: split_once_Some_iff)
  from c have "c \<noteq> CHR ''-''" by (auto simp: char_class_defs)
  with eq show "\<not> starts_with w ''-''" by simp
  from eq have "CHR ''='' \<in> set w" by simp
  then show "w \<notin> set wrapper_names" by (auto simp: wrapper_names_def)
qed

lemma command_words_real: "real_command cmd \<Longrightarrow> command_words (cmd # args) = Some (cmd # args)"
  by (subst command_words.simps) (auto simp: real_command_def wrapper_names_def)

lemma command_words_assignment:
  "is_assignment w \<Longrightarrow> command_words (w # ws) = command_words ws"
  using assignment_head(2) [of w] by (subst command_words.simps) (auto simp: wrapper_names_def)

text \<open>What the words of a wrapped command have in common.\<close>

definition unwraps_to :: "string list \<Rightarrow> string list \<Rightarrow> bool" where
  "unwraps_to ws real \<longleftrightarrow>
     not_flag_head ws \<and> command_words ws = Some real \<and> command_words (skip_env ws) = Some real"

lemma not_assignment_names: "w \<in> set wrapper_names \<Longrightarrow> \<not> is_assignment w"
  using assignment_head(2) by blast

lemma unwraps_to_wrap:
  assumes ok: "wrapper_ok w" and unw: "unwraps_to ws real"
  shows "unwraps_to (wrap w ws) real"
proof -
  have head: "not_flag_head ws" and cw: "command_words ws = Some real"
    and env: "command_words (skip_env ws) = Some real"
    using unw by (auto simp: unwraps_to_def)
  have keep: "unwraps_to (n # xs) real"
    if "n \<in> set wrapper_names" and "command_words (n # xs) = Some real" for n xs
  proof -
    have "\<not> starts_with n ''-''" using that(1) by (auto simp: wrapper_names_def)
    with that not_assignment_names [OF that(1)] show ?thesis
      by (simp add: unwraps_to_def not_flag_head_def)
  qed
  show ?thesis
  proof (cases w)
    case (WAssign name val)
    with ok head cw env assignment_head(1) [of "name @ ''='' @ val"] show ?thesis
      by (simp add: unwraps_to_def not_flag_head_def command_words_assignment)
  next
    case (WTimeout opts d)
    with ok have "skip_options [''-s'', ''--signal'', ''-k''] (opts @ d # ws) = d # ws"
      by (intro skip_options_ok) (auto simp: not_flag_head_def)
    with WTimeout cw show ?thesis
      by (auto intro!: keep simp: wrapper_names_def command_words.simps(2))
  qed (use ok head cw env in
      \<open>auto intro!: keep simp: wrapper_names_def command_words.simps(2) skip_env_ok
         skip_options_ok skip_sudo_ok\<close>)
qed

lemma unwraps_to_foldr:
  assumes "real_command cmd" and "list_all wrapper_ok ws"
  shows "unwraps_to (foldr wrap ws (cmd # args)) (cmd # args)"
  using assms(2)
proof (induction ws)
  case Nil
  have "skip_env (cmd # args) = cmd # args" using assms(1) by (simp add: real_command_def)
  with assms(1) show ?case
    by (auto simp: unwraps_to_def not_flag_head_def command_words_real real_command_def)
next
  case (Cons w ws)
  then show ?case by (simp add: unwraps_to_wrap)
qed

lemma segment_verdict_cong:
  "command_words ws = command_words ws' \<Longrightarrow> semantic_segment_hit ws = semantic_segment_hit ws'"
  by (simp add: semantic_segment_hit.simps segment_verdict_of_def)

text \<open>Wrapper prefixes are transparent: however many assignments, \<open>env\<close>, \<open>sudo\<close>,
  \<open>nohup\<close>, \<open>nice\<close>, \<open>timeout\<close> and \<open>stdbuf\<close> prefixes, with their options, stand before a command,
  the hard-stop verdict on the segment is that on the bare command.\<close>

theorem wrappers_transparent:
  assumes "real_command cmd" and "list_all wrapper_ok ws"
  shows "command_words (foldr wrap ws (cmd # args)) = Some (cmd # args) \<and>
    semantic_segment_hit (foldr wrap ws (cmd # args)) = semantic_segment_hit (cmd # args)"
  using unwraps_to_foldr [OF assms] command_words_real [OF assms(1), of args]
  by (auto simp: unwraps_to_def intro!: segment_verdict_cong)

lemma wrappers_transparent_witness:
  "semantic_segment_hit [''sudo'', ''-u'', ''root'', ''env'', ''A=b'', ''timeout'', ''5s'', ''rm'', ''-rf'', ''/'']
     = Some (''hs.rm-rf-root'', SEMANTIC_RM_RF_ROOT_PATTERN)"
proof -
  let ?ws = "[WSudo [''-u'', ''root''], WEnv [''A=b''], WTimeout [] ''5s'']"
  have "real_command ''rm''" "list_all wrapper_ok ?ws" by code_simp+
  from wrappers_transparent [OF this, of "[''-rf'', ''/'']"]
  have "semantic_segment_hit (foldr wrap ?ws [''rm'', ''-rf'', ''/'']) = semantic_segment_hit [''rm'', ''-rf'', ''/'']"
    by blast
  moreover have "semantic_segment_hit [''rm'', ''-rf'', ''/'']
      = Some (''hs.rm-rf-root'', SEMANTIC_RM_RF_ROOT_PATTERN)"
    by code_simp
  ultimately show ?thesis by simp
qed

section \<open>Shells, separators and substitutions\<close>

lemma shell_c_payload_found:
  "list_all (\<lambda>w. starts_with w ''-'' \<and> w \<noteq> ''-c'') flags \<Longrightarrow>
     shell_c_payload (flags @ ''-c'' # script # rest) = Some script"
  by (induction flags) auto

text \<open>A shell invoked with \<open>-c\<close>, by name or by path and after any other flags, has the
  verdict of its script.\<close>

theorem shell_script_transparent:
  assumes "real_command shell" and "is_shell (head_basename shell)"
    and "list_all (\<lambda>w. starts_with w ''-'' \<and> w \<noteq> ''-c'') flags"
  shows "semantic_segment_hit (shell # flags @ ''-c'' # script # rest) = semantic_proc_exec_hit script"
  using assms
  by (simp add: semantic_segment_hit.simps [of "shell # _"] segment_verdict_of_def
      command_words_real shell_c_payload_found)

lemma shell_script_transparent_witness:
  "semantic_segment_hit [''/bin/bash'', ''-x'', ''-c'', ''cd /; rm -fr /''] =
     semantic_proc_exec_hit ''cd /; rm -fr /''"
  using shell_script_transparent [of "''/bin/bash''" "[''-x'']" "''cd /; rm -fr /''" "[]"]
  by code_simp

lemma semantic_segments_hit:
  "find_map semantic_segment_hit (shell_segments command) \<noteq> None \<Longrightarrow>
     semantic_proc_exec_hit command \<noteq> None"
  by (subst semantic_proc_exec_hit.simps) (auto split: option.splits)

lemma semantic_substitution_hit:
  "sub \<in> set (command_substitutions command) \<Longrightarrow> semantic_proc_exec_hit sub \<noteq> None \<Longrightarrow>
     semantic_proc_exec_hit command \<noteq> None"
  using find_map_hit [of sub "command_substitutions command" semantic_proc_exec_hit]
  by (subst semantic_proc_exec_hit.simps) (auto split: option.splits)

lemma hardstop_check_semantic:
  assumes "proc_exec command \<in> set caps" and "semantic_proc_exec_hit command \<noteq> None"
  shows "hardstop_check is_match caps \<noteq> None"
proof -
  have "semantic_cap_hit (proc_exec command) \<noteq> None"
    using assms(2) by (auto simp: semantic_cap_hit_def)
  with assms(1) have "find_map semantic_cap_hit caps \<noteq> None"
    by (rule find_map_hit)
  then show ?thesis
    by (auto simp: hardstop_check_def split: option.splits)
qed

text \<open>No separator hides a destructive command: when a segment of \<open>a\<close> or of \<open>b\<close> is a hit,
  a \<open>proc.exec\<close> capability of the compound of both is a hard stop, whatever the rest of the
  capabilities and whatever the glob matcher answers.\<close>

theorem compound_stays_hard_stop:
  assumes "\<not> contains_str (a @ sep @ b) ''<<''" and "closed_from a False False" and "is_break sep"
    and "find_map semantic_segment_hit (shell_segments a) \<noteq> None \<or>
         find_map semantic_segment_hit (shell_segments b) \<noteq> None"
    and "proc_exec (a @ sep @ b) \<in> set caps"
  shows "hardstop_check is_match caps \<noteq> None"
proof (rule hardstop_check_semantic [OF assms(5)], rule semantic_segments_hit)
  show "find_map semantic_segment_hit (shell_segments (a @ sep @ b)) \<noteq> None"
    using segments_of_break [OF assms(1-3)] assms(4)
    by (auto simp: find_map_append split: option.splits)
qed

lemma compound_stays_hard_stop_witness:
  "hardstop_check (\<lambda>p t. False) [proc_exec (''cd /tmp'' @ '' && '' @ ''sudo rm -r -f /'')] \<noteq> None"
proof (rule compound_stays_hard_stop)
  show "\<not> contains_str (''cd /tmp'' @ '' && '' @ ''sudo rm -r -f /'') ''<<''" by code_simp
  show "closed_from ''cd /tmp'' False False" "is_break '' && ''" by code_simp+
  show "find_map semantic_segment_hit (shell_segments ''cd /tmp'') \<noteq> None \<or>
      find_map semantic_segment_hit (shell_segments ''sudo rm -r -f /'') \<noteq> None"
    by code_simp
qed simp

definition no_quote_paren :: "char \<Rightarrow> bool" where
  "no_quote_paren c \<longleftrightarrow>
     c \<noteq> CHR 0x27 \<and> c \<noteq> CHR 0x22 \<and> c \<noteq> CHR ''('' \<and> c \<noteq> CHR '')'' \<and> c \<noteq> CHR 0x60"

definition no_substitution :: "char \<Rightarrow> bool" where
  "no_substitution c \<longleftrightarrow>
     c \<noteq> CHR 0x27 \<and> c \<noteq> CHR 0x22 \<and> c \<noteq> CHR 0x5C \<and> c \<noteq> CHR ''$'' \<and> c \<noteq> CHR 0x60"

lemma read_balanced:
  "list_all no_quote_paren inner \<Longrightarrow>
     read_command_substitution (inner @ CHR '')'' # post) (Suc 0) False False = Some (inner, post)"
  by (induction inner) (auto simp: no_quote_paren_def)

lemma read_backtick_body:
  "list_all no_quote_paren inner \<Longrightarrow>
     read_backtick_substitution (inner @ CHR 0x60 # post) = Some (inner, post)"
  by (auto simp: read_backtick_substitution_def split_once_Some_iff no_quote_paren_def list_all_iff)

lemma substitution_loop_skip:
  "list_all no_substitution pre \<Longrightarrow>
     substitution_loop (pre @ rest) False d = substitution_loop rest False d"
  by (induction pre) (auto simp: no_substitution_def substitution_loop.simps(2))

lemma substitution_found:
  assumes "list_all no_substitution pre" and "list_all no_quote_paren inner"
  shows "inner \<in> set (substitution_loop (pre @ ''$('' @ inner @ '')'' @ post) False d)"
    and "inner \<in> set (substitution_loop (pre @ [CHR 0x60] @ inner @ [CHR 0x60] @ post) False d)"
  using assms
  by (simp_all add: substitution_loop_skip substitution_loop.simps(2) read_balanced read_backtick_body)

text \<open>Substitutions are scanned: a destructive command inside \<open>$( )\<close> or backticks makes the
  command that contains it a hard stop, inside or outside double quotes.\<close>

theorem substitution_stays_hard_stop:
  assumes "list_all no_substitution pre" and "list_all no_quote_paren inner"
    and "semantic_proc_exec_hit inner \<noteq> None"
    and "cmd = pre @ ''$('' @ inner @ '')'' @ post \<or>
         cmd = pre @ [CHR 0x22] @ ''$('' @ inner @ '')'' @ post \<or>
         cmd = pre @ [CHR 0x60] @ inner @ [CHR 0x60] @ post"
    and "\<not> contains_str cmd ''<<''" and "proc_exec cmd \<in> set caps"
  shows "hardstop_check is_match caps \<noteq> None"
proof (rule hardstop_check_semantic [OF assms(6)], rule semantic_substitution_hit [OF _ assms(3)])
  have "substitution_loop (pre @ [CHR 0x22] @ rest) False False = substitution_loop rest False True"
    for rest
    using assms(1) by (simp add: substitution_loop_skip substitution_loop.simps(2))
  then show "inner \<in> set (command_substitutions cmd)"
    using assms(4,5) substitution_found [OF assms(1,2), of post False]
      substitution_found(1) [of "[]", OF _ assms(2), of post True]
    by (auto simp: command_substitutions_def)
qed

lemma substitution_stays_hard_stop_witness:
  "hardstop_check (\<lambda>p t. False) [proc_exec ''echo $(rm -rf /)''] \<noteq> None"
proof (rule substitution_stays_hard_stop [of "''echo ''" "''rm -rf /''" _ "[]"])
  show "list_all no_substitution ''echo ''" "list_all no_quote_paren ''rm -rf /''"
    "semantic_proc_exec_hit ''rm -rf /'' \<noteq> None" "\<not> contains_str ''echo $(rm -rf /)'' ''<<''"
    by code_simp+
qed simp_all

section \<open>Flags in any order and spelling\<close>

definition is_rm_recursive :: "string \<Rightarrow> bool" where
  "is_rm_recursive arg \<longleftrightarrow> arg = ''--recursive'' \<or> (\<exists>flags. short_flags arg = Some flags \<and> has_recursive flags)"

definition is_rm_force :: "string \<Rightarrow> bool" where
  "is_rm_force arg \<longleftrightarrow> arg = ''--force'' \<or> (\<exists>flags. short_flags arg = Some flags \<and> has_force flags)"

lemma short_flags_shape:
  "short_flags (CHR ''-'' # CHR ''-'' # s) = None" "short_flags (CHR ''/'' # s) = None"
  by (auto simp: short_flags_def char_class_defs)

lemma rm_step_shape:
  "rm_recursive (rm_step st arg) \<longleftrightarrow> rm_recursive st \<or> is_rm_recursive arg"
  "rm_force (rm_step st arg) \<longleftrightarrow> rm_force st \<or> is_rm_force arg"
  "rm_absolute (rm_step st arg) \<longleftrightarrow> rm_absolute st \<or> starts_with arg ''/''"
proof -
  have abs: "\<not> starts_with arg ''/''" if "short_flags arg = Some flags" for flags
    using that by (cases arg) (auto simp: short_flags_shape)
  show "rm_recursive (rm_step st arg) \<longleftrightarrow> rm_recursive st \<or> is_rm_recursive arg"
    "rm_force (rm_step st arg) \<longleftrightarrow> rm_force st \<or> is_rm_force arg"
    by (auto simp: rm_step_def is_rm_recursive_def is_rm_force_def short_flags_shape
        split: option.split)
  show "rm_absolute (rm_step st arg) \<longleftrightarrow> rm_absolute st \<or> starts_with arg ''/''"
    by (auto simp: rm_step_def short_flags_shape split: option.split dest: abs)
qed

lemma rm_fold_shape:
  "rm_recursive (foldl rm_step st args) \<longleftrightarrow> rm_recursive st \<or> (\<exists>a \<in> set args. is_rm_recursive a)"
  "rm_force (foldl rm_step st args) \<longleftrightarrow> rm_force st \<or> (\<exists>a \<in> set args. is_rm_force a)"
  "rm_absolute (foldl rm_step st args) \<longleftrightarrow> rm_absolute st \<or> (\<exists>a \<in> set args. starts_with a ''/'')"
  by (induction args arbitrary: st) (auto simp: rm_step_shape)

text \<open>An \<open>rm\<close> is destructive exactly when some argument asks for recursion, some argument
  for force and some argument is an absolute path: short or long flags, joined or apart, in any
  order.\<close>

theorem rm_rf_absolute_iff:
  "rm_rf_absolute args \<longleftrightarrow>
     list_ex (\<lambda>a. a = ''--recursive'' \<or> (\<exists>fl. short_flags a = Some fl \<and> has_recursive fl)) args \<and>
     list_ex (\<lambda>a. a = ''--force'' \<or> (\<exists>fl. short_flags a = Some fl \<and> has_force fl)) args \<and>
     list_ex (\<lambda>a. starts_with a ''/'') args"
  by (simp add: rm_rf_absolute_def Let_def rm_fold_shape is_rm_recursive_def is_rm_force_def
      list_ex_iff)

section \<open>Quoted data\<close>

lemma substitution_loop_quoted_body:
  "substitution_loop (concat (map quote_char w) @ rest) True False = substitution_loop rest True False"
  by (induction w) (auto simp: quote_char_def substitution_loop.simps(2))

lemma substitution_loop_quoted_word:
  "substitution_loop (quote_word w @ rest) False False = substitution_loop rest False False"
  by (simp add: quote_word_def substitution_loop_quoted_body substitution_loop.simps(2))

lemma substitution_loop_quoted_words:
  "substitution_loop (join '' '' (map quote_word ws)) False False = []"
proof (induction ws rule: induct_list012)
  case (2 w)
  then show ?case using substitution_loop_quoted_word [of w "[]"] by simp
next
  case (3 w v ws)
  then show ?case by (simp add: substitution_loop_quoted_word substitution_loop.simps(2))
qed simp

text \<open>Quoted data is never taken for a command: a harmless command whose words are written
  in shell quotes is no semantic hit, whatever destructive text its arguments quote.\<close>

theorem quoted_data_is_no_hit:
  assumes "real_command cmd" and "head_basename cmd \<notin> {''bash'', ''sh'', ''zsh'', ''xargs'', ''rm'', ''dd''}"
    and "cmd \<noteq> []" and "[] \<notin> set args"
    and "\<not> contains_str (join '' '' (map quote_word (cmd # args))) ''<<''"
  shows "semantic_proc_exec_hit (join '' '' (map quote_word (cmd # args))) = None"
proof -
  let ?c = "join '' '' (map quote_word (cmd # args))"
  have "shell_segments ?c = [cmd # args]"
    using assms(3-5) by (intro segments_of_quoted) auto
  moreover have "command_substitutions ?c = []"
    using assms(5) by (simp add: command_substitutions_def substitution_loop_quoted_words del: list.map)
  moreover have "semantic_segment_hit (cmd # args) = None"
    using assms(1,2)
    by (simp add: semantic_segment_hit.simps segment_verdict_of_def command_words_real is_shell_def)
  ultimately show ?thesis by (simp add: semantic_proc_exec_hit.simps del: list.map)
qed

lemma quoted_data_is_no_hit_witness:
  "semantic_proc_exec_hit (join '' '' (map quote_word [''echo'', ''; rm -rf / && $(rm -rf /)''])) = None"
  by (rule quoted_data_is_no_hit) code_simp+

end
