(* ===== verification/Files.thy ===== *)
theory Files
  imports Extern
begin

text \<open>
  Errors (\<open>crates/gommage-core/src/error.rs\<close>), paths and the part of \<open>std::fs\<close> that the
  loaders call. A path is the list of its components, an absolute one starting with the root
  component \<open>''/''\<close>; a file system is what its calls answer, so a definition that reads files takes
  the file system as an argument. An input/output error is its message.
\<close>

section \<open>Errors\<close>

datatype gommage_error =
    Io string
  | Yaml string
  | Json string
  | Glob string string
  | Regex string string
  | Sqlite string
  | BadSignature
  | PictoUnusable string string
  | InvalidPicto string
  | PolicyError string
  | MapperError string

fun error_text :: "gommage_error \<Rightarrow> string" where
  "error_text (Io e) = ''io error: '' @ e"
| "error_text (Yaml e) = ''yaml error: '' @ e"
| "error_text (Json e) = ''json error: '' @ e"
| "error_text (Glob pattern e) = ''invalid glob pattern '' @ debug_str pattern @ '': '' @ e"
| "error_text (Regex pattern e) = ''invalid regex '' @ debug_str pattern @ '': '' @ e"
| "error_text (Sqlite e) = ''sqlite error: '' @ e"
| "error_text BadSignature = ''signature verification failed''"
| "error_text (PictoUnusable i reason) = ''picto '' @ i @ '' is '' @ reason"
| "error_text (InvalidPicto e) = ''invalid picto: '' @ e"
| "error_text (PolicyError e) = ''policy error: '' @ e"
| "error_text (MapperError e) = ''mapper error: '' @ e"

definition map_err :: "('e \<Rightarrow> 'f) \<Rightarrow> ('e, 'a) result \<Rightarrow> ('f, 'a) result" where
  "map_err f r = (case r of Err e \<Rightarrow> Err (f e) | Ok x \<Rightarrow> Ok x)"

lemma map_err_simps [simp, res_simps]:
  "map_err f (Err e) = Err (f e)" "map_err f (Ok x) = Ok x"
  by (simp_all add: map_err_def)

lemma map_err_Ok_iff: "map_err f r = Ok x \<longleftrightarrow> r = Ok x"
  by (cases r) auto

section \<open>Paths\<close>

type_synonym path = "string list"

text \<open>\<open>PathBuf::from\<close>: repeated separators and inner \<open>.\<close> components vanish.\<close>

definition path_of :: "string \<Rightarrow> path" where
  "path_of s =
     (if starts_with s ''/''
      then ''/'' # filter (\<lambda>c. c \<noteq> [] \<and> c \<noteq> ''.'') (split_on (CHR ''/'') s)
      else
        (let cs = split_on (CHR ''/'') s
         in (if hd cs = ''.'' then [''.''] else []) @ filter (\<lambda>c. c \<noteq> [] \<and> c \<noteq> ''.'') cs))"

definition path_text :: "path \<Rightarrow> string" where
  "path_text p =
     (case p of
        [] \<Rightarrow> []
      | c # cs \<Rightarrow> if c = ''/'' then ''/'' @ join ''/'' cs else join ''/'' p)"

definition path_join :: "path \<Rightarrow> string \<Rightarrow> path" where
  "path_join p s = (if starts_with s ''/'' then path_of s else p @ path_of s)"

text \<open>\<open>Path::strip_prefix\<close>, by components.\<close>

fun strip_path :: "path \<Rightarrow> path \<Rightarrow> path option" where
  "strip_path p [] = Some p"
| "strip_path [] (c # cs) = None"
| "strip_path (d # ds) (c # cs) = (if d = c then strip_path ds cs else None)"

lemma strip_path_append [simp]: "strip_path (root @ p) root = Some p"
  by (induction root) auto

text \<open>\<open>Path::extension\<close> of the last component.\<close>

definition extension :: "path \<Rightarrow> string option" where
  "extension p =
     (if p = [] \<or> last p = ''..'' then None
      else case rsplit_once (CHR ''.'') (last p) of
             None \<Rightarrow> None
           | Some (stem, ext) \<Rightarrow> if stem = [] then None else Some ext)"

section \<open>The file system\<close>

record fs =
  fs_exists :: "path \<Rightarrow> bool"
  fs_is_dir :: "path \<Rightarrow> bool"
  fs_is_file :: "path \<Rightarrow> bool"
  fs_read_dir :: "path \<Rightarrow> (string, (string, path) result list) result"
  fs_read :: "path \<Rightarrow> (string, string) result"

text \<open>\<open>for entry in fs::read_dir(dir)? { let entry = entry?; \<dots> }\<close>: the paths in a directory, or
  the first error.\<close>

definition read_dir_paths :: "fs \<Rightarrow> path \<Rightarrow> (gommage_error, path list) result" where
  "read_dir_paths F dir =
     and_then (map_err Io (fs_read_dir F dir)) (\<lambda>entries. map_err Io (collect_results entries))"

definition yaml_extension :: "path \<Rightarrow> bool" where
  "yaml_extension p \<longleftrightarrow> (case extension p of None \<Rightarrow> False | Some e \<Rightarrow> e = ''yaml'' \<or> e = ''yml'')"

text \<open>The YAML files of a directory, sorted: the common part of the policy and capability
  loaders. A directory that does not exist has none.\<close>

definition yaml_files :: "fs \<Rightarrow> path \<Rightarrow> (gommage_error, path list) result" where
  "yaml_files F dir =
     (if fs_exists F dir
      then and_then (read_dir_paths F dir)
             (\<lambda>ps. Ok (sort (filter (\<lambda>p. fs_is_file F p \<and> yaml_extension p) ps)))
      else Ok [])"

lemma yaml_files_sorted: "yaml_files F dir = Ok ps \<Longrightarrow> sorted ps"
  by (auto simp: yaml_files_def and_then_Ok_iff split: if_splits)

lemma yaml_files_mem:
  "yaml_files F dir = Ok ps \<Longrightarrow> p \<in> set ps \<Longrightarrow> fs_is_file F p \<and> yaml_extension p"
  by (auto simp: yaml_files_def and_then_Ok_iff split: if_splits)

section \<open>Environment substitution\<close>

text \<open>\<open>substitute_env\<close> of \<open>policy.rs\<close>. Its regular expression
  \<open>\$\{([A-Z_][A-Z0-9_]*)(?::-([^}]*))?\}\<close> is deterministic: the characters that end a name
  cannot continue it. \<open>parse_var\<close> matches it after \<open>${\<close>, giving the name, the default and what
  follows the closing brace.\<close>

definition var_start :: "char \<Rightarrow> bool" where
  "var_start c \<longleftrightarrow> is_ascii_uppercase c \<or> c = CHR ''_''"

definition var_char :: "char \<Rightarrow> bool" where
  "var_char c \<longleftrightarrow> is_ascii_uppercase c \<or> is_ascii_digit c \<or> c = CHR ''_''"

definition parse_var :: "string \<Rightarrow> (string \<times> string \<times> string) option" where
  "parse_var s =
     (let name = takeWhile var_char s; rest = dropWhile var_char s
      in if name = [] \<or> \<not> var_start (hd name) then None
         else case strip_prefix rest ''}'' of
                Some post \<Rightarrow> Some (name, [], post)
              | None \<Rightarrow>
                  (case strip_prefix rest '':-'' of
                     None \<Rightarrow> None
                   | Some def \<Rightarrow>
                       (case split_once (CHR ''}'') def of
                          None \<Rightarrow> None
                        | Some (d, post) \<Rightarrow> Some (name, d, post))))"

lemma parse_var_length: "parse_var s = Some (name, d, post) \<Longrightarrow> length post < length s"
proof -
  assume a: "parse_var s = Some (name, d, post)"
  have le: "length (dropWhile var_char s) \<le> length s" by (rule length_dropWhile_le)
  from a have "length post < length (dropWhile var_char s)"
    by (auto simp: parse_var_def Let_def strip_prefix_Some_iff split_once_Some_iff
        split: if_splits option.splits)
  with le show ?thesis by simp
qed

type_synonym env = "string \<Rightarrow> string option"

definition env_value :: "env \<Rightarrow> string \<Rightarrow> string \<Rightarrow> string" where
  "env_value env name d = (case env name of Some v \<Rightarrow> v | None \<Rightarrow> d)"

function substitute_env :: "string \<Rightarrow> env \<Rightarrow> string" where
  "substitute_env [] env = []"
| "substitute_env (c # s) env =
     (case (case strip_prefix (c # s) ''${'' of None \<Rightarrow> None | Some t \<Rightarrow> parse_var t) of
        Some (name, d, post) \<Rightarrow> env_value env name d @ substitute_env post env
      | None \<Rightarrow> c # substitute_env s env)"
  by pat_completeness auto
termination
  by (relation "measure (\<lambda>(s, env). length s)")
    (auto split: option.splits if_splits dest!: parse_var_length simp: strip_prefix_Some_iff)

declare substitute_env.simps(2) [simp del]

lemma substitute_env_plain:
  "CHR ''$'' \<notin> set pre \<Longrightarrow> substitute_env (pre @ s) env = pre @ substitute_env s env"
  by (induction pre) (auto simp: substitute_env.simps(2))

definition var_name :: "string \<Rightarrow> bool" where
  "var_name name \<longleftrightarrow> name \<noteq> [] \<and> var_start (hd name) \<and> list_all var_char name"

lemma not_var_char [simp]: "\<not> var_char (CHR ''}'')" "\<not> var_char (CHR '':'')"
  by (simp_all add: var_char_def char_class_defs)

lemma parse_var_name:
  assumes "var_name name"
  shows "parse_var (name @ ''}'' @ post) = Some (name, [], post)"
    and "CHR ''}'' \<notin> set d \<Longrightarrow> parse_var (name @ '':-'' @ d @ ''}'' @ post) = Some (name, d, post)"
proof -
  have "takeWhile var_char (name @ c # s) = name" "dropWhile var_char (name @ c # s) = c # s"
    if "\<not> var_char c" for c s
    using assms that by (auto simp: var_name_def list_all_iff takeWhile_append dropWhile_append)
  then show "parse_var (name @ ''}'' @ post) = Some (name, [], post)"
    and "CHR ''}'' \<notin> set d \<Longrightarrow> parse_var (name @ '':-'' @ d @ ''}'' @ post) = Some (name, d, post)"
    using assms split_once_Some_iff [of "CHR ''}''" "d @ CHR ''}'' # post" d post]
    by (auto simp: parse_var_def Let_def var_name_def)
qed

section \<open>A file system in memory\<close>

text \<open>A finite set of files as a file system, for the concrete examples.\<close>

definition memory_fs :: "(path \<times> string) list \<Rightarrow> fs" where
  "memory_fs files =
     \<lparr>fs_exists = (\<lambda>p. list_ex (\<lambda>(q, _). prefix p q) files),
      fs_is_dir = (\<lambda>p. list_ex (\<lambda>(q, _). prefix p q \<and> p \<noteq> q) files),
      fs_is_file = (\<lambda>p. map_of files p \<noteq> None),
      fs_read_dir = (\<lambda>p. Ok (map (\<lambda>(q, _). Ok q) (filter (\<lambda>(q, _). q \<noteq> [] \<and> butlast q = p) files))),
      fs_read = (\<lambda>p. case map_of files p of Some t \<Rightarrow> Ok t | None \<Rightarrow> Err ''No such file'')\<rparr>"

end
