(* ===== verification/Policy.thy ===== *)
theory Policy
  imports Files Capability
begin

text \<open>
  Policies (\<open>crates/gommage-core/src/policy.rs\<close>): raw rules, their validation and compilation,
  the match clause, loading from a directory and from ordered layers, and the version hash.
  The YAML parser and the glob compiler are the record \<open>policy_lib\<close>; a compiled glob is the
  predicate it decides.
\<close>

section \<open>Rules\<close>

datatype rule_decision = RuleAllow | RuleGommage | RuleAskPicto

record raw_match =
  raw_any :: "string list"
  raw_all :: "string list"
  raw_none :: "string list"

record raw_rule =
  raw_name :: string
  raw_decision :: rule_decision
  raw_hard_stop :: bool
  raw_required_scope :: "string option"
  raw_bind_input :: bool
  raw_match :: raw_match
  raw_reason :: string

type_synonym glob = "string \<Rightarrow> bool"

record match_clause =
  any_capability :: "glob list"
  all_capability :: "glob list"
  none_capability :: "glob list"

record rule =
  rule_name :: string
  rule_decision :: rule_decision
  rule_hard_stop :: bool
  rule_required_scope :: "string option"
  rule_bind_input :: bool
  rule_match :: match_clause
  rule_reason :: string
  source_file :: path
  source_index :: nat

record policy =
  policy_rules :: "rule list"
  policy_version :: string

record policy_lib =
  glob_compile :: "string \<Rightarrow> (string, glob) result"
  yaml_rules :: "string \<Rightarrow> (string, raw_rule list) result"

definition matches :: "match_clause \<Rightarrow> capability list \<Rightarrow> bool" where
  "matches m caps =
     (let any_ok = any_capability m = [] \<or>
                   list_ex (\<lambda>p. list_ex p caps) (any_capability m)
      in if \<not> any_ok then False
         else
           (let all_ok = list_all (\<lambda>p. list_ex p caps) (all_capability m)
            in if \<not> all_ok then False
               else list_all (\<lambda>p. \<not> list_ex p caps) (none_capability m)))"

section \<open>Compilation\<close>

definition compile_globs :: "policy_lib \<Rightarrow> string list \<Rightarrow> (gommage_error, glob list) result" where
  "compile_globs L pats = collect_results (map (\<lambda>p. map_err (Glob p) (glob_compile L p)) pats)"

definition compile_match :: "policy_lib \<Rightarrow> raw_match \<Rightarrow> (gommage_error, match_clause) result" where
  "compile_match L m =
     and_then (compile_globs L (raw_any m)) (\<lambda>any.
     and_then (compile_globs L (raw_all m)) (\<lambda>all.
     and_then (compile_globs L (raw_none m)) (\<lambda>none.
       Ok \<lparr>any_capability = any, all_capability = all, none_capability = none\<rparr>)))"

definition compile_rule ::
  "policy_lib \<Rightarrow> raw_rule \<Rightarrow> path \<Rightarrow> nat \<Rightarrow> (gommage_error, rule) result" where
  "compile_rule L raw file index =
     (if raw_decision raw = RuleAskPicto \<and> raw_required_scope raw = None then
        Err (PolicyError (''rule '' @ debug_str (raw_name raw) @
          '': decision=ask_picto requires required_scope''))
      else if raw_decision raw \<noteq> RuleGommage \<and> raw_hard_stop raw then
        Err (PolicyError (''rule '' @ debug_str (raw_name raw) @
          '': hard_stop=true only valid with decision=gommage''))
      else if raw_decision raw \<noteq> RuleAskPicto \<and> raw_bind_input raw then
        Err (PolicyError (''rule '' @ debug_str (raw_name raw) @
          '': bind_input=true only valid with decision=ask_picto''))
      else and_then (compile_match L (raw_match raw)) (\<lambda>m.
        Ok \<lparr>rule_name = raw_name raw, rule_decision = raw_decision raw,
            rule_hard_stop = raw_hard_stop raw, rule_required_scope = raw_required_scope raw,
            rule_bind_input = raw_bind_input raw, rule_match = m, rule_reason = raw_reason raw,
            source_file = file, source_index = index\<rparr>))"

definition compile_rules ::
  "policy_lib \<Rightarrow> path \<Rightarrow> raw_rule list \<Rightarrow> (gommage_error, rule list) result" where
  "compile_rules L file raws =
     collect_results (map (\<lambda>(index, raw). compile_rule L raw file index)
       (zip [0..<length raws] raws))"

section \<open>Loading\<close>

record policy_layer =
  layer_name :: string
  layer_dir :: path

record layered_file =
  file_layer :: string
  file_root :: path
  file_path :: path

datatype hash_mode = Legacy path | Layered

definition NUL :: char where "NUL = CHR 0x00"

definition collect_policy_files :: "fs \<Rightarrow> path \<Rightarrow> (gommage_error, layered_file list) result" where
  "collect_policy_files F dir =
     and_then (yaml_files F dir) (\<lambda>files.
       Ok (map (\<lambda>p. \<lparr>file_layer = ''user'', file_root = dir, file_path = p\<rparr>) files))"

definition relative_text :: "path \<Rightarrow> path \<Rightarrow> string" where
  "relative_text root file =
     join ''/'' (case strip_path file root of Some rel \<Rightarrow> rel | None \<Rightarrow> file)"

text \<open>The bytes one file adds to the version hash.\<close>

definition update_policy_hash :: "path \<Rightarrow> path \<Rightarrow> string \<Rightarrow> string" where
  "update_policy_hash root file contents =
     ''file'' @ [NUL] @ relative_text root file @ [NUL] @ ''content'' @ [NUL] @ contents @ [NUL]"

definition update_layered_policy_hash :: "string \<Rightarrow> path \<Rightarrow> path \<Rightarrow> string \<Rightarrow> string" where
  "update_layered_policy_hash layer root file contents =
     ''layer'' @ [NUL] @ layer @ [NUL] @ ''file'' @ [NUL] @ relative_text root file @
     [NUL] @ ''content'' @ [NUL] @ contents @ [NUL]"

definition file_hash_bytes :: "hash_mode \<Rightarrow> layered_file \<Rightarrow> string \<Rightarrow> string" where
  "file_hash_bytes mode f contents =
     (case mode of
        Legacy root \<Rightarrow> update_policy_hash root (file_path f) contents
      | Layered \<Rightarrow> update_layered_policy_hash (file_layer f) (file_root f) (file_path f) contents)"

text \<open>One file: what it adds to the hash, and its rules.\<close>

definition load_file ::
  "policy_lib \<Rightarrow> fs \<Rightarrow> env \<Rightarrow> hash_mode \<Rightarrow> layered_file \<Rightarrow> (gommage_error, string \<times> rule list) result" where
  "load_file L F env mode f =
     and_then (map_err Io (fs_read F (file_path f))) (\<lambda>raw.
       let substituted = substitute_env raw env
       in and_then (map_err Yaml (yaml_rules L substituted)) (\<lambda>raws.
          and_then (compile_rules L (file_path f) raws) (\<lambda>rules.
            Ok (file_hash_bytes mode f substituted, rules))))"

definition load_policy_files ::
  "extern \<Rightarrow> policy_lib \<Rightarrow> fs \<Rightarrow> layered_file list \<Rightarrow> env \<Rightarrow> hash_mode \<Rightarrow>
     (gommage_error, policy) result" where
  "load_policy_files E L F files env mode =
     and_then (collect_results (map (load_file L F env mode) files)) (\<lambda>loaded.
       Ok \<lparr>policy_rules = concat (map snd loaded),
           policy_version = ''sha256:'' @ sha256_hex E (concat (map fst loaded))\<rparr>)"

definition load_from_dir ::
  "extern \<Rightarrow> policy_lib \<Rightarrow> fs \<Rightarrow> path \<Rightarrow> env \<Rightarrow> (gommage_error, policy) result" where
  "load_from_dir E L F dir env =
     and_then (collect_policy_files F dir) (\<lambda>files.
       load_policy_files E L F files env (Legacy dir))"

definition layer_files :: "fs \<Rightarrow> policy_layer \<Rightarrow> (gommage_error, layered_file list) result" where
  "layer_files F layer =
     and_then (collect_policy_files F (layer_dir layer)) (\<lambda>files.
       Ok (map (\<lambda>f. \<lparr>file_layer = layer_name layer, file_root = layer_dir layer,
                      file_path = file_path f\<rparr>) files))"

definition load_from_layers ::
  "extern \<Rightarrow> policy_lib \<Rightarrow> fs \<Rightarrow> policy_layer list \<Rightarrow> env \<Rightarrow> (gommage_error, policy) result" where
  "load_from_layers E L F layers env =
     (if length layers = 1 \<and> layer_name (layers ! 0) = ''user''
      then load_from_dir E L F (layer_dir (layers ! 0)) env
      else and_then (collect_results (map (layer_files F) layers)) (\<lambda>files.
             load_policy_files E L F (concat files) env Layered))"

definition from_yaml_string ::
  "extern \<Rightarrow> policy_lib \<Rightarrow> string \<Rightarrow> env \<Rightarrow> string \<Rightarrow> (gommage_error, policy) result" where
  "from_yaml_string E L s env label =
     (let substituted = substitute_env s env
      in and_then (map_err Yaml (yaml_rules L substituted)) (\<lambda>raws.
         and_then (compile_rules L (path_of label) raws) (\<lambda>rules.
           Ok \<lparr>policy_rules = rules,
               policy_version = ''sha256:'' @ sha256_hex E
                 (''file'' @ [NUL] @ label @ [NUL] @ ''content'' @ [NUL] @ substituted)\<rparr>)))"

section \<open>Laws\<close>

lemma matches_iff:
  "matches m caps \<longleftrightarrow>
     (any_capability m = [] \<or> (\<exists>p \<in> set (any_capability m). \<exists>c \<in> set caps. p c)) \<and>
     (\<forall>p \<in> set (all_capability m). \<exists>c \<in> set caps. p c) \<and>
     (\<forall>p \<in> set (none_capability m). \<forall>c \<in> set caps. \<not> p c)"
  by (auto simp: matches_def list_ex_iff list_all_iff Let_def)

text \<open>What validation leaves of a rule.\<close>

definition rule_wf :: "rule \<Rightarrow> bool" where
  "rule_wf r \<longleftrightarrow>
     (rule_decision r = RuleAskPicto \<longrightarrow> rule_required_scope r \<noteq> None) \<and>
     (rule_hard_stop r \<longrightarrow> rule_decision r = RuleGommage) \<and>
     (rule_bind_input r \<longrightarrow> rule_decision r = RuleAskPicto)"

definition policy_wf :: "policy \<Rightarrow> bool" where
  "policy_wf p \<longleftrightarrow> list_all rule_wf (policy_rules p)"

lemma compile_rule_wf: "compile_rule L raw file index = Ok r \<Longrightarrow> rule_wf r"
  by (auto simp: compile_rule_def rule_wf_def and_then_Ok_iff split: if_splits)

lemma compile_rules_wf: "compile_rules L file raws = Ok rules \<Longrightarrow> list_all rule_wf rules"
  unfolding compile_rules_def list_all_iff
  by (auto dest!: collect_results_memD intro: compile_rule_wf)

lemma load_file_wf: "load_file L F env mode f = Ok (bytes, rules) \<Longrightarrow> list_all rule_wf rules"
  by (auto simp: load_file_def and_then_Ok_iff Let_def intro: compile_rules_wf)

lemma load_policy_files_wf:
  assumes "load_policy_files E L F files env mode = Ok p"
  shows "policy_wf p"
proof -
  from assms obtain loaded
    where loaded: "collect_results (map (load_file L F env mode) files) = Ok loaded"
      and p: "policy_rules p = concat (map snd loaded)"
    by (auto simp: load_policy_files_def and_then_Ok_iff)
  have "list_all rule_wf rules" if "(bytes, rules) \<in> set loaded" for bytes rules
    using collect_results_memD [OF loaded that] by (auto intro: load_file_wf)
  with p show ?thesis by (fastforce simp: policy_wf_def list_all_iff)
qed

lemma load_from_dir_wf: "load_from_dir E L F dir env = Ok p \<Longrightarrow> policy_wf p"
  by (auto simp: load_from_dir_def and_then_Ok_iff intro: load_policy_files_wf)

lemma load_from_layers_wf: "load_from_layers E L F layers env = Ok p \<Longrightarrow> policy_wf p"
  by (auto simp: load_from_layers_def and_then_Ok_iff split: if_splits
      intro: load_policy_files_wf load_from_dir_wf)

lemma from_yaml_string_wf: "from_yaml_string E L s env label = Ok p \<Longrightarrow> policy_wf p"
  by (auto simp: from_yaml_string_def and_then_Ok_iff Let_def policy_wf_def intro: compile_rules_wf)

section \<open>Substitution\<close>

text \<open>Substitution replaces exactly the references: text without a dollar sign stays, a
  reference becomes the value of its variable or else its default (empty when it has none), and
  values are not substituted again.\<close>

theorem substitute_env_references:
  assumes "CHR ''$'' \<notin> set pre" and "var_name name" and "CHR ''}'' \<notin> set d"
  shows "substitute_env (pre @ ''${'' @ name @ ''}'' @ post) env =
           pre @ env_value env name [] @ substitute_env post env \<and>
         substitute_env (pre @ ''${'' @ name @ '':-'' @ d @ ''}'' @ post) env =
           pre @ env_value env name d @ substitute_env post env \<and>
         substitute_env pre env = pre"
  using assms substitute_env_plain [of pre "[]" env]
  by (simp add: substitute_env_plain substitute_env.simps(2) parse_var_name [simplified])

lemma substitute_env_references_witness:
  "substitute_env (''dir: '' @ ''${'' @ ''HOME'' @ '':-'' @ ''/root'' @ ''}'' @ ''/x'') (\<lambda>_. None) =
     ''dir: '' @ env_value (\<lambda>_. None) ''HOME'' ''/root'' @ substitute_env ''/x'' (\<lambda>_. None)"
proof -
  have "CHR ''$'' \<notin> set ''dir: ''" "var_name ''HOME''" "CHR ''}'' \<notin> set ''/root''"
    by code_simp+
  from substitute_env_references [OF this] show ?thesis by blast
qed

section \<open>The version hash\<close>

text \<open>Two directories hold the same policy when their YAML files have the same names relative to
  their roots, in the same order, with the same contents.\<close>

definition same_tree :: "fs \<Rightarrow> path \<Rightarrow> fs \<Rightarrow> path \<Rightarrow> path list \<Rightarrow> bool" where
  "same_tree F root F' root' rels \<longleftrightarrow>
     yaml_files F root = Ok (map (\<lambda>rel. root @ rel) rels) \<and>
     yaml_files F' root' = Ok (map (\<lambda>rel. root' @ rel) rels) \<and>
     list_all (\<lambda>rel. fs_read F (root @ rel) = fs_read F' (root' @ rel)) rels"

definition unlocated :: "rule \<Rightarrow> rule" where
  "unlocated r = r\<lparr>source_file := []\<rparr>"

definition same_rule :: "rule \<Rightarrow> rule \<Rightarrow> bool" where
  "same_rule r r' \<longleftrightarrow> unlocated r = unlocated r'"

definition same_policy :: "policy \<Rightarrow> policy \<Rightarrow> bool" where
  "same_policy p p' \<longleftrightarrow>
     policy_version p = policy_version p' \<and> list_all2 same_rule (policy_rules p) (policy_rules p')"

lemma compile_rule_rel:
  "result_rel same_rule (compile_rule L raw file index) (compile_rule L raw file' index)"
  by (cases "compile_match L (raw_match raw)") (auto simp: compile_rule_def same_rule_def unlocated_def)

lemma compile_rules_rel:
  "result_rel (list_all2 same_rule) (compile_rules L file raws) (compile_rules L file' raws)"
  unfolding compile_rules_def
  by (rule result_rel_collect)
    (auto simp: list_all2_map1 list_all2_map2 compile_rule_rel intro: list.rel_refl)

lemma load_file_rel:
  assumes "fs_read F (root @ rel) = fs_read F' (root' @ rel)"
  shows "result_rel (\<lambda>(b, rs) (b', rs'). b = b' \<and> list_all2 same_rule rs rs')
    (load_file L F env (Legacy root) \<lparr>file_layer = ''user'', file_root = root, file_path = root @ rel\<rparr>)
    (load_file L F' env (Legacy root') \<lparr>file_layer = ''user'', file_root = root', file_path = root' @ rel\<rparr>)"
  unfolding load_file_def Let_def
  by (rule result_rel_and_then [where R = "(=)"], simp add: assms result_rel_refl,
      rule result_rel_and_then [where R = "(=)"], simp add: result_rel_refl,
      rule result_rel_and_then [where R = "list_all2 same_rule"])
    (simp_all add: compile_rules_rel file_hash_bytes_def update_policy_hash_def relative_text_def)

lemma list_all2_concat_snd:
  "list_all2 (\<lambda>(b, rs) (b', rs'). b = b' \<and> list_all2 R rs rs') xs ys \<Longrightarrow>
     map fst xs = map fst ys \<and> list_all2 R (concat (map snd xs)) (concat (map snd ys))"
  by (induction rule: list_all2_induct) (auto intro: list_all2_appendI)

lemma load_policy_files_rel:
  assumes "list_all2 (\<lambda>f f'. result_rel (\<lambda>(b, rs) (b', rs'). b = b' \<and> list_all2 same_rule rs rs')
      (load_file L F env mode f) (load_file L F' env mode' f')) files files'"
  shows "result_rel same_policy (load_policy_files E L F files env mode)
    (load_policy_files E L F' files' env mode')"
  unfolding load_policy_files_def
  by (rule result_rel_and_then [OF result_rel_collect])
    (use assms in \<open>auto simp: list_all2_map1 list_all2_map2 same_policy_def
       dest!: list_all2_concat_snd\<close>)

text \<open>A policy does not depend on where its directory lies: two directories with the same
  files give the same version hash and the same rules up to the recorded source path, or the same
  error.\<close>

theorem policy_root_independent:
  assumes "same_tree F root F' root' rels"
  shows "result_rel same_policy (load_from_dir E L F root env) (load_from_dir E L F' root' env)"
proof -
  have read: "fs_read F (root @ rel) = fs_read F' (root' @ rel)" if "rel \<in> set rels" for rel
    using assms that by (auto simp: same_tree_def list_all_iff)
  have "result_rel same_policy
      (load_policy_files E L F (map (\<lambda>rel. \<lparr>file_layer = ''user'', file_root = root, file_path = root @ rel\<rparr>) rels)
        env (Legacy root))
      (load_policy_files E L F' (map (\<lambda>rel. \<lparr>file_layer = ''user'', file_root = root', file_path = root' @ rel\<rparr>) rels)
        env (Legacy root'))"
    by (rule load_policy_files_rel)
      (auto simp: list_all2_map1 list_all2_map2 list_all2_same intro!: load_file_rel read)
  with assms show ?thesis
    by (simp add: load_from_dir_def collect_policy_files_def same_tree_def comp_def)
qed

text \<open>A glob compiler and a rule parser to run the examples on.\<close>

definition demo_policy_lib :: policy_lib where
  "demo_policy_lib =
     \<lparr>glob_compile = (\<lambda>pat. if pat = ''['' then Err ''unclosed class'' else Ok (\<lambda>t. t = pat)),
      yaml_rules = (\<lambda>s. Ok [\<lparr>raw_name = ''deny'', raw_decision = RuleGommage, raw_hard_stop = False,
        raw_required_scope = None, raw_bind_input = False,
        raw_match = \<lparr>raw_any = [s], raw_all = [], raw_none = []\<rparr>, raw_reason = ''no''\<rparr>])\<rparr>"

lemma policy_root_independent_witness:
  "result_rel same_policy
     (load_from_dir demo_extern demo_policy_lib (memory_fs [([''a'', ''p.yaml''], ''x'')]) [''a''] (\<lambda>_. None))
     (load_from_dir demo_extern demo_policy_lib (memory_fs [([''b'', ''p.yaml''], ''x'')]) [''b''] (\<lambda>_. None))"
  by (rule policy_root_independent [where rels = "[[''p.yaml'']]"]) code_simp

end
