(* ===== verification/Evaluator.thy ===== *)
theory Evaluator
  imports Policy Hardstop_Laws
begin

text \<open>
  Evaluation (\<open>crates/gommage-core/src/evaluator.rs\<close>): hard stops first, then the first matching
  rule, then fail closed. The panic of \<open>decision_from_rule\<close> on an \<open>ask_picto\<close> rule
  without a scope is the result \<open>None\<close>.
\<close>

section \<open>Decisions\<close>

datatype decision =
    Allow
  | Gommage string bool
  | AskPicto string string bool

fun allows :: "decision \<Rightarrow> bool" where
  "allows Allow = True"
| "allows _ = False"

record matched_rule =
  matched_name :: string
  matched_file :: string
  matched_index :: nat

record eval_result =
  eval_decision :: decision
  eval_matched :: "matched_rule option"
  eval_capabilities :: "capability list"
  eval_policy_version :: string

definition decision_from_rule :: "rule \<Rightarrow> decision option" where
  "decision_from_rule r =
     (case rule_decision r of
        RuleAllow \<Rightarrow> Some Allow
      | RuleGommage \<Rightarrow> Some (Gommage (rule_reason r) (rule_hard_stop r))
      | RuleAskPicto \<Rightarrow>
          map_option (\<lambda>scope. AskPicto scope (rule_reason r) (rule_bind_input r)) (rule_required_scope r))"

definition hard_stop_decision :: "hard_stop_hit \<Rightarrow> decision" where
  "hard_stop_decision hit =
     Gommage (''hard-stop '' @ hit_name hit @ '': pattern '' @ debug_str (hit_pattern hit) @
       '' matched '' @ hit_capability hit) True"

definition hard_stop_matched :: "hard_stop_hit \<Rightarrow> matched_rule" where
  "hard_stop_matched hit =
     \<lparr>matched_name = ''<hardcoded:'' @ hit_name hit @ ''>'',
      matched_file = ''<compiled-in>'', matched_index = 0\<rparr>"

definition fail_closed_reason :: "capability list \<Rightarrow> string" where
  "fail_closed_reason caps =
     (if caps = []
      then ''no capability derived from this call: no mapper covers this tool, so no '' @
           ''policy rule could match it (fail-closed). Add a mapper in capabilities.d '' @
           ''for this tool name.''
      else ''no rule matched (fail-closed)'')"

definition rule_result :: "rule \<Rightarrow> capability list \<Rightarrow> policy \<Rightarrow> eval_result option" where
  "rule_result r caps p =
     map_option (\<lambda>d.
       \<lparr>eval_decision = d,
        eval_matched = Some \<lparr>matched_name = rule_name r, matched_file = path_text (source_file r),
          matched_index = source_index r\<rparr>,
        eval_capabilities = caps, eval_policy_version = policy_version p\<rparr>)
       (decision_from_rule r)"

definition evaluate ::
  "(string \<Rightarrow> string \<Rightarrow> bool) \<Rightarrow> capability list \<Rightarrow> policy \<Rightarrow> eval_result option" where
  "evaluate is_match caps p =
     (case hardstop_check is_match caps of
        Some hit \<Rightarrow> Some
          \<lparr>eval_decision = hard_stop_decision hit, eval_matched = Some (hard_stop_matched hit),
           eval_capabilities = caps, eval_policy_version = policy_version p\<rparr>
      | None \<Rightarrow>
          (case find (\<lambda>r. matches (rule_match r) caps) (policy_rules p) of
             Some r \<Rightarrow> rule_result r caps p
           | None \<Rightarrow> Some
               \<lparr>eval_decision = Gommage (fail_closed_reason caps) False, eval_matched = None,
                eval_capabilities = caps, eval_policy_version = policy_version p\<rparr>))"

definition evaluate_bypass ::
  "(string \<Rightarrow> string \<Rightarrow> bool) \<Rightarrow> capability list \<Rightarrow> eval_result" where
  "evaluate_bypass is_match caps =
     (case hardstop_check is_match caps of
        Some hit \<Rightarrow>
          \<lparr>eval_decision = hard_stop_decision hit, eval_matched = Some (hard_stop_matched hit),
           eval_capabilities = caps, eval_policy_version = ''bypass:compiled-hardstop''\<rparr>
      | None \<Rightarrow>
          \<lparr>eval_decision = Allow, eval_matched = None,
           eval_capabilities = caps, eval_policy_version = ''bypass:policy-skipped''\<rparr>)"

section \<open>Laws\<close>

lemma decision_from_rule_wf: "rule_wf r \<Longrightarrow> decision_from_rule r \<noteq> None"
  by (cases "rule_decision r") (auto simp: decision_from_rule_def rule_wf_def)

lemma evaluate_total: "policy_wf p \<Longrightarrow> evaluate is_match caps p \<noteq> None"
  using decision_from_rule_wf
  by (fastforce simp: evaluate_def rule_result_def policy_wf_def list_all_iff
      split: option.split dest: find_member)

lemma evaluate_context:
  "evaluate is_match caps p = Some res \<Longrightarrow>
     eval_capabilities res = caps \<and> eval_policy_version res = policy_version p"
  by (auto simp: evaluate_def rule_result_def split: option.splits)

text \<open>C1. A hard stop cannot be bypassed: if a capability is one, evaluation denies with
  \<open>hard_stop\<close> set under every policy, and so does the bypass.\<close>

theorem hard_stop_precedence:
  assumes "hardstop_check is_match caps = Some hit"
  shows "map_option eval_decision (evaluate is_match caps p) = Some (hard_stop_decision hit) \<and>
    eval_decision (evaluate_bypass is_match caps) = hard_stop_decision hit \<and>
    (\<exists>reason. hard_stop_decision hit = Gommage reason True)"
  using assms by (simp add: evaluate_def evaluate_bypass_def hard_stop_decision_def)

lemma hard_stop_precedence_witness:
  "map_option eval_decision (evaluate (\<lambda>p t. p = t) [''proc.exec:rm -rf /''] \<lparr>policy_rules = [], policy_version = []\<rparr>)
     = Some (hard_stop_decision \<lparr>hit_name = ''hs.rm-rf-root-strict'',
         hit_pattern = ''proc.exec:rm -rf /'', hit_capability = ''proc.exec:rm -rf /''\<rparr>)"
proof -
  have "hardstop_check (\<lambda>p t. p = t) [''proc.exec:rm -rf /''] =
      Some \<lparr>hit_name = ''hs.rm-rf-root-strict'', hit_pattern = ''proc.exec:rm -rf /'',
        hit_capability = ''proc.exec:rm -rf /''\<rparr>"
    by code_simp
  from hard_stop_precedence [OF this] show ?thesis by blast
qed

text \<open>The first matching rule decides: rules before it that do not match and rules after it,
  whatever they say, have no influence on the result.\<close>

theorem first_match_wins:
  assumes "hardstop_check is_match caps = None"
    and "policy_rules p = pre @ r # post"
    and "\<forall>q \<in> set pre. \<not> matches (rule_match q) caps" and "matches (rule_match r) caps"
  shows "evaluate is_match caps p = rule_result r caps p"
proof -
  have "find (\<lambda>r. matches (rule_match r) caps) pre = None"
    using assms(3) by (simp add: find_None_iff)
  with assms(1,2,4) show ?thesis by (simp add: evaluate_def find_append)
qed

definition demo_rule :: "string \<Rightarrow> rule_decision \<Rightarrow> glob \<Rightarrow> rule" where
  "demo_rule name d g =
     \<lparr>rule_name = name, rule_decision = d, rule_hard_stop = False, rule_required_scope = Some ''s'',
      rule_bind_input = False,
      rule_match = \<lparr>any_capability = [g], all_capability = [], none_capability = []\<rparr>,
      rule_reason = ''r'', source_file = [''p.yaml''], source_index = 0\<rparr>"

lemma first_match_wins_witness:
  "map_option eval_decision (evaluate (\<lambda>p t. False) [''net.out:a'']
     \<lparr>policy_rules = [demo_rule ''x'' RuleAllow (\<lambda>c. False), demo_rule ''y'' RuleGommage (\<lambda>c. True),
        demo_rule ''z'' RuleAllow (\<lambda>c. True)], policy_version = []\<rparr>) = Some (Gommage ''r'' False)"
proof -
  let ?p = "\<lparr>policy_rules = [demo_rule ''x'' RuleAllow (\<lambda>c. False), demo_rule ''y'' RuleGommage (\<lambda>c. True),
        demo_rule ''z'' RuleAllow (\<lambda>c. True)], policy_version = []\<rparr>"
  have "hardstop_check (\<lambda>p t. False) [''net.out:a''] = None" by code_simp
  moreover have "policy_rules ?p = [demo_rule ''x'' RuleAllow (\<lambda>c. False)] @
      demo_rule ''y'' RuleGommage (\<lambda>c. True) # [demo_rule ''z'' RuleAllow (\<lambda>c. True)]"
    by simp
  ultimately have "evaluate (\<lambda>p t. False) [''net.out:a''] ?p =
      rule_result (demo_rule ''y'' RuleGommage (\<lambda>c. True)) [''net.out:a''] ?p"
    by (rule first_match_wins) (simp_all add: demo_rule_def matches_def)
  then show ?thesis by (simp add: rule_result_def decision_from_rule_def demo_rule_def)
qed

text \<open>Fail closed: an allow comes from the first matching rule being an allow rule while no
  hard stop applies, and from nothing else.\<close>

theorem allow_only_by_rule:
  "map_option eval_decision (evaluate is_match caps p) = Some Allow \<longleftrightarrow>
     hardstop_check is_match caps = None \<and>
     (\<exists>r. find (\<lambda>r. matches (rule_match r) caps) (policy_rules p) = Some r \<and> rule_decision r = RuleAllow)"
  by (auto simp: evaluate_def rule_result_def decision_from_rule_def hard_stop_decision_def
      split: option.splits rule_decision.splits)

text \<open>Loading guards evaluation: a policy that loads, from a directory, from layers or from a
  string, never makes evaluation panic.\<close>

theorem loaded_policy_never_panics:
  assumes "load_from_dir E L F dir env = Ok p \<or> load_from_layers E L F layers env = Ok p \<or>
    from_yaml_string E L text env label = Ok p"
  shows "\<exists>res. evaluate is_match caps p = Some res \<and> eval_capabilities res = caps \<and>
    eval_policy_version res = policy_version p"
proof -
  from assms have "policy_wf p"
    by (auto intro: load_from_dir_wf load_from_layers_wf from_yaml_string_wf)
  then obtain res where "evaluate is_match caps p = Some res"
    using evaluate_total by blast
  with evaluate_context show ?thesis by blast
qed

lemma loaded_policy_never_panics_witness:
  "\<exists>p res. from_yaml_string demo_extern demo_policy_lib ''t'' (\<lambda>_. None) ''inline'' = Ok p \<and>
     evaluate (\<lambda>p t. False) [''fs.read:x''] p = Some res"
proof -
  have "is_ok (from_yaml_string demo_extern demo_policy_lib ''t'' (\<lambda>_. None) ''inline'')"
    by code_simp
  then obtain p where p: "from_yaml_string demo_extern demo_policy_lib ''t'' (\<lambda>_. None) ''inline'' = Ok p"
    by (auto simp: is_ok_iff)
  from loaded_policy_never_panics [OF disjI2 [OF disjI2 [OF this]]] p show ?thesis by blast
qed

section \<open>Layers\<close>

lemma layered_rules_append:
  assumes "collect_results (map (layer_files F) (ls @ ls')) = Ok files"
    and "load_policy_files E L F (concat files) env Layered = Ok p"
  obtains files1 p1 rest where "collect_results (map (layer_files F) ls) = Ok files1"
    and "load_policy_files E L F (concat files1) env Layered = Ok p1"
    and "policy_rules p = policy_rules p1 @ rest"
proof -
  from assms(1) obtain files1 files2
    where f1: "collect_results (map (layer_files F) ls) = Ok files1" and f: "files = files1 @ files2"
    by (auto simp: collect_results_append and_then_Ok_iff)
  from assms(2) f obtain l1 l2
    where l1: "collect_results (map (load_file L F env Layered) (concat files1)) = Ok l1"
      and rules: "policy_rules p = concat (map snd (l1 @ l2))"
    by (auto simp: load_policy_files_def collect_results_append and_then_Ok_iff)
  show thesis
    by (rule that [OF f1]) (use l1 rules in \<open>auto simp: load_policy_files_def\<close>)
qed

text \<open>Earlier layers have precedence: when the rules of the first layers alone decide a call,
  the policy loaded from those layers and any further ones gives the same decision and the same
  matched rule.\<close>

theorem earlier_layers_decide:
  assumes "load_from_layers E L F (ls @ ls') env = Ok p" and "2 \<le> length (ls @ ls')"
    and "collect_results (map (layer_files F) ls) = Ok files1"
    and "load_policy_files E L F (concat files1) env Layered = Ok p1"
    and "evaluate is_match caps p1 = Some res1" and "eval_matched res1 \<noteq> None"
    and "evaluate is_match caps p = Some res"
  shows "eval_decision res = eval_decision res1 \<and> eval_matched res = eval_matched res1"
proof -
  from assms(2) have "length (ls @ ls') \<noteq> 1" by linarith
  with assms(1) obtain files where files: "collect_results (map (layer_files F) (ls @ ls')) = Ok files"
    and p: "load_policy_files E L F (concat files) env Layered = Ok p"
    by (auto simp: load_from_layers_def and_then_Ok_iff simp del: length_append)
  obtain rest where "policy_rules p = policy_rules p1 @ rest"
    by (rule layered_rules_append [OF files p]) (use assms(3,4) in auto)
  with assms(5-7) show ?thesis
    by (auto simp: evaluate_def rule_result_def find_append split: option.splits)
qed

lemma earlier_layers_decide_witness:
  "\<exists>p res. load_from_layers demo_extern demo_policy_lib
        (memory_fs [([''o'', ''p.yaml''], ''x''), ([''u'', ''q.yaml''], ''y'')])
        [\<lparr>layer_name = ''org'', layer_dir = [''o'']\<rparr>, \<lparr>layer_name = ''user'', layer_dir = [''u'']\<rparr>] (\<lambda>_. None) = Ok p \<and>
     evaluate (\<lambda>p t. False) [''x''] p = Some res \<and> eval_decision res = Gommage ''no'' False"
proof -
  let ?F = "memory_fs [([''o'', ''p.yaml''], ''x''), ([''u'', ''q.yaml''], ''y'')]"
  let ?o = "\<lparr>layer_name = ''org'', layer_dir = [''o'']\<rparr>"
  let ?u = "\<lparr>layer_name = ''user'', layer_dir = [''u'']\<rparr>"
  let ?l = "load_from_layers demo_extern demo_policy_lib ?F ([?o] @ [?u]) (\<lambda>_. None)"
  let ?files = "projr (collect_results (map (layer_files ?F) [?o]))"
  let ?l1 = "load_policy_files demo_extern demo_policy_lib ?F (concat ?files) (\<lambda>_. None) Layered"
  have ok: "is_ok ?l" "is_ok ?l1" "is_ok (collect_results (map (layer_files ?F) [?o]))"
    by code_simp+
  then obtain p p1 where p: "?l = Ok p" and p1: "?l1 = Ok p1"
    and files: "collect_results (map (layer_files ?F) [?o]) = Ok ?files"
    by (auto simp: is_ok_iff simp del: list.map)
  have "map_option eval_decision (evaluate (\<lambda>p t. False) [''x''] (projr ?l1)) = Some (Gommage ''no'' False)"
    "map_option (\<lambda>res. eval_matched res \<noteq> None) (evaluate (\<lambda>p t. False) [''x''] (projr ?l1)) = Some True"
    "map_option (\<lambda>res. True) (evaluate (\<lambda>p t. False) [''x''] (projr ?l)) = Some True"
    by code_simp+
  note decided = this [unfolded p p1 sum.sel map_option_eq_Some]
  from decided(1) obtain res1 where r1: "evaluate (\<lambda>p t. False) [''x''] p1 = Some res1"
    and d: "eval_decision res1 = Gommage ''no'' False" by blast
  from decided(2) r1 have m: "eval_matched res1 \<noteq> None" by simp
  from decided(3) obtain res where r: "evaluate (\<lambda>p t. False) [''x''] p = Some res" by blast
  have "2 \<le> length ([?o] @ [?u])" by simp
  from earlier_layers_decide [OF p this files p1 r1 m r] d have "eval_decision res = Gommage ''no'' False"
    by simp
  with p r show ?thesis by (intro exI conjI) simp_all
qed

end
