(* ===== verification/Picto.thy ===== *)
theory Picto
  imports Files
begin

text \<open>
  Pictos, the signed grants (\<open>crates/gommage-core/src/picto.rs\<close>): the grant, its signature, and
  the SQLite store. The table is the list of its rows in insertion order; a statement is the
  definition that reads or updates the rows its \<open>WHERE\<close> clause selects; a transaction that ends
  without \<open>commit\<close> leaves the table as it was. Of the rows that tie in an \<open>ORDER BY\<close>, which SQL
  leaves open, the first in table order is taken. The \<open>u32\<close> columns are 32-bit words.
\<close>

section \<open>Status\<close>

datatype picto_status = Active | PendingConfirmation | Spent | Revoked | Expired

definition status_str :: "picto_status \<Rightarrow> string" where
  "status_str s =
     (case s of
        Active \<Rightarrow> ''active''
      | PendingConfirmation \<Rightarrow> ''pending_confirmation''
      | Spent \<Rightarrow> ''spent''
      | Revoked \<Rightarrow> ''revoked''
      | Expired \<Rightarrow> ''expired'')"

definition parse_status :: "string \<Rightarrow> picto_status" where
  "parse_status s =
     (if s = ''active'' then Active
      else if s = ''pending_confirmation'' then PendingConfirmation
      else if s = ''spent'' then Spent
      else if s = ''revoked'' then Revoked
      else if s = ''expired'' then Expired
      else Revoked)"

lemma parse_status_str [simp]: "parse_status (status_str s) = s"
  by (cases s) (simp_all add: parse_status_def status_str_def)

lemma status_str_inject [simp]: "status_str s = status_str t \<longleftrightarrow> s = t"
  by (metis parse_status_str)

text \<open>The life cycle as an order: a grant may be confirmed, and ends spent, revoked or expired.\<close>

definition status_rank :: "picto_status \<Rightarrow> nat" where
  "status_rank s = (case s of PendingConfirmation \<Rightarrow> 0 | Active \<Rightarrow> 1 | _ \<Rightarrow> 2)"

instantiation picto_status :: order
begin

definition less_eq_picto_status :: "picto_status \<Rightarrow> picto_status \<Rightarrow> bool" where
  "less_eq_picto_status s t \<longleftrightarrow> s = t \<or> status_rank s < status_rank t"

definition less_picto_status :: "picto_status \<Rightarrow> picto_status \<Rightarrow> bool" where
  "less_picto_status s t \<longleftrightarrow> status_rank s < status_rank t"

instance
  by standard (auto simp: less_eq_picto_status_def less_picto_status_def)

end

definition terminal :: "picto_status \<Rightarrow> bool" where
  "terminal s \<longleftrightarrow> s \<in> {Spent, Revoked, Expired}"

lemma terminal_maximal: "terminal s \<Longrightarrow> s \<le> t \<longleftrightarrow> s = t"
  by (auto simp: terminal_def less_eq_picto_status_def status_rank_def split: picto_status.splits)

section \<open>The grant and its signature\<close>

record picto =
  picto_id :: string
  picto_scope :: string
  picto_max_uses :: "32 word"
  picto_uses :: "32 word"
  picto_ttl_expires_at :: time
  picto_created_at :: time
  picto_status :: picto_status
  picto_reason :: string
  picto_signature_b64 :: string

record stored_picto =
  stored_grant :: picto
  stored_input_hash :: "string option"

datatype picto_lookup =
    LookupNone
  | LookupVerified picto
  | LookupBadSignature string string

datatype picto_consume =
    Consumed picto
  | NotUsable
  | ConsumeBadSignature string string

definition is_canonical_input_hash :: "string \<Rightarrow> bool" where
  "is_canonical_input_hash value \<longleftrightarrow>
     length value = 71 \<and> starts_with value ''sha256:'' \<and>
     list_all (\<lambda>c. is_ascii_hexdigit c \<and> \<not> is_ascii_uppercase c) (drop 7 value)"

definition signing_payload :: "picto \<Rightarrow> string option \<Rightarrow> string" where
  "signing_payload p input_hash =
     (let payload =
        join [NL]
          [picto_id p, picto_scope p, dec_nat (unat (picto_max_uses p)),
           dec_int (unix_timestamp (picto_ttl_expires_at p)),
           dec_int (unix_timestamp (picto_created_at p)), picto_reason p]
      in case input_hash of
           Some h \<Rightarrow> payload @ [NL] @ ''input_hash='' @ h
         | None \<Rightarrow> payload)"

definition verify_for_input_hash ::
  "extern \<Rightarrow> picto \<Rightarrow> string option \<Rightarrow> string \<Rightarrow> (gommage_error, unit) result" where
  "verify_for_input_hash E p input_hash vk =
     (if (case input_hash of Some h \<Rightarrow> \<not> is_canonical_input_hash h | None \<Rightarrow> False)
      then Err BadSignature
      else
        (case b64_decode E (picto_signature_b64 p) of
           None \<Rightarrow> Err BadSignature
         | Some sig \<Rightarrow>
             if length sig \<noteq> 64 then Err BadSignature
             else if ed_verify E vk (signing_payload p input_hash) sig then Ok ()
             else Err BadSignature))"

definition verify :: "extern \<Rightarrow> picto \<Rightarrow> string \<Rightarrow> (gommage_error, unit) result" where
  "verify E p vk = verify_for_input_hash E p None vk"

definition is_expired :: "picto \<Rightarrow> time \<Rightarrow> bool" where
  "is_expired p now \<longleftrightarrow> picto_ttl_expires_at p \<le> now"

definition matches_scope :: "picto \<Rightarrow> string \<Rightarrow> bool" where
  "matches_scope p required \<longleftrightarrow> picto_scope p = required"

section \<open>Rows\<close>

record picto_row =
  row_id :: string
  row_scope :: string
  row_max_uses :: "32 word"
  row_uses :: "32 word"
  row_ttl :: int
  row_created :: int
  row_status :: string
  row_reason :: string
  row_signature :: string
  row_input_hash :: "string option"

type_synonym picto_store = "picto_row list"

definition timestamp_or_epoch :: "extern \<Rightarrow> int \<Rightarrow> time" where
  "timestamp_or_epoch E s = (case from_unix_timestamp E s of Some t \<Rightarrow> t | None \<Rightarrow> UNIX_EPOCH)"

definition row_to_picto :: "extern \<Rightarrow> picto_row \<Rightarrow> picto" where
  "row_to_picto E r =
     \<lparr>picto_id = row_id r, picto_scope = row_scope r, picto_max_uses = row_max_uses r,
      picto_uses = row_uses r, picto_ttl_expires_at = timestamp_or_epoch E (row_ttl r),
      picto_created_at = timestamp_or_epoch E (row_created r),
      picto_status = parse_status (row_status r), picto_reason = row_reason r,
      picto_signature_b64 = row_signature r\<rparr>"

definition row_to_stored_picto :: "extern \<Rightarrow> picto_row \<Rightarrow> stored_picto" where
  "row_to_stored_picto E r =
     \<lparr>stored_grant = row_to_picto E r, stored_input_hash = row_input_hash r\<rparr>"

definition picto_to_row :: "picto \<Rightarrow> string option \<Rightarrow> picto_row" where
  "picto_to_row p input_hash =
     \<lparr>row_id = picto_id p, row_scope = picto_scope p, row_max_uses = picto_max_uses p,
      row_uses = 0, row_ttl = unix_timestamp (picto_ttl_expires_at p),
      row_created = unix_timestamp (picto_created_at p),
      row_status = status_str (picto_status p), row_reason = picto_reason p,
      row_signature = picto_signature_b64 p, row_input_hash = input_hash\<rparr>"

text \<open>\<open>UPDATE pictos SET \<dots> WHERE \<dots>\<close>: how many rows it changed, and the table after.\<close>

definition update_rows ::
  "(picto_row \<Rightarrow> bool) \<Rightarrow> (picto_row \<Rightarrow> picto_row) \<Rightarrow> picto_store \<Rightarrow> nat \<times> picto_store" where
  "update_rows P f store = (length (filter P store), map (\<lambda>r. if P r then f r else r) store)"

text \<open>\<open>ORDER BY created_at DESC LIMIT 1\<close>.\<close>

fun newest_row :: "picto_store \<Rightarrow> picto_row option" where
  "newest_row [] = None"
| "newest_row (r # rs) =
     (case newest_row rs of
        None \<Rightarrow> Some r
      | Some q \<Rightarrow> if row_created r < row_created q then Some q else Some r)"

section \<open>Store operations\<close>

definition create_with_input_hash ::
  "extern \<Rightarrow> time \<Rightarrow> string \<Rightarrow> picto_store \<Rightarrow> string \<Rightarrow> string \<Rightarrow> string option \<Rightarrow> 32 word \<Rightarrow> int \<Rightarrow>
     string \<Rightarrow> bool \<Rightarrow> (gommage_error, picto \<times> picto_store) result" where
  "create_with_input_hash E now signing_key store pid scope input_hash max_uses ttl_seconds reason
      require_confirmation =
     (if max_uses = 0 then Err (InvalidPicto ''max_uses must be greater than zero'')
      else if \<not> (1 \<le> ttl_seconds \<and> ttl_seconds \<le> 86400)
        then Err (InvalidPicto ''ttl must be between 1 and 86400 seconds'')
      else if (case input_hash of Some h \<Rightarrow> \<not> is_canonical_input_hash h | None \<Rightarrow> False)
        then Err (InvalidPicto ''input_hash must be a canonical sha256 ToolCall hash'')
      else
        (let unsigned =
           \<lparr>picto_id = pid, picto_scope = scope, picto_max_uses = max_uses, picto_uses = 0,
            picto_ttl_expires_at = now + of_seconds ttl_seconds, picto_created_at = now,
            picto_status = (if require_confirmation then PendingConfirmation else Active),
            picto_reason = reason, picto_signature_b64 = []\<rparr>;
           sig = ed_sign E signing_key (signing_payload unsigned input_hash);
           p = unsigned\<lparr>picto_signature_b64 := b64_encode E sig\<rparr>
         in if pid \<in> set (map row_id store)
            then Err (Sqlite ''UNIQUE constraint failed: pictos.id'')
            else Ok (p, store @ [picto_to_row p input_hash])))"

definition create ::
  "extern \<Rightarrow> time \<Rightarrow> string \<Rightarrow> picto_store \<Rightarrow> string \<Rightarrow> string \<Rightarrow> 32 word \<Rightarrow> int \<Rightarrow>
     string \<Rightarrow> bool \<Rightarrow> (gommage_error, picto \<times> picto_store) result" where
  "create E now signing_key store pid scope max_uses ttl_seconds reason require_confirmation =
     create_with_input_hash E now signing_key store pid scope None max_uses ttl_seconds reason
       require_confirmation"

definition create_for_input ::
  "extern \<Rightarrow> time \<Rightarrow> string \<Rightarrow> picto_store \<Rightarrow> string \<Rightarrow> string \<Rightarrow> string \<Rightarrow> 32 word \<Rightarrow> int \<Rightarrow>
     string \<Rightarrow> bool \<Rightarrow> (gommage_error, picto \<times> picto_store) result" where
  "create_for_input E now signing_key store pid scope input_hash max_uses ttl_seconds reason
      require_confirmation =
     create_with_input_hash E now signing_key store pid scope (Some input_hash) max_uses ttl_seconds
       reason require_confirmation"

definition get_picto :: "extern \<Rightarrow> picto_store \<Rightarrow> string \<Rightarrow> picto option" where
  "get_picto E store pid = map_option (row_to_picto E) (find (\<lambda>r. row_id r = pid) store)"

definition list_pictos :: "extern \<Rightarrow> picto_store \<Rightarrow> picto list" where
  "list_pictos E store = map (row_to_picto E) (sort_key row_created store)"

definition live_status :: "picto_row \<Rightarrow> bool" where
  "live_status r \<longleftrightarrow> row_status r \<in> {''active'', ''pending_confirmation''}"

definition revoke :: "picto_store \<Rightarrow> string \<Rightarrow> bool \<times> picto_store" where
  "revoke store pid =
     (case update_rows (\<lambda>r. row_id r = pid \<and> live_status r)
             (\<lambda>r. r\<lparr>row_status := ''revoked''\<rparr>) store of
        (n, store') \<Rightarrow> (0 < n, store'))"

definition confirm :: "picto_store \<Rightarrow> string \<Rightarrow> bool \<times> picto_store" where
  "confirm store pid =
     (case update_rows (\<lambda>r. row_id r = pid \<and> row_status r = ''pending_confirmation'')
             (\<lambda>r. r\<lparr>row_status := ''active''\<rparr>) store of
        (n, store') \<Rightarrow> (0 < n, store'))"

definition sweep_expired :: "picto_store \<Rightarrow> time \<Rightarrow> nat \<times> picto_store" where
  "sweep_expired store now =
     update_rows (\<lambda>r. live_status r \<and> row_ttl r \<le> unix_timestamp now)
       (\<lambda>r. r\<lparr>row_status := ''expired''\<rparr>) store"

text \<open>What every lookup asks of a row: active, uses left, not expired, and exactly the binding
  asked for.\<close>

definition usable_row :: "string option \<Rightarrow> time \<Rightarrow> picto_row \<Rightarrow> bool" where
  "usable_row input_hash now r \<longleftrightarrow>
     row_status r = ''active'' \<and> row_uses r < row_max_uses r \<and>
     unix_timestamp now < row_ttl r \<and> row_input_hash r = input_hash"

definition matching_row :: "picto_store \<Rightarrow> string \<Rightarrow> string option \<Rightarrow> time \<Rightarrow> picto_row option" where
  "matching_row store required_scope input_hash now =
     newest_row (filter (\<lambda>r. row_scope r = required_scope \<and> usable_row input_hash now r) store)"

definition find_match :: "extern \<Rightarrow> picto_store \<Rightarrow> string \<Rightarrow> time \<Rightarrow> picto option" where
  "find_match E store required_scope now =
     map_option (row_to_picto E) (matching_row store required_scope None now)"

definition find_match_for_input ::
  "extern \<Rightarrow> picto_store \<Rightarrow> string \<Rightarrow> string \<Rightarrow> time \<Rightarrow> picto option" where
  "find_match_for_input E store required_scope input_hash now =
     (if \<not> is_canonical_input_hash input_hash then None
      else map_option (row_to_picto E) (matching_row store required_scope (Some input_hash) now))"

definition find_verified_match_for_optional_input ::
  "extern \<Rightarrow> picto_store \<Rightarrow> string \<Rightarrow> string option \<Rightarrow> time \<Rightarrow> string \<Rightarrow> picto_lookup" where
  "find_verified_match_for_optional_input E store required_scope input_hash now vk =
     (case map_option (row_to_stored_picto E) (matching_row store required_scope input_hash now) of
        None \<Rightarrow> LookupNone
      | Some stored \<Rightarrow>
          if is_ok (verify_for_input_hash E (stored_grant stored) (stored_input_hash stored) vk)
          then LookupVerified (stored_grant stored)
          else LookupBadSignature (picto_id (stored_grant stored)) (picto_scope (stored_grant stored)))"

definition find_verified_match ::
  "extern \<Rightarrow> picto_store \<Rightarrow> string \<Rightarrow> time \<Rightarrow> string \<Rightarrow> picto_lookup" where
  "find_verified_match E store required_scope now vk =
     find_verified_match_for_optional_input E store required_scope None now vk"

definition find_verified_match_for_input ::
  "extern \<Rightarrow> picto_store \<Rightarrow> string \<Rightarrow> string \<Rightarrow> time \<Rightarrow> string \<Rightarrow> picto_lookup" where
  "find_verified_match_for_input E store required_scope input_hash now vk =
     (if \<not> is_canonical_input_hash input_hash then LookupNone
      else find_verified_match_for_optional_input E store required_scope (Some input_hash) now vk)"

definition burn_use :: "string \<Rightarrow> 32 word \<Rightarrow> string \<Rightarrow> picto_store \<Rightarrow> picto_store" where
  "burn_use pid new_uses new_status store =
     snd (update_rows (\<lambda>r. row_id r = pid)
       (\<lambda>r. r\<lparr>row_uses := new_uses, row_status := new_status\<rparr>) store)"

definition consume_verified_for_optional_input ::
  "extern \<Rightarrow> picto_store \<Rightarrow> string \<Rightarrow> string option \<Rightarrow> time \<Rightarrow> string \<Rightarrow> picto_consume \<times> picto_store" where
  "consume_verified_for_optional_input E store pid input_hash now vk =
     (case map_option (row_to_stored_picto E)
             (find (\<lambda>r. row_id r = pid \<and> usable_row input_hash now r) store) of
        None \<Rightarrow> (NotUsable, store)
      | Some stored \<Rightarrow>
          (let p = stored_grant stored
           in if \<not> is_ok (verify_for_input_hash E p (stored_input_hash stored) vk)
              then (ConsumeBadSignature (picto_id p) (picto_scope p), store)
              else
                (let new_uses = picto_uses p + 1;
                     new_status = (if picto_max_uses p \<le> new_uses then Spent else Active)
                 in (Consumed (p\<lparr>picto_uses := new_uses, picto_status := new_status\<rparr>),
                     burn_use pid new_uses (status_str new_status) store))))"

definition consume_verified ::
  "extern \<Rightarrow> picto_store \<Rightarrow> string \<Rightarrow> time \<Rightarrow> string \<Rightarrow> picto_consume \<times> picto_store" where
  "consume_verified E store pid now vk = consume_verified_for_optional_input E store pid None now vk"

definition consume_verified_for_input ::
  "extern \<Rightarrow> picto_store \<Rightarrow> string \<Rightarrow> string \<Rightarrow> time \<Rightarrow> string \<Rightarrow> picto_consume \<times> picto_store" where
  "consume_verified_for_input E store pid input_hash now vk =
     (if \<not> is_canonical_input_hash input_hash then (NotUsable, store)
      else consume_verified_for_optional_input E store pid (Some input_hash) now vk)"

definition consume :: "picto_store \<Rightarrow> string \<Rightarrow> bool \<times> picto_store" where
  "consume store pid =
     (case find (\<lambda>r. row_id r = pid \<and> row_status r = ''active'') store of
        None \<Rightarrow> (False, store)
      | Some r \<Rightarrow>
          if row_max_uses r \<le> row_uses r then (False, store)
          else
            (let new_uses = row_uses r + 1
             in (True, burn_use pid new_uses
                  (if row_max_uses r \<le> new_uses then ''spent'' else ''active'') store)))"

end
