(* ===== verification/Machine.thy ===== *)
theory Machine
  imports Main "HOL-Library.Sublist"
begin

text \<open>
  Runs of labelled step relations, and two contracts that stores of the program keep along every
  run: a bounded budget of uses, and a log that only grows.
\<close>

section \<open>Runs\<close>

inductive run :: "('s \<Rightarrow> 'e \<Rightarrow> 's \<Rightarrow> bool) \<Rightarrow> 's \<Rightarrow> 'e list \<Rightarrow> 's \<Rightarrow> bool" for step where
  run_nil: "run step s [] s"
| run_cons: "step s e s' \<Longrightarrow> run step s' es s'' \<Longrightarrow> run step s (e # es) s''"

inductive_simps run_nil_iff [simp]: "run step s [] s'"
inductive_simps run_cons_iff: "run step s (e # es) s'"

lemma run_append: "run step s es s' \<Longrightarrow> run step s' fs s'' \<Longrightarrow> run step s (es @ fs) s''"
  by (induction rule: run.induct) (auto intro: run.intros)

lemma run_invariant:
  assumes "run step s es s'" and "ok s" and "\<And>s e s'. ok s \<Longrightarrow> step s e s' \<Longrightarrow> ok s'"
  shows "ok s'"
  using assms by (induction rule: run.induct) auto

lemma run_invariant_on:
  assumes "run step s es s'" and "ok s" and "\<forall>e \<in> set es. P e"
    and "\<And>s e s'. ok s \<Longrightarrow> P e \<Longrightarrow> step s e s' \<Longrightarrow> ok s'"
  shows "ok s'"
  using assms by (induction rule: run.induct) auto

section \<open>Budgets\<close>

text \<open>A state has, for each key, a number of uses and a budget; a step's label tells what it
  spends.\<close>

locale use_budget =
  fixes step :: "'s \<Rightarrow> 'e \<Rightarrow> 's \<Rightarrow> bool"
    and spends :: "'e \<Rightarrow> 'k \<Rightarrow> nat"
    and used :: "'s \<Rightarrow> 'k \<Rightarrow> nat"
    and budget :: "'s \<Rightarrow> 'k \<Rightarrow> nat"
    and ok :: "'s \<Rightarrow> bool"
  assumes ok_step: "ok s \<Longrightarrow> step s e s' \<Longrightarrow> ok s'"
    and used_step: "ok s \<Longrightarrow> step s e s' \<Longrightarrow> used s' k = used s k + spends e k"
    and within_budget: "ok s \<Longrightarrow> used s k \<le> budget s k"
    and budget_step: "ok s \<Longrightarrow> step s e s' \<Longrightarrow> budget s k \<noteq> 0 \<Longrightarrow> budget s' k = budget s k"
begin

lemma ok_run: "run step s es s' \<Longrightarrow> ok s \<Longrightarrow> ok s'"
  by (erule run_invariant) (auto intro: ok_step)

lemma used_run:
  "run step s es s' \<Longrightarrow> ok s \<Longrightarrow> used s' k = used s k + sum_list (map (\<lambda>e. spends e k) es)"
proof (induction rule: run.induct)
  case (run_cons s e s' es s'')
  with used_step [of s e s' k] ok_step [of s e s'] show ?case by simp
qed simp

lemma budget_run:
  "run step s es s' \<Longrightarrow> ok s \<Longrightarrow> budget s k \<noteq> 0 \<Longrightarrow> budget s' k = budget s k"
proof (induction rule: run.induct)
  case (run_cons s e s' es s'')
  with budget_step [of s e s' k] ok_step [of s e s'] show ?case by simp
qed simp

lemma total_within_budget:
  assumes "run step s es s'" and "ok s"
  shows "used s k + sum_list (map (\<lambda>e. spends e k) es) \<le> budget s' k"
  using within_budget [OF ok_run [OF assms], of k] used_run [OF assms, of k] by simp

lemma exhausted:
  assumes "run step s es s'" and "ok s" and "budget s k \<noteq> 0" and "used s k = budget s k"
  shows "sum_list (map (\<lambda>e. spends e k) es) = 0"
  using total_within_budget [OF assms(1,2), of k] budget_run [OF assms(1-3)] assms(4) by simp

end

section \<open>Append-only logs\<close>

text \<open>A step never rewrites what a log holds: it only extends it.\<close>

locale append_log =
  fixes step :: "'s \<Rightarrow> 'e \<Rightarrow> 's \<Rightarrow> bool"
    and log :: "'s \<Rightarrow> 'r list"
  assumes log_step: "step s e s' \<Longrightarrow> prefix (log s) (log s')"
begin

lemma log_run: "run step s es s' \<Longrightarrow> prefix (log s) (log s')"
  by (induction rule: run.induct) (auto dest: log_step intro: prefix_order.trans)

lemma log_kept: "run step s es s' \<Longrightarrow> r \<in> set (log s) \<Longrightarrow> r \<in> set (log s')"
  using log_run set_mono_prefix by blast

lemma log_take: "run step s es s' \<Longrightarrow> take (length (log s)) (log s') = log s"
  by (auto dest!: log_run simp: prefix_def)

lemma log_nth: "run step s es s' \<Longrightarrow> i < length (log s) \<Longrightarrow> log s' ! i = log s ! i"
  by (auto dest!: log_run simp: prefix_def nth_append)

end

end
