(* ===== verification/Picto_Laws.thy ===== *)
theory Picto_Laws
  imports Picto Machine
begin

text \<open>
  The store of pictos as a machine: the invariant of its rows, the steps its operations make, and
  what holds along every run of them.
\<close>

section \<open>The invariant\<close>

definition row_ok :: "picto_row \<Rightarrow> bool" where
  "row_ok r \<longleftrightarrow>
     0 < row_max_uses r \<and> row_uses r \<le> row_max_uses r \<and>
     status_str (parse_status (row_status r)) = row_status r \<and>
     (row_status r = ''spent'' \<longleftrightarrow> row_uses r = row_max_uses r)"

definition store_ok :: "picto_store \<Rightarrow> bool" where
  "store_ok store \<longleftrightarrow> distinct (map row_id store) \<and> list_all row_ok store"

lemma status_texts [simp]:
  "status_str Active = ''active''" "status_str PendingConfirmation = ''pending_confirmation''"
  "status_str Spent = ''spent''" "status_str Revoked = ''revoked''" "status_str Expired = ''expired''"
  by (simp_all add: status_str_def)

lemma parse_texts [simp]:
  "parse_status ''active'' = Active" "parse_status ''pending_confirmation'' = PendingConfirmation"
  "parse_status ''spent'' = Spent" "parse_status ''revoked'' = Revoked"
  "parse_status ''expired'' = Expired"
  by (simp_all add: parse_status_def)

lemma row_ok_not_spent: "row_ok r \<Longrightarrow> row_status r \<noteq> ''spent'' \<Longrightarrow> row_uses r < row_max_uses r"
  by (auto simp: row_ok_def)

text \<open>How a row may change: its signed fields never, its status only forward, and once it has
  ended not at all.\<close>

definition granted :: "picto_row \<Rightarrow> string \<times> string \<times> 32 word \<times> int \<times> int \<times> string \<times> string \<times> string option" where
  "granted r =
     (row_id r, row_scope r, row_max_uses r, row_ttl r, row_created r, row_reason r,
      row_signature r, row_input_hash r)"

definition row_evolves :: "picto_row \<Rightarrow> picto_row \<Rightarrow> bool" where
  "row_evolves r r' \<longleftrightarrow>
     granted r' = granted r \<and>
     row_uses r \<le> row_uses r' \<and>
     parse_status (row_status r) \<le> parse_status (row_status r') \<and>
     (terminal (parse_status (row_status r)) \<longrightarrow> r' = r)"

lemma row_evolves_refl [simp]: "row_evolves r r"
  by (simp add: row_evolves_def)

definition store_evolves :: "picto_store \<Rightarrow> picto_store \<Rightarrow> bool" where
  "store_evolves store store' \<longleftrightarrow>
     length store \<le> length store' \<and> list_all2 row_evolves store (take (length store) store')"

text \<open>An update that keeps rows well formed and lets them evolve.\<close>

lemma update_ok:
  assumes "store_ok store" and "\<And>r. r \<in> set store \<Longrightarrow> P r \<Longrightarrow> row_ok (f r) \<and> row_evolves r (f r)"
  shows "store_ok (snd (update_rows P f store))" and "store_evolves store (snd (update_rows P f store))"
proof -
  have f: "row_ok (if P r then f r else r)" "row_evolves r (if P r then f r else r)"
    if "r \<in> set store" for r
    using assms that by (auto simp: store_ok_def list_all_iff)
  have "map row_id (snd (update_rows P f store)) = map row_id store"
    using f(2) by (simp add: update_rows_def row_evolves_def granted_def)
  then have "distinct (map row_id (snd (update_rows P f store)))"
    using assms(1) by (simp only: store_ok_def)
  moreover have "list_all row_ok (snd (update_rows P f store))"
    using assms by (auto simp: store_ok_def list_all_iff update_rows_def)
  ultimately show "store_ok (snd (update_rows P f store))" by (simp add: store_ok_def)
  show "store_evolves store (snd (update_rows P f store))"
  proof -
    have "list_all2 row_evolves store (map (\<lambda>r. if P r then f r else r) store)"
      unfolding list_all2_map2 by (rule list.rel_refl_strong) (rule f(2))
    then show ?thesis by (simp add: store_evolves_def update_rows_def)
  qed
qed


lemma live_statusD:
  "live_status r \<Longrightarrow> parse_status (row_status r) \<in> {Active, PendingConfirmation}"
  by (auto simp: live_status_def)

lemma status_up:
  "s \<in> {Active, PendingConfirmation} \<Longrightarrow> terminal t \<Longrightarrow> s \<le> t"
  "PendingConfirmation \<le> Active" "s \<le> (s :: picto_status)"
  by (auto simp: less_eq_picto_status_def status_rank_def terminal_def)

lemma end_row:
  assumes "row_ok r" and "live_status r" and "terminal t" and "t \<noteq> Spent"
  shows "row_ok (r\<lparr>row_status := status_str t\<rparr>) \<and> row_evolves r (r\<lparr>row_status := status_str t\<rparr>)"
  using assms live_statusD [OF assms(2)]
  by (auto simp: row_ok_def row_evolves_def granted_def live_status_def status_up terminal_def
      less_eq_picto_status_def status_rank_def)

lemma revoke_ok:
  assumes "store_ok store" and "revoke store pid = (b, store')"
  shows "store_ok store' \<and> store_evolves store store'"
proof -
  let ?P = "\<lambda>r. row_id r = pid \<and> live_status r"
  let ?f = "\<lambda>r. r\<lparr>row_status := ''revoked''\<rparr>"
  have "row_ok (?f r) \<and> row_evolves r (?f r)" if "r \<in> set store" "?P r" for r
    using end_row [of r Revoked] assms(1) that by (auto simp: store_ok_def list_all_iff terminal_def)
  moreover have "store' = snd (update_rows ?P ?f store)"
    using assms(2) by (simp add: revoke_def prod.case_eq_if prod_eq_iff)
  ultimately show ?thesis
    using update_ok [where P = ?P and f = ?f, OF assms(1)] by simp
qed

lemma sweep_ok:
  assumes "store_ok store" and "sweep_expired store now = (n, store')"
  shows "store_ok store' \<and> store_evolves store store'"
proof -
  let ?P = "\<lambda>r. live_status r \<and> row_ttl r \<le> unix_timestamp now"
  let ?f = "\<lambda>r. r\<lparr>row_status := ''expired''\<rparr>"
  have "row_ok (?f r) \<and> row_evolves r (?f r)" if "r \<in> set store" "?P r" for r
    using end_row [of r Expired] assms(1) that by (auto simp: store_ok_def list_all_iff terminal_def)
  from update_ok [where P = ?P and f = ?f, OF assms(1) this] assms(2) show ?thesis
    by (metis snd_conv sweep_expired_def)
qed

lemma confirm_ok:
  assumes "store_ok store" and "confirm store pid = (b, store')"
  shows "store_ok store' \<and> store_evolves store store'"
proof -
  let ?P = "\<lambda>r. row_id r = pid \<and> row_status r = ''pending_confirmation''"
  let ?f = "\<lambda>r. r\<lparr>row_status := ''active''\<rparr>"
  have "row_ok (?f r) \<and> row_evolves r (?f r)" if "r \<in> set store" "?P r" for r
  proof -
    from assms(1) that have ok: "row_ok r" and st: "row_status r = ''pending_confirmation''"
      by (simp_all add: store_ok_def list_all_iff)
    from row_ok_not_spent [OF ok] st have "row_uses r < row_max_uses r" by simp
    with ok st have "row_ok (?f r)" by (simp add: row_ok_def)
    moreover from st have "row_evolves r (?f r)"
      by (simp add: row_evolves_def granted_def status_up(2) terminal_def)
    ultimately show ?thesis ..
  qed
  moreover have "store' = snd (update_rows ?P ?f store)"
    using assms(2) by (simp add: confirm_def prod.case_eq_if prod_eq_iff)
  ultimately show ?thesis
    using update_ok [where P = ?P and f = ?f, OF assms(1)] by simp
qed

text \<open>Burning a use of a row that is active and has uses left.\<close>

lemma word_succ:
  fixes u m :: "32 word"
  assumes "u < m"
  shows "unat (u + 1) = unat u + 1" and "u + 1 \<le> m" and "u \<le> u + 1" and "m \<le> u + 1 \<longleftrightarrow> u + 1 = m"
proof -
  from assms have lt: "unat u < unat m" by (simp add: word_less_nat_alt)
  moreover have "unat m < 2 ^ 32" using unsigned_less [of m] by simp
  ultimately show s: "unat (u + 1) = unat u + 1"
    by (simp add: unat_word_ariths)
  with lt show "u + 1 \<le> m" "u \<le> u + 1" by (simp_all add: word_le_nat_alt)
  then show "m \<le> u + 1 \<longleftrightarrow> u + 1 = m" by auto
qed

definition burned :: "picto_row \<Rightarrow> picto_row" where
  "burned r =
     r\<lparr>row_uses := row_uses r + 1,
       row_status := (if row_max_uses r \<le> row_uses r + 1 then ''spent'' else ''active'')\<rparr>"

lemma burned_ok:
  assumes "row_ok r" and "row_status r = ''active''" and "row_uses r < row_max_uses r"
  shows "row_ok (burned r) \<and> row_evolves r (burned r)"
proof -
  note w = word_succ [OF assms(3)]
  have "0 < row_max_uses r" using assms(1) by (simp add: row_ok_def)
  with w assms(2) show ?thesis
    by (auto simp: row_ok_def row_evolves_def granted_def burned_def status_up terminal_def
        less_eq_picto_status_def status_rank_def)
qed

lemma burn_use_row:
  assumes "distinct (map row_id store)" and "r \<in> set store" and "row_id r = pid"
  shows "burn_use pid (row_uses r + 1) (if row_max_uses r \<le> row_uses r + 1 then ''spent'' else ''active'') store =
    snd (update_rows (\<lambda>q. q = r) burned store)"
proof -
  have "row_id q = pid \<longleftrightarrow> q = r" if "q \<in> set store" for q
    using assms that by (auto simp: distinct_map inj_on_def)
  then show ?thesis by (auto simp: burn_use_def update_rows_def burned_def)
qed

lemma burn_ok:
  assumes "store_ok store" and "r \<in> set store" and "row_status r = ''active''"
    and "row_uses r < row_max_uses r"
  shows "store_ok (snd (update_rows (\<lambda>q. q = r) burned store)) \<and>
    store_evolves store (snd (update_rows (\<lambda>q. q = r) burned store))"
  using update_ok [of store "\<lambda>q. q = r" burned] burned_ok [of r] assms
  by (auto simp: store_ok_def list_all_iff)

section \<open>What the operations do to the store\<close>

lemma create_cases:
  assumes "create_with_input_hash E now sk store pid scope ih mx ttl reason conf = Ok (p, store')"
  shows "0 < mx" and "1 \<le> ttl" and "ttl \<le> 86400" and "pid \<notin> set (map row_id store)"
    and "store' = store @ [picto_to_row p ih]"
    and "picto_id p = pid" and "picto_scope p = scope" and "picto_max_uses p = mx"
    and "picto_uses p = 0" and "picto_created_at p = now"
    and "picto_ttl_expires_at p = now + of_seconds ttl"
    and "picto_status p = (if conf then PendingConfirmation else Active)" and "picto_reason p = reason"
    and "picto_signature_b64 p = b64_encode E (ed_sign E sk (signing_payload p ih))"
    and "\<And>h. ih = Some h \<Longrightarrow> is_canonical_input_hash h"
  using assms
  by (auto simp: create_with_input_hash_def Let_def signing_payload_def word_neq_0_conv
      split: if_splits option.splits)

lemma create_ok:
  assumes "store_ok store"
    and "create_with_input_hash E now sk store pid scope ih mx ttl reason conf = Ok (p, store')"
  shows "store_ok store' \<and> store_evolves store store'"
proof -
  note c = create_cases [OF assms(2)]
  have "row_ok (picto_to_row p ih)"
    using c(1,8,12) by (auto simp: row_ok_def picto_to_row_def)
  with assms(1) c(4,5,6) show ?thesis
    by (auto simp: store_ok_def picto_to_row_def store_evolves_def intro: list.rel_refl)
qed

lemma consume_verified_cases:
  assumes "store_ok store"
    and "consume_verified_for_optional_input E store pid ih now vk = (res, store')"
  obtains (refused) "store' = store" and "\<And>p. res \<noteq> Consumed p"
  | (used) r p where "r \<in> set store" and "row_id r = pid" and "usable_row ih now r"
      and "is_ok (verify_for_input_hash E (row_to_picto E r) ih vk)"
      and "store' = snd (update_rows (\<lambda>q. q = r) burned store)" and "res = Consumed p"
      and "picto_id p = pid" and "picto_scope p = row_scope r" and "picto_uses p = row_uses r + 1"
proof (cases "find (\<lambda>r. row_id r = pid \<and> usable_row ih now r) store")
  case None
  with assms(2) show thesis by (intro refused) (auto simp: consume_verified_for_optional_input_def)
next
  case (Some r)
  then have r: "r \<in> set store" "row_id r = pid" "usable_row ih now r"
    by (auto simp: find_Some_iff)
  then have ih: "row_input_hash r = ih" by (simp add: usable_row_def)
  let ?ok = "is_ok (verify_for_input_hash E (row_to_picto E r) ih vk)"
  show thesis
  proof (cases ?ok)
    case False
    with Some ih assms(2) show thesis
      by (intro refused) (auto simp: consume_verified_for_optional_input_def row_to_stored_picto_def Let_def)
  next
    case True
    have "store' = burn_use pid (row_uses r + 1)
        (if row_max_uses r \<le> row_uses r + 1 then ''spent'' else ''active'') store"
      and "res = Consumed ((row_to_picto E r)\<lparr>picto_uses := row_uses r + 1,
        picto_status := (if row_max_uses r \<le> row_uses r + 1 then Spent else Active)\<rparr>)"
      using True Some ih assms(2)
      by (auto simp: consume_verified_for_optional_input_def row_to_stored_picto_def Let_def
          row_to_picto_def)
    with True r assms(1) show thesis
      by (intro used [of r]) (auto simp: burn_use_row store_ok_def row_to_picto_def)
  qed
qed

lemma consume_cases:
  assumes "store_ok store" and "consume store pid = (b, store')"
  obtains (refused) "store' = store" and "\<not> b"
  | (used) r where "r \<in> set store" and "row_id r = pid" and "row_status r = ''active''"
      and "row_uses r < row_max_uses r" and "b"
      and "store' = snd (update_rows (\<lambda>q. q = r) burned store)"
proof (cases "find (\<lambda>r. row_id r = pid \<and> row_status r = ''active'') store")
  case None
  with assms(2) show thesis by (intro refused) (auto simp: consume_def)
next
  case (Some r)
  then have r: "r \<in> set store" "row_id r = pid" "row_status r = ''active''"
    by (auto simp: find_Some_iff)
  show thesis
  proof (cases "row_max_uses r \<le> row_uses r")
    case True
    with Some assms(2) show thesis by (intro refused) (auto simp: consume_def)
  next
    case False
    with Some r assms show thesis
      by (intro used [of r]) (auto simp: consume_def burn_use_row store_ok_def Let_def)
  qed
qed

section \<open>Steps\<close>

datatype picto_event =
    EvCreated string
  | EvUsed string
  | EvRefused
  | EvChanged

inductive picto_step ::
  "extern \<Rightarrow> string \<Rightarrow> string \<Rightarrow> picto_store \<Rightarrow> picto_event \<Rightarrow> picto_store \<Rightarrow> bool"
  for E sk vk where
  step_create:
    "create_with_input_hash E now sk store pid scope ih mx ttl reason conf = Ok (p, store') \<Longrightarrow>
       picto_step E sk vk store (EvCreated pid) store'"
| step_consumed:
    "consume_verified_for_optional_input E store pid ih now vk = (Consumed p, store') \<Longrightarrow>
       picto_step E sk vk store (EvUsed pid) store'"
| step_refused:
    "consume_verified_for_optional_input E store pid ih now vk = (res, store') \<Longrightarrow>
       (\<And>p. res \<noteq> Consumed p) \<Longrightarrow> picto_step E sk vk store EvRefused store'"
| step_burned: "consume store pid = (True, store') \<Longrightarrow> picto_step E sk vk store (EvUsed pid) store'"
| step_not_burned: "consume store pid = (False, store') \<Longrightarrow> picto_step E sk vk store EvRefused store'"
| step_revoke: "revoke store pid = (b, store') \<Longrightarrow> picto_step E sk vk store EvChanged store'"
| step_confirm: "confirm store pid = (b, store') \<Longrightarrow> picto_step E sk vk store EvChanged store'"
| step_sweep: "sweep_expired store now = (n, store') \<Longrightarrow> picto_step E sk vk store EvChanged store'"

inductive_cases picto_step_usedE: "picto_step E sk vk store (EvUsed pid) store'"
inductive_cases picto_step_createdE: "picto_step E sk vk store (EvCreated pid) store'"

lemma store_evolves_refl: "store_evolves store store"
  by (simp add: store_evolves_def list.rel_refl)

lemma usable_rowD:
  "usable_row ih now r \<Longrightarrow> row_status r = ''active'' \<and> row_uses r < row_max_uses r"
  by (simp add: usable_row_def)

lemma step_ok:
  assumes "store_ok store" and "picto_step E sk vk store ev store'"
  shows "store_ok store' \<and> store_evolves store store'"
  using assms(2,1)
proof (induction rule: picto_step.induct)
  case (step_create now store pid scope ih mx ttl reason conf p store')
  then show ?case by (intro create_ok)
next
  case (step_consumed store pid ih now p store')
  from step_consumed(2,1) show ?case
    by (rule consume_verified_cases) (auto simp: step_consumed dest: usable_rowD intro!: burn_ok [THEN conjunct1] burn_ok [THEN conjunct2])
next
  case (step_refused store pid ih now res store')
  from step_refused(3,1) show ?case
    by (rule consume_verified_cases) (auto simp: step_refused store_evolves_refl)
next
  case (step_burned store pid store')
  from step_burned(2,1) show ?case
    by (rule consume_cases) (auto simp: step_burned intro!: burn_ok [THEN conjunct1] burn_ok [THEN conjunct2])
next
  case (step_not_burned store pid store')
  from step_not_burned(2,1) show ?case
    by (rule consume_cases) (auto simp: step_not_burned store_evolves_refl)
next
  case (step_revoke store pid b store')
  show ?case by (rule revoke_ok [OF step_revoke(2,1)])
next
  case (step_confirm store pid b store')
  show ?case by (rule confirm_ok [OF step_confirm(2,1)])
next
  case (step_sweep store now n store')
  show ?case by (rule sweep_ok [OF step_sweep(2,1)])
qed

section \<open>The budget of uses\<close>

definition row_of :: "picto_store \<Rightarrow> string \<Rightarrow> picto_row option" where
  "row_of store pid = find (\<lambda>r. row_id r = pid) store"

definition uses_of :: "picto_store \<Rightarrow> string \<Rightarrow> nat" where
  "uses_of store pid = (case row_of store pid of None \<Rightarrow> 0 | Some r \<Rightarrow> unat (row_uses r))"

definition budget_of :: "picto_store \<Rightarrow> string \<Rightarrow> nat" where
  "budget_of store pid = (case row_of store pid of None \<Rightarrow> 0 | Some r \<Rightarrow> unat (row_max_uses r))"

fun uses_spent :: "picto_event \<Rightarrow> string \<Rightarrow> nat" where
  "uses_spent (EvUsed pid) k = (if pid = k then 1 else 0)"
| "uses_spent _ k = 0"

lemma row_of_map:
  "(\<And>r. r \<in> set store \<Longrightarrow> row_id (f r) = row_id r) \<Longrightarrow>
     row_of (map f store) k = map_option f (row_of store k)"
  by (induction store) (auto simp: row_of_def)

lemma row_of_update:
  "(\<And>r. row_id (f r) = row_id r) \<Longrightarrow>
     row_of (snd (update_rows P f store)) k = map_option (\<lambda>r. if P r then f r else r) (row_of store k)"
  by (simp add: update_rows_def row_of_map)

lemma row_of_append_new:
  "row_id r \<notin> set (map row_id store) \<Longrightarrow>
     row_of (store @ [r]) k = (if k = row_id r then Some r else row_of store k)"
  by (induction store) (auto simp: row_of_def)

lemma row_of_Some: "row_of store k = Some r \<Longrightarrow> r \<in> set store \<and> row_id r = k"
  by (auto simp: row_of_def find_Some_iff)

lemma row_of_member:
  assumes "distinct (map row_id store)" and "r \<in> set store"
  shows "row_of store (row_id r) = Some r"
  using assms by (induction store) (auto simp: row_of_def)

lemma quiet_update:
  assumes "\<And>r. row_id (f r) = row_id r \<and> row_uses (f r) = row_uses r \<and> row_max_uses (f r) = row_max_uses r"
  shows "uses_of (snd (update_rows P f store)) k = uses_of store k"
    and "budget_of (snd (update_rows P f store)) k = budget_of store k"
  using assms by (auto simp: uses_of_def budget_of_def row_of_update split: option.split)

lemma burned_uses:
  assumes "store_ok store" and "r \<in> set store" and "row_id r = pid" and "row_uses r < row_max_uses r"
  shows "uses_of (snd (update_rows (\<lambda>q. q = r) burned store)) k = uses_of store k + (if pid = k then 1 else 0)"
    and "budget_of (snd (update_rows (\<lambda>q. q = r) burned store)) k = budget_of store k"
proof -
  have ids: "row_id (burned q) = row_id q" "row_max_uses (burned q) = row_max_uses q" for q
    by (simp_all add: burned_def)
  have r: "row_of store (row_id r) = Some r"
    using assms(1,2) by (simp add: row_of_member store_ok_def)
  have neq: "q \<noteq> r" if "row_of store k = Some q" "k \<noteq> row_id r" for q
    using row_of_Some [OF that(1)] that(2) by auto
  show "uses_of (snd (update_rows (\<lambda>q. q = r) burned store)) k = uses_of store k + (if pid = k then 1 else 0)"
    using r neq assms(3) word_succ(1) [OF assms(4)]
    by (cases "row_of store k") (auto simp: uses_of_def row_of_update ids burned_def)
  show "budget_of (snd (update_rows (\<lambda>q. q = r) burned store)) k = budget_of store k"
    by (cases "row_of store k") (auto simp: budget_of_def row_of_update ids)
qed

lemma quiet_ops:
  "revoke store pid = (b, store') \<Longrightarrow> uses_of store' k = uses_of store k \<and> budget_of store' k = budget_of store k"
  "confirm store pid = (b, store') \<Longrightarrow> uses_of store' k = uses_of store k \<and> budget_of store' k = budget_of store k"
  "sweep_expired store now = (n, store') \<Longrightarrow> uses_of store' k = uses_of store k \<and> budget_of store' k = budget_of store k"
proof -
  show "revoke store pid = (b, store') \<Longrightarrow> uses_of store' k = uses_of store k \<and> budget_of store' k = budget_of store k"
    using quiet_update [where f = "\<lambda>r. r\<lparr>row_status := ''revoked''\<rparr>"]
    by (auto simp: revoke_def prod.case_eq_if)
  show "confirm store pid = (b, store') \<Longrightarrow> uses_of store' k = uses_of store k \<and> budget_of store' k = budget_of store k"
    using quiet_update [where f = "\<lambda>r. r\<lparr>row_status := ''active''\<rparr>"]
    by (auto simp: confirm_def prod.case_eq_if)
  show "sweep_expired store now = (n, store') \<Longrightarrow> uses_of store' k = uses_of store k \<and> budget_of store' k = budget_of store k"
    using quiet_update [where f = "\<lambda>r. r\<lparr>row_status := ''expired''\<rparr>"]
    unfolding sweep_expired_def by (metis (no_types, lifting) picto_row.select_convs(1,3,4) picto_row.surjective picto_row.update_convs(7) snd_conv)
qed

lemma step_uses:
  assumes "store_ok store" and "picto_step E sk vk store ev store'"
  shows "uses_of store' k = uses_of store k + uses_spent ev k \<and>
    (budget_of store k \<noteq> 0 \<longrightarrow> budget_of store' k = budget_of store k)"
  using assms(2,1)
proof (induction rule: picto_step.induct)
  case (step_create now store pid scope ih mx ttl reason conf p store')
  note c = create_cases [OF step_create(1)]
  have new: "row_id (picto_to_row p ih) = pid" "row_uses (picto_to_row p ih) = 0"
    using c(6) by (simp_all add: picto_to_row_def)
  have none: "row_of store pid = None"
    using c(4) by (auto simp: row_of_def find_None_iff)
  with c(4,5) new show ?case
    by (auto simp: uses_of_def budget_of_def row_of_append_new split: option.split)
next
  case (step_consumed store pid ih now p store')
  from step_consumed(2,1) show ?case
    by (rule consume_verified_cases) (auto simp: burned_uses [OF step_consumed(2)] dest: usable_rowD)
next
  case (step_refused store pid ih now res store')
  from step_refused(3,1) show ?case
    by (rule consume_verified_cases) (auto simp: step_refused)
next
  case (step_burned store pid store')
  from step_burned(2,1) show ?case
    by (rule consume_cases) (auto simp: burned_uses [OF step_burned(2)])
next
  case (step_not_burned store pid store')
  from step_not_burned(2,1) show ?case by (rule consume_cases) auto
qed (auto dest: quiet_ops)

lemma uses_within_budget: "store_ok store \<Longrightarrow> uses_of store k \<le> budget_of store k"
  using row_of_Some [of store k]
  by (auto simp: uses_of_def budget_of_def store_ok_def list_all_iff row_ok_def word_le_nat_alt
      split: option.split)

interpretation picto_budget: use_budget "picto_step E sk vk" uses_spent uses_of budget_of store_ok
  by unfold_locales (auto dest: step_ok step_uses uses_within_budget)

text \<open>A grant is never used more often than it allows: along every run of creations,
  consumptions (verified or not), revocations, confirmations and sweeps, in any order, the uses a
  picto had and the consumptions that succeed stay within its \<open>max_uses\<close>, which no operation
  changes.\<close>

theorem uses_never_exceed_budget:
  assumes "store_ok store" and "run (picto_step E sk vk) store evs store'"
  shows "uses_of store pid + sum_list (map (\<lambda>ev. uses_spent ev pid) evs) = uses_of store' pid \<and>
    uses_of store' pid \<le> budget_of store' pid \<and>
    (budget_of store pid \<noteq> 0 \<longrightarrow> budget_of store' pid = budget_of store pid)"
  using picto_budget.used_run [OF assms(2,1)] picto_budget.budget_run [OF assms(2,1)]
    picto_budget.within_budget [OF picto_budget.ok_run [OF assms(2,1)]]
  by auto

definition demo_store :: picto_store where
  "demo_store = snd (projr (create demo_extern 0 ''key'' [] ''p1'' ''git.push:main'' 1 600 ''why'' False))"

lemma uses_never_exceed_budget_witness:
  "\<exists>store' p. consume_verified demo_extern demo_store ''p1'' 0 ''key'' = (Consumed p, store') \<and>
     uses_of store' ''p1'' = 1 \<and> budget_of store' ''p1'' = 1"
proof -
  let ?c = "consume_verified demo_extern demo_store ''p1'' 0 ''key''"
  have ok: "store_ok demo_store" by code_simp
  have is_consumed: "(case fst ?c of Consumed _ \<Rightarrow> True | _ \<Rightarrow> False)" by code_simp
  then obtain p where p: "?c = (Consumed p, snd ?c)"
    by (cases ?c) (auto split: picto_consume.splits)
  then have "picto_step demo_extern ''key'' ''key'' demo_store (EvUsed ''p1'') (snd ?c)"
    unfolding consume_verified_def by (rule step_consumed)
  then have "run (picto_step demo_extern ''key'' ''key'') demo_store [EvUsed ''p1''] (snd ?c)"
    by (auto intro: run.intros)
  from uses_never_exceed_budget [OF ok this, of "''p1''"]
  have "uses_of demo_store ''p1'' + 1 = uses_of (snd ?c) ''p1''"
    and "budget_of demo_store ''p1'' \<noteq> 0 \<longrightarrow> budget_of (snd ?c) ''p1'' = budget_of demo_store ''p1''"
    by simp_all
  moreover have "uses_of demo_store ''p1'' = 0" "budget_of demo_store ''p1'' = 1" by code_simp+
  ultimately show ?thesis using p by (metis One_nat_def add_0 zero_neq_one)
qed

end
