(* ===== verification/Picto_Grants.thy ===== *)
theory Picto_Grants
  imports Picto_Laws
begin

text \<open>
  What a found grant is worth: lookups are sound, ended grants stay ended, a fresh grant is found
  and verifies, and what the signature covers and does not cover.
\<close>

section \<open>Lookups\<close>

lemma newest_row_None_iff [simp]: "newest_row rs = None \<longleftrightarrow> rs = []"
  by (cases rs) (auto split: option.split)

lemma newest_row_Some:
  "newest_row rs = Some r \<Longrightarrow> r \<in> set rs \<and> (\<forall>q \<in> set rs. row_created q \<le> row_created r)"
proof (induction rs arbitrary: r)
  case (Cons q rs)
  then show ?case
    by (cases "newest_row rs") (fastforce split: if_splits)+
qed simp

lemma verified_cases:
  assumes "find_verified_match_for_optional_input E store scope ih now vk = LookupVerified p"
  obtains r where "matching_row store scope ih now = Some r" and "p = row_to_picto E r"
    and "is_ok (verify_for_input_hash E p ih vk)" and "usable_row ih now r" and "r \<in> set store"
    and "row_scope r = scope"
proof -
  from assms obtain r where m: "matching_row store scope ih now = Some r"
    and p: "p = row_to_picto E r" and ok: "is_ok (verify_for_input_hash E p (row_input_hash r) vk)"
    by (auto simp: find_verified_match_for_optional_input_def row_to_stored_picto_def split: option.splits if_splits)
  from m have u: "r \<in> set store" "row_scope r = scope" "usable_row ih now r"
    using newest_row_Some [OF m [unfolded matching_row_def]] by auto
  then have "row_input_hash r = ih" by (simp add: usable_row_def)
  with m p ok u show thesis by (intro that) auto
qed

lemma timestamp_not_expired:
  assumes "timestamp_in_range E s" and "unix_timestamp now < s"
  shows "now < timestamp_or_epoch E s"
proof -
  have "now < of_seconds s"
  proof (rule ccontr)
    assume "\<not> now < of_seconds s"
    then have "of_seconds s \<le> now" by simp
    from unix_timestamp_mono [OF this] assms(2) show False by simp
  qed
  with assms(1) show ?thesis by (simp add: timestamp_or_epoch_def from_unix_timestamp_def)
qed

text \<open>C30. A verified grant is a usable one: a lookup answers \<open>Verified\<close> only with a stored row of
  exactly the scope and exactly the input binding asked for, active, with uses left, not expired,
  whose signature verifies, and no usable row of that scope is newer. A scope-only lookup never
  returns an input-bound grant, nor the other way round.\<close>

theorem verified_lookup_sound:
  assumes "find_verified_match_for_optional_input E store scope ih now vk = LookupVerified p"
  shows "picto_scope p = scope \<and> picto_status p = Active \<and> picto_uses p < picto_max_uses p \<and>
    is_ok (verify_for_input_hash E p ih vk) \<and>
    (\<exists>r \<in> set store. p = row_to_picto E r \<and> row_input_hash r = ih \<and> unix_timestamp now < row_ttl r \<and>
       (timestamp_in_range E (row_ttl r) \<longrightarrow> \<not> is_expired p now) \<and>
       (\<forall>q \<in> set store. row_scope q = scope \<and> usable_row ih now q \<longrightarrow> row_created q \<le> row_created r))"
proof -
  from assms obtain r where r: "matching_row store scope ih now = Some r" "p = row_to_picto E r"
    "is_ok (verify_for_input_hash E p ih vk)" "usable_row ih now r" "r \<in> set store" "row_scope r = scope"
    by (rule verified_cases)
  from r(1) have "\<forall>q \<in> set store. row_scope q = scope \<and> usable_row ih now q \<longrightarrow> row_created q \<le> row_created r"
    using newest_row_Some [OF r(1) [unfolded matching_row_def]] by auto
  moreover have "timestamp_in_range E (row_ttl r) \<longrightarrow> \<not> is_expired p now"
    using timestamp_not_expired [of E "row_ttl r" now] r(2,4)
    by (auto simp: is_expired_def row_to_picto_def usable_row_def)
  ultimately show ?thesis using r by (auto simp: row_to_picto_def usable_row_def)
qed

lemma verified_lookup_sound_witness:
  "\<exists>p. find_verified_match demo_extern demo_store ''git.push:main'' 0 ''key'' = LookupVerified p \<and>
     picto_scope p = ''git.push:main''"
proof -
  let ?l = "find_verified_match demo_extern demo_store ''git.push:main'' 0 ''key''"
  have "(case ?l of LookupVerified _ \<Rightarrow> True | _ \<Rightarrow> False)" by code_simp
  then obtain p where p: "?l = LookupVerified p" by (auto split: picto_lookup.splits)
  from verified_lookup_sound [OF p [unfolded find_verified_match_def]] p show ?thesis by blast
qed

section \<open>The life of a grant\<close>

lemma row_evolves_trans: "row_evolves r r' \<Longrightarrow> row_evolves r' r'' \<Longrightarrow> row_evolves r r''"
  by (auto simp: row_evolves_def intro: order_trans)

lemma store_evolves_trans:
  assumes "store_evolves s s'" and "store_evolves s' s''"
  shows "store_evolves s s''"
proof -
  have "list_all2 row_evolves (take (length s) s') (take (length s) s'')"
    using assms list_all2_takeI [of row_evolves s' "take (length s') s''" "length s"]
    by (auto simp: store_evolves_def min_def)
  then have "list_all2 row_evolves s (take (length s) s'')"
    using assms(1) list_all2_trans [of row_evolves row_evolves row_evolves] row_evolves_trans
    by (metis store_evolves_def)
  with assms show ?thesis by (auto simp: store_evolves_def)
qed

lemma run_evolves:
  "run (picto_step E sk vk) store evs store' \<Longrightarrow> store_ok store \<Longrightarrow>
     store_ok store' \<and> store_evolves store store'"
proof (induction rule: run.induct)
  case (run_nil s)
  then show ?case by (simp add: store_evolves_refl)
next
  case (run_cons s e s' es s'')
  with step_ok [OF run_cons.prems run_cons.hyps(1)] show ?case
    by (blast intro: store_evolves_trans)
qed

lemma evolves_member:
  assumes "store_evolves store store'" and "r \<in> set store"
  shows "\<exists>r' \<in> set store'. row_evolves r r'"
  using assms by (metis in_set_conv_nth in_set_takeD list_all2_conv_all_nth store_evolves_def)

lemma ended_not_usable: "terminal (parse_status (row_status r)) \<Longrightarrow> \<not> usable_row ih now r"
  by (auto simp: usable_row_def terminal_def)

text \<open>Spent, revoked and expired are final: along every run a grant keeps its signed fields and
  its status only moves forward, a grant that has ended is never changed again, and it can neither
  be found nor consumed.\<close>

theorem ended_grant_stays_ended:
  assumes "store_ok store" and "run (picto_step E sk vk) store evs store'" and "r \<in> set store"
  shows "(\<exists>r' \<in> set store'. granted r' = granted r \<and>
       parse_status (row_status r) \<le> parse_status (row_status r') \<and> row_uses r \<le> row_uses r') \<and>
    (terminal (parse_status (row_status r)) \<longrightarrow> r \<in> set store' \<and>
       consume_verified_for_optional_input E store' (row_id r) ih now vk = (NotUsable, store') \<and>
       (\<forall>scope p. find_verified_match_for_optional_input E store' scope ih now vk = LookupVerified p \<longrightarrow>
          picto_id p \<noteq> row_id r))"
proof -
  from run_evolves [OF assms(2,1)] have ok: "store_ok store'" and ev: "store_evolves store store'" by auto
  obtain r' where r': "r' \<in> set store'" "row_evolves r r'" using evolves_member [OF ev assms(3)] by blast
  have end_consume: "consume_verified_for_optional_input E store' (row_id r) ih now vk = (NotUsable, store')"
    and end_found: "\<And>scope p. find_verified_match_for_optional_input E store' scope ih now vk = LookupVerified p \<Longrightarrow>
      picto_id p \<noteq> row_id r"
    and kept: "r \<in> set store'" if t: "terminal (parse_status (row_status r))"
  proof -
    from r' t show kept: "r \<in> set store'" by (auto simp: row_evolves_def)
    have only: "q = r" if "q \<in> set store'" "row_id q = row_id r" for q
      using ok kept that by (auto simp: store_ok_def distinct_map inj_on_def)
    then have "find (\<lambda>q. row_id q = row_id r \<and> usable_row ih now q) store' = None"
      using ended_not_usable [OF t] by (auto simp: find_None_iff)
    then show "consume_verified_for_optional_input E store' (row_id r) ih now vk = (NotUsable, store')"
      by (simp add: consume_verified_for_optional_input_def)
    show "picto_id p \<noteq> row_id r"
      if "find_verified_match_for_optional_input E store' scope ih now vk = LookupVerified p" for scope p
    proof -
      from that obtain q where "p = row_to_picto E q" "usable_row ih now q" "q \<in> set store'"
        by (rule verified_cases)
      with only ended_not_usable [OF t] show ?thesis by (auto simp: row_to_picto_def)
    qed
  qed
  from r' have "\<exists>r' \<in> set store'. granted r' = granted r \<and>
       parse_status (row_status r) \<le> parse_status (row_status r') \<and> row_uses r \<le> row_uses r'"
    by (auto simp: row_evolves_def)
  with end_consume end_found kept show ?thesis by blast
qed

lemma ended_grant_stays_ended_witness:
  "consume_verified_for_optional_input demo_extern (snd (revoke demo_store ''p1'')) ''p1'' None 0 ''key'' =
     (NotUsable, snd (revoke demo_store ''p1''))"
proof -
  let ?s = "snd (revoke demo_store ''p1'')"
  have ok: "store_ok ?s" and mem: "hd ?s \<in> set ?s"
    and t: "terminal (parse_status (row_status (hd ?s)))" and n: "row_id (hd ?s) = ''p1''"
    by code_simp+
  have "run (picto_step demo_extern ''key'' ''key'') ?s [] ?s" by (rule run_nil)
  from ended_grant_stays_ended [OF ok this mem, where ih = None and now = 0, THEN conjunct2] t
  show ?thesis unfolding n by blast
qed

section \<open>A fresh grant\<close>

lemma newest_row_last:
  "list_all (\<lambda>q. row_created q \<le> row_created r) rs \<Longrightarrow>
     (\<And>q. q \<in> set rs \<Longrightarrow> row_created q \<noteq> row_created r) \<Longrightarrow> newest_row (rs @ [r]) = Some r"
proof (induction rs)
  case (Cons q rs)
  then have "newest_row (rs @ [r]) = Some r" by simp
  moreover have "row_created q < row_created r"
    using Cons.prems by (auto simp: order_less_le)
  ultimately show ?case by simp
qed simp

lemma payload_of_row:
  assumes "timestamp_in_range E (row_ttl r)" and "timestamp_in_range E (row_created r)"
  shows "signing_payload (row_to_picto E r) ih =
    join [NL] [row_id r, row_scope r, dec_nat (unat (row_max_uses r)), dec_int (row_ttl r),
      dec_int (row_created r), row_reason r] @
      (case ih of Some h \<Rightarrow> [NL] @ ''input_hash='' @ h | None \<Rightarrow> [])"
  using assms
  by (simp add: signing_payload_def row_to_picto_def timestamp_or_epoch_def from_unix_timestamp_def
      Let_def split: option.split)

lemma created_verifies:
  assumes "crypto_ok E"
    and "create_with_input_hash E now sk store pid scope ih mx ttl reason conf = Ok (p, store')"
    and "timestamp_in_range E (unix_timestamp now)" and "timestamp_in_range E (unix_timestamp now + ttl)"
  shows "is_ok (verify_for_input_hash E (row_to_picto E (picto_to_row p ih)) ih (ed_public E sk))"
proof -
  note c = create_cases [OF assms(2)]
  let ?q = "row_to_picto E (picto_to_row p ih)"
  have row: "row_ttl (picto_to_row p ih) = unix_timestamp now + ttl"
    "row_created (picto_to_row p ih) = unix_timestamp now"
    using c(10,11) by (simp_all add: picto_to_row_def unix_timestamp_add)
  have "signing_payload ?q ih = signing_payload p ih"
    using assms(3,4) row c(10,11)
    by (simp add: payload_of_row) (simp add: picto_to_row_def signing_payload_def Let_def
        unix_timestamp_add split: option.split)
  moreover have "picto_signature_b64 ?q = b64_encode E (ed_sign E sk (signing_payload p ih))"
    using c(14) by (simp add: row_to_picto_def picto_to_row_def)
  ultimately show ?thesis
    using crypto_okD [OF assms(1)] c(15)
    by (auto simp: verify_for_input_hash_def split: option.split)
qed

text \<open>A grant works: a picto created active, for the calendar range of the time library, is
  found by the lookup for its scope and binding at any time before its expiry, unless a usable one
  of that scope is at least as new; it verifies under the public key of its signing key, and
  consuming it spends one use.\<close>

theorem created_grant_is_usable:
  assumes "crypto_ok E" and "store_ok store"
    and "create_with_input_hash E now sk store pid scope ih mx ttl reason False = Ok (p, store')"
    and "timestamp_in_range E (unix_timestamp now)" and "timestamp_in_range E (unix_timestamp now + ttl)"
    and "unix_timestamp t < unix_timestamp now + ttl"
    and "\<And>q. q \<in> set store \<Longrightarrow> row_scope q = scope \<Longrightarrow> usable_row ih t q \<Longrightarrow>
           row_created q < unix_timestamp now"
  shows "find_verified_match_for_optional_input E store' scope ih t (ed_public E sk) =
      LookupVerified (row_to_picto E (picto_to_row p ih)) \<and>
    (\<exists>q store''. consume_verified_for_optional_input E store' pid ih t (ed_public E sk) =
      (Consumed q, store'') \<and> picto_uses q = 1 \<and> picto_id q = pid \<and> uses_of store'' pid = 1)"
proof -
  note c = create_cases [OF assms(3)]
  let ?r = "picto_to_row p ih"
  have verified: "is_ok (verify_for_input_hash E (row_to_picto E ?r) ih (ed_public E sk))"
    by (rule created_verifies [OF assms(1,3-5)])
  have usable: "usable_row ih t ?r"
    using c(1,8-12) assms(6) by (simp add: usable_row_def picto_to_row_def unix_timestamp_add)
  have row: "row_id ?r = pid" "row_scope ?r = scope" "row_created ?r = unix_timestamp now"
    "row_input_hash ?r = ih" "row_uses ?r = 0"
    using c(6,7,9,10) by (simp_all add: picto_to_row_def)
  let ?old = "filter (\<lambda>r. row_scope r = scope \<and> usable_row ih t r) store"
  have newest: "newest_row (?old @ [?r]) = Some ?r"
    by (rule newest_row_last) (use assms(7) row(3) in \<open>force simp: list_all_iff\<close>)+
  have match: "matching_row store' scope ih t = Some ?r"
    using newest c(5) usable row(2) by (simp add: matching_row_def)
  from match verified row(4)
  have found: "find_verified_match_for_optional_input E store' scope ih t (ed_public E sk) =
      LookupVerified (row_to_picto E ?r)"
    by (simp add: find_verified_match_for_optional_input_def row_to_stored_picto_def)
  have ok': "store_ok store'" using create_ok [OF assms(2,3)] by simp
  have "find (\<lambda>r. row_id r = pid \<and> usable_row ih t r) store = None"
    using c(4) by (auto simp: find_None_iff)
  then have "find (\<lambda>r. row_id r = pid \<and> usable_row ih t r) store' = Some ?r"
    using c(5) usable row(1) by (simp add: find_append)
  then have sel: "\<exists>q. fst (consume_verified_for_optional_input E store' pid ih t (ed_public E sk)) = Consumed q"
    using verified row(4)
    by (auto simp: consume_verified_for_optional_input_def row_to_stored_picto_def Let_def)
  obtain res s'' where cons: "consume_verified_for_optional_input E store' pid ih t (ed_public E sk) = (res, s'')"
    by fastforce
  with sel obtain q where res: "res = Consumed q" by auto
  have uses0: "uses_of store' pid = 0"
    using c(4,5) row(1,5) by (simp add: uses_of_def row_of_append_new)
  from ok' cons have "picto_id q = pid \<and> picto_uses q = 1 \<and> uses_of s'' pid = 1"
  proof (rule consume_verified_cases)
    fix r q' assume r: "r \<in> set store'" "row_id r = pid" "usable_row ih t r"
      "s'' = snd (update_rows (\<lambda>q. q = r) burned store')" "res = Consumed q'"
      "picto_id q' = pid" "picto_uses q' = row_uses r + 1"
    have "?r \<in> set store'" using c(5) by simp
    with r(1,2) ok' row(1) have "r = ?r"
      using row_of_member [of store' r] row_of_member [of store' ?r] by (simp add: store_ok_def)
    with r res row(5) uses0 burned_uses(1) [OF ok' r(1,2), of pid] usable_rowD [OF r(3)]
    show "picto_id q = pid \<and> picto_uses q = 1 \<and> uses_of s'' pid = 1" by simp
  qed (use res in blast)
  with found cons res show ?thesis by blast
qed

lemma created_grant_is_usable_witness:
  "find_verified_match_for_optional_input demo_extern demo_store ''git.push:main'' None 0 ''key'' =
     LookupVerified (row_to_picto demo_extern (hd demo_store))"
proof -
  let ?c = "create_with_input_hash demo_extern 0 ''key'' [] ''p1'' ''git.push:main'' None 1 600 ''why'' False"
  have c: "?c = Ok (fst (projr ?c), demo_store)"
    unfolding demo_store_def create_def by (simp add: create_with_input_hash_def Let_def)
  have ok: "store_ok []" by (simp add: store_ok_def)
  have range: "timestamp_in_range demo_extern (unix_timestamp 0)"
    "timestamp_in_range demo_extern (unix_timestamp 0 + 600)" "unix_timestamp 0 < unix_timestamp 0 + 600"
    by code_simp+
  have row: "picto_to_row (fst (projr ?c)) None = hd demo_store" by code_simp
  have key: "ed_public demo_extern ''key'' = ''key''" by (simp add: demo_extern_def)
  from created_grant_is_usable [OF crypto_ok_demo ok c range] show ?thesis
    unfolding row key by simp
qed

section \<open>What the signature covers\<close>

lemma split_on_join:
  "xs \<noteq> [] \<Longrightarrow> list_all (\<lambda>x. c \<notin> set x) xs \<Longrightarrow> split_on c (join [c] xs) = xs"
  by (induction xs rule: induct_list012) (auto simp: split_on_no_sep split_on_append_sep)

lemma no_newline:
  "NL \<notin> set (dec_nat n)" "NL \<notin> set (dec_int i)"
  using dec_nat_digits [of NL n] dec_int_chars [of NL i] not_digit_special
  by (auto simp: NL_def)

lemma canonical_no_newline:
  assumes "is_canonical_input_hash h"
  shows "NL \<notin> set h"
proof -
  from assms obtain rest where h: "h = ''sha256:'' @ rest" and "list_all is_ascii_hexdigit rest"
    by (auto simp: is_canonical_input_hash_def starts_with_def prefix_def list_all_iff)
  moreover have "\<not> is_ascii_hexdigit NL" by (simp add: char_class_defs NL_def)
  ultimately have "NL \<notin> set rest" by (auto simp: list_all_iff)
  then show ?thesis by (simp add: h NL_def)
qed

definition clean_grant :: "picto \<Rightarrow> string option \<Rightarrow> bool" where
  "clean_grant p ih \<longleftrightarrow>
     NL \<notin> set (picto_id p) \<and> NL \<notin> set (picto_scope p) \<and> NL \<notin> set (picto_reason p) \<and>
     (case ih of Some h \<Rightarrow> is_canonical_input_hash h | None \<Rightarrow> True)"

definition payload_fields :: "picto \<Rightarrow> string option \<Rightarrow> string list" where
  "payload_fields p ih =
     [picto_id p, picto_scope p, dec_nat (unat (picto_max_uses p)),
      dec_int (unix_timestamp (picto_ttl_expires_at p)),
      dec_int (unix_timestamp (picto_created_at p)), picto_reason p] @
     (case ih of Some h \<Rightarrow> [''input_hash='' @ h] | None \<Rightarrow> [])"

lemma signing_payload_fields: "signing_payload p ih = join [NL] (payload_fields p ih)"
  by (auto simp: signing_payload_def payload_fields_def Let_def split: option.split)

lemma payload_split:
  assumes "clean_grant p ih"
  shows "split_on NL (signing_payload p ih) = payload_fields p ih"
proof -
  have "NL \<notin> set (''input_hash='' @ h)" if "ih = Some h" for h
    using assms that canonical_no_newline [of h] by (auto simp: clean_grant_def NL_def)
  then have "list_all (\<lambda>x. NL \<notin> set x) (payload_fields p ih)"
    using assms by (auto simp: payload_fields_def clean_grant_def no_newline split: option.split)
  then show ?thesis
    unfolding signing_payload_fields by (intro split_on_join) (simp_all add: payload_fields_def)
qed

text \<open>Without line breaks in identifier, scope and reason, the signature covers the whole
  grant: two grants with the same signed text agree in identifier, scope, number of uses, expiry
  and creation second, reason and input binding.\<close>

theorem signed_text_identifies_grant:
  assumes "clean_grant p ih" and "clean_grant q jh" and "signing_payload p ih = signing_payload q jh"
  shows "picto_id p = picto_id q \<and> picto_scope p = picto_scope q \<and>
    picto_max_uses p = picto_max_uses q \<and>
    unix_timestamp (picto_ttl_expires_at p) = unix_timestamp (picto_ttl_expires_at q) \<and>
    unix_timestamp (picto_created_at p) = unix_timestamp (picto_created_at q) \<and>
    picto_reason p = picto_reason q \<and> ih = jh"
proof -
  have "payload_fields p ih = payload_fields q jh"
    using payload_split [OF assms(1)] payload_split [OF assms(2)] assms(3) by simp
  then show ?thesis by (auto simp: payload_fields_def word_unat_eq_iff split: option.splits)
qed

lemma signed_text_identifies_grant_witness:
  "picto_scope (row_to_picto demo_extern (hd demo_store)) = ''git.push:main''"
proof -
  let ?p = "row_to_picto demo_extern (hd demo_store)"
  let ?q = "?p\<lparr>picto_uses := 1\<rparr>"
  have "clean_grant ?p None" "clean_grant ?q None" "signing_payload ?p None = signing_payload ?q None"
    "picto_scope ?q = ''git.push:main''"
    by code_simp+
  from signed_text_identifies_grant [OF this(1-3)] this(4) show ?thesis by simp
qed

lemma verify_cong:
  "picto_signature_b64 p = picto_signature_b64 q \<Longrightarrow> signing_payload p ih = signing_payload q ih \<Longrightarrow>
     verify_for_input_hash E p ih vk = verify_for_input_hash E q ih vk"
  by (simp add: verify_for_input_hash_def cong: option.case_cong if_cong)

text \<open>What the signature does not protect. A row whose binding is erased and whose reason is
  extended by the text the binding was signed as carries the same signed text, so if the bound row
  verified, the unbound one does, and a scope-only lookup accepts it. The status and the number of
  uses are not signed at all: with them reset, a spent grant verifies again.\<close>

theorem unsigned_row_changes_verify:
  assumes "row_input_hash r = Some h" and "is_ok (verify_for_input_hash E (row_to_picto E r) (Some h) vk)"
    and "r' = r\<lparr>row_input_hash := None, row_reason := row_reason r @ [NL] @ ''input_hash='' @ h,
           row_uses := 0, row_status := ''active''\<rparr>"
    and "0 < row_max_uses r" and "unix_timestamp now < row_ttl r"
  shows "find_verified_match E [r'] (row_scope r) now vk = LookupVerified (row_to_picto E r') \<and>
    is_ok (verify_for_input_hash E (row_to_picto E (r\<lparr>row_uses := u, row_status := st\<rparr>)) (Some h) vk)"
proof -
  have "signing_payload (row_to_picto E r') None = signing_payload (row_to_picto E r) (Some h)"
    using assms(3) by (simp add: signing_payload_def row_to_picto_def Let_def)
  moreover have "picto_signature_b64 (row_to_picto E r') = picto_signature_b64 (row_to_picto E r)"
    using assms(3) by (simp add: row_to_picto_def)
  ultimately have "is_ok (verify_for_input_hash E (row_to_picto E r') None vk)"
    using assms(2) by (auto simp: verify_for_input_hash_def split: option.splits if_splits)
  moreover have "matching_row [r'] (row_scope r) None now = Some r'"
    using assms(3-5) by (simp add: matching_row_def usable_row_def)
  moreover have "row_input_hash r' = None" using assms(3) by simp
  ultimately have "find_verified_match E [r'] (row_scope r) now vk = LookupVerified (row_to_picto E r')"
    by (simp add: find_verified_match_def find_verified_match_for_optional_input_def
        row_to_stored_picto_def)
  moreover have "verify_for_input_hash E (row_to_picto E (r\<lparr>row_uses := u, row_status := st\<rparr>)) (Some h) vk =
      verify_for_input_hash E (row_to_picto E r) (Some h) vk"
    by (rule verify_cong) (simp_all add: signing_payload_def row_to_picto_def Let_def)
  ultimately show ?thesis using assms(2) by simp
qed

definition demo_hash_text :: string where
  "demo_hash_text = ''sha256:'' @ replicate 64 (CHR ''a'')"

lemma demo_hash_canonical: "is_canonical_input_hash demo_hash_text"
  by code_simp

lemma unsigned_row_changes_verify_witness:
  "\<exists>(r :: picto_row) r' p. row_input_hash r = Some demo_hash_text \<and> row_input_hash r' = None \<and>
     row_signature r' = row_signature r \<and>
     find_verified_match demo_extern [r'] ''git.push:main'' 0 (ed_public demo_extern ''key'') = LookupVerified p"
proof -
  let ?c = "create_with_input_hash demo_extern 0 ''key'' [] ''p1'' ''git.push:main'' (Some demo_hash_text) 1 600 ''why'' False"
  obtain p st where c: "?c = Ok (p, st)"
    using demo_hash_canonical by (simp add: create_with_input_hash_def Let_def)
  let ?r = "picto_to_row p (Some demo_hash_text)"
  note cc = create_cases [OF c]
  have range: "timestamp_in_range demo_extern (unix_timestamp 0)"
    "timestamp_in_range demo_extern (unix_timestamp 0 + 600)"
    by code_simp+
  have r: "row_input_hash ?r = Some demo_hash_text" "0 < row_max_uses ?r"
    "unix_timestamp 0 < row_ttl ?r" "row_scope ?r = ''git.push:main''"
    using cc(7,8,10,11)
    by (simp_all add: picto_to_row_def unix_timestamp_add) (simp add: unix_timestamp_def)
  let ?t = "?r\<lparr>row_input_hash := None, row_reason := row_reason ?r @ [NL] @ ''input_hash='' @ demo_hash_text,
      row_uses := 0, row_status := ''active''\<rparr>"
  have "find_verified_match demo_extern [?t] (row_scope ?r) 0 (ed_public demo_extern ''key'') =
      LookupVerified (row_to_picto demo_extern ?t)"
    by (rule unsigned_row_changes_verify [OF r(1) created_verifies [OF crypto_ok_demo c range] refl r(2,3), THEN conjunct1])
  with r(1,4) have "row_input_hash ?r = Some demo_hash_text \<and> row_input_hash ?t = None \<and>
      row_signature ?t = row_signature ?r \<and>
      find_verified_match demo_extern [?t] ''git.push:main'' 0 (ed_public demo_extern ''key'') =
        LookupVerified (row_to_picto demo_extern ?t)"
    by simp
  then show ?thesis by blast
qed

end
