(* ===== verification/Mapper.thy ===== *)
theory Mapper
  imports Files Json Capability Shell_Laws
begin

text \<open>
  The capability mapper (\<open>crates/gommage-core/src/mapper.rs\<close>): rules, templates, the derived
  candidates of a shell command and the mapping of a tool call. The regular expression engine and
  the YAML parser are the record \<open>mapper_lib\<close>; a compiled expression is the function that gives
  the named groups taking part in its first match. A \<open>HashMap\<close> of captures is a partial function;
  \<open>match_input\<close> is the list of its entries in iteration order, sorted by the compiler.
\<close>

section \<open>Rules\<close>

type_synonym regex = "string \<Rightarrow> (string \<times> string) list option"

type_synonym captures = "string \<Rightarrow> string option"

record raw_mapper_rule =
  mraw_name :: string
  mraw_tool :: "string option"
  mraw_tool_pattern :: "string option"
  mraw_match_input :: "(string \<times> string) list"
  mraw_emit :: "string list"

datatype tool_match = Exact string | Pattern regex

datatype template_part =
    Literal string
  | ToolName
  | Capture string
  | InputPath "string list"

type_synonym template = "template_part list"

record compiled_rule =
  crule_name :: string
  crule_tool_match :: tool_match
  crule_match_input :: "(string \<times> regex) list"
  crule_emit :: "template list"
  crule_source :: path
  crule_index :: nat

record mapper =
  mapper_rules :: "compiled_rule list"
  mapper_version :: string

record mapper_lib =
  regex_build :: "string \<Rightarrow> (string, regex) result"
  yaml_mapper_rules :: "string \<Rightarrow> (string, raw_mapper_rule list) result"

section \<open>Templates\<close>

definition token_part :: "string \<Rightarrow> template_part" where
  "token_part token =
     (if token = ''tool'' then ToolName
      else case strip_prefix token ''input.'' of
             Some rest \<Rightarrow> InputPath (split_on (CHR ''.'') rest)
           | None \<Rightarrow> Capture token)"

definition flush_literal :: "string \<Rightarrow> template" where
  "flush_literal lit = (if lit \<noteq> [] then [Literal lit] else [])"

text \<open>The scan of \<open>parse_template\<close>: \<open>lit\<close> is the text since \<open>literal_start\<close>. A reference that is
  not closed takes the rest of the text.\<close>

function parse_parts :: "string \<Rightarrow> string \<Rightarrow> template" where
  "parse_parts lit [] = flush_literal lit"
| "parse_parts lit (c # s) =
     (case strip_prefix (c # s) ''${'' of
        None \<Rightarrow> parse_parts (lit @ [c]) s
      | Some rest \<Rightarrow>
          (case split_once (CHR ''}'') rest of
             None \<Rightarrow> flush_literal lit @ [token_part rest]
           | Some (token, after) \<Rightarrow> flush_literal lit @ token_part token # parse_parts [] after))"
  by pat_completeness auto
termination
  by (relation "measure (\<lambda>(lit, s). length s)") (auto simp: strip_prefix_Some_iff split_once_Some_iff split: if_splits)

definition parse_template :: "string \<Rightarrow> template" where
  "parse_template s = parse_parts [] s"

definition bool_text :: "bool \<Rightarrow> string" where
  "bool_text b = (if b then ''true'' else ''false'')"

fun value_text :: "json \<Rightarrow> string option" where
  "value_text (JString s) = Some s"
| "value_text (JNumber n) = Some (number_to_string n)"
| "value_text (JBool b) = Some (bool_text b)"
| "value_text _ = None"

fun json_path :: "json \<Rightarrow> string list \<Rightarrow> json option" where
  "json_path v [] = Some v"
| "json_path v (p # ps) = (case json_get v p of None \<Rightarrow> None | Some w \<Rightarrow> json_path w ps)"

definition extract_string :: "json \<Rightarrow> string \<Rightarrow> string option" where
  "extract_string inp pth =
     (case json_path inp (split_on (CHR ''.'') pth) of None \<Rightarrow> None | Some v \<Rightarrow> value_text v)"

fun render_part :: "captures \<Rightarrow> string \<Rightarrow> json \<Rightarrow> template_part \<Rightarrow> string" where
  "render_part caps tname inp (Literal s) = s"
| "render_part caps tname inp ToolName = tname"
| "render_part caps tname inp (Capture name) = (case caps name of Some v \<Rightarrow> v | None \<Rightarrow> [])"
| "render_part caps tname inp (InputPath pth) =
     (case json_path inp pth of
        None \<Rightarrow> []
      | Some v \<Rightarrow> (case value_text v of Some t \<Rightarrow> t | None \<Rightarrow> []))"

definition render :: "template \<Rightarrow> captures \<Rightarrow> string \<Rightarrow> json \<Rightarrow> string" where
  "render tpl caps tname inp = concat (map (render_part caps tname inp) tpl)"

section \<open>Compilation and loading\<close>

definition compile_tool_match ::
  "mapper_lib \<Rightarrow> raw_mapper_rule \<Rightarrow> (gommage_error, tool_match) result" where
  "compile_tool_match L raw =
     (case (mraw_tool raw, mraw_tool_pattern raw) of
        (Some t, None) \<Rightarrow> Ok (Exact t)
      | (None, Some pattern) \<Rightarrow>
          and_then (map_err (Regex pattern) (regex_build L pattern)) (\<lambda>re. Ok (Pattern re))
      | (Some _, Some _) \<Rightarrow> Err (PolicyError (''mapper rule '' @ debug_str (mraw_name raw) @
          '': use either tool or tool_pattern, not both''))
      | (None, None) \<Rightarrow> Err (PolicyError (''mapper rule '' @ debug_str (mraw_name raw) @
          '': missing tool or tool_pattern'')))"

definition compile_mapper_rule ::
  "mapper_lib \<Rightarrow> raw_mapper_rule \<Rightarrow> path \<Rightarrow> nat \<Rightarrow> (gommage_error, compiled_rule) result" where
  "compile_mapper_rule L raw source index =
     and_then (compile_tool_match L raw) (\<lambda>tm.
     and_then (collect_results (map (\<lambda>(pth, pat).
         and_then (map_err (Regex pat) (regex_build L pat)) (\<lambda>re. Ok (pth, re)))
       (mraw_match_input raw))) (\<lambda>inputs.
     Ok \<lparr>crule_name = mraw_name raw, crule_tool_match = tm,
         crule_match_input = sort_key fst inputs, crule_emit = map parse_template (mraw_emit raw),
         crule_source = source, crule_index = index\<rparr>))"

definition compile_mapper_rules ::
  "mapper_lib \<Rightarrow> path \<Rightarrow> raw_mapper_rule list \<Rightarrow> (gommage_error, compiled_rule list) result" where
  "compile_mapper_rules L file raws =
     collect_results (map (\<lambda>(index, raw). compile_mapper_rule L raw file index)
       (zip [0..<length raws] raws))"

definition mapper_version_hash :: "extern \<Rightarrow> (string \<times> string) list \<Rightarrow> string" where
  "mapper_version_hash E sources =
     ''sha256:'' @ sha256_hex E
       (concat (map (\<lambda>(label, content). label @ [CHR 0x00] @ content @ [CHR 0x00]) sources))"

definition empty_mapper :: "extern \<Rightarrow> mapper" where
  "empty_mapper E = \<lparr>mapper_rules = [], mapper_version = mapper_version_hash E []\<rparr>"

definition load_mapper_file ::
  "mapper_lib \<Rightarrow> fs \<Rightarrow> path \<Rightarrow> (gommage_error, compiled_rule list \<times> string \<times> string) result" where
  "load_mapper_file L F file =
     and_then (map_err Io (fs_read F file)) (\<lambda>raw.
     and_then (map_err Yaml (yaml_mapper_rules L raw)) (\<lambda>parsed.
     and_then (compile_mapper_rules L file parsed) (\<lambda>rules.
       Ok (rules, (if file = [] then [] else last file), raw))))"

definition load_mapper_from_dir ::
  "extern \<Rightarrow> mapper_lib \<Rightarrow> fs \<Rightarrow> path \<Rightarrow> (gommage_error, mapper) result" where
  "load_mapper_from_dir E L F dir =
     and_then (yaml_files F dir) (\<lambda>files.
     and_then (collect_results (map (load_mapper_file L F) files)) (\<lambda>loaded.
       Ok \<lparr>mapper_rules = concat (map fst loaded),
           mapper_version = mapper_version_hash E (map snd loaded)\<rparr>))"

definition mapper_from_yaml_string ::
  "extern \<Rightarrow> mapper_lib \<Rightarrow> string \<Rightarrow> string \<Rightarrow> (gommage_error, mapper) result" where
  "mapper_from_yaml_string E L s label =
     and_then (map_err Yaml (yaml_mapper_rules L s)) (\<lambda>parsed.
     and_then (compile_mapper_rules L (path_of label) parsed) (\<lambda>rules.
       Ok \<lparr>mapper_rules = rules, mapper_version = mapper_version_hash E [(label, s)]\<rparr>))"

section \<open>Candidates of a shell command\<close>

definition SHELL_COMMAND_FIELD :: string where
  "SHELL_COMMAND_FIELD = ''command''"

definition SHELL_TOOL_CANONICAL :: string where
  "SHELL_TOOL_CANONICAL = ''Bash''"

definition SHELL_TOOL_ALIASES :: "string list" where
  "SHELL_TOOL_ALIASES =
     [''shell'', ''terminal'', ''run_terminal_cmd'', ''execute_command'', ''run_command'', ''bash_tool'']"

definition is_shell_tool :: "string \<Rightarrow> bool" where
  "is_shell_tool t \<longleftrightarrow>
     t = SHELL_TOOL_CANONICAL \<or> list_ex (\<lambda>alias. eq_ignore_ascii_case alias t) SHELL_TOOL_ALIASES"

definition MAX_CANDIDATE_DEPTH :: nat where
  "MAX_CANDIDATE_DEPTH = 3"

definition push_candidate :: "string \<Rightarrow> string list \<Rightarrow> string list" where
  "push_candidate candidate out =
     (if candidate \<noteq> [] then push_new candidate out else out)"

text \<open>A segment's candidate: the real command with its head reduced to the base name and without
  redirections, and the payload when the segment is a shell with \<open>-c\<close>. Nothing when no word is
  left.\<close>

definition segment_candidate :: "string list \<Rightarrow> (string \<times> string option) option" where
  "segment_candidate segment =
     (case command_words segment of
        None \<Rightarrow> None
      | Some [] \<Rightarrow> None
      | Some (h # args) \<Rightarrow>
          (case strip_redirections (h # args) of
             [] \<Rightarrow> None
           | n # ns \<Rightarrow> Some
               (join '' '' (head_basename n # ns),
                if head_basename h \<in> {''bash'', ''sh'', ''zsh''} then shell_c_payload args else None)))"

function collect_candidates :: "string \<Rightarrow> string list \<Rightarrow> nat \<Rightarrow> string list" where
  "collect_candidates command out depth =
     (if MAX_CANDIDATE_DEPTH < depth then out
      else
        (let out1 = foldl (\<lambda>out segment.
               (case segment_candidate segment of
                  None \<Rightarrow> out
                | Some (joined, inner) \<Rightarrow>
                    (case inner of
                       None \<Rightarrow> push_candidate joined out
                     | Some script \<Rightarrow> collect_candidates script (push_candidate joined out) (depth + 1))))
               out (shell_segments command);
             out2 = foldl (\<lambda>out sub. collect_candidates sub out (depth + 1)) out1
               (command_substitutions command)
         in foldl (\<lambda>out target. push_candidate (''> '' @ target) out) out2 (redirect_targets command)))"
  by pat_completeness auto
termination
  by (relation "measure (\<lambda>(command, out, depth). Suc MAX_CANDIDATE_DEPTH - depth)") auto

declare collect_candidates.simps [simp del]

definition shell_candidates :: "toolcall \<Rightarrow> string list" where
  "shell_candidates call =
     (if \<not> is_shell_tool (tool call) then []
      else
        (case json_get (input call) SHELL_COMMAND_FIELD of
           None \<Rightarrow> []
         | Some v \<Rightarrow>
             (case as_str v of
                None \<Rightarrow> []
              | Some command \<Rightarrow> filter (\<lambda>c. c \<noteq> command) (collect_candidates command [] 0))))"

section \<open>Mapping\<close>

definition rule_matches_shell_field :: "compiled_rule \<Rightarrow> bool" where
  "rule_matches_shell_field r = list_ex (\<lambda>(pth, _). pth = SHELL_COMMAND_FIELD) (crule_match_input r)"

fun with_shell_command :: "json \<Rightarrow> string \<Rightarrow> json" where
  "with_shell_command (JObject ms) candidate =
     JObject (member_insert SHELL_COMMAND_FIELD (JString candidate) ms)"
| "with_shell_command v candidate = v"

text \<open>Later insertions into the capture map win.\<close>

definition extend_captures :: "captures \<Rightarrow> (string \<times> string) list \<Rightarrow> captures" where
  "extend_captures caps groups = foldl (\<lambda>m (k, v). m(k \<mapsto> v)) caps groups"

definition match_tool :: "tool_match \<Rightarrow> string \<Rightarrow> captures option" where
  "match_tool tm t =
     (case tm of
        Exact expected \<Rightarrow>
          if expected = t then Some (\<lambda>_. None)
          else if expected = SHELL_TOOL_CANONICAL \<and> is_shell_tool t then Some (\<lambda>_. None)
          else None
      | Pattern re \<Rightarrow> map_option (extend_captures (\<lambda>_. None)) (re t))"

fun match_inputs :: "(string \<times> regex) list \<Rightarrow> json \<Rightarrow> captures \<Rightarrow> captures option" where
  "match_inputs [] inp caps = Some caps"
| "match_inputs ((pth, re) # rest) inp caps =
     (case extract_string inp pth of
        None \<Rightarrow> None
      | Some text \<Rightarrow>
          (case re text of
             None \<Rightarrow> None
           | Some groups \<Rightarrow> match_inputs rest inp (extend_captures caps groups)))"

definition match_all_inputs :: "compiled_rule \<Rightarrow> json \<Rightarrow> captures option" where
  "match_all_inputs r inp = match_inputs (crule_match_input r) inp (\<lambda>_. None)"

text \<open>The inputs a rule is tried on, candidate 0 being the original one.\<close>

definition candidate_inputs :: "toolcall \<Rightarrow> string list \<Rightarrow> compiled_rule \<Rightarrow> json list" where
  "candidate_inputs call candidates r =
     input call #
       (if candidates \<noteq> [] \<and> rule_matches_shell_field r
        then map (with_shell_command (input call)) candidates else [])"

definition emit_candidate ::
  "toolcall \<Rightarrow> compiled_rule \<Rightarrow> captures \<Rightarrow> capability list \<Rightarrow> json \<Rightarrow> capability list" where
  "emit_candidate call r tool_captures out inp =
     (case match_all_inputs r inp of
        None \<Rightarrow> out
      | Some input_captures \<Rightarrow>
          foldl (\<lambda>out tpl. push_new
              (render tpl (tool_captures ++ input_captures) (tool call) (input call)) out)
            out (crule_emit r))"

definition map_rule :: "toolcall \<Rightarrow> string list \<Rightarrow> capability list \<Rightarrow> compiled_rule \<Rightarrow> capability list" where
  "map_rule call candidates out r =
     (case match_tool (crule_tool_match r) (tool call) of
        None \<Rightarrow> out
      | Some tool_captures \<Rightarrow>
          foldl (emit_candidate call r tool_captures) out (candidate_inputs call candidates r))"

definition map_call :: "mapper \<Rightarrow> toolcall \<Rightarrow> capability list" where
  "map_call m call = foldl (map_rule call (shell_candidates call)) [] (mapper_rules m)"

end
