(* ===== verification/Mapper_Laws.thy ===== *)
theory Mapper_Laws
  imports Mapper
begin

text \<open>
  What the mapper emits: the exact set of capabilities of a call, the texts the shell candidates
  are derived from, and why the shape of a command and the name of the shell tool do not matter.
\<close>

section \<open>The emitted capabilities\<close>

definition emitted :: "toolcall \<Rightarrow> compiled_rule \<Rightarrow> captures \<Rightarrow> json \<Rightarrow> capability set" where
  "emitted call r tool_captures inp =
     (case match_all_inputs r inp of
        None \<Rightarrow> {}
      | Some ic \<Rightarrow> (\<lambda>tpl. render tpl (tool_captures ++ ic) (tool call) (input call)) ` set (crule_emit r))"

definition rule_emitted :: "toolcall \<Rightarrow> compiled_rule \<Rightarrow> capability set" where
  "rule_emitted call r =
     (case match_tool (crule_tool_match r) (tool call) of
        None \<Rightarrow> {}
      | Some tc \<Rightarrow> (\<Union>inp \<in> set (candidate_inputs call (shell_candidates call) r). emitted call r tc inp))"

lemma set_emit_candidate:
  "set (emit_candidate call r tc out inp) = set out \<union> emitted call r tc inp"
proof (cases "match_all_inputs r inp")
  case (Some ic)
  have "set (foldl (\<lambda>out tpl. push_new (render tpl (tc ++ ic) (tool call) (input call)) out) out (crule_emit r)) =
      set out \<union> (\<Union>tpl \<in> set (crule_emit r). {render tpl (tc ++ ic) (tool call) (input call)})"
    by (rule set_foldl_union) simp
  with Some show ?thesis by (auto simp: emit_candidate_def emitted_def)
qed (simp add: emit_candidate_def emitted_def)

lemma set_map_rule:
  "set (map_rule call (shell_candidates call) out r) = set out \<union> rule_emitted call r"
  by (simp add: map_rule_def rule_emitted_def set_foldl_union [where g = "emitted call r _"]
      set_emit_candidate split: option.split)

lemma set_map_call: "set (map_call m call) = (\<Union>r \<in> set (mapper_rules m). rule_emitted call r)"
  unfolding map_call_def by (subst set_foldl_union [where g = "rule_emitted call"]) (simp_all add: set_map_rule)

lemma distinct_map_call: "distinct (map_call m call)"
  unfolding map_call_def map_rule_def emit_candidate_def
  by (rule foldl_invariant [where P = distinct])
    (auto split: option.split intro!: foldl_invariant [where P = distinct])

section \<open>The derived candidates\<close>

text \<open>What a command at a nesting depth is read as: its segments, the scripts its shells run, its
  substitutions, and its redirection targets.\<close>

inductive derives :: "string \<Rightarrow> nat \<Rightarrow> string \<Rightarrow> bool" where
  derive_segment:
    "depth \<le> MAX_CANDIDATE_DEPTH \<Longrightarrow> segment \<in> set (shell_segments command) \<Longrightarrow>
     segment_candidate segment = Some (text, script) \<Longrightarrow> text \<noteq> [] \<Longrightarrow> derives command depth text"
| derive_script:
    "depth \<le> MAX_CANDIDATE_DEPTH \<Longrightarrow> segment \<in> set (shell_segments command) \<Longrightarrow>
     segment_candidate segment = Some (joined, Some script) \<Longrightarrow> derives script (depth + 1) text \<Longrightarrow>
     derives command depth text"
| derive_substitution:
    "depth \<le> MAX_CANDIDATE_DEPTH \<Longrightarrow> sub \<in> set (command_substitutions command) \<Longrightarrow>
     derives sub (depth + 1) text \<Longrightarrow> derives command depth text"
| derive_redirect:
    "depth \<le> MAX_CANDIDATE_DEPTH \<Longrightarrow> target \<in> set (redirect_targets command) \<Longrightarrow>
     derives command depth (''> '' @ target)"

inductive_cases derivesE: "derives command depth text"

lemma derives_depth: "derives command depth text \<Longrightarrow> depth \<le> MAX_CANDIDATE_DEPTH"
  by (erule derivesE) auto

lemma set_push_candidate: "set (push_candidate c out) = set out \<union> ({c} - {[]})"
  by (auto simp: push_candidate_def)

definition segment_texts :: "nat \<Rightarrow> string list \<Rightarrow> string set" where
  "segment_texts depth segment =
     (case segment_candidate segment of
        None \<Rightarrow> {}
      | Some (joined, inner) \<Rightarrow>
          ({joined} - {[]}) \<union> (case inner of None \<Rightarrow> {} | Some script \<Rightarrow> {t. derives script (depth + 1) t}))"

lemma derive_segment_texts:
  assumes "depth \<le> MAX_CANDIDATE_DEPTH" and "segment \<in> set (shell_segments command)"
    and "text \<in> segment_texts depth segment"
  shows "derives command depth text"
proof (cases "segment_candidate segment")
  case (Some ji)
  obtain joined inner where ji: "ji = (joined, inner)" by fastforce
  show ?thesis
  proof (cases "text = joined \<and> joined \<noteq> []")
    case True
    with assms Some ji show ?thesis by (blast intro: derive_segment)
  next
    case False
    with assms(3) Some ji obtain script where "inner = Some script" "derives script (depth + 1) text"
      by (auto simp: segment_texts_def split: option.splits)
    with assms Some ji show ?thesis by (blast intro: derive_script)
  qed
qed (use assms in \<open>simp add: segment_texts_def\<close>)

lemma derives_iff:
  "derives command depth text \<longleftrightarrow>
     depth \<le> MAX_CANDIDATE_DEPTH \<and>
     (text \<in> (\<Union>segment \<in> set (shell_segments command). segment_texts depth segment) \<union>
        (\<Union>sub \<in> set (command_substitutions command). {t. derives sub (depth + 1) t}) \<union>
        (\<Union>target \<in> set (redirect_targets command). {''> '' @ target}))"
proof
  assume "derives command depth text"
  then show "depth \<le> MAX_CANDIDATE_DEPTH \<and>
     (text \<in> (\<Union>segment \<in> set (shell_segments command). segment_texts depth segment) \<union>
        (\<Union>sub \<in> set (command_substitutions command). {t. derives sub (depth + 1) t}) \<union>
        (\<Union>target \<in> set (redirect_targets command). {''> '' @ target}))"
    by (cases rule: derives.cases) (force simp: segment_texts_def)+
next
  assume "depth \<le> MAX_CANDIDATE_DEPTH \<and>
     (text \<in> (\<Union>segment \<in> set (shell_segments command). segment_texts depth segment) \<union>
        (\<Union>sub \<in> set (command_substitutions command). {t. derives sub (depth + 1) t}) \<union>
        (\<Union>target \<in> set (redirect_targets command). {''> '' @ target}))"
  then show "derives command depth text"
    by (auto intro: derive_segment_texts derive_substitution derive_redirect [simplified])
qed

lemma set_collect_candidates:
  "set (collect_candidates command out depth) = set out \<union> {text. derives command depth text}"
proof (induction command out depth rule: collect_candidates.induct)
  case (1 command out depth)
  show ?case
  proof (cases "MAX_CANDIDATE_DEPTH < depth")
    case True
    then show ?thesis
      by (subst collect_candidates.simps) (auto dest: derives_depth)
  next
    case False
    let ?seg = "\<lambda>out segment. (case segment_candidate segment of
                  None \<Rightarrow> out
                | Some (joined, inner) \<Rightarrow>
                    (case inner of
                       None \<Rightarrow> push_candidate joined out
                     | Some script \<Rightarrow> collect_candidates script (push_candidate joined out) (depth + 1)))"
    let ?sub = "\<lambda>out sub. collect_candidates sub out (depth + 1)"
    have seg: "set (?seg acc segment) = set acc \<union> segment_texts depth segment"
      if "segment \<in> set (shell_segments command)" for acc segment
      using 1(1) [OF False that] by (auto simp: segment_texts_def set_push_candidate split: option.split)
    have sub: "set (?sub acc sub) = set acc \<union> {t. derives sub (depth + 1) t}"
      if "sub \<in> set (command_substitutions command)" for acc sub
      using 1(2) [OF False refl that] by simp
    let ?red = "\<lambda>out target. push_candidate (''> '' @ target) out"
    let ?o1 = "foldl ?seg out (shell_segments command)"
    let ?o2 = "foldl ?sub ?o1 (command_substitutions command)"
    have o1: "set ?o1 = set out \<union> (\<Union>segment \<in> set (shell_segments command). segment_texts depth segment)"
      by (rule set_foldl_union) (rule seg)
    have o2: "set ?o2 = set ?o1 \<union> (\<Union>sub \<in> set (command_substitutions command). {t. derives sub (depth + 1) t})"
      by (rule set_foldl_union) (rule sub)
    have o3: "set (foldl ?red ?o2 (redirect_targets command)) =
        set ?o2 \<union> (\<Union>target \<in> set (redirect_targets command). {''> '' @ target})"
      by (rule set_foldl_union) (simp add: set_push_candidate)
    have "collect_candidates command out depth = foldl ?red ?o2 (redirect_targets command)"
      using False by (subst collect_candidates.simps) (simp only: Let_def if_False)
    then have "set (collect_candidates command out depth) = set out \<union>
        ((\<Union>segment \<in> set (shell_segments command). segment_texts depth segment) \<union>
         (\<Union>sub \<in> set (command_substitutions command). {t. derives sub (depth + 1) t}) \<union>
         (\<Union>target \<in> set (redirect_targets command). {''> '' @ target}))"
      by (simp only: o1 o2 o3 Un_assoc)
    also have "\<dots> = set out \<union> {text. derives command depth text}"
      using False by (subst derives_iff [of command]) (auto simp only: not_less)
    finally show ?thesis .
  qed
qed

lemma distinct_push_candidate: "distinct out \<Longrightarrow> distinct (push_candidate c out)"
  by (simp add: push_candidate_def)

lemma distinct_collect_candidates:
  "distinct out \<Longrightarrow> distinct (collect_candidates command out depth)"
proof (induction command out depth rule: collect_candidates.induct)
  case (1 command out depth)
  show ?case
  proof (cases "MAX_CANDIDATE_DEPTH < depth")
    case True
    with 1(3) show ?thesis by (subst collect_candidates.simps) simp
  next
    case False
    have seg: "distinct (case segment_candidate segment of
                  None \<Rightarrow> acc
                | Some (joined, inner) \<Rightarrow>
                    (case inner of
                       None \<Rightarrow> push_candidate joined acc
                     | Some script \<Rightarrow> collect_candidates script (push_candidate joined acc) (depth + 1)))"
      if "segment \<in> set (shell_segments command)" "distinct acc" for acc segment
      using 1(1) [OF False that(1)] that(2) by (auto simp: distinct_push_candidate split: option.split)
    have sub: "distinct (collect_candidates sub acc (depth + 1))"
      if "sub \<in> set (command_substitutions command)" "distinct acc" for acc sub
      using 1(2) [OF False refl that] .
    show ?thesis
      by (subst collect_candidates.simps, simp only: False if_False Let_def,
          intro foldl_invariant [where P = distinct] seg sub distinct_push_candidate 1(3))
  qed
qed

text \<open>C39. The candidates of a shell command are exactly the texts it derives: the normalised text of
  each segment, what the scripts and substitutions in it derive one level deeper, down to the depth
  bound, and its redirection targets; each once, and never the command itself.\<close>

theorem shell_candidates_derived:
  assumes "is_shell_tool (tool call)" and "json_get (input call) ''command'' = Some (JString command)"
  shows "set (shell_candidates call) = {text. derives command 0 text} - {command} \<and>
    distinct (shell_candidates call)"
  using assms distinct_collect_candidates [of "[]" command 0]
  by (auto simp: shell_candidates_def SHELL_COMMAND_FIELD_def set_collect_candidates)

definition demo_call :: "string \<Rightarrow> string \<Rightarrow> toolcall" where
  "demo_call t command = \<lparr>tool = t, input = JObject [(''command'', JString command)]\<rparr>"

lemma shell_candidates_derived_witness:
  "set (shell_candidates (demo_call ''Shell'' ''true && sudo /usr/bin/git push origin main 2>&1'')) =
     {text. derives ''true && sudo /usr/bin/git push origin main 2>&1'' 0 text} -
       {''true && sudo /usr/bin/git push origin main 2>&1''} \<and>
   shell_candidates (demo_call ''Shell'' ''true && sudo /usr/bin/git push origin main 2>&1'') =
     [''true'', ''git push origin main'']"
proof -
  let ?cmd = "''true && sudo /usr/bin/git push origin main 2>&1''"
  have "is_shell_tool (tool (demo_call ''Shell'' ?cmd))" by code_simp
  moreover have "json_get (input (demo_call ''Shell'' ?cmd)) ''command'' = Some (JString ?cmd)"
    by (simp add: demo_call_def)
  ultimately have "set (shell_candidates (demo_call ''Shell'' ?cmd)) = {text. derives ?cmd 0 text} - {?cmd}"
    using shell_candidates_derived by blast
  moreover have "shell_candidates (demo_call ''Shell'' ?cmd) = [''true'', ''git push origin main'']"
    by code_simp
  ultimately show ?thesis by blast
qed

lemma emitted_iff:
  "cap \<in> emitted call r tc inp \<longleftrightarrow>
     (\<exists>ic tpl. match_all_inputs r inp = Some ic \<and> tpl \<in> set (crule_emit r) \<and>
        cap = render tpl (tc ++ ic) (tool call) (input call))"
  by (cases "match_all_inputs r inp") (auto simp: emitted_def)

lemma candidate_inputs_iff:
  "inp \<in> set (candidate_inputs call cands r) \<longleftrightarrow>
     inp = input call \<or>
     rule_matches_shell_field r \<and> (\<exists>text \<in> set cands. inp = with_shell_command (input call) text)"
  by (auto simp: candidate_inputs_def)

lemma rule_emitted_iff:
  "cap \<in> rule_emitted call r \<longleftrightarrow>
     (\<exists>tc. match_tool (crule_tool_match r) (tool call) = Some tc \<and>
        (\<exists>inp \<in> set (candidate_inputs call (shell_candidates call) r). cap \<in> emitted call r tc inp))"
  by (cases "match_tool (crule_tool_match r) (tool call)") (auto simp: rule_emitted_def)

text \<open>C38. What a call maps to is exactly what its rules say, each capability once: a rule whose
  tool condition accepts the tool emits its templates for the original input, and, when it looks at
  the command, for every candidate, with the captures of tool and input.\<close>

theorem mapped_capabilities:
  "distinct (map_call m call) \<and>
   (cap \<in> set (map_call m call) \<longleftrightarrow>
     (\<exists>r \<in> set (mapper_rules m). \<exists>tc ic tpl.
        match_tool (crule_tool_match r) (tool call) = Some tc \<and>
        (match_all_inputs r (input call) = Some ic \<or>
         rule_matches_shell_field r \<and>
         (\<exists>text \<in> set (shell_candidates call). match_all_inputs r (with_shell_command (input call) text) = Some ic)) \<and>
        tpl \<in> set (crule_emit r) \<and> cap = render tpl (tc ++ ic) (tool call) (input call)))"
  unfolding set_map_call UN_iff rule_emitted_iff emitted_iff
  by (rule conjI [OF distinct_map_call], unfold candidate_inputs_iff Bex_def) blast

lemma member_insert_same: "map_of ms k = Some v \<Longrightarrow> member_insert k v ms = ms"
  by (induction ms) (auto split: if_splits)

lemma emits_on_input:
  assumes "r \<in> set (mapper_rules m)" and "match_tool (crule_tool_match r) (tool call) = Some tc"
    and "inp \<in> set (candidate_inputs call (shell_candidates call) r)"
    and "match_all_inputs r inp = Some ic" and "tpl \<in> set (crule_emit r)"
  shows "render tpl (tc ++ ic) (tool call) (input call) \<in> set (map_call m call)"
  using assms unfolding set_map_call UN_iff rule_emitted_iff emitted_iff by blast

text \<open>The shape of a command hides no text from a rule: a rule that matches the shell field and a text
  matches every shell call whose command derives that text (behind a separator, a wrapper, a path,
  with redirections, inside a substitution or a shell script), and emits its templates for it, with
  what it captured from the text and, where a template names the input, the input of the call.\<close>

lemma shape_cannot_hide:
  assumes "is_shell_tool (tool call)" and "input call = JObject ms"
    and "map_of ms ''command'' = Some (JString command)" and "derives command 0 text"
    and "r \<in> set (mapper_rules m)" and "rule_matches_shell_field r"
    and "match_tool (crule_tool_match r) (tool call) = Some tc"
    and "match_all_inputs r (with_shell_command (input call) text) = Some ic"
    and "tpl \<in> set (crule_emit r)"
  shows "render tpl (tc ++ ic) (tool call) (input call) \<in> set (map_call m call)"
proof (rule emits_on_input [OF assms(5,7) _ assms(8,9)])
  have cands: "set (shell_candidates call) = {text. derives command 0 text} - {command}"
    using assms(1-3) by (simp add: shell_candidates_def SHELL_COMMAND_FIELD_def set_collect_candidates)
      auto
  show "with_shell_command (input call) text \<in> set (candidate_inputs call (shell_candidates call) r)"
  proof (cases "text = command")
    case True
    with assms(2,3) show ?thesis
      by (simp add: candidate_inputs_def SHELL_COMMAND_FIELD_def member_insert_same)
  next
    case False
    with cands assms(4) have "text \<in> set (shell_candidates call)" by blast
    with assms(6) show ?thesis by (auto simp: candidate_inputs_def)
  qed
qed

definition demo_push_rule :: compiled_rule where
  "demo_push_rule =
     \<lparr>crule_name = ''git-push'', crule_tool_match = Exact ''Bash'',
      crule_match_input = [(''command'', \<lambda>t. if t = ''git push origin main'' then Some [(''ref'', ''main'')] else None)],
      crule_emit = [parse_template ''git.push:refs/heads/${ref}''], crule_source = [''m.yaml''], crule_index = 0\<rparr>"

lemma shape_cannot_hide_witness:
  "''git.push:refs/heads/main'' \<in> set (map_call \<lparr>mapper_rules = [demo_push_rule], mapper_version = []\<rparr>
     (demo_call ''Shell'' ''true && sudo /usr/bin/git push origin main 2>&1''))"
proof -
  let ?cmd = "''true && sudo /usr/bin/git push origin main 2>&1''"
  let ?text = "''git push origin main''"
  let ?call = "demo_call ''Shell'' ?cmd"
  let ?m = "\<lparr>mapper_rules = [demo_push_rule], mapper_version = []\<rparr>"
  let ?ic = "extend_captures (\<lambda>_. None) [(''ref'', ''main'')]"
  let ?tpl = "parse_template ''git.push:refs/heads/${ref}''"
  have "''true'' \<noteq> []" and seg: "[''sudo'', ''/usr/bin/git'', ''push'', ''origin'', ''main'', ''2>&1''] \<in> set (shell_segments ?cmd)"
    and cand: "segment_candidate [''sudo'', ''/usr/bin/git'', ''push'', ''origin'', ''main'', ''2>&1''] = Some (?text, None)"
    by code_simp+
  have derived: "derives ?cmd 0 ?text"
    by (rule derive_segment [OF _ seg cand]) simp_all
  have call: "is_shell_tool (tool ?call)" "input ?call = JObject [(''command'', JString ?cmd)]"
    "map_of [(''command'', JString ?cmd)] ''command'' = Some (JString ?cmd)"
    by (code_simp, simp_all add: demo_call_def)
  have rule: "demo_push_rule \<in> set (mapper_rules ?m)" "rule_matches_shell_field demo_push_rule"
    "match_tool (crule_tool_match demo_push_rule) (tool ?call) = Some (\<lambda>_. None)"
    "?tpl \<in> set (crule_emit demo_push_rule)"
    using call(1)
    by (simp_all add: demo_push_rule_def rule_matches_shell_field_def SHELL_COMMAND_FIELD_def
        match_tool_def SHELL_TOOL_CANONICAL_def demo_call_def)
  have caps: "match_all_inputs demo_push_rule (with_shell_command (input ?call) ?text) = Some ?ic"
    by (simp add: demo_push_rule_def demo_call_def match_all_inputs_def extract_string_def
        SHELL_COMMAND_FIELD_def)
  have "render ?tpl ((\<lambda>_. None) ++ ?ic) (tool ?call) (input ?call) = ''git.push:refs/heads/main''"
    by code_simp
  with shape_cannot_hide [OF call derived rule(1-3) caps rule(4)] show ?thesis by simp
qed

section \<open>Shell tool names\<close>

definition names_bash_only :: "compiled_rule \<Rightarrow> bool" where
  "names_bash_only r \<longleftrightarrow>
     crule_tool_match r = Exact SHELL_TOOL_CANONICAL \<and>
     list_all (\<lambda>tpl. ToolName \<notin> set tpl) (crule_emit r)"

lemma render_tool_free:
  "ToolName \<notin> set tpl \<Longrightarrow> render tpl caps t inp = render tpl caps t' inp"
proof -
  assume "ToolName \<notin> set tpl"
  then have "render_part caps t inp p = render_part caps t' inp p" if "p \<in> set tpl" for p
    using that by (cases p) auto
  then show ?thesis by (simp add: render_def cong: map_cong)
qed

lemma map_rule_alias:
  assumes "is_shell_tool t" and "is_shell_tool t'" and "names_bash_only r"
  shows "map_rule \<lparr>tool = t, input = inp\<rparr> cands out r = map_rule \<lparr>tool = t', input = inp\<rparr> cands out r"
proof -
  have render: "render tpl caps t inp = render tpl caps t' inp" if "tpl \<in> set (crule_emit r)" for tpl caps
    using that assms(3) by (auto simp: names_bash_only_def list_all_iff intro: render_tool_free)
  then have "foldl (\<lambda>out tpl. push_new (render tpl caps t inp) out) acc (crule_emit r) =
      foldl (\<lambda>out tpl. push_new (render tpl caps t' inp) out) acc (crule_emit r)" for caps acc
    by (intro foldl_cong) auto
  then have "emit_candidate \<lparr>tool = t, input = inp\<rparr> r tc = emit_candidate \<lparr>tool = t', input = inp\<rparr> r tc" for tc
    by (auto simp: emit_candidate_def fun_eq_iff split: option.split)
  with assms show ?thesis
    by (auto simp: map_rule_def names_bash_only_def match_tool_def candidate_inputs_def)
qed

text \<open>A harness is covered under whatever name it gives its shell: with rules written for
  \<open>Bash\<close>, a call of any shell tool maps to the same capabilities, in the same order, as the same
  command under any other of the names.\<close>

theorem shell_alias_equivalent:
  assumes "is_shell_tool t" and "is_shell_tool t'" and "list_all names_bash_only (mapper_rules m)"
  shows "map_call m \<lparr>tool = t, input = inp\<rparr> = map_call m \<lparr>tool = t', input = inp\<rparr>"
proof -
  have "shell_candidates \<lparr>tool = t, input = inp\<rparr> = shell_candidates \<lparr>tool = t', input = inp\<rparr>"
    using assms(1,2) by (simp add: shell_candidates_def)
  then show ?thesis
    unfolding map_call_def
    by (auto intro!: foldl_cong map_rule_alias [OF assms(1,2)] simp: assms(3) [unfolded list_all_iff])
qed

lemma shell_alias_equivalent_witness:
  "map_call \<lparr>mapper_rules = [demo_push_rule], mapper_version = []\<rparr> (demo_call ''run_terminal_cmd'' ''git push origin main'') =
   map_call \<lparr>mapper_rules = [demo_push_rule], mapper_version = []\<rparr> (demo_call ''Bash'' ''git push origin main'')"
  unfolding demo_call_def
proof (rule shell_alias_equivalent)
  show "is_shell_tool ''run_terminal_cmd''" "is_shell_tool ''Bash''" by code_simp+
  have "ToolName \<notin> set (parse_template ''git.push:refs/heads/${ref}'')" by code_simp
  then show "list_all names_bash_only (mapper_rules \<lparr>mapper_rules = [demo_push_rule], mapper_version = []\<rparr>)"
    by (simp add: names_bash_only_def demo_push_rule_def SHELL_TOOL_CANONICAL_def)
qed

section \<open>Templates\<close>

lemma parse_parts_literal:
  "CHR ''$'' \<notin> set a \<Longrightarrow> parse_parts lit (a @ s) = parse_parts (lit @ a) s"
  by (induction a arbitrary: lit) auto

lemma parse_template_reference:
  assumes "CHR ''$'' \<notin> set a" and "CHR ''}'' \<notin> set token"
  shows "parse_template (a @ ''${'' @ token @ ''}'' @ s) =
    flush_literal a @ token_part token # parse_template s"
  using assms split_once_Some_iff [of "CHR ''}''" "token @ CHR ''}'' # s" token s]
  by (simp add: parse_template_def parse_parts_literal)

lemma render_append: "render (xs @ ys) caps t inp = render xs caps t inp @ render ys caps t inp"
  by (simp add: render_def)

lemma render_plain_text:
  "CHR ''$'' \<notin> set a \<Longrightarrow> render (parse_template a) caps t inp = a"
  using parse_parts_literal [of a "[]" "[]"]
  by (simp add: parse_template_def flush_literal_def render_def)

end
