(* ===== verification/Jsonl.thy ===== *)
theory Jsonl
  imports Files Machine
begin

text \<open>
  Line-delimited JSON files, as the approval inbox, the audit log and the webhook dead-letter queue
  write and read them: \<open>create_dir_all\<close>, \<open>OpenOptions::create(true).append(true)\<close>,
  \<open>serde_json::to_string\<close>, two \<open>write_all\<close> calls and a \<open>flush\<close> to write;
  \<open>File::open\<close> and \<open>BufReader::lines\<close> to read. A file is \<open>None\<close> while it does
  not exist. What the operating system makes of one append is an argument: nothing opened, the
  bytes written, or only the first of them. \<open>codec\<close> is the derived serde code of a record
  type; \<open>codec_ok\<close> says that reading inverts writing and that a written record is one line.
\<close>

section \<open>Records and lines\<close>

record 'r codec =
  encode_line :: "'r \<Rightarrow> (string, string) result"
  decode_line :: "string \<Rightarrow> (string, 'r) result"

definition codec_ok :: "'r codec \<Rightarrow> bool" where
  "codec_ok C \<longleftrightarrow>
     (\<forall>r l. encode_line C r = Ok l \<longrightarrow> line_ok l \<and> decode_line C l = Ok r)"

lemma codec_okD: "codec_ok C \<Longrightarrow> encode_line C r = Ok l \<Longrightarrow> line_ok l \<and> decode_line C l = Ok r"
  by (auto simp: codec_ok_def)

section \<open>Writing\<close>

type_synonym text_file = "string option"

definition file_text :: "text_file \<Rightarrow> string" where
  "file_text f = (case f of None \<Rightarrow> [] | Some t \<Rightarrow> t)"

lemma file_text_simps [simp]: "file_text None = []" "file_text (Some t) = t"
  by (simp_all add: file_text_def)

datatype line_error =
    LineIo string
  | LineJson string

datatype write_outcome =
    Wrote
  | Unopened string
  | Torn nat string

definition append_line ::
  "'r codec \<Rightarrow> write_outcome \<Rightarrow> 'r \<Rightarrow> text_file \<Rightarrow> (line_error, unit) result \<times> text_file" where
  "append_line C w r f =
     (case w of
        Unopened e \<Rightarrow> (Err (LineIo e), f)
      | _ \<Rightarrow>
          (case encode_line C r of
             Err e \<Rightarrow> (Err (LineJson e), Some (file_text f))
           | Ok line \<Rightarrow>
               (case w of
                  Torn k e \<Rightarrow> (Err (LineIo e), Some (file_text f @ take k (line @ [NL])))
                | _ \<Rightarrow> (Ok (), Some (file_text f @ line @ [NL])))))"

lemma append_line_cases:
  assumes "append_line C w r f = (res, f')"
  obtains (written) line where "w = Wrote" "encode_line C r = Ok line" "res = Ok ()"
      "f' = Some (file_text f @ line @ [NL])"
  | (unopened) e where "w = Unopened e" "res = Err (LineIo e)" "f' = f"
  | (unwritable) e where "encode_line C r = Err e" "res = Err (LineJson e)" "f' = Some (file_text f)"
  | (torn) k e line where "w = Torn k e" "encode_line C r = Ok line" "res = Err (LineIo e)"
      "f' = Some (file_text f @ take k (line @ [NL]))"
  using assms by (cases w; cases "encode_line C r") (auto simp: append_line_def)

lemma append_line_prefix:
  "append_line C w r f = (res, f') \<Longrightarrow> prefix (file_text f) (file_text f')"
  by (erule append_line_cases) auto

lemma append_line_Ok:
  "append_line C w r f = (Ok u, f') \<Longrightarrow>
     \<exists>line. encode_line C r = Ok line \<and> f' = Some (file_text f @ line @ [NL])"
  by (erule append_line_cases) auto

section \<open>Reading\<close>

text \<open>\<open>lines()\<close> over a reader: the lines in order; a reader that fails does so at some line,
  a file that cannot be opened at the first.\<close>

type_synonym read_fault = "(nat \<times> string) option"

definition read_lines :: "read_fault \<Rightarrow> string \<Rightarrow> (string, string) result list" where
  "read_lines fault t =
     (case fault of
        None \<Rightarrow> map Ok (str_lines t)
      | Some (k, e) \<Rightarrow> map Ok (take k (str_lines t)) @ [Err e])"

lemma read_lines_append:
  "text_complete t \<Longrightarrow> line_ok l \<Longrightarrow>
     read_lines None (t @ l @ [NL]) = read_lines None t @ [Ok l]"
  by (simp add: read_lines_def str_lines_append)

lemma line_ok_not_blank: "line_ok l \<Longrightarrow> \<not> is_blank l"
  by (simp add: line_ok_def)

text \<open>A line written after a fragment that no newline ends joins it.\<close>

lemma str_lines_after_fragment:
  assumes "text_complete t" and "NL \<notin> set p" and "line_ok l"
  shows "str_lines (t @ p @ l @ [NL]) = str_lines t @ [p @ l]"
proof -
  from assms(3) have "l \<noteq> []" by (auto simp: line_ok_def is_blank_iff)
  then have "\<not> is_blank (p @ l)" "last (p @ l) = last l"
    using assms(3) by (auto simp: line_ok_def is_blank_iff)
  then have "line_ok (p @ l)" using assms by (simp add: line_ok_def)
  from str_lines_append [OF assms(1) this] show ?thesis by simp
qed

text \<open>A fragment that no newline ends is read as a line of its own.\<close>

lemma str_lines_fragment:
  assumes "text_complete t" and "NL \<notin> set p" and "p \<noteq> []"
  shows "str_lines (t @ p) = str_lines t @ [p]"
proof (cases "t = []")
  case True
  with assms show ?thesis by (simp add: str_lines_def split_on_no_sep Let_def)
next
  case False
  with assms(1) obtain u where t: "t = u @ [NL]"
    by (metis append_butlast_last_id text_complete_def)
  have "split_on NL (t @ p) = split_on NL u @ [p]"
    using split_on_append [of NL u p] assms(2) by (simp add: t split_on_no_sep)
  with assms(3) show ?thesis by (simp add: str_lines_def t split_on_snoc Let_def butlast_append)
qed

text \<open>What serde_json's reader does with the rests of an append that was cut short: a proper beginning
  of a record ends too early, and a whole record with anything of another one behind it has
  characters after its end. Both are errors.\<close>

definition refuses_torn :: "'r codec \<Rightarrow> bool" where
  "refuses_torn C \<longleftrightarrow>
     (\<forall>r l k. encode_line C r = Ok l \<longrightarrow> 0 < k \<longrightarrow> k < length l \<longrightarrow>
        \<not> is_blank (take k l) \<and> \<not> is_ok (decode_line C (take k l))) \<and>
     (\<forall>r l r' l' k. encode_line C r = Ok l \<longrightarrow> encode_line C r' = Ok l' \<longrightarrow> 0 < k \<longrightarrow>
        \<not> is_ok (decode_line C (l @ take k l')))"

lemma refuses_tornD:
  assumes "refuses_torn C"
  shows "encode_line C r = Ok l \<Longrightarrow> 0 < k \<Longrightarrow> k < length l \<Longrightarrow>
      \<not> is_blank (take k l) \<and> \<not> is_ok (decode_line C (take k l))"
    and "encode_line C r = Ok l \<Longrightarrow> encode_line C r' = Ok l' \<Longrightarrow> 0 < k \<Longrightarrow>
      \<not> is_ok (decode_line C (l @ take k l'))"
  using assms unfolding refuses_torn_def by blast+

end
