(* ===== verification/Approval.thy ===== *)
theory Approval
  imports Jsonl Btree_Map Evaluator Json
begin

text \<open>
  The approval inbox (\<open>crates/gommage-core/src/approval.rs\<close>): requests and resolutions as records
  of an append-only JSONL file, replayed into a map of states on every access. The clock, the
  suffix that \<open>reopened_request_id\<close> draws from a fresh UUID, and the faults of the file
  system are arguments. The derived serde code of the records, with the two timestamp spellings
  its \<open>approval_time\<close> module reads, is the codec \<open>C\<close>.
\<close>

section \<open>Records\<close>

datatype approval_status = Pending | Approved | Denied

definition approval_status_str :: "approval_status \<Rightarrow> string" where
  "approval_status_str s =
     (case s of Pending \<Rightarrow> ''pending'' | Approved \<Rightarrow> ''approved'' | Denied \<Rightarrow> ''denied'')"

record approval_request =
  req_id :: string
  req_created_at :: time
  req_tool :: string
  req_input_hash :: string
  req_required_scope :: string
  req_bind_input :: bool
  req_reason :: string
  req_capabilities :: "capability list"
  req_matched_rule :: "matched_rule option"
  req_policy_version :: string

record approval_resolution =
  res_request_id :: string
  res_resolved_at :: time
  res_status :: approval_status
  res_reason :: string
  res_picto_id :: "string option"

record approval_state =
  ap_request :: approval_request
  ap_status :: approval_status
  ap_resolution :: "approval_resolution option"

datatype approval_record =
    Requested approval_request
  | Resolved approval_resolution

type_synonym approval_states = "(string, approval_state) btree"

section \<open>Request ids\<close>

definition request_id :: "extern \<Rightarrow> string \<Rightarrow> string \<Rightarrow> bool \<Rightarrow> string \<Rightarrow> string" where
  "request_id E hash required_scope bind_input version =
     ''apr_'' @ take 20 (sha256_hex E
       (hash @ [CHR 0x00] @ required_scope @ [CHR 0x00] @
        (if bind_input then ''input-bound'' else ''scope-only'') @ [CHR 0x00] @ version))"

text \<open>\<open>uuid\<close> is the simple form of the UUID drawn.\<close>

definition reopened_request_id :: "string \<Rightarrow> string \<Rightarrow> string" where
  "reopened_request_id base uuid = base @ ''_'' @ take 8 uuid"

definition same_request :: "approval_request \<Rightarrow> approval_request \<Rightarrow> bool" where
  "same_request a b \<longleftrightarrow>
     req_input_hash a = req_input_hash b \<and>
     req_required_scope a = req_required_scope b \<and>
     req_bind_input a = req_bind_input b \<and>
     req_policy_version a = req_policy_version b"

definition request_from_eval ::
  "extern \<Rightarrow> time \<Rightarrow> string \<Rightarrow> string \<Rightarrow> string \<Rightarrow> bool \<Rightarrow> string \<Rightarrow> eval_result \<Rightarrow> approval_request" where
  "request_from_eval E now tool_name hash required_scope bind_input reason eval =
     \<lparr>req_id = request_id E hash required_scope bind_input (eval_policy_version eval),
      req_created_at = now, req_tool = tool_name, req_input_hash = hash,
      req_required_scope = required_scope, req_bind_input = bind_input, req_reason = reason,
      req_capabilities = eval_capabilities eval, req_matched_rule = eval_matched eval,
      req_policy_version = eval_policy_version eval\<rparr>"

section \<open>Replay\<close>

fun apply_record :: "approval_record \<Rightarrow> approval_states \<Rightarrow> approval_states" where
  "apply_record (Requested request) states =
     bt_or_insert (req_id request)
       \<lparr>ap_request = request, ap_status = Pending, ap_resolution = None\<rparr> states"
| "apply_record (Resolved resolution) states =
     bt_modify (res_request_id resolution)
       (\<lambda>s. s\<lparr>ap_status := res_status resolution, ap_resolution := Some resolution\<rparr>) states"

fun replay_lines ::
  "approval_record codec \<Rightarrow> (string, string) result list \<Rightarrow> approval_states \<Rightarrow>
     (gommage_error, approval_states) result" where
  "replay_lines C [] states = Ok states"
| "replay_lines C (line # rest) states =
     and_then (map_err Io line) (\<lambda>l.
       if is_blank l then replay_lines C rest states
       else and_then (map_err Json (decode_line C l))
              (\<lambda>r. replay_lines C rest (apply_record r states)))"

definition replay ::
  "approval_record codec \<Rightarrow> read_fault \<Rightarrow> text_file \<Rightarrow> (gommage_error, approval_states) result" where
  "replay C fault f =
     (case f of None \<Rightarrow> Ok bt_empty | Some t \<Rightarrow> replay_lines C (read_lines fault t) bt_empty)"

section \<open>Store operations\<close>

text \<open>The faults one operation meets.\<close>

record io_faults =
  on_read :: read_fault
  on_write :: write_outcome

fun gommage_line_error :: "line_error \<Rightarrow> gommage_error" where
  "gommage_line_error (LineIo e) = Io e"
| "gommage_line_error (LineJson e) = Json e"

definition append_record ::
  "approval_record codec \<Rightarrow> write_outcome \<Rightarrow> approval_record \<Rightarrow> text_file \<Rightarrow>
     (gommage_error, unit) result \<times> text_file" where
  "append_record C w r f =
     (case append_line C w r f of (res, f') \<Rightarrow> (map_err gommage_line_error res, f'))"

definition record_request ::
  "approval_record codec \<Rightarrow> io_faults \<Rightarrow> string \<Rightarrow> approval_request \<Rightarrow> text_file \<Rightarrow>
     (gommage_error, approval_request) result \<times> text_file" where
  "record_request C io uuid request f =
     (case replay C (on_read io) f of
        Err e \<Rightarrow> (Err e, f)
      | Ok states \<Rightarrow>
          (case find (\<lambda>s. ap_status s = Pending \<and> same_request (ap_request s) request)
                  (bt_values states) of
             Some existing \<Rightarrow> (Ok (ap_request existing), f)
           | None \<Rightarrow>
               (let request' =
                  (if bt_get states (req_id request) \<noteq> None
                   then request\<lparr>req_id := reopened_request_id (req_id request) uuid\<rparr>
                   else request)
                in case append_record C (on_write io) (Requested request') f of
                     (res, f') \<Rightarrow> (and_then res (\<lambda>_. Ok request'), f'))))"

definition request_for_ask ::
  "extern \<Rightarrow> approval_record codec \<Rightarrow> io_faults \<Rightarrow> time \<Rightarrow> string \<Rightarrow> toolcall \<Rightarrow> eval_result \<Rightarrow>
     string \<Rightarrow> bool \<Rightarrow> string \<Rightarrow> text_file \<Rightarrow>
     (gommage_error, approval_request) result \<times> text_file" where
  "request_for_ask E C io now uuid call eval required_scope bind_input reason f =
     record_request C io uuid
       (request_from_eval E now (tool call) (input_hash E call) required_scope bind_input reason eval) f"

definition list_states ::
  "approval_record codec \<Rightarrow> read_fault \<Rightarrow> text_file \<Rightarrow> (gommage_error, approval_state list) result" where
  "list_states C fault f = and_then (replay C fault f) (\<lambda>states. Ok (bt_values states))"

definition pending ::
  "approval_record codec \<Rightarrow> read_fault \<Rightarrow> text_file \<Rightarrow> (gommage_error, approval_state list) result" where
  "pending C fault f =
     and_then (list_states C fault f) (\<lambda>ss. Ok (filter (\<lambda>s. ap_status s = Pending) ss))"

definition get_approval ::
  "approval_record codec \<Rightarrow> read_fault \<Rightarrow> string \<Rightarrow> text_file \<Rightarrow>
     (gommage_error, approval_state option) result" where
  "get_approval C fault rid f = and_then (replay C fault f) (\<lambda>states. Ok (bt_get states rid))"

definition resolve ::
  "approval_record codec \<Rightarrow> io_faults \<Rightarrow> time \<Rightarrow> string \<Rightarrow> approval_status \<Rightarrow> string \<Rightarrow> string option \<Rightarrow>
     text_file \<Rightarrow> (gommage_error, approval_resolution) result \<times> text_file" where
  "resolve C io now rid status reason picto f =
     (case get_approval C (on_read io) rid f of
        Err e \<Rightarrow> (Err e, f)
      | Ok None \<Rightarrow> (Err (PolicyError (''approval request '' @ debug_str rid @ '' not found'')), f)
      | Ok (Some state) \<Rightarrow>
          if ap_status state \<noteq> Pending
          then (Err (PolicyError (''approval request '' @ debug_str rid @ '' is already '' @
                  approval_status_str (ap_status state))), f)
          else
            (let resolution =
               \<lparr>res_request_id = rid, res_resolved_at = now, res_status = status,
                res_reason = reason, res_picto_id = picto\<rparr>
             in case append_record C (on_write io) (Resolved resolution) f of
                  (res, f') \<Rightarrow> (and_then res (\<lambda>_. Ok resolution), f')))"

end
