(* ===== verification/Approval_Laws.thy ===== *)
theory Approval_Laws
  imports Approval
begin

text \<open>
  What the approval inbox keeps: a file that operations wrote replays; one request is pending for
  each tuple of input hash, scope, binding and policy version; a resolution is final; a recorded
  request is pending. An append that was cut short may leave a file that no longer replays: then
  every operation fails and leaves it.
\<close>

section \<open>Replay of a longer file\<close>

lemma replay_lines_append:
  "replay_lines C (ls @ ls') states = and_then (replay_lines C ls states) (replay_lines C ls')"
  by (induction C ls states rule: replay_lines.induct)
    (auto simp: and_then_def split: sum.splits)

lemma replay_no_fault: "replay C fault f = Ok states \<Longrightarrow> replay C None f = Ok states"
  by (cases f; cases fault)
    (auto simp: replay_def read_lines_def replay_lines_append and_then_Ok_iff)

lemma apply_record_wf: "bt_wf states \<Longrightarrow> bt_wf (apply_record r states)"
  by (cases r) (simp_all add: bt_wf_or_insert bt_wf_modify)

lemma replay_lines_wf: "replay_lines C ls states = Ok states' \<Longrightarrow> bt_wf states \<Longrightarrow> bt_wf states'"
  by (induction C ls states rule: replay_lines.induct)
    (auto simp: and_then_Ok_iff apply_record_wf split: if_splits)

lemma replay_wf: "replay C fault f = Ok states \<Longrightarrow> bt_wf states"
  by (auto simp: replay_def bt_laws replay_lines_wf split: option.splits)

lemma replay_append:
  assumes "codec_ok C" and "text_complete (file_text f)" and "encode_line C r = Ok line"
    and "replay C None f = Ok states"
  shows "replay C None (Some (file_text f @ line @ [NL])) = Ok (apply_record r states)"
proof -
  have line: "line_ok line" "decode_line C line = Ok r"
    using codec_okD [OF assms(1,3)] by auto
  have "replay_lines C (read_lines None (file_text f)) bt_empty = Ok states"
    using assms(4) by (cases f) (auto simp: replay_def read_lines_def str_lines_def)
  then show ?thesis
    using line by (simp add: replay_def read_lines_append [OF assms(2)] replay_lines_append line_ok_not_blank)
qed

section \<open>What the states keep\<close>

definition keyed :: "approval_states \<Rightarrow> bool" where
  "keyed states \<longleftrightarrow> (\<forall>k s. bt_get states k = Some s \<longrightarrow> req_id (ap_request s) = k)"

definition one_pending :: "approval_states \<Rightarrow> bool" where
  "one_pending states \<longleftrightarrow>
     (\<forall>k s l t. bt_get states k = Some s \<longrightarrow> bt_get states l = Some t \<longrightarrow>
        ap_status s = Pending \<longrightarrow> ap_status t = Pending \<longrightarrow>
        same_request (ap_request s) (ap_request t) \<longrightarrow> k = l)"

definition states_ok :: "approval_states \<Rightarrow> bool" where
  "states_ok states \<longleftrightarrow> bt_wf states \<and> keyed states \<and> one_pending states"

definition inbox_ok :: "approval_record codec \<Rightarrow> text_file \<Rightarrow> bool" where
  "inbox_ok C f \<longleftrightarrow>
     text_complete (file_text f) \<and> (\<exists>states. replay C None f = Ok states \<and> states_ok states)"

lemma states_okD:
  assumes "states_ok states"
  shows "bt_wf states"
    and "bt_get states k = Some s \<Longrightarrow> req_id (ap_request s) = k"
    and "bt_get states k = Some s \<Longrightarrow> bt_get states l = Some t \<Longrightarrow> ap_status s = Pending \<Longrightarrow>
      ap_status t = Pending \<Longrightarrow> same_request (ap_request s) (ap_request t) \<Longrightarrow> k = l"
  using assms unfolding states_ok_def keyed_def one_pending_def by blast+

lemma same_request_sym: "same_request a b \<longleftrightarrow> same_request b a"
  by (auto simp: same_request_def)

lemma same_request_trans: "same_request a b \<Longrightarrow> same_request b c \<Longrightarrow> same_request a c"
  by (auto simp: same_request_def)

lemma same_request_id [simp]: "same_request a (b\<lparr>req_id := i\<rparr>) = same_request a b"
  "same_request (a\<lparr>req_id := i\<rparr>) b = same_request a b"
  by (auto simp: same_request_def)

text \<open>A request that no pending one equals may be opened; a request that is known may be
  resolved, whatever the resolution says, if it is pending.\<close>

lemma states_ok_requested:
  assumes "states_ok states"
    and "\<forall>k s. bt_get states k = Some s \<longrightarrow> ap_status s = Pending \<longrightarrow> \<not> same_request (ap_request s) r"
  shows "states_ok (apply_record (Requested r) states)"
proof (cases "bt_get states (req_id r)")
  case None
  then have get: "bt_get (apply_record (Requested r) states) =
      (bt_get states)(req_id r \<mapsto> \<lparr>ap_request = r, ap_status = Pending, ap_resolution = None\<rparr>)"
    using assms(1) by (simp add: states_ok_def bt_get_or_insert)
  have "keyed (apply_record (Requested r) states)"
    using assms(1) unfolding keyed_def get states_ok_def by auto
  moreover have "one_pending (apply_record (Requested r) states)"
    using assms unfolding one_pending_def get states_ok_def
    by (auto simp: same_request_sym [of r])
  ultimately show ?thesis
    using assms(1) apply_record_wf [of states "Requested r"] by (simp add: states_ok_def)
next
  case (Some s)
  then show ?thesis using assms(1) by (simp add: bt_or_insert_def)
qed

lemma bt_get_resolved:
  "bt_wf states \<Longrightarrow> bt_get (apply_record (Resolved d) states) k =
     (if k = res_request_id d
      then map_option (\<lambda>s. s\<lparr>ap_status := res_status d, ap_resolution := Some d\<rparr>) (bt_get states k)
      else bt_get states k)"
  by (simp add: bt_get_modify)

lemma states_ok_resolved:
  assumes "states_ok states" and "bt_get states (res_request_id d) = Some s" "ap_status s = Pending"
  shows "states_ok (apply_record (Resolved d) states)"
proof -
  let ?new = "apply_record (Resolved d) states"
  have wf: "bt_wf states" using assms(1) by (simp add: states_ok_def)
  have old: "\<exists>t. bt_get states k = Some t \<and> ap_request t = ap_request u \<and>
      (ap_status u = Pending \<longrightarrow> ap_status t = Pending)" if "bt_get ?new k = Some u" for k u
    using that assms(2,3) unfolding bt_get_resolved [OF wf] by (auto split: if_splits)
  have "keyed ?new"
    unfolding keyed_def
  proof (intro allI impI)
    fix k u assume "bt_get ?new k = Some u"
    with old obtain t where "bt_get states k = Some t" "ap_request t = ap_request u" by blast
    with states_okD(2) [OF assms(1), of k t] show "req_id (ap_request u) = k" by simp
  qed
  moreover have "one_pending ?new"
    unfolding one_pending_def
  proof (intro allI impI)
    fix k u l v
    assume "bt_get ?new k = Some u" "bt_get ?new l = Some v" "ap_status u = Pending"
      "ap_status v = Pending" "same_request (ap_request u) (ap_request v)"
    moreover from this old obtain t t' where "bt_get states k = Some t" "ap_request t = ap_request u"
      "ap_status t = Pending" "bt_get states l = Some t'" "ap_request t' = ap_request v"
      "ap_status t' = Pending" by blast
    ultimately show "k = l"
      using states_okD(3) [OF assms(1), of k t l t'] by simp
  qed
  ultimately show ?thesis
    using wf apply_record_wf [of states "Resolved d"] by (simp add: states_ok_def)
qed

section \<open>Operations\<close>

lemma append_record_Ok:
  "append_record C w r f = (Ok u, f') \<Longrightarrow>
     \<exists>line. encode_line C r = Ok line \<and> f' = Some (file_text f @ line @ [NL])"
  by (auto simp: append_record_def map_err_Ok_iff append_line_Ok split: prod.splits)

lemma append_record_prefix:
  "append_record C w r f = (res, f') \<Longrightarrow> prefix (file_text f) (file_text f')"
  by (auto simp: append_record_def append_line_prefix split: prod.splits)

definition untorn :: "io_faults \<Rightarrow> bool" where
  "untorn io \<longleftrightarrow> (case on_write io of Torn _ _ \<Rightarrow> False | _ \<Rightarrow> True)"

text \<open>An append that fails without tearing a line leaves the same text.\<close>

lemma append_record_Err:
  "append_record C w r f = (Err e, f') \<Longrightarrow> (case w of Torn _ _ \<Rightarrow> False | _ \<Rightarrow> True) \<Longrightarrow>
     f' = f \<or> f' = Some (file_text f)"
  by (auto simp: append_record_def split: prod.splits elim: append_line_cases)

lemma replay_same_text: "replay C None (Some (file_text f)) = replay C None f"
  by (cases f) (simp_all add: replay_def read_lines_def str_lines_def)

lemma append_record_states:
  assumes "codec_ok C" and "text_complete (file_text f)" and "replay C None f = Ok states"
    and "append_record C w r f = (res, f')" and "(case w of Torn _ _ \<Rightarrow> False | _ \<Rightarrow> True)"
  shows "text_complete (file_text f') \<and>
    replay C None f' = Ok (if is_ok res then apply_record r states else states)"
proof (cases res)
  case (Inl e)
  with append_record_Err [of C w r f e f'] assms show ?thesis
    by (auto simp: replay_same_text)
next
  case (Inr u)
  with append_record_Ok [of C w r f u f'] replay_append [OF assms(1,2) _ assms(3)] assms(4)
  show ?thesis by auto
qed

text \<open>What each operation does to the states.\<close>

lemma record_request_cases:
  assumes "record_request C io uuid r f = (res, f')"
  obtains (unreadable) e where "replay C (on_read io) f = Err e" "res = Err e" "f' = f"
  | (known) states k s where "replay C (on_read io) f = Ok states" "bt_get states k = Some s"
      "ap_status s = Pending" "same_request (ap_request s) r" "res = Ok (ap_request s)" "f' = f"
  | (opened) states r' res' where "replay C (on_read io) f = Ok states"
      "\<forall>k s. bt_get states k = Some s \<longrightarrow> ap_status s = Pending \<longrightarrow> \<not> same_request (ap_request s) r"
      "r' = (if bt_get states (req_id r) \<noteq> None
        then r\<lparr>req_id := reopened_request_id (req_id r) uuid\<rparr> else r)"
      "append_record C (on_write io) (Requested r') f = (res', f')"
      "res = and_then res' (\<lambda>_. Ok r')"
proof (cases "replay C (on_read io) f")
  case (Inl e)
  from assms Inl have "res = Err e" "f' = f" by (simp_all add: record_request_def)
  with Inl show ?thesis by (rule unreadable)
next
  case (Inr states)
  note wf = replay_wf [OF Inr]
  let ?P = "\<lambda>s. ap_status s = Pending \<and> same_request (ap_request s) r"
  show ?thesis
  proof (cases "find ?P (bt_values states)")
    case None
    with bt.find_value_None [OF wf, of ?P]
    have "\<forall>k s. bt_get states k = Some s \<longrightarrow> ap_status s = Pending \<longrightarrow> \<not> same_request (ap_request s) r"
      by (simp add: bt_values_def)
    moreover obtain r' where r': "r' = (if bt_get states (req_id r) \<noteq> None
        then r\<lparr>req_id := reopened_request_id (req_id r) uuid\<rparr> else r)" by simp
    moreover obtain res' g where app: "append_record C (on_write io) (Requested r') f = (res', g)"
      by (cases "append_record C (on_write io) (Requested r') f")
    moreover from assms Inr None r' app have "res = and_then res' (\<lambda>_. Ok r')" "f' = g"
      by (simp_all add: record_request_def Let_def)
    ultimately show ?thesis using Inr by (intro opened) simp_all
  next
    case (Some s)
    with bt.find_value_Some [OF wf, of ?P s] obtain k where
      "?P s" "bt_get states k = Some s" by (auto simp: bt_values_def)
    moreover from assms Inr Some have "res = Ok (ap_request s)" "f' = f"
      by (simp_all add: record_request_def)
    ultimately show ?thesis using Inr by (intro known) simp_all
  qed
qed

lemma resolve_cases:
  assumes "resolve C io now rid status reason picto f = (res, f')"
  obtains (failed) e where "res = Err e" "f' = f"
  | (resolved) states s d res' where "replay C (on_read io) f = Ok states"
      "bt_get states rid = Some s" "ap_status s = Pending"
      "d = \<lparr>res_request_id = rid, res_resolved_at = now, res_status = status,
         res_reason = reason, res_picto_id = picto\<rparr>"
      "append_record C (on_write io) (Resolved d) f = (res', f')" "res = and_then res' (\<lambda>_. Ok d)"
proof (cases "get_approval C (on_read io) rid f")
  case (Inl e)
  from assms Inl have "res = Err e" "f' = f" by (simp_all add: resolve_def)
  then show ?thesis by (rule failed)
next
  case (Inr found)
  then obtain states where states: "replay C (on_read io) f = Ok states" "bt_get states rid = found"
    by (auto simp: get_approval_def and_then_Ok_iff)
  show ?thesis
  proof (cases found)
    case None
    let ?e = "PolicyError (''approval request '' @ debug_str rid @ '' not found'')"
    from assms Inr None have "res = Err ?e" "f' = f" by (simp_all add: resolve_def)
    then show ?thesis by (rule failed)
  next
    case (Some s)
    show ?thesis
    proof (cases "ap_status s = Pending")
      case True
      let ?d = "\<lparr>res_request_id = rid, res_resolved_at = now, res_status = status,
         res_reason = reason, res_picto_id = picto\<rparr>"
      obtain res' g where app: "append_record C (on_write io) (Resolved ?d) f = (res', g)"
        by (cases "append_record C (on_write io) (Resolved ?d) f")
      with assms Inr Some True have "res = and_then res' (\<lambda>_. Ok ?d)" "f' = g"
        by (simp_all add: resolve_def Let_def)
      with app states Some True show ?thesis by (intro resolved) simp_all
    next
      case False
      let ?e = "PolicyError (''approval request '' @ debug_str rid @ '' is already '' @
        approval_status_str (ap_status s))"
      from False assms Inr Some have "res = Err ?e" "f' = f" by (simp_all add: resolve_def)
      then show ?thesis by (rule failed)
    qed
  qed
qed

section \<open>Runs\<close>

datatype approval_event =
    Ask io_faults string approval_request
  | Settle io_faults time string approval_status string "string option"

inductive approval_step ::
  "approval_record codec \<Rightarrow> text_file \<Rightarrow> approval_event \<Rightarrow> text_file \<Rightarrow> bool" for C where
  step_ask: "record_request C io uuid r f = (res, f') \<Longrightarrow> approval_step C f (Ask io uuid r) f'"
| step_settle: "resolve C io now rid status reason picto f = (res, f') \<Longrightarrow>
    approval_step C f (Settle io now rid status reason picto) f'"

inductive_cases approval_stepE: "approval_step C f e f'"

fun event_untorn :: "approval_event \<Rightarrow> bool" where
  "event_untorn (Ask io _ _) = untorn io"
| "event_untorn (Settle io _ _ _ _ _) = untorn io"

lemma record_request_prefix:
  "record_request C io uuid r f = (res, f') \<Longrightarrow> prefix (file_text f) (file_text f')"
  by (erule record_request_cases) (simp_all add: append_record_prefix)

lemma resolve_prefix:
  "resolve C io now rid status reason picto f = (res, f') \<Longrightarrow> prefix (file_text f) (file_text f')"
  by (erule resolve_cases) (simp_all add: append_record_prefix)

interpretation approval_log: append_log "approval_step C" file_text
  by unfold_locales
    (auto elim!: approval_stepE dest: record_request_prefix resolve_prefix)

text \<open>What one untorn step makes of a healthy inbox: nothing, a new request, or the resolution of a
  pending one.\<close>

definition step_states :: "approval_states \<Rightarrow> approval_states \<Rightarrow> bool" where
  "step_states states states' \<longleftrightarrow>
     states' = states \<or>
     (\<exists>r. states' = apply_record (Requested r) states \<and>
        (\<forall>k s. bt_get states k = Some s \<longrightarrow> ap_status s = Pending \<longrightarrow> \<not> same_request (ap_request s) r)) \<or>
     (\<exists>d s. states' = apply_record (Resolved d) states \<and>
        bt_get states (res_request_id d) = Some s \<and> ap_status s = Pending)"

lemma step_states_intros:
  "step_states states states"
  "(\<And>k s. bt_get states k = Some s \<Longrightarrow> ap_status s = Pending \<Longrightarrow> \<not> same_request (ap_request s) r) \<Longrightarrow>
     step_states states (apply_record (Requested r) states)"
  "bt_get states (res_request_id d) = Some s \<Longrightarrow> ap_status s = Pending \<Longrightarrow>
     step_states states (apply_record (Resolved d) states)"
  unfolding step_states_def by blast+

text \<open>A step leaves the file of a healthy inbox or makes one append of this kind.\<close>

lemma approval_step_append:
  assumes "approval_step C f e f'" and "replay C None f = Ok states"
  shows "f' = f \<or>
    (\<exists>w r res. append_record C w r f = (res, f') \<and> step_states states (apply_record r states) \<and>
       (event_untorn e \<longrightarrow> (case w of Torn _ _ \<Rightarrow> False | _ \<Rightarrow> True)))"
proof (cases e)
  case (Ask io uuid r)
  with assms(1) obtain res where "record_request C io uuid r f = (res, f')"
    by (auto elim: approval_stepE)
  then show ?thesis
  proof (cases rule: record_request_cases)
    case (opened states' r' res')
    have "states' = states" using replay_no_fault [OF opened(1)] assms(2) by simp
    with opened(2,3) have "step_states states (apply_record (Requested r') states)"
      by (intro step_states_intros(2)) auto
    moreover have "event_untorn e \<longrightarrow> (case on_write io of Torn _ _ \<Rightarrow> False | _ \<Rightarrow> True)"
      using Ask by (simp add: untorn_def)
    ultimately show ?thesis using opened(4) by blast
  qed simp_all
next
  case (Settle io now rid status reason picto)
  with assms(1) obtain res where "resolve C io now rid status reason picto f = (res, f')"
    by (auto elim: approval_stepE)
  then show ?thesis
  proof (cases rule: resolve_cases)
    case (resolved states' s d res')
    have "states' = states" using replay_no_fault [OF resolved(1)] assms(2) by simp
    with resolved(2-4) have "step_states states (apply_record (Resolved d) states)"
      by (intro step_states_intros(3)) auto
    moreover have "event_untorn e \<longrightarrow> (case on_write io of Torn _ _ \<Rightarrow> False | _ \<Rightarrow> True)"
      using Settle by (simp add: untorn_def)
    ultimately show ?thesis using resolved(5) by blast
  qed simp
qed

lemma approval_step_states:
  assumes "codec_ok C" and "text_complete (file_text f)" and "replay C None f = Ok states"
    and "approval_step C f e f'" and "event_untorn e"
  shows "text_complete (file_text f') \<and>
    (\<exists>states'. replay C None f' = Ok states' \<and> step_states states states')"
  using approval_step_append [OF assms(4,3)] assms(2,3,5) step_states_intros(1) [of states]
    append_record_states [OF assms(1-3)]
  by (elim disjE exE conjE) (fastforce split: if_splits)+

lemma step_states_ok: "states_ok states \<Longrightarrow> step_states states states' \<Longrightarrow> states_ok states'"
  unfolding step_states_def using states_ok_requested states_ok_resolved by blast

lemma inbox_ok_step:
  assumes "codec_ok C" and "inbox_ok C f" and "event_untorn e" and "approval_step C f e f'"
  shows "inbox_ok C f'"
  using assms approval_step_states [OF assms(1) _ _ assms(4,3)] step_states_ok
  unfolding inbox_ok_def by blast

lemma inbox_ok_empty: "inbox_ok C None"
  by (simp add: inbox_ok_def replay_def states_ok_def keyed_def one_pending_def bt_laws bt.get_empty)

lemma inbox_ok_run:
  assumes "codec_ok C" and "run (approval_step C) f es f'" and "inbox_ok C f"
    and "\<forall>e \<in> set es. event_untorn e"
  shows "inbox_ok C f'"
  using assms(2-4) by (rule run_invariant_on) (rule inbox_ok_step [OF assms(1)])

text \<open>A state that is no longer pending stays.\<close>

lemma step_states_settled:
  assumes "bt_wf states" "step_states states states'"
    and "bt_get states rid = Some s" "ap_status s \<noteq> Pending"
  shows "bt_get states' rid = Some s"
  using assms by (auto simp: step_states_def bt_get_or_insert bt_get_modify split: option.splits)

definition settled :: "approval_record codec \<Rightarrow> string \<Rightarrow> approval_state \<Rightarrow> text_file \<Rightarrow> bool" where
  "settled C rid s f \<longleftrightarrow>
     inbox_ok C f \<and> ap_status s \<noteq> Pending \<and>
     (\<exists>states. replay C None f = Ok states \<and> bt_get states rid = Some s)"

lemma settled_step:
  assumes "codec_ok C" and "settled C rid s f" and "event_untorn e" and "approval_step C f e f'"
  shows "settled C rid s f'"
proof -
  from assms(2) obtain states where st: "text_complete (file_text f)" "replay C None f = Ok states"
      "bt_get states rid = Some s" "ap_status s \<noteq> Pending"
    by (auto simp: settled_def inbox_ok_def)
  from approval_step_states [OF assms(1) st(1,2) assms(4,3)] obtain states' where
    st': "replay C None f' = Ok states'" "step_states states states'" by blast
  have "inbox_ok C f'" using assms inbox_ok_step by (auto simp: settled_def)
  with st st' step_states_settled [OF replay_wf [OF st(2)] st'(2) st(3,4)]
  show ?thesis by (auto simp: settled_def)
qed

section \<open>Appends cut short\<close>

text \<open>A file whose last line, when no newline ends it, is a whole record.\<close>

definition whole_lines :: "approval_record codec \<Rightarrow> text_file \<Rightarrow> bool" where
  "whole_lines C f \<longleftrightarrow> text_complete (file_text f) \<or>
     (\<exists>t r l. file_text f = t @ l \<and> text_complete t \<and> encode_line C r = Ok l)"

lemma whole_linesE:
  assumes "whole_lines C f"
  obtains (complete) "text_complete (file_text f)"
  | (unended) t r l where "file_text f = t @ l" "text_complete t" "encode_line C r = Ok l"
  using assms unfolding whole_lines_def by blast

lemma replay_bad_last:
  assumes "str_lines t' = ls @ [x]" and "\<not> is_blank x" and "\<not> is_ok (decode_line C x)"
  shows "\<not> is_ok (replay C fault (Some t')) \<or> fault \<noteq> None"
proof -
  have "\<not> is_ok (replay_lines C (map Ok ls @ [Ok x]) bt_empty)"
    using assms(2,3) by (auto simp: replay_lines_append is_ok_iff and_then_Ok_iff map_err_Ok_iff)
  then show ?thesis using assms(1) by (cases fault) (simp_all add: replay_def read_lines_def)
qed

lemma is_blank_append: "is_blank (a @ b) \<longleftrightarrow> is_blank a \<and> is_blank b"
  by (auto simp: is_blank_iff)

lemma not_newline: "codec_ok C \<Longrightarrow> encode_line C r = Ok l \<Longrightarrow> NL \<notin> set l \<and> \<not> is_blank l \<and> l \<noteq> []"
  using codec_okD [of C r l] by (auto simp: line_ok_def is_blank_iff)

text \<open>Whatever an append to a file that replays does, the new file replays to the states before or
  to those with the record, or it no longer replays.\<close>

lemma append_any:
  assumes "codec_ok C" and "refuses_torn C" and "whole_lines C f" and "replay C None f = Ok states"
    and "append_record C w r f = (res, f')"
  shows "\<not> is_ok (replay C None f') \<or>
    (whole_lines C f' \<and> replay C None f' \<in> {Ok states, Ok (apply_record r states)})"
proof -
  from assms(5) obtain res' where "append_line C w r f = (res', f')"
    by (auto simp: append_record_def split: prod.splits)
  then have "file_text f' = file_text f \<and> replay C None f' = replay C None f \<or>
      (\<exists>l. encode_line C r = Ok l \<and> f' = Some (file_text f @ l @ [NL])) \<or>
      (\<exists>l k. encode_line C r = Ok l \<and> 0 < k \<and> k \<le> length l \<and> f' = Some (file_text f @ take k l))"
    (is "?same \<or> ?written \<or> ?cut")
  proof (cases rule: append_line_cases)
    case (torn k e l)
    consider "k = 0" | "0 < k" "k \<le> length l" | "length l < k" by linarith
    then show ?thesis
    proof cases
      case 1
      with torn(4) show ?thesis by (simp add: replay_same_text)
    next
      case 2
      with torn(2,4) show ?thesis by auto
    next
      case 3
      with torn(2,4) show ?thesis by auto
    qed
  qed (auto simp: replay_same_text)
  then consider ?same | ?written | ?cut by blast
  then show ?thesis
  proof cases
    case 1
    with assms(3,4) show ?thesis by (simp add: whole_lines_def)
  next
    case 2
    then obtain l where l: "encode_line C r = Ok l" "f' = Some (file_text f @ l @ [NL])" by blast
    from assms(3) show ?thesis
    proof (cases rule: whole_linesE)
      case complete
      with replay_append [OF assms(1) complete l(1) assms(4)] l(2) show ?thesis
        by (simp add: whole_lines_def)
    next
      case (unended t r' l')
      have "0 < length l" using not_newline [OF assms(1) l(1)] by simp
      from refuses_tornD(2) [OF assms(2) unended(3) l(1) this] have "\<not> is_ok (decode_line C (l' @ l))"
        by simp
      moreover have "str_lines (file_text f @ l @ [NL]) = str_lines t @ [l' @ l]"
        using str_lines_after_fragment [OF unended(2)] codec_okD [OF assms(1) l(1)]
          not_newline [OF assms(1) unended(3)] unended(1) by simp
      ultimately show ?thesis
        using replay_bad_last [of _ _ "l' @ l" C None] not_newline [OF assms(1) unended(3)] l(2)
        by (simp add: is_blank_append)
    qed
  next
    case 3
    then obtain l k where l: "encode_line C r = Ok l" "0 < k" "k \<le> length l" "f' = Some (file_text f @ take k l)"
      by blast
    have l_ok: "NL \<notin> set (take k l)" "take k l \<noteq> []"
      using not_newline [OF assms(1) l(1)] l(2) by (auto dest: in_set_takeD)
    from assms(3) show ?thesis
    proof (cases rule: whole_linesE)
      case complete
      note split = str_lines_fragment [OF complete l_ok]
      show ?thesis
      proof (cases "k = length l")
        case True
        have "replay C None f' = Ok (apply_record r states)"
          using replay_append [OF assms(1) complete l(1) assms(4)] split True l(4)
            str_lines_append [OF complete, of l] codec_okD [OF assms(1) l(1)]
          by (simp add: replay_def read_lines_def)
        with complete l(1,4) True show ?thesis by (auto simp: whole_lines_def)
      next
        case False
        with refuses_tornD(1) [OF assms(2) l(1,2)] l(3) split l(4) show ?thesis
          using replay_bad_last [OF split, of C None] by simp
      qed
    next
      case (unended t r' l')
      have "str_lines (file_text f @ take k l) = str_lines t @ [l' @ take k l]"
        using str_lines_fragment [OF unended(2), of "l' @ take k l"] l_ok
          not_newline [OF assms(1) unended(3)] unended(1) by simp
      then show ?thesis
        using replay_bad_last [of _ _ "l' @ take k l" C None] not_newline [OF assms(1) unended(3)] l(4)
          refuses_tornD(2) [OF assms(2) unended(3) l(1,2)]
        by (simp add: is_blank_append)
    qed
  qed
qed

text \<open>A file that does not replay is left alone by every operation, and each fails.\<close>

lemma unreadable_inbox:
  assumes "\<not> is_ok (replay C None f)"
  shows "\<not> is_ok (fst (record_request C io uuid r f)) \<and> snd (record_request C io uuid r f) = f"
    and "\<not> is_ok (fst (resolve C io now rid status reason picto f)) \<and>
      snd (resolve C io now rid status reason picto f) = f"
proof -
  have bad: "\<exists>e. replay C (on_read io) f = Err e" for io
    using assms replay_no_fault [of C _ f] by (cases "replay C (on_read io) f") (auto simp: is_ok_iff)
  from bad [of io] show "\<not> is_ok (fst (record_request C io uuid r f)) \<and> snd (record_request C io uuid r f) = f"
    by (auto simp: record_request_def)
  from bad [of io] show "\<not> is_ok (fst (resolve C io now rid status reason picto f)) \<and>
      snd (resolve C io now rid status reason picto f) = f"
    by (auto simp: resolve_def get_approval_def and_then_def)
qed

text \<open>An inbox after a healthy start: it replays to states that are in order, or not at all.\<close>

definition inbox_sound :: "approval_record codec \<Rightarrow> text_file \<Rightarrow> bool" where
  "inbox_sound C f \<longleftrightarrow>
     \<not> is_ok (replay C None f) \<or>
     whole_lines C f \<and> (\<exists>states. replay C None f = Ok states \<and> states_ok states)"

lemma inbox_ok_sound: "inbox_ok C f \<Longrightarrow> inbox_sound C f"
  by (auto simp: inbox_ok_def inbox_sound_def whole_lines_def)

lemma approval_step_unreadable:
  assumes "\<not> is_ok (replay C None f)" and "approval_step C f e f'"
  shows "f' = f"
  using assms(2)
proof (cases rule: approval_step.cases)
  case (step_ask io uuid r res)
  with unreadable_inbox(1) [OF assms(1), of io uuid r] show ?thesis by simp
next
  case (step_settle io now rid status reason picto res)
  with unreadable_inbox(2) [OF assms(1), of io now rid status reason picto] show ?thesis by simp
qed

lemma approval_step_any:
  assumes "codec_ok C" and "refuses_torn C" and "whole_lines C f" and "replay C None f = Ok states"
    and "approval_step C f e f'"
  shows "\<not> is_ok (replay C None f') \<or>
    (whole_lines C f' \<and> (\<exists>states'. replay C None f' = Ok states' \<and> step_states states states'))"
  using approval_step_append [OF assms(5,4)] assms(3,4) append_any [OF assms(1-4)]
    step_states_intros(1) [of states]
  by (elim disjE exE conjE) (simp_all, blast)

lemma inbox_sound_step:
  assumes "codec_ok C" and "refuses_torn C" and "inbox_sound C f" and "approval_step C f e f'"
  shows "inbox_sound C f'"
proof (cases "is_ok (replay C None f)")
  case True
  with assms(3) obtain states where st: "whole_lines C f" "replay C None f = Ok states" "states_ok states"
    by (auto simp: inbox_sound_def)
  from approval_step_any [OF assms(1,2) st(1,2) assms(4)] step_states_ok [OF st(3)] show ?thesis
    by (auto simp: inbox_sound_def)
next
  case False
  with approval_step_unreadable [OF False assms(4)] show ?thesis by (simp add: inbox_sound_def)
qed

lemma inbox_sound_run:
  assumes "codec_ok C" and "run (approval_step C) f es f'" and "inbox_ok C f"
    and "(\<forall>e \<in> set es. event_untorn e) \<or> refuses_torn C"
  shows "inbox_sound C f'"
  using assms(4)
proof
  assume "refuses_torn C"
  from assms(2) inbox_ok_sound [OF assms(3)] show ?thesis
    by (rule run_invariant) (rule inbox_sound_step [OF assms(1) \<open>refuses_torn C\<close>])
qed (rule inbox_ok_sound [OF inbox_ok_run [OF assms(1-3)]])

text \<open>The same for a state that is no longer pending.\<close>

definition settled_or_lost :: "approval_record codec \<Rightarrow> string \<Rightarrow> approval_state \<Rightarrow> text_file \<Rightarrow> bool" where
  "settled_or_lost C rid s f \<longleftrightarrow>
     \<not> is_ok (replay C None f) \<or>
     whole_lines C f \<and> (\<exists>states. replay C None f = Ok states \<and> bt_get states rid = Some s)"

lemma settled_or_lost_step:
  assumes "codec_ok C" and "refuses_torn C" and "ap_status s \<noteq> Pending"
    and "settled_or_lost C rid s f" and "approval_step C f e f'"
  shows "settled_or_lost C rid s f'"
proof (cases "is_ok (replay C None f)")
  case True
  with assms(4) obtain states where st: "whole_lines C f" "replay C None f = Ok states"
      "bt_get states rid = Some s"
    by (auto simp: settled_or_lost_def)
  from approval_step_any [OF assms(1,2) st(1,2) assms(5)]
    step_states_settled [OF replay_wf [OF st(2)] _ st(3) assms(3)] show ?thesis
    by (auto simp: settled_or_lost_def)
next
  case False
  with approval_step_unreadable [OF False assms(5)] show ?thesis by (simp add: settled_or_lost_def)
qed

section \<open>A codec for the examples\<close>

text \<open>A line that lists the records in unary has every property asked of a codec.\<close>

definition demo_request :: "string \<Rightarrow> string \<Rightarrow> approval_request" where
  "demo_request i scope =
     \<lparr>req_id = i, req_created_at = 0, req_tool = ''Bash'', req_input_hash = ''h'',
      req_required_scope = scope, req_bind_input = False, req_reason = [],
      req_capabilities = [], req_matched_rule = None, req_policy_version = ''v''\<rparr>"

definition demo_resolution :: "string \<Rightarrow> approval_resolution" where
  "demo_resolution i =
     \<lparr>res_request_id = i, res_resolved_at = 0, res_status = Denied, res_reason = ''no'',
      res_picto_id = None\<rparr>"

definition no_blank :: "string \<Rightarrow> bool" where
  "no_blank s \<longleftrightarrow> list_all (\<lambda>c. \<not> is_whitespace c) s"

text \<open>It writes the demo records and refuses any other.\<close>

definition demo_codec :: "approval_record codec" where
  "demo_codec =
     \<lparr>encode_line = (\<lambda>r. case r of
        Requested q \<Rightarrow>
          if q = demo_request (req_id q) ''s'' \<and> no_blank (req_id q)
          then Ok (CHR ''+'' # req_id q) else Err ''unsupported''
      | Resolved d \<Rightarrow>
          if d = demo_resolution (res_request_id d) \<and> no_blank (res_request_id d)
          then Ok (CHR ''-'' # res_request_id d) else Err ''unsupported''),
      decode_line = (\<lambda>l. case l of
        c # i \<Rightarrow>
          if c = CHR ''+'' then Ok (Requested (demo_request i ''s''))
          else if c = CHR ''-'' then Ok (Resolved (demo_resolution i)) else Err ''expected value''
      | [] \<Rightarrow> Err ''EOF'')\<rparr>"

lemma no_blank_line: "no_blank (c # i) \<Longrightarrow> line_ok (c # i)"
proof -
  assume a: "no_blank (c # i)"
  have "is_whitespace NL" "is_whitespace (CHR 0x0D)"
    by (simp_all add: NL_def is_whitespace_def)
  with a show ?thesis
    using last_in_set [of "c # i"] by (auto simp: line_ok_def is_blank_iff no_blank_def list_all_iff)
qed

lemma codec_ok_demo: "codec_ok demo_codec"
  unfolding codec_ok_def
proof (intro allI impI)
  fix r l assume "encode_line demo_codec r = Ok l"
  moreover have "no_blank (CHR ''+'' # i) = no_blank i" "no_blank (CHR ''-'' # i) = no_blank i" for i
    by (simp_all add: no_blank_def is_whitespace_def)
  ultimately show "line_ok l \<and> decode_line demo_codec l = Ok r"
    by (cases r) (auto simp: demo_codec_def NL_def split: if_splits intro!: no_blank_line)
qed

section \<open>A codec whose records have an end\<close>

definition sealed_codec :: "approval_record codec" where
  "sealed_codec =
     \<lparr>encode_line = (\<lambda>r. and_then (encode_line demo_codec r) (\<lambda>l.
        if CHR ''.'' \<in> set l then Err ''unsupported'' else Ok (l @ ''.''))),
      decode_line = (\<lambda>l. if l \<noteq> [] \<and> last l = CHR ''.'' \<and> CHR ''.'' \<notin> set (butlast l)
        then decode_line demo_codec (butlast l) else Err ''expected value'')\<rparr>"

lemma sealed_line:
  assumes "encode_line sealed_codec r = Ok l"
  obtains m where "encode_line demo_codec r = Ok m" "l = m @ ''.''" "CHR ''.'' \<notin> set m"
  using assms by (auto simp: sealed_codec_def and_then_Ok_iff split: if_splits)

lemma codec_ok_sealed: "codec_ok sealed_codec"
  unfolding codec_ok_def
proof (intro allI impI)
  fix r l assume "encode_line sealed_codec r = Ok l"
  then obtain m where m: "encode_line demo_codec r = Ok m" "l = m @ ''.''" "CHR ''.'' \<notin> set m"
    by (rule sealed_line)
  with codec_okD [OF codec_ok_demo m(1)] show "line_ok l \<and> decode_line sealed_codec l = Ok r"
    by (auto simp: sealed_codec_def line_ok_def is_blank_append NL_def)
qed

lemma demo_line_start: "encode_line demo_codec r = Ok m \<Longrightarrow> m \<noteq> [] \<and> hd m \<in> {CHR ''+'', CHR ''-''}"
  by (auto simp: demo_codec_def split: approval_record.splits if_splits)

lemma refuses_torn_sealed: "refuses_torn sealed_codec"
  unfolding refuses_torn_def
proof (intro conjI allI impI)
  fix r l k assume "encode_line sealed_codec r = Ok l" and k: "0 < k" "k < length (l :: string)"
  then obtain m where m: "encode_line demo_codec r = Ok m" "l = m @ ''.''" "CHR ''.'' \<notin> set m"
    by (auto elim: sealed_line)
  with k have t: "take k l = take k m" "take k m \<noteq> []" by auto
  have "hd m \<in> set (take k m)" using hd_in_set [OF t(2)] k(1) by (simp add: hd_take)
  moreover have "\<not> is_whitespace (hd m)" using demo_line_start [OF m(1)] by (auto simp: is_whitespace_def)
  ultimately show "\<not> is_blank (take k l)" by (auto simp: is_blank_iff t)
  have "last (take k m) \<in> set m" using in_set_takeD [OF last_in_set [OF t(2)]] .
  with m(3) show "\<not> is_ok (decode_line sealed_codec (take k l))"
    by (auto simp: sealed_codec_def t)
next
  fix r l r' l' k
  assume "encode_line sealed_codec r = Ok l" "encode_line sealed_codec r' = Ok l'" "0 < (k :: nat)"
  then obtain m m' where "l = m @ ''.''" "l' = m' @ ''.''" by (metis sealed_line)
  with \<open>0 < k\<close> have "take k l' \<noteq> []" "CHR ''.'' \<in> set l" by auto
  then have "CHR ''.'' \<in> set (butlast (l @ take k l'))" by (simp add: butlast_append)
  then show "\<not> is_ok (decode_line sealed_codec (l @ take k l'))" by (simp add: sealed_codec_def)
qed

section \<open>Properties\<close>

text \<open>C31. Along every run of inbox operations from a missing file, or any healthy one whose last
  line is complete, with every kind of read and write fault: as long as the file replays, at most
  one request is pending for a combination of input hash, scope, binding and policy version. It
  replays if no append was cut short; after one that was, it replays or it does not, and then
  every operation fails and leaves the file as it is. (For an append cut short, that the JSON
  reader refuses the rest it leaves is the hypothesis \<open>refuses_torn\<close>.)\<close>

theorem one_pending_request:
  assumes "codec_ok C" and "inbox_ok C f" and "run (approval_step C) f es f'"
    and "(\<forall>e \<in> set es. event_untorn e) \<or> refuses_torn C"
  shows "(case replay C None f' of
       Ok states \<Rightarrow>
         (\<forall>k s l t. bt_get states k = Some s \<and> ap_status s = Pending \<and>
            bt_get states l = Some t \<and> ap_status t = Pending \<and>
            same_request (ap_request s) (ap_request t) \<longrightarrow> k = l \<and> s = t \<and> req_id (ap_request s) = k)
     | Err _ \<Rightarrow>
         (\<exists>e \<in> set es. \<not> event_untorn e) \<and>
         (\<forall>io uuid r. \<not> is_ok (fst (record_request C io uuid r f')) \<and> snd (record_request C io uuid r f') = f') \<and>
         (\<forall>io now rid status reason picto.
            \<not> is_ok (fst (resolve C io now rid status reason picto f')) \<and>
            snd (resolve C io now rid status reason picto f') = f'))"
proof (cases "replay C None f'")
  case (Inl e)
  then have bad: "\<not> is_ok (replay C None f')" by simp
  have "\<exists>e \<in> set es. \<not> event_untorn e"
  proof (rule ccontr)
    assume "\<not> ?thesis"
    with inbox_ok_run [OF assms(1,3,2)] Inl show False by (simp add: inbox_ok_def)
  qed
  with Inl unreadable_inbox [OF bad] show ?thesis by simp
next
  case (Inr states)
  with inbox_sound_run [OF assms(1,3,2,4)] have "states_ok states" by (simp add: inbox_sound_def)
  from states_okD [OF this] Inr show ?thesis by simp (metis option.inject)
qed

theorem one_pending_request_witness:
  "let f = snd (record_request sealed_codec \<lparr>on_read = None, on_write = Torn 1 ''disk full''\<rparr> []
       (demo_request ''a'' ''s'') None);
     r = record_request sealed_codec \<lparr>on_read = None, on_write = Wrote\<rparr> [] (demo_request ''b'' ''s'') f
   in \<not> is_ok (fst r) \<and> snd r = f"
proof -
  let ?io = "\<lparr>on_read = None, on_write = Torn 1 ''disk full''\<rparr>"
  let ?r = "record_request sealed_codec ?io [] (demo_request ''a'' ''s'') None"
  have "run (approval_step sealed_codec) None [Ask ?io [] (demo_request ''a'' ''s'')] (snd ?r)"
    by (auto simp: run_cons_iff intro!: step_ask [where res = "fst ?r"])
  from one_pending_request [OF codec_ok_sealed inbox_ok_empty this] refuses_torn_sealed
  have "case replay sealed_codec None (snd ?r) of Ok states \<Rightarrow> True | Err _ \<Rightarrow>
      (\<forall>io uuid q. \<not> is_ok (fst (record_request sealed_codec io uuid q (snd ?r))) \<and>
        snd (record_request sealed_codec io uuid q (snd ?r)) = snd ?r)"
    by (auto split: sum.splits)
  moreover have "\<not> is_ok (replay sealed_codec None (snd ?r))" by code_simp
  ultimately show ?thesis by (auto simp: Let_def split: sum.splits)
qed

text \<open>C32. A resolution is final: once a request of a healthy inbox whose last line is complete is
  approved or denied, then after every further run of inbox operations, with every kind of fault,
  reading the request gives the same state, or the inbox no longer replays, which takes an append
  that was cut short; a second resolution is always refused, and refusing it leaves the file
  alone. (\<open>refuses_torn\<close> as above.)\<close>

theorem resolution_is_final:
  assumes "codec_ok C" and "run (approval_step C) f es f'"
    and "(\<forall>e \<in> set es. event_untorn e) \<or> refuses_torn C"
    and "inbox_ok C f" and "get_approval C None rid f = Ok (Some s)" and "ap_status s \<noteq> Pending"
  shows "(case get_approval C None rid f' of
       Ok found \<Rightarrow> found = Some s
     | Err _ \<Rightarrow> \<exists>e \<in> set es. \<not> event_untorn e) \<and>
    resolve C \<lparr>on_read = None, on_write = w\<rparr> now rid status reason picto f' =
      (Err (case get_approval C None rid f' of
          Ok _ \<Rightarrow> PolicyError (''approval request '' @ debug_str rid @ '' is already '' @
            approval_status_str (ap_status s))
        | Err e \<Rightarrow> e), f')"
proof -
  from assms(4,5) obtain states where st: "replay C None f = Ok states" "bt_get states rid = Some s"
    by (auto simp: get_approval_def and_then_Ok_iff)
  have start: "settled_or_lost C rid s f" "settled C rid s f"
    using assms(4,6) st by (auto simp: settled_or_lost_def settled_def inbox_ok_def whole_lines_def)
  have untorn: "settled C rid s f'" if "\<forall>e \<in> set es. event_untorn e"
    using assms(2) start(2) that by (rule run_invariant_on) (rule settled_step [OF assms(1)])
  from assms(3) have "settled_or_lost C rid s f'"
  proof
    assume "refuses_torn C"
    from assms(2) start(1) show ?thesis
      by (rule run_invariant) (rule settled_or_lost_step [OF assms(1) \<open>refuses_torn C\<close> assms(6)])
  qed (use untorn in \<open>auto simp: settled_def settled_or_lost_def inbox_ok_def whole_lines_def\<close>)
  then show ?thesis
  proof (cases "replay C None f'")
    case (Inl e)
    with untorn have "\<exists>e \<in> set es. \<not> event_untorn e" by (auto simp: settled_def)
    with Inl show ?thesis by (simp add: resolve_def get_approval_def and_then_def)
  qed (use assms(6) in \<open>auto simp: settled_or_lost_def resolve_def get_approval_def\<close>)
qed

definition demo_inbox :: text_file where
  "demo_inbox = Some (''+a'' @ [NL] @ ''-a'' @ [NL] @ ''+a_b'' @ [NL] @ ''-a_b'' @ [NL])"

lemma demo_inbox_states:
  "replay demo_codec None demo_inbox =
     Ok [(''a'', \<lparr>ap_request = demo_request ''a'' ''s'', ap_status = Denied,
            ap_resolution = Some (demo_resolution ''a'')\<rparr>),
         (''a_b'', \<lparr>ap_request = demo_request ''a_b'' ''s'', ap_status = Denied,
            ap_resolution = Some (demo_resolution ''a_b'')\<rparr>)]"
  by code_simp

lemma demo_inbox_ok: "inbox_ok demo_codec demo_inbox"
proof -
  have "text_complete (file_text demo_inbox)" by code_simp
  moreover have "states_ok
      [(''a'', \<lparr>ap_request = demo_request ''a'' ''s'', ap_status = Denied,
          ap_resolution = Some (demo_resolution ''a'')\<rparr>),
       (''a_b'', \<lparr>ap_request = demo_request ''a_b'' ''s'', ap_status = Denied,
          ap_resolution = Some (demo_resolution ''a_b'')\<rparr>)]"
    by (auto simp: states_ok_def keyed_def one_pending_def bt_wf_def bt_get_def demo_request_def
        split: if_splits)
  ultimately show ?thesis using demo_inbox_states by (auto simp: inbox_ok_def)
qed

theorem resolution_is_final_witness:
  "snd (resolve demo_codec \<lparr>on_read = None, on_write = Wrote\<rparr> 5 ''a'' Approved [] None demo_inbox) =
     demo_inbox"
proof -
  have "get_approval demo_codec None ''a'' demo_inbox =
      Ok (Some \<lparr>ap_request = demo_request ''a'' ''s'', ap_status = Denied,
        ap_resolution = Some (demo_resolution ''a'')\<rparr>)"
    by (simp add: get_approval_def demo_inbox_states bt_get_def)
  from resolution_is_final [OF codec_ok_demo run_nil _ demo_inbox_ok this] show ?thesis by simp
qed

text \<open>A request is returned only if it is pending: \<open>record_request\<close> gives back the pending
  request for the same tuple and leaves the file alone, or opens the request under its own id or,
  when that is taken, a suffixed one; if the suffixed id is not taken too, the returned
  request is the one now pending for the tuple.\<close>

theorem recorded_request_is_pending:
  assumes "codec_ok C" and "inbox_ok C f" and "replay C None f = Ok states"
    and "record_request C io uuid r f = (Ok r', f')"
    and fresh: "bt_get states (reopened_request_id (req_id r) uuid) = None"
  shows "same_request r' r \<and>
    (\<exists>s. get_approval C None (req_id r') f' = Ok (Some s) \<and> ap_request s = r' \<and> ap_status s = Pending) \<and>
    (f' = f \<or> r' = r \<or> r' = r\<lparr>req_id := reopened_request_id (req_id r) uuid\<rparr>)"
  using assms(4)
proof (cases rule: record_request_cases)
  case (known states' k s)
  have "states' = states" using replay_no_fault [OF known(1)] assms(3) by simp
  moreover from this have "req_id (ap_request s) = k"
    using assms(2,3) known(2) states_okD(2) by (auto simp: inbox_ok_def)
  ultimately show ?thesis using known assms(3) by (auto simp: get_approval_def)
next
  case (opened states' r'' res')
  from opened(5) have res: "res' = Ok ()" "r' = r''" by (auto simp: and_then_def split: sum.splits)
  have states: "states' = states" using replay_no_fault [OF opened(1)] assms(3) by simp
  obtain line where line: "encode_line C (Requested r'') = Ok line"
      "f' = Some (file_text f @ line @ [NL])"
    using append_record_Ok [OF opened(4) [unfolded res(1)]] by blast
  have wf: "bt_wf states" and complete: "text_complete (file_text f)"
    using assms(2,3) by (auto simp: inbox_ok_def states_ok_def)
  have "bt_get states (req_id r'') = None" using opened(3) states fresh by (auto split: if_splits)
  then have "bt_get (apply_record (Requested r'') states) (req_id r'') =
      Some \<lparr>ap_request = r'', ap_status = Pending, ap_resolution = None\<rparr>"
    by (simp add: bt_get_or_insert [OF wf])
  moreover have "replay C None f' = Ok (apply_record (Requested r'') states)"
    using replay_append [OF assms(1) complete line(1) assms(3)] line(2) by simp
  moreover have "same_request r'' r" using opened(3) by (auto simp: same_request_def)
  ultimately show ?thesis using res(2) opened(3) by (auto simp: get_approval_def split: if_splits)
qed simp

theorem recorded_request_is_pending_witness:
  "\<exists>s. get_approval demo_codec None ''a_c'' (snd (record_request demo_codec
     \<lparr>on_read = None, on_write = Wrote\<rparr> ''c'' (demo_request ''a'' ''s'') demo_inbox)) = Ok (Some s) \<and>
   ap_status s = Pending"
proof -
  let ?r = "record_request demo_codec \<lparr>on_read = None, on_write = Wrote\<rparr> ''c'' (demo_request ''a'' ''s'') demo_inbox"
  have "fst ?r = Ok (demo_request ''a_c'' ''s'')" by code_simp
  then have "?r = (Ok (demo_request ''a_c'' ''s''), snd ?r)" by (metis prod.collapse)
  from recorded_request_is_pending [OF codec_ok_demo demo_inbox_ok demo_inbox_states this]
  show ?thesis by (auto simp: demo_request_def reopened_request_id_def bt_get_def)
qed

text \<open>A reopened request can be lost: when the id and the suffixed id are both taken by
  resolved requests, the new request is appended and returned as if it were open, but replay
  ignores it, so the states are as before and nothing is pending for its tuple.\<close>

theorem reopened_request_lost:
  assumes "codec_ok C" and "inbox_ok C f" and "replay C None f = Ok states"
    and "record_request C io uuid r f = (Ok r', f')"
    and none: "\<forall>k s. bt_get states k = Some s \<and> same_request (ap_request s) r \<longrightarrow> ap_status s \<noteq> Pending"
    and taken: "bt_get states (req_id r) \<noteq> None"
      "bt_get states (reopened_request_id (req_id r) uuid) \<noteq> None"
  shows "f' \<noteq> f \<and> req_id r' = reopened_request_id (req_id r) uuid \<and>
    replay C None f' = Ok states \<and>
    (\<forall>ps. pending C None f' = Ok ps \<longrightarrow> (\<forall>s \<in> set ps. \<not> same_request (ap_request s) r'))"
  using assms(4)
proof (cases rule: record_request_cases)
  case (known states' k s)
  with replay_no_fault [OF known(1)] assms(3) none show ?thesis by auto
next
  case (opened states' r'' res')
  from opened(5) have res: "res' = Ok ()" "r' = r''" by (auto simp: and_then_def split: sum.splits)
  have states: "states' = states" using replay_no_fault [OF opened(1)] assms(3) by simp
  obtain line where line: "encode_line C (Requested r'') = Ok line"
      "f' = Some (file_text f @ line @ [NL])"
    using append_record_Ok [OF opened(4) [unfolded res(1)]] by blast
  have wf: "bt_wf states" and complete: "text_complete (file_text f)"
    using assms(2,3) by (auto simp: inbox_ok_def states_ok_def)
  have r'': "r'' = r\<lparr>req_id := reopened_request_id (req_id r) uuid\<rparr>"
    using opened(3) states taken(1) by auto
  then have "apply_record (Requested r'') states = states"
    using taken(2) by (auto simp: bt_or_insert_def)
  then have replay: "replay C None f' = Ok states"
    using replay_append [OF assms(1) complete line(1) assms(3)] line(2) by simp
  have "\<not> same_request (ap_request s) r'" if "s \<in> set (bt_values states)" "ap_status s = Pending" for s
    using bt.value_iff [OF wf, of s] that none r'' res(2) by (auto simp: bt_values_def)
  then have "\<forall>ps. pending C None f' = Ok ps \<longrightarrow> (\<forall>s \<in> set ps. \<not> same_request (ap_request s) r')"
    using replay by (auto simp: pending_def list_states_def)
  with replay line(2) r'' res(2) show ?thesis by (cases f) auto
qed simp

theorem reopened_request_lost_witness:
  "replay demo_codec None (snd (record_request demo_codec
     \<lparr>on_read = None, on_write = Wrote\<rparr> ''b'' (demo_request ''a'' ''s'') demo_inbox)) =
   replay demo_codec None demo_inbox"
proof -
  let ?r = "record_request demo_codec \<lparr>on_read = None, on_write = Wrote\<rparr> ''b'' (demo_request ''a'' ''s'') demo_inbox"
  have "fst ?r = Ok (demo_request ''a_b'' ''s'')" by code_simp
  then have "?r = (Ok (demo_request ''a_b'' ''s''), snd ?r)" by (metis prod.collapse)
  from reopened_request_lost [OF codec_ok_demo demo_inbox_ok demo_inbox_states this]
  show ?thesis
    by (auto simp: demo_request_def reopened_request_id_def bt_get_def demo_inbox_states split: if_splits)
qed

end
