(* ===== verification/Audit_Log.thy ===== *)
theory Audit_Log
  imports Jsonl Evaluator Json Picto
begin

text \<open>
  The signed audit log (\<open>crates/gommage-audit/src/lib.rs\<close>): decision entries and event
  entries, their canonical bytes, the writer, and the two readers \<open>verify_log\<close> and
  \<open>explain_log\<close>. The identifier and the formatted time of an entry are arguments
  (\<open>audit_stamp\<close>), as are the serde functions that print an entry and read it back
  (\<open>audit_codec\<close>): parsing a line into a JSON value, and an entry or an event entry from one.
\<close>

section \<open>Entries\<close>

datatype audit_error =
    AuditIo string
  | AuditJson string
  | AuditBadSignature nat
  | AuditTime string

definition AUDIT_SCHEMA_VERSION :: "32 word" where
  "AUDIT_SCHEMA_VERSION = 1"

record audit_entry =
  ae_version :: "32 word"
  ae_id :: string
  ae_ts :: string
  ae_tool :: string
  ae_input_hash :: string
  ae_capabilities :: "capability list"
  ae_decision :: decision
  ae_matched_rule :: "matched_rule option"
  ae_policy_version :: string
  ae_expedition :: "string option"
  ae_sig :: string

record webhook_signature_audit =
  wsa_algorithm :: string
  wsa_key_id :: "string option"
  wsa_timestamp :: string
  wsa_body_sha256 :: string
  wsa_signature_prefix :: string

text \<open>The fields in the order of the source.\<close>

datatype audit_event =
    PictoCreated string string "32 word" string bool
  | PictoConfirmed string
  | PictoRevoked string
  | PictoConsumed string string "32 word" "32 word" string
  | PictoRejected string string string
  | ApprovalRequested string string string string string string
  | ApprovalResolved string string string "string option"
  | ApprovalWebhookDelivered string string "int option" "32 word" string
      "webhook_signature_audit option"
  | ApprovalWebhookFailed string string string "32 word" string "webhook_signature_audit option"
  | ApprovalWebhookDeadLettered string string string string "32 word" string string
      "webhook_signature_audit option"
  | PictosExpired nat
  | PolicyReloaded string nat nat string "string option" "string option"
  | PolicyReloadRefused string string string string string
  | ConfigDriftAtStartup string string
  | BypassActivated string string "capability list" string string bool string

record audit_event_entry =
  ev_version :: "32 word"
  ev_id :: string
  ev_ts :: string
  ev_kind :: string
  ev_event :: audit_event
  ev_sig :: string

section \<open>Entries as JSON values\<close>

abbreviation jstr :: "string \<Rightarrow> json" where
  "jstr \<equiv> JString"

definition jnat :: "nat \<Rightarrow> json" where
  "jnat n = JNumber (JInt (int n))"

definition ju32 :: "32 word \<Rightarrow> json" where
  "ju32 w = JNumber (JInt (uint w))"

definition jopt :: "('a \<Rightarrow> json) \<Rightarrow> 'a option \<Rightarrow> json" where
  "jopt f v = (case v of None \<Rightarrow> JNull | Some x \<Rightarrow> f x)"

text \<open>\<open>skip_serializing_if = "Option::is_none"\<close>.\<close>

definition jskip :: "string \<Rightarrow> ('a \<Rightarrow> json) \<Rightarrow> 'a option \<Rightarrow> (string \<times> json) list" where
  "jskip k f v = (case v of None \<Rightarrow> [] | Some x \<Rightarrow> [(k, f x)])"

definition decision_json :: "decision \<Rightarrow> json" where
  "decision_json d =
     (case d of
        Allow \<Rightarrow> JObject [(''kind'', jstr ''allow'')]
      | Gommage reason hard_stop \<Rightarrow>
          JObject [(''kind'', jstr ''gommage''), (''reason'', jstr reason), (''hard_stop'', JBool hard_stop)]
      | AskPicto scope reason bind_input \<Rightarrow>
          JObject ([(''kind'', jstr ''ask_picto''), (''required_scope'', jstr scope), (''reason'', jstr reason)] @
            (if bind_input then [(''bind_input'', JBool True)] else [])))"

definition matched_rule_json :: "matched_rule \<Rightarrow> json" where
  "matched_rule_json m =
     JObject [(''name'', jstr (matched_name m)), (''file'', jstr (matched_file m)),
       (''index'', jnat (matched_index m))]"

definition capabilities_json :: "capability list \<Rightarrow> json" where
  "capabilities_json caps = JArray (map jstr caps)"

definition webhook_signature_json :: "webhook_signature_audit \<Rightarrow> json" where
  "webhook_signature_json s =
     JObject [(''algorithm'', jstr (wsa_algorithm s)), (''key_id'', jopt jstr (wsa_key_id s)),
       (''timestamp'', jstr (wsa_timestamp s)), (''body_sha256'', jstr (wsa_body_sha256 s)),
       (''signature_prefix'', jstr (wsa_signature_prefix s))]"

fun event_members :: "audit_event \<Rightarrow> (string \<times> json) list" where
  "event_members (PictoCreated i scope max_uses ttl confirming) =
     [(''type'', jstr ''picto_created''), (''id'', jstr i), (''scope'', jstr scope),
      (''max_uses'', ju32 max_uses), (''ttl_expires_at'', jstr ttl),
      (''require_confirmation'', JBool confirming)]"
| "event_members (PictoConfirmed i) = [(''type'', jstr ''picto_confirmed''), (''id'', jstr i)]"
| "event_members (PictoRevoked i) = [(''type'', jstr ''picto_revoked''), (''id'', jstr i)]"
| "event_members (PictoConsumed i scope n max_uses status) =
     [(''type'', jstr ''picto_consumed''), (''id'', jstr i), (''scope'', jstr scope), (''uses'', ju32 n),
      (''max_uses'', ju32 max_uses), (''status'', jstr status)]"
| "event_members (PictoRejected i scope reason) =
     [(''type'', jstr ''picto_rejected''), (''id'', jstr i), (''scope'', jstr scope),
      (''reason'', jstr reason)]"
| "event_members (ApprovalRequested i tname hash scope reason version) =
     [(''type'', jstr ''approval_requested''), (''id'', jstr i), (''tool'', jstr tname),
      (''input_hash'', jstr hash), (''required_scope'', jstr scope), (''reason'', jstr reason),
      (''policy_version'', jstr version)]"
| "event_members (ApprovalResolved i status reason picto) =
     [(''type'', jstr ''approval_resolved''), (''id'', jstr i), (''status'', jstr status),
      (''reason'', jstr reason), (''picto_id'', jopt jstr picto)]"
| "event_members (ApprovalWebhookDelivered i url status attempts source sig) =
     [(''type'', jstr ''approval_webhook_delivered''), (''id'', jstr i), (''url'', jstr url),
      (''status'', jopt (\<lambda>s. JNumber (JInt s)) status), (''attempts'', ju32 attempts),
      (''source'', jstr source)] @ jskip ''signature'' webhook_signature_json sig"
| "event_members (ApprovalWebhookFailed i url error attempts source sig) =
     [(''type'', jstr ''approval_webhook_failed''), (''id'', jstr i), (''url'', jstr url),
      (''error'', jstr error), (''attempts'', ju32 attempts), (''source'', jstr source)] @
     jskip ''signature'' webhook_signature_json sig"
| "event_members (ApprovalWebhookDeadLettered i url dlq provider attempts source error sig) =
     [(''type'', jstr ''approval_webhook_dead_lettered''), (''id'', jstr i), (''url'', jstr url),
      (''dead_letter_id'', jstr dlq), (''provider'', jstr provider), (''attempts'', ju32 attempts),
      (''source'', jstr source), (''error'', jstr error)] @
     jskip ''signature'' webhook_signature_json sig"
| "event_members (PictosExpired n) = [(''type'', jstr ''pictos_expired''), (''count'', jnat n)]"
| "event_members (PolicyReloaded source rs ms version fingerprint picto) =
     [(''type'', jstr ''policy_reloaded''), (''source'', jstr source), (''rules'', jnat rs),
      (''mapper_rules'', jnat ms), (''policy_version'', jstr version)] @
     jskip ''config_fingerprint'' jstr fingerprint @ jskip ''picto_id'' jstr picto"
| "event_members (PolicyReloadRefused source scope loaded disk reason) =
     [(''type'', jstr ''policy_reload_refused''), (''source'', jstr source),
      (''required_scope'', jstr scope), (''loaded_fingerprint'', jstr loaded),
      (''disk_fingerprint'', jstr disk), (''reason'', jstr reason)]"
| "event_members (ConfigDriftAtStartup recorded loaded) =
     [(''type'', jstr ''config_drift_at_startup''), (''recorded_fingerprint'', jstr recorded),
      (''loaded_fingerprint'', jstr loaded)]"
| "event_members (BypassActivated tname hash caps odecision oreason hard_stop bdecision) =
     [(''type'', jstr ''bypass_activated''), (''tool'', jstr tname), (''input_hash'', jstr hash),
      (''capabilities'', capabilities_json caps), (''original_decision'', jstr odecision),
      (''original_reason'', jstr oreason), (''hard_stop'', JBool hard_stop),
      (''bypass_decision'', jstr bdecision)]"

definition event_json :: "audit_event \<Rightarrow> json" where
  "event_json e = JObject (event_members e)"

section \<open>Canonical bytes\<close>

text \<open>\<open>serde_json::to_string\<close> of a string: the two control characters with a short escape that
  the encoder of \<open>toolcall.rs\<close> writes by code point.\<close>

definition serde_escape_char :: "char \<Rightarrow> string" where
  "serde_escape_char c =
     (if c = CHR 0x08 then [CHR 0x5C, CHR ''b'']
      else if c = CHR 0x0C then [CHR 0x5C, CHR ''f'']
      else escape_char c)"

definition serde_string :: "string \<Rightarrow> string" where
  "serde_string s = CHR 0x22 # concat (map serde_escape_char s) @ [CHR 0x22]"

fun canonical_render :: "json \<Rightarrow> string" where
  "canonical_render JNull = ''null''"
| "canonical_render (JBool b) = (if b then ''true'' else ''false'')"
| "canonical_render (JNumber n) = number_to_string n"
| "canonical_render (JString s) = serde_string s"
| "canonical_render (JArray a) = ''['' @ join '','' (map canonical_render a) @ '']''"
| "canonical_render (JObject ms) =
     ''{'' @ join '',''
       (map (\<lambda>(k, r). serde_string k @ '':'' @ r)
          (sort_key fst (map (\<lambda>(k, v). (k, canonical_render v)) ms))) @ ''}''"

definition entry_object :: "audit_entry \<Rightarrow> json" where
  "entry_object e =
     JObject
       [(''v'', ju32 (ae_version e)), (''id'', jstr (ae_id e)), (''ts'', jstr (ae_ts e)),
        (''tool'', jstr (ae_tool e)), (''input_hash'', jstr (ae_input_hash e)),
        (''capabilities'', capabilities_json (ae_capabilities e)),
        (''decision'', decision_json (ae_decision e)),
        (''matched_rule'', jopt matched_rule_json (ae_matched_rule e)),
        (''policy_version'', jstr (ae_policy_version e)),
        (''expedition'', jopt jstr (ae_expedition e))]"

definition canonical_bytes :: "audit_entry \<Rightarrow> string" where
  "canonical_bytes e = canonical_render (entry_object e)"

definition event_object :: "audit_event_entry \<Rightarrow> json" where
  "event_object e =
     JObject
       [(''v'', ju32 (ev_version e)), (''id'', jstr (ev_id e)), (''ts'', jstr (ev_ts e)),
        (''kind'', jstr (ev_kind e)), (''event'', event_json (ev_event e))]"

definition canonical_event_bytes :: "audit_event_entry \<Rightarrow> string" where
  "canonical_event_bytes e = canonical_render (event_object e)"

section \<open>Records\<close>

datatype parsed_record =
    DecisionRecord audit_entry
  | EventRecord audit_event_entry

fun record_id :: "parsed_record \<Rightarrow> string" where
  "record_id (DecisionRecord e) = ae_id e"
| "record_id (EventRecord e) = ev_id e"

fun record_ts :: "parsed_record \<Rightarrow> string" where
  "record_ts (DecisionRecord e) = ae_ts e"
| "record_ts (EventRecord e) = ev_ts e"

fun record_policy_version :: "parsed_record \<Rightarrow> string option" where
  "record_policy_version (DecisionRecord e) = Some (ae_policy_version e)"
| "record_policy_version (EventRecord e) = None"

fun record_expedition :: "parsed_record \<Rightarrow> string option" where
  "record_expedition (DecisionRecord e) = ae_expedition e"
| "record_expedition (EventRecord e) = None"

fun record_payload :: "parsed_record \<Rightarrow> string" where
  "record_payload (DecisionRecord e) = canonical_bytes e"
| "record_payload (EventRecord e) = canonical_event_bytes e"

fun record_sig :: "parsed_record \<Rightarrow> string" where
  "record_sig (DecisionRecord e) = ae_sig e"
| "record_sig (EventRecord e) = ev_sig e"

text \<open>The serde functions.\<close>

record audit_codec =
  entry_line :: "audit_entry \<Rightarrow> (string, string) result"
  event_line :: "audit_event_entry \<Rightarrow> (string, string) result"
  parse_json :: "string \<Rightarrow> (string, json) result"
  entry_of_json :: "json \<Rightarrow> (string, audit_entry) result"
  event_of_json :: "json \<Rightarrow> (string, audit_event_entry) result"

definition parse_record :: "audit_codec \<Rightarrow> string \<Rightarrow> (string, parsed_record) result" where
  "parse_record C line =
     and_then (parse_json C line) (\<lambda>value.
       if (case json_get value ''kind'' of None \<Rightarrow> None | Some v \<Rightarrow> as_str v) = Some ''event''
       then and_then (event_of_json C value) (\<lambda>e. Ok (EventRecord e))
       else and_then (entry_of_json C value) (\<lambda>e. Ok (DecisionRecord e)))"

fun record_line :: "audit_codec \<Rightarrow> parsed_record \<Rightarrow> (string, string) result" where
  "record_line C (DecisionRecord e) = entry_line C e"
| "record_line C (EventRecord e) = event_line C e"

definition record_codec :: "audit_codec \<Rightarrow> parsed_record codec" where
  "record_codec C = \<lparr>encode_line = record_line C, decode_line = parse_record C\<rparr>"

section \<open>The writer\<close>

text \<open>What the writer draws for an entry: the formatted time, which may fail, and the UUID.\<close>

record audit_stamp =
  stamp_ts :: "(string, string) result"
  stamp_id :: string

fun audit_line_error :: "line_error \<Rightarrow> audit_error" where
  "audit_line_error (LineIo e) = AuditIo e"
| "audit_line_error (LineJson e) = AuditJson e"

definition ed25519_sig :: "extern \<Rightarrow> string \<Rightarrow> string \<Rightarrow> string" where
  "ed25519_sig E key bytes = ''ed25519:'' @ b64_encode E (ed_sign E key bytes)"

definition write_record ::
  "audit_codec \<Rightarrow> write_outcome \<Rightarrow> parsed_record \<Rightarrow> text_file \<Rightarrow> (audit_error, unit) result \<times> text_file" where
  "write_record C w r f =
     (case append_line (record_codec C) w r f of (res, f') \<Rightarrow> (map_err audit_line_error res, f'))"

definition audit_append ::
  "extern \<Rightarrow> audit_codec \<Rightarrow> string \<Rightarrow> audit_stamp \<Rightarrow> write_outcome \<Rightarrow> toolcall \<Rightarrow> eval_result \<Rightarrow>
     string option \<Rightarrow> text_file \<Rightarrow> (audit_error, audit_entry) result \<times> text_file" where
  "audit_append E C key st w call eval expedition f =
     (case stamp_ts st of
        Err e \<Rightarrow> (Err (AuditTime e), f)
      | Ok ts \<Rightarrow>
          (let unsigned =
             \<lparr>ae_version = AUDIT_SCHEMA_VERSION, ae_id = stamp_id st, ae_ts = ts,
              ae_tool = tool call, ae_input_hash = input_hash E call,
              ae_capabilities = eval_capabilities eval, ae_decision = eval_decision eval,
              ae_matched_rule = eval_matched eval, ae_policy_version = eval_policy_version eval,
              ae_expedition = expedition, ae_sig = []\<rparr>;
             entry = unsigned\<lparr>ae_sig := ed25519_sig E key (canonical_bytes unsigned)\<rparr>
           in case write_record C w (DecisionRecord entry) f of
                (res, f') \<Rightarrow> (and_then res (\<lambda>_. Ok entry), f')))"

definition append_event ::
  "extern \<Rightarrow> audit_codec \<Rightarrow> string \<Rightarrow> audit_stamp \<Rightarrow> write_outcome \<Rightarrow> audit_event \<Rightarrow> text_file \<Rightarrow>
     (audit_error, audit_event_entry) result \<times> text_file" where
  "append_event E C key st w event f =
     (case stamp_ts st of
        Err e \<Rightarrow> (Err (AuditTime e), f)
      | Ok ts \<Rightarrow>
          (let unsigned =
             \<lparr>ev_version = AUDIT_SCHEMA_VERSION, ev_id = stamp_id st, ev_ts = ts,
              ev_kind = ''event'', ev_event = event, ev_sig = []\<rparr>;
             entry = unsigned\<lparr>ev_sig := ed25519_sig E key (canonical_event_bytes unsigned)\<rparr>
           in case write_record C w (EventRecord entry) f of
                (res, f') \<Rightarrow> (and_then res (\<lambda>_. Ok entry), f')))"

text \<open>\<open>AuditWriter::open\<close> creates the file; \<open>fault\<close> is the error of creating or opening it.\<close>

definition audit_open :: "string option \<Rightarrow> text_file \<Rightarrow> (audit_error, unit) result \<times> text_file" where
  "audit_open fault f =
     (case fault of Some e \<Rightarrow> (Err (AuditIo e), f) | None \<Rightarrow> (Ok (), Some (file_text f)))"

section \<open>Verification\<close>

definition verify_record ::
  "extern \<Rightarrow> parsed_record \<Rightarrow> string \<Rightarrow> nat \<Rightarrow> (audit_error, unit) result" where
  "verify_record E r vk line =
     (case strip_prefix (record_sig r) ''ed25519:'' of
        None \<Rightarrow> Err (AuditBadSignature line)
      | Some sig_b64 \<Rightarrow>
          (case b64_decode E sig_b64 of
             None \<Rightarrow> Err (AuditBadSignature line)
           | Some sig \<Rightarrow>
               if length sig \<noteq> 64 then Err (AuditBadSignature line)
               else if ed_verify E vk (record_payload r) sig then Ok ()
               else Err (AuditBadSignature line)))"

text \<open>The loop of \<open>verify_log\<close>: \<open>i\<close> is the index of the line, \<open>count\<close> the entries so far.\<close>

fun verify_lines ::
  "extern \<Rightarrow> audit_codec \<Rightarrow> string \<Rightarrow> nat \<Rightarrow> nat \<Rightarrow> (string, string) result list \<Rightarrow>
     (audit_error, nat) result" where
  "verify_lines E C vk i count [] = Ok count"
| "verify_lines E C vk i count (line # rest) =
     and_then (map_err AuditIo line) (\<lambda>l.
       if is_blank l then verify_lines E C vk (i + 1) count rest
       else and_then (map_err AuditJson (parse_record C l)) (\<lambda>r.
         and_then (verify_record E r vk (i + 1)) (\<lambda>_.
           verify_lines E C vk (i + 1) (count + 1) rest)))"

text \<open>\<open>missing\<close> is the system's message for a file that does not exist.\<close>

definition verify_log ::
  "extern \<Rightarrow> audit_codec \<Rightarrow> string \<Rightarrow> string \<Rightarrow> read_fault \<Rightarrow> text_file \<Rightarrow> (audit_error, nat) result" where
  "verify_log E C missing vk fault f =
     (case f of
        None \<Rightarrow> Err (AuditIo missing)
      | Some t \<Rightarrow> verify_lines E C vk 0 0 (read_lines fault t))"

section \<open>The diagnostic report\<close>

datatype anomaly =
    MalformedEntry nat string
  | BadSignatureAt nat string
  | TimestampOutOfOrder nat string string
  | PolicyVersionChanged nat string string
  | HardStopBypassAttempt nat string string

record explain_state =
  ex_total :: nat
  ex_verified :: nat
  ex_anomalies :: "anomaly list"
  ex_last_ts :: "string option"
  ex_last_policy_version :: "string option"
  ex_policy_versions :: "string list"
  ex_expeditions :: "string list"
  ex_bypass_activations :: nat
  ex_hard_stop_bypass_attempts :: nat

record verify_report =
  vr_entries_total :: nat
  vr_entries_verified :: nat
  vr_key_fingerprint :: string
  vr_bypass_activations :: nat
  vr_hard_stop_bypass_attempts :: nat
  vr_anomalies :: "anomaly list"
  vr_policy_versions_seen :: "string list"
  vr_expeditions_seen :: "string list"

definition key_fingerprint :: "extern \<Rightarrow> string \<Rightarrow> string" where
  "key_fingerprint E vk = take 16 (sha256_hex E vk)"

definition explain_start :: explain_state where
  "explain_start =
     \<lparr>ex_total = 0, ex_verified = 0, ex_anomalies = [], ex_last_ts = None,
      ex_last_policy_version = None, ex_policy_versions = [], ex_expeditions = [],
      ex_bypass_activations = 0, ex_hard_stop_bypass_attempts = 0\<rparr>"

definition add_anomaly :: "anomaly \<Rightarrow> explain_state \<Rightarrow> explain_state" where
  "add_anomaly a s = s\<lparr>ex_anomalies := ex_anomalies s @ [a]\<rparr>"

definition explain_signature ::
  "extern \<Rightarrow> string \<Rightarrow> nat \<Rightarrow> parsed_record \<Rightarrow> explain_state \<Rightarrow> explain_state" where
  "explain_signature E vk line r s =
     (if is_ok (verify_record E r vk line) then s\<lparr>ex_verified := ex_verified s + 1\<rparr>
      else add_anomaly (BadSignatureAt line (record_id r)) s)"

definition explain_timestamp :: "nat \<Rightarrow> parsed_record \<Rightarrow> explain_state \<Rightarrow> explain_state" where
  "explain_timestamp line r s =
     (let s' = (case ex_last_ts s of
                  Some prev \<Rightarrow>
                    if record_ts r < prev
                    then add_anomaly (TimestampOutOfOrder line prev (record_ts r)) s else s
                | None \<Rightarrow> s)
      in s'\<lparr>ex_last_ts := Some (record_ts r)\<rparr>)"

definition explain_policy :: "nat \<Rightarrow> parsed_record \<Rightarrow> explain_state \<Rightarrow> explain_state" where
  "explain_policy line r s =
     (case record_policy_version r of
        None \<Rightarrow> s
      | Some version \<Rightarrow>
          (let s' = (case ex_last_policy_version s of
                       Some prev \<Rightarrow>
                         if prev \<noteq> version
                         then add_anomaly (PolicyVersionChanged line prev version) s else s
                     | None \<Rightarrow> s)
           in s'\<lparr>ex_last_policy_version := Some version,
                ex_policy_versions := push_new version (ex_policy_versions s')\<rparr>))"

definition explain_expedition :: "parsed_record \<Rightarrow> explain_state \<Rightarrow> explain_state" where
  "explain_expedition r s =
     (case record_expedition r of
        None \<Rightarrow> s
      | Some e \<Rightarrow> s\<lparr>ex_expeditions := push_new e (ex_expeditions s)\<rparr>)"

definition explain_bypass :: "nat \<Rightarrow> parsed_record \<Rightarrow> explain_state \<Rightarrow> explain_state" where
  "explain_bypass line r s =
     (case r of
        EventRecord entry \<Rightarrow>
          (case ev_event entry of
             BypassActivated tname hash caps odecision oreason hard_stop bdecision \<Rightarrow>
               (let s1 = s\<lparr>ex_bypass_activations := ex_bypass_activations s + 1\<rparr>
                in if hard_stop
                   then
                     (let s2 = s1\<lparr>ex_hard_stop_bypass_attempts := ex_hard_stop_bypass_attempts s1 + 1\<rparr>
                      in if bdecision = ''allow''
                         then add_anomaly (HardStopBypassAttempt line tname oreason) s2 else s2)
                   else s1)
           | _ \<Rightarrow> s)
      | _ \<Rightarrow> s)"

definition explain_record ::
  "extern \<Rightarrow> string \<Rightarrow> nat \<Rightarrow> parsed_record \<Rightarrow> explain_state \<Rightarrow> explain_state" where
  "explain_record E vk line r s =
     explain_bypass line r (explain_expedition r (explain_policy line r
       (explain_timestamp line r (explain_signature E vk line r s))))"

definition explain_line ::
  "extern \<Rightarrow> audit_codec \<Rightarrow> string \<Rightarrow> nat \<Rightarrow> string \<Rightarrow> explain_state \<Rightarrow> explain_state" where
  "explain_line E C vk line l s =
     (if is_blank l then s
      else
        (let s1 = s\<lparr>ex_total := ex_total s + 1\<rparr>
         in case parse_record C l of
              Err e \<Rightarrow> add_anomaly (MalformedEntry line e) s1
            | Ok r \<Rightarrow> explain_record E vk line r s1))"

fun explain_lines ::
  "extern \<Rightarrow> audit_codec \<Rightarrow> string \<Rightarrow> nat \<Rightarrow> (string, string) result list \<Rightarrow> explain_state \<Rightarrow>
     (audit_error, explain_state) result" where
  "explain_lines E C vk i [] s = Ok s"
| "explain_lines E C vk i (line # rest) s =
     and_then (map_err AuditIo line) (\<lambda>l.
       explain_lines E C vk (i + 1) rest (explain_line E C vk (i + 1) l s))"

definition explain_report :: "extern \<Rightarrow> string \<Rightarrow> explain_state \<Rightarrow> verify_report" where
  "explain_report E vk s =
     \<lparr>vr_entries_total = ex_total s, vr_entries_verified = ex_verified s,
      vr_key_fingerprint = key_fingerprint E vk,
      vr_bypass_activations = ex_bypass_activations s,
      vr_hard_stop_bypass_attempts = ex_hard_stop_bypass_attempts s,
      vr_anomalies = ex_anomalies s, vr_policy_versions_seen = ex_policy_versions s,
      vr_expeditions_seen = ex_expeditions s\<rparr>"

definition explain_log ::
  "extern \<Rightarrow> audit_codec \<Rightarrow> string \<Rightarrow> string \<Rightarrow> read_fault \<Rightarrow> text_file \<Rightarrow>
     (audit_error, verify_report) result" where
  "explain_log E C missing vk fault f =
     (case f of
        None \<Rightarrow> Err (AuditIo missing)
      | Some t \<Rightarrow>
          and_then (explain_lines E C vk 0 (read_lines fault t) explain_start)
            (\<lambda>s. Ok (explain_report E vk s)))"

end
