(* ===== verification/Audit_Payload.thy ===== *)
theory Audit_Payload
  imports Audit_Log Json_Canonical
begin

text \<open>
  What an audit signature covers: the canonical bytes of an entry determine every field of it but
  the signature, and no decision entry has the bytes of an event entry. The renderer of the audit
  crate escapes two control characters differently from the encoder of \<open>toolcall.rs\<close>;
  \<open>respell\<close> rewrites the one spelling into the other, so what is known of that encoder carries
  over. Readers of the fields of a value show that the value of an entry determines it.
\<close>

section \<open>The two encoders\<close>

fun respell :: "string \<Rightarrow> string" where
  "respell [] = []"
| "respell [c] = [c]"
| "respell (c # d # s) =
     (if c = CHR 0x5C
      then (if d = CHR ''b'' then escape_char (CHR 0x08)
            else if d = CHR ''f'' then escape_char (CHR 0x0C) else [c, d]) @ respell s
      else c # respell (d # s))"

lemma respell_plain: "CHR 0x5C \<notin> set p \<Longrightarrow> respell (p @ s) = p @ respell s"
proof (induction p)
  case (Cons c p)
  then show ?case by (cases "p @ s") auto
qed simp

lemma respell_Cons [simp]: "c \<noteq> CHR 0x5C \<Longrightarrow> respell (c # s) = c # respell s"
  using respell_plain [of "[c]" s] by simp

lemma respell_pair:
  "d \<noteq> CHR ''b'' \<Longrightarrow> d \<noteq> CHR ''f'' \<Longrightarrow> respell (CHR 0x5C # d # s) = CHR 0x5C # d # respell s"
  by simp

lemma hex_digit_plain: "n < 16 \<Longrightarrow> hex_digit n \<noteq> CHR 0x5C"
proof -
  assume "n < 16"
  then have "(of_char (hex_digit n) :: nat) \<noteq> 92"
    by (auto simp: hex_digit_def)
  then show ?thesis by auto
qed

lemma respell_escape: "respell (serde_escape_char c @ s) = escape_char c @ respell s"
proof (cases "c \<in> {CHR 0x08, CHR 0x0C}")
  case True
  then show ?thesis by (auto simp: serde_escape_char_def)
next
  case False
  then have eq: "serde_escape_char c = escape_char c" by (auto simp: serde_escape_char_def)
  from escape_char_split [of c] show ?thesis
  proof (elim disjE exE conjE)
    fix x assume "escape_char c = [CHR 0x5C, x]"
      "x \<in> {CHR 0x22, CHR 0x5C, CHR ''n'', CHR ''r'', CHR ''t''}"
    then show ?thesis by (auto simp: eq)
  next
    fix h l assume e: "escape_char c = [CHR 0x5C, CHR ''u'', CHR ''0'', CHR ''0'', h, l]"
    then have "h = hex_digit (of_char c div 16)" "l = hex_digit (of_char c mod 16)" "(of_char c :: nat) < 32"
      by (auto simp: escape_char_def split: if_splits)
    then have "h \<noteq> CHR 0x5C" "l \<noteq> CHR 0x5C" by (auto intro!: hex_digit_plain)
    then show ?thesis
      using respell_plain [of "[CHR ''0'', CHR ''0'', h, l]" s] by (simp add: eq e)
  next
    assume "escape_char c = [c]" "c \<noteq> CHR 0x22" "c \<noteq> CHR 0x5C"
    then show ?thesis using respell_plain [of "[c]" s] by (simp add: eq)
  qed
qed

lemma respell_string: "respell (serde_string x @ s) = write_string x @ respell s"
proof -
  have "respell (concat (map serde_escape_char x) @ s') = concat (map escape_char x) @ respell s'" for s'
    by (induction x) (simp_all add: respell_escape)
  then show ?thesis
    using respell_plain [of "[CHR 0x22]"] by (simp add: serde_string_def write_string_def)
qed

lemma respell_join:
  assumes "\<And>x s. x \<in> set xs \<Longrightarrow> respell (f x @ s) = g x @ respell s"
  shows "respell (join '','' (map f xs) @ s) = join '','' (map g xs) @ respell s"
  using assms
proof (induction xs arbitrary: s)
  case (Cons x xs)
  have "respell ('','' @ s') = '','' @ respell s'" for s'
    by (rule respell_plain) simp
  with Cons show ?case by (auto simp: join_Cons)
qed simp

lemma number_plain: "number_wf n \<Longrightarrow> CHR 0x5C \<notin> set (number_to_string n)"
  using number_chars [of n] by (auto simp: number_char_def number_start_def char_class_defs)

lemma respell_render:
  "json_wf v \<Longrightarrow> respell (canonical_render v @ s) = write_value v @ respell s"
proof (induction v arbitrary: s)
  case (JNumber n)
  then show ?case by (simp add: respell_plain number_plain)
next
  case (JString x)
  then show ?case by (simp add: respell_string)
next
  case (JArray a)
  have "respell (join '','' (map canonical_render a) @ s') =
      join '','' (map write_value a) @ respell s'" for s'
    by (rule respell_join) (use JArray in auto)
  then show ?case
    by simp
next
  case (JObject ms)
  let ?w = "\<lambda>str f (k, v). str k @ '':'' @ f v"
  have piece: "respell (?w serde_string canonical_render m @ s') =
      ?w write_string write_value m @ respell s'" if "m \<in> set (sort_key fst ms)" for m s'
  proof (cases m)
    case (Pair k v)
    with that have "(k, v) \<in> set ms" by simp
    moreover from this have "json_wf v" using JObject.prems by auto
    ultimately have "respell (canonical_render v @ s') = write_value v @ respell s'"
      using JObject.IH [of "(k, v)" v] by simp
    then show ?thesis by (simp add: Pair respell_string)
  qed
  have eq: "map (\<lambda>(k, r). str k @ '':'' @ r) (sort_key fst (map (\<lambda>(k, v). (k, f v)) ms)) =
      map (?w str f) (sort_key fst ms)" for str and f :: "json \<Rightarrow> string"
    by (simp add: sort_key_map_snd comp_def case_prod_beta)
  have "respell (join '','' (map (?w serde_string canonical_render) (sort_key fst ms)) @ s') =
      join '','' (map (?w write_string write_value) (sort_key fst ms)) @ respell s'" for s'
    by (rule respell_join) (rule piece)
  then show ?case
    using respell_plain [of "''{''"] respell_plain [of "''}''"]
    by (simp only: canonical_render.simps write_value.simps eq) simp
qed (simp_all add: respell_plain)

lemma canonical_render_identifies:
  assumes "json_wf v" and "json_wf w" and "canonical_render v = canonical_render w"
  shows "canon v = canon w"
proof -
  have "write_value v = write_value w"
    using respell_render [OF assms(1), of "[]"] respell_render [OF assms(2), of "[]"] assms(3)
    by simp
  with write_value_eq_iff [OF assms(1,2)] show ?thesis by simp
qed

section \<open>Reading fields\<close>

lemma json_get_canon:
  "distinct (map fst ms) \<Longrightarrow>
     json_get (canon (JObject ms)) k = map_option canon (map_of ms k)"
proof -
  assume d: "distinct (map fst ms)"
  have d': "distinct (map fst (sort_key fst ms))"
    using d by (metis distinct_map distinct_sort inj_on_def set_sort sort_key_const)
  have "map_of (sort_key fst ms) = map_of ms"
    using d d' by (intro map_of_eqI) (auto simp: map_of_eq_Some_iff)
  then show ?thesis by (simp add: sort_key_map_snd map_of_map)
qed

text \<open>The readers give a default where a field is missing; on the value of an entry none is.\<close>

definition read_str :: "json \<Rightarrow> string" where
  "read_str v = (case v of JString s \<Rightarrow> s | _ \<Rightarrow> [])"

definition read_int :: "json \<Rightarrow> int" where
  "read_int v = (case v of JNumber (JInt i) \<Rightarrow> i | _ \<Rightarrow> 0)"

definition read_u32 :: "json \<Rightarrow> 32 word" where
  "read_u32 v = word_of_int (read_int v)"

definition read_nat :: "json \<Rightarrow> nat" where
  "read_nat v = nat (read_int v)"

definition read_bool :: "json \<Rightarrow> bool" where
  "read_bool v = (case v of JBool b \<Rightarrow> b | _ \<Rightarrow> False)"

definition read_opt :: "(json \<Rightarrow> 'a) \<Rightarrow> json \<Rightarrow> 'a option" where
  "read_opt f v = (case v of JNull \<Rightarrow> None | _ \<Rightarrow> Some (f v))"

definition read_strs :: "json \<Rightarrow> string list" where
  "read_strs v = (case v of JArray a \<Rightarrow> map read_str a | _ \<Rightarrow> [])"

definition member :: "json \<Rightarrow> string \<Rightarrow> json" where
  "member v k = (case json_get v k of Some w \<Rightarrow> w | None \<Rightarrow> JNull)"

lemma member_canon:
  "distinct (map fst ms) \<Longrightarrow>
     member (canon (JObject ms)) k = (case map_of ms k of Some w \<Rightarrow> canon w | None \<Rightarrow> JNull)"
  by (simp add: member_def json_get_canon del: canon.simps split: option.split)

lemma canon_scalar [simp]:
  "canon (jnat n) = jnat n" "canon (ju32 w) = ju32 w"
  "canon (capabilities_json caps) = capabilities_json caps"
  by (simp_all add: jnat_def ju32_def capabilities_json_def)

lemma canon_opt [simp]: "canon (jopt f v) = jopt (\<lambda>x. canon (f x)) v"
  by (simp add: jopt_def split: option.split)

lemma read_scalar [simp]:
  "read_str (JString s) = s" "read_bool (JBool b) = b" "read_int (JNumber (JInt i)) = i"
  "read_u32 (ju32 w) = w" "read_nat (jnat n) = n"
  by (simp_all add: read_str_def read_bool_def read_int_def read_u32_def read_nat_def ju32_def jnat_def)

lemma read_strs_capabilities [simp]: "read_strs (capabilities_json caps) = caps"
  by (simp add: read_strs_def capabilities_json_def comp_def)

lemma read_opt_not_null [simp]: "v \<noteq> JNull \<Longrightarrow> read_opt g v = Some (g v)"
  by (cases v) (simp_all add: read_opt_def)

lemma read_opt_null [simp]: "read_opt g JNull = None"
  by (simp add: read_opt_def)

lemma read_opt_jopt [simp]:
  "(\<And>x. g (f x) = x \<and> f x \<noteq> JNull) \<Longrightarrow> read_opt g (jopt f v) = v"
  by (cases v) (simp_all add: jopt_def)

lemma read_opt_str [simp]: "read_opt read_str (jopt JString v) = v"
  by (cases v) (simp_all add: jopt_def)

lemma read_opt_skip:
  "(\<And>x. g (canon (f x)) = x \<and> canon (f x) \<noteq> JNull) \<Longrightarrow>
     read_opt g (case map_of (jskip k f v) k of Some w \<Rightarrow> canon w | None \<Rightarrow> JNull) = v"
  by (cases v) (simp_all add: jskip_def)

section \<open>Decisions and events\<close>

definition read_decision :: "json \<Rightarrow> decision" where
  "read_decision v =
     (let kind = read_str (member v ''kind'')
      in if kind = ''allow'' then Allow
         else if kind = ''gommage''
           then Gommage (read_str (member v ''reason'')) (read_bool (member v ''hard_stop''))
         else AskPicto (read_str (member v ''required_scope'')) (read_str (member v ''reason''))
           (read_bool (member v ''bind_input'')))"

lemma read_decision_json [simp]: "read_decision (canon (decision_json d)) = d"
proof (cases d)
  case (AskPicto scope reason bind_input)
  then show ?thesis
    by (cases bind_input)
      (simp_all add: decision_json_def read_decision_def member_canon read_bool_def del: canon.simps(2))
qed (simp_all add: decision_json_def read_decision_def member_canon del: canon.simps(2))

definition read_matched_rule :: "json \<Rightarrow> matched_rule" where
  "read_matched_rule v =
     \<lparr>matched_name = read_str (member v ''name''), matched_file = read_str (member v ''file''),
      matched_index = read_nat (member v ''index'')\<rparr>"

lemma read_matched_rule_json [simp]:
  "read_matched_rule (canon (matched_rule_json m)) = m \<and> canon (matched_rule_json m) \<noteq> JNull"
proof
  show "read_matched_rule (canon (matched_rule_json m)) = m"
    unfolding matched_rule_json_def
    by (simp add: read_matched_rule_def member_canon del: canon.simps(2))
  show "canon (matched_rule_json m) \<noteq> JNull" by (simp add: matched_rule_json_def)
qed

definition read_webhook_signature :: "json \<Rightarrow> webhook_signature_audit" where
  "read_webhook_signature v =
     \<lparr>wsa_algorithm = read_str (member v ''algorithm''),
      wsa_key_id = read_opt read_str (member v ''key_id''),
      wsa_timestamp = read_str (member v ''timestamp''),
      wsa_body_sha256 = read_str (member v ''body_sha256''),
      wsa_signature_prefix = read_str (member v ''signature_prefix'')\<rparr>"

lemma read_webhook_signature_json [simp]:
  "read_webhook_signature (canon (webhook_signature_json s)) = s \<and>
   canon (webhook_signature_json s) \<noteq> JNull"
proof
  show "read_webhook_signature (canon (webhook_signature_json s)) = s"
    unfolding webhook_signature_json_def
    by (simp add: read_webhook_signature_def member_canon del: canon.simps(2))
  show "canon (webhook_signature_json s) \<noteq> JNull" by (simp add: webhook_signature_json_def)
qed

definition read_event :: "json \<Rightarrow> audit_event" where
  "read_event v =
     (let m = member v; kind = read_str (m ''type'')
      in
        if kind = ''picto_created'' then
          PictoCreated (read_str (m ''id'')) (read_str (m ''scope''))
             (read_u32 (m ''max_uses'')) (read_str (m ''ttl_expires_at''))
             (read_bool (m ''require_confirmation''))
        else if kind = ''picto_confirmed'' then
          PictoConfirmed (read_str (m ''id''))
        else if kind = ''picto_revoked'' then
          PictoRevoked (read_str (m ''id''))
        else if kind = ''picto_consumed'' then
          PictoConsumed (read_str (m ''id'')) (read_str (m ''scope'')) (read_u32 (m ''uses''))
             (read_u32 (m ''max_uses'')) (read_str (m ''status''))
        else if kind = ''picto_rejected'' then
          PictoRejected (read_str (m ''id'')) (read_str (m ''scope''))
             (read_str (m ''reason''))
        else if kind = ''approval_requested'' then
          ApprovalRequested (read_str (m ''id'')) (read_str (m ''tool''))
             (read_str (m ''input_hash'')) (read_str (m ''required_scope''))
             (read_str (m ''reason'')) (read_str (m ''policy_version''))
        else if kind = ''approval_resolved'' then
          ApprovalResolved (read_str (m ''id'')) (read_str (m ''status''))
             (read_str (m ''reason'')) (read_opt read_str (m ''picto_id''))
        else if kind = ''approval_webhook_delivered'' then
          ApprovalWebhookDelivered (read_str (m ''id'')) (read_str (m ''url''))
             (read_opt read_int (m ''status'')) (read_u32 (m ''attempts''))
             (read_str (m ''source'')) (read_opt read_webhook_signature (m ''signature''))
        else if kind = ''approval_webhook_failed'' then
          ApprovalWebhookFailed (read_str (m ''id'')) (read_str (m ''url''))
             (read_str (m ''error'')) (read_u32 (m ''attempts'')) (read_str (m ''source''))
             (read_opt read_webhook_signature (m ''signature''))
        else if kind = ''approval_webhook_dead_lettered'' then
          ApprovalWebhookDeadLettered (read_str (m ''id'')) (read_str (m ''url''))
             (read_str (m ''dead_letter_id'')) (read_str (m ''provider''))
             (read_u32 (m ''attempts'')) (read_str (m ''source'')) (read_str (m ''error''))
             (read_opt read_webhook_signature (m ''signature''))
        else if kind = ''pictos_expired'' then
          PictosExpired (read_nat (m ''count''))
        else if kind = ''policy_reloaded'' then
          PolicyReloaded (read_str (m ''source'')) (read_nat (m ''rules''))
             (read_nat (m ''mapper_rules'')) (read_str (m ''policy_version''))
             (read_opt read_str (m ''config_fingerprint''))
             (read_opt read_str (m ''picto_id''))
        else if kind = ''policy_reload_refused'' then
          PolicyReloadRefused (read_str (m ''source'')) (read_str (m ''required_scope''))
             (read_str (m ''loaded_fingerprint'')) (read_str (m ''disk_fingerprint''))
             (read_str (m ''reason''))
        else if kind = ''config_drift_at_startup'' then
          ConfigDriftAtStartup (read_str (m ''recorded_fingerprint''))
             (read_str (m ''loaded_fingerprint''))
        else
          BypassActivated (read_str (m ''tool'')) (read_str (m ''input_hash''))
             (read_strs (m ''capabilities'')) (read_str (m ''original_decision''))
             (read_str (m ''original_reason'')) (read_bool (m ''hard_stop''))
             (read_str (m ''bypass_decision'')))"

lemma read_event_members:
  assumes "\<And>k. m k = (case map_of (event_members e) k of Some w \<Rightarrow> canon w | None \<Rightarrow> JNull)"
    and "member v = m"
  shows "read_event v = e"
proof (cases e)
  case (ApprovalWebhookDelivered i url status attempts source sig)
  then show ?thesis
    by (cases sig) (simp_all add: read_event_def assms jskip_def)
next
  case (ApprovalWebhookFailed i url err attempts source sig)
  then show ?thesis
    by (cases sig) (simp_all add: read_event_def assms jskip_def)
next
  case (ApprovalWebhookDeadLettered i url dlq provider attempts source err sig)
  then show ?thesis
    by (cases sig) (simp_all add: read_event_def assms jskip_def)
next
  case (PolicyReloaded source rs ms version fingerprint picto)
  then show ?thesis
    by (cases fingerprint; cases picto) (simp_all add: read_event_def assms jskip_def)
qed (simp_all add: read_event_def assms Let_def)

lemma event_members_distinct: "distinct (map fst (event_members e))"
  by (cases e) (simp_all add: jskip_def split: option.split)

lemma read_event_json [simp]: "read_event (canon (event_json e)) = e"
  by (rule read_event_members [OF refl])
    (simp add: fun_eq_iff event_json_def member_canon event_members_distinct del: canon.simps)

section \<open>Entries\<close>

definition read_entry :: "json \<Rightarrow> audit_entry" where
  "read_entry v =
     (let m = member v
      in \<lparr>ae_version = read_u32 (m ''v''), ae_id = read_str (m ''id''), ae_ts = read_str (m ''ts''),
          ae_tool = read_str (m ''tool''), ae_input_hash = read_str (m ''input_hash''),
          ae_capabilities = read_strs (m ''capabilities''),
          ae_decision = read_decision (m ''decision''),
          ae_matched_rule = read_opt read_matched_rule (m ''matched_rule''),
          ae_policy_version = read_str (m ''policy_version''),
          ae_expedition = read_opt read_str (m ''expedition''), ae_sig = []\<rparr>)"

lemma read_entry_object: "read_entry (canon (entry_object e)) = e\<lparr>ae_sig := []\<rparr>"
  unfolding entry_object_def by (simp add: read_entry_def member_canon del: canon.simps(2))

definition read_event_entry :: "json \<Rightarrow> audit_event_entry" where
  "read_event_entry v =
     (let m = member v
      in \<lparr>ev_version = read_u32 (m ''v''), ev_id = read_str (m ''id''), ev_ts = read_str (m ''ts''),
          ev_kind = read_str (m ''kind''), ev_event = read_event (m ''event''), ev_sig = []\<rparr>)"

lemma read_event_entry_object: "read_event_entry (canon (event_object e)) = e\<lparr>ev_sig := []\<rparr>"
  unfolding event_object_def by (simp add: read_event_entry_def member_canon del: canon.simps(2))

lemma entry_is_no_event: "canon (entry_object e) \<noteq> canon (event_object f)"
proof
  assume "canon (entry_object e) = canon (event_object f)"
  then have "member (canon (entry_object e)) ''kind'' = member (canon (event_object f)) ''kind''"
    by simp
  then show False
    unfolding entry_object_def event_object_def by (simp add: member_canon del: canon.simps(2))
qed

lemma json_wf_parts [simp]:
  "json_wf (jnat n)" "json_wf (ju32 w)" "json_wf (capabilities_json caps)"
  "json_wf (matched_rule_json m)" "json_wf (decision_json d)"
  "(\<And>x. json_wf (f x)) \<Longrightarrow> json_wf (jopt f v)"
  by (auto simp: jnat_def ju32_def capabilities_json_def matched_rule_json_def decision_json_def
      jopt_def split: decision.split option.split)

lemma json_wf_webhook_signature [simp]: "json_wf (webhook_signature_json s)"
  by (simp add: webhook_signature_json_def)

lemma json_wf_event: "m \<in> set (event_members e) \<Longrightarrow> json_wf (snd m)"
  by (cases e) (auto simp: jskip_def split: option.splits)

lemma json_wf_entry: "json_wf (entry_object e)"
  by (simp add: entry_object_def)

lemma json_wf_event_object: "json_wf (event_object e)"
  by (simp add: event_object_def event_json_def event_members_distinct json_wf_event)

text \<open>What is left of a record when its signature is cleared.\<close>

fun unsigned_record :: "parsed_record \<Rightarrow> parsed_record" where
  "unsigned_record (DecisionRecord e) = DecisionRecord (e\<lparr>ae_sig := []\<rparr>)"
| "unsigned_record (EventRecord e) = EventRecord (e\<lparr>ev_sig := []\<rparr>)"

lemma payload_unsigned: "record_payload (unsigned_record r) = record_payload r"
  by (cases r) (simp_all add: canonical_bytes_def entry_object_def canonical_event_bytes_def event_object_def)

lemma no_cross: "canonical_bytes e \<noteq> canonical_event_bytes f"
  unfolding canonical_bytes_def canonical_event_bytes_def
  using canonical_render_identifies [OF json_wf_entry json_wf_event_object] entry_is_no_event by blast

lemma entry_bytes_inject:
  assumes "canonical_bytes e = canonical_bytes f"
  shows "e\<lparr>ae_sig := []\<rparr> = f\<lparr>ae_sig := []\<rparr>"
proof -
  have "canon (entry_object e) = canon (entry_object f)"
    using assms unfolding canonical_bytes_def
    by (rule canonical_render_identifies [OF json_wf_entry json_wf_entry])
  then have "read_entry (canon (entry_object e)) = read_entry (canon (entry_object f))"
    by (rule arg_cong)
  then show ?thesis unfolding read_entry_object .
qed

lemma event_bytes_inject:
  assumes "canonical_event_bytes e = canonical_event_bytes f"
  shows "e\<lparr>ev_sig := []\<rparr> = f\<lparr>ev_sig := []\<rparr>"
proof -
  have "canon (event_object e) = canon (event_object f)"
    using assms unfolding canonical_event_bytes_def
    by (rule canonical_render_identifies [OF json_wf_event_object json_wf_event_object])
  then have "read_event_entry (canon (event_object e)) = read_event_entry (canon (event_object f))"
    by (rule arg_cong)
  then show ?thesis unfolding read_event_entry_object .
qed

lemma payload_inject:
  assumes "record_payload r = record_payload q"
  shows "unsigned_record r = unsigned_record q"
proof (cases r)
  case (DecisionRecord e)
  with assms no_cross obtain f where q: "q = DecisionRecord f" by (cases q) auto
  from assms have "canonical_bytes e = canonical_bytes f"
    unfolding q DecisionRecord record_payload.simps .
  from entry_bytes_inject [OF this] show ?thesis
    unfolding q DecisionRecord unsigned_record.simps by (rule arg_cong)
next
  case (EventRecord e)
  with assms no_cross [symmetric] obtain f where q: "q = EventRecord f" by (cases q) auto
  from assms have "canonical_event_bytes e = canonical_event_bytes f"
    unfolding q EventRecord record_payload.simps .
  from event_bytes_inject [OF this] show ?thesis
    unfolding q EventRecord unsigned_record.simps by (rule arg_cong)
qed

section \<open>Property\<close>

text \<open>C34. A signature covers the whole entry: two records have the same canonical bytes exactly
  when they agree in every field but the signature, so no change of a field, and no passing of a
  decision for an event or the reverse, leaves the signed bytes as they were.\<close>

theorem signature_covers_entry:
  "record_payload r = record_payload q \<longleftrightarrow> unsigned_record r = unsigned_record q"
  using payload_inject payload_unsigned by metis

end
