(* ===== verification/Audit_Laws.thy ===== *)
theory Audit_Laws
  imports Audit_Log
begin

text \<open>
  What the audit log promises: entries that the writer appends behind a complete line verify, the
  report agrees with the verifier, a log only grows; and what it does not: an entry written behind
  a torn line is lost.
\<close>

section \<open>The codec\<close>

text \<open>What the serde functions do: an entry prints as one line whose value has no \<open>kind\<close> member and
  reads back as the entry; an event entry prints as one line whose value has its kind and reads
  back as the event entry.\<close>

definition audit_codec_ok :: "audit_codec \<Rightarrow> bool" where
  "audit_codec_ok C \<longleftrightarrow>
     (\<forall>e l. entry_line C e = Ok l \<longrightarrow> line_ok l \<and>
        (\<exists>v. parse_json C l = Ok v \<and> json_get v ''kind'' = None \<and> entry_of_json C v = Ok e)) \<and>
     (\<forall>e l. event_line C e = Ok l \<longrightarrow> line_ok l \<and>
        (\<exists>v. parse_json C l = Ok v \<and> json_get v ''kind'' = Some (JString (ev_kind e)) \<and>
           event_of_json C v = Ok e))"

fun kind_ok :: "parsed_record \<Rightarrow> bool" where
  "kind_ok (DecisionRecord e) = True"
| "kind_ok (EventRecord e) \<longleftrightarrow> ev_kind e = ''event''"

lemma record_line_ok:
  assumes "audit_codec_ok C" and "record_line C r = Ok l" and "kind_ok r"
  shows "line_ok l" and "parse_record C l = Ok r"
proof -
  have "line_ok l \<and> parse_record C l = Ok r"
    using assms by (cases r) (fastforce simp: audit_codec_ok_def parse_record_def)+
  then show "line_ok l" and "parse_record C l = Ok r" by auto
qed

section \<open>Signing and verifying\<close>

lemma is_ok_verify_record:
  "is_ok (verify_record E r vk i) \<longleftrightarrow>
     (case strip_prefix (record_sig r) ''ed25519:'' of
        None \<Rightarrow> False
      | Some b \<Rightarrow>
          (case b64_decode E b of
             None \<Rightarrow> False
           | Some sig \<Rightarrow> length sig = 64 \<and> ed_verify E vk (record_payload r) sig))"
  by (simp add: verify_record_def split: option.split)

lemma verify_record_line: "is_ok (verify_record E r vk i) \<longleftrightarrow> is_ok (verify_record E r vk j)"
  by (simp add: is_ok_verify_record)

lemma verify_record_Err:
  "\<not> is_ok (verify_record E r vk i) \<Longrightarrow> verify_record E r vk i = Err (AuditBadSignature i)"
  by (auto simp: verify_record_def split: option.splits if_splits)

lemma signed_record_verifies:
  assumes "crypto_ok E" and "record_sig r = ed25519_sig E key (record_payload r)"
  shows "verify_record E r (ed_public E key) i = Ok ()"
proof -
  have "strip_prefix (record_sig r) ''ed25519:'' = Some (b64_encode E (ed_sign E key (record_payload r)))"
    by (simp only: assms(2) ed25519_sig_def strip_prefix_append)
  then show ?thesis
    by (simp add: verify_record_def crypto_okD [OF assms(1)])
qed

section \<open>The readers, line by line\<close>

definition line_verifies :: "extern \<Rightarrow> audit_codec \<Rightarrow> string \<Rightarrow> string \<Rightarrow> bool" where
  "line_verifies E C vk l \<longleftrightarrow>
     (case parse_record C l of Err e \<Rightarrow> False | Ok r \<Rightarrow> is_ok (verify_record E r vk 0))"

text \<open>\<open>entries\<close> are the lines that the readers look at.\<close>

definition entries :: "string list \<Rightarrow> string list" where
  "entries ls = filter (\<lambda>l. \<not> is_blank l) ls"

lemma verify_lines_Ok_iff:
  "verify_lines E C vk i count (map Ok ls) = Ok n \<longleftrightarrow>
     list_all (line_verifies E C vk) (entries ls) \<and> n = count + length (entries ls)"
proof (induction ls arbitrary: i count)
  case Nil
  then show ?case by (auto simp: entries_def)
next
  case (Cons l ls)
  show ?case
  proof (cases "is_blank l")
    case True
    with Cons show ?thesis by (simp add: entries_def)
  next
    case False
    show ?thesis
    proof (cases "parse_record C l")
      case (Inl e)
      with False show ?thesis by (simp add: entries_def line_verifies_def)
    next
      case (Inr r)
      show ?thesis
      proof (cases "is_ok (verify_record E r vk (i + 1))")
        case True
        then have "verify_record E r vk (i + 1) = Ok ()" by (simp add: is_ok_iff)
        moreover from True have "line_verifies E C vk l"
          using Inr verify_record_line [of E r vk "i + 1" 0] by (simp add: line_verifies_def)
        ultimately show ?thesis using False Inr Cons.IH by (auto simp: entries_def)
      next
        case bad: False
        then have "\<not> line_verifies E C vk l"
          using Inr verify_record_line [of E r vk "i + 1" 0] by (simp add: line_verifies_def)
        with verify_record_Err [OF bad] False Inr show ?thesis by (simp add: entries_def)
      qed
    qed
  qed
qed

lemma verify_log_Ok_iff:
  "verify_log E C missing vk None (Some t) = Ok n \<longleftrightarrow>
     list_all (line_verifies E C vk) (entries (str_lines t)) \<and> n = length (entries (str_lines t))"
  by (simp add: verify_log_def read_lines_def verify_lines_Ok_iff)

text \<open>The anomalies that the verifier would have stopped at.\<close>

fun is_corrupt :: "anomaly \<Rightarrow> bool" where
  "is_corrupt (MalformedEntry _ _) = True"
| "is_corrupt (BadSignatureAt _ _) = True"
| "is_corrupt _ = False"

definition corrupt :: "anomaly list \<Rightarrow> anomaly list" where
  "corrupt as = filter is_corrupt as"

definition tallies :: "explain_state \<Rightarrow> nat \<times> nat \<times> anomaly list" where
  "tallies s = (ex_total s, ex_verified s, corrupt (ex_anomalies s))"

lemma tallies_signature:
  "tallies (explain_signature E vk i r s) =
     (if is_ok (verify_record E r vk i) then (ex_total s, ex_verified s + 1, corrupt (ex_anomalies s))
      else (ex_total s, ex_verified s, corrupt (ex_anomalies s) @ [BadSignatureAt i (record_id r)]))"
  by (simp add: tallies_def explain_signature_def add_anomaly_def corrupt_def)

lemma tallies_timestamp [simp]: "tallies (explain_timestamp i r s) = tallies s"
  by (simp add: tallies_def explain_timestamp_def add_anomaly_def corrupt_def Let_def split: option.split)

lemma tallies_policy [simp]: "tallies (explain_policy i r s) = tallies s"
  by (simp add: tallies_def explain_policy_def add_anomaly_def corrupt_def Let_def split: option.split)

lemma tallies_expedition [simp]: "tallies (explain_expedition r s) = tallies s"
  by (simp add: tallies_def explain_expedition_def split: option.split)

lemma tallies_bypass [simp]: "tallies (explain_bypass i r s) = tallies s"
  by (simp add: tallies_def explain_bypass_def add_anomaly_def corrupt_def Let_def
      split: parsed_record.split audit_event.split)

text \<open>What a line adds to the corruptions.\<close>

definition line_corruption :: "extern \<Rightarrow> audit_codec \<Rightarrow> string \<Rightarrow> nat \<Rightarrow> string \<Rightarrow> anomaly list" where
  "line_corruption E C vk i l =
     (if is_blank l \<or> line_verifies E C vk l then []
      else case parse_record C l of
             Err e \<Rightarrow> [MalformedEntry i e]
           | Ok r \<Rightarrow> [BadSignatureAt i (record_id r)])"

lemma tallies_line:
  "tallies (explain_line E C vk i l s) =
     (ex_total s + (if is_blank l then 0 else 1),
      ex_verified s + (if \<not> is_blank l \<and> line_verifies E C vk l then 1 else 0),
      corrupt (ex_anomalies s) @ line_corruption E C vk i l)"
proof (cases "parse_record C l")
  case (Inl e)
  then show ?thesis
    by (simp add: explain_line_def line_verifies_def line_corruption_def tallies_def add_anomaly_def
        corrupt_def)
next
  case (Inr r)
  then show ?thesis
    using verify_record_line [of E r vk i 0]
    by (simp add: explain_line_def explain_record_def line_verifies_def line_corruption_def
        tallies_signature) (simp add: tallies_def)
qed

fun corruptions :: "extern \<Rightarrow> audit_codec \<Rightarrow> string \<Rightarrow> nat \<Rightarrow> string list \<Rightarrow> anomaly list" where
  "corruptions E C vk i [] = []"
| "corruptions E C vk i (l # ls) = line_corruption E C vk (i + 1) l @ corruptions E C vk (i + 1) ls"

lemma explain_lines_tallies:
  "\<exists>s'. explain_lines E C vk i (map Ok ls) s = Ok s' \<and>
     tallies s' =
       (ex_total s + length (entries ls),
        ex_verified s + length (filter (line_verifies E C vk) (entries ls)),
        corrupt (ex_anomalies s) @ corruptions E C vk i ls)"
proof (induction ls arbitrary: i s)
  case Nil
  then show ?case by (simp add: tallies_def entries_def)
next
  case (Cons l ls)
  let ?s = "explain_line E C vk (i + 1) l s"
  obtain s' where s': "explain_lines E C vk (i + 1) (map Ok ls) ?s = Ok s'"
      "tallies s' =
       (ex_total ?s + length (entries ls),
        ex_verified ?s + length (filter (line_verifies E C vk) (entries ls)),
        corrupt (ex_anomalies ?s) @ corruptions E C vk (i + 1) ls)"
    using Cons.IH [of "i + 1" ?s] by blast
  moreover have "ex_total ?s = ex_total s + (if is_blank l then 0 else 1)"
    "ex_verified ?s = ex_verified s + (if \<not> is_blank l \<and> line_verifies E C vk l then 1 else 0)"
    "corrupt (ex_anomalies ?s) = corrupt (ex_anomalies s) @ line_corruption E C vk (i + 1) l"
    using tallies_line [of E C vk "i + 1" l s] by (simp_all add: tallies_def)
  ultimately show ?case by (simp add: entries_def)
qed

lemma corruptions_Nil_iff:
  "corruptions E C vk i ls = [] \<longleftrightarrow> list_all (line_verifies E C vk) (entries ls)"
  by (induction ls arbitrary: i)
    (auto simp: entries_def line_corruption_def split: sum.split)

lemma corruptions_length:
  "length (corruptions E C vk i ls) + length (filter (line_verifies E C vk) (entries ls)) =
     length (entries ls)"
  by (induction ls arbitrary: i) (auto simp: entries_def line_corruption_def split: sum.split)

lemma explain_log_tallies:
  "\<exists>rep. explain_log E C missing vk None (Some t) = Ok rep \<and>
     vr_entries_total rep = length (entries (str_lines t)) \<and>
     vr_entries_verified rep = length (filter (line_verifies E C vk) (entries (str_lines t))) \<and>
     corrupt (vr_anomalies rep) = corruptions E C vk 0 (str_lines t)"
proof -
  obtain s' where "explain_lines E C vk 0 (map Ok (str_lines t)) explain_start = Ok s'"
      "tallies s' =
       (ex_total explain_start + length (entries (str_lines t)),
        ex_verified explain_start + length (filter (line_verifies E C vk) (entries (str_lines t))),
        corrupt (ex_anomalies explain_start) @ corruptions E C vk 0 (str_lines t))"
    using explain_lines_tallies [of E C vk 0 "str_lines t" explain_start] by blast
  then show ?thesis
    by (simp add: explain_log_def read_lines_def explain_report_def tallies_def explain_start_def
        corrupt_def)
qed

section \<open>Appending\<close>

datatype audit_action =
    LogDecision audit_stamp write_outcome toolcall eval_result "string option"
  | LogEvent audit_stamp write_outcome audit_event

fun action_outcome :: "audit_action \<Rightarrow> write_outcome" where
  "action_outcome (LogDecision st w call eval expedition) = w"
| "action_outcome (LogEvent st w event) = w"

fun audit_do ::
  "extern \<Rightarrow> audit_codec \<Rightarrow> string \<Rightarrow> audit_action \<Rightarrow> text_file \<Rightarrow>
     (audit_error, parsed_record) result \<times> text_file" where
  "audit_do E C key (LogDecision st w call eval expedition) f =
     (case audit_append E C key st w call eval expedition f of
        (res, f') \<Rightarrow> (and_then res (\<lambda>e. Ok (DecisionRecord e)), f'))"
| "audit_do E C key (LogEvent st w event) f =
     (case append_event E C key st w event f of
        (res, f') \<Rightarrow> (and_then res (\<lambda>e. Ok (EventRecord e)), f'))"

lemma write_record_cases:
  assumes "write_record C w r f = (res, f')"
  obtains (written) line where "w = Wrote" "record_line C r = Ok line" "res = Ok ()"
      "f' = Some (file_text f @ line @ [NL])"
  | (failed) e where "res = Err e" "(case w of Torn _ _ \<Rightarrow> False | _ \<Rightarrow> True) \<Longrightarrow> file_text f' = file_text f"
      "prefix (file_text f) (file_text f')"
proof -
  obtain res' where a: "append_line (record_codec C) w r f = (res', f')" "res = map_err audit_line_error res'"
    using assms by (auto simp: write_record_def split: prod.splits)
  from a(1) show ?thesis
  proof (cases rule: append_line_cases)
    case (written line)
    with a(2) that(1) show ?thesis by (simp add: record_codec_def)
  qed (use a(2) that(2) in auto)
qed

lemma payload_sig_update [simp]:
  "canonical_bytes (e\<lparr>ae_sig := s\<rparr>) = canonical_bytes e"
  "canonical_event_bytes (g\<lparr>ev_sig := s\<rparr>) = canonical_event_bytes g"
  by (simp_all add: canonical_bytes_def entry_object_def canonical_event_bytes_def event_object_def)

text \<open>Both appends write one signed record, unless no time can be formatted.\<close>

definition writes_signed ::
  "extern \<Rightarrow> audit_codec \<Rightarrow> string \<Rightarrow> write_outcome \<Rightarrow> (audit_error, parsed_record) result \<Rightarrow>
     text_file \<Rightarrow> text_file \<Rightarrow> bool" where
  "writes_signed E C key w res f f' \<longleftrightarrow>
     (\<exists>r res'. kind_ok r \<and> record_sig r = ed25519_sig E key (record_payload r) \<and>
        write_record C w r f = (res', f') \<and> res = and_then res' (\<lambda>_. Ok r)) \<or>
     (\<exists>e. res = Err e) \<and> f' = f"

lemma audit_append_signed:
  assumes "audit_append E C key st w call eval expedition f = (res, f')"
  shows "writes_signed E C key w (and_then res (\<lambda>e. Ok (DecisionRecord e))) f f'"
proof (cases "stamp_ts st")
  case (Inl e)
  with assms show ?thesis by (auto simp: audit_append_def writes_signed_def)
next
  case (Inr ts)
  let ?e = "\<lparr>ae_version = AUDIT_SCHEMA_VERSION, ae_id = stamp_id st, ae_ts = ts,
    ae_tool = tool call, ae_input_hash = input_hash E call,
    ae_capabilities = eval_capabilities eval, ae_decision = eval_decision eval,
    ae_matched_rule = eval_matched eval, ae_policy_version = eval_policy_version eval,
    ae_expedition = expedition, ae_sig = []\<rparr>"
  let ?r = "DecisionRecord (?e\<lparr>ae_sig := ed25519_sig E key (canonical_bytes ?e)\<rparr>)"
  obtain res' g where w: "write_record C w ?r f = (res', g)"
    by (cases "write_record C w ?r f")
  with assms Inr have "and_then res (\<lambda>e. Ok (DecisionRecord e)) = and_then res' (\<lambda>_. Ok ?r)" "f' = g"
    by (auto simp: audit_append_def Let_def and_then_def split: sum.splits)
  moreover have "record_sig ?r = ed25519_sig E key (record_payload ?r)"
    by (simp only: record_sig.simps record_payload.simps payload_sig_update) simp
  ultimately show ?thesis
    using w unfolding writes_signed_def by (metis kind_ok.simps(1))
qed

lemma append_event_signed:
  assumes "append_event E C key st w event f = (res, f')"
  shows "writes_signed E C key w (and_then res (\<lambda>e. Ok (EventRecord e))) f f'"
proof (cases "stamp_ts st")
  case (Inl e)
  with assms show ?thesis by (auto simp: append_event_def writes_signed_def)
next
  case (Inr ts)
  let ?e = "\<lparr>ev_version = AUDIT_SCHEMA_VERSION, ev_id = stamp_id st, ev_ts = ts,
    ev_kind = ''event'', ev_event = event, ev_sig = []\<rparr>"
  let ?r = "EventRecord (?e\<lparr>ev_sig := ed25519_sig E key (canonical_event_bytes ?e)\<rparr>)"
  obtain res' g where w: "write_record C w ?r f = (res', g)"
    by (cases "write_record C w ?r f")
  with assms Inr have "and_then res (\<lambda>e. Ok (EventRecord e)) = and_then res' (\<lambda>_. Ok ?r)" "f' = g"
    by (auto simp: append_event_def Let_def and_then_def split: sum.splits)
  moreover have "record_sig ?r = ed25519_sig E key (record_payload ?r)"
    by (simp only: record_sig.simps record_payload.simps payload_sig_update) simp
  moreover have "kind_ok ?r" by simp
  ultimately show ?thesis using w unfolding writes_signed_def by metis
qed

text \<open>An action writes a signed record, or fails and, unless the line is torn, leaves the text.\<close>

lemma audit_do_cases:
  assumes "audit_do E C key a f = (res, f')"
  obtains (written) r line where "action_outcome a = Wrote" "res = Ok r" "kind_ok r"
      "record_sig r = ed25519_sig E key (record_payload r)" "record_line C r = Ok line"
      "f' = Some (file_text f @ line @ [NL])"
  | (failed) e where "res = Err e"
      "(case action_outcome a of Torn _ _ \<Rightarrow> False | _ \<Rightarrow> True) \<Longrightarrow> file_text f' = file_text f"
      "prefix (file_text f) (file_text f')"
proof -
  have "writes_signed E C key (action_outcome a) res f f'"
    using assms audit_append_signed append_event_signed by (cases a) (auto split: prod.splits)
  then consider
      (wrote) r res' where "kind_ok r" "record_sig r = ed25519_sig E key (record_payload r)"
        "write_record C (action_outcome a) r f = (res', f')" "res = and_then res' (\<lambda>_. Ok r)"
    | (stopped) e where "res = Err e" "f' = f" unfolding writes_signed_def by blast
  then show ?thesis
  proof cases
    case (wrote r res')
    from wrote(3) show ?thesis
    proof (cases rule: write_record_cases)
      case (written line)
      with wrote that(1) [of r line] show ?thesis by simp
    next
      case (failed e)
      with wrote that(2) [of e] show ?thesis by simp
    qed
  next
    case (stopped e)
    with that(2) [of e] show ?thesis by simp
  qed
qed

inductive audit_step ::
  "extern \<Rightarrow> audit_codec \<Rightarrow> string \<Rightarrow> text_file \<Rightarrow> audit_action \<Rightarrow> text_file \<Rightarrow> bool" for E C key where
  "audit_do E C key a f = (res, f') \<Longrightarrow> audit_step E C key f a f'"

inductive_simps audit_step_iff: "audit_step E C key f a f'"

interpretation audit_trail: append_log "audit_step E C key" file_text
  by unfold_locales (auto simp: audit_step_iff elim: audit_do_cases)

text \<open>A list of actions in turn, counting the entries that were returned.\<close>

fun audit_all ::
  "extern \<Rightarrow> audit_codec \<Rightarrow> string \<Rightarrow> audit_action list \<Rightarrow> text_file \<Rightarrow> nat \<times> text_file" where
  "audit_all E C key [] f = (0, f)"
| "audit_all E C key (a # as) f =
     (case audit_do E C key a f of (res, f1) \<Rightarrow>
        (case audit_all E C key as f1 of (n, f2) \<Rightarrow> ((if is_ok res then 1 else 0) + n, f2)))"

lemma audit_all_run: "audit_all E C key as f = (n, f') \<Longrightarrow> run (audit_step E C key) f as f'"
proof (induction as arbitrary: f n)
  case (Cons a as)
  obtain res f1 m where "audit_do E C key a f = (res, f1)" "audit_all E C key as f1 = (m, f')"
    using Cons.prems by (auto split: prod.splits)
  with Cons.IH show ?case by (auto simp: run_cons_iff audit_step_iff)
qed (simp add: run_nil)

lemma audit_all_text:
  assumes "crypto_ok E" and "audit_codec_ok C" and "text_complete (file_text f)"
    and "list_all (\<lambda>a. case action_outcome a of Torn _ _ \<Rightarrow> False | _ \<Rightarrow> True) as"
    and "audit_all E C key as f = (n, f')"
  shows "text_complete (file_text f') \<and>
    (\<exists>ls. str_lines (file_text f') = str_lines (file_text f) @ ls \<and> length ls = n \<and>
       list_all (\<lambda>l. \<not> is_blank l \<and> line_verifies E C (ed_public E key) l) ls)"
  using assms(3-)
proof (induction as arbitrary: f n)
  case Nil
  then show ?case by auto
next
  case (Cons a as)
  obtain res f1 m where a: "audit_do E C key a f = (res, f1)" "audit_all E C key as f1 = (m, f')"
      "n = (if is_ok res then 1 else 0) + m"
    using Cons.prems(3) by (auto split: prod.splits)
  have untorn: "(case action_outcome a of Torn _ _ \<Rightarrow> False | _ \<Rightarrow> True)"
    using Cons.prems(2) by simp
  from a(1) show ?case
  proof (cases rule: audit_do_cases)
    case (written r line)
    note line = record_line_ok [OF assms(2) written(5,3)]
    have "line_verifies E C (ed_public E key) line"
      by (simp add: line_verifies_def line(2) signed_record_verifies [OF assms(1) written(4)])
    moreover have "str_lines (file_text f1) = str_lines (file_text f) @ [line]"
      using str_lines_append [OF Cons.prems(1) line(1)] written(6) by simp
    moreover have "text_complete (file_text f1)" using written(6) by simp
    ultimately show ?thesis
      using Cons.IH [OF _ _ a(2)] Cons.prems(2) a(3) written(2) line_ok_not_blank [OF line(1)] by auto
  next
    case (failed e)
    with Cons.IH [OF _ _ a(2)] Cons.prems a(3) failed(2) [OF untorn] show ?thesis by simp
  qed
qed

lemma audit_all_none:
  assumes "list_all (\<lambda>a. case action_outcome a of Torn _ _ \<Rightarrow> False | _ \<Rightarrow> True) as"
    and "audit_all E C key as f = (0, f')"
  shows "file_text f' = file_text f"
  using assms
proof (induction as arbitrary: f)
  case (Cons a as)
  obtain res f1 m where a: "audit_do E C key a f = (res, f1)" "audit_all E C key as f1 = (m, f')"
    using Cons.prems(2) by (auto split: prod.splits)
  with Cons.prems(2) have m: "m = 0" "\<not> is_ok res" by (auto split: if_splits)
  from a(1) have "file_text f1 = file_text f"
    by (cases rule: audit_do_cases) (use Cons.prems(1) m(2) in auto)
  with Cons.IH [of f1] Cons.prems(1) a(2) m show ?case by simp
qed simp

text \<open>The first append that succeeds behind an incomplete last line joins it.\<close>

lemma audit_all_joins:
  assumes "crypto_ok E" and "audit_codec_ok C"
    and "list_all (\<lambda>a. case action_outcome a of Torn _ _ \<Rightarrow> False | _ \<Rightarrow> True) as"
    and "audit_all E C key as f = (Suc n, f')"
    and "file_text f = t @ fragment" "text_complete t" "NL \<notin> set fragment"
  shows "\<exists>r line ls. record_line C r = Ok line \<and> line_ok line \<and>
    str_lines (file_text f') = str_lines t @ (fragment @ line) # ls"
  using assms(3-5)
proof (induction as arbitrary: f)
  case (Cons a as)
  obtain res f1 m where a: "audit_do E C key a f = (res, f1)" "audit_all E C key as f1 = (m, f')"
    using Cons.prems(2) by (auto split: prod.splits)
  with Cons.prems(2) have n: "Suc n = (if is_ok res then 1 else 0) + m" by simp
  from a(1) show ?case
  proof (cases rule: audit_do_cases)
    case (written r line)
    note line = record_line_ok [OF assms(2) written(5,3)]
    have "str_lines (file_text f1) = str_lines t @ [fragment @ line]"
      using str_lines_after_fragment [OF assms(6,7) line(1)] written(6) Cons.prems(3) by simp
    moreover have "text_complete (file_text f1)" using written(6) by simp
    ultimately show ?thesis
      using audit_all_text [OF assms(1,2) _ _ a(2)] Cons.prems(1) written(5) line(1) by auto
  next
    case (failed e)
    with Cons.IH [of f1] Cons.prems a(2) n show ?thesis by simp
  qed
qed simp

text \<open>A text is a complete one and the line after it.\<close>

lemma incomplete_split:
  assumes "\<not> text_complete t"
  obtains u p where "t = u @ p" "text_complete u" "NL \<notin> set p" "p \<noteq> []"
proof -
  let ?p = "rev (takeWhile (\<lambda>c. c \<noteq> NL) (rev t))" and ?u = "rev (dropWhile (\<lambda>c. c \<noteq> NL) (rev t))"
  have t: "t = ?u @ ?p" by (metis rev_append rev_rev_ident takeWhile_dropWhile_id)
  have complete: "text_complete ?u"
    using hd_dropWhile [of "\<lambda>c. c \<noteq> NL" "rev t"] by (auto simp: text_complete_def last_rev)
  moreover have "NL \<notin> set ?p" by (auto dest: set_takeWhileD)
  moreover from this have "?p \<noteq> []" using t complete assms by (metis append_Nil2)
  ultimately show ?thesis using t that by blast
qed

section \<open>A codec for the examples\<close>

text \<open>It prints one signed event entry and refuses any other record.\<close>

definition demo_event_entry :: audit_event_entry where
  "demo_event_entry =
     (let e = \<lparr>ev_version = AUDIT_SCHEMA_VERSION, ev_id = ''i'', ev_ts = ''t'', ev_kind = ''event'',
                ev_event = PictoConfirmed ''p'', ev_sig = []\<rparr>
      in e\<lparr>ev_sig := ed25519_sig demo_extern ''key'' (canonical_event_bytes e)\<rparr>)"

definition demo_audit_codec :: audit_codec where
  "demo_audit_codec =
     \<lparr>entry_line = (\<lambda>e. Err ''unsupported''),
      event_line = (\<lambda>e. if e = demo_event_entry then Ok ''{}'' else Err ''unsupported''),
      parse_json = (\<lambda>l. if l = ''{}'' then Ok (JObject [(''kind'', JString ''event'')]) else Err ''syntax''),
      entry_of_json = (\<lambda>v. Err ''missing field''),
      event_of_json = (\<lambda>v. Ok demo_event_entry)\<rparr>"

lemma audit_codec_ok_demo: "audit_codec_ok demo_audit_codec"
proof -
  have "line_ok ''{}''" by code_simp
  moreover have "ev_kind demo_event_entry = ''event''" by (simp add: demo_event_entry_def Let_def)
  ultimately show ?thesis by (simp add: audit_codec_ok_def demo_audit_codec_def)
qed

definition demo_action :: "write_outcome \<Rightarrow> audit_action" where
  "demo_action w = LogEvent \<lparr>stamp_ts = Ok ''t'', stamp_id = ''i''\<rparr> w (PictoConfirmed ''p'')"

section \<open>Properties\<close>

text \<open>C33. What the writer appends verifies: take a log that verifies with \<open>m\<close> entries and any
  sequence of appends of decisions and events of which \<open>n\<close> succeed and the others fail without
  cutting a line short. The old text is the beginning of the new one. If the last line of the log
  was complete, or nothing was written, the new log verifies under the writer's public key with
  \<open>m + n\<close> entries. If the last line lacked its newline and something was written, the first record
  joined that line, and if the reader refuses that line with a record behind it, the new log does
  not verify.\<close>

theorem appended_log_verifies:
  assumes "crypto_ok E" and "audit_codec_ok C"
    and "verify_log E C missing (ed_public E key) None (Some t) = Ok m"
    and "list_all (\<lambda>a. case action_outcome a of Torn _ _ \<Rightarrow> False | _ \<Rightarrow> True) as"
    and "audit_all E C key as (Some t) = (n, f')"
  shows "prefix t (file_text f') \<and>
    (text_complete t \<or> n = 0 \<longrightarrow>
       verify_log E C missing (ed_public E key) None (Some (file_text f')) = Ok (m + n)) \<and>
    (\<not> text_complete t \<and> n \<noteq> 0 \<and>
       (\<forall>r line. record_line C r = Ok line \<longrightarrow> \<not> is_ok (parse_record C (last (str_lines t) @ line))) \<longrightarrow>
       \<not> is_ok (verify_log E C missing (ed_public E key) None (Some (file_text f'))))"
proof (intro conjI impI)
  show "prefix t (file_text f')"
    using audit_trail.log_run [OF audit_all_run [OF assms(5)]] by simp
next
  assume "text_complete t \<or> n = 0"
  then show "verify_log E C missing (ed_public E key) None (Some (file_text f')) = Ok (m + n)"
  proof
    assume "text_complete t"
    then obtain ls where ls: "str_lines (file_text f') = str_lines t @ ls" "length ls = n"
        "list_all (\<lambda>l. \<not> is_blank l \<and> line_verifies E C (ed_public E key) l) ls"
      using audit_all_text [OF assms(1,2) _ assms(4,5)] by auto
    have "entries ls = ls" using ls(3) by (auto simp: entries_def list_all_iff)
    then have "entries (str_lines (file_text f')) = entries (str_lines t) @ ls"
      using ls(1) by (simp add: entries_def)
    then show ?thesis using assms(3) ls(2,3) by (auto simp: verify_log_Ok_iff list_all_iff)
  next
    assume "n = 0"
    with audit_all_none [OF assms(4)] assms(3,5) show ?thesis by simp
  qed
next
  assume side: "\<not> text_complete t \<and> n \<noteq> 0 \<and>
     (\<forall>r line. record_line C r = Ok line \<longrightarrow> \<not> is_ok (parse_record C (last (str_lines t) @ line)))"
  obtain u p where p: "t = u @ p" "text_complete u" "NL \<notin> set p" "p \<noteq> []"
    using side incomplete_split by blast
  obtain k where "n = Suc k" using side by (cases n) auto
  then obtain r line ls where j: "record_line C r = Ok line" "line_ok line"
      "str_lines (file_text f') = str_lines u @ (p @ line) # ls"
    using audit_all_joins [OF assms(1,2,4), of key "Some t" k f' u p] assms(5) p by auto
  have "last (str_lines t) = p" using str_lines_fragment [OF p(2-4)] p(1) by simp
  with side j(1) have "\<not> is_ok (parse_record C (p @ line))" by metis
  then have "\<not> line_verifies E C (ed_public E key) (p @ line)"
    by (auto simp: line_verifies_def split: sum.split)
  moreover have "\<not> is_blank (p @ line)" using line_ok_not_blank [OF j(2)] by (auto simp: is_blank_iff)
  ultimately show "\<not> is_ok (verify_log E C missing (ed_public E key) None (Some (file_text f')))"
    using j(3) by (auto simp: is_ok_iff verify_log_Ok_iff entries_def)
qed

lemma demo_run: "audit_all demo_extern demo_audit_codec ''key'' [demo_action Wrote, demo_action (Unopened ''busy'')] (Some [])
    = (1, Some (''{}'' @ [NL]))"
  by code_simp

theorem appended_log_verifies_witness:
  "verify_log demo_extern demo_audit_codec [] ''key'' None (Some (''{}'' @ [NL])) = Ok 1"
proof -
  have "ed_public demo_extern ''key'' = ''key''" by (simp add: demo_extern_def)
  moreover have "verify_log demo_extern demo_audit_codec [] (ed_public demo_extern ''key'') None (Some []) = Ok 0"
    by (simp add: verify_log_Ok_iff str_lines_def entries_def)
  ultimately show ?thesis
    using appended_log_verifies [OF crypto_ok_demo audit_codec_ok_demo _ _ demo_run, of "[]" 0]
    by (simp add: demo_action_def)
qed

text \<open>The report and the verifier agree on every log that can be read: the report always comes,
  its entries are those verified plus one corruption for each of the others, and the log verifies
  exactly when the report has no malformed entry and no bad signature, with the same count.\<close>

theorem report_agrees_with_verifier:
  "\<exists>rep. explain_log E C missing vk None (Some t) = Ok rep \<and>
     vr_entries_total rep =
       vr_entries_verified rep + length (filter is_corrupt (vr_anomalies rep)) \<and>
     (\<forall>n. verify_log E C missing vk None (Some t) = Ok n \<longleftrightarrow>
        filter is_corrupt (vr_anomalies rep) = [] \<and> n = vr_entries_verified rep)"
proof -
  obtain rep where rep: "explain_log E C missing vk None (Some t) = Ok rep"
      "vr_entries_total rep = length (entries (str_lines t))"
      "vr_entries_verified rep = length (filter (line_verifies E C vk) (entries (str_lines t)))"
      "corrupt (vr_anomalies rep) = corruptions E C vk 0 (str_lines t)"
    using explain_log_tallies by blast
  have "filter (line_verifies E C vk) ls = ls" if "list_all (line_verifies E C vk) ls" for ls
    using that by (simp add: list_all_iff filter_id_conv)
  with rep corruptions_length [of E C vk 0 "str_lines t"]
  show ?thesis
    by (auto simp: verify_log_Ok_iff corrupt_def [symmetric] corruptions_Nil_iff)
qed

text \<open>A torn line costs the entry after it as well: when an append is cut off within its line
  and the next append succeeds, the entry returned by the second shares a line with the fragment;
  if that line is not a JSON record, the log does not verify and the report counts the line as
  malformed.\<close>

theorem torn_line_swallows_next_entry:
  assumes "text_complete t" and "audit_codec_ok C"
    and "audit_do E C key a (Some t) = (Err err, Some (t @ fragment))" and "fragment \<noteq> []" "NL \<notin> set fragment"
    and "audit_do E C key b (Some (t @ fragment)) = (Ok r, f')"
    and "\<forall>line. record_line C r = Ok line \<longrightarrow> parse_record C (fragment @ line) = Err e"
  shows "\<exists>line. record_line C r = Ok line \<and>
    str_lines (file_text f') = str_lines t @ [fragment @ line] \<and>
    \<not> is_ok (verify_log E C missing (ed_public E key) None f') \<and>
    (\<exists>rep. explain_log E C missing (ed_public E key) None f' = Ok rep \<and>
       MalformedEntry (length (str_lines t) + 1) e \<in> set (vr_anomalies rep))"
proof -
  let ?vk = "ed_public E key"
  obtain line where line: "kind_ok r" "record_line C r = Ok line" "f' = Some (t @ fragment @ line @ [NL])"
    using assms(6) by (cases rule: audit_do_cases) auto
  have ok: "line_ok line" using record_line_ok [OF assms(2) line(2,1)] by simp
  have lines: "str_lines (file_text f') = str_lines t @ [fragment @ line]"
    using str_lines_after_fragment [OF assms(1,5) ok] line(3) by simp
  have nb: "\<not> is_blank (fragment @ line)"
    using line_ok_not_blank [OF ok] by (auto simp: is_blank_iff)
  have parse: "parse_record C (fragment @ line) = Err e" using assms(7) line(2) by simp
  have bad: "\<not> line_verifies E C ?vk (fragment @ line)" by (simp add: line_verifies_def parse)
  have "\<not> is_ok (verify_log E C missing ?vk None f')"
    using bad nb line(3) lines by (auto simp: is_ok_iff verify_log_Ok_iff entries_def)
  moreover obtain rep where "explain_log E C missing ?vk None f' = Ok rep"
      "corrupt (vr_anomalies rep) = corruptions E C ?vk 0 (str_lines t @ [fragment @ line])"
    using explain_log_tallies [of E C missing ?vk "file_text f'"] line(3) lines by auto
  moreover have "corruptions E C ?vk i (ls @ [l]) =
      corruptions E C ?vk i ls @ line_corruption E C ?vk (i + length ls + 1) l" for i ls l
    by (induction ls arbitrary: i) simp_all
  ultimately have "MalformedEntry (length (str_lines t) + 1) e \<in> set (corrupt (vr_anomalies rep))"
    using bad nb parse by (simp add: line_corruption_def)
  with \<open>explain_log E C missing ?vk None f' = Ok rep\<close> \<open>\<not> is_ok _\<close> line(2) lines show ?thesis
    by (auto simp: corrupt_def)
qed

theorem torn_line_swallows_next_entry_witness:
  "\<not> is_ok (verify_log demo_extern demo_audit_codec [] (ed_public demo_extern ''key'') None
     (Some (''{{}'' @ [NL])))"
proof -
  have torn: "audit_do demo_extern demo_audit_codec ''key'' (demo_action (Torn 1 ''disk full'')) (Some []) =
      (Err (AuditIo ''disk full''), Some ([] @ ''{''))" by code_simp
  have next_ok: "audit_do demo_extern demo_audit_codec ''key'' (demo_action Wrote) (Some ([] @ ''{'')) =
      (Ok (EventRecord demo_event_entry), Some (''{{}'' @ [NL]))" by code_simp
  have joined: "\<forall>line. record_line demo_audit_codec (EventRecord demo_event_entry) = Ok line \<longrightarrow>
      parse_record demo_audit_codec (''{'' @ line) = Err ''syntax''"
    by (auto simp: demo_audit_codec_def parse_record_def)
  have "NL \<notin> set ''{''" by (simp add: NL_def)
  from torn_line_swallows_next_entry [OF _ audit_codec_ok_demo torn _ this next_ok joined, of "[]"]
  show ?thesis by auto
qed

end
