(* ===== verification/Audit_Stream.thy ===== *)
theory Audit_Stream
  imports Audit_Log
begin

text \<open>
  The operator's view of the audit log (\<open>crates/gommage-audit/src/stream.rs\<close>): the last lines as
  short items, unsigned and lenient, in contrast to the verifier. \<open>event_of_value\<close> is the derived
  reader of an \<open>AuditEvent\<close>.
\<close>

record stream_item =
  si_line :: nat
  si_id :: string
  si_ts :: string
  si_kind :: string
  si_summary :: string
  si_detail :: string

record stream_codec =
  sc_parse_json :: "string \<Rightarrow> (string, json) result"
  sc_event_of_value :: "json \<Rightarrow> (string, audit_event) result"

text \<open>\<open>value["key"]\<close> is \<open>Null\<close> where there is nothing.\<close>

definition json_index :: "json \<Rightarrow> string \<Rightarrow> json" where
  "json_index v k = (case json_get v k of Some w \<Rightarrow> w | None \<Rightarrow> JNull)"

definition get_str :: "json \<Rightarrow> string \<Rightarrow> string option" where
  "get_str v k = (case json_get v k of None \<Rightarrow> None | Some w \<Rightarrow> as_str w)"

definition unwrap_or :: "'a option \<Rightarrow> 'a \<Rightarrow> 'a" where
  "unwrap_or v d = (case v of Some x \<Rightarrow> x | None \<Rightarrow> d)"

definition string_field :: "json \<Rightarrow> string \<Rightarrow> string" where
  "string_field value field = unwrap_or (get_str value field) ''<unknown>''"

definition decision_item :: "nat \<Rightarrow> json \<Rightarrow> stream_item" where
  "decision_item line value =
     (let decision = json_index value ''decision'';
          kind = unwrap_or (get_str decision ''kind'') ''unknown'';
          tname = unwrap_or (get_str value ''tool'') ''<unknown>'';
          hard_stop = unwrap_or (case json_get decision ''hard_stop'' of None \<Rightarrow> None | Some b \<Rightarrow> as_bool b) False;
          capability_count =
            (case (case json_get value ''capabilities'' of None \<Rightarrow> None | Some a \<Rightarrow> as_array a) of
               None \<Rightarrow> 0 | Some items \<Rightarrow> length items)
      in \<lparr>si_line = line, si_id = string_field value ''id'', si_ts = string_field value ''ts'',
          si_kind = ''decision'',
          si_summary =
            (if hard_stop then ''deny hard-stop '' @ tname
             else ''decision '' @ kind @ '' '' @ tname),
          si_detail = ''input='' @ string_field value ''input_hash'' @ '' policy='' @
            string_field value ''policy_version'' @ '' capabilities='' @ dec_nat capability_count\<rparr>)"

definition show_bool :: "bool \<Rightarrow> string" where
  "show_bool b = (if b then ''true'' else ''false'')"

definition show_u32 :: "32 word \<Rightarrow> string" where
  "show_u32 w = dec_nat (unat w)"

fun event_summary :: "audit_event \<Rightarrow> string \<times> string" where
  "event_summary (ApprovalRequested i tname hash scope reason version) =
     (''approval requested '' @ i, ''tool='' @ tname @ '' scope='' @ scope @ '' input='' @ hash)"
| "event_summary (ApprovalResolved i status reason picto) =
     (''approval '' @ status @ '' '' @ i, ''picto='' @ unwrap_or picto ''none'')"
| "event_summary (ApprovalWebhookDelivered i url status attempts source sig) =
     (''webhook delivered '' @ i,
      ''http='' @ (case status of None \<Rightarrow> ''unknown'' | Some s \<Rightarrow> dec_int s) @ '' attempts='' @
      show_u32 attempts @ '' source='' @ source @ '' signed='' @ show_bool (sig \<noteq> None))"
| "event_summary (ApprovalWebhookFailed i url error attempts source sig) =
     (''webhook failed '' @ i,
      ''attempts='' @ show_u32 attempts @ '' source='' @ source @ '' signed='' @ show_bool (sig \<noteq> None) @
      '' error='' @ error)"
| "event_summary (ApprovalWebhookDeadLettered i url dlq provider attempts source error sig) =
     (''webhook dead-lettered '' @ i,
      ''dlq='' @ dlq @ '' provider='' @ provider @ '' attempts='' @ show_u32 attempts @
      '' source='' @ source @ '' error='' @ error)"
| "event_summary (PictoCreated i scope max_uses ttl confirming) =
     (''picto created '' @ i, ''scope='' @ scope)"
| "event_summary (PictoConsumed i scope n max_uses status) =
     (''picto consumed '' @ i, ''scope='' @ scope @ '' status='' @ status)"
| "event_summary (PictoRejected i scope reason) =
     (''picto rejected '' @ i, ''scope='' @ scope @ '' reason='' @ reason)"
| "event_summary (PictoConfirmed i) = (''picto confirmed '' @ i, [])"
| "event_summary (PictoRevoked i) = (''picto revoked '' @ i, [])"
| "event_summary (PictosExpired n) = (''pictos expired'', ''count='' @ dec_nat n)"
| "event_summary (PolicyReloaded source rs ms version fingerprint picto) =
     (''policy reloaded'',
      ''source='' @ source @ '' rules='' @ dec_nat rs @ '' mapper_rules='' @ dec_nat ms @
      '' policy='' @ version @
      (case fingerprint of None \<Rightarrow> [] | Some f \<Rightarrow> '' fingerprint='' @ f) @
      (case picto of None \<Rightarrow> [] | Some p \<Rightarrow> '' picto='' @ p))"
| "event_summary (PolicyReloadRefused source scope loaded disk reason) =
     (''policy reload refused'',
      ''source='' @ source @ '' scope='' @ scope @ '' loaded='' @ loaded @ '' disk='' @ disk @
      '' reason='' @ reason)"
| "event_summary (ConfigDriftAtStartup recorded loaded) =
     (''config drift at startup'', ''recorded='' @ recorded @ '' loaded='' @ loaded)"
| "event_summary (BypassActivated tname hash caps odecision oreason hard_stop bdecision) =
     (''bypass '' @ bdecision @ '' '' @ tname, ''hard_stop='' @ show_bool hard_stop)"

definition event_item :: "stream_codec \<Rightarrow> nat \<Rightarrow> json \<Rightarrow> (audit_error, stream_item) result" where
  "event_item C line value =
     and_then (map_err AuditJson (sc_event_of_value C (json_index value ''event''))) (\<lambda>event.
       case event_summary event of (summary, detail) \<Rightarrow>
         Ok \<lparr>si_line = line, si_id = string_field value ''id'', si_ts = string_field value ''ts'',
             si_kind = ''event'', si_summary = summary, si_detail = detail\<rparr>)"

definition stream_item_from_line ::
  "stream_codec \<Rightarrow> nat \<Rightarrow> string \<Rightarrow> (audit_error, stream_item) result" where
  "stream_item_from_line C line raw =
     and_then (map_err AuditJson (sc_parse_json C raw)) (\<lambda>value.
       if get_str value ''kind'' = Some ''event'' then event_item C line value
       else Ok (decision_item line value))"

text \<open>The loop: \<open>index\<close> is the index of the next line, \<open>items\<close> what has been pushed.\<close>

fun stream_lines ::
  "stream_codec \<Rightarrow> nat \<Rightarrow> (string, string) result list \<Rightarrow> stream_item list \<Rightarrow>
     (audit_error, stream_item list) result" where
  "stream_lines C index [] items = Ok items"
| "stream_lines C index (line # rest) items =
     and_then (map_err AuditIo line) (\<lambda>l.
       stream_lines C (index + 1) rest
         (if is_blank l then items
          else case stream_item_from_line C (index + 1) l of
                 Ok item \<Rightarrow> items @ [item]
               | Err _ \<Rightarrow> items))"

text \<open>A file that does not exist has no items; \<open>open_error\<close> is the error of opening one that does.\<close>

definition recent_stream_items ::
  "stream_codec \<Rightarrow> string option \<Rightarrow> read_fault \<Rightarrow> text_file \<Rightarrow> nat \<Rightarrow>
     (audit_error, stream_item list) result" where
  "recent_stream_items C open_error fault f limit =
     (case f of
        None \<Rightarrow> Ok []
      | Some t \<Rightarrow>
          (case open_error of
             Some e \<Rightarrow> Err (AuditIo e)
           | None \<Rightarrow>
               and_then (stream_lines C 0 (read_lines fault t) []) (\<lambda>items.
                 let keep = max limit 1
                 in Ok (if keep < length items then drop (length items - keep) items else items))))"

section \<open>Laws\<close>

text \<open>The items of a list of lines, without the accumulator.\<close>

fun items_of :: "stream_codec \<Rightarrow> nat \<Rightarrow> string list \<Rightarrow> stream_item list" where
  "items_of C i [] = []"
| "items_of C i (l # ls) =
     (if is_blank l then []
      else case stream_item_from_line C (i + 1) l of Ok item \<Rightarrow> [item] | Err _ \<Rightarrow> []) @
     items_of C (i + 1) ls"

lemma stream_lines_items: "stream_lines C i (map Ok ls) items = Ok (items @ items_of C i ls)"
  by (induction ls arbitrary: i items) (auto split: sum.split)

lemma decision_item_line [simp]: "si_line (decision_item line value) = line"
  by (simp add: decision_item_def Let_def)

lemma item_line: "stream_item_from_line C line raw = Ok item \<Longrightarrow> si_line item = line"
  by (auto simp: stream_item_from_line_def and_then_Ok_iff event_item_def case_prod_unfold
      split: if_splits)

lemma items_of_lines:
  "item \<in> set (items_of C i ls) \<Longrightarrow>
     i < si_line item \<and> si_line item \<le> i + length ls \<and>
     stream_item_from_line C (si_line item) (ls ! (si_line item - i - 1)) = Ok item"
proof (induction ls arbitrary: i)
  case (Cons l ls)
  show ?case
  proof (cases "item \<in> set (items_of C (i + 1) ls)")
    case True
    with Cons.IH [of "i + 1"] have "i + 1 < si_line item" "si_line item \<le> i + 1 + length ls"
      "stream_item_from_line C (si_line item) (ls ! (si_line item - (i + 1) - 1)) = Ok item" by auto
    moreover from this have "si_line item - i - 1 = Suc (si_line item - (i + 1) - 1)" by simp
    ultimately show ?thesis by simp
  next
    case False
    with Cons.prems have "stream_item_from_line C (i + 1) l = Ok item"
      by (auto split: if_splits sum.splits)
    moreover from item_line [OF this] have "si_line item = i + 1" .
    ultimately show ?thesis by simp
  qed
qed simp

lemma items_of_sorted: "sorted_wrt (<) (map si_line (items_of C i ls))"
proof (induction ls arbitrary: i)
  case (Cons l ls)
  have "i + 1 < si_line item" if "item \<in> set (items_of C (i + 1) ls)" for item
    using items_of_lines [OF that] by simp
  with Cons.IH [of "i + 1"] show ?case
    by (auto dest: item_line split: sum.split)
qed simp

section \<open>Property\<close>

text \<open>The audit stream answers with at most \<open>max limit 1\<close> items, whatever the lines hold: each
  item is made from the line of the log it names, the items are in the order of the log, and none
  later than the first shown is left out.\<close>

theorem recent_stream_bounded:
  "\<exists>items. recent_stream_items C None None (Some t) limit = Ok items \<and>
     length items \<le> max limit 1 \<and> sorted_wrt (<) (map si_line items) \<and>
     (\<forall>item. item \<in> set items \<longrightarrow>
        stream_item_from_line C (si_line item) (str_lines t ! (si_line item - 1)) = Ok item) \<and>
     (\<exists>older. items_of C 0 (str_lines t) = older @ items)"
proof -
  let ?all = "items_of C 0 (str_lines t)" and ?keep = "max limit 1"
  define items where "items = (if ?keep < length ?all then drop (length ?all - ?keep) ?all else ?all)"
  have "recent_stream_items C None None (Some t) limit = Ok items"
    by (simp add: recent_stream_items_def read_lines_def stream_lines_items items_def Let_def)
  moreover have split: "?all = take (length ?all - length items) ?all @ items"
    by (auto simp: items_def)
  moreover have "length items \<le> ?keep" by (auto simp: items_def max_def)
  moreover have "sorted_wrt (<) (map si_line items)"
    using items_of_sorted [of C 0 "str_lines t"] split
    by (metis map_append sorted_wrt_append)
  moreover have "stream_item_from_line C (si_line item) (str_lines t ! (si_line item - 1)) = Ok item"
    if "item \<in> set items" for item
    using items_of_lines [of item C 0 "str_lines t"] that split
    by (metis Un_iff add_0 diff_zero set_append)
  ultimately show ?thesis by blast
qed

theorem recent_stream_bounded_witness:
  "\<exists>items. recent_stream_items \<lparr>sc_parse_json = (\<lambda>l. Ok JNull), sc_event_of_value = (\<lambda>v. Err [])\<rparr>
     None None (Some (''a'' @ [NL] @ ''b'' @ [NL])) 0 = Ok items \<and> length items \<le> 1"
  using recent_stream_bounded
    [of "\<lparr>sc_parse_json = (\<lambda>l. Ok JNull), sc_event_of_value = (\<lambda>v. Err [])\<rparr>"
      "''a'' @ [NL] @ ''b'' @ [NL]" 0] by auto

end
