(* ===== verification/Webhook.thy ===== *)
theory Webhook
  imports Approval Audit_Log
begin

text \<open>
  Approval webhooks (\<open>crates/gommage-core/src/webhook_signature.rs\<close>,
  \<open>crates/gommage-core/src/approval_webhook.rs\<close>): the HMAC signature of a body and its
  verification, the payload, and the delivery with retries and a dead-letter file. The clock, the
  UUID, the environment, \<open>curl\<close> and the serde code of a dead letter are arguments. The RFC 3339
  text of a time (with the source's fallback where a time has none) is \<open>rfc3339_format\<close>.
\<close>

section \<open>HMAC\<close>

definition xor_byte :: "char \<Rightarrow> char \<Rightarrow> char" where
  "xor_byte a b = char_of (xor (of_char a :: nat) (of_char b))"

text \<open>\<open>constant_time_eq\<close>: \<open>diff\<close> accumulates the exclusive ors of the bytes.\<close>

definition constant_time_eq :: "string \<Rightarrow> string \<Rightarrow> bool" where
  "constant_time_eq a b \<longleftrightarrow>
     length a = length b \<and>
     foldl (\<lambda>diff (l, r). or diff (xor (of_char l) (of_char r))) 0 (zip a b) = (0 :: 8 word)"

definition hmac_sha256 :: "extern \<Rightarrow> string \<Rightarrow> string \<Rightarrow> string" where
  "hmac_sha256 E secret message =
     (let short = (if 64 < length secret then sha256 E secret else secret);
          key = short @ replicate (64 - length short) (CHR 0x00);
          ipad = map (xor_byte (CHR 0x36)) key;
          opad = map (xor_byte (CHR 0x5C)) key;
          inner = sha256 E (ipad @ message)
      in sha256 E (opad @ inner))"

section \<open>Signing a body\<close>

definition SIGNATURE_HEADER :: string where
  "SIGNATURE_HEADER = ''x-gommage-signature''"

definition TIMESTAMP_HEADER :: string where
  "TIMESTAMP_HEADER = ''x-gommage-signature-timestamp''"

definition ALGORITHM_HEADER :: string where
  "ALGORITHM_HEADER = ''x-gommage-signature-algorithm''"

definition KEY_ID_HEADER :: string where
  "KEY_ID_HEADER = ''x-gommage-signature-key-id''"

type_synonym webhook_header = "string \<times> string"

record webhook_report =
  wr_algorithm :: string
  wr_timestamp :: string
  wr_body_sha256 :: string
  wr_signature :: string
  wr_key_id :: "string option"
  wr_headers :: "webhook_header list"

definition curl_headers :: "webhook_report \<Rightarrow> string list" where
  "curl_headers r = map (\<lambda>(name, value). name @ '': '' @ value) (wr_headers r)"

definition webhook_signature :: "extern \<Rightarrow> string \<Rightarrow> string \<Rightarrow> string \<Rightarrow> string" where
  "webhook_signature E content secret timestamp =
     ''v1='' @ hex_encode E (hmac_sha256 E secret (timestamp @ ''.'' @ content))"

definition sign_webhook_body_at ::
  "extern \<Rightarrow> string \<Rightarrow> string \<Rightarrow> string option \<Rightarrow> time \<Rightarrow> webhook_report" where
  "sign_webhook_body_at E content secret key_id t =
     (let timestamp = rfc3339_format E t;
          signature = webhook_signature E content secret timestamp
      in \<lparr>wr_algorithm = ''hmac-sha256'', wr_timestamp = timestamp,
          wr_body_sha256 = sha256_hex E content, wr_signature = signature, wr_key_id = key_id,
          wr_headers =
            [(ALGORITHM_HEADER, ''hmac-sha256''), (TIMESTAMP_HEADER, timestamp),
             (SIGNATURE_HEADER, signature)] @
            (case key_id of
               Some i \<Rightarrow> if is_blank i then [] else [(KEY_ID_HEADER, i)]
             | None \<Rightarrow> [])\<rparr>)"

section \<open>Verifying one\<close>

record webhook_verification =
  wv_ok :: bool
  wv_algorithm :: string
  wv_timestamp :: string
  wv_body_sha256 :: string
  wv_expected :: string
  wv_provided :: string
  wv_max_age_seconds :: int
  wv_age_seconds :: int
  wv_error :: "string option"

definition i64_max :: int where
  "i64_max = 9223372036854775807"

definition verify_webhook_body ::
  "extern \<Rightarrow> time \<Rightarrow> string \<Rightarrow> string \<Rightarrow> string \<Rightarrow> string \<Rightarrow> int \<Rightarrow> webhook_verification" where
  "verify_webhook_body E now content secret timestamp signature max_age =
     (let parsed = rfc3339_parse E timestamp;
          age = (case parsed of Some t \<Rightarrow> \<bar>now - t\<bar> div nanos_per_second | None \<Rightarrow> i64_max);
          expected = webhook_signature E content secret timestamp;
          error =
            (if parsed = None then Some ''timestamp is not RFC3339''
             else if max_age < age
               then Some (''timestamp age '' @ dec_int age @ ''s exceeds max age '' @ dec_int max_age @ ''s'')
             else if \<not> constant_time_eq expected signature then Some ''signature mismatch''
             else None)
      in \<lparr>wv_ok = (error = None), wv_algorithm = ''hmac-sha256'', wv_timestamp = timestamp,
          wv_body_sha256 = sha256_hex E content, wv_expected = expected, wv_provided = signature,
          wv_max_age_seconds = max_age, wv_age_seconds = age, wv_error = error\<rparr>)"

section \<open>The payload\<close>

datatype webhook_source = SourceCli | SourceDaemon | SourceMcpFallback

definition webhook_source_str :: "webhook_source \<Rightarrow> string" where
  "webhook_source_str s =
     (case s of SourceCli \<Rightarrow> ''cli'' | SourceDaemon \<Rightarrow> ''daemon'' | SourceMcpFallback \<Rightarrow> ''mcp_fallback'')"

definition approval_callback_nonce :: "extern \<Rightarrow> approval_request \<Rightarrow> string" where
  "approval_callback_nonce E r =
     ''nonce_'' @ sha256_hex E
       (''gommage-approval-callback-v1'' @ [CHR 0x00] @ req_id r @ [CHR 0x00] @ req_input_hash r @
        [CHR 0x00] @ req_required_scope r @ [CHR 0x00] @ req_policy_version r @
        (if req_bind_input r then [CHR 0x00] @ ''bind_input=1'' else []))"

definition approval_webhook_generic_payload :: "extern \<Rightarrow> approval_request \<Rightarrow> json" where
  "approval_webhook_generic_payload E r =
     JObject
       [(''kind'', jstr ''gommage_approval_request''),
        (''id'', jstr (req_id r)),
        (''created_at'', jstr (rfc3339_format E (req_created_at r))),
        (''tool'', jstr (req_tool r)),
        (''input_hash'', jstr (req_input_hash r)),
        (''required_scope'', jstr (req_required_scope r)),
        (''bind_input'', JBool (req_bind_input r)),
        (''reason'', jstr (req_reason r)),
        (''capabilities'', capabilities_json (req_capabilities r)),
        (''matched_rule'', jopt matched_rule_json (req_matched_rule r)),
        (''policy_version'', jstr (req_policy_version r)),
        (''callback'', JObject
          [(''kind'', jstr ''gommage_approval_callback''),
           (''request_id'', jstr (req_id r)),
           (''nonce'', jstr (approval_callback_nonce E r)),
           (''actions'', JArray [jstr ''approve'', jstr ''deny''])]),
        (''commands'', JObject
          [(''show'', jstr (''gommage approval show '' @ req_id r @ '' --json'')),
           (''approve'', jstr (''gommage approval approve '' @ req_id r)),
           (''deny'', jstr (''gommage approval deny '' @ req_id r)),
           (''replay'', jstr (''gommage approval replay '' @ req_id r @ '' --json'')),
           (''evidence'', jstr (''gommage approval evidence '' @ req_id r @ '' --redact'')),
           (''audit_verify'', jstr ''gommage audit-verify --explain --format human''),
           (''tui'', jstr ''gommage tui --snapshot --view approvals'')])]"

record prepared_webhook =
  pw_payload :: json
  pw_body :: string
  pw_signature :: "webhook_report option"

datatype delivery_error =
    DeliveryIo string
  | DeliveryJson string
  | Delivery string

text \<open>\<open>to_vec\<close> is the serde printer of a value.\<close>

definition prepare_approval_webhook ::
  "extern \<Rightarrow> (json \<Rightarrow> (string, string) result) \<Rightarrow> time \<Rightarrow> json \<Rightarrow> string option \<Rightarrow> string option \<Rightarrow>
     (delivery_error, prepared_webhook) result" where
  "prepare_approval_webhook E to_vec now pl secret key_id =
     and_then (map_err DeliveryJson (to_vec pl)) (\<lambda>content.
       Ok \<lparr>pw_payload = pl, pw_body = content,
           pw_signature =
             (case secret of
                Some s \<Rightarrow> if is_blank s then None else Some (sign_webhook_body_at E content s key_id now)
              | None \<Rightarrow> None)\<rparr>)"

section \<open>Settings\<close>

definition DEFAULT_ATTEMPTS :: "32 word" where "DEFAULT_ATTEMPTS = 3"
definition DEFAULT_BACKOFF_MS :: "64 word" where "DEFAULT_BACKOFF_MS = 250"
definition MAX_ATTEMPTS :: "32 word" where "MAX_ATTEMPTS = 10"
definition MAX_BACKOFF_MS :: "64 word" where "MAX_BACKOFF_MS = 10000"

record delivery_settings =
  ds_attempts :: "32 word"
  ds_backoff_ms :: "64 word"

definition delivery_settings_new :: "32 word \<Rightarrow> 64 word \<Rightarrow> delivery_settings" where
  "delivery_settings_new attempts backoff_ms =
     \<lparr>ds_attempts = max 1 (min attempts MAX_ATTEMPTS), ds_backoff_ms = min backoff_ms MAX_BACKOFF_MS\<rparr>"

text \<open>\<open>str::parse\<close> into an unsigned integer below \<open>bound\<close>: an optional plus sign and digits.\<close>

definition parse_unsigned :: "nat \<Rightarrow> string \<Rightarrow> nat option" where
  "parse_unsigned bound s =
     (let ds = (case s of c # r \<Rightarrow> if c = CHR ''+'' then r else s | [] \<Rightarrow> [])
      in if ds \<noteq> [] \<and> list_all is_ascii_digit ds \<and> undec_digits ds < bound
         then Some (undec_digits ds) else None)"

definition env_number :: "env \<Rightarrow> nat \<Rightarrow> string \<Rightarrow> 'a::len word \<Rightarrow> 'a word" where
  "env_number vars bound name d =
     (case vars name of
        None \<Rightarrow> d
      | Some v \<Rightarrow> (case parse_unsigned bound v of None \<Rightarrow> d | Some n \<Rightarrow> of_nat n))"

definition delivery_settings_from_env :: "env \<Rightarrow> delivery_settings" where
  "delivery_settings_from_env vars =
     delivery_settings_new
       (env_number vars (2 ^ 32) ''GOMMAGE_APPROVAL_WEBHOOK_ATTEMPTS'' DEFAULT_ATTEMPTS)
       (env_number vars (2 ^ 64) ''GOMMAGE_APPROVAL_WEBHOOK_BACKOFF_MS'' DEFAULT_BACKOFF_MS)"

definition delivery_settings_default :: delivery_settings where
  "delivery_settings_default = delivery_settings_new DEFAULT_ATTEMPTS DEFAULT_BACKOFF_MS"

section \<open>Dead letters\<close>

record dead_letter =
  dl_id :: string
  dl_dead_lettered_at :: string
  dl_request_id :: string
  dl_source :: string
  dl_provider :: string
  dl_url :: string
  dl_attempts :: "32 word"
  dl_error :: string
  dl_request :: approval_request
  dl_payload :: json
  dl_body :: string
  dl_signature :: "webhook_report option"

fun delivery_line_error :: "line_error \<Rightarrow> delivery_error" where
  "delivery_line_error (LineIo e) = DeliveryIo e"
| "delivery_line_error (LineJson e) = DeliveryJson e"

definition dead_letter_append ::
  "dead_letter codec \<Rightarrow> write_outcome \<Rightarrow> dead_letter \<Rightarrow> text_file \<Rightarrow>
     (delivery_error, unit) result \<times> text_file" where
  "dead_letter_append C w entry f =
     (case append_line C w entry f of (res, f') \<Rightarrow> (map_err delivery_line_error res, f'))"

text \<open>\<open>fault\<close> is the error of reading the whole file.\<close>

definition dead_letter_list ::
  "dead_letter codec \<Rightarrow> string option \<Rightarrow> text_file \<Rightarrow> (delivery_error, dead_letter list) result" where
  "dead_letter_list C fault f =
     (case f of
        None \<Rightarrow> Ok []
      | Some t \<Rightarrow>
          (case fault of
             Some e \<Rightarrow> Err (DeliveryIo e)
           | None \<Rightarrow>
               collect_results (map (\<lambda>l. map_err DeliveryJson (decode_line C l))
                 (filter (\<lambda>l. \<not> is_blank l) (str_lines t)))))"

definition dead_letter_count ::
  "dead_letter codec \<Rightarrow> string option \<Rightarrow> text_file \<Rightarrow> (delivery_error, nat) result" where
  "dead_letter_count C fault f = and_then (dead_letter_list C fault f) (\<lambda>es. Ok (length es))"

section \<open>Posting with curl\<close>

definition curl_args :: "string \<Rightarrow> webhook_report option \<Rightarrow> string list" where
  "curl_args url signature =
     [''--fail'', ''--silent'', ''--show-error'', ''--max-time'', ''5'', ''--output'', ''/dev/null'',
      ''--write-out'', ''%{http_code}'', ''--header'', ''content-type: application/json''] @
     (case signature of
        Some s \<Rightarrow> concat (map (\<lambda>h. [''--header'', h]) (curl_headers s))
      | None \<Rightarrow> []) @
     [''--request'', ''POST'', ''--data-binary'', ''@-'', url]"

text \<open>What running curl with these arguments and this standard input gives: no start, a failed write
  or wait, or an exit with its output.\<close>

datatype curl_run =
    CurlNotStarted string
  | CurlBroken string
  | CurlExit bool string string

definition parse_i32 :: "string \<Rightarrow> int option" where
  "parse_i32 s =
     (case s of
        c # r \<Rightarrow>
          if c = CHR ''-''
          then (if r \<noteq> [] \<and> list_all is_ascii_digit r \<and> undec_digits r \<le> 2 ^ 31
                then Some (- int (undec_digits r)) else None)
          else map_option int (parse_unsigned (2 ^ 31) s)
      | [] \<Rightarrow> None)"

definition post_json_with_curl ::
  "(string list \<Rightarrow> string \<Rightarrow> curl_run) \<Rightarrow> string \<Rightarrow> string \<Rightarrow> webhook_report option \<Rightarrow> (string, int) result" where
  "post_json_with_curl curl url content signature =
     (case curl (curl_args url signature) content of
        CurlNotStarted e \<Rightarrow> Err (''starting curl for approval webhook delivery: '' @ e)
      | CurlBroken e \<Rightarrow> Err e
      | CurlExit success out err \<Rightarrow>
          if \<not> success then Err (trim err)
          else Ok (case parse_i32 (trim out) of Some n \<Rightarrow> n | None \<Rightarrow> 0))"

section \<open>Delivery\<close>

datatype delivery_kind = Delivered | DeadLettered

record delivery_outcome =
  do_kind :: delivery_kind
  do_attempts :: "32 word"
  do_http_status :: "int option"
  do_error :: "string option"
  do_dead_letter_id :: "string option"
  do_signature :: "webhook_report option"

text \<open>The retry loop from attempt \<open>n\<close> on, with \<open>post k\<close> the answer to the \<open>k\<close>-th attempt: the
  attempt that succeeded with its status, or the last error; and how long it slept, in
  milliseconds.\<close>

function deliver_attempts ::
  "(nat \<Rightarrow> (string, int) result) \<Rightarrow> delivery_settings \<Rightarrow> nat \<Rightarrow> string option \<Rightarrow> nat \<Rightarrow>
     (string option + nat \<times> int) \<times> nat" where
  "deliver_attempts post settings n last_error slept =
     (if unat (ds_attempts settings) < n then (Inl last_error, slept)
      else
        (case post n of
           Ok status \<Rightarrow> (Inr (n, status), slept)
         | Err e \<Rightarrow>
             deliver_attempts post settings (n + 1) (Some e)
               (if n < unat (ds_attempts settings) \<and> 0 < ds_backoff_ms settings
                then slept + unat (ds_backoff_ms settings) else slept)))"
  by pat_completeness auto
termination
  by (relation "measure (\<lambda>(post, settings, n, _). unat (ds_attempts settings) + 1 - n)") auto

declare deliver_attempts.simps [simp del]

record delivery_stamp =
  dst_uuid :: string
  dst_now :: string

definition deliver_prepared_approval_webhook ::
  "dead_letter codec \<Rightarrow> (nat \<Rightarrow> string list \<Rightarrow> string \<Rightarrow> curl_run) \<Rightarrow> delivery_stamp \<Rightarrow> write_outcome \<Rightarrow>
     approval_request \<Rightarrow> webhook_source \<Rightarrow> string \<Rightarrow> string \<Rightarrow> prepared_webhook \<Rightarrow> delivery_settings \<Rightarrow>
     text_file \<Rightarrow> (delivery_error, delivery_outcome) result \<times> text_file" where
  "deliver_prepared_approval_webhook C curl st w request source provider url prepared settings dlq =
     (case fst (deliver_attempts
             (\<lambda>n. post_json_with_curl (curl n) url (pw_body prepared) (pw_signature prepared)) settings 1 None 0) of
        Inr (n, status) \<Rightarrow>
          (Ok \<lparr>do_kind = Delivered, do_attempts = of_nat n, do_http_status = Some status,
               do_error = None, do_dead_letter_id = None, do_signature = pw_signature prepared\<rparr>, dlq)
      | Inl last_error \<Rightarrow>
          (let error = (case last_error of Some e \<Rightarrow> e | None \<Rightarrow> ''webhook delivery failed'');
               letter =
                 \<lparr>dl_id = ''dlq_'' @ take 20 (dst_uuid st), dl_dead_lettered_at = dst_now st,
                  dl_request_id = req_id request, dl_source = webhook_source_str source,
                  dl_provider = provider, dl_url = url, dl_attempts = ds_attempts settings,
                  dl_error = error, dl_request = request, dl_payload = pw_payload prepared,
                  dl_body = pw_body prepared, dl_signature = pw_signature prepared\<rparr>
           in case dead_letter_append C w letter dlq of
                (res, dlq') \<Rightarrow>
                  (and_then res (\<lambda>_.
                     Ok \<lparr>do_kind = DeadLettered, do_attempts = ds_attempts settings,
                         do_http_status = None, do_error = Some error,
                         do_dead_letter_id = Some (dl_id letter),
                         do_signature = pw_signature prepared\<rparr>), dlq')))"

end
