(* ===== verification/Webhook_Laws.thy ===== *)
theory Webhook_Laws
  imports Webhook
begin

text \<open>
  Webhook signatures verify exactly when they should, deliveries are bounded in posts and in time,
  and a delivery that fails leaves its dead letter in the queue.
\<close>

section \<open>The comparison\<close>

lemma xor_eq_0_word: "xor a b = (0 :: 'a::len word) \<longleftrightarrow> a = b"
  by (simp add: bit_eq_iff bit_xor_iff)

lemma of_char_word_inject: "(of_char c :: 8 word) = of_char d \<longleftrightarrow> c = d"
proof -
  have "(word_of_nat (of_char c) :: 8 word) = word_of_nat (of_char d) \<longleftrightarrow> c = d"
    by (simp add: word_of_nat_eq_iff take_bit_eq_mod)
  then show ?thesis by (simp only: of_nat_of_char)
qed

lemma constant_time_eq_iff: "constant_time_eq a b \<longleftrightarrow> a = b"
proof -
  have acc: "foldl (\<lambda>diff (l, r). or diff (xor (of_char l) (of_char r))) acc ps = (0 :: 8 word) \<longleftrightarrow>
      acc = 0 \<and> (\<forall>(l, r) \<in> set ps. l = r)" for acc ps
    by (induction ps arbitrary: acc)
      (auto simp: or_eq_0_iff xor_eq_0_word of_char_word_inject)
  have "length a = length b \<Longrightarrow> (\<forall>(l, r) \<in> set (zip a b). l = r) \<longleftrightarrow> a = b"
    by (induction a b rule: list_induct2) auto
  then show ?thesis unfolding constant_time_eq_def acc by auto
qed

section \<open>Delivery\<close>

lemma deliver_attempts_result:
  assumes "deliver_attempts post s n err slept = (res, slept')"
  shows "case res of
      Inr (k, status) \<Rightarrow> n \<le> k \<and> k \<le> unat (ds_attempts s) \<and> post k = Ok status \<and>
        (\<forall>j. n \<le> j \<and> j < k \<longrightarrow> \<not> is_ok (post j)) \<and>
        slept' = slept + (k - n) * unat (ds_backoff_ms s)
    | Inl err' \<Rightarrow> (\<forall>j. n \<le> j \<and> j \<le> unat (ds_attempts s) \<longrightarrow> \<not> is_ok (post j)) \<and>
        err' = (if n \<le> unat (ds_attempts s) then Some (projl (post (unat (ds_attempts s)))) else err) \<and>
        slept' = slept + (unat (ds_attempts s) - n) * unat (ds_backoff_ms s)"
  using assms
proof (induction post s n err slept rule: deliver_attempts.induct)
  case (1 post s n err slept)
  let ?max = "unat (ds_attempts s)" and ?b = "unat (ds_backoff_ms s)"
  show ?case
  proof (cases "?max < n")
    case True
    with "1.prems" show ?thesis by (subst (asm) deliver_attempts.simps) auto
  next
    case False
    show ?thesis
    proof (cases "post n")
      case (Inr status)
      with "1.prems" False show ?thesis by (subst (asm) deliver_attempts.simps) auto
    next
      case (Inl e)
      let ?slept = "if n < ?max \<and> 0 < ds_backoff_ms s then slept + ?b else slept"
      have slept: "?slept = slept + (if n < ?max then ?b else 0)"
        by (auto simp: word_less_nat_alt)
      from "1.prems" False Inl have
        "deliver_attempts post s (n + 1) (Some e) ?slept = (res, slept')"
        by (subst (asm) deliver_attempts.simps) auto
      note IH = "1.IH" [OF False Inl this]
      have step: "(\<forall>j. n \<le> j \<and> P j \<longrightarrow> Q j) \<longleftrightarrow> (P n \<longrightarrow> Q n) \<and> (\<forall>j. n + 1 \<le> j \<and> P j \<longrightarrow> Q j)" for P Q
      proof -
        have le: "n \<le> j \<longleftrightarrow> j = n \<or> n + 1 \<le> j" for j by auto
        show ?thesis unfolding le by blast
      qed
      have sum: "(if n < m then b else 0) + (m - (n + 1)) * b = (m - n) * b" if "n \<le> m" for m b :: nat
        using that by (cases "n < m") (auto simp: Suc_diff_Suc [symmetric])
      show ?thesis
      proof (cases res)
        case (Inl err')
        have "\<not> Suc n \<le> ?max \<longrightarrow> post ?max = Inl e"
          using False \<open>post n = Inl e\<close> by (metis le_less_Suc_eq not_le not_less_eq_eq)
        with Inl IH \<open>post n = Inl e\<close> False sum [of ?max ?b] show ?thesis
          by (auto simp: step [of "\<lambda>j. j \<le> ?max"] slept le_less_Suc_eq)
      next
        case (Inr ks)
        obtain k status where "ks = (k, status)" by (cases ks)
        with Inr IH \<open>post n = Inl e\<close> False sum [of k ?b] show ?thesis
          by (auto simp: step [of "\<lambda>j. j < k"] slept)
      qed
    qed
  qed
qed

lemma unat_max_min:
  "unat (max a b) = max (unat a) (unat b)" "unat (min a b) = min (unat a) (unat (b :: 'a::len word))"
  by (simp_all add: max_def min_def word_le_nat_alt)

lemma settings_bounds:
  "1 \<le> unat (ds_attempts (delivery_settings_new a b))"
  "unat (ds_attempts (delivery_settings_new a b)) \<le> 10"
  "unat (ds_backoff_ms (delivery_settings_new a b)) \<le> 10000"
  by (simp_all add: delivery_settings_new_def unat_max_min MAX_ATTEMPTS_def MAX_BACKOFF_MS_def)

section \<open>The dead-letter queue\<close>

lemma dead_letter_list_append:
  assumes "codec_ok C" and "text_complete (file_text f)" and "encode_line C e = Ok line"
    and "dead_letter_list C None f = Ok old"
  shows "dead_letter_list C None (Some (file_text f @ line @ [NL])) = Ok (old @ [e])"
proof -
  have line: "line_ok line" "decode_line C line = Ok e"
    using codec_okD [OF assms(1,3)] by auto
  have "collect_results (map (\<lambda>l. map_err DeliveryJson (decode_line C l))
      (filter (\<lambda>l. \<not> is_blank l) (str_lines (file_text f)))) = Ok old"
    using assms(4) by (cases f) (auto simp: dead_letter_list_def str_lines_def)
  then show ?thesis
    using line line_ok_not_blank [OF line(1)]
    by (simp add: dead_letter_list_def str_lines_append [OF assms(2) line(1)] collect_results_append)
qed

lemma dead_letter_append_Ok:
  "dead_letter_append C w e f = (Ok u, f') \<Longrightarrow>
     \<exists>line. encode_line C e = Ok line \<and> f' = Some (file_text f @ line @ [NL])"
  by (auto simp: dead_letter_append_def map_err_Ok_iff append_line_Ok split: prod.splits)

lemma dead_letter_append_prefix:
  "dead_letter_append C w e f = (res, f') \<Longrightarrow> prefix (file_text f) (file_text f')"
  by (auto simp: dead_letter_append_def append_line_prefix split: prod.splits)

inductive dlq_step :: "dead_letter codec \<Rightarrow> text_file \<Rightarrow> dead_letter \<Rightarrow> text_file \<Rightarrow> bool" for C where
  "dead_letter_append C w e f = (res, f') \<Longrightarrow> dlq_step C f e f'"

interpretation dlq_log: append_log "dlq_step C" file_text
  by unfold_locales (auto elim!: dlq_step.cases dest: dead_letter_append_prefix)

section \<open>Properties\<close>

text \<open>C35. A webhook signature is accepted exactly when its timestamp is an RFC 3339 time no
  further than the maximum age from now, in either direction, and the signature is the one the
  sender computes for this body, secret and timestamp.\<close>

theorem webhook_verification_exact:
  "wv_ok (verify_webhook_body E now content secret timestamp signature max_age) \<longleftrightarrow>
     (\<exists>t. rfc3339_parse E timestamp = Some t \<and> \<bar>now - t\<bar> div nanos_per_second \<le> max_age \<and>
        signature = ''v1='' @ hex_encode E (hmac_sha256 E secret (timestamp @ ''.'' @ content)))"
  by (auto simp: verify_webhook_body_def Let_def constant_time_eq_iff webhook_signature_def
      split: option.splits)

text \<open>What is signed verifies: the report made at a time whose text reads back verifies with
  its own body, timestamp and signature at every later time within the maximum age, and the
  headers that are sent carry that timestamp and signature.\<close>

theorem signed_webhook_verifies:
  assumes "rfc3339_parse E (rfc3339_format E t) = Some t"
    and "t \<le> now" and "now - t < (max_age + 1) * nanos_per_second"
    and "report = sign_webhook_body_at E content secret key_id t"
  shows "wv_ok (verify_webhook_body E now content secret (wr_timestamp report) (wr_signature report) max_age) \<and>
    (TIMESTAMP_HEADER, wr_timestamp report) \<in> set (wr_headers report) \<and>
    (SIGNATURE_HEADER, wr_signature report) \<in> set (wr_headers report)"
proof -
  have "(now - t) div nanos_per_second < max_age + 1"
    using assms(3) by (simp add: nanos_per_second_def)
  with assms(1,2) show ?thesis
    by (simp add: assms(4) sign_webhook_body_at_def verify_webhook_body_def Let_def
        constant_time_eq_iff)
qed

theorem signed_webhook_verifies_witness:
  "wv_ok (verify_webhook_body demo_extern 3 ''{}'' ''secret''
     (wr_timestamp (sign_webhook_body_at demo_extern ''{}'' ''secret'' None 2))
     (wr_signature (sign_webhook_body_at demo_extern ''{}'' ''secret'' None 2)) 300)"
  using signed_webhook_verifies [of demo_extern 2 3 300 _ "''{}''" "''secret''" None]
  by (simp add: demo_extern_def dec_int_def nanos_per_second_def)

text \<open>C36. A delivery is bounded: whatever the environment asks for, at most 10 posts are made and
  at most 90 seconds are slept between them; the delivery ends at the first post that succeeds,
  and fails, with the error of the last post, only when every post of the settings has failed.\<close>

theorem delivery_bounded:
  "let s = delivery_settings_from_env vars; r = deliver_attempts post s 1 None 0 in
     1 \<le> unat (ds_attempts s) \<and> unat (ds_attempts s) \<le> 10 \<and> snd r \<le> 90000 \<and>
     (case fst r of
        Inr (k, status) \<Rightarrow> k \<in> {1..unat (ds_attempts s)} \<and> post k = Ok status \<and>
          list_all (\<lambda>j. \<not> is_ok (post j)) [1..<k]
      | Inl err \<Rightarrow> err = Some (projl (post (unat (ds_attempts s)))) \<and>
          list_all (\<lambda>j. \<not> is_ok (post j)) [1..<unat (ds_attempts s) + 1])"
proof -
  let ?s = "delivery_settings_from_env vars"
  obtain res slept where r: "deliver_attempts post ?s 1 None 0 = (res, slept)"
    by (cases "deliver_attempts post ?s 1 None 0")
  have b: "1 \<le> unat (ds_attempts ?s)" "unat (ds_attempts ?s) \<le> 10" "unat (ds_backoff_ms ?s) \<le> 10000"
    unfolding delivery_settings_from_env_def by (rule settings_bounds)+
  have slept: "(k - 1) * unat (ds_backoff_ms ?s) \<le> 90000" if "k \<le> 10" for k
    using mult_le_mono [of "k - 1" 9, OF _ b(3)] that by simp
  note result = deliver_attempts_result [OF r]
  show ?thesis
  proof (cases res)
    case (Inl err)
    with result b(1,2) slept [OF b(2)] show ?thesis
      by (simp add: b r [unfolded One_nat_def] Let_def list_all_iff)
  next
    case (Inr ks)
    obtain k status where ks: "ks = (k, status)" by (cases ks)
    with Inr result b(2) have "k \<le> 10" by simp
    with Inr ks result slept [of k] show ?thesis
      by (simp add: b r [unfolded One_nat_def] Let_def list_all_iff)
  qed
qed

text \<open>A delivery that fails is kept: when every post failed and the dead letter could be
  written, listing the queue gives the letters of before and then one with the returned id, the
  request, the body and its signature; a delivery that succeeds leaves the queue alone.\<close>

theorem failed_delivery_is_kept:
  assumes "codec_ok C" and "text_complete (file_text dlq)" and "dead_letter_list C None dlq = Ok old"
    and "deliver_prepared_approval_webhook C curl st w request source provider url prepared settings dlq =
      (Ok out, dlq')"
  shows "case do_kind out of
      Delivered \<Rightarrow> dlq' = dlq \<and> do_dead_letter_id out = None
    | DeadLettered \<Rightarrow> \<exists>letter. dead_letter_list C None dlq' = Ok (old @ [letter]) \<and>
        do_dead_letter_id out = Some (dl_id letter) \<and> dl_request letter = request \<and>
        dl_body letter = pw_body prepared \<and> dl_signature letter = pw_signature prepared \<and>
        do_error out = Some (dl_error letter)"
proof (cases "fst (deliver_attempts
    (\<lambda>n. post_json_with_curl (curl n) url (pw_body prepared) (pw_signature prepared)) settings 1 None 0)")
  case (Inr ks)
  with assms(4) show ?thesis
    by (auto simp: deliver_prepared_approval_webhook_def split: prod.splits)
next
  case (Inl err)
  define e where "e = (case err of Some e \<Rightarrow> e | None \<Rightarrow> ''webhook delivery failed'')"
  define letter where "letter =
    \<lparr>dl_id = ''dlq_'' @ take 20 (dst_uuid st), dl_dead_lettered_at = dst_now st,
     dl_request_id = req_id request, dl_source = webhook_source_str source,
     dl_provider = provider, dl_url = url, dl_attempts = ds_attempts settings,
     dl_error = e, dl_request = request, dl_payload = pw_payload prepared,
     dl_body = pw_body prepared, dl_signature = pw_signature prepared\<rparr>"
  obtain res where app: "dead_letter_append C w letter dlq = (res, dlq')"
      and out: "and_then res (\<lambda>_. Ok
        \<lparr>do_kind = DeadLettered, do_attempts = ds_attempts settings, do_http_status = None,
         do_error = Some e, do_dead_letter_id = Some (dl_id letter),
         do_signature = pw_signature prepared\<rparr>) = Ok out"
    using assms(4) Inl
    by (auto simp: deliver_prepared_approval_webhook_def Let_def e_def letter_def split: prod.splits)
  then have res: "res = Ok ()" by (cases res) auto
  obtain line where "encode_line C letter = Ok line" "dlq' = Some (file_text dlq @ line @ [NL])"
    using dead_letter_append_Ok [OF app [unfolded res]] by blast
  then have "dead_letter_list C None dlq' = Ok (old @ [letter])"
    using dead_letter_list_append [OF assms(1,2) _ assms(3)] by simp
  moreover have "do_kind out = DeadLettered" "do_dead_letter_id out = Some (dl_id letter)"
      "do_error out = Some (dl_error letter)"
    using out by (auto simp: res letter_def)
  moreover have "dl_request letter = request" "dl_body letter = pw_body prepared"
      "dl_signature letter = pw_signature prepared"
    by (simp_all add: letter_def)
  ultimately show ?thesis by auto
qed

text \<open>A codec for the example: it prints the one letter of the example.\<close>

definition demo_prepared :: prepared_webhook where
  "demo_prepared = \<lparr>pw_payload = JNull, pw_body = ''null'', pw_signature = None\<rparr>"

definition demo_letter :: dead_letter where
  "demo_letter =
     \<lparr>dl_id = ''dlq_u'', dl_dead_lettered_at = ''t'', dl_request_id = ''a'', dl_source = ''daemon'',
      dl_provider = ''generic'', dl_url = ''http://h'', dl_attempts = 2, dl_error = ''refused'',
      dl_request =
        \<lparr>req_id = ''a'', req_created_at = 0, req_tool = ''Bash'', req_input_hash = ''h'',
         req_required_scope = ''s'', req_bind_input = False, req_reason = [], req_capabilities = [],
         req_matched_rule = None, req_policy_version = ''v''\<rparr>,
      dl_payload = JNull, dl_body = ''null'', dl_signature = None\<rparr>"

definition demo_letter_codec :: "dead_letter codec" where
  "demo_letter_codec =
     \<lparr>encode_line = (\<lambda>l. if l = demo_letter then Ok ''L'' else Err ''unsupported''),
      decode_line = (\<lambda>s. if s = ''L'' then Ok demo_letter else Err ''syntax'')\<rparr>"

lemma codec_ok_demo_letter: "codec_ok demo_letter_codec"
proof -
  have "line_ok ''L''" by code_simp
  then show ?thesis by (auto simp: codec_ok_def demo_letter_codec_def)
qed

theorem failed_delivery_is_kept_witness:
  "\<exists>letter. dead_letter_list demo_letter_codec None (Some (''L'' @ [NL])) = Ok [letter] \<and>
     dl_id letter = ''dlq_u''"
proof -
  let ?r = "deliver_prepared_approval_webhook demo_letter_codec (\<lambda>n args content. CurlBroken ''refused'')
    \<lparr>dst_uuid = ''u'', dst_now = ''t''\<rparr> Wrote (dl_request demo_letter) SourceDaemon ''generic'' ''http://h''
    demo_prepared \<lparr>ds_attempts = 2, ds_backoff_ms = 250\<rparr> None"
  have r: "?r = (Ok \<lparr>do_kind = DeadLettered, do_attempts = 2, do_http_status = None,
      do_error = Some ''refused'', do_dead_letter_id = Some ''dlq_u'', do_signature = None\<rparr>,
      Some (''L'' @ [NL]))"
    by code_simp
  have "dead_letter_list demo_letter_codec None None = Ok []" by (simp add: dead_letter_list_def)
  from failed_delivery_is_kept [OF codec_ok_demo_letter _ this r] show ?thesis by auto
qed

end
