(* ===== verification/Runtime.thy ===== *)
theory Runtime
  imports Approval Mapper Picto Evaluator
begin

text \<open>
  The shared runtime (\<open>crates/gommage-core/src/runtime.rs\<close>): the home directory, the signing key,
  expeditions, the layers of the active policy, and the policy read model with its fingerprint.
  The process environment is \<open>vars\<close>, the user's home directory as the system reports it
  \<open>os_home\<close>. The calls of \<open>ensure\<close> are a list of steps on the part of the disk it
  touches, of which a fault cuts off the rest.
\<close>

section \<open>Home\<close>

definition home_dir :: "env \<Rightarrow> path option \<Rightarrow> path" where
  "home_dir vars os_home =
     (case vars ''GOMMAGE_HOME'' of
        Some p \<Rightarrow> path_of p
      | None \<Rightarrow> path_join (case os_home of Some h \<Rightarrow> h | None \<Rightarrow> path_of ''.'') ''.gommage'')"

definition default_policy_env :: "env \<Rightarrow> env" where
  "default_policy_env vars =
     (case vars ''HOME'' of Some home \<Rightarrow> [''HOME'' \<mapsto> home] | None \<Rightarrow> Map.empty)"

record home_layout =
  hl_root :: path
  hl_policy_dir :: path
  hl_capabilities_dir :: path
  hl_pictos_db :: path
  hl_approvals_log :: path
  hl_approval_webhook_dlq :: path
  hl_audit_log :: path
  hl_state_db :: path
  hl_key_file :: path
  hl_expedition_file :: path
  hl_socket :: path
  hl_update_check :: path

definition home_layout_at :: "path \<Rightarrow> home_layout" where
  "home_layout_at root =
     \<lparr>hl_root = root,
      hl_policy_dir = path_join root ''policy.d'',
      hl_capabilities_dir = path_join root ''capabilities.d'',
      hl_pictos_db = path_join root ''pictos.sqlite'',
      hl_approvals_log = path_join root ''approvals.jsonl'',
      hl_approval_webhook_dlq = path_join root ''approval-webhook-dlq.jsonl'',
      hl_audit_log = path_join root ''audit.log'',
      hl_state_db = path_join root ''state.sqlite'',
      hl_key_file = path_join root ''key.ed25519'',
      hl_expedition_file = path_join root ''expedition.json'',
      hl_socket = path_join root ''gommage.sock'',
      hl_update_check = path_join root ''update-check.json''\<rparr>"

definition home_layout_default :: "env \<Rightarrow> path option \<Rightarrow> home_layout" where
  "home_layout_default vars os_home = home_layout_at (home_dir vars os_home)"

text \<open>The modes of the directories and the key file with its mode.\<close>

record home_disk =
  hd_dirs :: "path \<Rightarrow> nat option"
  hd_key :: "(string \<times> nat) option"

definition create_dir :: "nat \<Rightarrow> path \<Rightarrow> home_disk \<Rightarrow> home_disk" where
  "create_dir mode p d =
     (if hd_dirs d p = None then d\<lparr>hd_dirs := (hd_dirs d)(p \<mapsto> mode)\<rparr> else d)"

definition set_dir_mode :: "nat \<Rightarrow> path \<Rightarrow> home_disk \<Rightarrow> home_disk" where
  "set_dir_mode mode p d = d\<lparr>hd_dirs := (hd_dirs d)(p := map_option (\<lambda>_. mode) (hd_dirs d p))\<rparr>"

definition write_key :: "nat \<Rightarrow> string \<Rightarrow> home_disk \<Rightarrow> home_disk" where
  "write_key mode bytes d =
     d\<lparr>hd_key := Some (bytes, case hd_key d of Some (_, m) \<Rightarrow> m | None \<Rightarrow> mode)\<rparr>"

definition set_key_mode :: "nat \<Rightarrow> home_disk \<Rightarrow> home_disk" where
  "set_key_mode mode d = d\<lparr>hd_key := map_option (\<lambda>(bytes, _). (bytes, mode)) (hd_key d)\<rparr>"

text \<open>\<open>dmode\<close> and \<open>fmode\<close> are what the umask gives new directories and files, \<open>fresh\<close> the
  key generated; 448 and 384 are the octal 700 and 600.\<close>

definition ensure_calls ::
  "nat \<Rightarrow> nat \<Rightarrow> string \<Rightarrow> home_layout \<Rightarrow> home_disk \<Rightarrow> (home_disk \<Rightarrow> home_disk) list" where
  "ensure_calls dmode fmode fresh L d =
     map (create_dir dmode) [hl_root L, hl_policy_dir L, hl_capabilities_dir L] @
     map (set_dir_mode 448) [hl_root L, hl_policy_dir L, hl_capabilities_dir L] @
     (if hd_key d = None then [write_key fmode fresh, set_key_mode 384] else [])"

definition ensure ::
  "nat \<Rightarrow> nat \<Rightarrow> string \<Rightarrow> (nat \<times> string) option \<Rightarrow> home_layout \<Rightarrow> home_disk \<Rightarrow>
     (gommage_error, unit) result \<times> home_disk" where
  "ensure dmode fmode fresh fault L d =
     (let calls = ensure_calls dmode fmode fresh L d
      in case fault of
           None \<Rightarrow> (Ok (), fold (\<lambda>c. c) calls d)
         | Some (n, e) \<Rightarrow>
             if n < length calls then (Err (Io e), fold (\<lambda>c. c) (take n calls) d)
             else (Ok (), fold (\<lambda>c. c) calls d))"

text \<open>\<open>file\<close> is what reading the key file gives.\<close>

definition load_key :: "(string, string) result \<Rightarrow> (gommage_error, string) result" where
  "load_key file =
     and_then (map_err Io file) (\<lambda>bytes. if length bytes \<noteq> 32 then Err BadSignature else Ok bytes)"

definition load_verifying_key ::
  "extern \<Rightarrow> (string, string) result \<Rightarrow> (gommage_error, string) result" where
  "load_verifying_key E file = and_then (load_key file) (\<lambda>sk. Ok (ed_public E sk))"

section \<open>Expeditions\<close>

record expedition =
  ex_name :: string
  ex_root :: path
  ex_started_at :: time

record expedition_codec =
  ex_to_json :: "expedition \<Rightarrow> (string, string) result"
  ex_from_json :: "string \<Rightarrow> (string, expedition) result"

text \<open>Loading reads the file system; saving and clearing give the new content of the file.
  \<open>fs::write\<close> opens the file, truncates it and writes: it may fail to open, which leaves the file,
  or stop after a number of bytes, which leaves those.\<close>

definition fs_overwrite :: "write_outcome \<Rightarrow> string \<Rightarrow> text_file \<Rightarrow> (string, unit) result \<times> text_file" where
  "fs_overwrite w bytes file =
     (case w of
        Wrote \<Rightarrow> (Ok (), Some bytes)
      | Unopened e \<Rightarrow> (Err e, file)
      | Torn n e \<Rightarrow> (Err e, Some (take n bytes)))"

definition expedition_save ::
  "expedition_codec \<Rightarrow> write_outcome \<Rightarrow> expedition \<Rightarrow> text_file \<Rightarrow>
     (gommage_error, unit) result \<times> text_file" where
  "expedition_save C w ex file =
     (case ex_to_json C ex of
        Err e \<Rightarrow> (Err (Json e), file)
      | Ok json \<Rightarrow> (case fs_overwrite w json file of (res, file') \<Rightarrow> (map_err Io res, file')))"

definition expedition_load ::
  "expedition_codec \<Rightarrow> fs \<Rightarrow> path \<Rightarrow> (gommage_error, expedition option) result" where
  "expedition_load C F file =
     (if \<not> fs_exists F file then Ok None
      else and_then (map_err Io (fs_read F file)) (\<lambda>bytes.
             if bytes = [] then Ok None
             else and_then (map_err Json (ex_from_json C bytes)) (\<lambda>ex. Ok (Some ex))))"

definition expedition_clear ::
  "string option \<Rightarrow> text_file \<Rightarrow> (gommage_error, unit) result \<times> text_file" where
  "expedition_clear fault file =
     (case file of
        None \<Rightarrow> (Ok (), None)
      | Some t \<Rightarrow> (case fault of Some e \<Rightarrow> (Err (Io e), file) | None \<Rightarrow> (Ok (), None)))"

definition policy_env :: "env \<Rightarrow> expedition \<Rightarrow> env" where
  "policy_env vars ex =
     (default_policy_env vars)
       (''EXPEDITION_NAME'' \<mapsto> ex_name ex, ''EXPEDITION_ROOT'' \<mapsto> path_text (ex_root ex))"

section \<open>Policy layers\<close>

definition ORG_POLICY_DIR_ENV :: string where
  "ORG_POLICY_DIR_ENV = ''GOMMAGE_ORG_POLICY_DIR''"

definition PROJECT_POLICY_DIR_ENV :: string where
  "PROJECT_POLICY_DIR_ENV = ''GOMMAGE_PROJECT_POLICY_DIR''"

definition explicit_policy_dir :: "env \<Rightarrow> fs \<Rightarrow> string \<Rightarrow> (gommage_error, path option) result" where
  "explicit_policy_dir vars F var =
     (case vars var of
        None \<Rightarrow> Ok None
      | Some raw \<Rightarrow>
          (let trimmed = trim raw
           in if trimmed = [] then Ok None
              else if \<not> fs_is_dir F (path_of trimmed)
              then Err (PolicyError (var @ '' points to '' @ trimmed @ '', but it is not a directory''))
              else Ok (Some (path_of trimmed))))"

definition push_policy_layer :: "policy_layer list \<Rightarrow> string \<Rightarrow> path \<Rightarrow> policy_layer list" where
  "push_policy_layer layers name dir =
     (if list_ex (\<lambda>l. layer_dir l = dir) layers then layers
      else layers @ [\<lparr>layer_name = name, layer_dir = dir\<rparr>])"

definition active_policy_layers ::
  "env \<Rightarrow> fs \<Rightarrow> home_layout \<Rightarrow> expedition option \<Rightarrow> (gommage_error, policy_layer list) result" where
  "active_policy_layers vars F L ex =
     and_then (explicit_policy_dir vars F ORG_POLICY_DIR_ENV) (\<lambda>org.
     and_then (explicit_policy_dir vars F PROJECT_POLICY_DIR_ENV) (\<lambda>project.
       let with_org = (case org of Some dir \<Rightarrow> push_policy_layer [] ''org'' dir | None \<Rightarrow> []);
           with_project =
             (case project of
                Some dir \<Rightarrow> push_policy_layer with_org ''project'' dir
              | None \<Rightarrow>
                  (case ex of
                     Some x \<Rightarrow>
                       (let dir = path_join (path_join (ex_root x) ''.gommage'') ''policy.d''
                        in if fs_is_dir F dir then push_policy_layer with_org ''project'' dir
                           else with_org)
                   | None \<Rightarrow> with_org))
       in Ok (push_policy_layer with_project ''user'' (hl_policy_dir L))))"

definition load_active_policy ::
  "extern \<Rightarrow> policy_lib \<Rightarrow> env \<Rightarrow> fs \<Rightarrow> home_layout \<Rightarrow> expedition option \<Rightarrow> env \<Rightarrow>
     (gommage_error, policy) result" where
  "load_active_policy E PL vars F L ex env =
     and_then (active_policy_layers vars F L ex) (\<lambda>layers. load_from_layers E PL F layers env)"

section \<open>The read model\<close>

record read_model =
  rm_mapper :: mapper
  rm_policy :: policy
  rm_expedition :: "expedition option"

record runtime_lib =
  rl_policy :: policy_lib
  rl_mapper :: mapper_lib
  rl_expedition :: expedition_codec

definition read_model_load ::
  "extern \<Rightarrow> runtime_lib \<Rightarrow> env \<Rightarrow> fs \<Rightarrow> home_layout \<Rightarrow> (gommage_error, read_model) result" where
  "read_model_load E RL vars F L =
     and_then (expedition_load (rl_expedition RL) F (hl_expedition_file L)) (\<lambda>ex.
       let env = (case ex of Some x \<Rightarrow> policy_env vars x | None \<Rightarrow> default_policy_env vars)
       in and_then (load_mapper_from_dir E (rl_mapper RL) F (hl_capabilities_dir L)) (\<lambda>m.
          and_then (load_active_policy E (rl_policy RL) vars F L ex env) (\<lambda>p.
            Ok \<lparr>rm_mapper = m, rm_policy = p, rm_expedition = ex\<rparr>)))"

definition CONFIG_ACTIVATION_SCOPE :: string where
  "CONFIG_ACTIVATION_SCOPE = ''harness.configure''"

definition config_fingerprint :: "extern \<Rightarrow> string \<Rightarrow> string \<Rightarrow> string" where
  "config_fingerprint E pversion mversion =
     ''sha256:'' @ sha256_hex E
       (''policy:'' @ pversion @ [NL] @ ''mapper:'' @ mversion)"

definition read_model_fingerprint :: "extern \<Rightarrow> read_model \<Rightarrow> string" where
  "read_model_fingerprint E m =
     config_fingerprint E (policy_version (rm_policy m)) (mapper_version (rm_mapper m))"

section \<open>The runtime\<close>

record runtime =
  rt_mapper :: mapper
  rt_policy :: policy
  rt_pictos :: picto_store
  rt_approvals :: text_file
  rt_expedition :: "expedition option"
  rt_layout :: home_layout

text \<open>\<open>ensured\<close> is the outcome of \<open>ensure\<close> and \<open>pictos\<close> what opening the SQLite file
  gives.\<close>

definition runtime_open ::
  "extern \<Rightarrow> runtime_lib \<Rightarrow> env \<Rightarrow> fs \<Rightarrow> (gommage_error, unit) result \<Rightarrow> (gommage_error, picto_store) result \<Rightarrow>
     text_file \<Rightarrow> home_layout \<Rightarrow> (gommage_error, runtime) result" where
  "runtime_open E RL vars F ensured pictos approvals L =
     and_then ensured (\<lambda>_.
     and_then (read_model_load E RL vars F L) (\<lambda>m.
     and_then pictos (\<lambda>store.
       Ok \<lparr>rt_mapper = rm_mapper m, rt_policy = rm_policy m, rt_pictos = store,
           rt_approvals = approvals, rt_expedition = rm_expedition m, rt_layout = L\<rparr>)))"

definition install_read_model :: "read_model \<Rightarrow> runtime \<Rightarrow> runtime" where
  "install_read_model m rt =
     rt\<lparr>rt_mapper := rm_mapper m, rt_policy := rm_policy m, rt_expedition := rm_expedition m\<rparr>"

definition reload_policy ::
  "extern \<Rightarrow> runtime_lib \<Rightarrow> env \<Rightarrow> fs \<Rightarrow> runtime \<Rightarrow> (gommage_error, unit) result \<times> runtime" where
  "reload_policy E RL vars F rt =
     (case read_model_load E RL vars F (rt_layout rt) of
        Err e \<Rightarrow> (Err e, rt)
      | Ok m \<Rightarrow> (Ok (), install_read_model m rt))"

definition runtime_fingerprint :: "extern \<Rightarrow> runtime \<Rightarrow> string" where
  "runtime_fingerprint E rt =
     config_fingerprint E (policy_version (rt_policy rt)) (mapper_version (rt_mapper rt))"

section \<open>Laws\<close>

lemma default_policy_env_apply:
  "default_policy_env vars k = (if k = ''HOME'' then vars ''HOME'' else None)"
  by (simp add: default_policy_env_def split: option.split)

lemma push_policy_layer_dirs:
  "distinct (map layer_dir ls) \<Longrightarrow> distinct (map layer_dir (push_policy_layer ls name dir))"
  "set (map layer_dir (push_policy_layer ls name dir)) = insert dir (set (map layer_dir ls))"
  by (auto simp: push_policy_layer_def list_ex_iff)

lemma push_policy_layer_prefix: "prefix ls (push_policy_layer ls name dir)"
  by (simp add: push_policy_layer_def)

lemma read_model_policy_wf: "read_model_load E RL vars F L = Ok m \<Longrightarrow> policy_wf (rm_policy m)"
  by (auto simp: read_model_load_def load_active_policy_def and_then_Ok_iff Let_def
      intro: load_from_layers_wf)

lemma config_fingerprint_parts:
  assumes "NL \<notin> set p" and "NL \<notin> set p'"
    and "''policy:'' @ p @ [NL] @ ''mapper:'' @ m = ''policy:'' @ p' @ [NL] @ ''mapper:'' @ m'"
  shows "p = p' \<and> m = m'"
proof -
  have s: "split_once NL (p @ NL # ''mapper:'' @ m) = Some (p, ''mapper:'' @ m)"
    using assms(1) by (simp add: split_once_Some_iff)
  have s': "split_once NL (p' @ NL # ''mapper:'' @ m') = Some (p', ''mapper:'' @ m')"
    using assms(2) by (simp add: split_once_Some_iff)
  have "p @ NL # ''mapper:'' @ m = p' @ NL # ''mapper:'' @ m'"
    using assms(3) by simp
  then have "Some (p, ''mapper:'' @ m) = Some (p', ''mapper:'' @ m')"
    unfolding s [symmetric] s' [symmetric] by (rule arg_cong)
  then show ?thesis by simp
qed

end
