(* ===== verification/Runtime_Laws.thy ===== *)
theory Runtime_Laws
  imports Runtime
begin

text \<open>
  The home directory: \<open>ensure\<close> never replaces a signing key, and what an interrupted first run
  leaves behind.
\<close>

lemma create_dir_key [simp]: "hd_key (create_dir mode p d) = hd_key d"
  by (simp add: create_dir_def)

lemma set_dir_mode_key [simp]: "hd_key (set_dir_mode mode p d) = hd_key d"
  by (simp add: set_dir_mode_def)

lemma fold_keeps_key:
  "(\<And>c e. c \<in> set calls \<Longrightarrow> hd_key (c e) = hd_key e) \<Longrightarrow> hd_key (fold (\<lambda>c. c) calls d) = hd_key d"
  by (induction calls arbitrary: d) simp_all

text \<open>The signing key is created once: no run of \<open>ensure\<close>, complete or interrupted, changes a key
  that exists, and a run that succeeds where there was none makes one of mode 600.\<close>

lemma ensure_keeps_key:
  assumes "hd_key d = Some key"
  shows "hd_key (snd (ensure dmode fmode fresh fault L d)) = Some key"
proof -
  have keep: "hd_key (c e) = hd_key e" if "c \<in> set (ensure_calls dmode fmode fresh L d)" for c e
    using that assms by (auto simp: ensure_calls_def)
  have "hd_key (fold (\<lambda>c. c) (take n (ensure_calls dmode fmode fresh L d)) d) = Some key" for n
    unfolding assms [symmetric] by (rule fold_keeps_key) (auto dest: in_set_takeD intro: keep)
  moreover have "hd_key (fold (\<lambda>c. c) (ensure_calls dmode fmode fresh L d) d) = Some key"
    unfolding assms [symmetric] by (rule fold_keeps_key) (rule keep)
  ultimately show ?thesis by (simp add: ensure_def Let_def split: option.split)
qed

lemma ensure_makes_key:
  assumes "hd_key d = None" and "fst (ensure dmode fmode fresh fault L d) = Ok ()"
  shows "hd_key (snd (ensure dmode fmode fresh fault L d)) = Some (fresh, 384)"
proof -
  let ?dirs = "map (create_dir dmode) [hl_root L, hl_policy_dir L, hl_capabilities_dir L] @
    map (set_dir_mode 448) [hl_root L, hl_policy_dir L, hl_capabilities_dir L]"
  have "snd (ensure dmode fmode fresh fault L d) = set_key_mode 384 (write_key fmode fresh (fold (\<lambda>c. c) ?dirs d))"
    using assms by (auto simp: ensure_def ensure_calls_def Let_def split: option.splits if_splits)
  moreover have "hd_key (fold (\<lambda>c. c) ?dirs d) = None"
    using assms(1) by simp
  ultimately show ?thesis by (simp add: set_key_mode_def write_key_def)
qed

text \<open>A first run that ends between writing the key and restricting its mode leaves the key with
  the mode the umask gives, and every later run leaves it so.\<close>

lemma interrupted_ensure_leaves_mode:
  assumes "hd_key d = None"
  shows "fst (ensure dmode fmode fresh (Some (7, e)) L d) = Err (Io e)"
    and "hd_key (snd (ensure dmode fmode fresh (Some (7, e)) L d)) = Some (fresh, fmode)"
    and "hd_key (snd (ensure dmode' fmode' fresh' None L (snd (ensure dmode fmode fresh (Some (7, e)) L d)))) =
      Some (fresh, fmode)"
proof -
  show "fst (ensure dmode fmode fresh (Some (7, e)) L d) = Err (Io e)"
    using assms by (simp add: ensure_def ensure_calls_def Let_def)
  show key: "hd_key (snd (ensure dmode fmode fresh (Some (7, e)) L d)) = Some (fresh, fmode)"
    using assms by (simp add: ensure_def ensure_calls_def Let_def write_key_def)
  show "hd_key (snd (ensure dmode' fmode' fresh' None L (snd (ensure dmode fmode fresh (Some (7, e)) L d)))) =
      Some (fresh, fmode)"
    by (rule ensure_keeps_key [OF key])
qed

end
