(* ===== verification/Fingerprint.thy ===== *)
theory Fingerprint
  imports Runtime
begin

text \<open>
  What the configuration fingerprint pins. The hashed bytes are read back into the fields they were
  made of, so that, unless SHA-256 collides on them, two read models with the same fingerprint were
  loaded from the same file contents and decide every call alike.
\<close>

section \<open>Fields\<close>

definition fields_bytes :: "string list \<Rightarrow> string" where
  "fields_bytes fs = concat (map (\<lambda>f. f @ [NUL]) fs)"

lemma fields_bytes_simps [simp]:
  "fields_bytes [] = []" "fields_bytes (f # fs) = f @ NUL # fields_bytes fs"
  "fields_bytes (fs @ gs) = fields_bytes fs @ fields_bytes gs"
  by (simp_all add: fields_bytes_def)

lemma fields_bytes_concat: "concat (map (\<lambda>x. fields_bytes (f x)) xs) = fields_bytes (concat (map f xs))"
  by (induction xs) simp_all

definition nul_free :: "string \<Rightarrow> bool" where
  "nul_free s \<longleftrightarrow> NUL \<notin> set s"

lemma delimited_eq:
  assumes "nul_free f" and "nul_free g" and "f @ NUL # x = g @ NUL # y"
  shows "f = g \<and> x = y"
proof -
  have "takeWhile (\<lambda>c. c \<noteq> NUL) (f @ NUL # x) = f" "takeWhile (\<lambda>c. c \<noteq> NUL) (g @ NUL # y) = g"
    using assms(1,2) by (simp_all add: nul_free_def takeWhile_append)
  with assms(3) show ?thesis by auto
qed

lemma fields_bytes_inj:
  "list_all nul_free fs \<Longrightarrow> list_all nul_free gs \<Longrightarrow> fields_bytes fs = fields_bytes gs \<Longrightarrow> fs = gs"
proof (induction fs arbitrary: gs)
  case Nil
  then show ?case by (cases gs) auto
next
  case (Cons f fs)
  show ?case
  proof (cases gs)
    case (Cons g gs')
    with Cons.prems have free: "nul_free f" "nul_free g" "list_all nul_free fs" "list_all nul_free gs'"
      and "f @ NUL # fields_bytes fs = g @ NUL # fields_bytes gs'" by simp_all
    from delimited_eq [OF free(1,2) this(5)] Cons.IH [OF free(3,4)] Cons show ?thesis by simp
  qed (use Cons.prems(3) in simp)
qed

lemma concat_uniform:
  assumes "concat xs = concat ys" and "\<And>x. x \<in> set xs \<union> set ys \<Longrightarrow> length x = k" and "0 < k"
  shows "xs = ys"
  using assms(1,2)
proof (induction xs arbitrary: ys)
  case Nil
  with assms(3) show ?case by (cases ys) fastforce+
next
  case (Cons x xs)
  with assms(3) obtain y ys' where ys: "ys = y # ys'" by (cases ys) fastforce+
  with Cons.prems have "length x = length y" by simp
  with Cons ys show ?case by simp
qed

section \<open>Policy files\<close>

definition file_content :: "fs \<Rightarrow> env \<Rightarrow> layered_file \<Rightarrow> string" where
  "file_content F env f = substitute_env (projr (fs_read F (file_path f))) env"

definition file_fields :: "hash_mode \<Rightarrow> layered_file \<Rightarrow> string \<Rightarrow> string list" where
  "file_fields mode f contents =
     (case mode of
        Legacy root \<Rightarrow> [''file'', relative_text root (file_path f), ''content'', contents]
      | Layered \<Rightarrow> [''layer'', file_layer f, ''file'', relative_text (file_root f) (file_path f),
          ''content'', contents])"

lemma file_hash_bytes_fields: "file_hash_bytes mode f c = fields_bytes (file_fields mode f c)"
  by (simp add: file_hash_bytes_def file_fields_def update_policy_hash_def
      update_layered_policy_hash_def split: hash_mode.split)

lemma last_file_field: "last (file_fields mode f c) = c" "file_fields mode f c \<noteq> []"
  by (simp_all add: file_fields_def split: hash_mode.split)

lemma load_file_ok:
  assumes "load_file L F env mode f = Ok (b, rs)"
  shows "b = fields_bytes (file_fields mode f (file_content F env f))"
    and "\<exists>raws. yaml_rules L (file_content F env f) = Ok raws \<and> compile_rules L (file_path f) raws = Ok rs"
  using assms
  by (auto simp: load_file_def and_then_Ok_iff Let_def file_hash_bytes_fields file_content_def map_err_Ok_iff)

definition files_message :: "fs \<Rightarrow> env \<Rightarrow> hash_mode \<Rightarrow> layered_file list \<Rightarrow> string" where
  "files_message F env mode files =
     concat (map (\<lambda>f. file_hash_bytes mode f (file_content F env f)) files)"

text \<open>The rules that the text of a file gives.\<close>

definition from_text ::
  "(string \<Rightarrow> (string, 'r) result) \<Rightarrow> (path \<Rightarrow> 'r \<Rightarrow> (gommage_error, 'x list) result) \<Rightarrow> ('f \<Rightarrow> string) \<Rightarrow>
     ('f \<Rightarrow> path) \<Rightarrow> 'f \<Rightarrow> 'x list \<Rightarrow> bool" where
  "from_text parse compile content location f rs \<longleftrightarrow>
     (\<exists>raws. parse (content f) = Ok raws \<and> compile (location f) raws = Ok rs)"

lemma load_policy_files_ok:
  assumes "load_policy_files E L F files env mode = Ok p"
  shows "policy_version p = ''sha256:'' @ sha256_hex E (files_message F env mode files)"
    and "\<exists>ruless. policy_rules p = concat ruless \<and>
      list_all2 (from_text (yaml_rules L) (compile_rules L) (file_content F env) file_path) files ruless"
proof -
  obtain loaded where l: "list_all2 (\<lambda>f y. load_file L F env mode f = Ok y) files loaded"
    and p: "policy_rules p = concat (map snd loaded)"
      "policy_version p = ''sha256:'' @ sha256_hex E (concat (map fst loaded))"
    using assms by (auto simp: load_policy_files_def and_then_Ok_iff collect_results_map_Ok_iff)
  have "map fst loaded = map (\<lambda>f. file_hash_bytes mode f (file_content F env f)) files"
    using l by (induction rule: list_all2_induct) (auto simp: file_hash_bytes_fields dest: load_file_ok(1))
  then show "policy_version p = ''sha256:'' @ sha256_hex E (files_message F env mode files)"
    by (simp add: p files_message_def)
  have "list_all2 (from_text (yaml_rules L) (compile_rules L) (file_content F env) file_path) files (map snd loaded)"
    using l unfolding list_all2_map2 by (rule list_all2_mono) (auto simp: from_text_def dest: load_file_ok(2))
  then show "\<exists>ruless. policy_rules p = concat ruless \<and>
      list_all2 (from_text (yaml_rules L) (compile_rules L) (file_content F env) file_path) files ruless"
    using p(1) by blast
qed

lemma compile_rules_same:
  "compile_rules L file raws = Ok rs \<Longrightarrow> compile_rules L file' raws = Ok rs' \<Longrightarrow> list_all2 same_rule rs rs'"
  using compile_rules_rel [of L "file" raws file'] by simp

lemma same_contents_same:
  assumes "list_all2 (from_text parse compile g h) files rss"
    and "list_all2 (from_text parse compile g' h) files' rss'"
    and "map g files = map g' files'"
    and same: "\<And>x y raws rs rs'. compile x raws = Ok rs \<Longrightarrow> compile y raws = Ok rs' \<Longrightarrow> list_all2 R rs rs'"
  shows "list_all2 R (concat rss) (concat rss')"
  using assms(1-3)
proof (induction arbitrary: files' rss' rule: list_all2_induct)
  case (Cons f files rs rss)
  then obtain f' files1 where files': "files' = f' # files1" "g f = g' f'" "map g files = map g' files1" by auto
  with Cons.prems(1) obtain rs' rss1 where rss': "rss' = rs' # rss1"
    "from_text parse compile g' h f' rs'"
    and rest: "list_all2 (from_text parse compile g' h) files1 rss1"
    by (auto simp: list_all2_Cons1)
  have "list_all2 R rs rs'" using Cons.hyps(1) rss'(2) files'(2) same by (auto simp: from_text_def)
  moreover have "list_all2 R (concat rss) (concat rss1)" by (rule Cons.IH [OF rest files'(3)])
  ultimately show ?case using rss'(1) by (simp add: list_all2_appendI)
qed simp

text \<open>The YAML reader accepts no NUL, and paths hold none.\<close>

definition file_nul_free :: "layered_file \<Rightarrow> bool" where
  "file_nul_free f \<longleftrightarrow> nul_free (file_layer f) \<and> list_all nul_free (file_path f)"

lemma nul_free_join: "list_all nul_free ps \<Longrightarrow> nul_free (join ''/'' ps)"
  by (induction ps) (auto simp: join_Cons nul_free_def NUL_def)

lemma strip_path_set: "strip_path p q = Some r \<Longrightarrow> set r \<subseteq> set p"
  by (induction p q rule: strip_path.induct) (auto split: if_splits)

lemma nul_free_relative: "list_all nul_free file \<Longrightarrow> nul_free (relative_text root file)"
  using strip_path_set [of "file" root]
  by (force simp: relative_text_def list_all_iff split: option.split intro!: nul_free_join)

lemma file_fields_nul_free:
  assumes "file_nul_free f" and "nul_free c"
  shows "list_all nul_free (file_fields mode f c)"
proof -
  have "nul_free ''file''" "nul_free ''layer''" "nul_free ''content''"
    by (simp_all add: nul_free_def NUL_def)
  with assms nul_free_relative show ?thesis
    by (auto simp: file_fields_def file_nul_free_def split: hash_mode.split)
qed

lemma files_message_fields:
  "files_message F env mode files =
     fields_bytes (concat (map (\<lambda>f. file_fields mode f (file_content F env f)) files))"
  by (simp add: files_message_def file_hash_bytes_fields fields_bytes_concat)

lemma same_message_same_contents:
  assumes "list_all file_nul_free files" and "list_all file_nul_free files'"
    and "list_all (\<lambda>f. nul_free (file_content F env f)) files"
    and "list_all (\<lambda>f. nul_free (file_content F' env' f)) files'"
    and "files_message F env mode files = files_message F' env' mode' files'"
  shows "map (file_content F env) files = map (file_content F' env') files'"
proof -
  let ?fs = "map (\<lambda>f. file_fields mode f (file_content F env f)) files"
  let ?fs' = "map (\<lambda>f. file_fields mode' f (file_content F' env' f)) files'"
  have "list_all nul_free (concat ?fs)" "list_all nul_free (concat ?fs')"
    using assms(1-4) file_fields_nul_free by (fastforce simp: list_all_iff)+
  then have flat: "concat ?fs = concat ?fs'"
    using assms(5) by (intro fields_bytes_inj) (simp_all add: files_message_fields)
  have fs: "?fs = ?fs'"
  proof (cases files)
    case Nil
    with flat show ?thesis by (cases files') (auto simp: last_file_field)
  next
    case (Cons f fs)
    with flat obtain f' fs' where "files' = f' # fs'"
      by (cases files') (auto simp: last_file_field)
    with flat Cons obtain x y where "file_fields mode f (file_content F env f) @ x =
        file_fields mode' f' (file_content F' env' f') @ y" by simp
    then have len: "length (file_fields mode g d) = length (file_fields mode' g' d')" for g d g' d'
      by (auto simp: file_fields_def split: hash_mode.splits)
    show ?thesis
      using len [of f "[]" f' "[]"]
      by (intro concat_uniform [OF flat, where k = "length (file_fields mode f [])"])
        (auto simp: file_fields_def split: hash_mode.splits)
  qed
  then have "map last ?fs = map last ?fs'" by simp
  then show ?thesis by (simp add: comp_def last_file_field)
qed

section \<open>The policy that layers give\<close>

definition policy_files :: "fs \<Rightarrow> policy_layer list \<Rightarrow> hash_mode \<times> layered_file list" where
  "policy_files F layers =
     (if length layers = 1 \<and> layer_name (layers ! 0) = ''user''
      then (Legacy (layer_dir (layers ! 0)), projr (collect_policy_files F (layer_dir (layers ! 0))))
      else (Layered, concat (projr (collect_results (map (layer_files F) layers)))))"

definition policy_message :: "fs \<Rightarrow> policy_layer list \<Rightarrow> env \<Rightarrow> string" where
  "policy_message F layers env =
     (case policy_files F layers of (mode, files) \<Rightarrow> files_message F env mode files)"

lemma load_from_layers_files:
  assumes "load_from_layers E L F layers env = Ok p"
  shows "load_policy_files E L F (snd (policy_files F layers)) env (fst (policy_files F layers)) = Ok p"
  using assms
  by (auto simp: load_from_layers_def load_from_dir_def policy_files_def and_then_Ok_iff split: if_splits)

text \<open>Directory entries hold no NUL.\<close>

definition fs_nul_free :: "fs \<Rightarrow> bool" where
  "fs_nul_free F \<longleftrightarrow>
     (\<forall>dir es p. fs_read_dir F dir = Ok es \<and> Ok p \<in> set es \<longrightarrow> list_all nul_free p)"

lemma yaml_files_nul_free:
  "fs_nul_free F \<Longrightarrow> yaml_files F dir = Ok ps \<Longrightarrow> list_all (list_all nul_free) ps"
  by (fastforce simp: fs_nul_free_def yaml_files_def read_dir_paths_def and_then_Ok_iff
      collect_results_Ok_iff list_all_iff map_err_Ok_iff split: if_splits)

lemma collect_policy_files_nul_free:
  "fs_nul_free F \<Longrightarrow> collect_policy_files F dir = Ok files \<Longrightarrow> list_all file_nul_free files"
  using yaml_files_nul_free [of F dir]
  by (fastforce simp: collect_policy_files_def and_then_Ok_iff list_all_iff
      file_nul_free_def nul_free_def NUL_def)

lemma layer_files_nul_free:
  "fs_nul_free F \<Longrightarrow> nul_free (layer_name l) \<Longrightarrow> layer_files F l = Ok files \<Longrightarrow> list_all file_nul_free files"
  using collect_policy_files_nul_free
  by (fastforce simp: layer_files_def and_then_Ok_iff list_all_iff file_nul_free_def)

lemma policy_files_nul_free:
  assumes "fs_nul_free F" and "list_all (\<lambda>l. nul_free (layer_name l)) layers"
    and "load_from_layers E L F layers env = Ok p"
  shows "list_all file_nul_free (snd (policy_files F layers))"
proof (cases "length layers = 1 \<and> layer_name (layers ! 0) = ''user''")
  case True
  with assms(3) show ?thesis
    by (auto simp: load_from_layers_def load_from_dir_def policy_files_def and_then_Ok_iff
        dest: collect_policy_files_nul_free [OF assms(1)])
next
  case False
  then obtain filess where "collect_results (map (layer_files F) layers) = Ok filess"
    using assms(3) by (auto simp: load_from_layers_def and_then_Ok_iff)
  moreover from this have "list_all2 (\<lambda>l fs. layer_files F l = Ok fs) layers filess"
    by (simp add: collect_results_map_Ok_iff)
  then have "list_all (list_all file_nul_free) filess"
    using assms(2) by (induction rule: list_all2_induct) (auto intro: layer_files_nul_free [OF assms(1)])
  ultimately show ?thesis using False by (auto simp: policy_files_def list_all_iff)
qed

definition yaml_nul_free :: "(string \<Rightarrow> (string, 'a) result) \<Rightarrow> bool" where
  "yaml_nul_free parse \<longleftrightarrow> (\<forall>s x. parse s = Ok x \<longrightarrow> nul_free s)"

lemma accepted_nul_free:
  assumes "yaml_nul_free parse"
    and "list_all2 (from_text parse compile g h) files rss"
  shows "list_all (\<lambda>f. nul_free (g f)) files"
  using assms(2)
  by (induction rule: list_all2_induct) (use assms(1) in \<open>auto simp: yaml_nul_free_def from_text_def\<close>)

lemma same_message_same_rules:
  assumes "yaml_nul_free (yaml_rules PL)" and "fs_nul_free F" and "fs_nul_free F'"
    and "list_all (\<lambda>l. nul_free (layer_name l)) layers" and "list_all (\<lambda>l. nul_free (layer_name l)) layers'"
    and "load_from_layers E PL F layers env = Ok p" and "load_from_layers E PL F' layers' env' = Ok p'"
    and "policy_message F layers env = policy_message F' layers' env'"
  shows "list_all2 same_rule (policy_rules p) (policy_rules p')"
proof -
  obtain mode files mode' files' where m: "policy_files F layers = (mode, files)" "policy_files F' layers' = (mode', files')"
    by (meson surj_pair)
  note load = load_from_layers_files [OF assms(6), unfolded m fst_conv snd_conv]
    load_from_layers_files [OF assms(7), unfolded m fst_conv snd_conv]
  obtain rss where rss: "policy_rules p = concat rss"
    "list_all2 (from_text (yaml_rules PL) (compile_rules PL) (file_content F env) file_path) files rss"
    using load_policy_files_ok(2) [OF load(1)] by blast
  obtain rss' where rss': "policy_rules p' = concat rss'"
    "list_all2 (from_text (yaml_rules PL) (compile_rules PL) (file_content F' env') file_path) files' rss'"
    using load_policy_files_ok(2) [OF load(2)] by blast
  have free: "list_all (\<lambda>f. nul_free (file_content F env f)) files"
    "list_all (\<lambda>f. nul_free (file_content F' env' f)) files'"
    using accepted_nul_free [OF assms(1) rss(2)] accepted_nul_free [OF assms(1) rss'(2)] by simp_all
  have "map (file_content F env) files = map (file_content F' env') files'"
    using same_message_same_contents [OF _ _ free] assms(8)
      policy_files_nul_free [OF assms(2,4,6)] policy_files_nul_free [OF assms(3,5,7)]
    by (simp add: policy_message_def m)
  then show ?thesis
    unfolding rss(1) rss'(1)
    by (rule same_contents_same [OF rss(2) rss'(2)]) (rule compile_rules_same)
qed

section \<open>The capability mapper\<close>

definition mapper_content :: "fs \<Rightarrow> path \<Rightarrow> string" where
  "mapper_content F file = projr (fs_read F file)"

definition mapper_fields :: "fs \<Rightarrow> path \<Rightarrow> string list" where
  "mapper_fields F file = [if file = [] then [] else last file, mapper_content F file]"

definition mapper_message :: "fs \<Rightarrow> path \<Rightarrow> string" where
  "mapper_message F dir = fields_bytes (concat (map (mapper_fields F) (projr (yaml_files F dir))))"

definition same_mapper_rule :: "compiled_rule \<Rightarrow> compiled_rule \<Rightarrow> bool" where
  "same_mapper_rule r r' \<longleftrightarrow> r\<lparr>crule_source := []\<rparr> = r'\<lparr>crule_source := []\<rparr>"

lemma compile_mapper_rule_rel:
  "result_rel same_mapper_rule (compile_mapper_rule L raw file index) (compile_mapper_rule L raw file' index)"
  unfolding compile_mapper_rule_def
  by (rule result_rel_and_then [where R = "(=)"], simp add: result_rel_refl,
      rule result_rel_and_then [where R = "(=)"], simp add: result_rel_refl)
    (simp add: same_mapper_rule_def)

lemma compile_mapper_rules_same:
  assumes "compile_mapper_rules L file raws = Ok rs" and "compile_mapper_rules L file' raws = Ok rs'"
  shows "list_all2 same_mapper_rule rs rs'"
proof -
  have "result_rel (list_all2 same_mapper_rule) (compile_mapper_rules L file raws) (compile_mapper_rules L file' raws)"
    unfolding compile_mapper_rules_def
    by (rule result_rel_collect)
      (auto simp: list_all2_map1 list_all2_map2 compile_mapper_rule_rel intro: list.rel_refl)
  with assms show ?thesis by simp
qed

lemma load_mapper_ok:
  assumes "load_mapper_from_dir E L F dir = Ok m"
  obtains files where "yaml_files F dir = Ok files"
    "mapper_version m = ''sha256:'' @ sha256_hex E (mapper_message F dir)"
    "\<exists>rss. mapper_rules m = concat rss \<and> list_all2 (from_text (yaml_mapper_rules L) (compile_mapper_rules L) (mapper_content F) (\<lambda>f. f)) files rss"
proof -
  obtain files loaded where l: "yaml_files F dir = Ok files"
      "list_all2 (\<lambda>f y. load_mapper_file L F f = Ok y) files loaded"
    and m: "mapper_rules m = concat (map fst loaded)" "mapper_version m = mapper_version_hash E (map snd loaded)"
    using assms by (auto simp: load_mapper_from_dir_def and_then_Ok_iff collect_results_map_Ok_iff)
  have one: "snd y = (if f = [] then [] else last f, mapper_content F f) \<and>
      (\<exists>raws. yaml_mapper_rules L (mapper_content F f) = Ok raws \<and> compile_mapper_rules L f raws = Ok (fst y))"
    if "load_mapper_file L F f = Ok y" for f y
    using that by (auto simp: load_mapper_file_def and_then_Ok_iff mapper_content_def map_err_Ok_iff)
  have "concat (map (\<lambda>(label, content). label @ [CHR 0x00] @ content @ [CHR 0x00]) (map snd loaded)) =
      fields_bytes (concat (map (mapper_fields F) files))"
    using l(2) by (induction rule: list_all2_induct) (auto simp: mapper_fields_def NUL_def dest!: one)
  with m(2) l(1) have "mapper_version m = ''sha256:'' @ sha256_hex E (mapper_message F dir)"
    by (simp add: mapper_version_hash_def mapper_message_def)
  moreover have "list_all2 (from_text (yaml_mapper_rules L) (compile_mapper_rules L) (mapper_content F) (\<lambda>f. f)) files (map fst loaded)"
    using l(2) unfolding list_all2_map2 by (rule list_all2_mono) (auto simp: from_text_def dest: one)
  ultimately show ?thesis using that l(1) m(1) by blast
qed

lemma same_message_same_mapper:
  assumes "yaml_nul_free (yaml_mapper_rules ML)" and "fs_nul_free F" and "fs_nul_free F'"
    and "load_mapper_from_dir E ML F dir = Ok m" and "load_mapper_from_dir E ML F' dir' = Ok m'"
    and "mapper_message F dir = mapper_message F' dir'"
  shows "list_all2 same_mapper_rule (mapper_rules m) (mapper_rules m')"
proof -
  obtain files rss where f: "yaml_files F dir = Ok files" "mapper_rules m = concat rss"
    "list_all2 (from_text (yaml_mapper_rules ML) (compile_mapper_rules ML) (mapper_content F) (\<lambda>f. f)) files rss"
    using assms(4) by (rule load_mapper_ok) blast
  obtain files' rss' where f': "yaml_files F' dir' = Ok files'" "mapper_rules m' = concat rss'"
    "list_all2 (from_text (yaml_mapper_rules ML) (compile_mapper_rules ML) (mapper_content F') (\<lambda>f. f)) files' rss'"
    using assms(5) by (rule load_mapper_ok) blast
  have fields: "list_all nul_free (concat (map (mapper_fields G) gs))"
    if "list_all (list_all nul_free) gs" "list_all (\<lambda>f. nul_free (mapper_content G f)) gs" for G gs
    using that by (fastforce simp: list_all_iff mapper_fields_def nul_free_def dest: last_in_set)
  have "concat (map (mapper_fields F) files) = concat (map (mapper_fields F') files')"
    using assms(6) f(1) f'(1)
    by (intro fields_bytes_inj fields yaml_files_nul_free [OF assms(2)] yaml_files_nul_free [OF assms(3)]
        accepted_nul_free [OF assms(1) f(3)] accepted_nul_free [OF assms(1) f'(3)])
      (simp_all add: mapper_message_def)
  then have "map (mapper_fields F) files = map (mapper_fields F') files'"
    by (rule concat_uniform [where k = 2]) (auto simp: mapper_fields_def)
  then have "map last (map (mapper_fields F) files) = map last (map (mapper_fields F') files')" by simp
  then have "map (mapper_content F) files = map (mapper_content F') files'"
    by (simp add: mapper_fields_def comp_def)
  then show ?thesis
    unfolding f(2) f'(2) by (rule same_contents_same [OF f(3) f'(3)]) (rule compile_mapper_rules_same)
qed

section \<open>What a call is decided by\<close>

lemma same_mapper_ruleD:
  "same_mapper_rule r r' \<Longrightarrow> crule_tool_match r = crule_tool_match r' \<and>
     crule_match_input r = crule_match_input r' \<and> crule_emit r = crule_emit r'"
  by (cases r; cases r') (simp add: same_mapper_rule_def)

lemma map_rule_same:
  assumes "same_mapper_rule r r'"
  shows "map_rule call candidates out r = map_rule call candidates out r'"
proof -
  have "emit_candidate call r = emit_candidate call r'" "candidate_inputs call candidates r = candidate_inputs call candidates r'"
    using same_mapper_ruleD [OF assms]
    by (auto simp: fun_eq_iff emit_candidate_def match_all_inputs_def candidate_inputs_def rule_matches_shell_field_def
        split: option.split)
  then show ?thesis using same_mapper_ruleD [OF assms] by (simp add: map_rule_def split: option.split)
qed

lemma map_call_same:
  assumes "list_all2 same_mapper_rule (mapper_rules m) (mapper_rules m')"
  shows "map_call m call = map_call m' call"
proof -
  have "foldl (map_rule call cs) out rs = foldl (map_rule call cs) out rs'"
    if "list_all2 same_mapper_rule rs rs'" for cs out rs rs'
    using that by (induction arbitrary: out rule: list_all2_induct) (auto simp: map_rule_same)
  with assms show ?thesis by (simp add: map_call_def)
qed

lemma same_ruleD:
  "same_rule r r' \<Longrightarrow> rule_match r = rule_match r' \<and> decision_from_rule r = decision_from_rule r'"
  by (cases r; cases r') (simp add: same_rule_def unlocated_def decision_from_rule_def split: rule_decision.split)

lemma evaluate_same:
  assumes "list_all2 same_rule (policy_rules p) (policy_rules p')"
  shows "map_option eval_decision (evaluate g caps p) = map_option eval_decision (evaluate g caps p')"
proof -
  have "rel_option same_rule (find (\<lambda>r. matches (rule_match r) caps) rs) (find (\<lambda>r. matches (rule_match r) caps) rs')"
    if "list_all2 same_rule rs rs'" for rs rs'
    using that by (induction rule: list_all2_induct) (auto dest: same_ruleD)
  from this [OF assms] show ?thesis
    by (auto simp: evaluate_def rule_result_def option.map_comp comp_def dest!: same_ruleD
        split: option.split elim!: option.rel_cases)
qed

section \<open>The fingerprint\<close>

definition loaded_expedition :: "runtime_lib \<Rightarrow> fs \<Rightarrow> home_layout \<Rightarrow> expedition option" where
  "loaded_expedition RL F L = projr (expedition_load (rl_expedition RL) F (hl_expedition_file L))"

definition loaded_env :: "env \<Rightarrow> expedition option \<Rightarrow> env" where
  "loaded_env vars ex = (case ex of Some x \<Rightarrow> policy_env vars x | None \<Rightarrow> default_policy_env vars)"

text \<open>The three byte strings a load hashes.\<close>

definition config_messages :: "extern \<Rightarrow> runtime_lib \<Rightarrow> env \<Rightarrow> fs \<Rightarrow> home_layout \<Rightarrow> string list" where
  "config_messages E RL vars F L =
     (let ex = loaded_expedition RL F L;
          pm = policy_message F (projr (active_policy_layers vars F L ex)) (loaded_env vars ex);
          mm = mapper_message F (hl_capabilities_dir L)
      in [pm, mm,
          ''policy:'' @ (''sha256:'' @ sha256_hex E pm) @ [NL] @ ''mapper:'' @ ''sha256:'' @ sha256_hex E mm])"

definition collision_free :: "extern \<Rightarrow> string list \<Rightarrow> bool" where
  "collision_free E ms \<longleftrightarrow> inj_on (sha256_hex E) (set ms)"

definition hex_one_line :: "extern \<Rightarrow> bool" where
  "hex_one_line E \<longleftrightarrow> (\<forall>b. NL \<notin> set (hex_encode E b))"

lemma names_push:
  "list_all (\<lambda>l. P (layer_name l)) ls \<Longrightarrow> P name \<Longrightarrow> list_all (\<lambda>l. P (layer_name l)) (push_policy_layer ls name dir)"
  by (simp add: push_policy_layer_def)

lemma read_model_parts:
  assumes "read_model_load E RL vars F L = Ok m"
  obtains layers where "layers = projr (active_policy_layers vars F L (loaded_expedition RL F L))"
    "list_all (\<lambda>l. nul_free (layer_name l)) layers"
    "load_from_layers E (rl_policy RL) F layers (loaded_env vars (loaded_expedition RL F L)) = Ok (rm_policy m)"
    "load_mapper_from_dir E (rl_mapper RL) F (hl_capabilities_dir L) = Ok (rm_mapper m)"
proof -
  let ?ex = "loaded_expedition RL F L"
  obtain layers where layers: "active_policy_layers vars F L ?ex = Ok layers"
    and loads: "load_from_layers E (rl_policy RL) F layers (loaded_env vars ?ex) = Ok (rm_policy m)"
      "load_mapper_from_dir E (rl_mapper RL) F (hl_capabilities_dir L) = Ok (rm_mapper m)"
    using assms
    by (auto simp: read_model_load_def and_then_Ok_iff Let_def load_active_policy_def loaded_expedition_def loaded_env_def)
  have "nul_free ''org''" "nul_free ''project''" "nul_free ''user''"
    by (simp_all add: nul_free_def NUL_def)
  then have "list_all (\<lambda>l. nul_free (layer_name l)) layers"
    using layers
    by (auto simp: active_policy_layers_def and_then_Ok_iff Let_def names_push split: option.split)
  with layers loads show ?thesis by (intro that) simp_all
qed

lemma read_model_fingerprint_bytes:
  assumes "read_model_load E RL vars F L = Ok m"
  shows "policy_version (rm_policy m) = ''sha256:'' @ sha256_hex E (config_messages E RL vars F L ! 0)"
    "mapper_version (rm_mapper m) = ''sha256:'' @ sha256_hex E (config_messages E RL vars F L ! 1)"
    "read_model_fingerprint E m = ''sha256:'' @ sha256_hex E (config_messages E RL vars F L ! 2)"
proof -
  obtain layers where p: "layers = projr (active_policy_layers vars F L (loaded_expedition RL F L))"
    "load_from_layers E (rl_policy RL) F layers (loaded_env vars (loaded_expedition RL F L)) = Ok (rm_policy m)"
    "load_mapper_from_dir E (rl_mapper RL) F (hl_capabilities_dir L) = Ok (rm_mapper m)"
    using assms by (rule read_model_parts)
  show pv: "policy_version (rm_policy m) = ''sha256:'' @ sha256_hex E (config_messages E RL vars F L ! 0)"
    using load_policy_files_ok(1) [OF load_from_layers_files [OF p(2)]]
    by (simp add: config_messages_def Let_def policy_message_def p(1) prod.case_eq_if)
  show mv: "mapper_version (rm_mapper m) = ''sha256:'' @ sha256_hex E (config_messages E RL vars F L ! 1)"
    using p(3) by (rule load_mapper_ok) (simp add: config_messages_def Let_def)
  show "read_model_fingerprint E m = ''sha256:'' @ sha256_hex E (config_messages E RL vars F L ! 2)"
    by (simp add: read_model_fingerprint_def config_fingerprint_def pv mv)
      (simp add: config_messages_def Let_def)
qed

text \<open>C6. The fingerprint pins the configuration: if SHA-256 has no collision among the byte
  strings that two loads hash, two read models with the same fingerprint derive the same
  capabilities from every call and decide it alike, whatever the directories, the environment or
  the expedition they were loaded from. So a reload that answers "unchanged" hides no change.\<close>

theorem fingerprint_pins_decisions:
  assumes "read_model_load E RL vars F L = Ok m" and "read_model_load E RL vars' F' L' = Ok m'"
    and "read_model_fingerprint E m = read_model_fingerprint E m'"
    and "collision_free E (config_messages E RL vars F L @ config_messages E RL vars' F' L')"
    and "hex_one_line E" and "fs_nul_free F" and "fs_nul_free F'"
    and "yaml_nul_free (yaml_rules (rl_policy RL))" and "yaml_nul_free (yaml_mapper_rules (rl_mapper RL))"
  shows "map_call (rm_mapper m) call = map_call (rm_mapper m') call \<and>
    map_option eval_decision (evaluate g (map_call (rm_mapper m) call) (rm_policy m)) =
    map_option eval_decision (evaluate g (map_call (rm_mapper m') call) (rm_policy m'))"
proof -
  let ?c = "config_messages E RL vars F L" and ?c' = "config_messages E RL vars' F' L'"
  have len: "length ?c = 3" "length ?c' = 3" by (simp_all add: config_messages_def Let_def)
  then have mem: "?c ! i \<in> set (?c @ ?c')" "?c' ! i \<in> set (?c @ ?c')" if "i < 3" for i
    using that nth_mem [of i ?c] nth_mem [of i ?c'] by auto
  have inj: "sha256_hex E (?c ! i) = sha256_hex E (?c' ! i) \<Longrightarrow> ?c ! i = ?c' ! i" if "i < 3" for i
    using assms(4) mem [OF that] by (auto simp: collision_free_def dest: inj_onD)
  have "?c ! 2 = ?c' ! 2"
    using assms(3) read_model_fingerprint_bytes(3) [OF assms(1)] read_model_fingerprint_bytes(3) [OF assms(2)]
    by (intro inj) simp_all
  then have "''policy:'' @ (''sha256:'' @ sha256_hex E (?c ! 0)) @ [NL] @ ''mapper:'' @ ''sha256:'' @ sha256_hex E (?c ! 1) =
      ''policy:'' @ (''sha256:'' @ sha256_hex E (?c' ! 0)) @ [NL] @ ''mapper:'' @ ''sha256:'' @ sha256_hex E (?c' ! 1)"
    by (simp add: config_messages_def Let_def)
  moreover have "NL \<notin> set (''sha256:'' @ sha256_hex E x)" for x
    using assms(5) by (simp add: hex_one_line_def sha256_hex_def NL_def)
  ultimately have "''sha256:'' @ sha256_hex E (?c ! 0) = ''sha256:'' @ sha256_hex E (?c' ! 0) \<and>
      ''sha256:'' @ sha256_hex E (?c ! 1) = ''sha256:'' @ sha256_hex E (?c' ! 1)"
    by (intro config_fingerprint_parts)
  then have same: "?c ! 0 = ?c' ! 0" "?c ! 1 = ?c' ! 1"
    using inj [of 0] inj [of 1] by simp_all
  obtain layers where p: "layers = projr (active_policy_layers vars F L (loaded_expedition RL F L))"
    "list_all (\<lambda>l. nul_free (layer_name l)) layers"
    "load_from_layers E (rl_policy RL) F layers (loaded_env vars (loaded_expedition RL F L)) = Ok (rm_policy m)"
    "load_mapper_from_dir E (rl_mapper RL) F (hl_capabilities_dir L) = Ok (rm_mapper m)"
    using assms(1) by (rule read_model_parts)
  obtain layers' where p': "layers' = projr (active_policy_layers vars' F' L' (loaded_expedition RL F' L'))"
    "list_all (\<lambda>l. nul_free (layer_name l)) layers'"
    "load_from_layers E (rl_policy RL) F' layers' (loaded_env vars' (loaded_expedition RL F' L')) = Ok (rm_policy m')"
    "load_mapper_from_dir E (rl_mapper RL) F' (hl_capabilities_dir L') = Ok (rm_mapper m')"
    using assms(2) by (rule read_model_parts)
  have "list_all2 same_mapper_rule (mapper_rules (rm_mapper m)) (mapper_rules (rm_mapper m'))"
    using same(2) by (intro same_message_same_mapper [OF assms(9,6,7) p(4) p'(4)])
      (simp add: config_messages_def Let_def)
  moreover have "list_all2 same_rule (policy_rules (rm_policy m)) (policy_rules (rm_policy m'))"
    using same(1) by (intro same_message_same_rules [OF assms(8,6,7) p(2) p'(2) p(3) p'(3)])
      (simp add: config_messages_def Let_def p(1) p'(1))
  ultimately show ?thesis using map_call_same evaluate_same by metis
qed

text \<open>Two homes with the same files, and libraries that accept no NUL.\<close>

definition pin_extern :: extern where
  "pin_extern = demo_extern\<lparr>hex_encode := filter (\<lambda>c. c \<noteq> NL)\<rparr>"

definition pin_lib :: runtime_lib where
  "pin_lib =
     \<lparr>rl_policy = demo_policy_lib\<lparr>yaml_rules := (\<lambda>s. if NUL \<in> set s then Err [] else yaml_rules demo_policy_lib s)\<rparr>,
      rl_mapper = \<lparr>regex_build = (\<lambda>s. Err []), yaml_mapper_rules = (\<lambda>s. if NUL \<in> set s then Err [] else Ok [])\<rparr>,
      rl_expedition = \<lparr>ex_to_json = (\<lambda>x. Err []), ex_from_json = (\<lambda>s. Err [])\<rparr>\<rparr>"

definition pin_fs :: "string \<Rightarrow> fs" where
  "pin_fs h = memory_fs [([''/'', h, ''policy.d'', ''a.yaml''], ''x''), ([''/'', h, ''capabilities.d'', ''m.yaml''], ''y'')]"

abbreviation pin_load :: "string \<Rightarrow> (gommage_error, read_model) result" where
  "pin_load h \<equiv> read_model_load pin_extern pin_lib (\<lambda>_. None) (pin_fs h) (home_layout_at [''/'', h])"

lemma memory_fs_nul_free: "list_all (\<lambda>(p, c). list_all nul_free p) files \<Longrightarrow> fs_nul_free (memory_fs files)"
  by (auto simp: fs_nul_free_def memory_fs_def list_all_iff)

lemma pin_messages:
  "config_messages pin_extern pin_lib (\<lambda>_. None) (pin_fs ''h'') (home_layout_at [''/'', ''h'']) =
   config_messages pin_extern pin_lib (\<lambda>_. None) (pin_fs ''k'') (home_layout_at [''/'', ''k''])"
  by code_simp

lemma pin_distinct:
  "distinct (map (sha256_hex pin_extern)
     (config_messages pin_extern pin_lib (\<lambda>_. None) (pin_fs ''k'') (home_layout_at [''/'', ''k''])))"
  by code_simp

theorem fingerprint_pins_decisions_witness:
  "\<exists>m m'. pin_load ''h'' = Ok m \<and> pin_load ''k'' = Ok m' \<and>
     map_option eval_decision (evaluate (\<lambda>p t. False) [] (rm_policy m)) =
     map_option eval_decision (evaluate (\<lambda>p t. False) [] (rm_policy m'))"
proof -
  have "is_ok (pin_load ''h'')" "is_ok (pin_load ''k'')" by code_simp+
  then obtain m m' where m: "pin_load ''h'' = Ok m" and m': "pin_load ''k'' = Ok m'"
    by (auto simp: is_ok_iff)
  have fp: "read_model_fingerprint pin_extern m = read_model_fingerprint pin_extern m'"
    by (simp only: read_model_fingerprint_bytes(3) [OF m] read_model_fingerprint_bytes(3) [OF m'] pin_messages)
  have free: "fs_nul_free (pin_fs h)" if "nul_free h" for h
    unfolding pin_fs_def
    by (rule memory_fs_nul_free) (use that in \<open>simp add: nul_free_def NUL_def\<close>)
  have cf: "collision_free pin_extern
      (config_messages pin_extern pin_lib (\<lambda>_. None) (pin_fs ''h'') (home_layout_at [''/'', ''h'']) @
       config_messages pin_extern pin_lib (\<lambda>_. None) (pin_fs ''k'') (home_layout_at [''/'', ''k'']))"
    using pin_distinct by (simp add: pin_messages collision_free_def distinct_map)
  have "mapper_rules (rm_mapper m) = []"
  proof -
    have "length (mapper_rules (rm_mapper (projr (pin_load ''h'')))) = 0" by code_simp
    with m show ?thesis by simp
  qed
  then have "map_call (rm_mapper m) \<lparr>tool = [], input = JNull\<rparr> = []" by (simp add: map_call_def)
  with fingerprint_pins_decisions [OF m m' fp cf _ free free, of "\<lparr>tool = [], input = JNull\<rparr>" "\<lambda>p t. False"]
  have "map_option eval_decision (evaluate (\<lambda>p t. False) [] (rm_policy m)) =
     map_option eval_decision (evaluate (\<lambda>p t. False) [] (rm_policy m'))"
    by (auto simp: hex_one_line_def pin_extern_def yaml_nul_free_def pin_lib_def nul_free_def NUL_def split: if_splits)
  with m m' show ?thesis by blast
qed

end
