(* ===== verification/Daemon.thy ===== *)
theory Daemon
  imports Runtime Webhook Audit_Stream
begin

text \<open>
  The daemon (\<open>crates/gommage-daemon/src/main.rs\<close>): one request at a time, under the lock, on a
  state of runtime, audit log, dead-letter queue and recorded fingerprint. \<open>daemon_env\<close> holds what
  stays the same while the daemon runs, \<open>request_io\<close> what one request meets: clocks, UUIDs, the
  outcome of each append in the order of the code, the file system. A store or log operation that
  fails ends the request with an error and leaves the effects it had before, as the code's
  question marks do. The panic of the evaluator is an error of its own.
\<close>

section \<open>State and surroundings\<close>

record daemon_env =
  de_extern :: extern
  de_glob :: "string \<Rightarrow> string \<Rightarrow> bool"
  de_lib :: runtime_lib
  de_audit :: audit_codec
  de_approvals :: "approval_record codec"
  de_letters :: "dead_letter codec"
  de_stream :: stream_codec
  de_to_vec :: "json \<Rightarrow> (string, string) result"
  de_vars :: env
  de_key :: string
  de_home_root :: path

definition de_vk :: "daemon_env \<Rightarrow> string" where
  "de_vk D = ed_public (de_extern D) (de_key D)"

record daemon_state =
  ds_rt :: runtime
  ds_audit :: text_file
  ds_letters :: text_file
  ds_fingerprint :: text_file

type_synonym append_io = "audit_stamp \<times> write_outcome"

record request_io =
  ri_now :: time
  ri_uuid :: string
  ri_approval_io :: io_faults
  ri_event1 :: append_io
  ri_event2 :: append_io
  ri_hook1 :: append_io
  ri_hook2 :: append_io
  ri_final :: append_io
  ri_sign_now :: time
  ri_curl :: "nat \<Rightarrow> string list \<Rightarrow> string \<Rightarrow> curl_run"
  ri_letter_stamp :: delivery_stamp
  ri_letter_write :: write_outcome
  ri_fs :: fs
  ri_record_fault :: "string option"
  ri_open_fault :: "string option"
  ri_read_fault :: read_fault

datatype daemon_error =
    CoreError gommage_error
  | AuditError audit_error
  | Panic

text \<open>An append to the audit log through the writer.\<close>

definition log_event ::
  "daemon_env \<Rightarrow> append_io \<Rightarrow> audit_event \<Rightarrow> daemon_state \<Rightarrow> (daemon_error, unit) result \<times> daemon_state" where
  "log_event D io event s =
     (case append_event (de_extern D) (de_audit D) (de_key D) (fst io) (snd io) event (ds_audit s) of
        (res, f) \<Rightarrow> (and_then (map_err AuditError res) (\<lambda>_. Ok ()), s\<lparr>ds_audit := f\<rparr>))"

definition log_decision ::
  "daemon_env \<Rightarrow> append_io \<Rightarrow> toolcall \<Rightarrow> eval_result \<Rightarrow> daemon_state \<Rightarrow>
     (daemon_error, unit) result \<times> daemon_state" where
  "log_decision D io call eval s =
     (case audit_append (de_extern D) (de_audit D) (de_key D) (fst io) (snd io) call eval
             (map_option ex_name (rt_expedition (ds_rt s))) (ds_audit s) of
        (res, f) \<Rightarrow> (and_then (map_err AuditError res) (\<lambda>_. Ok ()), s\<lparr>ds_audit := f\<rparr>))"

definition set_pictos :: "picto_store \<Rightarrow> daemon_state \<Rightarrow> daemon_state" where
  "set_pictos store s = s\<lparr>ds_rt := (ds_rt s)\<lparr>rt_pictos := store\<rparr>\<rparr>"

section \<open>The approval webhook\<close>

definition signature_audit_summary :: "webhook_report \<Rightarrow> webhook_signature_audit" where
  "signature_audit_summary r =
     \<lparr>wsa_algorithm = wr_algorithm r, wsa_key_id = wr_key_id r, wsa_timestamp = wr_timestamp r,
      wsa_body_sha256 = wr_body_sha256 r, wsa_signature_prefix = take 18 (wr_signature r)\<rparr>"

text \<open>Best effort: what the appends return is only logged.\<close>

definition audit_delivery ::
  "daemon_env \<Rightarrow> request_io \<Rightarrow> approval_request \<Rightarrow> string \<Rightarrow> delivery_outcome \<Rightarrow> daemon_state \<Rightarrow> daemon_state" where
  "audit_delivery D io request url outcome s =
     (let sig = map_option signature_audit_summary (do_signature outcome);
          source = webhook_source_str SourceDaemon
      in if do_kind outcome = Delivered
         then snd (log_event D (ri_hook1 io)
                (ApprovalWebhookDelivered (req_id request) url (do_http_status outcome)
                  (do_attempts outcome) source sig) s)
         else
           (let error_text =
              (case do_error outcome of Some e \<Rightarrow> e | None \<Rightarrow> ''webhook delivery failed'');
                s1 = snd (log_event D (ri_hook1 io)
                  (ApprovalWebhookFailed (req_id request) url error_text (do_attempts outcome) source sig) s)
            in case do_dead_letter_id outcome of
                 None \<Rightarrow> s1
               | Some letter_id \<Rightarrow>
                   snd (log_event D (ri_hook2 io)
                     (ApprovalWebhookDeadLettered (req_id request) url letter_id ''generic''
                       (do_attempts outcome) source error_text sig) s1)))"

definition notify_approval_webhook_best_effort ::
  "daemon_env \<Rightarrow> request_io \<Rightarrow> approval_request \<Rightarrow> daemon_state \<Rightarrow> daemon_state" where
  "notify_approval_webhook_best_effort D io request s =
     (case de_vars D ''GOMMAGE_APPROVAL_WEBHOOK_URL'' of
        None \<Rightarrow> s
      | Some url \<Rightarrow>
          if is_blank url then s
          else
            (case prepare_approval_webhook (de_extern D) (de_to_vec D) (ri_sign_now io)
                    (approval_webhook_generic_payload (de_extern D) request)
                    (de_vars D ''GOMMAGE_APPROVAL_WEBHOOK_SECRET'')
                    (de_vars D ''GOMMAGE_APPROVAL_WEBHOOK_SECRET_ID'') of
               Err _ \<Rightarrow> s
             | Ok prepared \<Rightarrow>
                 (case deliver_prepared_approval_webhook (de_letters D) (ri_curl io)
                         (ri_letter_stamp io) (ri_letter_write io) request SourceDaemon ''generic'' url
                         prepared (delivery_settings_from_env (de_vars D)) (ds_letters s) of
                    (res, letters) \<Rightarrow>
                      (let s' = s\<lparr>ds_letters := letters\<rparr>
                       in case res of
                            Err _ \<Rightarrow> s'
                          | Ok outcome \<Rightarrow> audit_delivery D io request url outcome s'))))"

section \<open>Deciding a call\<close>

definition approval_reason :: "string \<Rightarrow> string \<Rightarrow> string" where
  "approval_reason reason rid =
     reason @ ''; approval request '' @ rid @ '' pending; run `gommage approval approve '' @
     rid @ ''`''"

definition picto_consumed_event :: "picto \<Rightarrow> audit_event" where
  "picto_consumed_event p =
     PictoConsumed (picto_id p) (picto_scope p) (picto_uses p) (picto_max_uses p)
       (status_str (picto_status p))"

text \<open>No picto: an approval request is recorded, audited and announced, and named in the answer.\<close>

definition ask_for_approval ::
  "daemon_env \<Rightarrow> request_io \<Rightarrow> toolcall \<Rightarrow> eval_result \<Rightarrow> string \<Rightarrow> string \<Rightarrow> bool \<Rightarrow> daemon_state \<Rightarrow>
     (daemon_error, eval_result) result \<times> daemon_state" where
  "ask_for_approval D io call eval scope reason bind_input s =
     (case request_for_ask (de_extern D) (de_approvals D) (ri_approval_io io) (ri_now io) (ri_uuid io)
             call eval scope bind_input reason (rt_approvals (ds_rt s)) of
        (res, approvals) \<Rightarrow>
          then_do (map_err CoreError res, s\<lparr>ds_rt := (ds_rt s)\<lparr>rt_approvals := approvals\<rparr>\<rparr>)
            (\<lambda>request s1.
              then_do (log_event D (ri_event1 io)
                  (ApprovalRequested (req_id request) (req_tool request) (req_input_hash request)
                    (req_required_scope request) (req_reason request) (req_policy_version request)) s1)
                (\<lambda>_ s2.
                  (Ok (eval\<lparr>eval_decision :=
                         AskPicto scope (approval_reason reason (req_id request)) bind_input\<rparr>),
                   notify_approval_webhook_best_effort D io request s2))))"

text \<open>The store is asked with the hash of the input when the rule binds it.\<close>

definition lookup_picto ::
  "daemon_env \<Rightarrow> time \<Rightarrow> string option \<Rightarrow> string \<Rightarrow> picto_store \<Rightarrow> picto_lookup" where
  "lookup_picto D now binding scope store =
     (case binding of
        Some h \<Rightarrow> find_verified_match_for_input (de_extern D) store scope h now (de_vk D)
      | None \<Rightarrow> find_verified_match (de_extern D) store scope now (de_vk D))"

definition consume_picto ::
  "daemon_env \<Rightarrow> time \<Rightarrow> string option \<Rightarrow> string \<Rightarrow> picto_store \<Rightarrow> picto_consume \<times> picto_store" where
  "consume_picto D now binding pid store =
     (case binding of
        Some h \<Rightarrow> consume_verified_for_input (de_extern D) store pid h now (de_vk D)
      | None \<Rightarrow> consume_verified (de_extern D) store pid now (de_vk D))"

text \<open>A picto was found: it is consumed, and the answer is to allow, only if that succeeds.\<close>

definition spend_picto ::
  "daemon_env \<Rightarrow> request_io \<Rightarrow> eval_result \<Rightarrow> string option \<Rightarrow> picto \<Rightarrow> daemon_state \<Rightarrow>
     (daemon_error, eval_result) result \<times> daemon_state" where
  "spend_picto D io eval binding p s =
     (case consume_picto D (ri_now io) binding (picto_id p) (rt_pictos (ds_rt s)) of
        (Consumed q, store) \<Rightarrow>
          then_do (log_event D (ri_event1 io) (picto_consumed_event q) (set_pictos store s))
            (\<lambda>_ s1. (Ok (eval\<lparr>eval_decision := Allow\<rparr>), s1))
      | (NotUsable, store) \<Rightarrow> (Ok eval, set_pictos store s)
      | (ConsumeBadSignature i scope, store) \<Rightarrow>
          then_do (log_event D (ri_event1 io) (PictoRejected i scope ''bad signature'') (set_pictos store s))
            (\<lambda>_ s1. (Ok eval, s1)))"

definition resolve_ask ::
  "daemon_env \<Rightarrow> request_io \<Rightarrow> toolcall \<Rightarrow> eval_result \<Rightarrow> daemon_state \<Rightarrow>
     (daemon_error, eval_result) result \<times> daemon_state" where
  "resolve_ask D io call eval s =
     (case eval_decision eval of
        AskPicto scope reason bind_input \<Rightarrow>
          (let binding = (if bind_input then Some (input_hash (de_extern D) call) else None)
           in case lookup_picto D (ri_now io) binding scope (rt_pictos (ds_rt s)) of
                LookupNone \<Rightarrow> ask_for_approval D io call eval scope reason bind_input s
              | LookupBadSignature i sc \<Rightarrow>
                  then_do (log_event D (ri_event1 io) (PictoRejected i sc ''bad signature'') s)
                    (\<lambda>_ s1. (Ok eval, s1))
              | LookupVerified p \<Rightarrow> spend_picto D io eval binding p s)
      | _ \<Rightarrow> (Ok eval, s))"

definition decide_and_audit ::
  "daemon_env \<Rightarrow> request_io \<Rightarrow> toolcall \<Rightarrow> daemon_state \<Rightarrow>
     (daemon_error, eval_result) result \<times> daemon_state" where
  "decide_and_audit D io call s =
     (case evaluate (de_glob D) (map_call (rt_mapper (ds_rt s)) call) (rt_policy (ds_rt s)) of
        None \<Rightarrow> (Err Panic, s)
      | Some eval \<Rightarrow>
          then_do (resolve_ask D io call eval s)
            (\<lambda>eval' s1. then_do (log_decision D (ri_final io) call eval' s1) (\<lambda>_ s2. (Ok eval', s2))))"

section \<open>Reloading\<close>

datatype reload_outcome =
    Unchanged nat string
  | Reloaded nat nat string string
  | Refused string

definition CONFIG_FINGERPRINT_FILE :: string where
  "CONFIG_FINGERPRINT_FILE = ''config.fingerprint''"

definition read_recorded_fingerprint :: "(string, string) result \<Rightarrow> string option" where
  "read_recorded_fingerprint file =
     (case file of
        Err _ \<Rightarrow> None
      | Ok t \<Rightarrow> (let trimmed = trim t in if trimmed = [] then None else Some trimmed))"

definition record_fingerprint :: "string option \<Rightarrow> string \<Rightarrow> daemon_state \<Rightarrow> daemon_state" where
  "record_fingerprint fault fingerprint s =
     (case fault of Some _ \<Rightarrow> s | None \<Rightarrow> s\<lparr>ds_fingerprint := Some (fingerprint @ [NL])\<rparr>)"

text \<open>\<open>file\<close> is what reading the recorded fingerprint gives.\<close>

definition note_startup_fingerprint ::
  "daemon_env \<Rightarrow> request_io \<Rightarrow> (string, string) result \<Rightarrow> daemon_state \<Rightarrow> daemon_state" where
  "note_startup_fingerprint D io file s =
     (let loaded = runtime_fingerprint (de_extern D) (ds_rt s);
          s' = (case read_recorded_fingerprint file of
                  Some recorded \<Rightarrow>
                    if recorded \<noteq> loaded
                    then snd (log_event D (ri_event1 io) (ConfigDriftAtStartup recorded loaded) s)
                    else s
                | None \<Rightarrow> s)
      in record_fingerprint (ri_record_fault io) loaded s')"

definition quoted_scope :: string where
  "quoted_scope = CHR 0x22 # CONFIG_ACTIVATION_SCOPE @ [CHR 0x22]"

definition refuse_reload ::
  "daemon_env \<Rightarrow> append_io \<Rightarrow> string \<Rightarrow> string \<Rightarrow> string \<Rightarrow> string \<Rightarrow> daemon_state \<Rightarrow>
     (daemon_error, reload_outcome) result \<times> daemon_state" where
  "refuse_reload D io source loaded disk reason s =
     then_do (log_event D io
         (PolicyReloadRefused source CONFIG_ACTIVATION_SCOPE loaded disk reason) s)
       (\<lambda>_ s1. (Ok (Refused
          (''policy/capability files changed on disk (loaded '' @ loaded @ '', disk '' @ disk @ '') but '' @
           reason @ ''; the daemon keeps the previously loaded rules. Activate the change with a picto: '' @
           ''`gommage grant --scope '' @ CONFIG_ACTIVATION_SCOPE @ '' --reason <why>`, then '' @
           ''`gommage confirm <id>`, then `gommage daemon reload`'')), s1))"

definition activate_config ::
  "daemon_env \<Rightarrow> request_io \<Rightarrow> string \<Rightarrow> read_model \<Rightarrow> string \<Rightarrow> picto \<Rightarrow> daemon_state \<Rightarrow>
     (daemon_error, reload_outcome) result \<times> daemon_state" where
  "activate_config D io source m disk p s =
     then_do (log_event D (ri_event1 io) (picto_consumed_event p) s)
       (\<lambda>_ s1.
         (let s2 = s1\<lparr>ds_rt := install_read_model m (ds_rt s1)\<rparr>;
              rules = length (policy_rules (rt_policy (ds_rt s2)));
              mrules = length (mapper_rules (rt_mapper (ds_rt s2)))
          in then_do (log_event D (ri_event2 io)
                 (PolicyReloaded source rules mrules (policy_version (rt_policy (ds_rt s2)))
                   (Some disk) (Some (picto_id p))) s2)
               (\<lambda>_ s3. (Ok (Reloaded rules mrules disk (picto_id p)),
                  record_fingerprint (ri_record_fault io) disk s3))))"

definition reload_guarded ::
  "daemon_env \<Rightarrow> request_io \<Rightarrow> string \<Rightarrow> daemon_state \<Rightarrow>
     (daemon_error, reload_outcome) result \<times> daemon_state" where
  "reload_guarded D io source s =
     (case read_model_load (de_extern D) (de_lib D) (de_vars D) (ri_fs io) (rt_layout (ds_rt s)) of
        Err e \<Rightarrow> (Err (CoreError e), s)
      | Ok m \<Rightarrow>
          (let disk = read_model_fingerprint (de_extern D) m;
               loaded = runtime_fingerprint (de_extern D) (ds_rt s)
           in if disk = loaded
              then (Ok (Unchanged (length (policy_rules (rt_policy (ds_rt s)))) loaded), s)
              else
                (case lookup_picto D (ri_now io) None CONFIG_ACTIVATION_SCOPE (rt_pictos (ds_rt s)) of
                   LookupNone \<Rightarrow>
                     refuse_reload D (ri_event1 io) source loaded disk
                       (''no usable picto for scope '' @ quoted_scope) s
                 | LookupBadSignature i scope \<Rightarrow>
                     then_do (log_event D (ri_event1 io) (PictoRejected i scope ''bad signature'') s)
                       (\<lambda>_ s1. refuse_reload D (ri_event2 io) source loaded disk
                          (''picto '' @ i @ '' for scope '' @ quoted_scope @ '' has a bad signature'') s1)
                 | LookupVerified p \<Rightarrow>
                     (case consume_picto D (ri_now io) None (picto_id p) (rt_pictos (ds_rt s)) of
                        (Consumed q, store) \<Rightarrow> activate_config D io source m disk q (set_pictos store s)
                      | (NotUsable, store) \<Rightarrow>
                          refuse_reload D (ri_event1 io) source loaded disk
                            (''picto '' @ picto_id p @ '' for scope '' @ quoted_scope @ '' is no longer usable'')
                            (set_pictos store s)
                      | (ConsumeBadSignature i scope, store) \<Rightarrow>
                          then_do (log_event D (ri_event1 io) (PictoRejected i scope ''bad signature'')
                              (set_pictos store s))
                            (\<lambda>_ s1. refuse_reload D (ri_event2 io) source loaded disk
                              (''picto '' @ i @ '' for scope '' @ quoted_scope @ '' has a bad signature'') s1)))))"

section \<open>Requests\<close>

datatype request =
    Decide toolcall
  | Reload
  | Ping
  | RecentAudit "nat option"

text \<open>What is put into the \<open>result\<close> and the \<open>error\<close> of the response; an error value stands for its
  text.\<close>

datatype reply_value =
    Pong
  | Items "stream_item list"
  | Message string
  | Verdict eval_result

datatype reply_error =
    BadRequest string
  | RecentAuditFailed audit_error
  | ReloadRefused string
  | ReloadFailed daemon_error
  | DecideFailed daemon_error

type_synonym reply = "(reply_error, reply_value) result"

definition recent_limit :: "nat option \<Rightarrow> nat" where
  "recent_limit limit = min (case limit of Some n \<Rightarrow> n | None \<Rightarrow> 20) 100"

text \<open>A request that panics has no reply.\<close>

definition handle_request ::
  "daemon_env \<Rightarrow> request_io \<Rightarrow> request \<Rightarrow> daemon_state \<Rightarrow> reply option \<times> daemon_state" where
  "handle_request D io req s =
     (case req of
        Ping \<Rightarrow> (Some (Ok Pong), s)
      | RecentAudit limit \<Rightarrow>
          (case recent_stream_items (de_stream D) (ri_open_fault io) (ri_read_fault io) (ds_audit s)
                  (recent_limit limit) of
             Ok items \<Rightarrow> (Some (Ok (Items items)), s)
           | Err e \<Rightarrow> (Some (Err (RecentAuditFailed e)), s))
      | Reload \<Rightarrow>
          (case reload_guarded D io ''ipc'' s of
             (Ok (Unchanged rules fingerprint), s') \<Rightarrow>
               (Some (Ok (Message (''unchanged: '' @ dec_nat rules @
                  '' rules already loaded (fingerprint '' @ fingerprint @ '')''))), s')
           | (Ok (Reloaded rules mrules fingerprint picto), s') \<Rightarrow>
               (Some (Ok (Message (''reloaded '' @ dec_nat rules @ '' rules, '' @ dec_nat mrules @
                  '' mapper rules (fingerprint '' @ fingerprint @ '', picto '' @ picto @ '')''))), s')
           | (Ok (Refused message), s') \<Rightarrow> (Some (Err (ReloadRefused message)), s')
           | (Err e, s') \<Rightarrow> (Some (Err (ReloadFailed e)), s'))
      | Decide call \<Rightarrow>
          (case decide_and_audit D io call s of
             (Ok eval, s') \<Rightarrow> (Some (Ok (Verdict eval)), s')
           | (Err Panic, s') \<Rightarrow> (None, s')
           | (Err e, s') \<Rightarrow> (Some (Err (DecideFailed e)), s')))"

text \<open>One connection. Each turn of the loop meets a line or the error that ends the stream of lines
  (an I/O error, or bytes that are not UTF-8), what the request handler meets, and the outcome of
  writing the answer (the reply and its newline). \<open>parse\<close> is the serde reader of a request. A read
  or write error leaves the loop by \<open>?\<close>: the lines after it are never read, and a request whose
  answer could not be written has been carried out all the same. A panic ends the task.\<close>

record line_io =
  li_read :: "(string, string) result"
  li_request :: request_io
  li_write :: "(string, unit) result"

datatype connection_end = Closed | ReadFailed string | WriteFailed string | Panicked

fun handle_connection ::
  "daemon_env \<Rightarrow> (string \<Rightarrow> (string, request) result) \<Rightarrow> line_io list \<Rightarrow> daemon_state \<Rightarrow>
     reply list \<times> connection_end \<times> daemon_state" where
  "handle_connection D parse [] s = ([], Closed, s)"
| "handle_connection D parse (turn # turns) s =
     (case li_read turn of
        Err e \<Rightarrow> ([], ReadFailed e, s)
      | Ok line \<Rightarrow>
          if is_blank line then handle_connection D parse turns s
          else
            (case (case parse line of
                     Err e \<Rightarrow> (Some (Err (BadRequest e)), s)
                   | Ok req \<Rightarrow> handle_request D (li_request turn) req s) of
               (None, s1) \<Rightarrow> ([], Panicked, s1)
             | (Some reply, s1) \<Rightarrow>
                 (case li_write turn of
                    Err e \<Rightarrow> ([], WriteFailed e, s1)
                  | Ok _ \<Rightarrow>
                      (case handle_connection D parse turns s1 of
                         (replies, ended, s') \<Rightarrow> (reply # replies, ended, s')))))"

end
