(* ===== verification/Daemon_Laws.thy ===== *)
theory Daemon_Laws
  imports Daemon Picto_Grants Audit_Laws Webhook_Laws Approval_Laws
begin

text \<open>
  What the daemon guarantees: it allows a call only by an allow rule or by spending a signed grant,
  records every verdict, answers every line, activates changed configuration only by spending a
  grant for it, and never spends a grant beyond its budget, whatever order requests, reloads and
  the operators' tools come in.
\<close>

named_theorems daemon_frame \<open>what an operation of the daemon leaves alone\<close>

section \<open>Frames\<close>

lemma log_event_frame [daemon_frame]:
  "ds_rt (snd (log_event D io ev s)) = ds_rt s"
  by (simp add: log_event_def split: prod.split)

lemma log_decision_frame [daemon_frame]:
  "ds_rt (snd (log_decision D io call eval s)) = ds_rt s"
  by (simp add: log_decision_def split: prod.split)

lemma log_event_rt: "log_event D io ev s = (res, s') \<Longrightarrow> ds_rt s' = ds_rt s"
  using log_event_frame [of D io ev s] by simp

lemma log_decision_rt: "log_decision D io call eval s = (res, s') \<Longrightarrow> ds_rt s' = ds_rt s"
  using log_decision_frame [of D io call eval s] by simp

lemma audit_delivery_frame [daemon_frame]:
  "ds_rt (audit_delivery D io request url outcome s) = ds_rt s"
  by (simp add: audit_delivery_def Let_def log_event_frame split: option.split)

lemma notify_frame [daemon_frame]:
  "ds_rt (notify_approval_webhook_best_effort D io request s) = ds_rt s"
  by (simp add: notify_approval_webhook_best_effort_def Let_def audit_delivery_frame
      split: option.split sum.split prod.split)

lemma record_fingerprint_frame [daemon_frame]:
  "ds_rt (record_fingerprint fault fp s) = ds_rt s" "ds_audit (record_fingerprint fault fp s) = ds_audit s"
  by (simp_all add: record_fingerprint_def split: option.split)

lemma set_pictos_frame [simp]:
  "rt_pictos (ds_rt (set_pictos store s)) = store"
  "rt_policy (ds_rt (set_pictos store s)) = rt_policy (ds_rt s)"
  "rt_mapper (ds_rt (set_pictos store s)) = rt_mapper (ds_rt s)"
  "rt_layout (ds_rt (set_pictos store s)) = rt_layout (ds_rt s)"
  "rt_expedition (ds_rt (set_pictos store s)) = rt_expedition (ds_rt s)"
  "ds_audit (set_pictos store s) = ds_audit s"
  by (simp_all add: set_pictos_def)

lemma refuse_reload_frame:
  "refuse_reload D io source loaded disk reason s = (res, s') \<Longrightarrow>
     ds_rt s' = ds_rt s \<and> (\<forall>r. res = Ok r \<longrightarrow> (\<exists>m. r = Refused m))"
  by (auto simp: refuse_reload_def then_do_def dest: log_event_rt split: prod.splits sum.splits)

section \<open>The picto store behind the daemon\<close>

lemma consume_picto_cases:
  assumes "store_ok store" and "consume_picto D now binding pid store = (res, store')"
  obtains (refused) "store' = store" and "\<And>p. res \<noteq> Consumed p"
  | (used) r p where "r \<in> set store" and "row_id r = pid" and "usable_row binding now r"
      and "is_ok (verify_for_input_hash (de_extern D) (row_to_picto (de_extern D) r) binding (de_vk D))"
      and "res = Consumed p" and "picto_id p = pid"
      and "consume_verified_for_optional_input (de_extern D) store pid binding now (de_vk D) = (Consumed p, store')"
proof (cases "consume_verified_for_optional_input (de_extern D) store pid binding now (de_vk D) = (res, store')")
  case True
  show ?thesis
    using assms(1) True
  proof (cases rule: consume_verified_cases)
    case refused
    then show ?thesis by (rule that(1))
  next
    case (used r p)
    with True show ?thesis by (intro that(2) [of r p]) auto
  qed
next
  case False
  with assms(2) have "store' = store" "res = NotUsable"
    by (auto simp: consume_picto_def consume_verified_def consume_verified_for_input_def
        split: option.splits if_splits)
  then show ?thesis by (intro that(1)) auto
qed

lemma lookup_picto_cases:
  assumes "lookup_picto D now binding scope store = LookupVerified p"
  obtains r where "r \<in> set store" "row_scope r = scope" "usable_row binding now r"
    "p = row_to_picto (de_extern D) r" "is_ok (verify_for_input_hash (de_extern D) p binding (de_vk D))"
proof -
  have "find_verified_match_for_optional_input (de_extern D) store scope binding now (de_vk D) =
      LookupVerified p"
    using assms
    by (auto simp: lookup_picto_def find_verified_match_def find_verified_match_for_input_def
        split: option.splits if_splits)
  then show ?thesis by (rule verified_cases) (use that in auto)
qed

lemma picto_id_row [simp]: "picto_id (row_to_picto E r) = row_id r"
  by (simp add: row_to_picto_def)

text \<open>A grant that was found and spent: the row found is the row spent.\<close>

definition spent_grant ::
  "daemon_env \<Rightarrow> time \<Rightarrow> string option \<Rightarrow> string \<Rightarrow> picto_store \<Rightarrow> picto_store \<Rightarrow> picto_row \<Rightarrow> bool" where
  "spent_grant D now binding scope store store' r \<longleftrightarrow>
     r \<in> set store \<and> row_scope r = scope \<and> usable_row binding now r \<and>
     is_ok (verify_for_input_hash (de_extern D) (row_to_picto (de_extern D) r) binding (de_vk D)) \<and>
     picto_step (de_extern D) (de_key D) (de_vk D) store (EvUsed (row_id r)) store' \<and>
     (\<forall>k. uses_of store' k = uses_of store k + (if k = row_id r then 1 else 0))"

lemma found_and_consumed:
  assumes "store_ok store" and "lookup_picto D now binding scope store = LookupVerified p"
    and "consume_picto D now binding (picto_id p) store = (Consumed q, store')"
  shows "\<exists>r. spent_grant D now binding scope store store' r \<and> row_id r = picto_id p \<and> picto_id q = row_id r"
proof -
  obtain r where r: "r \<in> set store" "row_scope r = scope" "usable_row binding now r"
      "p = row_to_picto (de_extern D) r" "is_ok (verify_for_input_hash (de_extern D) p binding (de_vk D))"
    using assms(2) by (rule lookup_picto_cases)
  have "consume_verified_for_optional_input (de_extern D) store (picto_id p) binding now (de_vk D) =
      (Consumed q, store') \<and> picto_id q = picto_id p"
    by (rule consume_picto_cases [OF assms(1,3)]) auto
  then have step: "picto_step (de_extern D) (de_key D) (de_vk D) store (EvUsed (row_id r)) store'"
    and q: "picto_id q = row_id r"
    using step_consumed r(4) by fastforce+
  moreover have "uses_of store' k = uses_of store k + (if k = row_id r then 1 else 0)" for k
    using picto_budget.used_step [OF assms(1) step, of k] by auto
  ultimately show ?thesis using r q by (auto simp: spent_grant_def)
qed

section \<open>What one request does\<close>

definition same_config :: "daemon_state \<Rightarrow> daemon_state \<Rightarrow> bool" where
  "same_config s s' \<longleftrightarrow>
     rt_policy (ds_rt s') = rt_policy (ds_rt s) \<and> rt_mapper (ds_rt s') = rt_mapper (ds_rt s) \<and>
     rt_expedition (ds_rt s') = rt_expedition (ds_rt s) \<and> rt_layout (ds_rt s') = rt_layout (ds_rt s)"

lemma same_config_refl [simp]: "same_config s s"
  by (simp add: same_config_def)

lemma same_config_rt: "ds_rt s' = ds_rt s \<Longrightarrow> same_config s s'"
  by (simp add: same_config_def)

lemma same_config_trans: "same_config s s' \<Longrightarrow> same_config s' s'' \<Longrightarrow> same_config s s''"
  by (simp add: same_config_def)

lemma same_config_set_pictos: "ds_rt s' = ds_rt (set_pictos store s) \<Longrightarrow> same_config s s'"
  by (simp add: same_config_def)

text \<open>A verdict that differs from the evaluation only in its decision, which still asks.\<close>

definition still_asks :: "eval_result \<Rightarrow> eval_result \<Rightarrow> bool" where
  "still_asks eval eval' \<longleftrightarrow>
     (\<exists>scope reason b. eval' = eval\<lparr>eval_decision := AskPicto scope reason b\<rparr>)"

lemma still_asks_refl: "eval_decision eval = AskPicto scope reason b \<Longrightarrow> still_asks eval eval"
  unfolding still_asks_def by (metis eval_result.surjective eval_result.update_convs(1) eval_result.select_convs(1))

lemma ask_for_approval_effect:
  assumes "ask_for_approval D io call eval scope reason b s = (res, s')"
  shows "same_config s s' \<and> rt_pictos (ds_rt s') = rt_pictos (ds_rt s) \<and>
    (\<forall>eval'. res = Ok eval' \<longrightarrow> still_asks eval eval')"
proof -
  obtain r approvals where ask: "request_for_ask (de_extern D) (de_approvals D) (ri_approval_io io) (ri_now io)
      (ri_uuid io) call eval scope b reason (rt_approvals (ds_rt s)) = (r, approvals)"
    by (meson surj_pair)
  let ?s1 = "s\<lparr>ds_rt := (ds_rt s)\<lparr>rt_approvals := approvals\<rparr>\<rparr>"
  have c1: "same_config s ?s1" "rt_pictos (ds_rt ?s1) = rt_pictos (ds_rt s)"
    by (simp_all add: same_config_def)
  show ?thesis
  proof (cases r)
    case (Inl e)
    with assms ask c1 show ?thesis by (auto simp: ask_for_approval_def)
  next
    case (Inr request)
    obtain lres s2 where l: "log_event D (ri_event1 io)
        (ApprovalRequested (req_id request) (req_tool request) (req_input_hash request)
          (req_required_scope request) (req_reason request) (req_policy_version request)) ?s1 = (lres, s2)"
      by (meson surj_pair)
    note rt = log_event_rt [OF l]
    show ?thesis
    proof (cases lres)
      case (Inl e)
      with assms ask Inr l rt c1 show ?thesis by (auto simp: ask_for_approval_def same_config_def)
    next
      case ok: (Inr u)
      with assms ask Inr l rt c1 show ?thesis
        by (auto simp: ask_for_approval_def same_config_def notify_frame still_asks_def)
    qed
  qed
qed

lemma spend_picto_effect:
  assumes "store_ok (rt_pictos (ds_rt s))"
    and "lookup_picto D (ri_now io) binding scope (rt_pictos (ds_rt s)) = LookupVerified p"
    and "spend_picto D io eval binding p s = (res, s')"
  shows "same_config s s' \<and>
    (rt_pictos (ds_rt s') = rt_pictos (ds_rt s) \<and> (\<forall>eval'. res = Ok eval' \<longrightarrow> eval' = eval) \<or>
     (\<exists>r q store s1 res1. spent_grant D (ri_now io) binding scope (rt_pictos (ds_rt s)) (rt_pictos (ds_rt s')) r \<and>
        picto_id q = row_id r \<and>
        log_event D (ri_event1 io) (picto_consumed_event q) (set_pictos store s) = (res1, s1) \<and> s' = s1 \<and>
        res = and_then res1 (\<lambda>_. Ok (eval\<lparr>eval_decision := Allow\<rparr>))))"
proof -
  obtain c store where c: "consume_picto D (ri_now io) binding (picto_id p) (rt_pictos (ds_rt s)) = (c, store)"
    by (meson surj_pair)
  show ?thesis
  proof (cases c)
    case (Consumed q)
    obtain res1 s1 where l: "log_event D (ri_event1 io) (picto_consumed_event q) (set_pictos store s) = (res1, s1)"
      by (meson surj_pair)
    have out: "s' = s1" "res = and_then res1 (\<lambda>_. Ok (eval\<lparr>eval_decision := Allow\<rparr>))"
      using assms(3) c Consumed l by (cases res1; simp add: spend_picto_def)+
    have "rt_pictos (ds_rt s') = store" using log_event_rt [OF l] out(1) by simp
    moreover obtain r where "spent_grant D (ri_now io) binding scope (rt_pictos (ds_rt s)) store r" "picto_id q = row_id r"
      using found_and_consumed [OF assms(1,2) c [unfolded Consumed]] by blast
    ultimately show ?thesis
      using out l same_config_set_pictos [of s' store s] log_event_rt [OF l] by metis
  next
    case NotUsable
    then have "store = rt_pictos (ds_rt s)"
      using consume_picto_cases [OF assms(1) c] by auto
    with NotUsable assms(3) c show ?thesis by (auto simp: spend_picto_def same_config_def)
  next
    case (ConsumeBadSignature i sc)
    then have store: "store = rt_pictos (ds_rt s)"
      using consume_picto_cases [OF assms(1) c] by auto
    obtain res1 s1 where l: "log_event D (ri_event1 io) (PictoRejected i sc ''bad signature'') (set_pictos store s) = (res1, s1)"
      by (meson surj_pair)
    have "s' = s1" "\<forall>eval'. res = Ok eval' \<longrightarrow> eval' = eval"
      using assms(3) c ConsumeBadSignature l by (cases res1; auto simp: spend_picto_def)+
    then show ?thesis
      using log_event_rt [OF l] store by (simp add: same_config_def)
  qed
qed

definition ask_binding :: "daemon_env \<Rightarrow> toolcall \<Rightarrow> bool \<Rightarrow> string option" where
  "ask_binding D call b = (if b then Some (input_hash (de_extern D) call) else None)"

lemma resolve_ask_cases:
  assumes "store_ok (rt_pictos (ds_rt s))" and "resolve_ask D io call eval s = (res, s')"
  obtains (decided) "\<And>scope reason b. eval_decision eval \<noteq> AskPicto scope reason b" "res = Ok eval" "s' = s"
  | (asks) scope reason b where "eval_decision eval = AskPicto scope reason b" "same_config s s'"
      "rt_pictos (ds_rt s') = rt_pictos (ds_rt s)" "\<And>eval'. res = Ok eval' \<Longrightarrow> still_asks eval eval'"
  | (grants) scope reason b r q store res1 where "eval_decision eval = AskPicto scope reason b" "same_config s s'"
      "spent_grant D (ri_now io) (ask_binding D call b) scope (rt_pictos (ds_rt s)) (rt_pictos (ds_rt s')) r"
      "picto_id q = row_id r" "log_event D (ri_event1 io) (picto_consumed_event q) (set_pictos store s) = (res1, s')"
      "res = and_then res1 (\<lambda>_. Ok (eval\<lparr>eval_decision := Allow\<rparr>))"
proof (cases "eval_decision eval")
  case (AskPicto scope reason b)
  let ?lookup = "lookup_picto D (ri_now io) (ask_binding D call b) scope (rt_pictos (ds_rt s))"
  note asking = asks [OF AskPicto]
  show ?thesis
  proof (cases ?lookup)
    case LookupNone
    with assms(2) AskPicto have "ask_for_approval D io call eval scope reason b s = (res, s')"
      by (simp add: resolve_ask_def ask_binding_def)
    from ask_for_approval_effect [OF this] show ?thesis by (intro asking) auto
  next
    case (LookupBadSignature i sc)
    obtain res1 s1 where l: "log_event D (ri_event1 io) (PictoRejected i sc ''bad signature'') s = (res1, s1)"
      by (meson surj_pair)
    have "s' = s1" "\<forall>eval'. res = Ok eval' \<longrightarrow> eval' = eval"
      using assms(2) AskPicto LookupBadSignature l
      by (cases res1; auto simp: resolve_ask_def ask_binding_def)+
    then show ?thesis
      using log_event_rt [OF l] still_asks_refl [OF AskPicto] by (intro asking) (auto simp: same_config_def)
  next
    case (LookupVerified p)
    with assms(2) AskPicto have "spend_picto D io eval (ask_binding D call b) p s = (res, s')"
      by (simp add: resolve_ask_def ask_binding_def)
    note effect = spend_picto_effect [OF assms(1) LookupVerified this]
    from effect [THEN conjunct2] show ?thesis
    proof (elim disjE exE conjE)
      assume "rt_pictos (ds_rt s') = rt_pictos (ds_rt s)" "\<forall>eval'. res = Ok eval' \<longrightarrow> eval' = eval"
      then show ?thesis
        using effect still_asks_refl [OF AskPicto] by (intro asking) auto
    next
      fix r q store s1 res1
      assume "spent_grant D (ri_now io) (ask_binding D call b) scope (rt_pictos (ds_rt s)) (rt_pictos (ds_rt s')) r" "picto_id q = row_id r"
        "log_event D (ri_event1 io) (picto_consumed_event q) (set_pictos store s) = (res1, s1)" "s' = s1"
        "res = and_then res1 (\<lambda>_. Ok (eval\<lparr>eval_decision := Allow\<rparr>))"
      then show ?thesis using effect by (intro grants [OF AskPicto]) auto
    qed
  qed
qed (use assms(2) in \<open>auto simp: resolve_ask_def intro!: decided\<close>)

lemma evaluate_cases:
  assumes "evaluate is_match caps p = Some res"
  obtains (hard_stop) hit where "hardstop_check is_match caps = Some hit" "eval_decision res = hard_stop_decision hit"
  | (ruled) r d where "hardstop_check is_match caps = None"
      "find (\<lambda>r. matches (rule_match r) caps) (policy_rules p) = Some r"
      "decision_from_rule r = Some d" "eval_decision res = d"
  | (closed) reason where "eval_decision res = Gommage reason False"
proof (cases "hardstop_check is_match caps")
  case None
  show ?thesis
  proof (cases "find (\<lambda>r. matches (rule_match r) caps) (policy_rules p)")
    case None
    with assms \<open>hardstop_check is_match caps = None\<close> closed show ?thesis
      by (auto simp: evaluate_def)
  next
    case (Some r)
    with assms \<open>hardstop_check is_match caps = None\<close> ruled show ?thesis
      by (auto simp: evaluate_def rule_result_def)
  qed
qed (use assms hard_stop in \<open>auto simp: evaluate_def\<close>)

lemma decide_cases:
  assumes "decide_and_audit D io call s = (Ok res, s')"
  obtains eval s1 where
    "evaluate (de_glob D) (map_call (rt_mapper (ds_rt s)) call) (rt_policy (ds_rt s)) = Some eval"
    "resolve_ask D io call eval s = (Ok res, s1)"
    "log_decision D (ri_final io) call res s1 = (Ok (), s')"
  using assms
  by (auto simp: decide_and_audit_def then_do_def split: option.splits prod.splits sum.splits)

section \<open>A daemon for the examples\<close>

text \<open>One mapper rule, one rule that asks for the scope of the example grant, and a codec that
  prints exactly the two records of one request.\<close>

definition demo_deploy_rule :: compiled_rule where
  "demo_deploy_rule =
     \<lparr>crule_name = ''deploy'', crule_tool_match = Exact ''Deploy'', crule_match_input = [],
      crule_emit = [parse_template ''deploy:prod''], crule_source = [''m.yaml''], crule_index = 0\<rparr>"

definition demo_ask_rule :: rule where
  "demo_ask_rule =
     \<lparr>rule_name = ''ask'', rule_decision = RuleAskPicto, rule_hard_stop = False,
      rule_required_scope = Some ''git.push:main'', rule_bind_input = False,
      rule_match = \<lparr>any_capability = [\<lambda>c. c = ''deploy:prod''], all_capability = [], none_capability = []\<rparr>,
      rule_reason = ''needs a grant'', source_file = [''p.yaml''], source_index = 0\<rparr>"

definition demo_deploy_call :: toolcall where
  "demo_deploy_call = \<lparr>tool = ''Deploy'', input = JObject []\<rparr>"

definition demo_runtime :: runtime where
  "demo_runtime =
     \<lparr>rt_mapper = \<lparr>mapper_rules = [demo_deploy_rule], mapper_version = ''m''\<rparr>,
      rt_policy = \<lparr>policy_rules = [demo_ask_rule], policy_version = ''p''\<rparr>,
      rt_pictos = demo_store, rt_approvals = None, rt_expedition = None,
      rt_layout = home_layout_at [''/'', ''h'']\<rparr>"

definition demo_state :: daemon_state where
  "demo_state =
     \<lparr>ds_rt = demo_runtime, ds_audit = Some [], ds_letters = None, ds_fingerprint = None\<rparr>"

definition demo_allowed :: eval_result where
  "demo_allowed =
     \<lparr>eval_decision = Allow,
      eval_matched = Some \<lparr>matched_name = ''ask'', matched_file = ''p.yaml'', matched_index = 0\<rparr>,
      eval_capabilities = [''deploy:prod''], eval_policy_version = ''p''\<rparr>"

definition demo_decision_entry :: audit_entry where
  "demo_decision_entry =
     (let e = \<lparr>ae_version = 1, ae_id = ''i'', ae_ts = ''t'', ae_tool = ''Deploy'',
                ae_input_hash = input_hash demo_extern demo_deploy_call,
                ae_capabilities = [''deploy:prod''], ae_decision = Allow,
                ae_matched_rule = eval_matched demo_allowed, ae_policy_version = ''p'',
                ae_expedition = None, ae_sig = []\<rparr>
      in e\<lparr>ae_sig := ed25519_sig demo_extern ''key'' (canonical_bytes e)\<rparr>)"

definition demo_consumed_entry :: audit_event_entry where
  "demo_consumed_entry =
     (let e = \<lparr>ev_version = 1, ev_id = ''i'', ev_ts = ''t'', ev_kind = ''event'',
                ev_event = PictoConsumed ''p1'' ''git.push:main'' 1 1 ''spent'', ev_sig = []\<rparr>
      in e\<lparr>ev_sig := ed25519_sig demo_extern ''key'' (canonical_event_bytes e)\<rparr>)"

definition demo_daemon_codec :: audit_codec where
  "demo_daemon_codec =
     \<lparr>entry_line = (\<lambda>e. if e = demo_decision_entry then Ok ''{}'' else Err ''unsupported''),
      event_line = (\<lambda>e. if e = demo_consumed_entry then Ok ''[]'' else Err ''unsupported''),
      parse_json = (\<lambda>l. if l = ''{}'' then Ok (JObject [])
        else if l = ''[]'' then Ok (JObject [(''kind'', JString ''event'')]) else Err ''syntax''),
      entry_of_json = (\<lambda>v. Ok demo_decision_entry),
      event_of_json = (\<lambda>v. Ok demo_consumed_entry)\<rparr>"

definition demo_daemon :: daemon_env where
  "demo_daemon =
     \<lparr>de_extern = demo_extern, de_glob = (\<lambda>p t. False),
      de_lib = \<lparr>rl_policy = demo_policy_lib,
        rl_mapper = \<lparr>regex_build = (\<lambda>s. Err []), yaml_mapper_rules = (\<lambda>s. Ok [])\<rparr>,
        rl_expedition = \<lparr>ex_to_json = (\<lambda>x. Err []), ex_from_json = (\<lambda>s. Err [])\<rparr>\<rparr>,
      de_audit = demo_daemon_codec, de_approvals = demo_codec, de_letters = demo_letter_codec,
      de_stream = \<lparr>sc_parse_json = (\<lambda>l. Err []), sc_event_of_value = (\<lambda>v. Err [])\<rparr>,
      de_to_vec = (\<lambda>v. Err []), de_vars = (\<lambda>_. None), de_key = ''key'', de_home_root = [''/'', ''h'']\<rparr>"

definition demo_append :: append_io where
  "demo_append = (\<lparr>stamp_ts = Ok ''t'', stamp_id = ''i''\<rparr>, Wrote)"

definition demo_io :: request_io where
  "demo_io =
     \<lparr>ri_now = 0, ri_uuid = ''u'', ri_approval_io = \<lparr>on_read = None, on_write = Wrote\<rparr>,
      ri_event1 = demo_append, ri_event2 = demo_append, ri_hook1 = demo_append, ri_hook2 = demo_append,
      ri_final = demo_append, ri_sign_now = 0, ri_curl = (\<lambda>n args content. CurlBroken []),
      ri_letter_stamp = \<lparr>dst_uuid = ''u'', dst_now = ''t''\<rparr>, ri_letter_write = Wrote,
      ri_fs = memory_fs [], ri_record_fault = None, ri_open_fault = None, ri_read_fault = None\<rparr>"

lemma demo_caps: "map_call (rt_mapper (ds_rt demo_state)) demo_deploy_call = [''deploy:prod'']"
  by code_simp

lemma demo_decides:
  "fst (decide_and_audit demo_daemon demo_io demo_deploy_call demo_state) = Ok demo_allowed"
  by code_simp

section \<open>What justifies an allow\<close>

text \<open>An allow rule, or an ask rule and a grant of which one use was spent.\<close>

definition justified_allow ::
  "daemon_env \<Rightarrow> request_io \<Rightarrow> toolcall \<Rightarrow> daemon_state \<Rightarrow> daemon_state \<Rightarrow> bool" where
  "justified_allow D io call s s' \<longleftrightarrow>
    (let caps = map_call (rt_mapper (ds_rt s)) call in
    hardstop_check (de_glob D) caps = None \<and>
    (\<exists>r. find (\<lambda>r. matches (rule_match r) caps) (policy_rules (rt_policy (ds_rt s))) = Some r \<and>
       (rule_decision r = RuleAllow \<or>
        rule_decision r = RuleAskPicto \<and>
        (\<exists>scope row. rule_required_scope r = Some scope \<and> row \<in> set (rt_pictos (ds_rt s)) \<and>
           row_scope row = scope \<and>
           usable_row (ask_binding D call (rule_bind_input r)) (ri_now io) row \<and>
           is_ok (verify_for_input_hash (de_extern D) (row_to_picto (de_extern D) row)
             (ask_binding D call (rule_bind_input r)) (de_vk D)) \<and>
           (\<forall>k. uses_of (rt_pictos (ds_rt s')) k =
              uses_of (rt_pictos (ds_rt s)) k + (if k = row_id row then 1 else 0))))))"

lemma ruled_allow_justified:
  assumes "hardstop_check (de_glob D) (map_call (rt_mapper (ds_rt s)) call) = None"
    and "find (\<lambda>r. matches (rule_match r) (map_call (rt_mapper (ds_rt s)) call))
      (policy_rules (rt_policy (ds_rt s))) = Some r"
    and "decision_from_rule r = Some Allow"
  shows "justified_allow D io call s s'"
  using assms by (auto simp: justified_allow_def decision_from_rule_def Let_def split: rule_decision.splits)

lemma granted_allow_justified:
  assumes "hardstop_check (de_glob D) (map_call (rt_mapper (ds_rt s)) call) = None"
    and "find (\<lambda>r. matches (rule_match r) (map_call (rt_mapper (ds_rt s)) call))
      (policy_rules (rt_policy (ds_rt s))) = Some r"
    and "decision_from_rule r = Some (AskPicto scope reason b)"
    and "spent_grant D (ri_now io) (ask_binding D call b) scope (rt_pictos (ds_rt s)) (rt_pictos (ds_rt s')) row"
  shows "justified_allow D io call s s'"
proof -
  have "rule_decision r = RuleAskPicto" "rule_required_scope r = Some scope" "rule_bind_input r = b"
    using assms(3) by (auto simp: decision_from_rule_def split: rule_decision.splits)
  with assms show ?thesis by (auto simp: justified_allow_def spent_grant_def Let_def)
qed

lemma decide_allow_justified:
  assumes "store_ok (rt_pictos (ds_rt s))"
    and "decide_and_audit D io call s = (Ok res, s')" and "eval_decision res = Allow"
  shows "justified_allow D io call s s'"
proof -
  obtain eval s1 where e: "evaluate (de_glob D) (map_call (rt_mapper (ds_rt s)) call) (rt_policy (ds_rt s)) = Some eval"
      and ask: "resolve_ask D io call eval s = (Ok res, s1)"
      and l: "log_decision D (ri_final io) call res s1 = (Ok (), s')"
    using assms(2) by (rule decide_cases)
  from e show ?thesis
  proof (cases rule: evaluate_cases)
    case (hard_stop hit)
    with ask assms(3) show ?thesis by (simp add: resolve_ask_def hard_stop_decision_def)
  next
    case (closed reason)
    with ask assms(3) show ?thesis by (simp add: resolve_ask_def)
  next
    case (ruled r d)
    show ?thesis
      using assms(1) ask
    proof (cases rule: resolve_ask_cases)
      case decided
      with ruled assms(3) show ?thesis by (auto intro: ruled_allow_justified)
    next
      case (asks scope reason b)
      with assms(3) show ?thesis by (auto simp: still_asks_def)
    next
      case (grants scope reason b row q store res1)
      with ruled log_decision_rt [OF l] show ?thesis by (auto intro: granted_allow_justified)
    qed
  qed
qed

section \<open>Properties of decisions\<close>

text \<open>C2. The daemon allows a call only by an allow rule or by spending a grant: an Allow means
  that no hard stop applies and that the first matching rule either allows, or asks for a scope
  for which the store held a grant, bound to this input if the rule binds it, active, unspent,
  unexpired and with a signature that verifies under the daemon's key, of which this request
  spent one use.\<close>

theorem allow_needs_rule_or_grant:
  assumes "store_ok (rt_pictos (ds_rt s))"
    and "decide_and_audit D io call s = (Ok res, s')" and "eval_decision res = Allow"
  shows "let caps = map_call (rt_mapper (ds_rt s)) call in
    hardstop_check (de_glob D) caps = None \<and>
    (\<exists>r. find (\<lambda>r. matches (rule_match r) caps) (policy_rules (rt_policy (ds_rt s))) = Some r \<and>
       (rule_decision r = RuleAllow \<or>
        rule_decision r = RuleAskPicto \<and>
        (\<exists>scope row. rule_required_scope r = Some scope \<and> row \<in> set (rt_pictos (ds_rt s)) \<and>
           row_scope row = scope \<and>
           usable_row (ask_binding D call (rule_bind_input r)) (ri_now io) row \<and>
           is_ok (verify_for_input_hash (de_extern D) (row_to_picto (de_extern D) row)
             (ask_binding D call (rule_bind_input r)) (de_vk D)) \<and>
           (\<forall>k. uses_of (rt_pictos (ds_rt s')) k =
              uses_of (rt_pictos (ds_rt s)) k + (if k = row_id row then 1 else 0)))))"
  using decide_allow_justified [OF assms] by (simp add: justified_allow_def)

theorem allow_needs_rule_or_grant_witness:
  "uses_of demo_store ''p1'' = 0 \<and>
   uses_of (rt_pictos (ds_rt (snd (decide_and_audit demo_daemon demo_io demo_deploy_call demo_state)))) ''p1'' = 1"
proof -
  let ?r = "decide_and_audit demo_daemon demo_io demo_deploy_call demo_state"
  have r: "?r = (Ok demo_allowed, snd ?r)"
    using demo_decides by (metis prod.collapse)
  have rt: "rt_pictos (ds_rt demo_state) = demo_store" by (simp add: demo_state_def demo_runtime_def)
  have ok: "store_ok (rt_pictos (ds_rt demo_state))" unfolding rt by code_simp
  have "find (\<lambda>r. matches (rule_match r) (map_call (rt_mapper (ds_rt demo_state)) demo_deploy_call))
      (policy_rules (rt_policy (ds_rt demo_state))) = Some demo_ask_rule"
    unfolding demo_caps
    by (simp add: demo_state_def demo_runtime_def demo_ask_rule_def matches_def)
  moreover have "rule_decision demo_ask_rule = RuleAskPicto" by (simp add: demo_ask_rule_def)
  moreover have "eval_decision demo_allowed = Allow" by (simp add: demo_allowed_def)
  ultimately obtain row where "row \<in> set demo_store"
      "\<forall>k. uses_of (rt_pictos (ds_rt (snd ?r))) k = uses_of demo_store k + (if k = row_id row then 1 else 0)"
    using allow_needs_rule_or_grant [OF ok r] rt by (auto simp: Let_def)
  moreover have "\<forall>row \<in> set demo_store. row_id row = ''p1''" "uses_of demo_store ''p1'' = 0" by code_simp+
  ultimately show ?thesis by simp
qed

end
