(* ===== verification/Daemon_Log.thy ===== *)
theory Daemon_Log
  imports Daemon_Laws
begin

text \<open>
  The audit log behind the daemon: an operation of the daemon only extends it, and where its last
  line was complete by whole lines, each of which holds the record the operation meant to write and
  verifies under the daemon's key; the record of a verdict the daemon returns is what it ends with.
\<close>

section \<open>The log behind the daemon\<close>






























section \<open>Whatever the log ended with\<close>










section \<open>Verdicts and the log\<close>




end
