(* ===== verification/Daemon_Reload.thy ===== *)
theory Daemon_Reload
  imports Daemon_Log
begin

text \<open>
  Guarded reloads: what a reload may change, and what it costs.
\<close>

section \<open>Guarded reloads\<close>

lemma activate_config_effect:
  assumes "activate_config D io source m disk q s = (res, s')"
  shows "rt_pictos (ds_rt s') = rt_pictos (ds_rt s) \<and>
    (same_config s s' \<or>
     ds_rt s' = install_read_model m (ds_rt s) \<and>
     fst (log_event D (ri_event1 io) (picto_consumed_event q) s) = Ok ())"
proof -
  obtain r1 s1 where l1: "log_event D (ri_event1 io) (picto_consumed_event q) s = (r1, s1)"
    by (meson surj_pair)
  note rt1 = log_event_rt [OF l1]
  show ?thesis
  proof (cases r1)
    case (Inl e)
    with assms l1 rt1 show ?thesis by (auto simp: activate_config_def same_config_rt)
  next
    case (Inr u)
    let ?s2 = "s1\<lparr>ds_rt := install_read_model m (ds_rt s1)\<rparr>"
    obtain r2 s3 where l2: "log_event D (ri_event2 io)
        (PolicyReloaded source (length (policy_rules (rt_policy (ds_rt ?s2))))
          (length (mapper_rules (rt_mapper (ds_rt ?s2)))) (policy_version (rt_policy (ds_rt ?s2)))
          (Some disk) (Some (picto_id q))) ?s2 = (r2, s3)"
      by (meson surj_pair)
    have "ds_rt s' = ds_rt s3"
      using assms l1 Inr l2 by (cases r2) (auto simp: activate_config_def Let_def record_fingerprint_frame)
    then have "ds_rt s' = install_read_model m (ds_rt s)"
      using log_event_rt [OF l2] rt1 by simp
    then show ?thesis using l1 Inr by (simp add: install_read_model_def)
  qed
qed

lemma rejected_frame:
  assumes "then_do (log_event D io ev s) (\<lambda>_ s1. refuse_reload D io' source loaded disk reason s1) = (res, s')"
  shows "ds_rt s' = ds_rt s"
proof -
  obtain r s1 where l: "log_event D io ev s = (r, s1)" by (meson surj_pair)
  with assms log_event_rt [OF l] refuse_reload_frame show ?thesis
    by (cases r) (auto dest!: refuse_reload_frame)
qed

lemma refused_consume_frame:
  assumes "store_ok (rt_pictos (ds_rt s))"
    and "consume_picto D now binding pid (rt_pictos (ds_rt s)) = (c, store)" and "\<And>p. c \<noteq> Consumed p"
  shows "ds_rt (set_pictos store s) = ds_rt s"
proof -
  have "store = rt_pictos (ds_rt s)"
    using consume_picto_cases [OF assms(1,2)] assms(3) by metis
  then show ?thesis by (simp add: set_pictos_def)
qed

lemma reload_cases:
  assumes "store_ok (rt_pictos (ds_rt s))" and "reload_guarded D io source s = (res, s')"
  obtains (kept) "same_config s s'" "rt_pictos (ds_rt s') = rt_pictos (ds_rt s)"
  | (granted) m r q store where
      "read_model_load (de_extern D) (de_lib D) (de_vars D) (ri_fs io) (rt_layout (ds_rt s)) = Ok m"
      "read_model_fingerprint (de_extern D) m \<noteq> runtime_fingerprint (de_extern D) (ds_rt s)"
      "spent_grant D (ri_now io) None CONFIG_ACTIVATION_SCOPE (rt_pictos (ds_rt s)) store r"
      "picto_id q = row_id r"
      "activate_config D io source m (read_model_fingerprint (de_extern D) m) q (set_pictos store s) = (res, s')"
proof (cases "read_model_load (de_extern D) (de_lib D) (de_vars D) (ri_fs io) (rt_layout (ds_rt s))")
  case (Inl e)
  with assms(2) kept show ?thesis by (auto simp: reload_guarded_def)
next
  case (Inr m)
  let ?disk = "read_model_fingerprint (de_extern D) m"
  let ?loaded = "runtime_fingerprint (de_extern D) (ds_rt s)"
  let ?store = "rt_pictos (ds_rt s)"
  let ?lookup = "lookup_picto D (ri_now io) None CONFIG_ACTIVATION_SCOPE ?store"
  have unchanged: thesis if "ds_rt s' = ds_rt s"
    using that by (intro kept) (simp_all add: same_config_rt)
  note reload = assms(2) [unfolded reload_guarded_def Inr sum.case Let_def]
  show ?thesis
  proof (cases "?disk = ?loaded")
    case True
    with reload unchanged show ?thesis by auto
  next
    case False
    note reload = reload [unfolded if_not_P [OF False]]
    show ?thesis
    proof (cases ?lookup)
      case LookupNone
      note reload [unfolded LookupNone picto_lookup.case]
      from refuse_reload_frame [OF this] show ?thesis by (intro unchanged) simp
    next
      case (LookupBadSignature i scope)
      note reload [unfolded LookupBadSignature picto_lookup.case]
      from rejected_frame [OF this] show ?thesis by (rule unchanged)
    next
      case (LookupVerified p)
      obtain c store where c: "consume_picto D (ri_now io) None (picto_id p) ?store = (c, store)"
        by (meson surj_pair)
      note reload = reload [unfolded LookupVerified picto_lookup.case c prod.case]
      show ?thesis
      proof (cases c)
        case (Consumed q)
        then obtain r where "spent_grant D (ri_now io) None CONFIG_ACTIVATION_SCOPE ?store store r" "picto_id q = row_id r"
          using found_and_consumed [OF assms(1) LookupVerified] c by blast
        from granted [OF Inr False this reload [unfolded Consumed picto_consume.case]] show ?thesis .
      next
        case NotUsable
        note reload [unfolded NotUsable picto_consume.case]
        from refuse_reload_frame [OF this] refused_consume_frame [OF assms(1) c] NotUsable
        show ?thesis by (intro unchanged) simp
      next
        case (ConsumeBadSignature i scope)
        note reload [unfolded ConsumeBadSignature picto_consume.case]
        from rejected_frame [OF this] refused_consume_frame [OF assms(1) c] ConsumeBadSignature
        show ?thesis by (intro unchanged) simp
      qed
    qed
  qed
qed

text \<open>C4. Changed configuration is activated only by a grant for it: when a reload changes the
  policy, the mapper or the expedition the daemon runs with, the files on disk had another
  fingerprint than the loaded ones, one use of an active, verifying, unbound grant of the scope
  \<open>harness.configure\<close> was spent, its consumption was written to the audit log before, and
  what is installed is exactly the configuration that was read and fingerprinted.\<close>

theorem config_changes_need_grant:
  assumes "store_ok (rt_pictos (ds_rt s))" and "reload_guarded D io source s = (res, s')"
    and "\<not> same_config s s'"
  shows "\<exists>m r q store.
    read_model_load (de_extern D) (de_lib D) (de_vars D) (ri_fs io) (rt_layout (ds_rt s)) = Ok m \<and>
    read_model_fingerprint (de_extern D) m \<noteq> runtime_fingerprint (de_extern D) (ds_rt s) \<and>
    spent_grant D (ri_now io) None ''harness.configure'' (rt_pictos (ds_rt s)) (rt_pictos (ds_rt s')) r \<and>
    picto_id q = row_id r \<and>
    fst (log_event D (ri_event1 io) (picto_consumed_event q) (set_pictos store s)) = Ok () \<and>
    ds_rt s' = install_read_model m (ds_rt (set_pictos store s))"
  using assms(1,2)
proof (cases rule: reload_cases)
  case kept
  with assms(3) show ?thesis by simp
next
  case (granted m r q store)
  from activate_config_effect [OF granted(5)] assms(3)
  have "rt_pictos (ds_rt s') = store" "ds_rt s' = install_read_model m (ds_rt (set_pictos store s))"
    "fst (log_event D (ri_event1 io) (picto_consumed_event q) (set_pictos store s)) = Ok ()"
    by (auto simp: same_config_def)
  with granted show ?thesis by (auto simp: CONFIG_ACTIVATION_SCOPE_def)
qed

definition reload_demo_store :: picto_store where
  "reload_demo_store = snd (projr (create demo_extern 0 ''key'' [] ''p2'' ''harness.configure'' 1 600 ''why'' False))"

definition reload_demo_state :: daemon_state where
  "reload_demo_state = demo_state\<lparr>ds_rt := demo_runtime\<lparr>rt_pictos := reload_demo_store\<rparr>\<rparr>"

definition reload_demo :: daemon_env where
  "reload_demo = demo_daemon\<lparr>de_audit := demo_daemon_codec\<lparr>event_line := (\<lambda>e. Ok ''[]'')\<rparr>\<rparr>"

lemma reload_demo_policy:
  "length (policy_rules (rt_policy (ds_rt (snd (reload_guarded reload_demo demo_io ''ipc'' reload_demo_state))))) = 0"
  by code_simp

theorem config_changes_need_grant_witness:
  "\<exists>r. spent_grant reload_demo 0 None ''harness.configure'' reload_demo_store
      (rt_pictos (ds_rt (snd (reload_guarded reload_demo demo_io ''ipc'' reload_demo_state)))) r"
proof -
  let ?r = "reload_guarded reload_demo demo_io ''ipc'' reload_demo_state"
  have r: "?r = (fst ?r, snd ?r)" by simp
  have st: "rt_pictos (ds_rt reload_demo_state) = reload_demo_store"
    "length (policy_rules (rt_policy (ds_rt reload_demo_state))) = 1" "ri_now demo_io = 0"
    by (simp_all add: reload_demo_state_def demo_runtime_def demo_state_def demo_io_def)
  have "store_ok reload_demo_store" by code_simp
  moreover have "\<not> same_config reload_demo_state (snd ?r)"
    using reload_demo_policy st(2) by (auto simp: same_config_def)
  ultimately show ?thesis
    using config_changes_need_grant [OF _ r] by (auto simp: st)
qed

end
