(* ===== verification/Daemon_Run.thy ===== *)
theory Daemon_Run
  imports Daemon_Reload
begin

text \<open>
  The daemon as a running system: runs in which requests, reloads, restarts and the operators'
  tools on the shared grant store and inbox interleave, and connections.
\<close>

section \<open>The running daemon\<close>

text \<open>The grant whose use a step has spent, if any.\<close>

definition spent_of :: "picto_store \<Rightarrow> picto_store \<Rightarrow> string option" where
  "spent_of store store' = find (\<lambda>k. uses_of store' k \<noteq> uses_of store k) (map row_id store)"

datatype daemon_label =
    Served request_io request "reply option" "string option"
  | HungUp request_io "string option"
  | Restarted
  | StoreTool picto_event
  | InboxTool approval_event

abbreviation pictos_of :: "daemon_state \<Rightarrow> picto_store" where
  "pictos_of s \<equiv> rt_pictos (ds_rt s)"

text \<open>Requests and reloads run under the lock, so they are atomic against each other; the tools of
  the command line work on the same store and inbox between them, and the daemon may be restarted
  at any point.\<close>

inductive daemon_step :: "daemon_env \<Rightarrow> daemon_state \<Rightarrow> daemon_label \<Rightarrow> daemon_state \<Rightarrow> bool" for D where
  step_served:
    "handle_request D io req s = (answer, s') \<Longrightarrow>
       daemon_step D s (Served io req answer (spent_of (pictos_of s) (pictos_of s'))) s'"
| step_hung_up:
    "reload_guarded D io ''sighup'' s = (res, s') \<Longrightarrow>
       daemon_step D s (HungUp io (spent_of (pictos_of s) (pictos_of s'))) s'"
| step_restarted:
    "runtime_open (de_extern D) (de_lib D) (de_vars D) F (Ok ()) (Ok (pictos_of s))
        (rt_approvals (ds_rt s)) (rt_layout (ds_rt s)) = Ok rt \<Longrightarrow>
       daemon_step D s Restarted (note_startup_fingerprint D io file (s\<lparr>ds_rt := rt\<rparr>))"
| step_store_tool:
    "picto_step (de_extern D) (de_key D) (de_vk D) (pictos_of s) e store \<Longrightarrow>
       daemon_step D s (StoreTool e) (set_pictos store s)"
| step_inbox_tool:
    "approval_step (de_approvals D) (rt_approvals (ds_rt s)) e f \<Longrightarrow>
       daemon_step D s (InboxTool e) (s\<lparr>ds_rt := (ds_rt s)\<lparr>rt_approvals := f\<rparr>\<rparr>)"

fun label_spends :: "daemon_label \<Rightarrow> string \<Rightarrow> nat" where
  "label_spends (Served io req answer u) k = (if u = Some k then 1 else 0)"
| "label_spends (HungUp io u) k = (if u = Some k then 1 else 0)"
| "label_spends (StoreTool e) k = uses_spent e k"
| "label_spends _ k = 0"

lemma spent_of_same [simp]: "spent_of store store = None"
  by (simp add: spent_of_def find_None_iff)

lemma spent_of_grant:
  assumes "spent_grant D now binding scope store store' r"
  shows "spent_of store store' = Some (row_id r)"
proof -
  have "(\<lambda>k. uses_of store' k \<noteq> uses_of store k) = (\<lambda>k. k = row_id r)"
    using assms by (auto simp: spent_grant_def)
  moreover have "find (\<lambda>k. k = row_id r) ks = Some (row_id r)" if "row_id r \<in> set ks" for ks
    using that by (induction ks) auto
  ultimately show ?thesis using assms by (simp add: spent_of_def spent_grant_def)
qed

text \<open>What every request and reload does to the store.\<close>

definition at_most_one_use :: "daemon_env \<Rightarrow> picto_store \<Rightarrow> picto_store \<Rightarrow> bool" where
  "at_most_one_use D store store' \<longleftrightarrow>
     store' = store \<or> (\<exists>now binding scope r. spent_grant D now binding scope store store' r)"

lemma at_most_one_use_refl [simp]: "at_most_one_use D store store"
  by (simp add: at_most_one_use_def)

lemma reload_uses:
  assumes "store_ok (pictos_of s)" and "reload_guarded D io source s = (res, s')"
  shows "at_most_one_use D (pictos_of s) (pictos_of s')"
  using assms
proof (cases rule: reload_cases)
  case (granted m r q store)
  with activate_config_effect [OF granted(5)] show ?thesis by (auto simp: at_most_one_use_def)
qed simp

lemma decide_uses:
  assumes "store_ok (pictos_of s)" and "decide_and_audit D io call s = (res, s')"
  shows "at_most_one_use D (pictos_of s) (pictos_of s')"
proof (cases "evaluate (de_glob D) (map_call (rt_mapper (ds_rt s)) call) (rt_policy (ds_rt s))")
  case None
  with assms(2) show ?thesis by (simp add: decide_and_audit_def)
next
  case (Some eval)
  obtain r s1 where ask: "resolve_ask D io call eval s = (r, s1)" by (meson surj_pair)
  have "at_most_one_use D (pictos_of s) (pictos_of s1)"
    using assms(1) ask by (cases rule: resolve_ask_cases) (auto simp: at_most_one_use_def)
  moreover have "pictos_of s' = pictos_of s1"
  proof (cases r)
    case (Inr eval')
    obtain r2 s2 where l: "log_decision D (ri_final io) call eval' s1 = (r2, s2)" by (meson surj_pair)
    with assms(2) Some ask Inr log_decision_rt [OF l] show ?thesis
      by (cases r2) (auto simp: decide_and_audit_def)
  qed (use assms(2) Some ask in \<open>simp add: decide_and_audit_def\<close>)
  ultimately show ?thesis by simp
qed

lemma request_uses:
  assumes "store_ok (pictos_of s)" and "handle_request D io req s = (answer, s')"
  shows "at_most_one_use D (pictos_of s) (pictos_of s')"
proof (cases req)
  case (Decide call)
  obtain res s1 where "decide_and_audit D io call s = (res, s1)" by (meson surj_pair)
  with assms(2) decide_uses [OF assms(1) this] Decide show ?thesis
    by (auto simp: handle_request_def split: sum.splits daemon_error.splits)
next
  case Reload
  obtain res s1 where "reload_guarded D io ''ipc'' s = (res, s1)" by (meson surj_pair)
  with assms(2) reload_uses [OF assms(1) this] Reload show ?thesis
    by (auto simp: handle_request_def split: sum.splits reload_outcome.splits)
qed (use assms(2) in \<open>auto simp: handle_request_def split: sum.splits\<close>)

lemma one_use_step:
  assumes "at_most_one_use D store store'" and "store_ok store"
  shows "store_ok store' \<and> uses_of store' k = uses_of store k + (if spent_of store store' = Some k then 1 else 0) \<and>
    (budget_of store k \<noteq> 0 \<longrightarrow> budget_of store' k = budget_of store k)"
  using assms(1) unfolding at_most_one_use_def
proof (elim disjE exE)
  fix now binding scope r
  assume g: "spent_grant D now binding scope store store' r"
  then have step: "picto_step (de_extern D) (de_key D) (de_vk D) store (EvUsed (row_id r)) store'"
    by (simp add: spent_grant_def)
  from step_ok [OF assms(2) step] step_uses [OF assms(2) step, of k] spent_of_grant [OF g]
  show ?thesis by auto
qed (use assms(2) in simp)

lemma startup_rt [daemon_frame]: "ds_rt (note_startup_fingerprint D io file s) = ds_rt s"
  by (auto simp: note_startup_fingerprint_def Let_def record_fingerprint_frame log_event_frame
      split: option.split)

lemma runtime_open_pictos:
  "runtime_open E RL vars F (Ok ()) (Ok store) approvals L = Ok rt \<Longrightarrow> rt_pictos rt = store"
  by (auto simp: runtime_open_def and_then_Ok_iff)

lemma daemon_step_uses:
  assumes "daemon_step D s l s'" and "store_ok (pictos_of s)"
  shows "store_ok (pictos_of s') \<and>
    uses_of (pictos_of s') k = uses_of (pictos_of s) k + label_spends l k \<and>
    (budget_of (pictos_of s) k \<noteq> 0 \<longrightarrow> budget_of (pictos_of s') k = budget_of (pictos_of s) k)"
  using assms
proof (cases rule: daemon_step.cases)
  case (step_served io req answer)
  with one_use_step [OF request_uses [OF assms(2) step_served(2)] assms(2)] show ?thesis by simp
next
  case (step_hung_up io res)
  with one_use_step [OF reload_uses [OF assms(2) step_hung_up(2)] assms(2)] show ?thesis by simp
next
  case (step_restarted F rt io content)
  with runtime_open_pictos [OF step_restarted(3)] assms(2) show ?thesis by (simp add: startup_rt)
next
  case (step_store_tool e store)
  with step_ok [OF assms(2) step_store_tool(3)] step_uses [OF assms(2) step_store_tool(3)] show ?thesis by simp
qed (use assms(2) in simp)

interpretation daemon_budget:
  use_budget "daemon_step D" label_spends "\<lambda>s. uses_of (pictos_of s)" "\<lambda>s. budget_of (pictos_of s)"
    "\<lambda>s. store_ok (pictos_of s)"
  by unfold_locales (auto dest: daemon_step_uses uses_within_budget)

fun allowed_by :: "string \<Rightarrow> daemon_label \<Rightarrow> bool" where
  "allowed_by k (Served io (Decide call) (Some (Ok (Verdict v))) u) \<longleftrightarrow>
     eval_decision v = Allow \<and> u = Some k"
| "allowed_by k _ = False"

lemma allowed_spends: "allowed_by k l \<Longrightarrow> label_spends l k = 1"
  by (induction k l rule: allowed_by.induct) auto

lemma allowed_count:
  "length (filter (allowed_by k) ls) \<le> sum_list (map (\<lambda>l. label_spends l k) ls)"
  by (induction ls) (auto dest: allowed_spends)

text \<open>C5. A grant pays for no more verdicts than it allows: along every run of the daemon, with
  requests, reloads, restarts, and creations, revocations and consumptions by the operators'
  tools in any order, the verdicts that were allowed by spending a grant, together with the uses
  it had before, stay within its \<open>max_uses\<close>, which nothing changes, and each use in the store is
  accounted for by a step of the run.\<close>

theorem daemon_spends_within_budget:
  assumes "store_ok (pictos_of s)" and "run (daemon_step D) s ls s'"
  shows "uses_of (pictos_of s) k + sum_list (map (\<lambda>l. label_spends l k) ls) = uses_of (pictos_of s') k \<and>
    uses_of (pictos_of s) k + length (filter (allowed_by k) ls) \<le> budget_of (pictos_of s') k \<and>
    (budget_of (pictos_of s) k \<noteq> 0 \<longrightarrow> budget_of (pictos_of s') k = budget_of (pictos_of s) k)"
  using daemon_budget.used_run [OF assms(2,1), of k] daemon_budget.budget_run [OF assms(2,1), of k]
    daemon_budget.total_within_budget [OF assms(2,1), of k] allowed_count [of k ls]
  by auto

lemma daemon_demo_run:
  "run (daemon_step demo_daemon) demo_state
     [Served demo_io (Decide demo_deploy_call) (Some (Ok (Verdict demo_allowed)))
        (spent_of demo_store (pictos_of (snd (decide_and_audit demo_daemon demo_io demo_deploy_call demo_state))))]
     (snd (decide_and_audit demo_daemon demo_io demo_deploy_call demo_state))"
proof -
  have "handle_request demo_daemon demo_io (Decide demo_deploy_call) demo_state =
      (Some (Ok (Verdict demo_allowed)), snd (decide_and_audit demo_daemon demo_io demo_deploy_call demo_state))"
    using demo_decides by (simp add: handle_request_def prod.case_eq_if)
  moreover have "pictos_of demo_state = demo_store" by (simp add: demo_state_def demo_runtime_def)
  ultimately show ?thesis by (metis run_nil run_cons step_served)
qed

theorem daemon_spends_within_budget_witness:
  "uses_of (pictos_of (snd (decide_and_audit demo_daemon demo_io demo_deploy_call demo_state))) ''p1'' \<le> 1 \<and>
   budget_of (pictos_of (snd (decide_and_audit demo_daemon demo_io demo_deploy_call demo_state))) ''p1'' = 1"
proof -
  let ?s = "snd (decide_and_audit demo_daemon demo_io demo_deploy_call demo_state)"
  have st: "pictos_of demo_state = demo_store" by (simp add: demo_state_def demo_runtime_def)
  have "store_ok demo_store" "budget_of demo_store ''p1'' = 1" "uses_of demo_store ''p1'' = 0" by code_simp+
  then show ?thesis
    using daemon_spends_within_budget [OF _ daemon_demo_run, of "''p1''"]
    by (auto simp: st simp del: One_nat_def split: if_splits)
qed

section \<open>Connections\<close>

text \<open>A reply is of the kind its request asks for, or an error of that kind.\<close>

fun answers :: "(string, request) result \<Rightarrow> reply \<Rightarrow> bool" where
  "answers (Err e) r = (r = Err (BadRequest e))"
| "answers (Ok Ping) r = (r = Ok Pong)"
| "answers (Ok (RecentAudit n)) r =
     ((\<exists>items. r = Ok (Items items) \<and> length items \<le> 100) \<or> (\<exists>e. r = Err (RecentAuditFailed e)))"
| "answers (Ok Reload) r =
     ((\<exists>m. r = Ok (Message m)) \<or> (\<exists>m. r = Err (ReloadRefused m)) \<or> (\<exists>e. r = Err (ReloadFailed e)))"
| "answers (Ok (Decide call)) r =
     ((\<exists>v. r = Ok (Verdict v)) \<or> (\<exists>e. r = Err (DecideFailed e) \<and> e \<noteq> Panic))"

lemma recent_stream_length:
  assumes "recent_stream_items C open_fault fault file limit = Ok items"
  shows "length items \<le> max limit 1"
proof (cases "file")
  case (Some t)
  with assms obtain xs where "items = (if max limit 1 < length xs then drop (length xs - max limit 1) xs else xs)"
    unfolding recent_stream_items_def Let_def
    by (cases "stream_lines C 0 (read_lines fault t) []") (auto simp: and_then_def split: option.splits)
  then show ?thesis by (auto simp: le_max_iff_disj not_less split: if_splits)
qed (use assms in \<open>simp add: recent_stream_items_def\<close>)

text \<open>Only the evaluator panics.\<close>

definition calm :: "(daemon_error, 'a) result \<times> 's \<Rightarrow> bool" where
  "calm r \<longleftrightarrow> fst r \<noteq> Err Panic"

lemma calm_simps [simp]: "calm (Ok x, s)" "calm (Err (CoreError e), s)" "calm (map_err CoreError r, s)"
  by (auto simp: calm_def map_err_def split: sum.splits)

lemma calm_then_do [intro]:
  "calm r \<Longrightarrow> (\<And>x s. calm (k x s)) \<Longrightarrow> calm (then_do r k)"
  by (auto simp: calm_def then_do_def split: prod.splits sum.splits)

lemma calm_log_event [simp]: "calm (log_event D io ev s)"
  by (auto simp: calm_def log_event_def and_then_def map_err_def split: prod.splits sum.splits)

lemma calm_log_decision [simp]: "calm (log_decision D io call eval s)"
  by (auto simp: calm_def log_decision_def and_then_def map_err_def split: prod.splits sum.splits)

lemma calm_spend_picto [simp]: "calm (spend_picto D io eval binding p s)"
  by (auto simp: spend_picto_def split: prod.split picto_consume.split)

lemma calm_ask_for_approval [simp]: "calm (ask_for_approval D io call eval scope reason b s)"
  unfolding ask_for_approval_def
  by (simp split: prod.split) (intro allI impI calm_then_do; simp)

lemma calm_resolve_ask [simp]: "calm (resolve_ask D io call eval s)"
  by (auto simp: resolve_ask_def Let_def split: decision.split picto_lookup.split)

lemma calm_decide:
  "policy_wf (rt_policy (ds_rt s)) \<Longrightarrow> calm (decide_and_audit D io call s)"
  using evaluate_total [of "rt_policy (ds_rt s)" "de_glob D" "map_call (rt_mapper (ds_rt s)) call"]
  unfolding decide_and_audit_def by (auto intro!: calm_then_do)

lemma handle_request_answers:
  assumes "policy_wf (rt_policy (ds_rt s))" and "handle_request D io req s = (answer, s')"
  shows "\<exists>r. answer = Some r \<and> answers (Ok req) r"
proof (cases req)
  case (Decide call)
  with assms(2) calm_decide [OF assms(1), of D io call] show ?thesis
    by (cases "decide_and_audit D io call s")
      (auto simp: calm_def handle_request_def split: sum.splits daemon_error.splits)
next
  case Reload
  with assms(2) show ?thesis
    by (auto simp: handle_request_def split: prod.splits sum.splits reload_outcome.splits)
next
  case (RecentAudit limit)
  have "max (recent_limit limit) 1 \<le> 100" by (simp add: recent_limit_def)
  with assms(2) RecentAudit show ?thesis
    by (auto simp: handle_request_def dest!: recent_stream_length split: sum.splits)
qed (use assms(2) in \<open>auto simp: handle_request_def\<close>)

lemma reload_policy_wf:
  assumes "store_ok (pictos_of s)" and "reload_guarded D io source s = (res, s')"
    and "policy_wf (rt_policy (ds_rt s))"
  shows "policy_wf (rt_policy (ds_rt s'))"
  using assms(1,2)
proof (cases rule: reload_cases)
  case (granted m r q store)
  have "rt_policy (ds_rt s') = rt_policy (ds_rt s) \<or> rt_policy (ds_rt s') = rm_policy m"
    using activate_config_effect [OF granted(5)]
    by (elim conjE disjE) (simp_all add: same_config_def install_read_model_def)
  then show ?thesis using read_model_policy_wf [OF granted(1)] assms(3) by auto
qed (use assms(3) in \<open>simp add: same_config_def\<close>)

lemma decide_same_config:
  assumes "store_ok (pictos_of s)" and "decide_and_audit D io call s = (res, s')"
  shows "same_config s s'"
proof (cases "evaluate (de_glob D) (map_call (rt_mapper (ds_rt s)) call) (rt_policy (ds_rt s))")
  case None
  with assms(2) show ?thesis by (simp add: decide_and_audit_def)
next
  case (Some eval)
  obtain r s1 where ask: "resolve_ask D io call eval s = (r, s1)" by (meson surj_pair)
  have "same_config s s1"
    using assms(1) ask by (cases rule: resolve_ask_cases) auto
  moreover have "same_config s1 s'"
  proof (cases r)
    case (Inr eval')
    obtain r2 s2 where l: "log_decision D (ri_final io) call eval' s1 = (r2, s2)" by (meson surj_pair)
    with assms(2) Some ask Inr log_decision_rt [OF l] show ?thesis
      by (cases r2) (auto simp: decide_and_audit_def same_config_rt)
  qed (use assms(2) Some ask in \<open>simp add: decide_and_audit_def\<close>)
  ultimately show ?thesis by (rule same_config_trans)
qed

definition serving :: "daemon_state \<Rightarrow> bool" where
  "serving s \<longleftrightarrow> store_ok (pictos_of s) \<and> policy_wf (rt_policy (ds_rt s))"

lemma handle_request_serving:
  assumes "serving s" and "handle_request D io req s = (answer, s')"
  shows "serving s'"
proof -
  have ok: "store_ok (pictos_of s)" and wf: "policy_wf (rt_policy (ds_rt s))"
    using assms(1) by (simp_all add: serving_def)
  have "store_ok (pictos_of s')" using one_use_step [OF request_uses [OF ok assms(2)] ok] by simp
  moreover have "policy_wf (rt_policy (ds_rt s'))"
  proof (cases req)
    case (Decide call)
    obtain res s1 where d: "decide_and_audit D io call s = (res, s1)" by (meson surj_pair)
    with assms(2) Decide have "s' = s1"
      by (auto simp: handle_request_def split: sum.splits daemon_error.splits)
    with decide_same_config [OF ok d] wf show ?thesis by (simp add: same_config_def)
  next
    case Reload
    obtain res s1 where r: "reload_guarded D io ''ipc'' s = (res, s1)" by (meson surj_pair)
    with assms(2) Reload have "s' = s1"
      by (auto simp: handle_request_def split: sum.splits reload_outcome.splits)
    with reload_policy_wf [OF ok r wf] show ?thesis by simp
  qed (use assms(2) wf in \<open>auto simp: handle_request_def split: sum.splits\<close>)
  ultimately show ?thesis by (simp add: serving_def)
qed

text \<open>A turn of the loop that ends in the next one: the line was read and, unless it is blank, its
  answer was written.\<close>

definition completed :: "line_io \<Rightarrow> bool" where
  "completed turn \<longleftrightarrow>
     (case li_read turn of Err e \<Rightarrow> False | Ok line \<Rightarrow> is_blank line \<or> li_write turn = Ok ())"

definition lines_read :: "line_io list \<Rightarrow> string list" where
  "lines_read turns = concat (map (\<lambda>turn. case li_read turn of Err e \<Rightarrow> [] | Ok line \<Rightarrow> [line]) turns)"

lemma lines_read_simps [simp]:
  "lines_read [] = []"
  "li_read turn = Ok line \<Longrightarrow> lines_read (turn # turns) = line # lines_read turns"
  by (simp_all add: lines_read_def)

text \<open>One turn of the loop on a serving daemon that meets a line.\<close>

lemma connection_turn:
  assumes "serving s" and "li_read turn = Ok line" and "\<not> is_blank line"
  obtains reply s1 where "answers (parse line) reply" and "serving s1"
    and "handle_connection D parse (turn # turns) s =
      (case li_write turn of
         Err e \<Rightarrow> ([], WriteFailed e, s1)
       | Ok _ \<Rightarrow> (case handle_connection D parse turns s1 of
             (replies, ended, s') \<Rightarrow> (reply # replies, ended, s')))"
proof (cases "parse line")
  case (Inl e)
  from Inl assms that [of "Err (BadRequest e)" s] show ?thesis by simp
next
  case (Inr req)
  obtain a s1 where h: "handle_request D (li_request turn) req s = (a, s1)" by (meson surj_pair)
  obtain reply where "a = Some reply" "answers (Ok req) reply"
    using handle_request_answers [OF _ h] assms(1) by (auto simp: serving_def)
  with Inr h assms that [of reply s1] handle_request_serving [OF assms(1) h] show ?thesis by simp
qed

text \<open>C7. Every line gets its answer: on a connection to a daemon whose policy was compiled from
  rule files, the lines up to the first turn that fails to read a line or to write an answer are
  answered, in order, each line that is not blank by a reply of the kind its request asks for (a
  line that is no request by an error). The connection ends when the stream does, or exactly at
  that first failing turn with its read or write error, the lines from there on unanswered; it
  never ends by a panic, and whatever the requests, the daemon goes on serving.\<close>

theorem every_line_is_answered:
  assumes "serving s" and "handle_connection D parse turns s = (replies, ended, s')"
  shows "list_all2 answers
      (map parse (filter (\<lambda>line. \<not> is_blank line) (lines_read (takeWhile completed turns)))) replies \<and>
    (case dropWhile completed turns of
       [] \<Rightarrow> ended = Closed
     | turn # _ \<Rightarrow>
         (case li_read turn of
            Err e \<Rightarrow> ended = ReadFailed e
          | Ok line \<Rightarrow> \<not> is_blank line \<and> (\<exists>e. li_write turn = Err e \<and> ended = WriteFailed e))) \<and>
    ended \<noteq> Panicked \<and> serving s'"
  using assms
proof (induction turns arbitrary: s replies ended s')
  case (Cons turn turns)
  show ?case
  proof (cases "li_read turn")
    case (Inl e)
    with Cons.prems show ?thesis by (auto simp: completed_def)
  next
    case (Inr line)
    show ?thesis
    proof (cases "is_blank line")
      case True
      with Cons.IH [OF Cons.prems(1)] Cons.prems(2) Inr show ?thesis by (simp add: completed_def)
    next
      case False
      obtain reply s1 where turn: "answers (parse line) reply" "serving s1"
          "handle_connection D parse (turn # turns) s =
            (case li_write turn of
               Err e \<Rightarrow> ([], WriteFailed e, s1)
             | Ok _ \<Rightarrow> (case handle_connection D parse turns s1 of
                   (replies, ended, s') \<Rightarrow> (reply # replies, ended, s')))"
        by (rule connection_turn [OF Cons.prems(1) Inr False])
      show ?thesis
      proof (cases "li_write turn")
        case (Inl e)
        with turn Cons.prems Inr False show ?thesis by (auto simp: completed_def)
      next
        case w: (Inr u)
        obtain rs e t where rest: "handle_connection D parse turns s1 = (rs, e, t)" by (metis surj_pair)
        with turn(3) w Cons.prems(2) have result: "replies = reply # rs" "ended = e" "s' = t" by auto
        from Cons.IH [OF turn(2) rest] turn(1) w Inr False show ?thesis
          unfolding result by (simp add: completed_def)
      qed
    qed
  qed
qed simp

lemma demo_serving: "serving demo_state"
proof -
  have "pictos_of demo_state = demo_store" "rt_policy (ds_rt demo_state) = \<lparr>policy_rules = [demo_ask_rule], policy_version = ''p''\<rparr>"
    by (simp_all add: demo_state_def demo_runtime_def)
  moreover have "store_ok demo_store" by code_simp
  moreover have "rule_wf demo_ask_rule" by (simp add: rule_wf_def demo_ask_rule_def)
  ultimately show ?thesis by (simp add: serving_def policy_wf_def)
qed

theorem every_line_is_answered_witness:
  "\<exists>s'. handle_connection demo_daemon (\<lambda>l. if l = ''p'' then Ok Ping else Err ''bad'')
      (map (\<lambda>r. \<lparr>li_read = r, li_request = demo_io, li_write = Ok ()\<rparr>)
         [Ok ''p'', Ok '' '', Ok ''x'', Err ''stream did not contain valid UTF-8'', Ok ''p'']) demo_state =
    ([Ok Pong, Err (BadRequest ''bad'')], ReadFailed ''stream did not contain valid UTF-8'', s')"
proof -
  let ?turns = "map (\<lambda>r. \<lparr>li_read = r, li_request = demo_io, li_write = Ok ()\<rparr>)
    [Ok ''p'', Ok '' '', Ok ''x'', Err ''stream did not contain valid UTF-8'', Ok ''p'']"
  let ?parse = "\<lambda>l. if l = ''p'' then Ok Ping else Err ''bad''"
  obtain replies ended s' where c: "handle_connection demo_daemon ?parse ?turns demo_state = (replies, ended, s')"
    by (metis surj_pair)
  have blank: "is_blank '' ''" "\<not> is_blank ''p''" "\<not> is_blank ''x''" by code_simp+
  from every_line_is_answered [OF demo_serving c]
  have "replies = [Ok Pong, Err (BadRequest ''bad'')] \<and> ended = ReadFailed ''stream did not contain valid UTF-8''"
    by (simp add: blank completed_def list_all2_Cons1)
  with c show ?thesis by simp
qed

end
