(* ===== verification/Hook_Input.thy ===== *)
theory Hook_Input
  imports Files Json Shell_Targets
begin

text \<open>
  Hook payloads as tool calls (\<open>crates/gommage-cli/src/input.rs\<close>, and the copy of it in
  \<open>crates/gommage-mcp/src/main.rs\<close>): the working directory of the hook is used to resolve the paths
  in the input and to note the git branch they lie on, in members whose names start with
  \<open>__gommage_\<close> and which the mapper rules read. \<open>hook_world\<close> is the file system, the answer of
  \<open>git symbolic-ref\<close> in a directory and the user's home.
\<close>

section \<open>The world of a hook\<close>

record hook_world =
  hw_fs :: fs
  hw_git :: "path \<Rightarrow> string option"
  hw_home :: "string option"

text \<open>\<open>Path::parent\<close>, which is also what \<open>pop\<close> leaves; the empty path does not exist.\<close>

definition path_parent :: "path \<Rightarrow> path option" where
  "path_parent p = (if p = [] \<or> p = [''/''] then None else Some (butlast p))"

definition path_exists :: "hook_world \<Rightarrow> path \<Rightarrow> bool" where
  "path_exists W p \<longleftrightarrow> p \<noteq> [] \<and> fs_exists (hw_fs W) p"

function existing_ancestor :: "hook_world \<Rightarrow> path \<Rightarrow> path option" where
  "existing_ancestor W p =
     (if path_exists W p then Some p
      else case path_parent p of None \<Rightarrow> None | Some q \<Rightarrow> existing_ancestor W q)"
  by pat_completeness auto
termination
  by (relation "measure (\<lambda>(W, p). length p)") (auto simp: path_parent_def split: if_splits)

declare existing_ancestor.simps [simp del]

definition nearest_existing_anchor :: "hook_world \<Rightarrow> path \<Rightarrow> path option" where
  "nearest_existing_anchor W p =
     (let current = (if path_exists W p \<and> fs_is_dir (hw_fs W) p then Some p else path_parent p)
      in case current of None \<Rightarrow> None | Some q \<Rightarrow> existing_ancestor W q)"

text \<open>\<open>hw_git\<close> is the standard output of git when it succeeds and is UTF-8.\<close>

definition git_branch_for_path :: "hook_world \<Rightarrow> string \<Rightarrow> string option" where
  "git_branch_for_path W p =
     (case nearest_existing_anchor W (path_of p) of
        None \<Rightarrow> None
      | Some anchor \<Rightarrow>
          (case hw_git W anchor of
             None \<Rightarrow> None
           | Some out \<Rightarrow> (let branch = trim out in if branch \<noteq> [] then Some branch else None)))"

section \<open>Paths of the input\<close>

type_synonym members = "(string \<times> json) list"

definition RESERVED :: string where
  "RESERVED = ''__gommage_''"

definition strip_internal_fields :: "members \<Rightarrow> members" where
  "strip_internal_fields ms = filter (\<lambda>(k, _). \<not> starts_with k RESERVED) ms"

text \<open>\<open>trim_start_matches("./")\<close>: the prefix is removed as often as it is there.\<close>

fun trim_dot_slash :: "string \<Rightarrow> string" where
  "trim_dot_slash (c # d # s) = (if c = CHR ''.'' \<and> d = CHR ''/'' then trim_dot_slash s else c # d # s)"
| "trim_dot_slash s = s"

definition resolve_hook_path :: "string \<Rightarrow> string \<Rightarrow> string" where
  "resolve_hook_path base p =
     (if starts_with p ''/'' \<or> starts_with p ''~'' then p
      else if p = ''.'' \<or> p = [] then base
      else trim_end_matches (CHR ''/'') base @ ''/'' @ trim_dot_slash p)"

definition get_text :: "members \<Rightarrow> string \<Rightarrow> string option" where
  "get_text ms k = (case map_of ms k of None \<Rightarrow> None | Some v \<Rightarrow> as_str v)"

definition enrich_resolved_path ::
  "members \<Rightarrow> string \<Rightarrow> string \<Rightarrow> string \<Rightarrow> members \<times> string option" where
  "enrich_resolved_path ms cwd source_key target_key =
     (case get_text ms source_key of
        None \<Rightarrow> (ms, None)
      | Some p \<Rightarrow>
          (let resolved = resolve_hook_path cwd p
           in (member_insert target_key (JString resolved) ms, Some resolved)))"

definition MAX_APPLY_PATCH_PATHS :: nat where
  "MAX_APPLY_PATCH_PATHS = 16"

definition MAX_GIT_WRITE_CONTEXTS :: nat where
  "MAX_GIT_WRITE_CONTEXTS = 16"

text \<open>A member name with an index, as \<open>format!\<close> makes it.\<close>

definition indexed :: "string \<Rightarrow> nat \<Rightarrow> string" where
  "indexed base index = base @ dec_nat index"

text \<open>The loop over the paths, with the set of those seen and the next index.\<close>

fun git_write_contexts ::
  "hook_world \<Rightarrow> string list \<Rightarrow> string list \<Rightarrow> nat \<Rightarrow> members \<Rightarrow> members" where
  "git_write_contexts W [] seen index ms = ms"
| "git_write_contexts W (p # ps) seen index ms =
     (if MAX_GIT_WRITE_CONTEXTS \<le> index then ms
      else if p \<in> set seen then git_write_contexts W ps seen index ms
      else
        (case git_branch_for_path W p of
           None \<Rightarrow> git_write_contexts W ps (p # seen) index ms
         | Some branch \<Rightarrow>
             git_write_contexts W ps (p # seen) (index + 1)
               (member_insert (indexed ''__gommage_git_write_branch_'' index) (JString branch)
                 (member_insert (indexed ''__gommage_git_write_path_'' index) (JString p) ms))))"

definition add_git_write_contexts :: "hook_world \<Rightarrow> members \<Rightarrow> string list \<Rightarrow> members" where
  "add_git_write_contexts W ms paths = git_write_contexts W paths [] 0 ms"

section \<open>Patches\<close>

definition patch_prefixes :: "string list" where
  "patch_prefixes =
     [''*** Add File: '', ''*** Update File: '', ''*** Delete File: '', ''*** Move to: '']"

definition patch_line_paths :: "string list \<Rightarrow> string \<Rightarrow> string list" where
  "patch_line_paths paths line =
     foldl (\<lambda>paths pre.
       (case strip_prefix line pre of
          None \<Rightarrow> paths
        | Some rest \<Rightarrow> (let p = trim rest in if p \<noteq> [] then push_new p paths else paths)))
       paths patch_prefixes"

definition apply_patch_paths :: "string \<Rightarrow> string list" where
  "apply_patch_paths command = foldl patch_line_paths [] (str_lines command)"

text \<open>The loop of \<open>enrich_apply_patch_input\<close> over the indexed paths.\<close>

definition add_patch_path :: "string \<Rightarrow> members \<times> string list \<Rightarrow> nat \<times> string \<Rightarrow> members \<times> string list" where
  "add_patch_path cwd acc ip =
     (let (ms, resolved_paths) = acc; (index, p) = ip;
          ms1 = (if starts_with p ''/'' then member_insert ''__gommage_patch_absolute'' (JBool True) ms else ms);
          resolved = resolve_hook_path cwd p
      in (member_insert (indexed ''__gommage_patch_path_'' index) (JString resolved) ms1,
          resolved_paths @ [resolved]))"

definition enrich_apply_patch_input :: "members \<Rightarrow> string \<Rightarrow> members \<times> string list" where
  "enrich_apply_patch_input ms cwd =
     (case get_text ms ''command'' of
        None \<Rightarrow> (member_insert ''__gommage_patch_unparsed'' (JBool True) ms, [])
      | Some command \<Rightarrow>
          (let paths = apply_patch_paths command
           in if paths = [] then (member_insert ''__gommage_patch_unparsed'' (JBool True) ms, [])
              else if MAX_APPLY_PATCH_PATHS < length paths
              then (member_insert ''__gommage_patch_overflow'' (JBool True) ms, [])
              else foldl (add_patch_path cwd) (ms, []) (zip [0..<length paths] paths)))"

section \<open>Enrichment\<close>

definition insert_opt :: "string \<Rightarrow> string option \<Rightarrow> members \<Rightarrow> members" where
  "insert_opt k v ms = (case v of Some s \<Rightarrow> member_insert k (JString s) ms | None \<Rightarrow> ms)"

definition enrich_bash_input :: "hook_world \<Rightarrow> members \<Rightarrow> string \<Rightarrow> members" where
  "enrich_bash_input W ms cwd =
     (let ms1 = member_insert ''__gommage_cwd'' (JString cwd) ms;
          home = (case hw_home W of Some h \<Rightarrow> if h \<noteq> [] then Some h else None | None \<Rightarrow> None);
          ms2 = insert_opt ''__gommage_home'' home ms1;
          ms3 = insert_opt ''__gommage_cwd_git_branch'' (git_branch_for_path W cwd) ms2
      in case get_text ms3 ''command'' of
           None \<Rightarrow> ms3
         | Some command \<Rightarrow>
             add_git_write_contexts W ms3 (map (resolve_hook_path cwd) (shell_write_targets command)))"

definition enrich_grep_input :: "members \<Rightarrow> string \<Rightarrow> members" where
  "enrich_grep_input ms cwd =
     (let base = (case get_text ms ''path'' of Some p \<Rightarrow> resolve_hook_path cwd p | None \<Rightarrow> cwd);
          ms1 = member_insert ''__gommage_path'' (JString base) ms
      in insert_opt ''__gommage_glob_path''
           (map_option (resolve_hook_path base) (get_text ms1 ''glob'')) ms1)"

text \<open>A file tool: the resolved path, and its branch if the tool writes.\<close>

definition enrich_file_input ::
  "hook_world \<Rightarrow> members \<Rightarrow> string \<Rightarrow> string \<Rightarrow> string \<Rightarrow> members" where
  "enrich_file_input W ms cwd source_key target_key =
     (case enrich_resolved_path ms cwd source_key target_key of
        (ms1, None) \<Rightarrow> ms1
      | (ms1, Some p) \<Rightarrow> add_git_write_contexts W ms1 [p])"

definition enrich_members :: "hook_world \<Rightarrow> string \<Rightarrow> members \<Rightarrow> string \<Rightarrow> members" where
  "enrich_members W tool_name ms cwd =
     (if tool_name = ''Read'' then fst (enrich_resolved_path ms cwd ''file_path'' ''__gommage_file_path'')
      else if tool_name \<in> {''Write'', ''Edit'', ''MultiEdit''}
      then enrich_file_input W ms cwd ''file_path'' ''__gommage_file_path''
      else if tool_name = ''NotebookEdit''
      then enrich_file_input W ms cwd ''notebook_path'' ''__gommage_notebook_path''
      else if tool_name = ''apply_patch''
      then (case enrich_apply_patch_input ms cwd of (ms1, paths) \<Rightarrow> add_git_write_contexts W ms1 paths)
      else if tool_name = ''Bash'' then enrich_bash_input W ms cwd
      else if tool_name = ''Grep'' then enrich_grep_input ms cwd
      else if tool_name = ''Glob''
      then insert_opt ''__gommage_pattern'' (map_option (resolve_hook_path cwd) (get_text ms ''pattern'')) ms
      else ms)"

definition enrich_hook_tool_input :: "hook_world \<Rightarrow> string \<Rightarrow> json \<Rightarrow> string option \<Rightarrow> json" where
  "enrich_hook_tool_input W tool_name inp cwd =
     (case inp of
        JObject ms \<Rightarrow>
          (let stripped = strip_internal_fields ms
           in case cwd of
                None \<Rightarrow> JObject stripped
              | Some dir \<Rightarrow> JObject (enrich_members W tool_name stripped dir))
      | v \<Rightarrow> v)"

text \<open>The copy in \<open>gommage-mcp\<close> does not pass the home directory on.\<close>

definition enrich_tool_input :: "hook_world \<Rightarrow> string \<Rightarrow> json \<Rightarrow> string option \<Rightarrow> json" where
  "enrich_tool_input W tool_name inp cwd = enrich_hook_tool_input (W\<lparr>hw_home := None\<rparr>) tool_name inp cwd"

section \<open>Payloads\<close>

definition looks_like_hook_payload :: "json \<Rightarrow> bool" where
  "looks_like_hook_payload v \<longleftrightarrow>
     json_get v ''tool_name'' \<noteq> None \<or> json_get v ''tool_input'' \<noteq> None \<or>
     (case json_get v ''hook_event_name'' of None \<Rightarrow> False | Some n \<Rightarrow> as_str n = Some ''PreToolUse'')"

definition tool_call_from_hook_payload :: "hook_world \<Rightarrow> json \<Rightarrow> (string, toolcall) result" where
  "tool_call_from_hook_payload W v =
     (case json_get v ''tool_name'' of
        None \<Rightarrow> Err ''missing tool_name''
      | Some n \<Rightarrow>
          (case as_str n of
             None \<Rightarrow> Err ''missing tool_name''
           | Some tool_name \<Rightarrow>
               (let tool_input = (case json_get v ''tool_input'' of Some i \<Rightarrow> i | None \<Rightarrow> JNull);
                    cwd = (case json_get v ''cwd'' of Some c \<Rightarrow> as_str c | None \<Rightarrow> None)
                in Ok \<lparr>tool = tool_name, input = enrich_hook_tool_input W tool_name tool_input cwd\<rparr>)))"

end
