(* ===== verification/Hook.thy ===== *)
theory Hook
  imports Hook_Input Daemon
begin

text \<open>
  The hook adapters: \<open>gommage hook\<close> (\<open>crates/gommage-cli/src/mcp.rs\<close>, with \<open>decide_with_pictos\<close> of
  its \<open>main.rs\<close>) and \<open>gommage-mcp\<close> (\<open>crates/gommage-mcp/src/main.rs\<close>). A hook reads one payload,
  asks the daemon, or decides in its own process when there is no daemon, and prints an answer.
  \<open>hook_env\<close> holds what is the same for every run, \<open>hook_io\<close> what one run meets, and
  \<open>hook_disk\<close> the files that the process itself changes. An error value stands for its text.
\<close>

section \<open>Surroundings\<close>

datatype io_kind = NotFound | ConnectionRefused | OtherKind

datatype hook_error =
    HookIo io_kind string
  | HookText string
  | HookCore daemon_error

record hook_payload =
  hook_cwd :: "string option"
  hook_tool_name :: string
  hook_tool_input :: json

record hook_env =
  he_daemon :: daemon_env
  he_print :: "json \<Rightarrow> (string, string) result"
  he_parse :: "string \<Rightarrow> (string, json) result"
  he_parse_payload :: "string \<Rightarrow> (string, hook_payload) result"
  he_eval_of_json :: "json \<Rightarrow> (string, eval_result) result"
  he_stdlib_capabilities :: "string list"
  he_layout :: home_layout

record hook_io =
  hi_request :: request_io
  hi_world :: hook_world
  hi_stdin :: "(string, string) result"
  hi_connect :: "(io_kind \<times> string, unit) result"
  hi_exchange :: "string \<Rightarrow> (io_kind \<times> string, string option) result"
  hi_ensured :: "(gommage_error, unit) result"
  hi_key :: "(string, string) result"
  hi_sqlite :: "(gommage_error, unit) result"
  hi_audit_fault :: "string option"

record hook_disk =
  hk_pictos :: picto_store
  hk_approvals :: text_file
  hk_audit :: text_file
  hk_letters :: text_file

section \<open>Asking the daemon\<close>

definition call_json :: "toolcall \<Rightarrow> json" where
  "call_json call = JObject [(''tool'', JString (tool call)), (''input'', input call)]"

definition decide_request :: "toolcall \<Rightarrow> json" where
  "decide_request call = JObject [(''op'', JString ''decide''), (''call'', call_json call)]"

definition hook_io_error :: "(io_kind \<times> string, 'a) result \<Rightarrow> (hook_error, 'a) result" where
  "hook_io_error r = map_err (\<lambda>(k, e). HookIo k e) r"

text \<open>What the response line says.\<close>

definition daemon_answer :: "hook_env \<Rightarrow> string \<Rightarrow> (hook_error, eval_result) result" where
  "daemon_answer H line =
     and_then (map_err HookText (he_parse H line)) (\<lambda>resp.
       if (case json_get resp ''ok'' of None \<Rightarrow> None | Some v \<Rightarrow> as_bool v) = Some True
       then (case json_get resp ''result'' of
               None \<Rightarrow> Err (HookText ''missing result'')
             | Some v \<Rightarrow> map_err HookText (he_eval_of_json H v))
       else Err (HookText (''daemon returned error: '' @
              (case (case json_get resp ''error'' of None \<Rightarrow> None | Some v \<Rightarrow> as_str v) of
                 Some e \<Rightarrow> e | None \<Rightarrow> ''<none>''))))"

text \<open>\<open>hi_exchange\<close> sends a line and reads the next one, if the connection is not closed before;
  the reader of \<open>gommage-mcp\<close> takes that for an error, that of \<open>gommage hook\<close> for an empty line.\<close>

definition exchange_with_daemon ::
  "hook_env \<Rightarrow> hook_io \<Rightarrow> toolcall \<Rightarrow> (hook_error, string option) result" where
  "exchange_with_daemon H io call =
     and_then (hook_io_error (hi_connect io)) (\<lambda>_.
     and_then (map_err HookText (he_print H (decide_request call))) (\<lambda>text.
       hook_io_error (hi_exchange io text)))"

definition mcp_forward_to_daemon ::
  "hook_env \<Rightarrow> hook_io \<Rightarrow> toolcall \<Rightarrow> (hook_error, eval_result) result" where
  "mcp_forward_to_daemon H io call =
     and_then (exchange_with_daemon H io call) (\<lambda>line.
       case line of
         None \<Rightarrow> Err (HookText ''daemon closed without response'')
       | Some l \<Rightarrow> daemon_answer H l)"

definition cli_forward_to_daemon ::
  "hook_env \<Rightarrow> hook_io \<Rightarrow> toolcall \<Rightarrow> (hook_error, eval_result) result" where
  "cli_forward_to_daemon H io call =
     and_then (exchange_with_daemon H io call) (\<lambda>line.
       daemon_answer H (case line of None \<Rightarrow> [] | Some l \<Rightarrow> l))"

fun is_missing_daemon :: "hook_error \<Rightarrow> bool" where
  "is_missing_daemon (HookIo k e) \<longleftrightarrow> k \<in> {NotFound, ConnectionRefused}"
| "is_missing_daemon _ \<longleftrightarrow> False"

section \<open>Deciding in the process\<close>

text \<open>Unlike the daemon, the adapters collect the events first and open the audit log afterwards.
  \<open>notify\<close> announces a recorded request and returns the events of that.\<close>

type_synonym notify = "approval_request \<Rightarrow> daemon_state \<Rightarrow> audit_event list \<times> daemon_state"

definition collect_request ::
  "notify \<Rightarrow> daemon_env \<Rightarrow> request_io \<Rightarrow> toolcall \<Rightarrow> eval_result \<Rightarrow> string \<Rightarrow> string \<Rightarrow> bool \<Rightarrow> daemon_state \<Rightarrow>
     (daemon_error, eval_result \<times> audit_event list) result \<times> daemon_state" where
  "collect_request notify D io call eval scope reason bind_input s =
     (case request_for_ask (de_extern D) (de_approvals D) (ri_approval_io io) (ri_now io) (ri_uuid io)
             call eval scope bind_input reason (rt_approvals (ds_rt s)) of
        (res, approvals) \<Rightarrow>
          then_do (map_err CoreError res, s\<lparr>ds_rt := (ds_rt s)\<lparr>rt_approvals := approvals\<rparr>\<rparr>)
            (\<lambda>request s1.
              (case notify request s1 of
                 (more_events, s2) \<Rightarrow>
                   (Ok (eval\<lparr>eval_decision :=
                          AskPicto scope (approval_reason reason (req_id request)) bind_input\<rparr>,
                        ApprovalRequested (req_id request) (req_tool request) (req_input_hash request)
                          (req_required_scope request) (req_reason request) (req_policy_version request) #
                        more_events), s2))))"

definition collect_spend ::
  "daemon_env \<Rightarrow> request_io \<Rightarrow> eval_result \<Rightarrow> string option \<Rightarrow> picto \<Rightarrow> daemon_state \<Rightarrow>
     (daemon_error, eval_result \<times> audit_event list) result \<times> daemon_state" where
  "collect_spend D io eval binding p s =
     (case consume_picto D (ri_now io) binding (picto_id p) (rt_pictos (ds_rt s)) of
        (Consumed q, store) \<Rightarrow>
          (Ok (eval\<lparr>eval_decision := Allow\<rparr>, [picto_consumed_event q]), set_pictos store s)
      | (NotUsable, store) \<Rightarrow> (Ok (eval, []), set_pictos store s)
      | (ConsumeBadSignature i scope, store) \<Rightarrow>
          (Ok (eval, [PictoRejected i scope ''bad signature'']), set_pictos store s))"

definition collect_ask ::
  "notify \<Rightarrow> daemon_env \<Rightarrow> request_io \<Rightarrow> toolcall \<Rightarrow> eval_result \<Rightarrow> daemon_state \<Rightarrow>
     (daemon_error, eval_result \<times> audit_event list) result \<times> daemon_state" where
  "collect_ask notify D io call eval s =
     (case eval_decision eval of
        AskPicto scope reason bind_input \<Rightarrow>
          (let binding = (if bind_input then Some (input_hash (de_extern D) call) else None)
           in case lookup_picto D (ri_now io) binding scope (rt_pictos (ds_rt s)) of
                LookupNone \<Rightarrow> collect_request notify D io call eval scope reason bind_input s
              | LookupBadSignature i sc \<Rightarrow> (Ok (eval, [PictoRejected i sc ''bad signature'']), s)
              | LookupVerified p \<Rightarrow> collect_spend D io eval binding p s)
      | _ \<Rightarrow> (Ok (eval, []), s))"

definition collect_decision ::
  "notify \<Rightarrow> daemon_env \<Rightarrow> request_io \<Rightarrow> toolcall \<Rightarrow> daemon_state \<Rightarrow>
     (daemon_error, eval_result \<times> audit_event list) result \<times> daemon_state" where
  "collect_decision notify D io call s =
     (case evaluate (de_glob D) (map_call (rt_mapper (ds_rt s)) call) (rt_policy (ds_rt s)) of
        None \<Rightarrow> (Err Panic, s)
      | Some eval \<Rightarrow> collect_ask notify D io call eval s)"

text \<open>\<open>gommage hook\<close> announces nothing.\<close>

definition decide_with_pictos ::
  "daemon_env \<Rightarrow> request_io \<Rightarrow> toolcall \<Rightarrow> daemon_state \<Rightarrow>
     (daemon_error, eval_result \<times> audit_event list) result \<times> daemon_state" where
  "decide_with_pictos = collect_decision (\<lambda>request s. ([], s))"

text \<open>The events of \<open>gommage-mcp\<close>.\<close>

definition delivery_error_text :: "delivery_error \<Rightarrow> string" where
  "delivery_error_text e =
     (case e of DeliveryIo t \<Rightarrow> ''io: '' @ t | DeliveryJson t \<Rightarrow> ''json: '' @ t
      | Delivery t \<Rightarrow> ''delivery: '' @ t)"

definition mcp_delivery_events ::
  "approval_request \<Rightarrow> string \<Rightarrow> delivery_settings \<Rightarrow> prepared_webhook \<Rightarrow>
     (delivery_error, delivery_outcome) result \<Rightarrow> audit_event list" where
  "mcp_delivery_events request url settings prepared res =
     (let source = webhook_source_str SourceMcpFallback
      in case res of
           Ok outcome \<Rightarrow>
             (let sig = map_option signature_audit_summary (do_signature outcome)
              in if do_kind outcome = Delivered
                 then [ApprovalWebhookDelivered (req_id request) url (do_http_status outcome)
                         (do_attempts outcome) source sig]
                 else
                   (let e = (case do_error outcome of Some e \<Rightarrow> e | None \<Rightarrow> ''webhook delivery failed'');
                        letter = (case do_dead_letter_id outcome of Some l \<Rightarrow> l | None \<Rightarrow> ''<unknown>'')
                    in [ApprovalWebhookFailed (req_id request) url e (do_attempts outcome) source sig,
                        ApprovalWebhookDeadLettered (req_id request) url letter ''generic''
                          (do_attempts outcome) source e sig]))
         | Err e \<Rightarrow>
             [ApprovalWebhookFailed (req_id request) url (delivery_error_text e) (ds_attempts settings)
                source (map_option signature_audit_summary (pw_signature prepared))])"

definition mcp_notify :: "daemon_env \<Rightarrow> request_io \<Rightarrow> notify" where
  "mcp_notify D io request s =
     (case de_vars D ''GOMMAGE_APPROVAL_WEBHOOK_URL'' of
        None \<Rightarrow> ([], s)
      | Some url \<Rightarrow>
          if is_blank url then ([], s)
          else
            (case prepare_approval_webhook (de_extern D) (de_to_vec D) (ri_sign_now io)
                    (approval_webhook_generic_payload (de_extern D) request)
                    (de_vars D ''GOMMAGE_APPROVAL_WEBHOOK_SECRET'')
                    (de_vars D ''GOMMAGE_APPROVAL_WEBHOOK_SECRET_ID'') of
               Err _ \<Rightarrow> ([], s)
             | Ok prepared \<Rightarrow>
                 (let settings = delivery_settings_from_env (de_vars D)
                  in case deliver_prepared_approval_webhook (de_letters D) (ri_curl io)
                            (ri_letter_stamp io) (ri_letter_write io) request SourceMcpFallback
                            ''generic'' url prepared settings (ds_letters s) of
                       (res, letters) \<Rightarrow>
                         (mcp_delivery_events request url settings prepared res,
                          s\<lparr>ds_letters := letters\<rparr>))))"

section \<open>The audit entries of the process\<close>

definition event_append :: "request_io \<Rightarrow> nat \<Rightarrow> append_io" where
  "event_append io n = (if n = 0 then ri_event1 io else if n = 1 then ri_hook1 io else ri_hook2 io)"

fun append_events ::
  "daemon_env \<Rightarrow> request_io \<Rightarrow> nat \<Rightarrow> audit_event list \<Rightarrow> daemon_state \<Rightarrow>
     (daemon_error, unit) result \<times> daemon_state" where
  "append_events D io n [] s = (Ok (), s)"
| "append_events D io n (e # es) s =
     then_do (log_event D (event_append io n) e s) (\<lambda>_ s1. append_events D io (Suc n) es s1)"

definition audit_collected ::
  "daemon_env \<Rightarrow> request_io \<Rightarrow> string option \<Rightarrow> toolcall \<Rightarrow> eval_result \<times> audit_event list \<Rightarrow>
     daemon_state \<Rightarrow> (daemon_error, eval_result) result \<times> daemon_state" where
  "audit_collected D io fault call collected s =
     (case (collected, audit_open fault (ds_audit s)) of
        ((eval, events), (res, f)) \<Rightarrow>
          then_do (map_err AuditError res, s\<lparr>ds_audit := f\<rparr>) (\<lambda>_ s1.
          then_do (append_events D io 0 events s1) (\<lambda>_ s2.
          then_do (log_decision D (ri_final io) call eval s2) (\<lambda>_ s3. (Ok eval, s3)))))"

definition opened_state :: "runtime \<Rightarrow> hook_disk \<Rightarrow> daemon_state" where
  "opened_state rt K =
     \<lparr>ds_rt = rt, ds_audit = hk_audit K, ds_letters = hk_letters K, ds_fingerprint = None\<rparr>"

definition closed_state :: "daemon_state \<Rightarrow> hook_disk" where
  "closed_state s =
     \<lparr>hk_pictos = rt_pictos (ds_rt s), hk_approvals = rt_approvals (ds_rt s),
      hk_audit = ds_audit s, hk_letters = ds_letters s\<rparr>"

definition hook_runtime :: "hook_env \<Rightarrow> hook_io \<Rightarrow> hook_disk \<Rightarrow> (gommage_error, runtime) result" where
  "hook_runtime H io K =
     runtime_open (de_extern (he_daemon H)) (de_lib (he_daemon H)) (de_vars (he_daemon H))
       (ri_fs (hi_request io)) (hi_ensured io) (and_then (hi_sqlite io) (\<lambda>_. Ok (hk_pictos K)))
       (hk_approvals K) (he_layout H)"

definition decide_in_process ::
  "(daemon_env \<Rightarrow> request_io \<Rightarrow> notify) \<Rightarrow> hook_env \<Rightarrow> hook_io \<Rightarrow> toolcall \<Rightarrow> hook_disk \<Rightarrow>
     (daemon_error, eval_result) result \<times> hook_disk" where
  "decide_in_process notify H io call K =
     (case load_key (hi_key io) of
        Err e \<Rightarrow> (Err (CoreError e), K)
      | Ok sk \<Rightarrow>
          (case hook_runtime H io K of
             Err e \<Rightarrow> (Err (CoreError e), K)
           | Ok rt \<Rightarrow>
               (let D = (he_daemon H)\<lparr>de_key := sk\<rparr>; rio = hi_request io
                in case then_do (collect_decision (notify D rio) D rio call (opened_state rt K))
                          (audit_collected D rio (hi_audit_fault io) call) of
                     (res, s) \<Rightarrow> (res, closed_state s))))"

definition mcp_decide_in_process_and_audit ::
  "hook_env \<Rightarrow> hook_io \<Rightarrow> toolcall \<Rightarrow> hook_disk \<Rightarrow> (daemon_error, eval_result) result \<times> hook_disk" where
  "mcp_decide_in_process_and_audit = decide_in_process mcp_notify"

definition cli_decide_in_process_and_audit ::
  "hook_env \<Rightarrow> hook_io \<Rightarrow> toolcall \<Rightarrow> hook_disk \<Rightarrow> (daemon_error, eval_result) result \<times> hook_disk" where
  "cli_decide_in_process_and_audit = decide_in_process (\<lambda>D io request s. ([], s))"

text \<open>The fallback is taken only when there is no daemon to connect to.\<close>

definition decide_or_fall_back ::
  "(hook_error, eval_result) result \<Rightarrow> (hook_disk \<Rightarrow> (daemon_error, eval_result) result \<times> hook_disk) \<Rightarrow>
     hook_disk \<Rightarrow> (hook_error, eval_result) result \<times> hook_disk" where
  "decide_or_fall_back forwarded fallback K =
     (case forwarded of
        Ok eval \<Rightarrow> (Ok eval, K)
      | Err e \<Rightarrow>
          if is_missing_daemon e
          then (case fallback K of (res, K') \<Rightarrow> (map_err HookCore res, K'))
          else (Err e, K))"

definition mcp_decide_call ::
  "hook_env \<Rightarrow> hook_io \<Rightarrow> toolcall \<Rightarrow> hook_disk \<Rightarrow> (hook_error, eval_result) result \<times> hook_disk" where
  "mcp_decide_call H io call =
     decide_or_fall_back (mcp_forward_to_daemon H io call) (mcp_decide_in_process_and_audit H io call)"

definition cli_decide_call ::
  "hook_env \<Rightarrow> hook_io \<Rightarrow> toolcall \<Rightarrow> hook_disk \<Rightarrow> (hook_error, eval_result) result \<times> hook_disk" where
  "cli_decide_call H io call =
     decide_or_fall_back (cli_forward_to_daemon H io call) (cli_decide_in_process_and_audit H io call)"

section \<open>The bypass\<close>

definition bypass_enabled :: "env \<Rightarrow> bool" where
  "bypass_enabled vars =
     (case vars ''GOMMAGE_BYPASS'' of
        Some v \<Rightarrow> v \<in> {''1'', ''true'', ''TRUE'', ''yes'', ''YES''}
      | None \<Rightarrow> False)"

definition bypass_capabilities :: "hook_env \<Rightarrow> toolcall \<Rightarrow> capability list" where
  "bypass_capabilities H call =
     (case mapper_from_yaml_string (de_extern (he_daemon H)) (rl_mapper (de_lib (he_daemon H)))
             (join [NL] (he_stdlib_capabilities H)) ''<compiled-stdlib-capabilities>'' of
        Ok m \<Rightarrow> map_call m call
      | Err _ \<Rightarrow>
          if tool call = ''Bash''
          then (case (case json_get (input call) ''command'' of None \<Rightarrow> None | Some v \<Rightarrow> as_str v) of
                  Some command \<Rightarrow> [''proc.exec:'' @ command]
                | None \<Rightarrow> [])
          else [])"

fun original_decision :: "decision \<Rightarrow> string \<times> string \<times> bool" where
  "original_decision Allow = (''allow'', ''policy evaluation skipped'', False)"
| "original_decision (Gommage reason hard_stop) = (''deny'', reason, hard_stop)"
| "original_decision (AskPicto scope reason bind_input) = (''ask'', reason, False)"

definition append_bypass_event_best_effort ::
  "daemon_env \<Rightarrow> hook_io \<Rightarrow> toolcall \<Rightarrow> eval_result \<Rightarrow> string \<Rightarrow> text_file \<Rightarrow> text_file" where
  "append_bypass_event_best_effort D io call eval bypass_decision f =
     (case load_key (hi_key io) of
        Err _ \<Rightarrow> f
      | Ok sk \<Rightarrow>
          (case (audit_open (hi_audit_fault io) f, original_decision (eval_decision eval)) of
             ((Err _, f1), _) \<Rightarrow> f1
           | ((Ok _, f1), (odecision, oreason, hard_stop)) \<Rightarrow>
               snd (append_event (de_extern D) (de_audit D) sk (fst (ri_final (hi_request io)))
                 (snd (ri_final (hi_request io)))
                 (BypassActivated (tool call) (input_hash (de_extern D) call) (eval_capabilities eval)
                   odecision oreason hard_stop bypass_decision) f1)))"

section \<open>Answers\<close>

text \<open>\<open>FailedClosed c e\<close> stands for the text \<open>gommage hook failed closed: c: e\<close>. A run prints
  nothing, one answer, ends with an error after the standard input could not be read, or panics.\<close>

datatype answer_reason =
    Reason string
  | FailedClosed string hook_error

datatype hook_output =
    Silent
  | Answer string answer_reason
  | ExitError string
  | Crashed

definition hook_response_json :: "string \<Rightarrow> string \<Rightarrow> json" where
  "hook_response_json decision reason =
     JObject [(''hookSpecificOutput'', JObject
       [(''hookEventName'', JString ''PreToolUse''), (''permissionDecision'', JString decision),
        (''permissionDecisionReason'', JString reason)])]"

definition picto_requirement :: "bool \<Rightarrow> string" where
  "picto_requirement bind_input = (if bind_input then ''an exact-input picto'' else ''a picto'')"

definition em_dash :: string where
  "em_dash = [CHR 0xE2, CHR 0x80, CHR 0x94]"

definition ask_text :: "string \<Rightarrow> string \<Rightarrow> bool \<Rightarrow> string" where
  "ask_text scope reason bind_input =
     ''gommage: requires '' @ picto_requirement bind_input @ '' for scope '' @ debug_str scope @ '' '' @
     em_dash @ '' '' @ reason"

definition deny_text :: "string \<Rightarrow> bool \<Rightarrow> string" where
  "deny_text reason hard_stop =
     (if hard_stop then ''gommaged (hard-stop): '' else ''gommaged: '') @ reason"

fun mcp_answer :: "(hook_error, eval_result) result \<Rightarrow> hook_output" where
  "mcp_answer (Err (HookCore Panic)) = Crashed"
| "mcp_answer (Err e) = Answer ''deny'' (FailedClosed ''evaluating policy'' e)"
| "mcp_answer (Ok eval) =
     (case eval_decision eval of
        Allow \<Rightarrow> Answer ''allow'' (Reason ''gommage allowed'')
      | Gommage reason hard_stop \<Rightarrow> Answer ''deny'' (Reason (deny_text reason hard_stop))
      | AskPicto scope reason bind_input \<Rightarrow> Answer ''ask'' (Reason (ask_text scope reason bind_input)))"

definition mcp_tool_call :: "hook_world \<Rightarrow> hook_payload \<Rightarrow> toolcall" where
  "mcp_tool_call W p =
     \<lparr>tool = hook_tool_name p,
      input = enrich_tool_input W (hook_tool_name p) (hook_tool_input p) (hook_cwd p)\<rparr>"

definition parse_hook_tool_call :: "hook_env \<Rightarrow> hook_io \<Rightarrow> string \<Rightarrow> (hook_error, toolcall) result" where
  "parse_hook_tool_call H io buf =
     and_then (map_err HookText (he_parse_payload H buf)) (\<lambda>p. Ok (mcp_tool_call (hi_world io) p))"

definition unparsed_bypass :: string where
  "unparsed_bypass =
     ''gommage bypass: GOMMAGE_BYPASS=1 was set, but the hook payload could not be parsed; '' @
     ''policy evaluation skipped for hook recovery''"

definition bypass_allowed :: string where
  "bypass_allowed =
     ''gommage bypass: GOMMAGE_BYPASS=1 was set by the host environment; '' @
     ''policy evaluation skipped after hard-stop check''"

definition bypass_refused :: "string \<Rightarrow> string" where
  "bypass_refused reason =
     ''gommage bypass refused: '' @ reason @ ''; hard-stops cannot be bypassed''"

text \<open>After the call was parsed, for the output \<open>allowed\<close> that the adapter gives to an allow.\<close>

definition bypass_call ::
  "(answer_reason \<Rightarrow> hook_output) \<Rightarrow> hook_env \<Rightarrow> hook_io \<Rightarrow> toolcall \<Rightarrow> hook_disk \<Rightarrow> hook_output \<times> hook_disk" where
  "bypass_call allowed H io call K =
     (let eval = evaluate_bypass (de_glob (he_daemon H)) (bypass_capabilities H call);
          log = (\<lambda>decision. K\<lparr>hk_audit :=
            append_bypass_event_best_effort (he_daemon H) io call eval decision (hk_audit K)\<rparr>)
      in case eval_decision eval of
           Gommage reason hard_stop \<Rightarrow> (Answer ''deny'' (Reason (bypass_refused reason)), log ''deny'')
         | _ \<Rightarrow> (allowed (Reason bypass_allowed), log ''allow''))"

definition handle_bypass :: "hook_env \<Rightarrow> hook_io \<Rightarrow> string \<Rightarrow> hook_disk \<Rightarrow> hook_output \<times> hook_disk" where
  "handle_bypass H io buf K =
     (case parse_hook_tool_call H io buf of
        Err _ \<Rightarrow> (Answer ''allow'' (Reason unparsed_bypass), K)
      | Ok call \<Rightarrow> bypass_call (Answer ''allow'') H io call K)"

definition mcp_run_hook :: "hook_env \<Rightarrow> hook_io \<Rightarrow> hook_disk \<Rightarrow> hook_output \<times> hook_disk" where
  "mcp_run_hook H io K =
     (case hi_stdin io of
        Err e \<Rightarrow> (ExitError (''reading stdin: '' @ e), K)
      | Ok buf \<Rightarrow>
          if bypass_enabled (de_vars (he_daemon H)) then handle_bypass H io buf K
          else
            (case parse_hook_tool_call H io buf of
               Err e \<Rightarrow> (Answer ''deny'' (FailedClosed ''parsing hook JSON'' e), K)
             | Ok call \<Rightarrow>
                 (case hi_ensured io of
                    Err e \<Rightarrow>
                      (Answer ''deny'' (FailedClosed ''initializing Gommage home'' (HookCore (CoreError e))), K)
                  | Ok _ \<Rightarrow>
                      (case mcp_decide_call H io call K of (res, K') \<Rightarrow> (mcp_answer res, K')))))"

section \<open>The command-line adapter\<close>

datatype hook_agent = Auto | Claude | Codex

definition write_allow_decision :: "hook_agent \<Rightarrow> answer_reason \<Rightarrow> hook_output" where
  "write_allow_decision agent reason = (if agent = Codex then Silent else Answer ''allow'' reason)"

definition codex_note :: string where
  "codex_note = '' (Codex PreToolUse does not support ask yet; denied instead.)''"

definition write_eval_decision :: "hook_agent \<Rightarrow> eval_result \<Rightarrow> hook_output" where
  "write_eval_decision agent eval =
     (case eval_decision eval of
        Allow \<Rightarrow> write_allow_decision agent (Reason ''gommage allowed'')
      | Gommage reason hard_stop \<Rightarrow> Answer ''deny'' (Reason (deny_text reason hard_stop))
      | AskPicto scope reason bind_input \<Rightarrow>
          if agent = Codex
          then Answer ''deny'' (Reason (ask_text scope reason bind_input @ codex_note))
          else Answer ''ask'' (Reason (ask_text scope reason bind_input)))"

definition cli_hook_call :: "hook_env \<Rightarrow> hook_io \<Rightarrow> json \<Rightarrow> (string, toolcall) result" where
  "cli_hook_call H io v = tool_call_from_hook_payload (hi_world io) v"

definition run_mcp_bypass ::
  "hook_env \<Rightarrow> hook_agent \<Rightarrow> hook_io \<Rightarrow> string \<Rightarrow> hook_disk \<Rightarrow> hook_output \<times> hook_disk" where
  "run_mcp_bypass H agent io buf K =
     (case and_then (he_parse H buf) (cli_hook_call H io) of
        Err _ \<Rightarrow> (write_allow_decision agent (Reason unparsed_bypass), K)
      | Ok call \<Rightarrow> bypass_call (write_allow_decision agent) H io call K)"

definition cli_run_hook :: "hook_env \<Rightarrow> hook_agent \<Rightarrow> hook_io \<Rightarrow> hook_disk \<Rightarrow> hook_output \<times> hook_disk" where
  "cli_run_hook H agent io K =
     (case hi_stdin io of
        Err e \<Rightarrow> (ExitError e, K)
      | Ok buf \<Rightarrow>
          if bypass_enabled (de_vars (he_daemon H)) then run_mcp_bypass H agent io buf K
          else
            (case he_parse H buf of
               Err e \<Rightarrow> (Answer ''deny'' (FailedClosed ''parsing hook input'' (HookText e)), K)
             | Ok v \<Rightarrow>
                 (case cli_hook_call H io v of
                    Err e \<Rightarrow> (Answer ''deny'' (FailedClosed ''normalizing hook input'' (HookText e)), K)
                  | Ok call \<Rightarrow>
                      (case cli_decide_call H io call K of
                         (Err (HookCore Panic), K') \<Rightarrow> (Crashed, K')
                       | (Err e, K') \<Rightarrow> (Answer ''deny'' (FailedClosed ''evaluating policy'' e), K')
                       | (Ok eval, K') \<Rightarrow> (write_eval_decision agent eval, K')))))"

end
