(* ===== verification/Gateway.thy ===== *)
theory Gateway
  imports Hook
begin

text \<open>
  The MCP gateway and the command line of \<open>gommage-mcp\<close> (\<open>crates/gommage-mcp/src/main.rs\<close>): a
  proxy of line-delimited JSON-RPC that decides the \<open>tools/call\<close> requests and sends everything
  else upstream. What a run does is the list of its events, in order. A character outside ASCII
  in a tool name is several here, and becomes as many underscores.
\<close>

section \<open>Arguments\<close>

record gateway_options =
  go_server_name :: string
  go_command :: "string list"

datatype gateway_mode =
    HookMode
  | GatewayMode gateway_options
  | InfoPrinted

text \<open>The loop over the arguments after \<open>--gateway\<close>: the server name and what follows \<open>--\<close>.\<close>

fun gateway_args :: "string \<Rightarrow> string list \<Rightarrow> (string, string \<times> string list option) result" where
  "gateway_args server_name [] = Ok (server_name, None)"
| "gateway_args server_name (a # as) =
     (if a = ''--server-name''
      then (case as of
              [] \<Rightarrow> Err ''--server-name requires a value''
            | value # rest \<Rightarrow> gateway_args value rest)
      else if a = ''--'' then Ok (server_name, Some as)
      else Err (''unexpected gateway argument '' @ debug_str a @ ''; try --help''))"

definition parse_args :: "string list \<Rightarrow> (string, gateway_mode) result" where
  "parse_args args =
     (case args of
        [] \<Rightarrow> Ok HookMode
      | first # rest \<Rightarrow>
          if args = [''-V''] \<or> args = [''--version''] then Ok InfoPrinted
          else if args = [''-h''] \<or> args = [''--help''] then Ok InfoPrinted
          else if first \<noteq> ''--gateway''
          then Err (''unexpected argument '' @ debug_str first @ ''; try --help'')
          else
            and_then (gateway_args ''upstream'' rest) (\<lambda>(server_name, start).
              case start of
                None \<Rightarrow> Err ''--gateway requires `-- <upstream-command> [args...]`''
              | Some command \<Rightarrow>
                  if command = [] then Err ''--gateway requires an upstream command after `--`''
                  else Ok (GatewayMode \<lparr>go_server_name = server_name, go_command = command\<rparr>)))"

section \<open>Tool names\<close>

definition mcp_segment_char :: "char \<Rightarrow> bool" where
  "mcp_segment_char c \<longleftrightarrow> is_ascii_alphanumeric c \<or> c \<in> {CHR ''_'', CHR ''-'', CHR ''.''}"

definition sanitize_mcp_segment :: "string \<Rightarrow> string" where
  "sanitize_mcp_segment value =
     (let sanitized = map (\<lambda>c. if mcp_segment_char c then c else CHR ''_'') value
      in if sanitized = [] then ''unnamed'' else sanitized)"

definition gateway_tool_name :: "string \<Rightarrow> string \<Rightarrow> string" where
  "gateway_tool_name server_name tool_name =
     ''mcp__'' @ sanitize_mcp_segment server_name @ ''__'' @ sanitize_mcp_segment tool_name"

section \<open>Responses\<close>

definition mcp_tool_error_response :: "json \<Rightarrow> string \<Rightarrow> string \<Rightarrow> eval_result \<Rightarrow> json" where
  "mcp_tool_error_response rid message tool_name eval =
     JObject
      [(''jsonrpc'', JString ''2.0''), (''id'', rid),
       (''result'', JObject
         [(''content'', JArray [JObject [(''type'', JString ''text''), (''text'', JString message)]]),
          (''isError'', JBool True),
          (''_meta'', JObject
            [(''com.gommage/decision'', JObject
               [(''gateway_tool'', JString tool_name),
                (''policy_version'', JString (eval_policy_version eval)),
                (''matched_rule'', jopt matched_rule_json (eval_matched eval)),
                (''capabilities'', capabilities_json (eval_capabilities eval))])])])]"

definition gateway_denied_response :: "json \<Rightarrow> string \<Rightarrow> string \<Rightarrow> bool \<Rightarrow> eval_result \<Rightarrow> json" where
  "gateway_denied_response rid tool_name reason hard_stop eval =
     mcp_tool_error_response rid
       ((if hard_stop then ''gommage denied MCP tool call (hard-stop)''
         else ''gommage denied MCP tool call'') @ '': '' @ reason) tool_name eval"

definition gateway_ask_response ::
  "json \<Rightarrow> string \<Rightarrow> string \<Rightarrow> string \<Rightarrow> bool \<Rightarrow> eval_result \<Rightarrow> json" where
  "gateway_ask_response rid tool_name reason scope bind_input eval =
     mcp_tool_error_response rid
       (''gommage requires '' @ picto_requirement bind_input @ '' for scope '' @ debug_str scope @
        '': '' @ reason) tool_name eval"

definition jsonrpc_error :: "json \<Rightarrow> int \<Rightarrow> string \<Rightarrow> json" where
  "jsonrpc_error rid code message =
     JObject
      [(''jsonrpc'', JString ''2.0''), (''id'', rid),
       (''error'', JObject [(''code'', JNumber (JInt code)), (''message'', JString message)])]"

section \<open>Gating\<close>

definition json_object :: "json option \<Rightarrow> json option" where
  "json_object v = (case v of Some (JObject ms) \<Rightarrow> Some (JObject ms) | _ \<Rightarrow> None)"

definition json_text :: "json option \<Rightarrow> string option" where
  "json_text v = (case v of Some j \<Rightarrow> as_str j | None \<Rightarrow> None)"

definition message_id :: "json \<Rightarrow> json" where
  "message_id message = (case json_get message ''id'' of Some v \<Rightarrow> v | None \<Rightarrow> JNull)"

text \<open>\<open>decide\<close> is \<open>decide_call\<close> on this run's surroundings; the result is the response to the client,
  or nothing when the message is to go upstream.\<close>

definition gate_mcp_tool_call ::
  "(toolcall \<Rightarrow> hook_disk \<Rightarrow> (hook_error, eval_result) result \<times> hook_disk) \<Rightarrow> string \<Rightarrow> json \<Rightarrow> hook_disk \<Rightarrow>
     (hook_error, json option) result \<times> hook_disk" where
  "gate_mcp_tool_call decide server_name message K =
     (if json_text (json_get message ''method'') \<noteq> Some ''tools/call'' then (Ok None, K)
      else
        (let rid = message_id message
         in case json_object (json_get message ''params'') of
              None \<Rightarrow> (Ok (Some (jsonrpc_error rid (-32602) ''Malformed tools/call: missing params'')), K)
            | Some params \<Rightarrow>
                (case json_text (json_get params ''name'') of
                   None \<Rightarrow>
                     (Ok (Some (jsonrpc_error rid (-32602) ''Malformed tools/call: missing params.name'')), K)
                 | Some tool_name \<Rightarrow>
                     (let arguments =
                            (case json_get params ''arguments'' of Some a \<Rightarrow> a | None \<Rightarrow> JObject []);
                          call = \<lparr>tool = gateway_tool_name server_name tool_name, input = arguments\<rparr>
                      in then_do (decide call K) (\<lambda>eval K'.
                           (Ok (case eval_decision eval of
                                  Allow \<Rightarrow> None
                                | Gommage reason hard_stop \<Rightarrow>
                                    Some (gateway_denied_response rid (tool call) reason hard_stop eval)
                                | AskPicto scope reason bind_input \<Rightarrow>
                                    Some (gateway_ask_response rid (tool call) reason scope bind_input eval)),
                            K'))))))"

section \<open>The loop\<close>

text \<open>A line from the client, what deciding it meets, and the faults of the pipes: \<open>gl_upstream\<close> of
  the write upstream, \<open>gl_response\<close> is the line the upstream server answers, \<open>gl_client\<close> the
  fault of the write to the client.\<close>

record gateway_line =
  gl_line :: "(string, string) result"
  gl_io :: hook_io
  gl_upstream :: "string option"
  gl_response :: "(string, string) result"
  gl_client :: "string option"

datatype gateway_event =
    ToUpstream string
  | ToClient string

definition fault_then ::
  "string option \<Rightarrow> (hook_error, unit) result \<times> 'a list \<times> 's \<Rightarrow> 's \<Rightarrow> (hook_error, unit) result \<times> 'a list \<times> 's" where
  "fault_then fault k s = (case fault of Some e \<Rightarrow> (Err (HookText e), [], s) | None \<Rightarrow> k)"

definition emit ::
  "'a \<Rightarrow> 'e \<times> 'a list \<times> 's \<Rightarrow> 'e \<times> 'a list \<times> 's" where
  "emit ev r = (case r of (res, evs, s) \<Rightarrow> (res, ev # evs, s))"

text \<open>One line; \<open>k\<close> is the rest of the loop.\<close>

definition gateway_step ::
  "hook_env \<Rightarrow> string \<Rightarrow> gateway_line \<Rightarrow>
     (hook_disk \<Rightarrow> (hook_error, unit) result \<times> gateway_event list \<times> hook_disk) \<Rightarrow> hook_disk \<Rightarrow>
     (hook_error, unit) result \<times> gateway_event list \<times> hook_disk" where
  "gateway_step H server_name l k K =
     (case gl_line l of
        Err e \<Rightarrow> (Err (HookText (''reading gateway stdin: '' @ e)), [], K)
      | Ok line \<Rightarrow>
          if is_blank line then k K
          else
            (case he_parse H line of
               Err e \<Rightarrow> (Err (HookText (''parsing MCP JSON-RPC line: '' @ e)), [], K)
             | Ok message \<Rightarrow>
                 (case gate_mcp_tool_call (mcp_decide_call H (gl_io l)) server_name message K of
                    (Err e, K') \<Rightarrow> (Err e, [], K')
                  | (Ok (Some response), K') \<Rightarrow>
                      (case he_print H response of
                         Err e \<Rightarrow> (Err (HookText e), [], K')
                       | Ok text \<Rightarrow> emit (ToClient text) (fault_then (gl_client l) (k K') K'))
                  | (Ok None, K') \<Rightarrow>
                      emit (ToUpstream line)
                        (fault_then (gl_upstream l)
                          (if json_get message ''id'' = None then k K'
                           else
                             (case gl_response l of
                                Err e \<Rightarrow> (Err (HookText (''reading upstream MCP response: '' @ e)), [], K')
                              | Ok response \<Rightarrow>
                                  if response = []
                                  then (Err (HookText ''upstream MCP server closed without response''), [], K')
                                  else emit (ToClient response) (fault_then (gl_client l) (k K') K'))) K'))))"

fun gateway_loop ::
  "hook_env \<Rightarrow> string \<Rightarrow> gateway_line list \<Rightarrow> hook_disk \<Rightarrow>
     (hook_error, unit) result \<times> gateway_event list \<times> hook_disk" where
  "gateway_loop H server_name [] K = (Ok (), [], K)"
| "gateway_loop H server_name (l # ls) K = gateway_step H server_name l (gateway_loop H server_name ls) K"

text \<open>\<open>spawned\<close> is the outcome of starting the upstream server, \<open>exit\<close> that of waiting for it:
  a fault, or its status, which is a success or has a text.\<close>

definition run_gateway ::
  "hook_env \<Rightarrow> (gommage_error, unit) result \<Rightarrow> (string, unit) result \<Rightarrow> (string, string option) result \<Rightarrow>
     gateway_options \<Rightarrow> gateway_line list \<Rightarrow> hook_disk \<Rightarrow>
     (hook_error, unit) result \<times> gateway_event list \<times> hook_disk" where
  "run_gateway H ensured spawned exit options ls K =
     (case ensured of
        Err e \<Rightarrow> (Err (HookCore (CoreError e)), [], K)
      | Ok _ \<Rightarrow>
          (case spawned of
             Err e \<Rightarrow> (Err (HookText (''starting upstream MCP server ['' @
                 join '', '' (map debug_str (go_command options)) @ '']: '' @ e)), [], K)
           | Ok _ \<Rightarrow>
               (case gateway_loop H (go_server_name options) ls K of
                  (Err e, evs, K') \<Rightarrow> (Err e, evs, K')
                | (Ok _, evs, K') \<Rightarrow>
                    ((case exit of
                        Err e \<Rightarrow> Err (HookText (''waiting for upstream MCP server: '' @ e))
                      | Ok None \<Rightarrow> Ok ()
                      | Ok (Some status) \<Rightarrow> Err (HookText (''upstream MCP server exited with '' @ status))),
                     evs, K'))))"

end
