(* ===== verification/Hook_Laws.thy ===== *)
theory Hook_Laws
  imports Hook_Input
begin

text \<open>
  What the enrichment of hook payloads guarantees: it only adds reserved members, an agent cannot
  forge one, no file of a patch goes unnoticed, and which git branches are noted.
\<close>

section \<open>Reserved members\<close>

definition reserved :: "string \<Rightarrow> bool" where
  "reserved k \<longleftrightarrow> starts_with k RESERVED"

lemma reserved_names [simp]:
  "reserved ''__gommage_file_path''" "reserved ''__gommage_notebook_path''" "reserved ''__gommage_path''"
  "reserved ''__gommage_glob_path''" "reserved ''__gommage_pattern''" "reserved ''__gommage_cwd''"
  "reserved ''__gommage_home''" "reserved ''__gommage_cwd_git_branch''"
  "reserved ''__gommage_patch_unparsed''" "reserved ''__gommage_patch_overflow''"
  "reserved ''__gommage_patch_absolute''"
  by (simp_all add: reserved_def RESERVED_def starts_with_def)

lemma reserved_indexed [simp]:
  "reserved (indexed ''__gommage_patch_path_'' i)" "reserved (indexed ''__gommage_git_write_path_'' i)"
  "reserved (indexed ''__gommage_git_write_branch_'' i)"
  by (simp_all add: reserved_def RESERVED_def starts_with_def indexed_def)

lemma strip_insert [simp]:
  "reserved k \<Longrightarrow> strip_internal_fields (member_insert k v ms) = strip_internal_fields ms"
  by (induction k v ms rule: member_insert.induct) (auto simp: strip_internal_fields_def reserved_def)

lemma strip_strip [simp]: "strip_internal_fields (strip_internal_fields ms) = strip_internal_fields ms"
  by (simp add: strip_internal_fields_def)

lemma strip_insert_opt [simp]:
  "reserved k \<Longrightarrow> strip_internal_fields (insert_opt k v ms) = strip_internal_fields ms"
  by (simp add: insert_opt_def split: option.split)

lemma strip_git_contexts [simp]:
  "strip_internal_fields (git_write_contexts W ps seen index ms) = strip_internal_fields ms"
  by (induction W ps seen index ms rule: git_write_contexts.induct) (simp_all split: option.split)

lemma strip_patch_paths:
  "strip_internal_fields (fst (foldl (add_patch_path cwd) acc ips)) = strip_internal_fields (fst acc)"
  by (induction ips arbitrary: acc) (auto simp: add_patch_path_def Let_def split: prod.split)

lemma strip_apply_patch [simp]:
  "strip_internal_fields (fst (enrich_apply_patch_input ms cwd)) = strip_internal_fields ms"
  by (simp add: enrich_apply_patch_input_def Let_def strip_patch_paths split: option.split)

lemma strip_resolved [simp]:
  "reserved k \<Longrightarrow> strip_internal_fields (fst (enrich_resolved_path ms cwd src k)) = strip_internal_fields ms"
  by (simp add: enrich_resolved_path_def Let_def split: option.split)

lemma strip_file_input [simp]:
  "reserved k \<Longrightarrow> strip_internal_fields (enrich_file_input W ms cwd src k) = strip_internal_fields ms"
  unfolding enrich_file_input_def add_git_write_contexts_def prod.case_eq_if
  by (simp split: option.split del: git_write_contexts.simps)

lemma strip_bash_input [simp]: "strip_internal_fields (enrich_bash_input W ms cwd) = strip_internal_fields ms"
  by (simp add: enrich_bash_input_def Let_def add_git_write_contexts_def split: option.split)

lemma strip_grep_input [simp]: "strip_internal_fields (enrich_grep_input ms cwd) = strip_internal_fields ms"
  by (simp add: enrich_grep_input_def Let_def)

lemma strip_enrich_members [simp]:
  "strip_internal_fields (enrich_members W t ms cwd) = strip_internal_fields ms"
  unfolding enrich_members_def prod.case_eq_if add_git_write_contexts_def by simp

text \<open>C12. An agent cannot forge what the adapter notes: the enriched input keeps the members of the
  input that are not reserved, all of them and in order; its reserved members are the same whatever
  reserved members the input had, and there is none without a working directory.\<close>

theorem reserved_fields_not_forgeable:
  "(\<exists>ms'. enrich_hook_tool_input W t (JObject ms) cwd = JObject ms' \<and>
      strip_internal_fields ms' = strip_internal_fields ms \<and> (cwd = None \<longrightarrow> ms' = strip_internal_fields ms)) \<and>
   (strip_internal_fields ms = strip_internal_fields other \<longrightarrow>
      enrich_hook_tool_input W t (JObject ms) cwd = enrich_hook_tool_input W t (JObject other) cwd)"
  by (simp add: enrich_hook_tool_input_def Let_def split: option.split)

definition demo_world :: hook_world where
  "demo_world = \<lparr>hw_fs = memory_fs [([''/'', ''p'', ''f''], [])], hw_git = (\<lambda>_. Some ''main''), hw_home = Some ''/h''\<rparr>"

theorem reserved_fields_not_forgeable_witness:
  "enrich_hook_tool_input demo_world ''Write''
      (JObject [(''file_path'', JString ''f''), (''__gommage_file_path'', JString ''/forged'')]) (Some ''/p'') =
   enrich_hook_tool_input demo_world ''Write'' (JObject [(''file_path'', JString ''f'')]) (Some ''/p'')"
proof -
  have "strip_internal_fields [(''file_path'', JString ''f''), (''__gommage_file_path'', JString ''/forged'')] =
      strip_internal_fields [(''file_path'', JString ''f'')]"
    by (simp add: strip_internal_fields_def RESERVED_def starts_with_def)
  with reserved_fields_not_forgeable show ?thesis by blast
qed

section \<open>Branch contexts\<close>

lemma indexed_inject [simp]: "indexed base i = indexed base j \<longleftrightarrow> i = j"
  by (simp add: indexed_def dec_nat_inject)

lemma indexed_distinct [simp]:
  "indexed ''__gommage_git_write_path_'' i \<noteq> indexed ''__gommage_git_write_branch_'' j"
  "indexed ''__gommage_git_write_branch_'' i \<noteq> indexed ''__gommage_git_write_path_'' j"
  by (simp_all add: indexed_def)

text \<open>The paths on a branch, each at its first occurrence.\<close>

fun on_branch :: "hook_world \<Rightarrow> string list \<Rightarrow> string list \<Rightarrow> string list" where
  "on_branch W [] seen = []"
| "on_branch W (p # ps) seen =
     (if p \<in> set seen then on_branch W ps seen
      else if git_branch_for_path W p = None then on_branch W ps (p # seen)
      else p # on_branch W ps (p # seen))"

lemma on_branch_iff:
  "x \<in> set (on_branch W ps seen) \<longleftrightarrow> x \<in> set ps \<and> x \<notin> set seen \<and> git_branch_for_path W x \<noteq> None"
proof (induction W ps seen rule: on_branch.induct)
  case (2 W p ps seen)
  consider "p \<in> set seen" | "p \<notin> set seen" "git_branch_for_path W p = None"
    | "p \<notin> set seen" "git_branch_for_path W p \<noteq> None" by blast
  then show ?case
  proof cases
    case 1
    with "2.IH"(1) [OF 1] show ?thesis by auto
  next
    case 2
    with "2.IH"(2) [OF 2] show ?thesis by auto
  next
    case 3
    with "2.IH"(3) [OF 3] show ?thesis by auto
  qed
qed simp

lemma distinct_on_branch: "distinct (on_branch W ps seen)"
  by (induction W ps seen rule: on_branch.induct) (simp_all add: on_branch_iff)

fun note_branch :: "hook_world \<Rightarrow> members \<Rightarrow> nat \<times> string \<Rightarrow> members" where
  "note_branch W ms (i, p) =
     member_insert (indexed ''__gommage_git_write_branch_'' i) (JString (the (git_branch_for_path W p)))
       (member_insert (indexed ''__gommage_git_write_path_'' i) (JString p) ms)"

lemma git_write_contexts_notes:
  "index \<le> 16 \<Longrightarrow> git_write_contexts W ps seen index ms =
     foldl (note_branch W) ms (zip [index..<16] (on_branch W ps seen))"
proof (induction W ps seen index ms rule: git_write_contexts.induct)
  case (2 W p ps seen index ms)
  show ?case
  proof (cases "index < 16")
    case True
    then have "[index..<16] = index # [Suc index..<16]" by (rule upt_conv_Cons)
    with 2 True show ?thesis
      by (cases "git_branch_for_path W p") (auto simp: MAX_GIT_WRITE_CONTEXTS_def)
  next
    case False
    with 2 show ?thesis by (simp add: MAX_GIT_WRITE_CONTEXTS_def)
  qed
qed simp

lemma noted_branches:
  "map_of (foldl (note_branch W) ms (zip [a..<b] qs)) (indexed ''__gommage_git_write_path_'' i) =
     (if a \<le> i \<and> i < b \<and> i - a < length qs then Some (JString (qs ! (i - a)))
      else map_of ms (indexed ''__gommage_git_write_path_'' i)) \<and>
   map_of (foldl (note_branch W) ms (zip [a..<b] qs)) (indexed ''__gommage_git_write_branch_'' i) =
     (if a \<le> i \<and> i < b \<and> i - a < length qs then Some (JString (the (git_branch_for_path W (qs ! (i - a)))))
      else map_of ms (indexed ''__gommage_git_write_branch_'' i))"
proof (induction qs arbitrary: a ms)
  case (Cons q qs)
  show ?case
  proof (cases "a < b")
    case True
    then have "[a..<b] = a # [Suc a..<b]" by (rule upt_conv_Cons)
    with Cons.IH [of _ "Suc a"] True show ?thesis
      by (cases "i = a") (auto simp: map_of_member_insert Suc_le_eq nth_Cons' Suc_diff_Suc)
  qed auto
qed simp

text \<open>C13. Which branches are noted: of the paths a call writes to, the first sixteen that lie on a
  branch, each once and in order, with their branches, and no others; a path beyond the sixteenth
  leaves no trace in the input.\<close>

theorem branch_notes_bounded:
  "let qs = on_branch W paths []; out = add_git_write_contexts W ms paths in
     distinct qs \<and> set qs = {p \<in> set paths. git_branch_for_path W p \<noteq> None} \<and>
     map_of out (indexed ''__gommage_git_write_path_'' i) =
       (if i < min 16 (length qs) then Some (JString (qs ! i))
        else map_of ms (indexed ''__gommage_git_write_path_'' i)) \<and>
     map_of out (indexed ''__gommage_git_write_branch_'' i) =
       (if i < min 16 (length qs) then Some (JString (the (git_branch_for_path W (qs ! i))))
        else map_of ms (indexed ''__gommage_git_write_branch_'' i))"
proof -
  have "add_git_write_contexts W ms paths = foldl (note_branch W) ms (zip [0..<16] (on_branch W paths []))"
    by (simp add: add_git_write_contexts_def git_write_contexts_notes)
  moreover have "set (on_branch W paths []) = {p \<in> set paths. git_branch_for_path W p \<noteq> None}"
    by (auto simp only: on_branch_iff set_eq_iff mem_Collect_eq list.set empty_iff)
  ultimately show ?thesis
    using noted_branches [of W ms 0 16 "on_branch W paths []" i] distinct_on_branch
    by (simp add: Let_def)
qed

section \<open>Patches\<close>

lemma note_branch_other:
  assumes "\<And>i. k \<noteq> indexed ''__gommage_git_write_path_'' i" and "\<And>i. k \<noteq> indexed ''__gommage_git_write_branch_'' i"
  shows "map_of (add_git_write_contexts W ms paths) k = map_of ms k"
proof -
  have "map_of (foldl (note_branch W) ms ips) k = map_of ms k" for ips
    using assms by (induction ips arbitrary: ms) (auto simp: map_of_member_insert)
  then show ?thesis by (simp add: add_git_write_contexts_def git_write_contexts_notes)
qed

definition patch_path :: "string \<Rightarrow> string \<Rightarrow> bool" where
  "patch_path command p \<longleftrightarrow>
     (\<exists>line \<in> set (str_lines command). \<exists>pre \<in> set patch_prefixes. \<exists>rest.
        strip_prefix line pre = Some rest \<and> p = trim rest \<and> p \<noteq> [])"

lemma set_apply_patch_paths: "set (apply_patch_paths command) = {p. patch_path command p}"
proof -
  let ?found = "\<lambda>line pre. (case strip_prefix line pre of None \<Rightarrow> {}
    | Some rest \<Rightarrow> if trim rest = [] then {} else {trim rest})"
  have "set (patch_line_paths paths line) = set paths \<union> (\<Union>pre \<in> set patch_prefixes. ?found line pre)" for paths line
    unfolding patch_line_paths_def by (rule set_foldl_union) (auto simp: Let_def split: option.split)
  then have "set (apply_patch_paths command) =
      set [] \<union> (\<Union>line \<in> set (str_lines command). \<Union>pre \<in> set patch_prefixes. ?found line pre)"
    unfolding apply_patch_paths_def by (rule set_foldl_union)
  then have all: "set (apply_patch_paths command) =
      (\<Union>line \<in> set (str_lines command). \<Union>pre \<in> set patch_prefixes. ?found line pre)" by simp
  have one: "p \<in> ?found line pre \<longleftrightarrow> (\<exists>rest. strip_prefix line pre = Some rest \<and> p = trim rest \<and> p \<noteq> [])"
    for p line pre by (auto split: option.split)
  show ?thesis unfolding all set_eq_iff UN_iff one mem_Collect_eq patch_path_def by (rule allI) (rule refl)
qed

lemma patch_path_fields:
  "map_of (fst (foldl (add_patch_path cwd) (ms, rs) (zip [a..<a + length ps] ps))) (indexed ''__gommage_patch_path_'' i) =
     (if a \<le> i \<and> i < a + length ps then Some (JString (resolve_hook_path cwd (ps ! (i - a))))
      else map_of ms (indexed ''__gommage_patch_path_'' i))"
proof (induction ps arbitrary: a ms rs)
  case (Cons p ps)
  have "[a..<a + length (p # ps)] = a # [Suc a..<Suc a + length ps]" by (simp add: upt_conv_Cons del: upt_Suc)
  moreover have "indexed ''__gommage_patch_path_'' i \<noteq> ''__gommage_patch_absolute''"
    by (simp add: indexed_def)
  ultimately show ?case
    using Cons.IH [where a = "Suc a"]
    by (cases "i = a") (auto simp: add_patch_path_def Let_def map_of_member_insert nth_Cons' Suc_diff_Suc not_less_eq_eq)
qed auto

lemma patch_path_kept:
  "k \<noteq> ''__gommage_patch_absolute'' \<Longrightarrow> (\<And>i. k \<noteq> indexed ''__gommage_patch_path_'' i) \<Longrightarrow>
     map_of (fst (foldl (add_patch_path cwd) acc ips)) k = map_of (fst acc) k"
  by (induction ips arbitrary: acc) (auto simp: add_patch_path_def Let_def map_of_member_insert split: prod.split)

lemma patch_absolute_kept:
  "map_of (fst acc) ''__gommage_patch_absolute'' = Some (JBool True) \<Longrightarrow>
     map_of (fst (foldl (add_patch_path cwd) acc ips)) ''__gommage_patch_absolute'' = Some (JBool True)"
  by (induction ips arbitrary: acc) (auto simp: add_patch_path_def Let_def map_of_member_insert indexed_def split: prod.split)

lemma patch_absolute_flag:
  "p \<in> set ps \<Longrightarrow> starts_with p ''/'' \<Longrightarrow>
     map_of (fst (foldl (add_patch_path cwd) acc (zip [a..<a + length ps] ps))) ''__gommage_patch_absolute'' =
       Some (JBool True)"
proof (induction ps arbitrary: a acc)
  case (Cons q ps)
  have upt: "[a..<a + length (q # ps)] = a # [Suc a..<Suc a + length ps]" by (simp add: upt_conv_Cons del: upt_Suc)
  show ?case
  proof (cases "starts_with q ''/''")
    case True
    then have "map_of (fst (add_patch_path cwd acc (a, q))) ''__gommage_patch_absolute'' = Some (JBool True)"
      by (auto simp: add_patch_path_def Let_def map_of_member_insert indexed_def split: prod.split)
    then show ?thesis unfolding upt by (simp add: patch_absolute_kept)
  next
    case False
    with Cons.prems have "p \<in> set ps" by auto
    from Cons.IH [OF this Cons.prems(2), of "add_patch_path cwd acc (a, q)" "Suc a"]
    show ?thesis unfolding upt zip_Cons_Cons foldl_Cons .
  qed
qed simp

text \<open>No file of a patch goes unnoticed: for an \<open>apply_patch\<close> call, each path that a header of
  the patch names is noted, resolved against the working directory, under one of sixteen members,
  with the flag for absolute paths if it is one; or the flag is set that the patch names more.\<close>

theorem patch_paths_noticed:
  assumes "get_text ms ''command'' = Some command" and "patch_path command p"
  shows "let out = enrich_members W ''apply_patch'' ms cwd in
    map_of out ''__gommage_patch_overflow'' = Some (JBool True) \<or>
    (\<exists>i < 16. map_of out (indexed ''__gommage_patch_path_'' i) = Some (JString (resolve_hook_path cwd p))) \<and>
    (starts_with p ''/'' \<longrightarrow> map_of out ''__gommage_patch_absolute'' = Some (JBool True))"
proof -
  let ?paths = "apply_patch_paths command"
  have p: "p \<in> set ?paths" using assms(2) by (simp add: set_apply_patch_paths)
  obtain ms1 rs where e: "enrich_apply_patch_input ms cwd = (ms1, rs)" by (meson surj_pair)
  have out: "map_of (enrich_members W ''apply_patch'' ms cwd) k = map_of ms1 k"
    if "\<And>i. k \<noteq> indexed ''__gommage_git_write_path_'' i" "\<And>i. k \<noteq> indexed ''__gommage_git_write_branch_'' i" for k
    using note_branch_other [OF that] e by (simp add: enrich_members_def)
  have keys: "map_of (enrich_members W ''apply_patch'' ms cwd) ''__gommage_patch_overflow'' = map_of ms1 ''__gommage_patch_overflow''"
    "map_of (enrich_members W ''apply_patch'' ms cwd) ''__gommage_patch_absolute'' = map_of ms1 ''__gommage_patch_absolute''"
    "map_of (enrich_members W ''apply_patch'' ms cwd) (indexed ''__gommage_patch_path_'' i) =
      map_of ms1 (indexed ''__gommage_patch_path_'' i)" for i
    by (rule out; simp add: indexed_def)+
  show ?thesis
  proof (cases "MAX_APPLY_PATCH_PATHS < length ?paths")
    case True
    with e assms(1) p have "ms1 = member_insert ''__gommage_patch_overflow'' (JBool True) ms"
      by (auto simp: enrich_apply_patch_input_def Let_def split: if_splits)
    then show ?thesis by (simp add: keys Let_def map_of_member_insert)
  next
    case False
    with e assms(1) p have ms1: "ms1 = fst (foldl (add_patch_path cwd) (ms, []) (zip [0..<0 + length ?paths] ?paths))"
      by (auto simp: enrich_apply_patch_input_def Let_def split: if_splits)
    from p obtain i where "i < length ?paths" "?paths ! i = p" by (auto simp: in_set_conv_nth)
    with False have "i < 16 \<and> map_of ms1 (indexed ''__gommage_patch_path_'' i) = Some (JString (resolve_hook_path cwd p))"
      unfolding ms1 patch_path_fields by (simp add: MAX_APPLY_PATCH_PATHS_def)
    moreover have "starts_with p ''/'' \<Longrightarrow> map_of ms1 ''__gommage_patch_absolute'' = Some (JBool True)"
      unfolding ms1 by (rule patch_absolute_flag [OF p])
    ultimately show ?thesis by (auto simp: keys Let_def)
  qed
qed

theorem patch_paths_noticed_witness:
  "\<exists>i < 16. map_of (enrich_members demo_world ''apply_patch''
      [(''command'', JString (''*** Begin Patch'' @ [NL] @ ''*** Delete File: old.rs'' @ [NL]))] ''/p'')
      (indexed ''__gommage_patch_path_'' i) = Some (JString ''/p/old.rs'')"
proof -
  let ?text = "''*** Begin Patch'' @ [NL] @ ''*** Delete File: old.rs'' @ [NL]"
  let ?ms = "[(''command'', JString ?text)]"
  have "str_lines ?text = [''*** Begin Patch'', ''*** Delete File: old.rs'']" by code_simp
  moreover have "strip_prefix ''*** Delete File: old.rs'' ''*** Delete File: '' = Some ''old.rs''"
    "trim ''old.rs'' = ''old.rs''" "''*** Delete File: '' \<in> set patch_prefixes" by code_simp+
  ultimately have p: "patch_path ?text ''old.rs''"
    unfolding patch_path_def by (intro bexI [of _ "''*** Delete File: old.rs''"] bexI [of _ "''*** Delete File: ''"]) auto
  have c: "get_text ?ms ''command'' = Some ?text" by (simp add: get_text_def)
  have "resolve_hook_path ''/p'' ''old.rs'' = ''/p/old.rs''"
    "map_of (enrich_members demo_world ''apply_patch'' ?ms ''/p'') ''__gommage_patch_overflow'' = None" by code_simp+
  with patch_paths_noticed [OF c p, of demo_world "''/p''"] show ?thesis by (auto simp: Let_def)
qed

end
