(* ===== verification/Adapter_Laws.thy ===== *)
theory Adapter_Laws
  imports Gateway Hook_Laws Daemon_Run
begin

text \<open>
  What the hook adapters and the gateway guarantee: without a daemon they decide and record exactly
  as the daemon would, an allow comes from a verdict or a spent grant and every failure is a deny,
  the bypass keeps the hard stops, and which messages pass the gateway.
\<close>

section \<open>Steps\<close>

lemma append_events_rt: "append_events D io n es s = (res, s') \<Longrightarrow> ds_rt s' = ds_rt s"
  by (induction es arbitrary: n s)
    (auto simp: then_do_def dest: log_event_rt split: prod.splits sum.splits)

lemma audit_collected_rt:
  "audit_collected D io fault call c s = (Ok eval, s') \<Longrightarrow> eval = fst c \<and> ds_rt s' = ds_rt s"
  by (auto simp: audit_collected_def then_do_Ok_iff dest!: append_events_rt log_decision_rt
      split: prod.splits)

lemma audit_collected_open:
  "ds_audit s = Some t \<Longrightarrow> audit_collected D io None call (eval, events) s =
     then_do (append_events D io 0 events s)
       (\<lambda>_ s1. then_do (log_decision D (ri_final io) call eval s1) (\<lambda>_ s2. (Ok eval, s2)))"
  by (simp add: audit_collected_def audit_open_def) (metis (mono_tags) daemon_state.surjective daemon_state.update_convs(2) old.unit.exhaust)

section \<open>A hook for the examples\<close>

text \<open>An empty home directory with a key, no daemon, and an audit codec that prints every entry alike.\<close>

definition demo_hook_daemon :: daemon_env where
  "demo_hook_daemon = demo_daemon\<lparr>de_audit := demo_daemon_codec\<lparr>entry_line := (\<lambda>e. Ok ''{}'')\<rparr>\<rparr>"

definition demo_payload :: hook_payload where
  "demo_payload = \<lparr>hook_cwd = None, hook_tool_name = ''Bash'',
     hook_tool_input = JObject [(''command'', JString ''rm -rf /'')]\<rparr>"

definition demo_hook :: hook_env where
  "demo_hook =
     \<lparr>he_daemon = demo_hook_daemon, he_print = (\<lambda>v. Ok ''{}''),
      he_parse = (\<lambda>s. if s = ''[]'' then Ok (JArray []) else Ok (JObject [(''tool_name'', JString ''Deploy'')])),
      he_parse_payload = (\<lambda>s. Ok demo_payload), he_eval_of_json = (\<lambda>v. Err ''syntax''),
      he_stdlib_capabilities = [], he_layout = home_layout_at [''/'', ''h'']\<rparr>"

definition demo_hook_io :: hook_io where
  "demo_hook_io =
     \<lparr>hi_request = demo_io, hi_world = demo_world, hi_stdin = Ok ''{}'',
      hi_connect = Err (NotFound, ''no socket''), hi_exchange = (\<lambda>s. Ok None), hi_ensured = Ok (),
      hi_key = Ok ''12345678901234567890123456789012'', hi_sqlite = Ok (), hi_audit_fault = None\<rparr>"

definition demo_disk :: hook_disk where
  "demo_disk = \<lparr>hk_pictos = demo_store, hk_approvals = None, hk_audit = Some [], hk_letters = None\<rparr>"

definition demo_bypass_hook :: hook_env where
  "demo_bypass_hook = demo_hook
     \<lparr>he_daemon := demo_hook_daemon
        \<lparr>de_glob := (\<lambda>p t. p = t),
         de_vars := (\<lambda>k. if k = ''GOMMAGE_BYPASS'' then Some ''1'' else None),
         de_lib := (de_lib demo_hook_daemon)\<lparr>rl_mapper := \<lparr>regex_build = (\<lambda>s. Err []), yaml_mapper_rules = (\<lambda>s. Err [])\<rparr>\<rparr>\<rparr>\<rparr>"

lemma demo_hook_parts [simp]:
  "he_daemon demo_hook = demo_hook_daemon" "de_vars demo_hook_daemon = (\<lambda>_. None)"
  "hk_pictos demo_disk = demo_store" "hk_audit demo_disk = Some []" "hk_approvals demo_disk = None"
  "hi_audit_fault demo_hook_io = None" "hi_stdin demo_hook_io = Ok ''{}''"
  "hi_key demo_hook_io = Ok ''12345678901234567890123456789012''"
  "de_vars (he_daemon demo_bypass_hook) = (\<lambda>k. if k = ''GOMMAGE_BYPASS'' then Some ''1'' else None)"
  by (simp_all add: demo_hook_def demo_hook_daemon_def demo_daemon_def demo_disk_def demo_hook_io_def
      demo_bypass_hook_def)

lemma demo_not_bypassed: "\<not> bypass_enabled (de_vars (he_daemon demo_hook))"
  by (simp add: bypass_enabled_def)

lemma demo_store_ok: "store_ok (hk_pictos demo_disk)"
  unfolding demo_hook_parts by code_simp

section \<open>The fallback and the daemon\<close>

definition webhook_off :: "env \<Rightarrow> bool" where
  "webhook_off vars \<longleftrightarrow>
     (case vars ''GOMMAGE_APPROVAL_WEBHOOK_URL'' of None \<Rightarrow> True | Some url \<Rightarrow> is_blank url)"

lemma webhook_off_notify:
  "webhook_off (de_vars D) \<Longrightarrow> notify_approval_webhook_best_effort D io request s = s"
  "webhook_off (de_vars D) \<Longrightarrow> mcp_notify D io request s = ([], s)"
  by (auto simp: webhook_off_def notify_approval_webhook_best_effort_def mcp_notify_def split: option.splits)

lemma collect_ask_is_resolve_ask:
  assumes "\<And>request s. notify request s = ([], s)"
    and "\<And>request s. notify_approval_webhook_best_effort D io request s = s" and "ds_audit s = Some t"
  shows "then_do (collect_ask notify D io call eval s) (audit_collected D io None call) =
    then_do (resolve_ask D io call eval s)
      (\<lambda>eval' s1. then_do (log_decision D (ri_final io) call eval' s1) (\<lambda>_ s2. (Ok eval', s2)))"
proof (cases "eval_decision eval")
  case (AskPicto scope reason b)
  let ?binding = "if b then Some (input_hash (de_extern D) call) else None"
  show ?thesis
  proof (cases "lookup_picto D (ri_now io) ?binding scope (rt_pictos (ds_rt s))")
    case LookupNone
    obtain res approvals where ask: "request_for_ask (de_extern D) (de_approvals D) (ri_approval_io io) (ri_now io)
        (ri_uuid io) call eval scope b reason (rt_approvals (ds_rt s)) = (res, approvals)"
      by (meson surj_pair)
    with AskPicto LookupNone assms show ?thesis
      by (cases res) (simp_all add: collect_ask_def resolve_ask_def collect_request_def ask_for_approval_def
          audit_collected_open event_append_def then_do_assoc)
  next
    case (LookupBadSignature i sc)
    with AskPicto assms show ?thesis
      by (simp add: collect_ask_def resolve_ask_def audit_collected_open event_append_def then_do_assoc)
  next
    case (LookupVerified p)
    obtain c store where c: "consume_picto D (ri_now io) ?binding (picto_id p) (rt_pictos (ds_rt s)) = (c, store)"
      by (meson surj_pair)
    have audit: "ds_audit (set_pictos store s) = Some t" using assms(3) by simp
    from AskPicto LookupVerified c show ?thesis
      by (cases c) (simp_all add: collect_ask_def resolve_ask_def collect_spend_def spend_picto_def
          audit_collected_open [OF audit] event_append_def then_do_assoc)
  qed
qed (use assms in \<open>simp_all add: collect_ask_def resolve_ask_def audit_collected_open\<close>)

lemma collect_decision_is_daemon:
  assumes "\<And>request s. notify request s = ([], s)"
    and "\<And>request s. notify_approval_webhook_best_effort D io request s = s" and "ds_audit s = Some t"
  shows "then_do (collect_decision notify D io call s) (audit_collected D io None call) =
    decide_and_audit D io call s"
  by (simp add: collect_decision_def decide_and_audit_def collect_ask_is_resolve_ask [OF assms] split: option.split)

text \<open>C9. One decision everywhere: without a daemon and without an approval webhook, both adapters,
  given the key and the runtime on disk and an audit log that can be opened, answer a call with the
  verdict the daemon would give on the same state, errors included, and leave the grants, the inbox
  and the audit log as the daemon would.\<close>

theorem fallback_agrees_with_daemon:
  assumes "load_key (hi_key io) = Ok sk" and "hook_runtime H io K = Ok rt"
    and "webhook_off (de_vars (he_daemon H))" and "hi_audit_fault io = None" and "hk_audit K = Some t"
  shows "let served = (case decide_and_audit ((he_daemon H)\<lparr>de_key := sk\<rparr>) (hi_request io) call (opened_state rt K) of
      (res, s) \<Rightarrow> (res, closed_state s))
    in mcp_decide_in_process_and_audit H io call K = served \<and> cli_decide_in_process_and_audit H io call K = served"
proof -
  let ?D = "(he_daemon H)\<lparr>de_key := sk\<rparr>"
  have off: "webhook_off (de_vars ?D)" using assms(3) by simp
  have audit: "ds_audit (opened_state rt K) = Some t" using assms(5) by (simp add: opened_state_def)
  note same = collect_decision_is_daemon [OF _ webhook_off_notify(1) [OF off] audit]
  show ?thesis
    using same [where notify = "mcp_notify ?D (hi_request io)" and call = call] webhook_off_notify(2) [OF off]
      same [where notify = "\<lambda>request s. ([], s)" and call = call] assms
    by (simp add: Let_def mcp_decide_in_process_and_audit_def cli_decide_in_process_and_audit_def
        decide_in_process_def)
qed

theorem fallback_agrees_with_daemon_witness:
  "\<exists>rt sk. hook_runtime demo_hook demo_hook_io demo_disk = Ok rt \<and>
     fst (mcp_decide_in_process_and_audit demo_hook demo_hook_io demo_deploy_call demo_disk) =
       fst (decide_and_audit (demo_hook_daemon\<lparr>de_key := sk\<rparr>) demo_io demo_deploy_call (opened_state rt demo_disk))"
proof -
  have key: "load_key (hi_key demo_hook_io) = Ok ''12345678901234567890123456789012''" by (simp add: load_key_def)
  have "is_ok (read_model_load demo_extern (de_lib demo_daemon) (\<lambda>_. None) (memory_fs []) (home_layout_at [''/'', ''h'']))"
    by (simp add: read_model_load_def expedition_load_def memory_fs_def load_mapper_from_dir_def yaml_files_def
        load_active_policy_def active_policy_layers_def explicit_policy_dir_def push_policy_layer_def
        load_from_layers_def load_from_dir_def collect_policy_files_def load_policy_files_def Let_def)
  then have "is_ok (hook_runtime demo_hook demo_hook_io demo_disk)"
    by (simp add: hook_runtime_def demo_hook_def demo_hook_daemon_def demo_hook_io_def demo_daemon_def
        demo_io_def runtime_open_def is_ok_def and_then_def split: sum.splits)
  then obtain rt where rt: "hook_runtime demo_hook demo_hook_io demo_disk = Ok rt"
    by (cases "hook_runtime demo_hook demo_hook_io demo_disk") auto
  have off: "webhook_off (de_vars (he_daemon demo_hook))" by (simp add: webhook_off_def)
  have "hi_request demo_hook_io = demo_io" by (simp add: demo_hook_io_def)
  with fallback_agrees_with_daemon [OF key rt off, of "[]" demo_deploy_call] rt show ?thesis
    by (auto simp: Let_def split_beta)
qed

section \<open>What an allow rests on\<close>

lemma justified_allow_pictos:
  "rt_pictos (ds_rt s2) = rt_pictos (ds_rt s1) \<Longrightarrow> justified_allow D io call s s1 \<Longrightarrow> justified_allow D io call s s2"
  by (simp add: justified_allow_def)

lemma collect_ask_Allow:
  assumes "store_ok (rt_pictos (ds_rt s))" and "collect_ask notify D io call eval s = (Ok (res, events), s')"
    and "eval_decision res = Allow"
  obtains (decided) "eval_decision eval = Allow"
  | (granted) scope reason b row where "eval_decision eval = AskPicto scope reason b"
      "spent_grant D (ri_now io) (ask_binding D call b) scope (rt_pictos (ds_rt s)) (rt_pictos (ds_rt s')) row"
proof (cases "eval_decision eval")
  case (AskPicto scope reason b)
  show ?thesis
  proof (cases "lookup_picto D (ri_now io) (ask_binding D call b) scope (rt_pictos (ds_rt s))")
    case LookupNone
    with assms AskPicto show ?thesis
      by (auto simp: collect_ask_def collect_request_def ask_binding_def then_do_Ok_iff split_beta)
  next
    case (LookupBadSignature i sc)
    with assms AskPicto show ?thesis by (auto simp: collect_ask_def ask_binding_def)
  next
    case (LookupVerified p)
    obtain c store where c: "consume_picto D (ri_now io) (ask_binding D call b) (picto_id p) (rt_pictos (ds_rt s)) = (c, store)"
      by (meson surj_pair)
    have "collect_spend D io eval (ask_binding D call b) p s = (Ok (res, events), s')"
      using assms(2) AskPicto LookupVerified by (simp add: collect_ask_def ask_binding_def)
    with assms(3) c AskPicto obtain q where q: "c = Consumed q" "s' = set_pictos store s"
      by (cases c) (auto simp: collect_spend_def)
    from found_and_consumed [OF assms(1) LookupVerified c [unfolded q(1)]] q(2) AskPicto
    show ?thesis using granted by auto
  qed
qed (use assms decided in \<open>auto simp: collect_ask_def\<close>)

lemma collected_allow_justified:
  assumes "store_ok (rt_pictos (ds_rt s))"
    and "then_do (collect_decision notify D io call s) (audit_collected D io fault call) = (Ok res, s')"
    and "eval_decision res = Allow"
  shows "justified_allow D io call s s'"
proof -
  obtain eval events s1 where
      e: "evaluate (de_glob D) (map_call (rt_mapper (ds_rt s)) call) (rt_policy (ds_rt s)) = Some eval"
      and ask: "collect_ask notify D io call eval s = (Ok (res, events), s1)" and rt: "ds_rt s' = ds_rt s1"
    using assms(2) by (auto simp: then_do_Ok_iff collect_decision_def dest: audit_collected_rt split: option.splits)
  from e show ?thesis
  proof (cases rule: evaluate_cases)
    case (hard_stop hit)
    with ask assms(3) show ?thesis by (simp add: collect_ask_def hard_stop_decision_def)
  next
    case (closed reason)
    with ask assms(3) show ?thesis by (simp add: collect_ask_def)
  next
    case (ruled r d)
    from assms(1) ask assms(3) show ?thesis
    proof (cases rule: collect_ask_Allow)
      case decided
      with ruled show ?thesis by (auto intro: ruled_allow_justified)
    next
      case (granted scope reason b row)
      with ruled rt show ?thesis by (auto intro: granted_allow_justified)
    qed
  qed
qed

text \<open>The call was allowed by the daemon's verdict, with nothing of the process's own changed, or
  without a daemon by a rule or a grant on the disk \<open>K\<close>: then \<open>K'\<close> is the disk that this decision
  left, with the use of the grant spent in it.\<close>

definition vouched ::
  "hook_env \<Rightarrow> hook_io \<Rightarrow> toolcall \<Rightarrow> (hook_error, eval_result) result \<Rightarrow> hook_disk \<Rightarrow> hook_disk \<Rightarrow> bool" where
  "vouched H io call forwarded K K' \<longleftrightarrow>
     (\<exists>eval. forwarded = Ok eval \<and> eval_decision eval = Allow \<and> K' = K) \<or>
     (\<exists>e sk rt s'. forwarded = Err e \<and> is_missing_daemon e \<and>
        load_key (hi_key io) = Ok sk \<and> hook_runtime H io K = Ok rt \<and>
        justified_allow ((he_daemon H)\<lparr>de_key := sk\<rparr>) (hi_request io) call (opened_state rt K) s' \<and>
        K' = closed_state s')"

lemma decide_in_process_Allow:
  assumes "store_ok (hk_pictos K)" and "decide_in_process notify H io call K = (Ok res, K')"
    and "eval_decision res = Allow"
  shows "\<exists>sk rt s'. load_key (hi_key io) = Ok sk \<and> hook_runtime H io K = Ok rt \<and>
    justified_allow ((he_daemon H)\<lparr>de_key := sk\<rparr>) (hi_request io) call (opened_state rt K) s' \<and>
    K' = closed_state s'"
proof -
  obtain sk rt s' where *: "load_key (hi_key io) = Ok sk" "hook_runtime H io K = Ok rt" "K' = closed_state s'"
    "then_do (collect_decision (notify ((he_daemon H)\<lparr>de_key := sk\<rparr>) (hi_request io)) ((he_daemon H)\<lparr>de_key := sk\<rparr>)
       (hi_request io) call (opened_state rt K))
       (audit_collected ((he_daemon H)\<lparr>de_key := sk\<rparr>) (hi_request io) (hi_audit_fault io) call) = (Ok res, s')"
    using assms(2) by (auto simp: decide_in_process_def Let_def split: sum.splits prod.splits)
  then have "rt_pictos rt = hk_pictos K"
    by (auto simp: hook_runtime_def runtime_open_def and_then_Ok_iff Let_def)
  then have ok: "store_ok (rt_pictos (ds_rt (opened_state rt K)))" using assms(1) by (simp add: opened_state_def)
  from collected_allow_justified [OF ok *(4) assms(3)] * show ?thesis by blast
qed

lemma decide_or_fall_back_vouched:
  assumes "store_ok (hk_pictos K)"
    and "decide_or_fall_back forwarded (decide_in_process notify H io call) K = (Ok eval, K')"
    and "eval_decision eval = Allow"
  shows "vouched H io call forwarded K K'"
proof (cases forwarded)
  case (Inl e)
  with assms(2) obtain "is_missing_daemon e" "decide_in_process notify H io call K = (Ok eval, K')"
    by (auto simp: decide_or_fall_back_def map_err_Ok_iff split: if_splits prod.splits)
  with decide_in_process_Allow [OF assms(1) _ assms(3)] Inl show ?thesis by (auto simp: vouched_def)
qed (use assms in \<open>auto simp: vouched_def decide_or_fall_back_def\<close>)

text \<open>No decision of an adapter panics: the policies on disk are compiled ones, for which the
  evaluator is total, and an error of the connection is none of the core's.\<close>

lemma calm_append_events [simp]: "calm (append_events D io n es s)"
  by (induction es arbitrary: n s) auto

lemma calm_map_AuditError [simp]: "calm (map_err AuditError r, s)"
  by (auto simp: calm_def map_err_def split: sum.splits)

lemma calm_audit_collected [simp]: "calm (audit_collected D io fault call c s)"
  unfolding audit_collected_def by (simp split: prod.split) (intro allI impI calm_then_do; simp)

lemma calm_collect_ask [simp]: "calm (collect_ask notify D io call eval s)"
  unfolding collect_ask_def collect_request_def collect_spend_def
  by (auto simp: Let_def split: decision.split picto_lookup.split prod.split picto_consume.split
      intro!: calm_then_do)

lemma calm_decide_in_process: "calm (decide_in_process notify H io call K)"
proof (cases "load_key (hi_key io)")
  case (Inr sk)
  show ?thesis
  proof (cases "hook_runtime H io K")
    case rt: (Inr rt)
    then have "policy_wf (rt_policy rt)"
      by (auto simp: hook_runtime_def runtime_open_def and_then_Ok_iff Let_def dest: read_model_policy_wf)
    let ?D = "(he_daemon H)\<lparr>de_key := sk\<rparr>"
    have "calm (collect_decision n ?D io' call (opened_state rt K))" for n io'
      using evaluate_total [OF \<open>policy_wf (rt_policy rt)\<close>, of "de_glob ?D" "map_call (rt_mapper rt) call"]
      by (auto simp: collect_decision_def opened_state_def)
    then have "calm (then_do (collect_decision (notify ?D (hi_request io)) ?D (hi_request io) call (opened_state rt K))
        (audit_collected ?D (hi_request io) (hi_audit_fault io) call))"
      by (intro calm_then_do) simp_all
    with Inr rt show ?thesis
      by (simp add: decide_in_process_def Let_def calm_def case_prod_unfold)
  qed (use Inr in \<open>simp add: decide_in_process_def\<close>)
qed (simp add: decide_in_process_def)

definition no_core_error :: "(hook_error, 'a) result \<Rightarrow> bool" where
  "no_core_error r \<longleftrightarrow> (\<forall>e. r \<noteq> Err (HookCore e))"

lemma forwarded_no_core_error [simp]:
  "no_core_error (mcp_forward_to_daemon H io call)" "no_core_error (cli_forward_to_daemon H io call)"
  by (auto simp: no_core_error_def mcp_forward_to_daemon_def cli_forward_to_daemon_def exchange_with_daemon_def
      daemon_answer_def hook_io_error_def and_then_def map_err_def split: sum.splits option.splits if_splits)

lemma decide_never_panics:
  assumes "no_core_error forwarded"
  shows "fst (decide_or_fall_back forwarded (decide_in_process notify H io call) K) \<noteq> Err (HookCore Panic)"
  using assms calm_decide_in_process [of notify H io call K]
  by (cases forwarded)
    (auto simp: decide_or_fall_back_def no_core_error_def calm_def map_err_def split: prod.splits sum.splits)

text \<open>What lets the agent go on: an allow, or for Codex the silence that stands for it.\<close>

definition permits :: "hook_output \<Rightarrow> bool" where
  "permits out \<longleftrightarrow> out = Silent \<or> (\<exists>r. out = Answer ''allow'' r)"

lemma mcp_answer_permits:
  "permits (mcp_answer res) \<Longrightarrow> \<exists>eval. res = Ok eval \<and> eval_decision eval = Allow"
  by (cases res rule: mcp_answer.cases) (auto simp: permits_def split: decision.splits)

lemma write_eval_permits: "permits (write_eval_decision agent eval) \<Longrightarrow> eval_decision eval = Allow"
  by (auto simp: permits_def write_eval_decision_def split: decision.splits if_splits)

text \<open>What an adapter may make of a payload, by the call that it parsed from it (\<open>None\<close>: it is none),
  what the daemon answered to that call and the decision it took.\<close>

definition ok_value :: "('e, 'a) result \<Rightarrow> 'a option" where
  "ok_value r = (case r of Err _ \<Rightarrow> None | Ok x \<Rightarrow> Some x)"

lemma ok_value_simps [simp]: "ok_value (Ok x) = Some x" "ok_value (Err e) = None"
  by (simp_all add: ok_value_def)

definition closed_outcome ::
  "hook_env \<Rightarrow> hook_io \<Rightarrow> toolcall option \<Rightarrow> (toolcall \<Rightarrow> (hook_error, eval_result) result) \<Rightarrow>
     (toolcall \<Rightarrow> (hook_error, eval_result) result) \<Rightarrow> hook_disk \<Rightarrow> hook_output \<times> hook_disk \<Rightarrow> bool" where
  "closed_outcome H io parsed forwarded decided K result \<longleftrightarrow>
     (\<exists>call. parsed = Some call \<and> permits (fst result) \<and> vouched H io call (forwarded call) K (snd result)) \<or>
     (\<exists>call eval scope reason b r. parsed = Some call \<and> fst result = Answer ''ask'' r \<and>
        decided call = Ok eval \<and> eval_decision eval = AskPicto scope reason b) \<or>
     (\<exists>r. fst result = Answer ''deny'' r)"

text \<open>C8. The hooks fail closed: outside the bypass, once its standard input could be read, an adapter
  prints an answer that denies, except in two cases. It lets the agent go on only after it parsed
  the payload into a call, and the daemon's answer to that call was an allow, or there was no daemon
  to connect to and the policy on disk allows the call by a rule or by a grant of which a use is
  spent on the disk that the run leaves; and it asks only when the decision on the parsed call asks.
  So every failure, the daemon's error answers and broken connections included, is a deny, and
  no run panics. If the standard input cannot be read, the adapter ends with that error and
  without an answer, and changes nothing.\<close>

theorem hook_fails_closed:
  assumes "\<not> bypass_enabled (de_vars (he_daemon H))" and "store_ok (hk_pictos K)"
  shows "case hi_stdin io of
      Err _ \<Rightarrow>
        (\<exists>e. cli_run_hook H agent io K = (ExitError e, K)) \<and> (\<exists>e. mcp_run_hook H io K = (ExitError e, K))
    | Ok buf \<Rightarrow>
        closed_outcome H io (ok_value (and_then (he_parse H buf) (cli_hook_call H io)))
          (cli_forward_to_daemon H io) (\<lambda>call. fst (cli_decide_call H io call K)) K (cli_run_hook H agent io K) \<and>
        closed_outcome H io (ok_value (parse_hook_tool_call H io buf))
          (mcp_forward_to_daemon H io) (\<lambda>call. fst (mcp_decide_call H io call K)) K (mcp_run_hook H io K)"
proof (cases "hi_stdin io")
  case (Inl e)
  then show ?thesis by (simp add: cli_run_hook_def mcp_run_hook_def)
next
  case stdin: (Inr buf)
  have "closed_outcome H io (ok_value (and_then (he_parse H buf) (cli_hook_call H io)))
      (cli_forward_to_daemon H io) (\<lambda>call. fst (cli_decide_call H io call K)) K (cli_run_hook H agent io K)"
  proof (cases "and_then (he_parse H buf) (cli_hook_call H io)")
    case (Inl e)
    then have "\<exists>r. fst (cli_run_hook H agent io K) = Answer ''deny'' r"
      using stdin assms(1) by (auto simp: cli_run_hook_def and_then_def split: sum.splits)
    then show ?thesis by (auto simp: closed_outcome_def)
  next
    case call: (Inr call)
    obtain res K' where d: "cli_decide_call H io call K = (res, K')" by (meson surj_pair)
    have run: "cli_run_hook H agent io K =
        (case res of
           Err (HookCore Panic) \<Rightarrow> Crashed
         | Err e \<Rightarrow> Answer ''deny'' (FailedClosed ''evaluating policy'' e)
         | Ok eval \<Rightarrow> write_eval_decision agent eval, K')"
      using stdin assms(1) call d
      by (auto simp: cli_run_hook_def and_then_Ok_iff split: sum.splits hook_error.splits daemon_error.splits)
    have calm: "res \<noteq> Err (HookCore Panic)"
      using decide_never_panics [OF forwarded_no_core_error(2)] d
      unfolding cli_decide_call_def cli_decide_in_process_and_audit_def by (metis fst_conv)
    show ?thesis
    proof (cases res)
      case (Inl e)
      with run calm have "\<exists>r. fst (cli_run_hook H agent io K) = Answer ''deny'' r"
        by (auto split: hook_error.splits daemon_error.splits)
      then show ?thesis by (auto simp: closed_outcome_def)
    next
      case (Inr eval)
      from d decide_or_fall_back_vouched [OF assms(2), of "cli_forward_to_daemon H io call"] Inr
      have "vouched H io call (cli_forward_to_daemon H io call) K K'" if "eval_decision eval = Allow"
        using that unfolding cli_decide_call_def cli_decide_in_process_and_audit_def by blast
      with run call d Inr show ?thesis
        by (auto simp: closed_outcome_def write_eval_decision_def write_allow_decision_def permits_def
            split: decision.split)
    qed
  qed
  moreover have "closed_outcome H io (ok_value (parse_hook_tool_call H io buf))
      (mcp_forward_to_daemon H io) (\<lambda>call. fst (mcp_decide_call H io call K)) K (mcp_run_hook H io K)"
  proof (cases "parse_hook_tool_call H io buf")
    case (Inl e)
    then have "\<exists>r. fst (mcp_run_hook H io K) = Answer ''deny'' r"
      using stdin assms(1) by (simp add: mcp_run_hook_def)
    then show ?thesis by (auto simp: closed_outcome_def)
  next
    case call: (Inr call)
    obtain res K' where d: "mcp_decide_call H io call K = (res, K')" by (meson surj_pair)
    have calm: "res \<noteq> Err (HookCore Panic)"
      using decide_never_panics [OF forwarded_no_core_error(1)] d
      unfolding mcp_decide_call_def mcp_decide_in_process_and_audit_def by (metis fst_conv)
    show ?thesis
    proof (cases "hi_ensured io")
      case (Inl e)
      then have "\<exists>r. fst (mcp_run_hook H io K) = Answer ''deny'' r"
        using stdin assms(1) call by (simp add: mcp_run_hook_def)
      then show ?thesis by (auto simp: closed_outcome_def)
    next
      case ensured: (Inr u)
      have run: "mcp_run_hook H io K = (mcp_answer res, K')"
        using stdin assms(1) call ensured d by (simp add: mcp_run_hook_def)
      show ?thesis
      proof (cases res)
        case (Inl e)
        with run calm have "\<exists>r. fst (mcp_run_hook H io K) = Answer ''deny'' r"
          by (cases res rule: mcp_answer.cases) auto
        then show ?thesis by (auto simp: closed_outcome_def)
      next
        case (Inr eval)
        from d decide_or_fall_back_vouched [OF assms(2), of "mcp_forward_to_daemon H io call"] Inr
        have "vouched H io call (mcp_forward_to_daemon H io call) K K'" if "eval_decision eval = Allow"
          using that unfolding mcp_decide_call_def mcp_decide_in_process_and_audit_def by blast
        with run call d Inr show ?thesis
          by (auto simp: closed_outcome_def permits_def split: decision.split)
      qed
    qed
  qed
  ultimately show ?thesis using stdin by simp
qed

definition demo_answered_hook :: hook_env where
  "demo_answered_hook = demo_hook
     \<lparr>he_parse := (\<lambda>s. Ok (JObject [(''tool_name'', JString ''Deploy''), (''ok'', JBool True), (''result'', JNull)])),
      he_eval_of_json := (\<lambda>v. Ok demo_allowed)\<rparr>"

definition demo_answered_io :: hook_io where
  "demo_answered_io = demo_hook_io\<lparr>hi_connect := Ok (), hi_exchange := (\<lambda>s. Ok (Some ''{}''))\<rparr>"

theorem hook_fails_closed_witness:
  "\<exists>call. permits (fst (cli_run_hook demo_answered_hook Claude demo_answered_io demo_disk)) \<and>
     vouched demo_answered_hook demo_answered_io call
       (cli_forward_to_daemon demo_answered_hook demo_answered_io call) demo_disk
       (snd (cli_run_hook demo_answered_hook Claude demo_answered_io demo_disk))"
proof -
  let ?v = "JObject [(''tool_name'', JString ''Deploy''), (''ok'', JBool True), (''result'', JNull)]"
  have b: "\<not> bypass_enabled (de_vars (he_daemon demo_answered_hook))"
    by (simp add: bypass_enabled_def demo_answered_hook_def)
  have i: "hi_stdin demo_answered_io = Ok ''{}''" by (simp add: demo_answered_io_def)
  have c: "is_ok (cli_hook_call demo_answered_hook demo_answered_io ?v)"
    unfolding cli_hook_call_def demo_answered_io_def demo_hook_io_def hook_io.simps by code_simp
  have "cli_forward_to_daemon demo_answered_hook demo_answered_io call = Ok demo_allowed" for call
    by (simp add: cli_forward_to_daemon_def exchange_with_daemon_def daemon_answer_def hook_io_error_def
        demo_answered_hook_def demo_answered_io_def demo_hook_def)
  with b c have out: "\<exists>r. fst (cli_run_hook demo_answered_hook Claude demo_answered_io demo_disk) = Answer ''allow'' r"
    by (auto simp: cli_run_hook_def cli_decide_call_def decide_or_fall_back_def write_eval_decision_def
        write_allow_decision_def demo_answered_hook_def demo_answered_io_def demo_allowed_def is_ok_def
        split: sum.splits)
  then have permit: "permits (fst (cli_run_hook demo_answered_hook Claude demo_answered_io demo_disk))"
    by (auto simp: permits_def)
  from hook_fails_closed [OF b demo_store_ok, where io = demo_answered_io and agent = Claude] i
  have "closed_outcome demo_answered_hook demo_answered_io
      (ok_value (and_then (he_parse demo_answered_hook ''{}'') (cli_hook_call demo_answered_hook demo_answered_io)))
      (cli_forward_to_daemon demo_answered_hook demo_answered_io)
      (\<lambda>call. fst (cli_decide_call demo_answered_hook demo_answered_io call demo_disk)) demo_disk
      (cli_run_hook demo_answered_hook Claude demo_answered_io demo_disk)" by simp
  with out permit show ?thesis unfolding closed_outcome_def by auto
qed

section \<open>The bypass\<close>

text \<open>C10. The bypass keeps the hard stops and nothing else: with it, a payload that parses is denied
  exactly when the compiled-in mapper rules give its call a capability that is a hard stop, and
  otherwise let through, by both adapters and whatever the files in the home directory, the daemon
  and the audit log are like; if the mapper rules do not compile, the raw command of a Bash call
  is checked.\<close>

theorem bypass_keeps_hard_stops:
  assumes "bypass_enabled (de_vars (he_daemon H))" and "hi_stdin io = Ok buf"
  shows "(he_parse H buf = Ok v \<and> cli_hook_call H io v = Ok call \<longrightarrow>
      fst (cli_run_hook H agent io K) =
        (case hardstop_check (de_glob (he_daemon H)) (bypass_capabilities H call) of
           Some hit \<Rightarrow> Answer ''deny'' (Reason (bypass_refused (''hard-stop '' @ hit_name hit @ '': pattern '' @
             debug_str (hit_pattern hit) @ '' matched '' @ hit_capability hit)))
         | None \<Rightarrow> write_allow_decision agent (Reason bypass_allowed))) \<and>
    (parse_hook_tool_call H io buf = Ok call \<longrightarrow>
      fst (mcp_run_hook H io K) =
        (case hardstop_check (de_glob (he_daemon H)) (bypass_capabilities H call) of
           Some hit \<Rightarrow> Answer ''deny'' (Reason (bypass_refused (''hard-stop '' @ hit_name hit @ '': pattern '' @
             debug_str (hit_pattern hit) @ '' matched '' @ hit_capability hit)))
         | None \<Rightarrow> Answer ''allow'' (Reason bypass_allowed)))"
  using assms
  by (auto simp: cli_run_hook_def mcp_run_hook_def run_mcp_bypass_def handle_bypass_def bypass_call_def
      evaluate_bypass_def hard_stop_decision_def Let_def split: option.split)

theorem bypass_keeps_hard_stops_witness:
  "\<exists>reason. fst (mcp_run_hook demo_bypass_hook demo_hook_io demo_disk) = Answer ''deny'' (Reason reason)"
proof -
  have b: "bypass_enabled (de_vars (he_daemon demo_bypass_hook))" by (simp add: bypass_enabled_def)
  have i: "hi_stdin demo_hook_io = Ok ''{}''" by simp
  have p: "parse_hook_tool_call demo_bypass_hook demo_hook_io ''{}'' =
      Ok \<lparr>tool = ''Bash'', input = JObject [(''command'', JString ''rm -rf /'')]\<rparr>"
    by (simp add: parse_hook_tool_call_def mcp_tool_call_def demo_bypass_hook_def demo_hook_def demo_payload_def
        enrich_tool_input_def enrich_hook_tool_input_def strip_internal_fields_def RESERVED_def starts_with_def)
  have "bypass_capabilities demo_bypass_hook \<lparr>tool = ''Bash'', input = JObject [(''command'', JString ''rm -rf /'')]\<rparr> =
      [''proc.exec:rm -rf /'']"
    by (simp add: bypass_capabilities_def mapper_from_yaml_string_def demo_bypass_hook_def)
  moreover have "de_glob (he_daemon demo_bypass_hook) = (\<lambda>p t. p = t)" by (simp add: demo_bypass_hook_def)
  moreover have "hardstop_check (\<lambda>p t. p = t) [''proc.exec:rm -rf /''] \<noteq> None" by code_simp
  ultimately have "hardstop_check (de_glob (he_daemon demo_bypass_hook)) (bypass_capabilities demo_bypass_hook
      \<lparr>tool = ''Bash'', input = JObject [(''command'', JString ''rm -rf /'')]\<rparr>) \<noteq> None" by simp
  with bypass_keeps_hard_stops [OF b i, THEN conjunct2, rule_format, OF p] show ?thesis by auto
qed

end
