(* ===== verification/Gateway_Laws.thy ===== *)
theory Gateway_Laws
  imports Adapter_Laws
begin

text \<open>
  What passes the gateway: the lines that go upstream are lines of the client, unchanged and in
  order, and a tool call is among them only if it was allowed; a batch of calls is not looked at.
\<close>

section \<open>The store behind the gateway\<close>

lemma collect_ask_pictos:
  assumes "store_ok (rt_pictos (ds_rt s))" and "collect_ask notify D io call eval s = (res, s')"
    and "\<And>request s1. rt_pictos (ds_rt (snd (notify request s1))) = rt_pictos (ds_rt s1)"
  shows "store_ok (rt_pictos (ds_rt s'))"
proof (cases "eval_decision eval")
  case (AskPicto scope reason b)
  show ?thesis
  proof (cases "lookup_picto D (ri_now io) (ask_binding D call b) scope (rt_pictos (ds_rt s))")
    case LookupNone
    obtain r approvals where ask: "request_for_ask (de_extern D) (de_approvals D) (ri_approval_io io) (ri_now io)
        (ri_uuid io) call eval scope b reason (rt_approvals (ds_rt s)) = (r, approvals)"
      by (meson surj_pair)
    have "rt_pictos (ds_rt s') = rt_pictos (ds_rt s)"
      using assms(2) AskPicto LookupNone ask assms(3)
      by (cases r) (auto simp: collect_ask_def collect_request_def ask_binding_def split_beta)
    with assms(1) show ?thesis by simp
  next
    case (LookupBadSignature i sc)
    with assms AskPicto show ?thesis by (auto simp: collect_ask_def ask_binding_def)
  next
    case (LookupVerified p)
    obtain c store where c: "consume_picto D (ri_now io) (ask_binding D call b) (picto_id p) (rt_pictos (ds_rt s)) = (c, store)"
      by (meson surj_pair)
    have "s' = set_pictos store s"
      using assms(2) AskPicto LookupVerified c
      by (cases c) (auto simp: collect_ask_def collect_spend_def ask_binding_def)
    moreover have "store_ok store"
    proof (cases "\<exists>q. c = Consumed q")
      case True
      with found_and_consumed [OF assms(1) LookupVerified] c show ?thesis
        by (auto simp: spent_grant_def intro: picto_budget.ok_step [OF assms(1)])
    next
      case False
      with consume_picto_cases [OF assms(1) c] assms(1) show ?thesis by metis
    qed
    ultimately show ?thesis by simp
  qed
qed (use assms in \<open>auto simp: collect_ask_def\<close>)

lemma mcp_notify_frame: "ds_rt (snd (mcp_notify D io request s)) = ds_rt s"
  by (simp add: mcp_notify_def Let_def split: option.split sum.split prod.split)

lemma audit_collected_frame:
  "audit_collected D io fault call c s = (res, s') \<Longrightarrow> ds_rt s' = ds_rt s"
  by (auto simp: audit_collected_def then_do_def dest!: append_events_rt log_decision_rt
      split: prod.splits sum.splits)

lemma mcp_decide_call_store:
  assumes "store_ok (hk_pictos K)" and "mcp_decide_call H io call K = (res, K')"
  shows "store_ok (hk_pictos K')"
proof (cases "K' = K")
  case False
  then obtain sk rt where rt: "hook_runtime H io K = Ok rt" and
      run: "closed_state (snd (then_do (collect_decision (mcp_notify ((he_daemon H)\<lparr>de_key := sk\<rparr>) (hi_request io))
        ((he_daemon H)\<lparr>de_key := sk\<rparr>) (hi_request io) call (opened_state rt K))
        (audit_collected ((he_daemon H)\<lparr>de_key := sk\<rparr>) (hi_request io) (hi_audit_fault io) call))) = K'"
    using assms(2)
    by (auto simp: mcp_decide_call_def decide_or_fall_back_def mcp_decide_in_process_and_audit_def
        decide_in_process_def Let_def split_beta split: sum.splits if_splits)
  let ?D = "(he_daemon H)\<lparr>de_key := sk\<rparr>"
  obtain c s1 where c: "collect_decision (mcp_notify ?D (hi_request io)) ?D (hi_request io) call (opened_state rt K) = (c, s1)"
    by (meson surj_pair)
  have "rt_pictos rt = hk_pictos K"
    using rt by (auto simp: hook_runtime_def runtime_open_def and_then_Ok_iff Let_def)
  then have "store_ok (rt_pictos (ds_rt (opened_state rt K)))" using assms(1) by (simp add: opened_state_def)
  then have ok: "store_ok (rt_pictos (ds_rt s1))"
    using c by (auto simp: collect_decision_def mcp_notify_frame intro: collect_ask_pictos split: option.splits)
  show ?thesis
  proof (cases c)
    case (Inl e)
    with run c ok show ?thesis by (auto simp: closed_state_def)
  next
    case (Inr ce)
    obtain r s2 where "audit_collected ?D (hi_request io) (hi_audit_fault io) call ce s1 = (r, s2)" by (meson surj_pair)
    with run c Inr ok audit_collected_frame show ?thesis by (auto simp: closed_state_def)
  qed
qed (use assms in simp)

section \<open>The call a message makes\<close>

definition message_call :: "string \<Rightarrow> json \<Rightarrow> toolcall option" where
  "message_call server_name message =
     (if json_text (json_get message ''method'') \<noteq> Some ''tools/call'' then None
      else
        (case json_object (json_get message ''params'') of
           None \<Rightarrow> None
         | Some params \<Rightarrow>
             map_option (\<lambda>name. \<lparr>tool = gateway_tool_name server_name name,
                 input = (case json_get params ''arguments'' of Some a \<Rightarrow> a | None \<Rightarrow> JObject [])\<rparr>)
               (json_text (json_get params ''name''))))"

lemma message_call_method:
  "message_call server_name message = Some call \<Longrightarrow> json_text (json_get message ''method'') = Some ''tools/call''"
  by (auto simp: message_call_def split: if_splits)

lemma gate_passes:
  assumes "gate_mcp_tool_call decide server_name message K = (Ok None, K')"
  shows "json_text (json_get message ''method'') \<noteq> Some ''tools/call'' \<and> K' = K \<or>
    (\<exists>call eval. message_call server_name message = Some call \<and> decide call K = (Ok eval, K') \<and>
       eval_decision eval = Allow)"
  using assms
  by (auto simp: gate_mcp_tool_call_def message_call_def then_do_Ok_iff Let_def
      split: option.splits if_splits decision.splits)
    (metis decision.exhaust)+

lemma gate_store:
  assumes "\<And>call K res K'. store_ok (hk_pictos K) \<Longrightarrow> decide call K = (res, K') \<Longrightarrow> store_ok (hk_pictos K')"
    and "gate_mcp_tool_call decide server_name message K = (res, K')" and "store_ok (hk_pictos K)"
  shows "store_ok (hk_pictos K')"
proof -
  have "K' = K \<or> (\<exists>call. K' = snd (decide call K))"
    using assms(2)
    by (auto simp: gate_mcp_tool_call_def Let_def then_do_def split: option.splits if_splits prod.splits sum.splits)
      (metis snd_conv)+
  then show ?thesis using assms(1,3) by (metis prod.collapse)
qed

section \<open>The lines that go upstream\<close>

text \<open>The disk after the gateway has handled a line, and before it handles the line number \<open>i\<close>.\<close>

definition disk_after :: "hook_env \<Rightarrow> string \<Rightarrow> gateway_line \<Rightarrow> hook_disk \<Rightarrow> hook_disk" where
  "disk_after H server_name l K =
     (case gl_line l of
        Err _ \<Rightarrow> K
      | Ok line \<Rightarrow>
          if is_blank line then K
          else
            (case he_parse H line of
               Err _ \<Rightarrow> K
             | Ok message \<Rightarrow> snd (gate_mcp_tool_call (mcp_decide_call H (gl_io l)) server_name message K)))"

definition disk_before :: "hook_env \<Rightarrow> string \<Rightarrow> gateway_line list \<Rightarrow> hook_disk \<Rightarrow> nat \<Rightarrow> hook_disk" where
  "disk_before H server_name ls K i = fold (disk_after H server_name) (take i ls) K"

lemma disk_before_simps [simp]:
  "disk_before H server_name ls K 0 = K"
  "disk_before H server_name (l # ls) K (Suc i) = disk_before H server_name ls (disk_after H server_name l K) i"
  by (simp_all add: disk_before_def)

text \<open>A line that may go upstream, when the disk was \<open>K\<close> before the gateway handled it and is \<open>K'\<close>
  after that.\<close>

definition cleared :: "hook_env \<Rightarrow> string \<Rightarrow> gateway_line \<Rightarrow> string \<Rightarrow> hook_disk \<Rightarrow> hook_disk \<Rightarrow> bool" where
  "cleared H server_name l line K K' \<longleftrightarrow>
     (\<exists>message. gl_line l = Ok line \<and> he_parse H line = Ok message \<and>
        (if json_text (json_get message ''method'') = Some ''tools/call''
         then \<exists>call. message_call server_name message = Some call \<and>
           vouched H (gl_io l) call (mcp_forward_to_daemon H (gl_io l) call) K K'
         else K' = K))"

fun upstream_lines :: "gateway_event list \<Rightarrow> string list" where
  "upstream_lines [] = []"
| "upstream_lines (ToUpstream line # evs) = line # upstream_lines evs"
| "upstream_lines (ToClient text # evs) = upstream_lines evs"

text \<open>What a run sent upstream and the disk it left.\<close>

definition sent_and_left :: "'e \<times> gateway_event list \<times> hook_disk \<Rightarrow> string list \<times> hook_disk" where
  "sent_and_left r = (upstream_lines (fst (snd r)), snd (snd r))"

lemma sent_and_left_simps [simp]:
  "sent_and_left (e, [], K) = ([], K)"
  "sent_and_left (emit (ToClient text) r) = sent_and_left r"
  "sent_and_left (emit (ToUpstream line) r) = apfst ((#) line) (sent_and_left r)"
  by (simp_all add: sent_and_left_def emit_def split: prod.split)

lemma fault_then_sent:
  "sent_and_left (fault_then fault r K) \<in> {([], K), sent_and_left r}"
  by (simp add: fault_then_def split: option.split)

text \<open>One line adds at most itself, and only if it is cleared; then the loop stops with the disk that
  handling it left, or goes on with that disk.\<close>

lemma gateway_step_sent:
  assumes "store_ok (hk_pictos K)" and K1: "K1 = disk_after H server_name l K"
  shows "store_ok (hk_pictos K1) \<and>
    (\<exists>here rest. sent_and_left (gateway_step H server_name l k K) = apfst ((@) here) rest \<and>
       rest \<in> {([], K1), sent_and_left (k K1)} \<and>
       (here = [] \<or> (\<exists>line. here = [line] \<and> cleared H server_name l line K K1)))"
proof -
  let ?out = "sent_and_left (gateway_step H server_name l k K)"
  let ?goal = ?thesis
  have quiet: ?goal if "?out \<in> {([], K1), sent_and_left (k K1)}" "store_ok (hk_pictos K1)"
    using that by (intro conjI exI [of _ "[]"] exI [of _ ?out]) (simp_all add: apfst_def map_prod_def)
  show ?thesis
  proof (cases "gl_line l")
    case (Inl e)
    then show ?thesis using assms by (intro quiet) (simp_all add: gateway_step_def disk_after_def)
  next
    case line: (Inr line)
    show ?thesis
    proof (cases "is_blank line")
      case True
      with line assms show ?thesis by (intro quiet) (simp_all add: gateway_step_def disk_after_def)
    next
      case False
      show ?thesis
      proof (cases "he_parse H line")
        case (Inl e)
        with line False assms show ?thesis by (intro quiet) (simp_all add: gateway_step_def disk_after_def)
      next
        case message: (Inr message)
        obtain r where g: "gate_mcp_tool_call (mcp_decide_call H (gl_io l)) server_name message K = (r, K1)"
          using line False message by (simp add: K1 disk_after_def) (metis prod.collapse)
        have ok: "store_ok (hk_pictos K1)"
          using gate_store [OF _ g assms(1)] mcp_decide_call_store by blast
        consider (failed) e where "r = Err e" | (answered) response where "r = Ok (Some response)"
          | (passed) "r = Ok None" by (cases r) auto
        then show ?thesis
        proof cases
          case failed
          with line False message g ok show ?thesis by (intro quiet) (simp_all add: gateway_step_def)
        next
          case answered
          have "?out \<in> {([], K1), sent_and_left (k K1)}"
            using line False message g answered fault_then_sent [of "gl_client l" "k K1" K1]
            by (cases "he_print H response") (simp_all add: gateway_step_def)
          with ok show ?thesis by (intro quiet)
        next
          case passed
          have "cleared H server_name l line K K1"
            using gate_passes [OF g [unfolded passed]] line message
              decide_or_fall_back_vouched [OF assms(1), of _ mcp_notify]
            unfolding cleared_def mcp_decide_call_def mcp_decide_in_process_and_audit_def by (auto dest: message_call_method)
          moreover obtain rest where "?out = apfst ((#) line) rest" "rest \<in> {([], K1), sent_and_left (k K1)}"
          proof
            let ?then = "fault_then (gl_upstream l)
              (if json_get message ''id'' = None then k K1
               else
                 (case gl_response l of
                    Err e \<Rightarrow> (Err (HookText (''reading upstream MCP response: '' @ e)), [], K1)
                  | Ok response \<Rightarrow>
                      if response = []
                      then (Err (HookText ''upstream MCP server closed without response''), [], K1)
                      else emit (ToClient response) (fault_then (gl_client l) (k K1) K1))) K1"
            show "?out = apfst ((#) line) (sent_and_left ?then)"
              using line False message g passed by (simp add: gateway_step_def)
            show "sent_and_left ?then \<in> {([], K1), sent_and_left (k K1)}"
              using fault_then_sent [of "gl_client l" "k K1" K1]
              by (auto simp: fault_then_def split: option.split sum.split)
          qed
          moreover have "(#) line = (@) [line]" by (simp add: fun_eq_iff)
          ultimately show ?thesis using ok by metis
        qed
      qed
    qed
  qed
qed

text \<open>C11. Only what is allowed goes upstream: the gateway handles the first \<open>n\<close> lines of the client
  and leaves the disk that handling them leaves; the lines it sends to the server are among these,
  unchanged, in their order and each at most once; and if the message of a line that it sends is a
  \<open>tools/call\<close> request, then its call, under its gateway name, was allowed by the daemon, or there was
  no daemon and the policy on the disk before that line allows the call, by a rule or by a grant
  on that disk of which a use is spent on the disk after the line.\<close>

theorem gateway_forwards_only_allowed:
  assumes "store_ok (hk_pictos K)"
  shows "\<exists>n sent. n \<le> length ls \<and>
    sent_and_left (gateway_loop H server_name ls K) = (map snd sent, disk_before H server_name ls K n) \<and>
    sorted_wrt (<) (map fst sent) \<and>
    (\<forall>(i, line) \<in> set sent. i < n \<and>
       cleared H server_name (ls ! i) line (disk_before H server_name ls K i) (disk_before H server_name ls K (Suc i)))"
  using assms
proof (induction ls arbitrary: K)
  case Nil
  show ?case by (intro exI [of _ 0] exI [of _ "[]"]) simp
next
  case (Cons l ls)
  let ?K1 = "disk_after H server_name l K"
  let ?disk = "disk_before H server_name (l # ls) K"
  obtain here rest where ok: "store_ok (hk_pictos ?K1)"
    and out: "sent_and_left (gateway_loop H server_name (l # ls) K) = apfst ((@) here) rest"
    and rest: "rest \<in> {([], ?K1), sent_and_left (gateway_loop H server_name ls ?K1)}"
    and here: "here = [] \<or> (\<exists>line. here = [line] \<and> cleared H server_name l line K ?K1)"
    using gateway_step_sent [OF Cons.prems refl, of H server_name l "gateway_loop H server_name ls"]
    by (simp only: gateway_loop.simps) blast
  obtain n sent where n: "n \<le> length ls" "rest = (map snd sent, disk_before H server_name ls ?K1 n)"
      "sorted_wrt (<) (map fst sent)"
      "\<forall>(i, line) \<in> set sent. i < n \<and> cleared H server_name (ls ! i) line
         (disk_before H server_name ls ?K1 i) (disk_before H server_name ls ?K1 (Suc i))"
  proof (cases "rest = ([], ?K1)")
    case True
    then show ?thesis by (intro that [of 0 "[]"]) simp_all
  next
    case False
    with rest Cons.IH [OF ok] that show ?thesis by auto
  qed
  define mine where "mine = map (\<lambda>line. (0 :: nat, line)) here"
  define all where "all = mine @ map (apfst Suc) sent"
  have "sorted_wrt (<) (map fst all)"
    using n(3) here by (auto simp: all_def mine_def sorted_wrt_map comp_def)
  moreover have "\<forall>(i, line) \<in> set all. i < Suc n \<and> cleared H server_name ((l # ls) ! i) line (?disk i) (?disk (Suc i))"
    using n(4) here by (fastforce simp: all_def mine_def)
  moreover have "sent_and_left (gateway_loop H server_name (l # ls) K) = (map snd all, ?disk (Suc n))"
    using out n(2) by (simp add: all_def mine_def comp_def)
  ultimately show ?case using n(1) by (intro exI [of _ "Suc n"] exI [of _ all]) simp
qed

definition demo_ping :: gateway_line where
  "demo_ping = \<lparr>gl_line = Ok ''{}'', gl_io = demo_hook_io, gl_upstream = None, gl_response = Err [], gl_client = None\<rparr>"

definition demo_batch :: gateway_line where
  "demo_batch = demo_ping\<lparr>gl_line := Ok ''[]''\<rparr>"

theorem gateway_forwards_only_allowed_witness:
  "\<exists>i. cleared demo_hook ''fs'' ([demo_ping] ! i) ''{}'' (disk_before demo_hook ''fs'' [demo_ping] demo_disk i)
     (disk_before demo_hook ''fs'' [demo_ping] demo_disk (Suc i))"
proof -
  from gateway_forwards_only_allowed [OF demo_store_ok, of "[demo_ping]" demo_hook "''fs''"]
  obtain n sent where sent: "sent_and_left (gateway_loop demo_hook ''fs'' [demo_ping] demo_disk) =
      (map snd sent, disk_before demo_hook ''fs'' [demo_ping] demo_disk n)"
    "\<forall>(i, line) \<in> set sent. i < n \<and> cleared demo_hook ''fs'' ([demo_ping] ! i) line
      (disk_before demo_hook ''fs'' [demo_ping] demo_disk i) (disk_before demo_hook ''fs'' [demo_ping] demo_disk (Suc i))"
    by blast
  have "\<not> is_blank ''{}''" by code_simp
  then have "fst (sent_and_left (gateway_loop demo_hook ''fs'' [demo_ping] demo_disk)) = [''{}'']"
    by (simp add: gateway_step_def gate_mcp_tool_call_def demo_ping_def demo_hook_def fault_then_def json_text_def)
  with sent(1) have "map snd sent = [''{}'']" by simp
  then have "\<exists>i. (i, ''{}'') \<in> set sent" by (cases sent) auto
  with sent(2) show ?thesis by blast
qed

text \<open>A batch is not looked at: a line that is a JSON array, a JSON-RPC batch, goes upstream as it
  is, whatever tool calls it contains, without a decision, a record in the log or a response to the
  client, and leaves the disk as it was.\<close>

theorem gateway_batch_ungated:
  assumes "gl_line l = Ok line" and "\<not> is_blank line" and "he_parse H line = Ok (JArray batch)"
    and "gl_upstream l = None"
  shows "gateway_loop H server_name (l # ls) K = emit (ToUpstream line) (gateway_loop H server_name ls K)"
  using assms by (simp add: gateway_step_def gate_mcp_tool_call_def json_text_def fault_then_def)

theorem gateway_batch_ungated_witness:
  "gateway_loop demo_hook ''fs'' [demo_batch] demo_disk = (Ok (), [ToUpstream ''[]''], demo_disk)"
proof -
  have "gl_line demo_batch = Ok ''[]''" "gl_upstream demo_batch = None"
    by (simp_all add: demo_batch_def demo_ping_def)
  moreover have "\<not> is_blank ''[]''" by code_simp
  moreover have "he_parse demo_hook ''[]'' = Ok (JArray [])" by (simp add: demo_hook_def)
  ultimately show ?thesis
    using gateway_batch_ungated [of demo_batch "''[]''" demo_hook "[]" "''fs''" "[]" demo_disk]
    by (simp add: emit_def)
qed

end
