(* ===== verification/Replay.thy ===== *)
theory Replay
  imports Audit_Log Runtime
begin

text \<open>
  What a candidate policy makes of the decisions in an audit log: the scan of the log
  (\<open>crates/gommage-cli/src/audit_replay.rs\<close>), \<open>gommage replay\<close> (\<open>replay.rs\<close>) and
  \<open>gommage policy diff\<close> (\<open>policy_diff.rs\<close>). A panic of the evaluator is an error of its own.
\<close>

section \<open>Errors of the command line\<close>

datatype cli_error =
    CliText string
  | CliCore string gommage_error
  | CliPanic

definition evaluated :: "eval_result option \<Rightarrow> (cli_error, eval_result) result" where
  "evaluated r = (case r of None \<Rightarrow> Err CliPanic | Some eval \<Rightarrow> Ok eval)"

lemma evaluated_Ok_iff [simp]: "evaluated r = Ok eval \<longleftrightarrow> r = Some eval"
  by (simp add: evaluated_def split: option.split)

section \<open>The decisions of a log\<close>

record audit_decision_line =
  dl_line :: nat
  dl_entry :: audit_entry

record audit_scan =
  scan_decisions :: "audit_decision_line list"
  scan_events :: nat
  scan_blank_lines :: nat

definition scan_start :: audit_scan where
  "scan_start = \<lparr>scan_decisions = [], scan_events = 0, scan_blank_lines = 0\<rparr>"

definition audit_line_text :: "string \<Rightarrow> nat \<Rightarrow> string \<Rightarrow> cli_error" where
  "audit_line_text what n e = CliText (what @ '' '' @ dec_nat n @ '': '' @ e)"

definition audit_scan_line ::
  "audit_codec \<Rightarrow> nat \<Rightarrow> string \<Rightarrow> audit_scan \<Rightarrow> (cli_error, audit_scan) result" where
  "audit_scan_line C n line s =
     (if is_blank line then Ok (s\<lparr>scan_blank_lines := scan_blank_lines s + 1\<rparr>)
      else
        and_then (map_err (audit_line_text ''parsing audit line'' n) (parse_json C line)) (\<lambda>value.
          if (case json_get value ''kind'' of None \<Rightarrow> None | Some v \<Rightarrow> as_str v) = Some ''event''
          then and_then (map_err (audit_line_text ''parsing audit event line'' n) (event_of_json C value))
                 (\<lambda>_. Ok (s\<lparr>scan_events := scan_events s + 1\<rparr>))
          else and_then (map_err (audit_line_text ''parsing audit decision line'' n) (entry_of_json C value))
                 (\<lambda>entry. Ok (s\<lparr>scan_decisions := scan_decisions s @ [\<lparr>dl_line = n, dl_entry = entry\<rparr>]\<rparr>))))"

fun audit_scan_lines ::
  "audit_codec \<Rightarrow> nat \<Rightarrow> (string, string) result list \<Rightarrow> audit_scan \<Rightarrow> (cli_error, audit_scan) result" where
  "audit_scan_lines C n [] s = Ok s"
| "audit_scan_lines C n (l # ls) s =
     and_then (map_err (audit_line_text ''reading audit line'' n) l) (\<lambda>line.
     and_then (audit_scan_line C n line s) (\<lambda>s'. audit_scan_lines C (n + 1) ls s'))"

text \<open>\<open>missing\<close> is the error of opening a log that is not there.\<close>

definition read_audit_decisions ::
  "audit_codec \<Rightarrow> string \<Rightarrow> read_fault \<Rightarrow> path \<Rightarrow> text_file \<Rightarrow> (cli_error, audit_scan) result" where
  "read_audit_decisions C missing fault p f =
     (case f of
        None \<Rightarrow> Err (CliText (''opening audit '' @ path_text p @ '': '' @ missing))
      | Some t \<Rightarrow> audit_scan_lines C 1 (read_lines fault t) scan_start)"

definition decision_summary :: "decision \<Rightarrow> string" where
  "decision_summary d =
     (case d of
        Allow \<Rightarrow> ''allow''
      | AskPicto scope reason b \<Rightarrow> ''ask_picto:'' @ scope
      | Gommage reason hard_stop \<Rightarrow> if hard_stop then ''gommage:hard_stop'' else ''gommage'')"

datatype change_status = Unaltered | Altered

definition change_status_str :: "change_status \<Rightarrow> string" where
  "change_status_str c = (case c of Unaltered \<Rightarrow> ''unchanged'' | Altered \<Rightarrow> ''changed'')"

section \<open>Replay\<close>

record replay_summary =
  rs_decisions :: nat
  rs_changed :: nat
  rs_unchanged :: nat
  rs_skipped_events :: nat
  rs_skipped_blank_lines :: nat

record replay_entry =
  re_line :: nat
  re_audit_id :: string
  re_timestamp :: string
  re_tool :: string
  re_input_hash :: string
  re_capabilities :: "capability list"
  re_original_decision :: decision
  re_replayed_decision :: decision
  re_changed :: bool
  re_change :: change_status
  re_original_matched_rule :: "matched_rule option"
  re_replayed_matched_rule :: "matched_rule option"
  re_matched_rule_changed :: bool
  re_original_policy_version :: string
  re_replayed_policy_version :: string
  re_policy_version_changed :: bool
  re_expedition :: "string option"

record replay_report =
  rr_status :: change_status
  rr_audit :: string
  rr_policy :: string
  rr_policy_version :: string
  rr_summary :: replay_summary
  rr_entries :: "replay_entry list"

definition replay_entry_of :: "audit_decision_line \<Rightarrow> eval_result \<Rightarrow> replay_entry" where
  "replay_entry_of r replayed =
     (let entry = dl_entry r; changed = (ae_decision entry \<noteq> eval_decision replayed)
      in \<lparr>re_line = dl_line r, re_audit_id = ae_id entry, re_timestamp = ae_ts entry,
          re_tool = ae_tool entry, re_input_hash = ae_input_hash entry,
          re_capabilities = ae_capabilities entry, re_original_decision = ae_decision entry,
          re_replayed_decision = eval_decision replayed, re_changed = changed,
          re_change = (if changed then Altered else Unaltered),
          re_original_matched_rule = ae_matched_rule entry,
          re_replayed_matched_rule = eval_matched replayed,
          re_matched_rule_changed = (ae_matched_rule entry \<noteq> eval_matched replayed),
          re_original_policy_version = ae_policy_version entry,
          re_replayed_policy_version = eval_policy_version replayed,
          re_policy_version_changed = (ae_policy_version entry \<noteq> eval_policy_version replayed),
          re_expedition = ae_expedition entry\<rparr>)"

definition count_replay :: "bool \<Rightarrow> replay_summary \<Rightarrow> replay_summary" where
  "count_replay changed s =
     (let s1 = (if changed then s\<lparr>rs_changed := rs_changed s + 1\<rparr>
                else s\<lparr>rs_unchanged := rs_unchanged s + 1\<rparr>)
      in s1\<lparr>rs_decisions := rs_decisions s1 + 1\<rparr>)"

fun replay_loop ::
  "(string \<Rightarrow> string \<Rightarrow> bool) \<Rightarrow> policy \<Rightarrow> audit_decision_line list \<Rightarrow> replay_summary \<times> replay_entry list \<Rightarrow>
     (cli_error, replay_summary \<times> replay_entry list) result" where
  "replay_loop is_match p [] acc = Ok acc"
| "replay_loop is_match p (r # rs) acc =
     and_then (evaluated (evaluate is_match (ae_capabilities (dl_entry r)) p)) (\<lambda>replayed.
       let e = replay_entry_of r replayed
       in replay_loop is_match p rs (count_replay (re_changed e) (fst acc), snd acc @ [e]))"

text \<open>The files of a candidate policy and the log it is held against.\<close>

record replay_input =
  ri_codec :: audit_codec
  ri_audit_path :: path
  ri_audit :: text_file
  ri_audit_missing :: string
  ri_audit_fault :: read_fault

definition input_scan :: "replay_input \<Rightarrow> (cli_error, audit_scan) result" where
  "input_scan I =
     read_audit_decisions (ri_codec I) (ri_audit_missing I) (ri_audit_fault I) (ri_audit_path I) (ri_audit I)"

definition build_replay_report ::
  "extern \<Rightarrow> policy_lib \<Rightarrow> (string \<Rightarrow> string \<Rightarrow> bool) \<Rightarrow> env \<Rightarrow> fs \<Rightarrow> replay_input \<Rightarrow> path \<Rightarrow>
     (cli_error, replay_report) result" where
  "build_replay_report E L is_match vars F I policy_path =
     and_then (map_err (CliCore (''loading candidate policy '' @ path_text policy_path))
                (load_from_dir E L F policy_path (default_policy_env vars))) (\<lambda>p.
     and_then (input_scan I) (\<lambda>s.
     and_then (replay_loop is_match p (scan_decisions s)
                (\<lparr>rs_decisions = 0, rs_changed = 0, rs_unchanged = 0, rs_skipped_events = scan_events s,
                  rs_skipped_blank_lines = scan_blank_lines s\<rparr>, [])) (\<lambda>(summary, entries).
       Ok \<lparr>rr_status = (if 0 < rs_changed summary then Altered else Unaltered),
           rr_audit = path_text (ri_audit_path I), rr_policy = path_text policy_path,
           rr_policy_version = policy_version p, rr_summary = summary, rr_entries = entries\<rparr>)))"

section \<open>Policy diff\<close>

record diff_summary =
  pd_decisions :: nat
  pd_changed :: nat
  pd_unchanged :: nat
  pd_decision_changed :: nat
  pd_matched_rule_changed :: nat
  pd_allow_to_gommage :: nat
  pd_gommage_to_allow :: nat
  pd_allow_to_ask_picto :: nat
  pd_ask_picto_to_allow :: nat
  pd_gommage_to_ask_picto :: nat
  pd_ask_picto_to_gommage :: nat
  pd_ask_scope_changed :: nat
  pd_skipped_events :: nat
  pd_skipped_blank_lines :: nat

record diff_entry =
  de_line :: nat
  de_audit_id :: string
  de_timestamp :: string
  de_tool :: string
  de_input_hash :: string
  de_capabilities :: "capability list"
  de_audit_decision :: decision
  de_from_decision :: decision
  de_to_decision :: decision
  de_changed :: bool
  de_decision_changed :: bool
  de_matched_rule_changed :: bool
  de_change :: change_status
  de_audit_matched_rule :: "matched_rule option"
  de_from_matched_rule :: "matched_rule option"
  de_to_matched_rule :: "matched_rule option"
  de_audit_policy_version :: string
  de_from_policy_version :: string
  de_to_policy_version :: string
  de_expedition :: "string option"

record diff_report =
  dr_status :: change_status
  dr_audit :: string
  dr_from_policy :: string
  dr_to_policy :: string
  dr_from_policy_version :: string
  dr_to_policy_version :: string
  dr_policy_version_changed :: bool
  dr_summary :: diff_summary
  dr_entries :: "diff_entry list"

definition classify_transition :: "decision \<Rightarrow> decision \<Rightarrow> diff_summary \<Rightarrow> diff_summary" where
  "classify_transition d d' s =
     (case (d, d') of
        (Allow, Gommage _ _) \<Rightarrow> s\<lparr>pd_allow_to_gommage := pd_allow_to_gommage s + 1\<rparr>
      | (Gommage _ _, Allow) \<Rightarrow> s\<lparr>pd_gommage_to_allow := pd_gommage_to_allow s + 1\<rparr>
      | (Allow, AskPicto _ _ _) \<Rightarrow> s\<lparr>pd_allow_to_ask_picto := pd_allow_to_ask_picto s + 1\<rparr>
      | (AskPicto _ _ _, Allow) \<Rightarrow> s\<lparr>pd_ask_picto_to_allow := pd_ask_picto_to_allow s + 1\<rparr>
      | (Gommage _ _, AskPicto _ _ _) \<Rightarrow> s\<lparr>pd_gommage_to_ask_picto := pd_gommage_to_ask_picto s + 1\<rparr>
      | (AskPicto _ _ _, Gommage _ _) \<Rightarrow> s\<lparr>pd_ask_picto_to_gommage := pd_ask_picto_to_gommage s + 1\<rparr>
      | (AskPicto scope _ _, AskPicto scope' _ _) \<Rightarrow>
          if scope \<noteq> scope' then s\<lparr>pd_ask_scope_changed := pd_ask_scope_changed s + 1\<rparr> else s
      | _ \<Rightarrow> s)"

definition diff_entry_of :: "audit_decision_line \<Rightarrow> eval_result \<Rightarrow> eval_result \<Rightarrow> diff_entry" where
  "diff_entry_of r from_eval to_eval =
     (let entry = dl_entry r;
          decision_changed = (eval_decision from_eval \<noteq> eval_decision to_eval);
          rule_changed = (eval_matched from_eval \<noteq> eval_matched to_eval);
          changed = (decision_changed \<or> rule_changed)
      in \<lparr>de_line = dl_line r, de_audit_id = ae_id entry, de_timestamp = ae_ts entry,
          de_tool = ae_tool entry, de_input_hash = ae_input_hash entry,
          de_capabilities = ae_capabilities entry, de_audit_decision = ae_decision entry,
          de_from_decision = eval_decision from_eval, de_to_decision = eval_decision to_eval,
          de_changed = changed, de_decision_changed = decision_changed,
          de_matched_rule_changed = rule_changed, de_change = (if changed then Altered else Unaltered),
          de_audit_matched_rule = ae_matched_rule entry, de_from_matched_rule = eval_matched from_eval,
          de_to_matched_rule = eval_matched to_eval, de_audit_policy_version = ae_policy_version entry,
          de_from_policy_version = eval_policy_version from_eval,
          de_to_policy_version = eval_policy_version to_eval, de_expedition = ae_expedition entry\<rparr>)"

definition count_diff :: "diff_entry \<Rightarrow> diff_summary \<Rightarrow> diff_summary" where
  "count_diff e s =
     (let s1 = (if de_changed e then s\<lparr>pd_changed := pd_changed s + 1\<rparr>
                else s\<lparr>pd_unchanged := pd_unchanged s + 1\<rparr>);
          s2 = (if de_decision_changed e then s1\<lparr>pd_decision_changed := pd_decision_changed s1 + 1\<rparr> else s1);
          s3 = (if de_matched_rule_changed e
                then s2\<lparr>pd_matched_rule_changed := pd_matched_rule_changed s2 + 1\<rparr> else s2);
          s4 = classify_transition (de_from_decision e) (de_to_decision e) s3
      in s4\<lparr>pd_decisions := pd_decisions s4 + 1\<rparr>)"

fun diff_loop ::
  "(string \<Rightarrow> string \<Rightarrow> bool) \<Rightarrow> policy \<Rightarrow> policy \<Rightarrow> audit_decision_line list \<Rightarrow> diff_summary \<times> diff_entry list \<Rightarrow>
     (cli_error, diff_summary \<times> diff_entry list) result" where
  "diff_loop is_match p q [] acc = Ok acc"
| "diff_loop is_match p q (r # rs) acc =
     and_then (evaluated (evaluate is_match (ae_capabilities (dl_entry r)) p)) (\<lambda>from_eval.
     and_then (evaluated (evaluate is_match (ae_capabilities (dl_entry r)) q)) (\<lambda>to_eval.
       let e = diff_entry_of r from_eval to_eval
       in diff_loop is_match p q rs (count_diff e (fst acc), snd acc @ [e])))"

definition diff_start :: "audit_scan \<Rightarrow> diff_summary" where
  "diff_start s =
     \<lparr>pd_decisions = 0, pd_changed = 0, pd_unchanged = 0, pd_decision_changed = 0,
      pd_matched_rule_changed = 0, pd_allow_to_gommage = 0, pd_gommage_to_allow = 0,
      pd_allow_to_ask_picto = 0, pd_ask_picto_to_allow = 0, pd_gommage_to_ask_picto = 0,
      pd_ask_picto_to_gommage = 0, pd_ask_scope_changed = 0,
      pd_skipped_events = scan_events s, pd_skipped_blank_lines = scan_blank_lines s\<rparr>"

definition build_policy_diff_report ::
  "extern \<Rightarrow> policy_lib \<Rightarrow> (string \<Rightarrow> string \<Rightarrow> bool) \<Rightarrow> env \<Rightarrow> fs \<Rightarrow> replay_input \<Rightarrow> path \<Rightarrow> path \<Rightarrow>
     (cli_error, diff_report) result" where
  "build_policy_diff_report E L is_match vars F I from_path to_path =
     and_then (map_err (CliCore (''loading baseline policy '' @ path_text from_path))
                (load_from_dir E L F from_path (default_policy_env vars))) (\<lambda>p.
     and_then (map_err (CliCore (''loading candidate policy '' @ path_text to_path))
                (load_from_dir E L F to_path (default_policy_env vars))) (\<lambda>q.
     and_then (input_scan I) (\<lambda>s.
     and_then (diff_loop is_match p q (scan_decisions s) (diff_start s, [])) (\<lambda>(summary, entries).
       let version_changed = (policy_version p \<noteq> policy_version q)
       in Ok \<lparr>dr_status = (if 0 < pd_changed summary \<or> version_changed then Altered else Unaltered),
              dr_audit = path_text (ri_audit_path I), dr_from_policy = path_text from_path,
              dr_to_policy = path_text to_path, dr_from_policy_version = policy_version p,
              dr_to_policy_version = policy_version q, dr_policy_version_changed = version_changed,
              dr_summary = summary, dr_entries = entries\<rparr>))))"

end
