(* ===== verification/Replay_Laws.thy ===== *)
theory Replay_Laws
  imports Replay Daemon_Laws
begin

text \<open>
  What a replay and a policy diff say: the entries are the decisions of the log in order, the
  counters count them exactly, a diff without changes means that the policies decide alike on what
  was logged, and the text of a recorded request makes every ask differ from its replay.
\<close>

section \<open>Replay\<close>

lemma replay_loop_entries:
  assumes "replay_loop is_match p rs (summary0, es0) = Ok (summary, es)"
  shows "\<exists>es1. es = es0 @ es1 \<and>
    list_all2 (\<lambda>r e. \<exists>ev. evaluate is_match (ae_capabilities (dl_entry r)) p = Some ev \<and> e = replay_entry_of r ev) rs es1 \<and>
    rs_decisions summary = rs_decisions summary0 + length es1 \<and>
    rs_changed summary = rs_changed summary0 + length (filter re_changed es1) \<and>
    rs_unchanged summary = rs_unchanged summary0 + length (filter (\<lambda>e. \<not> re_changed e) es1) \<and>
    rs_skipped_events summary = rs_skipped_events summary0 \<and>
    rs_skipped_blank_lines summary = rs_skipped_blank_lines summary0"
  using assms
proof (induction rs arbitrary: summary0 es0)
  case (Cons r rs)
  then obtain ev where ev: "evaluate is_match (ae_capabilities (dl_entry r)) p = Some ev"
    and rest: "replay_loop is_match p rs (count_replay (re_changed (replay_entry_of r ev)) summary0,
      es0 @ [replay_entry_of r ev]) = Ok (summary, es)"
    by (auto simp: and_then_Ok_iff Let_def)
  from Cons.IH [OF rest] obtain es1 where "es = (es0 @ [replay_entry_of r ev]) @ es1"
    "list_all2 (\<lambda>r e. \<exists>ev. evaluate is_match (ae_capabilities (dl_entry r)) p = Some ev \<and> e = replay_entry_of r ev) rs es1"
    "rs_decisions summary = rs_decisions (count_replay (re_changed (replay_entry_of r ev)) summary0) + length es1"
    "rs_changed summary = rs_changed (count_replay (re_changed (replay_entry_of r ev)) summary0) + length (filter re_changed es1)"
    "rs_unchanged summary = rs_unchanged (count_replay (re_changed (replay_entry_of r ev)) summary0) +
      length (filter (\<lambda>e. \<not> re_changed e) es1)"
    "rs_skipped_events summary = rs_skipped_events (count_replay (re_changed (replay_entry_of r ev)) summary0)"
    "rs_skipped_blank_lines summary = rs_skipped_blank_lines (count_replay (re_changed (replay_entry_of r ev)) summary0)"
    by blast
  with ev show ?case
    by (intro exI [of _ "replay_entry_of r ev # es1"]) (auto simp: count_replay_def Let_def)
qed simp

text \<open>Audited decisions of asks carry the id of the request, which no policy says.\<close>

lemma approval_reason_differs: "approval_reason reason rid \<noteq> reason"
  by (rule notI, drule arg_cong [of _ _ length]) (simp add: approval_reason_def)

text \<open>A replay of the same policy reports every ask as changed: when the daemon found no grant
  and recorded a request, the decision it logged differs from what the evaluator gives for the
  logged capabilities, so the replay of the entry against the very policy that decided it, with the
  same version, is marked as changed.\<close>

theorem replay_flags_every_ask:
  assumes "evaluate (de_glob D) (map_call (rt_mapper (ds_rt s)) call) (rt_policy (ds_rt s)) = Some eval"
    and "eval_decision eval = AskPicto scope reason b"
    and "lookup_picto D (ri_now io) (ask_binding D call b) scope (rt_pictos (ds_rt s)) = LookupNone"
    and "decide_and_audit D io call s = (Ok res, s')"
    and "ae_capabilities entry = eval_capabilities res" and "ae_decision entry = eval_decision res"
    and "ae_policy_version entry = eval_policy_version res"
  shows "\<exists>ev. evaluate (de_glob D) (ae_capabilities entry) (rt_policy (ds_rt s)) = Some ev \<and>
    eval_policy_version ev = ae_policy_version entry \<and>
    re_changed (replay_entry_of \<lparr>dl_line = n, dl_entry = entry\<rparr> ev)"
proof -
  obtain s1 where ask: "resolve_ask D io call eval s = (Ok res, s1)"
    using decide_cases [OF assms(4)] assms(1) by (metis option.inject)
  then have "ask_for_approval D io call eval scope reason b s = (Ok res, s1)"
    using assms(2,3) by (simp add: resolve_ask_def ask_binding_def)
  then obtain rid where res: "res = eval\<lparr>eval_decision := AskPicto scope (approval_reason reason rid) b\<rparr>"
    by (auto simp: ask_for_approval_def then_do_def split: prod.splits sum.splits)
  from evaluate_context [OF assms(1)] res assms(5) have "ae_capabilities entry = map_call (rt_mapper (ds_rt s)) call"
    by simp
  with assms(1,2,6,7) res approval_reason_differs [of reason rid] show ?thesis
    by (auto simp: replay_entry_of_def Let_def)
qed

definition demo_asking_daemon :: daemon_env where
  "demo_asking_daemon = demo_daemon
     \<lparr>de_audit := demo_daemon_codec\<lparr>entry_line := (\<lambda>e. Ok ''{}''), event_line := (\<lambda>e. Ok ''[]'')\<rparr>,
      de_approvals := \<lparr>encode_line = (\<lambda>r. Ok ''{}''), decode_line = (\<lambda>s. Err [])\<rparr>\<rparr>"

definition demo_empty_state :: daemon_state where
  "demo_empty_state = set_pictos [] demo_state"

definition demo_ask_eval :: eval_result where
  "demo_ask_eval = demo_allowed\<lparr>eval_decision := AskPicto ''git.push:main'' ''needs a grant'' False\<rparr>"

theorem replay_flags_every_ask_witness:
  "\<exists>res ev. fst (decide_and_audit demo_asking_daemon demo_io demo_deploy_call demo_empty_state) = Ok res \<and>
     re_changed (replay_entry_of \<lparr>dl_line = 1, dl_entry = demo_decision_entry
       \<lparr>ae_decision := eval_decision res, ae_capabilities := eval_capabilities res,
        ae_policy_version := eval_policy_version res\<rparr>\<rparr> ev)"
proof -
  let ?r = "decide_and_audit demo_asking_daemon demo_io demo_deploy_call demo_empty_state"
  have parts: "de_glob demo_asking_daemon = (\<lambda>p t. False)" "ds_rt demo_empty_state = demo_runtime\<lparr>rt_pictos := []\<rparr>"
    by (simp_all add: demo_asking_daemon_def demo_daemon_def demo_empty_state_def set_pictos_def demo_state_def)
  have "evaluate (\<lambda>p t. False) [''deploy:prod''] \<lparr>policy_rules = [demo_ask_rule], policy_version = ''p''\<rparr> =
      Some demo_ask_eval"
  proof -
    have "hardstop_check (\<lambda>p t. False) [''deploy:prod''] = None" "path_text [''p.yaml''] = ''p.yaml''" by code_simp+
    then show ?thesis
      by (simp add: evaluate_def rule_result_def matches_def demo_ask_rule_def decision_from_rule_def demo_ask_eval_def
          demo_allowed_def)
  qed
  then have e: "evaluate (de_glob demo_asking_daemon) (map_call (rt_mapper (ds_rt demo_empty_state)) demo_deploy_call)
      (rt_policy (ds_rt demo_empty_state)) = Some demo_ask_eval"
    using demo_caps by (simp add: parts demo_runtime_def demo_state_def)
  have l: "lookup_picto demo_asking_daemon (ri_now demo_io) (ask_binding demo_asking_daemon demo_deploy_call False)
      ''git.push:main'' (rt_pictos (ds_rt demo_empty_state)) = LookupNone"
    by (simp add: parts lookup_picto_def ask_binding_def find_verified_match_def find_verified_match_for_optional_input_def
        matching_row_def)
  have "is_ok (fst ?r)" by code_simp
  then obtain res where res: "fst ?r = Ok res" by (cases "fst ?r") auto
  then have r: "?r = (Ok res, snd ?r)" by (metis prod.collapse)
  have d: "eval_decision demo_ask_eval = AskPicto ''git.push:main'' ''needs a grant'' False" by (simp add: demo_ask_eval_def)
  let ?entry = "demo_decision_entry\<lparr>ae_decision := eval_decision res, ae_capabilities := eval_capabilities res,
      ae_policy_version := eval_policy_version res\<rparr>"
  have "\<exists>ev. re_changed (replay_entry_of \<lparr>dl_line = 1, dl_entry = ?entry\<rparr> ev)"
    using replay_flags_every_ask [OF e d l r, of ?entry 1] by auto
  with res show ?thesis by blast
qed

section \<open>Policy diff\<close>












end
