(* ===== verification/Policy_Tools.thy ===== *)
theory Policy_Tools
  imports Replay
begin

text \<open>
  Policy authoring (\<open>crates/gommage-cli/src/policy_cmd.rs\<close>): regression fixtures and the snapshots
  they are made from, the strict lint, the layer report, and rules suggested from the audit log. The
  YAML reader of a fixture file and the printers of suggestions are parameters.
\<close>

section \<open>Expectations\<close>

datatype test_decision = TestAllow | TestGommage | TestAskPicto

definition test_decision_str :: "test_decision \<Rightarrow> string" where
  "test_decision_str d =
     (case d of TestAllow \<Rightarrow> ''allow'' | TestGommage \<Rightarrow> ''gommage'' | TestAskPicto \<Rightarrow> ''ask_picto'')"

definition test_decision_of :: "decision \<Rightarrow> test_decision" where
  "test_decision_of d =
     (case d of Allow \<Rightarrow> TestAllow | Gommage _ _ \<Rightarrow> TestGommage | AskPicto _ _ _ \<Rightarrow> TestAskPicto)"

record test_expectation =
  te_decision :: test_decision
  te_hard_stop :: "bool option"
  te_required_scope :: "string option"
  te_matched_rule :: "string option"

definition expectation_label :: "test_expectation \<Rightarrow> string" where
  "expectation_label x =
     join '' '' ([test_decision_str (te_decision x)] @
       (case te_hard_stop x of Some b \<Rightarrow> [''hard_stop='' @ bool_text b] | None \<Rightarrow> []) @
       (case te_required_scope x of Some s \<Rightarrow> [''scope='' @ s] | None \<Rightarrow> []) @
       (case te_matched_rule x of Some r \<Rightarrow> [''matched_rule='' @ r] | None \<Rightarrow> []))"

definition mismatch_decision :: "test_expectation \<Rightarrow> test_decision \<Rightarrow> string list" where
  "mismatch_decision x actual =
     (if te_decision x \<noteq> actual
      then [''expected decision '' @ test_decision_str (te_decision x) @ '', got '' @ test_decision_str actual]
      else [])"

definition mismatch_hard_stop :: "test_expectation \<Rightarrow> decision \<Rightarrow> string list" where
  "mismatch_hard_stop x d =
     (case te_hard_stop x of
        None \<Rightarrow> []
      | Some expected \<Rightarrow>
          (case d of
             Gommage reason hard_stop \<Rightarrow>
               if hard_stop = expected then []
               else [''expected hard_stop='' @ bool_text expected @ '', got hard_stop='' @ bool_text hard_stop]
           | _ \<Rightarrow> [''expected hard_stop='' @ bool_text expected @ '', but actual decision is '' @
                   test_decision_str (test_decision_of d)]))"

definition mismatch_scope :: "test_expectation \<Rightarrow> decision \<Rightarrow> string list" where
  "mismatch_scope x d =
     (case te_required_scope x of
        None \<Rightarrow> []
      | Some expected \<Rightarrow>
          (case d of
             AskPicto scope reason b \<Rightarrow>
               if scope = expected then []
               else [''expected required_scope='' @ expected @ '', got required_scope='' @ scope]
           | _ \<Rightarrow> [''expected required_scope='' @ expected @ '', but actual decision is '' @
                   test_decision_str (test_decision_of d)]))"

definition mismatch_rule :: "test_expectation \<Rightarrow> matched_rule option \<Rightarrow> string list" where
  "mismatch_rule x m =
     (case te_matched_rule x of
        None \<Rightarrow> []
      | Some expected \<Rightarrow>
          (case m of
             Some r \<Rightarrow>
               if matched_name r = expected then []
               else [''expected matched_rule='' @ expected @ '', got matched_rule='' @ matched_name r]
           | None \<Rightarrow> [''expected matched_rule='' @ expected @ '', but no rule matched'']))"

definition mismatch_errors :: "test_expectation \<Rightarrow> eval_result \<Rightarrow> string list" where
  "mismatch_errors x eval =
     mismatch_decision x (test_decision_of (eval_decision eval)) @
     mismatch_hard_stop x (eval_decision eval) @ mismatch_scope x (eval_decision eval) @
     mismatch_rule x (eval_matched eval)"

section \<open>Snapshots\<close>

text \<open>The struct that is written has the fields of the one that is read.\<close>

type_synonym snapshot_expectation = test_expectation

definition snapshot_from_decision :: "decision \<Rightarrow> string option \<Rightarrow> snapshot_expectation" where
  "snapshot_from_decision d matched =
     \<lparr>te_decision = test_decision_of d,
      te_hard_stop = (case d of Gommage reason hard_stop \<Rightarrow> Some hard_stop | _ \<Rightarrow> None),
      te_required_scope = (case d of AskPicto scope reason b \<Rightarrow> Some scope | _ \<Rightarrow> None),
      te_matched_rule = matched\<rparr>"

definition snapshot_from_eval :: "eval_result \<Rightarrow> snapshot_expectation" where
  "snapshot_from_eval eval =
     snapshot_from_decision (eval_decision eval) (map_option matched_name (eval_matched eval))"

record test_case =
  tc_name :: string
  tc_description :: "string option"
  tc_tool :: string
  tc_input :: json
  tc_expect :: test_expectation

text \<open>Where the rules come from: the capability rules and the active layers of a home directory.\<close>

record tool_home =
  th_extern :: extern
  th_glob :: "string \<Rightarrow> string \<Rightarrow> bool"
  th_lib :: runtime_lib
  th_vars :: env
  th_fs :: fs
  th_layout :: home_layout
  th_expedition :: "expedition option"
  th_env :: env

definition home_mapper :: "tool_home \<Rightarrow> string \<Rightarrow> (cli_error, mapper) result" where
  "home_mapper H what =
     map_err (CliCore (''loading capability mappers for '' @ what))
       (load_mapper_from_dir (th_extern H) (rl_mapper (th_lib H)) (th_fs H)
         (hl_capabilities_dir (th_layout H)))"

definition home_policy :: "tool_home \<Rightarrow> string \<Rightarrow> (cli_error, policy) result" where
  "home_policy H what =
     map_err (CliCore (''loading '' @ what))
       (load_active_policy (th_extern H) (rl_policy (th_lib H)) (th_vars H) (th_fs H) (th_layout H)
         (th_expedition H) (th_env H))"

definition build_policy_snapshot_case ::
  "tool_home \<Rightarrow> string \<Rightarrow> string option \<Rightarrow> toolcall \<Rightarrow> (cli_error, test_case) result" where
  "build_policy_snapshot_case H name description call =
     and_then (home_mapper H ''policy snapshot'') (\<lambda>m.
     and_then (home_policy H ''policy for policy snapshot'') (\<lambda>p.
     and_then (evaluated (evaluate (th_glob H) (map_call m call) p)) (\<lambda>eval.
       Ok \<lparr>tc_name = name, tc_description = description, tc_tool = tool call, tc_input = input call,
           tc_expect = snapshot_from_eval eval\<rparr>)))"

section \<open>Fixtures\<close>

datatype test_document =
    Wrapped "32 word option" "test_case list"
  | Cases "test_case list"

fun document_parts :: "test_document \<Rightarrow> 32 word option \<times> test_case list" where
  "document_parts (Wrapped version cases) = (version, cases)"
| "document_parts (Cases cases) = (None, cases)"

datatype smoke_status = SmokePass | SmokeWarn | SmokeFail

record smoke_summary =
  sm_passed :: nat
  sm_warnings :: nat
  sm_failed :: nat

record test_case_result =
  tr_name :: string
  tr_description :: "string option"
  tr_status :: smoke_status
  tr_expected :: test_expectation
  tr_actual :: decision
  tr_errors :: "string list"
  tr_tool :: string
  tr_input :: json
  tr_input_hash :: string
  tr_capabilities :: "capability list"
  tr_matched_rule :: "matched_rule option"

record test_report =
  tp_status :: smoke_status
  tp_fixture_file :: string
  tp_home :: string
  tp_policy_version :: string
  tp_mapper_rules :: nat
  tp_summary :: smoke_summary
  tp_cases :: "test_case_result list"

definition no_cases :: smoke_summary where
  "no_cases = \<lparr>sm_passed = 0, sm_warnings = 0, sm_failed = 0\<rparr>"

lemma no_cases_simps [simp]: "sm_passed no_cases = 0" "sm_warnings no_cases = 0" "sm_failed no_cases = 0"
  by (simp_all add: no_cases_def)

definition run_test_case :: "extern \<Rightarrow> test_case \<Rightarrow> eval_result \<Rightarrow> test_case_result" where
  "run_test_case E c eval =
     (let errors = mismatch_errors (tc_expect c) eval
      in \<lparr>tr_name = tc_name c, tr_description = tc_description c,
          tr_status = (if errors = [] then SmokePass else SmokeFail), tr_expected = tc_expect c,
          tr_actual = eval_decision eval, tr_errors = errors, tr_tool = tc_tool c, tr_input = tc_input c,
          tr_input_hash = input_hash E \<lparr>tool = tc_tool c, input = tc_input c\<rparr>,
          tr_capabilities = eval_capabilities eval, tr_matched_rule = eval_matched eval\<rparr>)"

definition count_case :: "test_case_result \<Rightarrow> smoke_summary \<Rightarrow> smoke_summary" where
  "count_case r s =
     (if tr_status r = SmokePass then s\<lparr>sm_passed := sm_passed s + 1\<rparr> else s\<lparr>sm_failed := sm_failed s + 1\<rparr>)"

fun test_loop ::
  "tool_home \<Rightarrow> mapper \<Rightarrow> policy \<Rightarrow> test_case list \<Rightarrow> smoke_summary \<times> test_case_result list \<Rightarrow>
     (cli_error, smoke_summary \<times> test_case_result list) result" where
  "test_loop H m p [] acc = Ok acc"
| "test_loop H m p (c # cs) acc =
     and_then (evaluated (evaluate (th_glob H) (map_call m \<lparr>tool = tc_tool c, input = tc_input c\<rparr>) p)) (\<lambda>eval.
       let r = run_test_case (th_extern H) c eval
       in test_loop H m p cs (count_case r (fst acc), snd acc @ [r]))"

text \<open>\<open>parse\<close> reads a fixture file.\<close>

definition build_policy_test_report ::
  "(string \<Rightarrow> (string, test_document) result) \<Rightarrow> tool_home \<Rightarrow> path \<Rightarrow> (cli_error, test_report) result" where
  "build_policy_test_report parse H file =
     and_then (map_err (\<lambda>e. CliText (''reading policy test fixture '' @ path_text file @ '': '' @ e))
                (fs_read (th_fs H) file)) (\<lambda>raw.
     and_then (map_err (\<lambda>e. CliText (''parsing policy test fixture '' @ path_text file @ '': '' @ e))
                (parse raw)) (\<lambda>document.
       (case document_parts document of
          (version, cases) \<Rightarrow>
            if (case version of Some v \<Rightarrow> v \<noteq> 1 | None \<Rightarrow> False)
            then Err (CliText (''unsupported policy test fixture version '' @
                   dec_nat (case version of Some v \<Rightarrow> unat v | None \<Rightarrow> 0) @ ''; expected 1''))
            else if cases = []
            then Err (CliText (''policy test fixture '' @ path_text file @ '' has no cases''))
            else
              and_then (home_mapper H ''policy test'') (\<lambda>m.
              and_then (home_policy H ''policy for policy test'') (\<lambda>p.
              and_then (test_loop H m p cases (no_cases, [])) (\<lambda>(summary, results).
                Ok \<lparr>tp_status = (if sm_failed summary = 0 then SmokePass else SmokeFail),
                    tp_fixture_file = path_text file, tp_home = path_text (hl_root (th_layout H)),
                    tp_policy_version = policy_version p, tp_mapper_rules = length (mapper_rules m),
                    tp_summary = summary, tp_cases = results\<rparr>))))))"

definition test_exit_code :: "test_report \<Rightarrow> nat" where
  "test_exit_code rep = (if sm_failed (tp_summary rep) = 0 then 0 else 1)"

section \<open>Files of a policy\<close>

definition policy_target_files :: "fs \<Rightarrow> path \<Rightarrow> (gommage_error, path list) result" where
  "policy_target_files F target = (if fs_is_file F target then Ok [target] else yaml_files F target)"

record raw_policy_record =
  rp_file :: path
  rp_display :: string
  rp_index :: nat
  rp_rule :: raw_rule

definition file_records ::
  "policy_lib \<Rightarrow> fs \<Rightarrow> env \<Rightarrow> path \<Rightarrow> (cli_error, raw_policy_record list) result" where
  "file_records L F env file =
     and_then (map_err (\<lambda>e. CliText (''reading policy file '' @ path_text file @ '': '' @ e)) (fs_read F file)) (\<lambda>raw.
     and_then (map_err (\<lambda>e. CliText (''parsing policy file '' @ path_text file @ '': '' @ e))
                (yaml_rules L (substitute_env raw env))) (\<lambda>rules.
       Ok (map (\<lambda>(i, r). \<lparr>rp_file = file, rp_display = path_text file, rp_index = i, rp_rule = r\<rparr>)
             (zip [0..<length rules] rules))))"

definition parse_raw_policy_rules ::
  "policy_lib \<Rightarrow> fs \<Rightarrow> env \<Rightarrow> path list \<Rightarrow> (cli_error, raw_policy_record list) result" where
  "parse_raw_policy_rules L F env files =
     and_then (collect_results (map (file_records L F env) files)) (\<lambda>rs. Ok (concat rs))"

section \<open>Lint\<close>

datatype lint_severity = LintError | LintWarning

record lint_issue =
  li_severity :: lint_severity
  li_code :: string
  li_message :: string
  li_file :: string
  li_rule_name :: "string option"
  li_rule_index :: "nat option"

definition lint_issue_of :: "lint_severity \<Rightarrow> string \<Rightarrow> string \<Rightarrow> raw_policy_record \<Rightarrow> lint_issue" where
  "lint_issue_of severity code message r =
     \<lparr>li_severity = severity, li_code = code, li_message = message, li_file = path_text (rp_file r),
      li_rule_name = Some (raw_name (rp_rule r)), li_rule_index = Some (rp_index r)\<rparr>"

definition match_is_empty :: "raw_match \<Rightarrow> bool" where
  "match_is_empty m \<longleftrightarrow> raw_any m = [] \<and> raw_all m = [] \<and> raw_none m = []"

definition all_match_patterns :: "raw_match \<Rightarrow> string list" where
  "all_match_patterns m = raw_any m @ raw_all m @ raw_none m"

text \<open>The two hash maps: the last record of a name, and of a match clause, whose JSON text, the key in
  the code, determines it.\<close>

record lint_seen =
  seen_names :: "string \<Rightarrow> (string \<times> nat) option"
  seen_matches :: "raw_match \<Rightarrow> (string \<times> string \<times> nat) option"

definition name_issues :: "lint_seen \<Rightarrow> raw_policy_record \<Rightarrow> lint_issue list" where
  "name_issues seen r =
     (if trim (raw_name (rp_rule r)) = []
      then [lint_issue_of LintError ''empty_rule_name'' ''rule name must not be empty'' r] else []) @
     (case seen_names seen (raw_name (rp_rule r)) of
        Some (file, index) \<Rightarrow>
          [lint_issue_of LintError ''duplicate_rule_name''
             (''rule name duplicates an earlier rule at '' @ file @ '':'' @ dec_nat index) r]
      | None \<Rightarrow> [])"

definition content_issues :: "raw_policy_record \<Rightarrow> lint_issue list" where
  "content_issues r =
     (if trim (raw_reason (rp_rule r)) = []
      then [lint_issue_of LintWarning ''missing_reason'' ''strict lint expects a human review reason'' r] else []) @
     (if match_is_empty (raw_match (rp_rule r))
      then [lint_issue_of LintError ''empty_match''
              ''rule has no match clauses and would match every capability set'' r] else []) @
     concat (map (\<lambda>pat. if trim pat = []
         then [lint_issue_of LintError ''empty_capability_pattern'' ''capability patterns must not be empty'' r]
         else []) (all_match_patterns (raw_match (rp_rule r)))) @
     (case raw_required_scope (rp_rule r) of
        Some scope \<Rightarrow>
          if trim scope = []
          then [lint_issue_of LintError ''empty_required_scope'' ''ask_picto required_scope must not be empty'' r]
          else []
      | None \<Rightarrow> [])"

definition match_issues :: "lint_seen \<Rightarrow> raw_policy_record \<Rightarrow> lint_issue list" where
  "match_issues seen r =
     (case seen_matches seen (raw_match (rp_rule r)) of
        Some (name, file, index) \<Rightarrow>
          [lint_issue_of LintError ''duplicate_match_shadowed''
             (''same match clauses already appear on rule '' @ name @ '' at '' @ file @ '':'' @ dec_nat index @
              ''; first match wins'') r]
      | None \<Rightarrow> [])"

definition lint_note :: "raw_policy_record \<Rightarrow> lint_seen \<Rightarrow> lint_seen" where
  "lint_note r seen =
     \<lparr>seen_names = (seen_names seen)(raw_name (rp_rule r) \<mapsto> (rp_display r, rp_index r)),
      seen_matches = (seen_matches seen)
        (raw_match (rp_rule r) \<mapsto> (raw_name (rp_rule r), rp_display r, rp_index r))\<rparr>"

fun lint_loop :: "raw_policy_record list \<Rightarrow> lint_seen \<Rightarrow> lint_issue list \<Rightarrow> lint_issue list" where
  "lint_loop [] seen issues = issues"
| "lint_loop (r # rs) seen issues =
     lint_loop rs (lint_note r seen)
       (issues @ name_issues seen r @ content_issues r @ match_issues seen r)"

definition collect_strict_policy_issues :: "raw_policy_record list \<Rightarrow> lint_issue list" where
  "collect_strict_policy_issues records =
     (if records = []
      then [\<lparr>li_severity = LintError, li_code = ''no_policy_rules'',
             li_message = ''strict lint requires at least one policy rule'', li_file = ''<policy>'',
             li_rule_name = None, li_rule_index = None\<rparr>]
      else lint_loop records \<lparr>seen_names = Map.empty, seen_matches = Map.empty\<rparr> [])"

record lint_report =
  lr_status :: smoke_status
  lr_target :: string
  lr_strict :: bool
  lr_files :: nat
  lr_rules :: nat
  lr_errors :: nat
  lr_warnings :: nat
  lr_issues :: "lint_issue list"

definition summarize_policy_lint_issues :: "lint_issue list \<Rightarrow> nat \<times> nat" where
  "summarize_policy_lint_issues issues =
     foldl (\<lambda>(errors, warnings) i.
       (case li_severity i of LintError \<Rightarrow> (errors + 1, warnings) | LintWarning \<Rightarrow> (errors, warnings + 1)))
       (0, 0) issues"

text \<open>What is linted: the name of the target, its compiled policy and its files.\<close>

definition lint_target ::
  "tool_home \<Rightarrow> path option \<Rightarrow> (cli_error, string \<times> policy \<times> path list) result" where
  "lint_target H target =
     (let E = th_extern H; L = rl_policy (th_lib H); F = th_fs H
      in case target of
           Some t \<Rightarrow>
             and_then
               (if fs_is_file F t
                then and_then (map_err (\<lambda>e. CliText (''reading policy file '' @ path_text t @ '': '' @ e)) (fs_read F t))
                       (\<lambda>raw. map_err (CliCore (''linting policy file '' @ path_text t))
                                (from_yaml_string E L raw (th_env H) (path_text t)))
                else map_err (CliCore (''linting policy directory '' @ path_text t))
                       (load_from_dir E L F t (th_env H))) (\<lambda>p.
             and_then (map_err (CliCore (''reading policy directory '' @ path_text t)) (policy_target_files F t)) (\<lambda>files.
               Ok (path_text t, p, files)))
         | None \<Rightarrow>
             and_then (map_err (CliCore []) (active_policy_layers (th_vars H) F (th_layout H) (th_expedition H))) (\<lambda>layers.
             and_then (map_err (CliCore ''linting active policy layers'')
                        (load_from_layers E L F layers (th_env H))) (\<lambda>p.
             and_then (map_err (CliCore []) (collect_results (map (\<lambda>l. policy_target_files F (layer_dir l)) layers))) (\<lambda>files.
               Ok (''active policy layers'', p, concat files)))))"

definition build_policy_lint_report ::
  "tool_home \<Rightarrow> path option \<Rightarrow> bool \<Rightarrow> (cli_error, lint_report) result" where
  "build_policy_lint_report H target strict =
     and_then (lint_target H target) (\<lambda>(display, p, files).
     and_then (parse_raw_policy_rules (rl_policy (th_lib H)) (th_fs H) (th_env H) files) (\<lambda>records.
       let issues = (if strict then collect_strict_policy_issues records else []);
           (errors, warnings) = summarize_policy_lint_issues issues
       in Ok \<lparr>lr_status = (if errors = 0 then SmokePass else SmokeFail), lr_target = display,
              lr_strict = strict, lr_files = length files, lr_rules = length (policy_rules p),
              lr_errors = errors, lr_warnings = warnings, lr_issues = issues\<rparr>))"

section \<open>Layers\<close>

record layer_entry =
  le_name :: string
  le_dir :: string
  le_files :: nat
  le_rules :: nat

definition layer_entry_of :: "tool_home \<Rightarrow> policy_layer \<Rightarrow> (cli_error, layer_entry) result" where
  "layer_entry_of H layer =
     and_then (map_err (CliCore (''reading policy directory '' @ path_text (layer_dir layer)))
                (policy_target_files (th_fs H) (layer_dir layer))) (\<lambda>files.
     and_then (parse_raw_policy_rules (rl_policy (th_lib H)) (th_fs H) (th_env H) files) (\<lambda>records.
       Ok \<lparr>le_name = layer_name layer, le_dir = path_text (layer_dir layer), le_files = length files,
           le_rules = length records\<rparr>))"

definition build_policy_layer_report ::
  "tool_home \<Rightarrow> (cli_error, string \<times> layer_entry list) result" where
  "build_policy_layer_report H =
     and_then (map_err (CliCore [])
                (active_policy_layers (th_vars H) (th_fs H) (th_layout H) (th_expedition H))) (\<lambda>layers.
     and_then (map_err (CliCore ''loading active policy layers'')
                (load_from_layers (th_extern H) (rl_policy (th_lib H)) (th_fs H) layers (th_env H))) (\<lambda>p.
     and_then (collect_results (map (layer_entry_of H) layers)) (\<lambda>entries.
       Ok (policy_version p, entries))))"

end
