(* ===== verification/Policy_Suggest.thy ===== *)
theory Policy_Suggest
  imports Policy_Tools
begin

text \<open>
  Rules suggested from the audit log (\<open>gommage policy suggest\<close> in
  \<open>crates/gommage-cli/src/policy_cmd.rs\<close>): the decisions that the active policy does not cover, grouped
  by tool, decision and capabilities, each group with an advisory rule and a fixture draft. The YAML
  printers are \<open>suggest_yaml\<close>.
\<close>

section \<open>Names\<close>

text \<open>The loop of \<open>slugify\<close>, with the flag for a dash just pushed.\<close>

fun slug_loop :: "string \<Rightarrow> string \<Rightarrow> bool \<Rightarrow> string" where
  "slug_loop [] slug last_was_dash = slug"
| "slug_loop (c # cs) slug last_was_dash =
     (if is_ascii_alphanumeric c then slug_loop cs (slug @ [to_ascii_lowercase c]) False
      else if \<not> last_was_dash \<and> slug \<noteq> [] then slug_loop cs (slug @ [CHR ''-'']) True
      else slug_loop cs slug last_was_dash)"

definition pop_dashes :: "string \<Rightarrow> string" where
  "pop_dashes s = rev (dropWhile (\<lambda>c. c = CHR ''-'') (rev s))"

definition slugify :: "string \<Rightarrow> string" where
  "slugify value =
     (let slug = pop_dashes (slug_loop value [] False);
          slug = (if slug = [] then ''entry'' else slug)
      in if 64 < length slug then pop_dashes (take 64 slug) else slug)"

definition sorted_capability_patterns :: "capability list \<Rightarrow> string list" where
  "sorted_capability_patterns caps = remdups_adj (sort caps)"

definition suggestion_key :: "string \<Rightarrow> decision \<Rightarrow> capability list \<Rightarrow> string" where
  "suggestion_key tool_name d caps =
     tool_name @ [NL] @ decision_summary d @ [NL] @ join [NL] (sorted_capability_patterns caps)"

definition contains_glob_meta :: "string \<Rightarrow> bool" where
  "contains_glob_meta value \<longleftrightarrow>
     list_ex (\<lambda>c. c \<in> {CHR ''*'', CHR ''?'', CHR ''['', CHR '']'', CHR 0x7B, CHR 0x7D}) value"

section \<open>The advisory rule\<close>

definition advisory_rule_from_audit :: "audit_entry \<Rightarrow> nat \<Rightarrow> raw_rule" where
  "advisory_rule_from_audit entry line =
     \<lparr>raw_name = ''advisory-'' @ slugify (ae_tool entry) @ ''-'' @
        slugify (decision_summary (ae_decision entry)) @ ''-'' @ slugify (ae_id entry),
      raw_decision = (case ae_decision entry of
        Allow \<Rightarrow> RuleAllow | Gommage _ _ \<Rightarrow> RuleGommage | AskPicto _ _ _ \<Rightarrow> RuleAskPicto),
      raw_hard_stop = (case ae_decision entry of Gommage _ hard_stop \<Rightarrow> hard_stop | _ \<Rightarrow> False),
      raw_required_scope = (case ae_decision entry of AskPicto scope _ _ \<Rightarrow> Some scope | _ \<Rightarrow> None),
      raw_bind_input = False,
      raw_match = \<lparr>raw_any = [], raw_all = sorted_capability_patterns (ae_capabilities entry), raw_none = []\<rparr>,
      raw_reason = ''Advisory suggestion from audit '' @ ae_id entry @ '' line '' @ dec_nat line @ ''; observed '' @
        decision_summary (ae_decision entry) @ '' with input hash '' @ ae_input_hash entry @
        ''. Review and add a usable fixture before enabling.''\<rparr>"

definition suggestion_warnings :: "raw_rule \<Rightarrow> string list" where
  "suggestion_warnings r =
     [''Generated from audited capabilities only; the audit log does not contain raw tool input.'',
      ''all_capability rules still match calls with additional capabilities; review before enabling.''] @
     (if list_ex contains_glob_meta (raw_all (raw_match r))
      then [''At least one observed capability contains glob metacharacters; tighten the pattern manually if needed.'']
      else [])"

section \<open>The fixture draft\<close>

record suggested_fixture =
  sf_name :: string
  sf_description :: string
  sf_tool :: string
  sf_input_available :: bool
  sf_input_hash :: string
  sf_usable :: bool
  sf_input_note :: string
  sf_expect :: snapshot_expectation

definition suggested_fixture_case :: "audit_entry \<Rightarrow> raw_rule \<Rightarrow> suggested_fixture" where
  "suggested_fixture_case entry r =
     \<lparr>sf_name = map (\<lambda>c. if c = CHR ''-'' then CHR ''_'' else c) (raw_name r) @ ''_fixture'',
      sf_description = ''Draft fixture for '' @ raw_name r @
        ''; replace input with the captured tool payload that hashes to '' @ ae_input_hash entry @ ''.'',
      sf_tool = ae_tool entry, sf_input_available = False, sf_input_hash = ae_input_hash entry,
      sf_usable = False,
      sf_input_note = ''Audit decisions store input_hash and capabilities, not raw input. '' @
        ''Capture the original tool payload with policy snapshot before using this fixture.'',
      sf_expect = snapshot_from_decision (ae_decision entry) (Some (raw_name r))\<rparr>"

definition fixture_draft :: "suggested_fixture \<Rightarrow> test_case" where
  "fixture_draft f =
     \<lparr>tc_name = sf_name f, tc_description = Some (sf_description f), tc_tool = sf_tool f,
      tc_input = JObject [(''__replace_with_captured_input_for_hash'', JString (sf_input_hash f))],
      tc_expect = sf_expect f\<rparr>"

text \<open>The printers of a list of rules and of a document of version 1 with one case.\<close>

record suggest_yaml =
  sy_rules :: "raw_rule list \<Rightarrow> (string, string) result"
  sy_document :: "test_case list \<Rightarrow> (string, string) result"

definition suggested_fixture_yaml :: "suggest_yaml \<Rightarrow> suggested_fixture \<Rightarrow> (cli_error, string) result" where
  "suggested_fixture_yaml Y f =
     and_then (map_err CliText (sy_document Y [fixture_draft f])) (\<lambda>y. Ok (trim_end y))"

section \<open>Suggestions\<close>

record suggestion_evidence =
  sv_line :: nat
  sv_audit_id :: string
  sv_timestamp :: string
  sv_tool :: string
  sv_input_hash :: string
  sv_capabilities :: "capability list"
  sv_audited_decision :: decision
  sv_audited_matched_rule :: "matched_rule option"
  sv_audited_policy_version :: string
  sv_active_decision :: decision
  sv_active_matched_rule :: "matched_rule option"
  sv_active_policy_version :: string
  sv_expedition :: "string option"

record policy_suggestion =
  ps_id :: string
  ps_advisory :: bool
  ps_review_required :: bool
  ps_reason :: string
  ps_warnings :: "string list"
  ps_rule :: raw_rule
  ps_rule_yaml :: string
  ps_fixture_case :: suggested_fixture
  ps_fixture_yaml :: string
  ps_evidence :: "suggestion_evidence list"

definition evidence_from_record :: "audit_decision_line \<Rightarrow> eval_result \<Rightarrow> string \<Rightarrow> suggestion_evidence" where
  "evidence_from_record r active version =
     (let entry = dl_entry r
      in \<lparr>sv_line = dl_line r, sv_audit_id = ae_id entry, sv_timestamp = ae_ts entry,
          sv_tool = ae_tool entry, sv_input_hash = ae_input_hash entry,
          sv_capabilities = ae_capabilities entry, sv_audited_decision = ae_decision entry,
          sv_audited_matched_rule = ae_matched_rule entry,
          sv_audited_policy_version = ae_policy_version entry,
          sv_active_decision = eval_decision active, sv_active_matched_rule = eval_matched active,
          sv_active_policy_version = version, sv_expedition = ae_expedition entry\<rparr>)"

definition build_policy_suggestion ::
  "suggest_yaml \<Rightarrow> audit_decision_line \<Rightarrow> suggestion_evidence \<Rightarrow> (cli_error, policy_suggestion) result" where
  "build_policy_suggestion Y r evidence =
     (let entry = dl_entry r; rule = advisory_rule_from_audit entry (dl_line r);
          fixture = suggested_fixture_case entry rule
      in and_then (map_err CliText (sy_rules Y [rule])) (\<lambda>rule_yaml.
         and_then (suggested_fixture_yaml Y fixture) (\<lambda>fixture_yaml.
           Ok \<lparr>ps_id = raw_name rule, ps_advisory = True, ps_review_required = True,
               ps_reason = ''Active policy has no matching rule for audit '' @ ae_id entry @ '' line '' @
                 dec_nat (dl_line r) @ ''; review before adding.'',
               ps_warnings = suggestion_warnings rule, ps_rule = rule, ps_rule_yaml = trim_end rule_yaml,
               ps_fixture_case = fixture, ps_fixture_yaml = fixture_yaml, ps_evidence = [evidence]\<rparr>)))"

record suggest_summary =
  su_decisions :: nat
  su_suggestions :: nat
  su_evidence :: nat
  su_covered_by_active_policy :: nat
  su_skipped_empty_capabilities :: nat
  su_skipped_events :: nat
  su_skipped_blank_lines :: nat

text \<open>The state of the loop: the counters, the suggestions and the index of each key.\<close>

record suggest_state =
  ss_summary :: suggest_summary
  ss_suggestions :: "policy_suggestion list"
  ss_by_key :: "string \<Rightarrow> nat option"

definition suggest_step ::
  "suggest_yaml \<Rightarrow> (string \<Rightarrow> string \<Rightarrow> bool) \<Rightarrow> policy \<Rightarrow> audit_decision_line \<Rightarrow> suggest_state \<Rightarrow>
     (cli_error, suggest_state) result" where
  "suggest_step Y is_match p r s0 =
     (let entry = dl_entry r;
          s = s0\<lparr>ss_summary := (ss_summary s0)\<lparr>su_decisions := su_decisions (ss_summary s0) + 1\<rparr>\<rparr>
      in if ae_capabilities entry = []
         then Ok (s\<lparr>ss_summary := (ss_summary s)
                     \<lparr>su_skipped_empty_capabilities := su_skipped_empty_capabilities (ss_summary s) + 1\<rparr>\<rparr>)
         else
           and_then (evaluated (evaluate is_match (ae_capabilities entry) p)) (\<lambda>active.
             if eval_matched active \<noteq> None
             then Ok (s\<lparr>ss_summary := (ss_summary s)
                         \<lparr>su_covered_by_active_policy := su_covered_by_active_policy (ss_summary s) + 1\<rparr>\<rparr>)
             else
               (let key = suggestion_key (ae_tool entry) (ae_decision entry) (ae_capabilities entry);
                    evidence = evidence_from_record r active (policy_version p)
                in case ss_by_key s key of
                     Some index \<Rightarrow>
                       Ok (s\<lparr>ss_suggestions := (ss_suggestions s)[index :=
                              (ss_suggestions s ! index)
                                \<lparr>ps_evidence := ps_evidence (ss_suggestions s ! index) @ [evidence]\<rparr>]\<rparr>)
                   | None \<Rightarrow>
                       and_then (build_policy_suggestion Y r evidence) (\<lambda>suggestion.
                         Ok (s\<lparr>ss_by_key := (ss_by_key s)(key \<mapsto> length (ss_suggestions s)),
                               ss_suggestions := ss_suggestions s @ [suggestion]\<rparr>)))))"

fun suggest_loop ::
  "suggest_yaml \<Rightarrow> (string \<Rightarrow> string \<Rightarrow> bool) \<Rightarrow> policy \<Rightarrow> audit_decision_line list \<Rightarrow> suggest_state \<Rightarrow>
     (cli_error, suggest_state) result" where
  "suggest_loop Y is_match p [] s = Ok s"
| "suggest_loop Y is_match p (r # rs) s =
     and_then (suggest_step Y is_match p r s) (suggest_loop Y is_match p rs)"

record suggest_report =
  sr_empty :: bool
  sr_audit :: string
  sr_home :: string
  sr_active_policy_version :: string
  sr_mutated :: bool
  sr_summary :: suggest_summary
  sr_suggestions :: "policy_suggestion list"

definition suggest_start :: "audit_scan \<Rightarrow> suggest_state" where
  "suggest_start scan =
     \<lparr>ss_summary = \<lparr>su_decisions = 0, su_suggestions = 0, su_evidence = 0, su_covered_by_active_policy = 0,
        su_skipped_empty_capabilities = 0, su_skipped_events = scan_events scan,
        su_skipped_blank_lines = scan_blank_lines scan\<rparr>,
      ss_suggestions = [], ss_by_key = Map.empty\<rparr>"

definition build_policy_suggest_report ::
  "suggest_yaml \<Rightarrow> tool_home \<Rightarrow> replay_input \<Rightarrow> (cli_error, suggest_report) result" where
  "build_policy_suggest_report Y H I =
     and_then (home_policy H ''active policy for policy suggest'') (\<lambda>p.
     and_then (input_scan I) (\<lambda>scan.
     and_then (suggest_loop Y (th_glob H) p (scan_decisions scan) (suggest_start scan)) (\<lambda>s.
       Ok \<lparr>sr_empty = (ss_suggestions s = []), sr_audit = path_text (ri_audit_path I),
           sr_home = path_text (hl_root (th_layout H)), sr_active_policy_version = policy_version p,
           sr_mutated = False,
           sr_summary = (ss_summary s)
             \<lparr>su_suggestions := length (ss_suggestions s),
              su_evidence := sum_list (map (\<lambda>g. length (ps_evidence g)) (ss_suggestions s))\<rparr>,
           sr_suggestions = ss_suggestions s\<rparr>)))"

end
