(* ===== verification/Policy_Tools_Laws.thy ===== *)
theory Policy_Tools_Laws
  imports Policy_Suggest Adapter_Laws
begin

text \<open>
  What the policy tools promise: a fixture passes exactly when the verdict is as described, a
  snapshot passes as a fixture, a rule that the lint reports as shadowed never decides, a suggested
  rule decides what it was made from as it was decided then, and the names of suggestions are slugs.
\<close>

section \<open>Fixtures\<close>

definition meets :: "test_expectation \<Rightarrow> eval_result \<Rightarrow> bool" where
  "meets x eval \<longleftrightarrow>
     te_decision x = test_decision_of (eval_decision eval) \<and>
     (\<forall>b. te_hard_stop x = Some b \<longrightarrow> (\<exists>reason. eval_decision eval = Gommage reason b)) \<and>
     (\<forall>scope. te_required_scope x = Some scope \<longrightarrow> (\<exists>reason b. eval_decision eval = AskPicto scope reason b)) \<and>
     (\<forall>name. te_matched_rule x = Some name \<longrightarrow> (\<exists>m. eval_matched eval = Some m \<and> matched_name m = name))"

lemma mismatch_Nil_iff: "mismatch_errors x eval = [] \<longleftrightarrow> meets x eval"
  by (auto simp: mismatch_errors_def mismatch_decision_def mismatch_hard_stop_def mismatch_scope_def
      mismatch_rule_def meets_def split: option.splits decision.splits)

lemma test_loop_results:
  "test_loop H m p cs (s, rs) = Ok (s', rs') \<Longrightarrow>
     \<exists>evs. list_all2 (\<lambda>c ev. evaluate (th_glob H) (map_call m \<lparr>tool = tc_tool c, input = tc_input c\<rparr>) p = Some ev) cs evs \<and>
        rs' = rs @ map2 (run_test_case (th_extern H)) cs evs \<and>
        s' = foldl (\<lambda>s r. count_case r s) s (map2 (run_test_case (th_extern H)) cs evs)"
proof (induction cs arbitrary: s rs)
  case (Cons c cs)
  then obtain ev where ev: "evaluate (th_glob H) (map_call m \<lparr>tool = tc_tool c, input = tc_input c\<rparr>) p = Some ev"
      "test_loop H m p cs (count_case (run_test_case (th_extern H) c ev) s, rs @ [run_test_case (th_extern H) c ev]) = Ok (s', rs')"
    by (auto simp: and_then_Ok_iff Let_def)
  from Cons.IH [OF ev(2)] obtain evs where
      "list_all2 (\<lambda>c ev. evaluate (th_glob H) (map_call m \<lparr>tool = tc_tool c, input = tc_input c\<rparr>) p = Some ev) cs evs"
      "rs' = (rs @ [run_test_case (th_extern H) c ev]) @ map2 (run_test_case (th_extern H)) cs evs"
      "s' = foldl (\<lambda>s r. count_case r s) (count_case (run_test_case (th_extern H) c ev) s)
        (map2 (run_test_case (th_extern H)) cs evs)" by blast
  with ev(1) show ?case by (intro exI [of _ "ev # evs"]) auto
qed simp

lemma count_cases:
  "sm_failed (foldl (\<lambda>s r. count_case r s) s rs) = sm_failed s + length (filter (\<lambda>r. tr_status r \<noteq> SmokePass) rs) \<and>
   sm_passed (foldl (\<lambda>s r. count_case r s) s rs) = sm_passed s + length (filter (\<lambda>r. tr_status r = SmokePass) rs)"
  by (induction rs arbitrary: s) (auto simp: count_case_def)

lemma case_passes [simp]: "tr_status (run_test_case E c ev) = SmokePass \<longleftrightarrow> meets (tc_expect c) ev"
  by (simp add: run_test_case_def Let_def mismatch_Nil_iff)

lemma case_name [simp]: "tr_name (run_test_case E c ev) = tc_name c"
  by (simp add: run_test_case_def Let_def)

lemma cases_pass:
  "length cs = length evs \<Longrightarrow>
     (\<forall>r \<in> set (map2 (run_test_case E) cs evs). tr_status r = SmokePass) \<longleftrightarrow>
     list_all2 (\<lambda>c ev. meets (tc_expect c) ev) cs evs"
  by (induction cs evs rule: list_induct2) simp_all

definition demo_tool_home :: tool_home where
  "demo_tool_home =
     \<lparr>th_extern = demo_extern, th_glob = (\<lambda>p t. False), th_lib = de_lib demo_daemon, th_vars = (\<lambda>_. None),
      th_fs = memory_fs [([''f''], ''cases'')], th_layout = home_layout_at [''/'', ''h''],
      th_expedition = None, th_env = (\<lambda>_. None)\<rparr>"

text \<open>A fixture file passes, with exit code 0, exactly when every case gets the verdict it
  expects: the decision, and if they are given the hard-stop flag, the scope and the name of the
  matching rule.\<close>

lemma fixture_passes_iff:
  assumes "build_policy_test_report parse H file = Ok rep"
  shows "\<exists>raw version cases m p evs. fs_read (th_fs H) file = Ok raw \<and>
    (\<exists>document. parse raw = Ok document \<and> document_parts document = (version, cases)) \<and> cases \<noteq> [] \<and>
    home_mapper H ''policy test'' = Ok m \<and> home_policy H ''policy for policy test'' = Ok p \<and>
    list_all2 (\<lambda>c ev. evaluate (th_glob H) (map_call m \<lparr>tool = tc_tool c, input = tc_input c\<rparr>) p = Some ev) cases evs \<and>
    map tr_name (tp_cases rep) = map tc_name cases \<and>
    (test_exit_code rep = 0 \<longleftrightarrow> list_all2 (\<lambda>c ev. meets (tc_expect c) ev) cases evs)"
proof -
  obtain raw document where d: "fs_read (th_fs H) file = Ok raw" "parse raw = Ok document" and body: "(case document_parts document of
      (version, cases) \<Rightarrow>
        if (case version of Some v \<Rightarrow> v \<noteq> 1 | None \<Rightarrow> False)
        then Err (CliText (''unsupported policy test fixture version '' @
               dec_nat (case version of Some v \<Rightarrow> unat v | None \<Rightarrow> 0) @ ''; expected 1''))
        else if cases = []
        then Err (CliText (''policy test fixture '' @ path_text file @ '' has no cases''))
        else
          and_then (home_mapper H ''policy test'') (\<lambda>m.
          and_then (home_policy H ''policy for policy test'') (\<lambda>p.
          and_then (test_loop H m p cases (no_cases, [])) (\<lambda>(summary, results).
            Ok \<lparr>tp_status = (if sm_failed summary = 0 then SmokePass else SmokeFail),
                tp_fixture_file = path_text file, tp_home = path_text (hl_root (th_layout H)),
                tp_policy_version = policy_version p, tp_mapper_rules = length (mapper_rules m),
                tp_summary = summary, tp_cases = results\<rparr>)))) = Ok rep"
    using assms by (auto simp only: build_policy_test_report_def and_then_Ok_iff map_err_Ok_iff)
  obtain version cases where parts: "document_parts document = (version, cases)" by (meson surj_pair)
  with body obtain m p summary results where *: "home_mapper H ''policy test'' = Ok m"
      "home_policy H ''policy for policy test'' = Ok p"
      "test_loop H m p cases (no_cases, []) = Ok (summary, results)"
      "tp_summary rep = summary" "tp_cases rep = results" "cases \<noteq> []"
    by (auto simp: and_then_Ok_iff split: if_splits)
  from *(3) obtain evs where evs:
      "list_all2 (\<lambda>c ev. evaluate (th_glob H) (map_call m \<lparr>tool = tc_tool c, input = tc_input c\<rparr>) p = Some ev) cases evs"
      "results = map2 (run_test_case (th_extern H)) cases evs"
      "summary = foldl (\<lambda>s r. count_case r s) no_cases (map2 (run_test_case (th_extern H)) cases evs)"
    using test_loop_results [OF *(3)] that by auto
  from evs(1) have len: "length cases = length evs" by (rule list_all2_lengthD)
  then have "map tr_name results = map tc_name cases"
    unfolding evs(2) by (induction cases evs rule: list_induct2) simp_all
  moreover have "test_exit_code rep = 0 \<longleftrightarrow> (\<forall>r \<in> set results. tr_status r = SmokePass)"
  proof -
    have "sm_failed summary = length (filter (\<lambda>r. tr_status r \<noteq> SmokePass) results)"
      using count_cases [of "no_cases" results] unfolding evs(3) evs(2) [symmetric] by simp
    then show ?thesis by (simp add: test_exit_code_def *(4) filter_empty_conv)
  qed
  moreover have "(\<forall>r \<in> set results. tr_status r = SmokePass) \<longleftrightarrow> list_all2 (\<lambda>c ev. meets (tc_expect c) ev) cases evs"
    unfolding evs(2) by (rule cases_pass [OF len])
  ultimately have "map tr_name (tp_cases rep) = map tc_name cases \<and>
      (test_exit_code rep = 0 \<longleftrightarrow> list_all2 (\<lambda>c ev. meets (tc_expect c) ev) cases evs)"
    using *(5) by simp
  with d parts *(1,2,6) evs(1) show ?thesis
    by (intro exI [of _ raw] exI [of _ version] exI [of _ cases] exI [of _ m] exI [of _ p] exI [of _ evs] conjI
        exI [of _ document]) simp_all
qed

definition demo_fixture_case :: test_case where
  "demo_fixture_case =
     \<lparr>tc_name = ''c'', tc_description = None, tc_tool = ''Deploy'', tc_input = JNull,
      tc_expect = \<lparr>te_decision = TestAllow, te_hard_stop = None, te_required_scope = None, te_matched_rule = None\<rparr>\<rparr>"

lemma demo_fixture_meets: "meets (tc_expect demo_fixture_case) ev \<longleftrightarrow> eval_decision ev = Allow"
  by (cases "eval_decision ev") (simp_all add: demo_fixture_case_def meets_def test_decision_of_def)

lemma fixture_passes_iff_witness:
  "\<exists>rep m p ev. build_policy_test_report (\<lambda>s. Ok (Cases [demo_fixture_case])) demo_tool_home [''f''] = Ok rep \<and>
     home_mapper demo_tool_home ''policy test'' = Ok m \<and> home_policy demo_tool_home ''policy for policy test'' = Ok p \<and>
     evaluate (th_glob demo_tool_home)
       (map_call m \<lparr>tool = tc_tool demo_fixture_case, input = tc_input demo_fixture_case\<rparr>) p = Some ev \<and>
     (test_exit_code rep = 0 \<longleftrightarrow> eval_decision ev = Allow)"
proof -
  have "is_ok (build_policy_test_report (\<lambda>s. Ok (Cases [demo_fixture_case])) demo_tool_home [''f''])" by code_simp
  then obtain rep where rep: "build_policy_test_report (\<lambda>s. Ok (Cases [demo_fixture_case])) demo_tool_home [''f''] = Ok rep"
    by (auto simp: is_ok_iff)
  from fixture_passes_iff [OF this] obtain m p evs where
      "home_mapper demo_tool_home ''policy test'' = Ok m" "home_policy demo_tool_home ''policy for policy test'' = Ok p"
      "list_all2 (\<lambda>c ev. evaluate (th_glob demo_tool_home) (map_call m \<lparr>tool = tc_tool c, input = tc_input c\<rparr>) p = Some ev)
         [demo_fixture_case] evs"
      "test_exit_code rep = 0 \<longleftrightarrow> list_all2 (\<lambda>c ev. meets (tc_expect c) ev) [demo_fixture_case] evs"
    by auto
  with rep show ?thesis by (auto simp: list_all2_Cons1 demo_fixture_meets)
qed

lemma snapshot_meets: "meets (snapshot_from_eval eval) eval"
  by (auto simp: meets_def snapshot_from_eval_def snapshot_from_decision_def split: decision.splits)

text \<open>A snapshot passes: the case captured from a call, read back from a fixture file as the only
  case of a document of version 1, passes against the same home, with exit code 0.\<close>

theorem snapshot_passes_test:
  assumes "build_policy_snapshot_case H name description call = Ok c"
    and "fs_read (th_fs H) file = Ok raw" and "parse raw = Ok (Wrapped (Some 1) [c])"
  shows "\<exists>rep. build_policy_test_report parse H file = Ok rep \<and> tp_status rep = SmokePass \<and> test_exit_code rep = 0 \<and>
    map tr_actual (tp_cases rep) \<noteq> []"
proof -
  obtain m p eval where *: "home_mapper H ''policy snapshot'' = Ok m" "home_policy H ''policy for policy snapshot'' = Ok p"
      "evaluate (th_glob H) (map_call m call) p = Some eval" "tc_tool c = tool call" "tc_input c = input call"
      "tc_expect c = snapshot_from_eval eval"
    using assms(1) by (auto simp: build_policy_snapshot_case_def and_then_Ok_iff)
  then have "home_mapper H ''policy test'' = Ok m" "home_policy H ''policy for policy test'' = Ok p"
    by (simp_all add: home_mapper_def home_policy_def map_err_Ok_iff)
  moreover have "map_call m \<lparr>tool = tc_tool c, input = tc_input c\<rparr> = map_call m call" using *(4,5) by (cases call) simp
  moreover have "mismatch_errors (tc_expect c) eval = []" using *(6) snapshot_meets by (simp add: mismatch_Nil_iff)
  ultimately show ?thesis
    using assms(2,3) *(3)
    by (auto simp: build_policy_test_report_def run_test_case_def count_case_def test_exit_code_def evaluated_def Let_def)
qed

theorem snapshot_passes_test_witness:
  "\<exists>c rep. build_policy_snapshot_case demo_tool_home ''s'' None demo_deploy_call = Ok c \<and>
     build_policy_test_report (\<lambda>s. Ok (Wrapped (Some 1) [c])) demo_tool_home [''f''] = Ok rep \<and> tp_status rep = SmokePass"
proof -
  have "is_ok (build_policy_snapshot_case demo_tool_home ''s'' None demo_deploy_call)" by code_simp
  then obtain c where c: "build_policy_snapshot_case demo_tool_home ''s'' None demo_deploy_call = Ok c"
    by (auto simp: is_ok_iff)
  have "fs_read (th_fs demo_tool_home) [''f''] = Ok ''cases''" by (simp add: demo_tool_home_def memory_fs_def)
  from snapshot_passes_test [OF c this, of "\<lambda>s. Ok (Wrapped (Some 1) [c])"] c show ?thesis by auto
qed

section \<open>Lint\<close>

lemma lint_loop_mem:
  "i \<in> set (lint_loop rs seen issues) \<Longrightarrow> i \<in> set issues \<or>
     (\<exists>j < length rs. let seen_j = fold lint_note (take j rs) seen in
        i \<in> set (name_issues seen_j (rs ! j) @ content_issues (rs ! j) @ match_issues seen_j (rs ! j)))"
proof (induction rs arbitrary: seen issues)
  case (Cons r rs)
  from Cons.IH [of "lint_note r seen" "issues @ name_issues seen r @ content_issues r @ match_issues seen r"] Cons.prems
  consider "i \<in> set issues" | "i \<in> set (name_issues seen r @ content_issues r @ match_issues seen r)"
    | j where "j < length rs" "let seen_j = fold lint_note (take j rs) (lint_note r seen) in
        i \<in> set (name_issues seen_j (rs ! j) @ content_issues (rs ! j) @ match_issues seen_j (rs ! j))"
    by fastforce
  then show ?case
  proof cases
    case 2
    then show ?thesis by (intro disjI2 exI [of _ 0]) simp
  next
    case (3 j)
    then show ?thesis by (intro disjI2 exI [of _ "Suc j"]) simp
  qed simp
qed simp

lemma seen_matches_fold:
  "seen_matches (fold lint_note rs seen) m \<noteq> None \<longleftrightarrow>
     seen_matches seen m \<noteq> None \<or> (\<exists>r \<in> set rs. raw_match (rp_rule r) = m)"
  by (induction rs arbitrary: seen) (auto simp: lint_note_def)

lemma find_skip: "\<not> P r \<Longrightarrow> find P (xs @ r # ys) = find P (xs @ ys)"
  by (induction xs) auto

lemma find_without_shadowed:
  assumes "q \<in> set xs" "P r \<Longrightarrow> P q"
  shows "find P (xs @ r # ys) = find P (xs @ ys)"
proof (cases "P r")
  case True
  with assms have "find P xs \<noteq> None" by (metis find_None_iff)
  then show ?thesis by (auto simp: find_append)
qed (rule find_skip)

lemma compile_rule_match:
  "compile_rule L raw file i = Ok r \<Longrightarrow> compile_match L (raw_match raw) = Ok (rule_match r) \<and>
     rule_name r = raw_name raw \<and> source_index r = i"
  by (auto simp: compile_rule_def and_then_Ok_iff split: if_splits)

lemma issue_codes:
  "i \<in> set (name_issues seen r) \<Longrightarrow> li_code i \<noteq> ''duplicate_match_shadowed''"
  "i \<in> set (content_issues r) \<Longrightarrow> li_code i \<noteq> ''duplicate_match_shadowed''"
  by (auto simp: name_issues_def content_issues_def lint_issue_of_def split: if_splits option.splits)

lemma match_issue:
  assumes "i \<in> set (match_issues seen r)"
  shows "seen_matches seen (raw_match (rp_rule r)) \<noteq> None \<and> li_rule_name i = Some (raw_name (rp_rule r)) \<and>
    li_rule_index i = Some (rp_index r)"
  using assms
  by (cases "seen_matches seen (raw_match (rp_rule r))") (auto simp: match_issues_def lint_issue_of_def)

text \<open>C29. A rule that the strict lint reports as shadowed is dead: in the policy compiled from the
  linted rules, leaving out that rule changes no evaluation.\<close>

theorem lint_shadowed_rule_is_dead:
  assumes "list_all2 (\<lambda>r c. compile_rule L (rp_rule r) (rp_file r) (rp_index r) = Ok c) records rules"
    and "i \<in> set (collect_strict_policy_issues records)" and "li_code i = ''duplicate_match_shadowed''"
  shows "\<exists>j < length rules. li_rule_name i = Some (rule_name (rules ! j)) \<and>
    li_rule_index i = Some (source_index (rules ! j)) \<and>
    (\<forall>is_match caps version.
       evaluate is_match caps \<lparr>policy_rules = rules, policy_version = version\<rparr> =
       evaluate is_match caps \<lparr>policy_rules = take j rules @ drop (Suc j) rules, policy_version = version\<rparr>)"
proof -
  let ?seen = "\<lparr>seen_names = Map.empty, seen_matches = Map.empty\<rparr>"
  from assms(2,3) have "i \<in> set (lint_loop records ?seen [])"
    by (auto simp: collect_strict_policy_issues_def split: if_splits)
  from lint_loop_mem [OF this] obtain j where j: "j < length records"
      "i \<in> set (match_issues (fold lint_note (take j records) ?seen) (records ! j))"
    using issue_codes assms(3) by (fastforce simp: Let_def)
  note issue = match_issue [OF j(2)]
  then have "\<exists>r \<in> set (take j records). raw_match (rp_rule r) = raw_match (rp_rule (records ! j))"
    unfolding seen_matches_fold by simp
  then obtain k where k: "k < j" "raw_match (rp_rule (records ! k)) = raw_match (rp_rule (records ! j))"
    using j(1) by (auto simp: in_set_conv_nth)
  have len: "length records = length rules" using assms(1) by (rule list_all2_lengthD)
  have comp: "compile_rule L (rp_rule (records ! n)) (rp_file (records ! n)) (rp_index (records ! n)) = Ok (rules ! n)"
    if "n < length records" for n
    using list_all2_nthD [OF assms(1) that] .
  have same: "rule_match (rules ! k) = rule_match (rules ! j)"
    using comp [of k] comp [of j] k j(1) by (metis compile_rule_match Inr_inject less_trans)
  have split: "rules = take j rules @ rules ! j # drop (Suc j) rules" using j(1) len by (simp add: id_take_nth_drop)
  have mem: "rules ! k \<in> set (take j rules)" using k(1) j(1) len by (auto simp: in_set_conv_nth)
  have "find P rules = find P (take j rules @ drop (Suc j) rules)" if "P (rules ! j) \<Longrightarrow> P (rules ! k)" for P
    using find_without_shadowed [OF mem, of P "rules ! j" "drop (Suc j) rules"] that split by metis
  then have find: "find (\<lambda>r. matches (rule_match r) caps) rules =
      find (\<lambda>r. matches (rule_match r) caps) (take j rules @ drop (Suc j) rules)" for caps
    by (simp add: same)
  have "evaluate is_match caps \<lparr>policy_rules = rules, policy_version = version\<rparr> =
       evaluate is_match caps \<lparr>policy_rules = take j rules @ drop (Suc j) rules, policy_version = version\<rparr>"
    for is_match caps version
    by (simp only: evaluate_def rule_result_def policy.simps find)
  moreover have "rule_name (rules ! j) = raw_name (rp_rule (records ! j))" "source_index (rules ! j) = rp_index (records ! j)"
    using compile_rule_match [OF comp [OF j(1)]] by simp_all
  ultimately show ?thesis using issue j(1) len by auto
qed

definition demo_lint_record :: "string \<Rightarrow> nat \<Rightarrow> raw_policy_record" where
  "demo_lint_record name i =
     \<lparr>rp_file = [''p.yaml''], rp_display = ''p.yaml'', rp_index = i,
      rp_rule = \<lparr>raw_name = name, raw_decision = RuleGommage, raw_hard_stop = False, raw_required_scope = None,
        raw_bind_input = False, raw_match = \<lparr>raw_any = [''x''], raw_all = [], raw_none = []\<rparr>,
        raw_reason = ''r''\<rparr>\<rparr>"

definition demo_lint_rule :: "string \<Rightarrow> nat \<Rightarrow> rule" where
  "demo_lint_rule name i =
     \<lparr>rule_name = name, rule_decision = RuleGommage, rule_hard_stop = False, rule_required_scope = None,
      rule_bind_input = False,
      rule_match = \<lparr>any_capability = [\<lambda>t. t = ''x''], all_capability = [], none_capability = []\<rparr>,
      rule_reason = ''r'', source_file = [''p.yaml''], source_index = i\<rparr>"

theorem lint_shadowed_rule_is_dead_witness:
  "\<exists>j < 2. \<forall>is_match caps.
     evaluate is_match caps \<lparr>policy_rules = [demo_lint_rule ''a'' 0, demo_lint_rule ''b'' 1], policy_version = ''v''\<rparr> =
     evaluate is_match caps \<lparr>policy_rules = take j [demo_lint_rule ''a'' 0, demo_lint_rule ''b'' 1] @
       drop (Suc j) [demo_lint_rule ''a'' 0, demo_lint_rule ''b'' 1], policy_version = ''v''\<rparr>"
proof -
  let ?records = "[demo_lint_record ''a'' 0, demo_lint_record ''b'' 1]"
  let ?rules = "[demo_lint_rule ''a'' 0, demo_lint_rule ''b'' 1]"
  have "compile_rule demo_policy_lib (rp_rule (demo_lint_record n i)) (rp_file (demo_lint_record n i))
      (rp_index (demo_lint_record n i)) = Ok (demo_lint_rule n i)" for n i
    by (simp add: compile_rule_def compile_match_def compile_globs_def demo_lint_record_def demo_lint_rule_def
        demo_policy_lib_def)
  then have c: "list_all2 (\<lambda>r c. compile_rule demo_policy_lib (rp_rule r) (rp_file r) (rp_index r) = Ok c) ?records ?rules"
    by simp
  have "list_ex (\<lambda>i. li_code i = ''duplicate_match_shadowed'') (collect_strict_policy_issues ?records)" by code_simp
  then obtain i where i: "i \<in> set (collect_strict_policy_issues ?records)" "li_code i = ''duplicate_match_shadowed''"
    by (auto simp only: list_ex_iff)
  from lint_shadowed_rule_is_dead [OF c i] obtain j where j: "j < length ?rules" "\<And>is_match caps version.
      evaluate is_match caps \<lparr>policy_rules = ?rules, policy_version = version\<rparr> =
      evaluate is_match caps \<lparr>policy_rules = take j ?rules @ drop (Suc j) ?rules, policy_version = version\<rparr>"
    by blast
  from j(1) have "j < 2" by simp
  with j(2) show ?thesis by blast
qed

end
