(* ===== verification/Policy_Suggest_Laws.thy ===== *)
theory Policy_Suggest_Laws
  imports Policy_Tools_Laws
begin

text \<open>
  What \<open>gommage policy suggest\<close> promises: the names of suggestions are slugs, every audited decision is
  accounted for, and a suggested rule, appended to the active policy, decides the call it was made from
  as its fixture expects and leaves alone every call that the policy covers.
\<close>

section \<open>Slugs\<close>

definition slug_char :: "char \<Rightarrow> bool" where
  "slug_char c \<longleftrightarrow> is_ascii_lowercase c \<or> is_ascii_digit c \<or> c = CHR ''-''"

text \<open>No dash at the start and no two dashes in a row.\<close>

definition slug_prefix :: "string \<Rightarrow> bool" where
  "slug_prefix s \<longleftrightarrow> list_all slug_char s \<and> (s \<noteq> [] \<longrightarrow> hd s \<noteq> CHR ''-'') \<and>
     successively (\<lambda>a b. a \<noteq> CHR ''-'' \<or> b \<noteq> CHR ''-'') s"

definition is_slug :: "string \<Rightarrow> bool" where
  "is_slug s \<longleftrightarrow> slug_prefix s \<and> s \<noteq> [] \<and> length s \<le> 64 \<and> last s \<noteq> CHR ''-''"

lemma lowered_char:
  assumes "is_ascii_alphanumeric c"
  shows "slug_char (to_ascii_lowercase c) \<and> to_ascii_lowercase c \<noteq> CHR ''-''"
proof -
  have "of_char (to_ascii_lowercase c) \<noteq> (of_char (CHR ''-'') :: nat)"
    using assms by (auto simp: to_ascii_lowercase_def char_class_defs of_char_of)
  then have "to_ascii_lowercase c \<noteq> CHR ''-''" by metis
  with assms show ?thesis
    by (auto simp: slug_char_def to_ascii_lowercase_def char_class_defs of_char_of)
qed

lemma slug_prefix_snoc:
  "slug_prefix s \<Longrightarrow> slug_char c \<Longrightarrow> c \<noteq> CHR ''-'' \<or> s \<noteq> [] \<and> last s \<noteq> CHR ''-'' \<Longrightarrow> slug_prefix (s @ [c])"
  by (auto simp: slug_prefix_def successively_append_iff hd_append)

lemma slug_loop_prefix:
  "slug_prefix slug \<Longrightarrow> (dash \<longleftrightarrow> slug \<noteq> [] \<and> last slug = CHR ''-'') \<Longrightarrow> slug_prefix (slug_loop cs slug dash)"
proof (induction cs slug dash rule: slug_loop.induct)
  case (2 c cs slug dash)
  show ?case
  proof (cases "is_ascii_alphanumeric c")
    case True
    then show ?thesis using "2.IH"(1) [OF True] "2.prems" lowered_char [OF True] by (simp add: slug_prefix_snoc)
  next
    case False
    then show ?thesis
      using "2.IH"(2,3) [OF False] "2.prems" by (auto simp: slug_prefix_snoc slug_char_def)
  qed
qed simp

lemma pop_dashes_split: "\<exists>k. s = pop_dashes s @ replicate k (CHR ''-'')"
proof -
  have "rev s = takeWhile (\<lambda>c. c = CHR ''-'') (rev s) @ dropWhile (\<lambda>c. c = CHR ''-'') (rev s)" by simp
  moreover have "takeWhile (\<lambda>c. c = CHR ''-'') (rev s) =
      replicate (length (takeWhile (\<lambda>c. c = CHR ''-'') (rev s))) (CHR ''-'')"
    by (rule replicate_length_same [symmetric]) (auto dest: set_takeWhileD)
  ultimately show ?thesis unfolding pop_dashes_def by (metis rev_append rev_replicate rev_rev_ident)
qed

lemma pop_dashes_last: "pop_dashes s \<noteq> [] \<Longrightarrow> last (pop_dashes s) \<noteq> CHR ''-''"
  unfolding pop_dashes_def last_rev rev_is_Nil_conv by (rule hd_dropWhile)

lemma slug_prefix_take: "slug_prefix (s @ t) \<Longrightarrow> slug_prefix s"
  by (auto simp: slug_prefix_def successively_append_iff)

lemma pop_dashes_prefix: "slug_prefix s \<Longrightarrow> slug_prefix (pop_dashes s) \<and> (pop_dashes s = [] \<longleftrightarrow> s = [])"
proof -
  assume s: "slug_prefix s"
  obtain k where k: "s = pop_dashes s @ replicate k (CHR ''-'')" using pop_dashes_split by blast
  have "s = []" if "pop_dashes s = []"
    using s k that by (cases k) (auto simp: slug_prefix_def)
  moreover have "slug_prefix (pop_dashes s)" using s k slug_prefix_take by metis
  moreover have "pop_dashes [] = []" by (simp add: pop_dashes_def)
  ultimately show ?thesis by auto
qed

lemma pop_dashes_length: "length (pop_dashes s) \<le> length s"
  unfolding pop_dashes_def using length_dropWhile_le by (metis length_rev)

text \<open>The parts of a suggested name are slugs: from one to sixty-four lower-case letters, digits and
  dashes, with no dash at either end and no two in a row, whatever the text.\<close>

lemma slugify_is_slug: "is_slug (slugify value)"
proof -
  define slug where "slug = pop_dashes (slug_loop value [] False)"
  define slug' where "slug' = (if slug = [] then ''entry'' else slug)"
  have "slug_prefix (slug_loop value [] False)" by (rule slug_loop_prefix) (simp_all add: slug_prefix_def)
  then have "slug_prefix slug" by (simp add: slug_def pop_dashes_prefix)
  moreover have "slug_prefix ''entry''" by code_simp
  ultimately have p: "slug_prefix slug'" "slug' \<noteq> []" by (simp_all add: slug'_def)
  have l: "last slug' \<noteq> CHR ''-''" using pop_dashes_last by (auto simp: slug'_def slug_def)
  have t: "slug_prefix (take 64 slug')" using p(1) slug_prefix_take [of "take 64 slug'" "drop 64 slug'"] by simp
  have "length (pop_dashes (take 64 slug')) \<le> 64" using pop_dashes_length [of "take 64 slug'"] by simp
  moreover have "slugify value = (if 64 < length slug' then pop_dashes (take 64 slug') else slug')"
    by (simp add: slugify_def slug'_def slug_def Let_def)
  ultimately show ?thesis
    using p l t pop_dashes_prefix [OF t] pop_dashes_last [of "take 64 slug'"] by (auto simp: is_slug_def)
qed

section \<open>Every decision is accounted for\<close>

text \<open>What the loop keeps: the counters add up, and each group holds evidence that no rule of the active
  policy matches.\<close>

definition group_ok :: "(string \<Rightarrow> string \<Rightarrow> bool) \<Rightarrow> policy \<Rightarrow> policy_suggestion \<Rightarrow> bool" where
  "group_ok is_match p g \<longleftrightarrow> ps_evidence g \<noteq> [] \<and> list_all (\<lambda>ev. sv_capabilities ev \<noteq> [] \<and>
     (\<exists>active. evaluate is_match (sv_capabilities ev) p = Some active \<and> eval_matched active = None)) (ps_evidence g)"

definition evidence_count :: "policy_suggestion list \<Rightarrow> nat" where
  "evidence_count gs = sum_list (map (\<lambda>g. length (ps_evidence g)) gs)"

definition suggest_ok :: "(string \<Rightarrow> string \<Rightarrow> bool) \<Rightarrow> policy \<Rightarrow> nat \<Rightarrow> suggest_state \<Rightarrow> bool" where
  "suggest_ok is_match p n s \<longleftrightarrow>
     su_decisions (ss_summary s) = n \<and>
     n = evidence_count (ss_suggestions s) + su_covered_by_active_policy (ss_summary s) +
       su_skipped_empty_capabilities (ss_summary s) \<and>
     list_all (group_ok is_match p) (ss_suggestions s) \<and>
     (\<forall>k i. ss_by_key s k = Some i \<longrightarrow> i < length (ss_suggestions s))"

lemma evidence_count_update:
  "i < length gs \<Longrightarrow> evidence_count (gs[i := (gs ! i)\<lparr>ps_evidence := ps_evidence (gs ! i) @ [ev]\<rparr>]) =
     Suc (evidence_count gs)"
  by (induction gs arbitrary: i) (auto simp: evidence_count_def split: nat.split)

lemma suggest_step_ok:
  assumes "suggest_ok is_match p n s" and "suggest_step Y is_match p r s = Ok s'"
  shows "suggest_ok is_match p (Suc n) s'"
proof -
  let ?entry = "dl_entry r"
  let ?key = "suggestion_key (ae_tool ?entry) (ae_decision ?entry) (ae_capabilities ?entry)"
  show ?thesis
  proof (cases "ae_capabilities ?entry = []")
    case True
    with assms show ?thesis by (auto simp: suggest_step_def suggest_ok_def Let_def)
  next
    case False
    with assms(2) obtain active where active: "evaluate is_match (ae_capabilities ?entry) p = Some active"
      by (auto simp: suggest_step_def Let_def and_then_Ok_iff evaluated_def split: option.splits)
    show ?thesis
    proof (cases "eval_matched active")
      case (Some m)
      with assms active False show ?thesis
        by (auto simp: suggest_step_def suggest_ok_def Let_def evaluated_def)
    next
      case None
      let ?ev = "evidence_from_record r active (policy_version p)"
      have ev: "sv_capabilities ?ev = ae_capabilities ?entry" by (simp add: evidence_from_record_def Let_def)
      show ?thesis
      proof (cases "ss_by_key s ?key")
        case (Some i)
        then have i: "i < length (ss_suggestions s)" using assms(1) by (simp add: suggest_ok_def)
        have "group_ok is_match p (ss_suggestions s ! i)" using assms(1) i by (simp add: suggest_ok_def list_all_length)
        then have "group_ok is_match p ((ss_suggestions s ! i)\<lparr>ps_evidence := ps_evidence (ss_suggestions s ! i) @ [?ev]\<rparr>)"
          using None active False ev by (simp add: group_ok_def)
        with assms None active False Some i show ?thesis
          by (auto simp: suggest_step_def suggest_ok_def Let_def evaluated_def evidence_count_update list_all_length nth_list_update)
      next
        case key: None
        then obtain g where "build_policy_suggestion Y r ?ev = Ok g" "ss_suggestions s' = ss_suggestions s @ [g]"
            "ss_by_key s' = (ss_by_key s)(?key \<mapsto> length (ss_suggestions s))"
            "ss_summary s' = (ss_summary s)\<lparr>su_decisions := su_decisions (ss_summary s) + 1\<rparr>"
          using assms(2) None active False
          by (auto simp: suggest_step_def Let_def evaluated_def and_then_Ok_iff)
        moreover then have "ps_evidence g = [?ev]" by (auto simp: build_policy_suggestion_def Let_def and_then_Ok_iff)
        ultimately show ?thesis
          using assms(1) None active False ev
          by (auto simp: suggest_ok_def group_ok_def evidence_count_def less_SucI)
      qed
    qed
  qed
qed

lemma suggest_loop_ok:
  "suggest_ok is_match p n s \<Longrightarrow> suggest_loop Y is_match p rs s = Ok s' \<Longrightarrow> suggest_ok is_match p (n + length rs) s'"
proof (induction rs arbitrary: n s)
  case (Cons r rs)
  then obtain s1 where s1: "suggest_step Y is_match p r s = Ok s1" "suggest_loop Y is_match p rs s1 = Ok s'"
    by (auto simp: and_then_Ok_iff)
  from Cons.IH [OF suggest_step_ok [OF Cons.prems(1) s1(1)] s1(2)] show ?case by simp
qed simp

text \<open>No audited decision is lost: each one is evidence of exactly one suggestion, or counted as
  covered by the active policy, or counted as having no capabilities; and the evidence is of calls that
  the active policy leaves to the closing denial, no rule and no hard stop matching them.\<close>

theorem suggest_accounts_for_decisions:
  assumes "build_policy_suggest_report Y H I = Ok rep"
  shows "\<exists>p scan. home_policy H ''active policy for policy suggest'' = Ok p \<and> input_scan I = Ok scan \<and>
    su_decisions (sr_summary rep) = length (scan_decisions scan) \<and>
    length (scan_decisions scan) = su_evidence (sr_summary rep) + su_covered_by_active_policy (sr_summary rep) +
      su_skipped_empty_capabilities (sr_summary rep) \<and>
    su_evidence (sr_summary rep) = evidence_count (sr_suggestions rep) \<and>
    list_all (group_ok (th_glob H) p) (sr_suggestions rep)"
proof -
  from assms obtain p scan s where *: "home_policy H ''active policy for policy suggest'' = Ok p" "input_scan I = Ok scan"
      "suggest_loop Y (th_glob H) p (scan_decisions scan) (suggest_start scan) = Ok s"
      "sr_suggestions rep = ss_suggestions s"
      "sr_summary rep = (ss_summary s)\<lparr>su_suggestions := length (ss_suggestions s),
              su_evidence := evidence_count (ss_suggestions s)\<rparr>"
    by (auto simp: build_policy_suggest_report_def and_then_Ok_iff evidence_count_def)
  have "suggest_ok (th_glob H) p 0 (suggest_start scan)"
    by (simp add: suggest_ok_def suggest_start_def evidence_count_def)
  from suggest_loop_ok [OF this *(3)] * show ?thesis by (auto simp: suggest_ok_def)
qed

definition demo_suggest_yaml :: suggest_yaml where
  "demo_suggest_yaml = \<lparr>sy_rules = (\<lambda>rs. Ok ''- name: r''), sy_document = (\<lambda>cs. Ok ''version: 1'')\<rparr>"

definition demo_audit_input :: replay_input where
  "demo_audit_input =
     \<lparr>ri_codec = demo_daemon_codec, ri_audit_path = [''a''], ri_audit = Some (''{}'' @ [NL]),
      ri_audit_missing = [], ri_audit_fault = None\<rparr>"

theorem suggest_accounts_for_decisions_witness:
  "\<exists>rep scan. build_policy_suggest_report demo_suggest_yaml demo_tool_home demo_audit_input = Ok rep \<and>
     input_scan demo_audit_input = Ok scan \<and> length (scan_decisions scan) = su_evidence (sr_summary rep) +
       su_covered_by_active_policy (sr_summary rep) + su_skipped_empty_capabilities (sr_summary rep)"
proof -
  have "is_ok (build_policy_suggest_report demo_suggest_yaml demo_tool_home demo_audit_input)" by code_simp
  then obtain rep where rep: "build_policy_suggest_report demo_suggest_yaml demo_tool_home demo_audit_input = Ok rep"
    by (auto simp: is_ok_iff)
  from suggest_accounts_for_decisions [OF rep] rep show ?thesis by blast
qed

section \<open>What a suggested rule decides\<close>

text \<open>The suggested rule matches a call exactly when each observed capability, read as a pattern, matches
  one of the call's.\<close>

definition fires_on :: "policy_lib \<Rightarrow> string list \<Rightarrow> capability list \<Rightarrow> bool" where
  "fires_on L observed caps \<longleftrightarrow>
     (\<forall>c \<in> set observed. \<exists>glob. glob_compile L c = Ok glob \<and> (\<exists>d \<in> set caps. glob d))"

lemma compiled_globs_match:
  assumes "compile_globs L patterns = Ok gs"
  shows "(\<forall>glob \<in> set gs. \<exists>d \<in> set caps. glob d) \<longleftrightarrow> fires_on L patterns caps"
  using assms unfolding compile_globs_def
  by (induction patterns arbitrary: gs)
    (auto simp: fires_on_def and_then_Ok_iff map_err_Ok_iff)

lemma suggested_rule_matches:
  assumes "compile_rule L (advisory_rule_from_audit entry line) src i = Ok r"
  shows "matches (rule_match r) caps \<longleftrightarrow> fires_on L (ae_capabilities entry) caps"
proof -
  let ?raw = "advisory_rule_from_audit entry line"
  have "compile_match L (raw_match ?raw) = Ok (rule_match r)"
    using assms by (auto simp: compile_rule_def and_then_Ok_iff split: if_splits)
  then obtain gs where gs: "compile_globs L (sorted_capability_patterns (ae_capabilities entry)) = Ok gs"
      "rule_match r = \<lparr>any_capability = [], all_capability = gs, none_capability = []\<rparr>"
    by (auto simp: compile_match_def and_then_Ok_iff compile_globs_def advisory_rule_from_audit_def)
  have "fires_on L (sorted_capability_patterns (ae_capabilities entry)) caps \<longleftrightarrow> fires_on L (ae_capabilities entry) caps"
    by (simp add: fires_on_def sorted_capability_patterns_def)
  with compiled_globs_match [OF gs(1), of caps] show ?thesis by (simp add: matches_iff gs(2))
qed

text \<open>C28. What a suggested rule does, compiled and appended to an active policy that has no rule for the
  audited capabilities. If each of these, read as a glob, matches one of them, then the call of the
  audit entry gets what the rule's fixture draft says, the audited decision (kind, hard-stop flag and
  scope, under the rule's own name); otherwise the rule is dead for it and the call stays denied as it
  was. A bound approval is not kept: the rule never asks for one. And nothing changes for calls that
  the policy covers. (A capability without characters special in globs matches itself;
  \<open>suggestion_warnings\<close> points out those with an asterisk, a question mark, a bracket or a brace, but
  not those with a backslash.)\<close>

theorem suggested_rule_decides:
  assumes "evaluate is_match (ae_capabilities entry) p = Some active" and "eval_matched active = None"
    and "compile_rule L (advisory_rule_from_audit entry line) src i = Ok r"
    and "p' = p\<lparr>policy_rules := policy_rules p @ [r]\<rparr>"
  shows "(\<exists>res. evaluate is_match (ae_capabilities entry) p' = Some res \<and>
      (if fires_on L (ae_capabilities entry) (ae_capabilities entry)
       then meets (sf_expect (suggested_fixture_case entry (advisory_rule_from_audit entry line))) res
       else res = active \<and> (\<exists>reason. eval_decision res = Gommage reason False)) \<and>
      (\<forall>scope reason. eval_decision res \<noteq> AskPicto scope reason True)) \<and>
    (\<forall>caps res. evaluate is_match caps p = Some res \<and> eval_matched res \<noteq> None \<longrightarrow>
      evaluate is_match caps p' = Some res)"
proof -
  let ?raw = "advisory_rule_from_audit entry line"
  let ?caps = "ae_capabilities entry"
  have r: "rule_name r = raw_name ?raw" "rule_decision r = raw_decision ?raw" "rule_hard_stop r = raw_hard_stop ?raw"
      "rule_required_scope r = raw_required_scope ?raw" "rule_bind_input r = False"
    using assms(3) by (auto simp: compile_rule_def and_then_Ok_iff advisory_rule_from_audit_def split: if_splits)
  have none: "hardstop_check is_match ?caps = None" "find (\<lambda>r. matches (rule_match r) ?caps) (policy_rules p) = None"
    using assms(1,2) by (auto simp: evaluate_def rule_result_def split: option.splits)
  then have found: "find (\<lambda>r. matches (rule_match r) ?caps) (policy_rules p') =
      (if fires_on L ?caps ?caps then Some r else None)"
    using suggested_rule_matches [OF assms(3), of ?caps] by (simp add: assms(4) find_append)
  have "\<exists>res. evaluate is_match ?caps p' = Some res \<and>
      (if fires_on L ?caps ?caps then meets (sf_expect (suggested_fixture_case entry ?raw)) res
       else res = active \<and> (\<exists>reason. eval_decision res = Gommage reason False)) \<and>
      (\<forall>scope reason. eval_decision res \<noteq> AskPicto scope reason True)"
  proof (cases "fires_on L ?caps ?caps")
    case True
    then have "evaluate is_match ?caps p' = rule_result r ?caps p'" using none(1) found by (simp add: evaluate_def)
    with True r show ?thesis
      by (cases "ae_decision entry")
        (auto simp: rule_result_def decision_from_rule_def advisory_rule_from_audit_def meets_def
          suggested_fixture_case_def snapshot_from_decision_def test_decision_of_def)
  next
    case False
    with assms(1) none found show ?thesis by (auto simp: evaluate_def assms(4))
  qed
  moreover have "evaluate is_match caps p' = Some res"
    if "evaluate is_match caps p = Some res" "eval_matched res \<noteq> None" for caps res
    using that
    by (auto simp: evaluate_def rule_result_def assms(4) find_append split: option.splits)
  ultimately show ?thesis by auto
qed

theorem suggested_rule_decides_witness:
  "\<exists>r res. compile_rule demo_policy_lib (advisory_rule_from_audit demo_decision_entry 1) [''s.yaml''] 0 = Ok r \<and>
     evaluate (\<lambda>p t. False) [''deploy:prod''] \<lparr>policy_rules = [r], policy_version = ''v''\<rparr> = Some res \<and>
     eval_decision res = Allow"
proof -
  let ?p = "\<lparr>policy_rules = [], policy_version = ''v''\<rparr> :: policy"
  have caps: "ae_capabilities demo_decision_entry = [''deploy:prod'']" "ae_decision demo_decision_entry = Allow"
    by (simp_all add: demo_decision_entry_def Let_def)
  have "case evaluate (\<lambda>p t. False) [''deploy:prod''] ?p of None \<Rightarrow> False | Some active \<Rightarrow> eval_matched active = None"
    by code_simp
  then obtain active where a: "evaluate (\<lambda>p t. False) (ae_capabilities demo_decision_entry) ?p = Some active"
      "eval_matched active = None"
    unfolding caps by (auto split: option.splits)
  have "is_ok (compile_rule demo_policy_lib (advisory_rule_from_audit demo_decision_entry 1) [''s.yaml''] 0)"
    by code_simp
  then obtain r where r: "compile_rule demo_policy_lib (advisory_rule_from_audit demo_decision_entry 1) [''s.yaml''] 0 = Ok r"
    by (auto simp: is_ok_iff)
  have "fires_on demo_policy_lib [''deploy:prod''] [''deploy:prod'']"
    by (simp add: fires_on_def demo_policy_lib_def)
  with conjunct1 [OF suggested_rule_decides [OF a r refl]] obtain res where res: "evaluate (\<lambda>p t. False) [''deploy:prod''] \<lparr>policy_rules = [r], policy_version = ''v''\<rparr> = Some res"
      "meets (sf_expect (suggested_fixture_case demo_decision_entry (advisory_rule_from_audit demo_decision_entry 1))) res"
    by (auto simp: caps(1))
  then have "eval_decision res = Allow"
    by (cases "eval_decision res")
      (simp_all add: caps meets_def suggested_fixture_case_def snapshot_from_decision_def test_decision_of_def)
  with r res(1) show ?thesis by blast
qed

end
