(* ===== verification/Inbox.thy ===== *)
theory Inbox
  imports Hook
begin

text \<open>
  The operator's side of the approval inbox (\<open>crates/gommage-cli/src/approval_cmd.rs\<close>): approving and
  denying a request, the signed callback, the sweep of stale requests, the listings, and the
  delivery of pending requests. The disk is that of the adapters, \<open>hook_disk\<close>; \<open>Display\<close> of a
  timestamp and the reader of a callback body are parameters.
\<close>

section \<open>Durations\<close>

text \<open>\<open>str::parse\<close> into an \<open>i64\<close>.\<close>

definition parse_i64 :: "string \<Rightarrow> int option" where
  "parse_i64 s =
     (case s of
        c # r \<Rightarrow>
          if c = CHR ''-''
          then (if r \<noteq> [] \<and> list_all is_ascii_digit r \<and> undec_digits r \<le> 2 ^ 63
                then Some (- int (undec_digits r)) else None)
          else map_option int (parse_unsigned (2 ^ 63) s)
      | [] \<Rightarrow> None)"

definition duration_parts :: "string \<Rightarrow> (string, string \<times> int) result" where
  "duration_parts raw =
     (let c = last raw
      in if c \<in> {CHR ''s'', CHR ''S''} then Ok (butlast raw, 1)
         else if c \<in> {CHR ''m'', CHR ''M''} then Ok (butlast raw, 60)
         else if c \<in> {CHR ''h'', CHR ''H''} then Ok (butlast raw, 3600)
         else if c \<in> {CHR ''d'', CHR ''D''} then Ok (butlast raw, 86400)
         else if is_ascii_digit c then Ok (raw, 1)
         else Err (''unsupported duration suffix '' @ debug_char_literal c @ ''; use s, m, h, or d''))"

definition parse_positive_duration_seconds :: "string \<Rightarrow> (string, int) result" where
  "parse_positive_duration_seconds raw0 =
     (let raw = trim raw0
      in if raw = [] then Err ''duration cannot be empty''
         else
           and_then (duration_parts raw) (\<lambda>(number, multiplier).
             case parse_i64 number of
               None \<Rightarrow> Err ''duration must start with a positive integer''
             | Some n \<Rightarrow>
                 (let seconds = n * multiplier
                  in if seconds < - (2 ^ 63) \<or> 2 ^ 63 \<le> seconds then Err ''duration is too large''
                     else if seconds < 1 then Err ''duration must be at least 1 second''
                     else Ok seconds)))"

definition parse_ttl_seconds :: "string \<Rightarrow> (string, int) result" where
  "parse_ttl_seconds raw =
     and_then (parse_positive_duration_seconds raw) (\<lambda>seconds.
       if \<not> (1 \<le> seconds \<and> seconds \<le> 86400)
       then Err ''ttl must be between 1 second and 24 hours'' else Ok seconds)"

section \<open>Errors, reports, the world\<close>

datatype tool_error =
    ToolText string
  | ToolCore gommage_error
  | ToolAudit audit_error
  | ToolDelivery delivery_error

record picto_report =
  pr_kind :: string
  pr_id :: string
  pr_scope :: string
  pr_input_bound :: bool
  pr_max_uses :: "32 word"
  pr_uses_remaining :: "32 word"
  pr_expires_at :: string

record action_report =
  ar_status :: string
  ar_request_id :: string
  ar_tool :: string
  ar_scope :: string
  ar_reason :: string
  ar_picto_id :: "string option"
  ar_picto :: "picto_report option"
  ar_next_action :: string
  ar_message :: string

text \<open>What one command meets: faults, clocks, the key file, a fresh UUID.\<close>

record tool_io =
  ti_ensured :: "(gommage_error, unit) result"
  ti_read :: read_fault
  ti_key :: "(string, string) result"
  ti_sqlite :: "(gommage_error, unit) result"
  ti_uuid :: string
  ti_create_now :: time
  ti_show_time :: "time \<Rightarrow> string"
  ti_faults :: io_faults
  ti_resolve_now :: time
  ti_audit_fault :: "string option"
  ti_event1 :: append_io
  ti_event2 :: append_io

definition tool_log ::
  "daemon_env \<Rightarrow> string \<Rightarrow> append_io \<Rightarrow> audit_event \<Rightarrow> hook_disk \<Rightarrow> (tool_error, unit) result \<times> hook_disk" where
  "tool_log D sk io event K =
     (case append_event (de_extern D) (de_audit D) sk (fst io) (snd io) event (hk_audit K) of
        (res, f) \<Rightarrow> (and_then (map_err ToolAudit res) (\<lambda>_. Ok ()), K\<lparr>hk_audit := f\<rparr>))"

definition tool_open_log :: "string option \<Rightarrow> hook_disk \<Rightarrow> (tool_error, unit) result \<times> hook_disk" where
  "tool_open_log fault K =
     (case audit_open fault (hk_audit K) of (res, f) \<Rightarrow> (map_err ToolAudit res, K\<lparr>hk_audit := f\<rparr>))"

definition tool_resolve ::
  "daemon_env \<Rightarrow> io_faults \<Rightarrow> time \<Rightarrow> string \<Rightarrow> approval_status \<Rightarrow> string \<Rightarrow> string option \<Rightarrow> hook_disk \<Rightarrow>
     (tool_error, approval_resolution) result \<times> hook_disk" where
  "tool_resolve D faults now rid status reason picto K =
     (case resolve (de_approvals D) faults now rid status reason picto (hk_approvals K) of
        (res, f) \<Rightarrow> (map_err ToolCore res, K\<lparr>hk_approvals := f\<rparr>))"

definition tool_get ::
  "daemon_env \<Rightarrow> read_fault \<Rightarrow> string \<Rightarrow> hook_disk \<Rightarrow> (tool_error, approval_state) result" where
  "tool_get D fault rid K =
     and_then (map_err ToolCore (get_approval (de_approvals D) fault rid (hk_approvals K))) (\<lambda>found.
       case found of
         None \<Rightarrow> Err (ToolText (''approval request '' @ debug_str rid @ '' not found''))
       | Some state \<Rightarrow> Ok state)"

definition resolved_event :: "approval_resolution \<Rightarrow> string option \<Rightarrow> audit_event" where
  "resolved_event r picto =
     ApprovalResolved (res_request_id r) (approval_status_str (res_status r)) (res_reason r) picto"

section \<open>Approving\<close>

definition create_grant ::
  "daemon_env \<Rightarrow> tool_io \<Rightarrow> string \<Rightarrow> approval_request \<Rightarrow> 32 word \<Rightarrow> int \<Rightarrow> string \<Rightarrow> hook_disk \<Rightarrow>
     (tool_error, picto) result \<times> hook_disk" where
  "create_grant D io sk request max_uses ttl reason K =
     (let pid = ''picto_'' @ ti_uuid io;
          created =
            (if req_bind_input request
             then create_for_input (de_extern D) (ti_create_now io) sk (hk_pictos K) pid
                    (req_required_scope request) (req_input_hash request) max_uses ttl reason False
             else create (de_extern D) (ti_create_now io) sk (hk_pictos K) pid
                    (req_required_scope request) max_uses ttl reason False)
      in case created of
           Err e \<Rightarrow> (Err (ToolCore e), K)
         | Ok (p, store) \<Rightarrow> (Ok p, K\<lparr>hk_pictos := store\<rparr>))"

definition created_event :: "tool_io \<Rightarrow> picto \<Rightarrow> audit_event" where
  "created_event io p =
     PictoCreated (picto_id p) (picto_scope p) (picto_max_uses p)
       (ti_show_time io (picto_ttl_expires_at p)) False"

definition approved_report ::
  "extern \<Rightarrow> string \<Rightarrow> approval_request \<Rightarrow> string \<Rightarrow> picto \<Rightarrow> action_report" where
  "approved_report E rid request reason p =
     (let bound = req_bind_input request
      in \<lparr>ar_status = ''approved'', ar_request_id = rid, ar_tool = req_tool request,
          ar_scope = picto_scope p, ar_reason = reason, ar_picto_id = Some (picto_id p),
          ar_picto = Some
            \<lparr>pr_kind = (if bound then ''exact_input'' else ''exact_scope''), pr_id = picto_id p,
             pr_scope = picto_scope p, pr_input_bound = bound, pr_max_uses = picto_max_uses p,
             pr_uses_remaining = (if picto_uses p \<le> picto_max_uses p then picto_max_uses p - picto_uses p else 0),
             pr_expires_at = rfc3339_format E (picto_ttl_expires_at p)\<rparr>,
          ar_next_action = ''retry_blocked_call'',
          ar_message = ''approved '' @ rid @
            (if bound then ''; minted input-bound picto for '' else ''; minted exact-scope picto for '') @
            picto_scope p\<rparr>)"

definition approve_request ::
  "daemon_env \<Rightarrow> tool_io \<Rightarrow> string \<Rightarrow> 32 word \<Rightarrow> int \<Rightarrow> string \<Rightarrow> hook_disk \<Rightarrow>
     (tool_error, action_report) result \<times> hook_disk" where
  "approve_request D io rid max_uses ttl reason K =
     then_do (and_then (map_err ToolCore (ti_ensured io)) (\<lambda>_. tool_get D (ti_read io) rid K), K) (\<lambda>state K0.
       if ap_status state \<noteq> Pending
       then (Err (ToolText (''approval request '' @ debug_str rid @ '' is '' @
               approval_status_str (ap_status state))), K0)
       else
         then_do (map_err ToolCore (load_key (ti_key io)), K0) (\<lambda>sk K1.
         then_do (map_err ToolCore (ti_sqlite io), K1) (\<lambda>_ K2.
         (let request = ap_request state;
              why = (if trim reason = [] then ''approved request '' @ rid else reason)
          in then_do (create_grant D io sk request max_uses ttl why K2) (\<lambda>p K3.
             then_do (tool_resolve D (ti_faults io) (ti_resolve_now io) rid Approved why
                 (Some (picto_id p)) K3) (\<lambda>resolution K4.
             then_do (tool_open_log (ti_audit_fault io) K4) (\<lambda>_ K5.
             then_do (tool_log D sk (ti_event1 io) (created_event io p) K5) (\<lambda>_ K6.
             then_do (tool_log D sk (ti_event2 io) (resolved_event resolution (res_picto_id resolution)) K6)
               (\<lambda>_ K7. (Ok (approved_report (de_extern D) rid request why p), K7))))))))))"

section \<open>Denying\<close>

definition deny_request ::
  "daemon_env \<Rightarrow> tool_io \<Rightarrow> string \<Rightarrow> string \<Rightarrow> hook_disk \<Rightarrow> (tool_error, action_report) result \<times> hook_disk" where
  "deny_request D io rid reason K =
     then_do (and_then (map_err ToolCore (ti_ensured io)) (\<lambda>_. tool_get D (ti_read io) rid K), K) (\<lambda>state K0.
       (let why = (if trim reason = [] then ''denied request '' @ rid else reason)
        in then_do (map_err ToolCore (load_key (ti_key io)), K0) (\<lambda>sk K1.
           then_do (tool_resolve D (ti_faults io) (ti_resolve_now io) rid Denied why None K1) (\<lambda>resolution K2.
           then_do (tool_open_log (ti_audit_fault io) K2) (\<lambda>_ K3.
           then_do (tool_log D sk (ti_event1 io) (resolved_event resolution None) K3) (\<lambda>_ K4.
             (Ok \<lparr>ar_status = ''denied'', ar_request_id = rid, ar_tool = req_tool (ap_request state),
                  ar_scope = req_required_scope (ap_request state), ar_reason = why, ar_picto_id = None,
                  ar_picto = None, ar_next_action = ''none'', ar_message = ''denied '' @ rid\<rparr>, K4)))))))"

section \<open>The signed callback\<close>

datatype callback_action = CallbackApprove | CallbackDeny

definition callback_action_str :: "callback_action \<Rightarrow> string" where
  "callback_action_str a = (case a of CallbackApprove \<Rightarrow> ''approve'' | CallbackDeny \<Rightarrow> ''deny'')"

record callback_payload =
  cb_kind :: "string option"
  cb_request_id :: string
  cb_action :: callback_action
  cb_nonce :: string
  cb_reason :: "string option"
  cb_ttl :: "int option"
  cb_uses :: "32 word option"

datatype callback_status = CallbackValid | CallbackApplied | CallbackRejected

record callback_report =
  cr_status :: callback_status
  cr_dry_run :: bool
  cr_request_id :: "string option"
  cr_action :: "callback_action option"
  cr_signature :: webhook_verification
  cr_nonce_match :: bool
  cr_pending :: bool
  cr_errors :: "string list"
  cr_outcome :: "action_report option"

definition callback_exit_code :: "callback_report \<Rightarrow> nat" where
  "callback_exit_code r = (if cr_status r \<in> {CallbackValid, CallbackApplied} then 0 else 1)"

record callback_options =
  co_body :: "(string, string) result"
  co_signature :: string
  co_timestamp :: string
  co_secret :: string
  co_max_age :: int
  co_now :: time
  co_dry_run :: bool

text \<open>A body that does not parse leaves an error, so the last case of \<open>approval_callback\<close> is not
  reached; it stands for the \<open>expect\<close> there. What the inbox says about the request: whether it is pending, whether the nonce is its nonce,
  and what is wrong.\<close>

definition callback_request_check ::
  "daemon_env \<Rightarrow> read_fault \<Rightarrow> callback_payload \<Rightarrow> hook_disk \<Rightarrow>
     (gommage_error, bool \<times> bool \<times> string list) result" where
  "callback_request_check D fault msg K =
     and_then (get_approval (de_approvals D) fault (cb_request_id msg) (hk_approvals K)) (\<lambda>found.
       case found of
         Some state \<Rightarrow>
           (let waiting = (ap_status state = Pending);
                nonce_match = (cb_nonce msg = approval_callback_nonce (de_extern D) (ap_request state))
            in Ok (waiting, nonce_match,
                 (if waiting then []
                  else [''approval request '' @ cb_request_id msg @ '' is '' @
                          approval_status_str (ap_status state)]) @
                 (if nonce_match then [] else [''callback nonce does not match pending request''])))
       | None \<Rightarrow> Ok (False, False, [''approval request '' @ cb_request_id msg @ '' not found'']))"

definition apply_callback ::
  "daemon_env \<Rightarrow> tool_io \<Rightarrow> callback_payload \<Rightarrow> hook_disk \<Rightarrow> (tool_error, action_report) result \<times> hook_disk" where
  "apply_callback D io msg K =
     (let reason = (case cb_reason msg of Some r \<Rightarrow> r
                    | None \<Rightarrow> ''signed callback '' @ callback_action_str (cb_action msg))
      in case cb_action msg of
           CallbackApprove \<Rightarrow>
             approve_request D io (cb_request_id msg)
               (case cb_uses msg of Some n \<Rightarrow> n | None \<Rightarrow> 1)
               (case cb_ttl msg of Some t \<Rightarrow> t | None \<Rightarrow> 600) reason K
         | CallbackDeny \<Rightarrow> deny_request D io (cb_request_id msg) reason K)"

definition approval_callback ::
  "daemon_env \<Rightarrow> (string \<Rightarrow> (string, callback_payload) result) \<Rightarrow> callback_options \<Rightarrow> tool_io \<Rightarrow> read_fault \<Rightarrow>
     hook_disk \<Rightarrow> (tool_error, callback_report) result \<times> hook_disk" where
  "approval_callback D parse opts io fault K =
     (case co_body opts of
        Err e \<Rightarrow> (Err (ToolText e), K)
      | Ok content \<Rightarrow>
          (let verification = verify_webhook_body (de_extern D) (co_now opts) content (co_secret opts)
                 (co_timestamp opts) (co_signature opts) (co_max_age opts);
               msg = parse content;
               errors1 = (case wv_error verification of Some e \<Rightarrow> [e] | None \<Rightarrow> []) @
                 (case msg of
                    Ok p \<Rightarrow> if cb_kind p \<noteq> Some ''gommage_approval_callback''
                            then [''callback kind must be gommage_approval_callback''] else []
                  | Err e \<Rightarrow> [''callback body is not valid JSON: '' @ e]);
               checked = (case msg of Ok p \<Rightarrow> callback_request_check D fault p K | Err _ \<Rightarrow> Ok (False, False, []))
           in case checked of
                Err e \<Rightarrow> (Err (ToolCore e), K)
              | Ok (waiting, nonce_match, errors2) \<Rightarrow>
                  (let errors = errors1 @ errors2;
                       report = (\<lambda>status outcome.
                         \<lparr>cr_status = status, cr_dry_run = co_dry_run opts,
                          cr_request_id = (case msg of Ok p \<Rightarrow> Some (cb_request_id p) | Err _ \<Rightarrow> None),
                          cr_action = (case msg of Ok p \<Rightarrow> Some (cb_action p) | Err _ \<Rightarrow> None),
                          cr_signature = verification, cr_nonce_match = nonce_match, cr_pending = waiting,
                          cr_errors = errors, cr_outcome = outcome\<rparr>)
                   in if errors \<noteq> [] then (Ok (report CallbackRejected None), K)
                      else if co_dry_run opts then (Ok (report CallbackValid None), K)
                      else
                        (case msg of
                           Err _ \<Rightarrow> (Ok (report CallbackRejected None), K)
                         | Ok p \<Rightarrow>
                             then_do (apply_callback D io p K)
                               (\<lambda>outcome K1. (Ok (report CallbackApplied (Some outcome)), K1))))))"

end
