(* ===== verification/Inbox_Sweep.thy ===== *)
theory Inbox_Sweep
  imports Inbox Replay
begin

text \<open>
  The rest of the operator's inbox: listings, the sweep of stale requests, the delivery of pending
  ones and the dead-letter listing (\<open>crates/gommage-cli/src/approval_cmd.rs\<close>), the payloads of the chat
  providers, the replay of a request under the current policy, and the evidence bundle with its
  redaction (\<open>crates/gommage-cli/src/approval_workflow.rs\<close>). The static templates are data.
\<close>

section \<open>Listings\<close>

datatype status_arg = StatusAll | StatusPending | StatusApproved | StatusDenied

fun status_of_arg :: "status_arg \<Rightarrow> approval_status option" where
  "status_of_arg StatusAll = None"
| "status_of_arg StatusPending = Some Pending"
| "status_of_arg StatusApproved = Some Approved"
| "status_of_arg StatusDenied = Some Denied"

definition approval_list ::
  "daemon_env \<Rightarrow> read_fault \<Rightarrow> status_arg \<Rightarrow> hook_disk \<Rightarrow> (tool_error, approval_state list) result" where
  "approval_list D fault arg K =
     and_then (map_err ToolCore (list_states (de_approvals D) fault (hk_approvals K))) (\<lambda>states.
       Ok (case status_of_arg arg of
             Some st \<Rightarrow> filter (\<lambda>s. ap_status s = st) states
           | None \<Rightarrow> states))"

text \<open>The newest letters first.\<close>

definition approval_dlq ::
  "daemon_env \<Rightarrow> string option \<Rightarrow> nat option \<Rightarrow> hook_disk \<Rightarrow> (tool_error, dead_letter list) result" where
  "approval_dlq D fault limit K =
     and_then (map_err ToolDelivery (dead_letter_list (de_letters D) fault (hk_letters K))) (\<lambda>entries.
       Ok (case limit of Some n \<Rightarrow> take n (rev entries) | None \<Rightarrow> rev entries))"

section \<open>Stale requests\<close>

definition approval_age_seconds :: "approval_state \<Rightarrow> time \<Rightarrow> nat option" where
  "approval_age_seconds state now =
     (let duration = now - req_created_at (ap_request state)
      in if duration < 0 then None else Some (nat (duration div nanos_per_second)))"

text \<open>\<open>older_than as u64\<close>.\<close>

definition as_u64 :: "int \<Rightarrow> nat" where
  "as_u64 i = nat (i mod 2 ^ 64)"

record stale_item =
  sw_id :: string
  sw_status :: string
  sw_created_at :: string
  sw_age_seconds :: nat
  sw_tool :: string
  sw_scope :: string

record stale_report =
  st_apply :: bool
  st_older_than :: int
  st_matched :: nat
  st_denied :: nat
  st_requests :: "stale_item list"

definition stale_requests :: "time \<Rightarrow> int \<Rightarrow> nat option \<Rightarrow> approval_state list \<Rightarrow> (approval_state \<times> nat) list" where
  "stale_requests now older_than limit states =
     (let aged = concat (map (\<lambda>s. case approval_age_seconds s now of None \<Rightarrow> [] | Some age \<Rightarrow> [(s, age)]) states);
          stale = sort_key (\<lambda>(s, _). req_created_at (ap_request s)) (filter (\<lambda>(_, age). as_u64 older_than \<le> age) aged)
      in case limit of Some n \<Rightarrow> take n stale | None \<Rightarrow> stale)"

definition stale_item_of :: "extern \<Rightarrow> string \<Rightarrow> approval_state \<Rightarrow> nat \<Rightarrow> stale_item" where
  "stale_item_of E status state age =
     \<lparr>sw_id = req_id (ap_request state), sw_status = status,
      sw_created_at = rfc3339_format E (req_created_at (ap_request state)), sw_age_seconds = age,
      sw_tool = req_tool (ap_request state), sw_scope = req_required_scope (ap_request state)\<rparr>"

text \<open>What each denial of the sweep meets.\<close>

type_synonym stale_io = "io_faults \<times> time \<times> append_io"

definition deny_stale_one ::
  "daemon_env \<Rightarrow> string option \<Rightarrow> string \<Rightarrow> stale_io \<Rightarrow> approval_state \<Rightarrow> hook_disk \<Rightarrow>
     (tool_error, string) result \<times> hook_disk" where
  "deny_stale_one D writer reason io state K =
     (case writer of
        None \<Rightarrow> (Ok ''dry_run'', K)
      | Some sk \<Rightarrow>
          then_do (tool_resolve D (fst io) (fst (snd io)) (req_id (ap_request state)) Denied reason None K)
            (\<lambda>resolution K1.
              then_do (tool_log D sk (snd (snd io)) (resolved_event resolution None) K1) (\<lambda>_ K2. (Ok ''denied'', K2))))"

fun deny_stale_loop ::
  "daemon_env \<Rightarrow> string option \<Rightarrow> string \<Rightarrow> (nat \<Rightarrow> stale_io) \<Rightarrow> nat \<Rightarrow> (approval_state \<times> nat) list \<Rightarrow>
     stale_report \<Rightarrow> hook_disk \<Rightarrow> (tool_error, stale_report) result \<times> hook_disk" where
  "deny_stale_loop D writer reason ios i [] rep K = (Ok rep, K)"
| "deny_stale_loop D writer reason ios i ((state, age) # rest) rep K =
     then_do (deny_stale_one D writer reason (ios i) state K) (\<lambda>status K1.
       deny_stale_loop D writer reason ios (Suc i) rest
         (rep\<lparr>st_denied := (if writer = None then st_denied rep else st_denied rep + 1),
              st_requests := st_requests rep @ [stale_item_of (de_extern D) status state age]\<rparr>) K1)"

text \<open>The key is loaded, and the log opened, only if something is to be denied.\<close>

definition stale_writer ::
  "tool_io \<Rightarrow> bool \<Rightarrow> (approval_state \<times> nat) list \<Rightarrow> hook_disk \<Rightarrow> (tool_error, string option) result \<times> hook_disk" where
  "stale_writer io apply stale K =
     (if apply \<and> stale \<noteq> []
      then then_do (and_then (map_err ToolCore (ti_ensured io)) (\<lambda>_. map_err ToolCore (load_key (ti_key io))), K)
             (\<lambda>sk K1. then_do (tool_open_log (ti_audit_fault io) K1) (\<lambda>_ K2. (Ok (Some sk), K2)))
      else (Ok None, K))"

definition approval_deny_stale ::
  "daemon_env \<Rightarrow> tool_io \<Rightarrow> (nat \<Rightarrow> stale_io) \<Rightarrow> time \<Rightarrow> int \<Rightarrow> bool \<Rightarrow> nat option \<Rightarrow> string \<Rightarrow> hook_disk \<Rightarrow>
     (tool_error, stale_report) result \<times> hook_disk" where
  "approval_deny_stale D io ios now older_than apply limit reason K =
     then_do (map_err ToolCore (pending (de_approvals D) (ti_read io) (hk_approvals K)), K) (\<lambda>states K0.
       (let stale = stale_requests now older_than limit states;
            rep = \<lparr>st_apply = apply, st_older_than = older_than, st_matched = length stale, st_denied = 0, st_requests = []\<rparr>;
            why = (if trim reason = [] then ''stale approval request closed by operator sweep'' else reason)
        in then_do (stale_writer io apply stale K0) (\<lambda>writer K1.
             deny_stale_loop D writer why ios 0 stale rep K1)))"

section \<open>Payloads\<close>

datatype webhook_provider = GenericProvider | SlackProvider | DiscordProvider

definition webhook_provider_str :: "webhook_provider \<Rightarrow> string" where
  "webhook_provider_str p =
     (case p of GenericProvider \<Rightarrow> ''generic'' | SlackProvider \<Rightarrow> ''slack'' | DiscordProvider \<Rightarrow> ''discord'')"

definition approval_message :: "approval_request \<Rightarrow> string" where
  "approval_message r =
     ''Gommage approval required: '' @ req_required_scope r @ '' for '' @ req_tool r @ '' ('' @ req_id r @ '')''"

definition picto_binding_label :: "approval_request \<Rightarrow> string" where
  "picto_binding_label r = (if req_bind_input r then ''exact tool input'' else ''scope only'')"

definition backslash_n :: string where "backslash_n = [CHR 0x5C, CHR ''n'']"

definition code_span :: "string \<Rightarrow> string" where "code_span s = [CHR 0x60] @ s @ [CHR 0x60]"

definition mrkdwn :: "string \<Rightarrow> json" where
  "mrkdwn s = JObject [(''type'', jstr ''mrkdwn''), (''text'', jstr s)]"

definition slack_payload :: "approval_request \<Rightarrow> json" where
  "slack_payload r =
     JObject
       [(''text'', jstr (approval_message r)),
        (''blocks'', JArray
          [JObject [(''type'', jstr ''section''),
             (''text'', mrkdwn (''*Gommage approval request*'' @ backslash_n @ approval_message r))],
           JObject [(''type'', jstr ''section''),
             (''fields'', JArray
               [mrkdwn (''*ID*'' @ backslash_n @ code_span (req_id r)),
                mrkdwn (''*Scope*'' @ backslash_n @ code_span (req_required_scope r)),
                mrkdwn (''*Tool*'' @ backslash_n @ code_span (req_tool r)),
                mrkdwn (''*Input*'' @ backslash_n @ code_span (req_input_hash r)),
                mrkdwn (''*Binding*'' @ backslash_n @ picto_binding_label r)])],
           JObject [(''type'', jstr ''section''),
             (''text'', mrkdwn (''Approve: '' @ code_span (''gommage approval approve '' @ req_id r @ '' --ttl 10m --uses 1'') @
                backslash_n @ ''Deny: '' @ code_span (''gommage approval deny '' @ req_id r @ '' --reason <reason>'')))]])]"

definition discord_field :: "string \<Rightarrow> string \<Rightarrow> bool \<Rightarrow> json" where
  "discord_field name val inlined = JObject [(''name'', jstr name), (''value'', jstr val), (''inline'', JBool inlined)]"

definition discord_payload :: "approval_request \<Rightarrow> json" where
  "discord_payload r =
     JObject
       [(''content'', jstr (approval_message r)),
        (''allowed_mentions'', JObject [(''parse'', JArray [])]),
        (''embeds'', JArray [JObject
          [(''title'', jstr ''Gommage approval request''),
           (''description'', jstr (req_reason r)),
           (''fields'', JArray
             [discord_field ''ID'' (code_span (req_id r)) False,
              discord_field ''Scope'' (code_span (req_required_scope r)) True,
              discord_field ''Tool'' (code_span (req_tool r)) True,
              discord_field ''Input'' (code_span (req_input_hash r)) False,
              discord_field ''Binding'' (picto_binding_label r) True,
              discord_field ''Approve'' (code_span (''gommage approval approve '' @ req_id r @ '' --ttl 10m --uses 1'')) False,
              discord_field ''Deny'' (code_span (''gommage approval deny '' @ req_id r @ '' --reason <reason>'')) False])]])]"

definition webhook_payload :: "extern \<Rightarrow> approval_request \<Rightarrow> webhook_provider \<Rightarrow> json" where
  "webhook_payload E r provider =
     (case provider of
        GenericProvider \<Rightarrow> approval_webhook_generic_payload E r
      | SlackProvider \<Rightarrow> slack_payload r
      | DiscordProvider \<Rightarrow> discord_payload r)"

section \<open>Delivering pending requests\<close>

record delivery_report =
  dr_id :: string
  dr_delivery_status :: string
  dr_attempts :: "32 word option"
  dr_payload :: "json option"
  dr_body :: "string option"
  dr_delivery_signature :: "webhook_report option"
  dr_http_status :: "int option"
  dr_dead_letter_id :: "string option"
  dr_error :: "string option"

record webhook_run =
  wr_sent :: nat
  wr_failed :: nat
  wr_requests :: "delivery_report list"

record webhook_options =
  wo_url :: string
  wo_provider :: webhook_provider
  wo_dry_run :: bool
  wo_limit :: "nat option"
  wo_signing_secret :: "string option"
  wo_signing_key_id :: "string option"
  wo_attempts :: "32 word"
  wo_backoff_ms :: "64 word"

text \<open>What the delivery of one request meets.\<close>

record delivery_io =
  di_sign_now :: time
  di_curl :: "nat \<Rightarrow> string list \<Rightarrow> string \<Rightarrow> curl_run"
  di_letter_stamp :: delivery_stamp
  di_letter_write :: write_outcome
  di_event1 :: append_io
  di_event2 :: append_io

definition log_if_open ::
  "daemon_env \<Rightarrow> string option \<Rightarrow> append_io \<Rightarrow> audit_event \<Rightarrow> hook_disk \<Rightarrow> (tool_error, unit) result \<times> hook_disk" where
  "log_if_open D writer io event K = (case writer of None \<Rightarrow> (Ok (), K) | Some sk \<Rightarrow> tool_log D sk io event K)"

definition report_delivery ::
  "daemon_env \<Rightarrow> string option \<Rightarrow> webhook_options \<Rightarrow> delivery_io \<Rightarrow> approval_request \<Rightarrow> delivery_outcome \<Rightarrow>
     webhook_run \<Rightarrow> hook_disk \<Rightarrow> (tool_error, webhook_run) result \<times> hook_disk" where
  "report_delivery D writer opts io request outcome rep K =
     (let rid = req_id request; url = wo_url opts; source = webhook_source_str SourceCli;
          sig = map_option signature_audit_summary (do_signature outcome)
      in case do_kind outcome of
           Delivered \<Rightarrow>
             then_do (log_if_open D writer (di_event1 io)
                 (ApprovalWebhookDelivered rid url (do_http_status outcome) (do_attempts outcome) source sig) K)
               (\<lambda>_ K1. (Ok (rep\<lparr>wr_sent := wr_sent rep + 1,
                  wr_requests := wr_requests rep @
                    [\<lparr>dr_id = rid, dr_delivery_status = ''sent'', dr_attempts = Some (do_attempts outcome), dr_payload = None,
                      dr_body = None, dr_delivery_signature = do_signature outcome,
                      dr_http_status = do_http_status outcome, dr_dead_letter_id = None, dr_error = None\<rparr>]\<rparr>), K1))
         | DeadLettered \<Rightarrow>
             (let message = (case do_error outcome of Some e \<Rightarrow> e | None \<Rightarrow> ''webhook delivery failed'')
              in then_do (log_if_open D writer (di_event1 io)
                     (ApprovalWebhookFailed rid url message (do_attempts outcome) source sig) K) (\<lambda>_ K1.
                 then_do (log_if_open D writer (di_event2 io)
                     (ApprovalWebhookDeadLettered rid url
                       (case do_dead_letter_id outcome of Some l \<Rightarrow> l | None \<Rightarrow> ''<unknown>'')
                       (webhook_provider_str (wo_provider opts)) (do_attempts outcome) source message sig) K1)
                   (\<lambda>_ K2. (Ok (rep\<lparr>wr_failed := wr_failed rep + 1,
                      wr_requests := wr_requests rep @
                        [\<lparr>dr_id = rid, dr_delivery_status = ''dead_lettered'', dr_attempts = Some (do_attempts outcome),
                          dr_payload = None, dr_body = None, dr_delivery_signature = do_signature outcome,
                          dr_http_status = None, dr_dead_letter_id = do_dead_letter_id outcome,
                          dr_error = Some message\<rparr>]\<rparr>), K2)))))"

definition deliver_pending_one ::
  "daemon_env \<Rightarrow> string option \<Rightarrow> webhook_options \<Rightarrow> delivery_io \<Rightarrow> approval_request \<Rightarrow> webhook_run \<Rightarrow>
     hook_disk \<Rightarrow> (tool_error, webhook_run) result \<times> hook_disk" where
  "deliver_pending_one D writer opts io request rep K =
     (let content = webhook_payload (de_extern D) request (wo_provider opts)
      in then_do (map_err ToolDelivery (prepare_approval_webhook (de_extern D) (de_to_vec D) (di_sign_now io) content
              (wo_signing_secret opts) (wo_signing_key_id opts)), K) (\<lambda>prepared K1.
         if wo_dry_run opts
         then (Ok (rep\<lparr>wr_requests := wr_requests rep @
                 [\<lparr>dr_id = req_id request, dr_delivery_status = ''dry_run'', dr_attempts = None, dr_payload = Some content,
                   dr_body = Some (pw_body prepared), dr_delivery_signature = pw_signature prepared,
                   dr_http_status = None, dr_dead_letter_id = None, dr_error = None\<rparr>]\<rparr>), K1)
         else
           (case deliver_prepared_approval_webhook (de_letters D) (di_curl io) (di_letter_stamp io) (di_letter_write io)
                   request SourceCli (webhook_provider_str (wo_provider opts)) (wo_url opts) prepared
                   (delivery_settings_new (wo_attempts opts) (wo_backoff_ms opts)) (hk_letters K1) of
              (res, letters) \<Rightarrow>
                then_do (map_err ToolDelivery res, K1\<lparr>hk_letters := letters\<rparr>) (\<lambda>outcome K2.
                  report_delivery D writer opts io request outcome rep K2))))"

fun deliver_pending_loop ::
  "daemon_env \<Rightarrow> string option \<Rightarrow> webhook_options \<Rightarrow> (nat \<Rightarrow> delivery_io) \<Rightarrow> nat \<Rightarrow> approval_state list \<Rightarrow>
     webhook_run \<Rightarrow> hook_disk \<Rightarrow> (tool_error, webhook_run) result \<times> hook_disk" where
  "deliver_pending_loop D writer opts ios i [] rep K = (Ok rep, K)"
| "deliver_pending_loop D writer opts ios i (state # rest) rep K =
     then_do (deliver_pending_one D writer opts (ios i) (ap_request state) rep K) (\<lambda>rep' K1.
       deliver_pending_loop D writer opts ios (Suc i) rest rep' K1)"

text \<open>Without a key or a log the deliveries are not recorded.\<close>

definition approval_webhook ::
  "daemon_env \<Rightarrow> tool_io \<Rightarrow> webhook_options \<Rightarrow> (nat \<Rightarrow> delivery_io) \<Rightarrow> hook_disk \<Rightarrow>
     (tool_error, webhook_run) result \<times> hook_disk" where
  "approval_webhook D io opts ios K =
     then_do (map_err ToolCore (pending (de_approvals D) (ti_read io) (hk_approvals K)), K) (\<lambda>states K0.
       (let states' = (case wo_limit opts of Some n \<Rightarrow> take n states | None \<Rightarrow> states);
            opened = (case load_key (ti_key io) of
                        Err _ \<Rightarrow> (None, K0)
                      | Ok sk \<Rightarrow> (case tool_open_log (ti_audit_fault io) K0 of
                            (Ok _, K1) \<Rightarrow> (Some sk, K1) | (Err _, K1) \<Rightarrow> (None, K1)))
        in deliver_pending_loop D (fst opened) opts ios 0 states'
             \<lparr>wr_sent = 0, wr_failed = 0, wr_requests = []\<rparr> (snd opened)))"

definition webhook_exit_code :: "webhook_run \<Rightarrow> nat" where
  "webhook_exit_code rep = (if 0 < wr_failed rep then 1 else 0)"

section \<open>Replaying a request\<close>

definition replay_conclusion :: "string \<Rightarrow> bool \<Rightarrow> decision \<Rightarrow> string" where
  "replay_conclusion required_scope bind_input d =
     (case d of
        AskPicto current_scope reason current_binding \<Rightarrow>
          if current_scope = required_scope \<and> current_binding \<noteq> bind_input then ''ask_binding_changed''
          else if current_scope = required_scope then ''still_requires_same_scope''
          else ''ask_scope_changed''
      | Allow \<Rightarrow> ''current_policy_allows_without_picto''
      | Gommage reason hard_stop \<Rightarrow>
          if hard_stop then ''current_policy_hard_stops'' else ''current_policy_denies'')"

record approval_commands =
  ac_show :: string
  ac_approve :: string
  ac_deny :: string
  ac_replay :: string
  ac_evidence :: string
  ac_audit_verify :: string
  ac_tui :: string

definition approval_commands_for :: "string \<Rightarrow> approval_commands" where
  "approval_commands_for rid =
     \<lparr>ac_show = ''gommage approval show '' @ rid @ '' --json'',
      ac_approve = ''gommage approval approve '' @ rid @ '' --ttl 10m --uses 1'',
      ac_deny = ''gommage approval deny '' @ rid @ '' --reason <reason>'',
      ac_replay = ''gommage approval replay '' @ rid @ '' --json'',
      ac_evidence = ''gommage approval evidence '' @ rid @ '' --redact'',
      ac_audit_verify = ''gommage audit-verify --explain'',
      ac_tui = ''gommage tui --view approvals''\<rparr>"

record request_replay =
  rr_request_id :: string
  rr_status :: string
  rr_stored_policy_version :: string
  rr_current_policy_version :: string
  rr_policy_changed :: bool
  rr_required_scope :: string
  rr_bind_input :: bool
  rr_capabilities :: "capability list"
  rr_stored_matched_rule :: "matched_rule option"
  rr_current_decision :: decision
  rr_current_matched_rule :: "matched_rule option"
  rr_conclusion :: string
  rr_commands :: approval_commands

text \<open>\<open>opened\<close> is what opening the runtime gives.\<close>

definition approval_replay ::
  "daemon_env \<Rightarrow> read_fault \<Rightarrow> (gommage_error, runtime) result \<Rightarrow> string \<Rightarrow> hook_disk \<Rightarrow>
     (tool_error, request_replay option) result" where
  "approval_replay D fault opened rid K =
     and_then (tool_get D fault rid K) (\<lambda>state.
     and_then (map_err ToolCore opened) (\<lambda>rt.
       (let r = ap_request state
        in Ok (map_option (\<lambda>eval.
             \<lparr>rr_request_id = rid, rr_status = approval_status_str (ap_status state),
              rr_stored_policy_version = req_policy_version r,
              rr_current_policy_version = eval_policy_version eval,
              rr_policy_changed = (req_policy_version r \<noteq> eval_policy_version eval),
              rr_required_scope = req_required_scope r, rr_bind_input = req_bind_input r,
              rr_capabilities = req_capabilities r, rr_stored_matched_rule = req_matched_rule r,
              rr_current_decision = eval_decision eval, rr_current_matched_rule = eval_matched eval,
              rr_conclusion = replay_conclusion (req_required_scope r) (req_bind_input r) (eval_decision eval),
              rr_commands = approval_commands_for rid\<rparr>)
             (evaluate (de_glob D) (req_capabilities r) (rt_policy rt))))))"

section \<open>Evidence\<close>

fun redact_paths :: "string \<Rightarrow> json \<Rightarrow> json" where
  "redact_paths home (JString text) =
     JString (if contains_str text home then str_replace home ''<gommage-home>'' text else text)"
| "redact_paths home (JArray items) = JArray (map (redact_paths home) items)"
| "redact_paths home (JObject ms) = JObject (map (\<lambda>(k, v). (k, redact_paths home v)) ms)"
| "redact_paths home v = v"

definition relevant_audit_entries ::
  "(string \<Rightarrow> (string, json) result) \<Rightarrow> (string, string) result \<Rightarrow> string \<Rightarrow> string \<Rightarrow> string option \<Rightarrow> json list" where
  "relevant_audit_entries parse contents rid hash picto =
     (case contents of
        Err _ \<Rightarrow> []
      | Ok text \<Rightarrow>
          concat (map (\<lambda>l. case parse l of Ok v \<Rightarrow> [v] | Err _ \<Rightarrow> [])
            (filter (\<lambda>l. contains_str l rid \<or> contains_str l hash \<or>
                (case picto of Some p \<Rightarrow> contains_str l p | None \<Rightarrow> False)) (str_lines text))))"

end
