(* ===== verification/Inbox_Laws.thy ===== *)
theory Inbox_Laws
  imports Inbox Picto_Grants Approval_Laws Adapter_Laws
begin

text \<open>
  What approving a request does: one grant, exactly as the request asks, and with it the blocked
  call goes through; what a failure in between leaves behind; and that a callback changes nothing
  unless it is signed, fresh, and knows the nonce of a pending request.
\<close>

section \<open>The steps of an approval\<close>

lemma tool_get_Ok:
  "tool_get D fault rid K = Ok state \<longleftrightarrow> get_approval (de_approvals D) fault rid (hk_approvals K) = Ok (Some state)"
  by (auto simp: tool_get_def and_then_Ok_iff map_err_Ok_iff split: option.splits)

definition request_binding :: "approval_request \<Rightarrow> string option" where
  "request_binding r = (if req_bind_input r then Some (req_input_hash r) else None)"

lemma create_grant_unfold:
  "create_grant D io sk r n ttl why K =
     (case create_with_input_hash (de_extern D) (ti_create_now io) sk (hk_pictos K) (''picto_'' @ ti_uuid io)
             (req_required_scope r) (request_binding r) n ttl why False of
        Err e \<Rightarrow> (Err (ToolCore e), K) | Ok (p, store) \<Rightarrow> (Ok p, K\<lparr>hk_pictos := store\<rparr>))"
  by (simp add: create_grant_def request_binding_def create_def create_for_input_def Let_def)

lemma tool_resolve_disk:
  "tool_resolve D fs now rid st why pid K = (res, K') \<Longrightarrow>
     hk_pictos K' = hk_pictos K \<and> hk_audit K' = hk_audit K \<and> hk_letters K' = hk_letters K"
  by (auto simp: tool_resolve_def split: prod.splits)

lemma tool_log_disk:
  "tool_log D sk io e K = (res, K') \<Longrightarrow>
     hk_pictos K' = hk_pictos K \<and> hk_approvals K' = hk_approvals K \<and> hk_letters K' = hk_letters K"
  "tool_open_log fault K = (res', K') \<Longrightarrow>
     hk_pictos K' = hk_pictos K \<and> hk_approvals K' = hk_approvals K \<and> hk_letters K' = hk_letters K"
  by (auto simp: tool_log_def tool_open_log_def split: prod.splits)

lemma approve_stages:
  assumes "approve_request D io rid n ttl reason K = (Ok rep, K')"
  obtains state sk p store resolution K4 K5 K6 where
    "get_approval (de_approvals D) (ti_read io) rid (hk_approvals K) = Ok (Some state)" "ap_status state = Pending"
    "load_key (ti_key io) = Ok sk"
    "create_with_input_hash (de_extern D) (ti_create_now io) sk (hk_pictos K) (''picto_'' @ ti_uuid io)
       (req_required_scope (ap_request state)) (request_binding (ap_request state)) n ttl
       (if trim reason = [] then ''approved request '' @ rid else reason) False = Ok (p, store)"
    "tool_resolve D (ti_faults io) (ti_resolve_now io) rid Approved
       (if trim reason = [] then ''approved request '' @ rid else reason) (Some (picto_id p))
       (K\<lparr>hk_pictos := store\<rparr>) = (Ok resolution, K4)"
    "tool_open_log (ti_audit_fault io) K4 = (Ok (), K5)"
    "tool_log D sk (ti_event1 io) (created_event io p) K5 = (Ok (), K6)"
    "tool_log D sk (ti_event2 io) (resolved_event resolution (res_picto_id resolution)) K6 = (Ok (), K')"
    "rep = approved_report (de_extern D) rid (ap_request state)
       (if trim reason = [] then ''approved request '' @ rid else reason) p"
proof -
  from assms obtain state where s: "tool_get D (ti_read io) rid K = Ok state" "ap_status state = Pending"
      "then_do (map_err ToolCore (load_key (ti_key io)), K) (\<lambda>sk K1.
         then_do (map_err ToolCore (ti_sqlite io), K1) (\<lambda>_ K2.
         (let request = ap_request state;
              why = (if trim reason = [] then ''approved request '' @ rid else reason)
          in then_do (create_grant D io sk request n ttl why K2) (\<lambda>p K3.
             then_do (tool_resolve D (ti_faults io) (ti_resolve_now io) rid Approved why
                 (Some (picto_id p)) K3) (\<lambda>resolution K4.
             then_do (tool_open_log (ti_audit_fault io) K4) (\<lambda>_ K5.
             then_do (tool_log D sk (ti_event1 io) (created_event io p) K5) (\<lambda>_ K6.
             then_do (tool_log D sk (ti_event2 io) (resolved_event resolution (res_picto_id resolution)) K6)
               (\<lambda>_ K7. (Ok (approved_report (de_extern D) rid request why p), K7))))))))) = (Ok rep, K')"
    unfolding approve_request_def by (auto simp: then_do_Ok_iff and_then_Ok_iff split: if_splits)
  define why where "why = (if trim reason = [] then ''approved request '' @ rid else reason)"
  from s(3) obtain sk p K3 where c: "load_key (ti_key io) = Ok sk"
      "create_grant D io sk (ap_request state) n ttl why K = (Ok p, K3)"
      "then_do (tool_resolve D (ti_faults io) (ti_resolve_now io) rid Approved why
                 (Some (picto_id p)) K3) (\<lambda>resolution K4.
             then_do (tool_open_log (ti_audit_fault io) K4) (\<lambda>_ K5.
             then_do (tool_log D sk (ti_event1 io) (created_event io p) K5) (\<lambda>_ K6.
             then_do (tool_log D sk (ti_event2 io) (resolved_event resolution (res_picto_id resolution)) K6)
               (\<lambda>_ K7. (Ok (approved_report (de_extern D) rid (ap_request state) why p), K7))))) = (Ok rep, K')"
    unfolding Let_def why_def [symmetric] by (auto simp: then_do_Ok_iff map_err_Ok_iff)
  from c(2) obtain store where "create_with_input_hash (de_extern D) (ti_create_now io) sk (hk_pictos K)
       (''picto_'' @ ti_uuid io) (req_required_scope (ap_request state)) (request_binding (ap_request state)) n ttl
       why False = Ok (p, store)" "K3 = K\<lparr>hk_pictos := store\<rparr>"
    by (auto simp: create_grant_unfold split: sum.splits)
  with s(1,2) c(1,3) that show thesis
    unfolding why_def by (auto simp: then_do_Ok_iff tool_get_Ok)
qed

lemma approve_adds_row:
  assumes "approve_request D io rid n ttl reason K = (Ok rep, K')"
  shows "\<exists>row. hk_pictos K' = hk_pictos K @ [row]"
proof -
  let ?why = "if trim reason = [] then ''approved request '' @ rid else reason"
  obtain state sk p store resolution K4 K5 K6 where
    "get_approval (de_approvals D) (ti_read io) rid (hk_approvals K) = Ok (Some state)" "load_key (ti_key io) = Ok sk"
    "create_with_input_hash (de_extern D) (ti_create_now io) sk (hk_pictos K) (''picto_'' @ ti_uuid io)
       (req_required_scope (ap_request state)) (request_binding (ap_request state)) n ttl ?why False = Ok (p, store)"
    and *: "tool_resolve D (ti_faults io) (ti_resolve_now io) rid Approved ?why (Some (picto_id p))
       (K\<lparr>hk_pictos := store\<rparr>) = (Ok resolution, K4)"
    "tool_open_log (ti_audit_fault io) K4 = (Ok (), K5)"
    "tool_log D sk (ti_event1 io) (created_event io p) K5 = (Ok (), K6)"
    "tool_log D sk (ti_event2 io) (resolved_event resolution (res_picto_id resolution)) K6 = (Ok (), K')"
    by (rule approve_stages [OF assms])
  then show ?thesis
    using tool_resolve_disk [OF *(1)] tool_log_disk(2) [OF *(2)] tool_log_disk(1) [OF *(3)] tool_log_disk(1) [OF *(4)]
      create_cases(5) by fastforce
qed


section \<open>A small inbox\<close>

text \<open>One pending request, an empty store and log, and codecs that print what approving it writes.\<close>

definition demo_approval :: approval_resolution where
  "demo_approval =
     \<lparr>res_request_id = ''a'', res_resolved_at = 0, res_status = Approved, res_reason = ''ok'',
      res_picto_id = Some ''picto_u''\<rparr>"

definition demo_tool_codec :: "approval_record codec" where
  "demo_tool_codec =
     \<lparr>encode_line = (\<lambda>r. if r = Requested (demo_request ''a'' ''s'') then Ok ''+a''
        else if r = Resolved demo_approval then Ok ''*a''
        else if r = Resolved (demo_resolution ''a'') then Ok ''-a'' else Err ''unsupported''),
      decode_line = (\<lambda>l. if l = ''+a'' then Ok (Requested (demo_request ''a'' ''s''))
        else if l = ''*a'' then Ok (Resolved demo_approval)
        else if l = ''-a'' then Ok (Resolved (demo_resolution ''a'')) else Err ''syntax'')\<rparr>"

definition demo_tool_daemon :: daemon_env where
  "demo_tool_daemon = demo_hook_daemon
     \<lparr>de_approvals := demo_tool_codec, de_audit := demo_daemon_codec\<lparr>event_line := (\<lambda>e. Ok ''{}'')\<rparr>,
      de_key := ''12345678901234567890123456789012''\<rparr>"

definition demo_tool_io :: tool_io where
  "demo_tool_io =
     \<lparr>ti_ensured = Ok (), ti_read = None, ti_key = Ok ''12345678901234567890123456789012'', ti_sqlite = Ok (),
      ti_uuid = ''u'', ti_create_now = 0, ti_show_time = dec_int, ti_faults = \<lparr>on_read = None, on_write = Wrote\<rparr>,
      ti_resolve_now = 0, ti_audit_fault = None, ti_event1 = demo_append, ti_event2 = demo_append\<rparr>"

definition demo_tool_disk :: hook_disk where
  "demo_tool_disk = \<lparr>hk_pictos = [], hk_approvals = Some (''+a'' @ [NL]), hk_audit = None, hk_letters = None\<rparr>"

lemma demo_tool_parts [simp]:
  "de_approvals demo_tool_daemon = demo_tool_codec" "de_extern demo_tool_daemon = demo_extern"
  "de_audit demo_tool_daemon = demo_daemon_codec\<lparr>event_line := (\<lambda>e. Ok ''{}'')\<rparr>"
  "de_key demo_tool_daemon = ''12345678901234567890123456789012''"
  by (simp_all add: demo_tool_daemon_def demo_hook_daemon_def demo_daemon_def)


lemma demo_tool_pending:
  "get_approval demo_tool_codec None ''a'' (hk_approvals demo_tool_disk) =
     Ok (Some \<lparr>ap_request = demo_request ''a'' ''s'', ap_status = Pending, ap_resolution = None\<rparr>)"
  by code_simp

lemma demo_log_ok: "\<exists>K'. tool_log demo_tool_daemon sk demo_append event K = (Ok (), K')"
  by (simp add: tool_log_def append_event_def write_record_def append_line_def record_codec_def demo_append_def Let_def)

lemma demo_approve_ok: "is_ok (fst (approve_request demo_tool_daemon demo_tool_io ''a'' 1 600 ''ok'' demo_tool_disk))"
proof -
  let ?state = "\<lparr>ap_request = demo_request ''a'' ''s'', ap_status = Pending, ap_resolution = None\<rparr>"
  let ?key = "''12345678901234567890123456789012''"
  have "is_ok (create_with_input_hash demo_extern 0 ?key [] ''picto_u'' ''s'' None 1 600 ''ok'' False)" by code_simp
  then obtain p store where p: "create_with_input_hash demo_extern 0 ?key [] ''picto_u'' ''s'' None 1 600 ''ok'' False = Ok (p, store)"
    by (auto simp: is_ok_iff)
  have "fst (resolve demo_tool_codec \<lparr>on_read = None, on_write = Wrote\<rparr> 0 ''a'' Approved ''ok'' (Some ''picto_u'')
      (hk_approvals demo_tool_disk)) = Ok demo_approval" by code_simp
  then obtain f where f: "resolve demo_tool_codec \<lparr>on_read = None, on_write = Wrote\<rparr> 0 ''a'' Approved ''ok''
      (Some ''picto_u'') (hk_approvals demo_tool_disk) = (Ok demo_approval, f)" by (metis prod.collapse)
  have "create_grant demo_tool_daemon demo_tool_io ?key (demo_request ''a'' ''s'') 1 600 ''ok'' demo_tool_disk =
      (Ok p, demo_tool_disk\<lparr>hk_pictos := store\<rparr>)"
    using p by (simp add: create_grant_unfold demo_tool_io_def demo_tool_disk_def demo_request_def request_binding_def)
  moreover have "tool_resolve demo_tool_daemon (ti_faults demo_tool_io) (ti_resolve_now demo_tool_io) ''a'' Approved ''ok''
      (Some (picto_id p)) (demo_tool_disk\<lparr>hk_pictos := store\<rparr>) =
      (Ok demo_approval, demo_tool_disk\<lparr>hk_pictos := store, hk_approvals := f\<rparr>)"
    using f create_cases(6) [OF p] by (simp add: tool_resolve_def demo_tool_io_def)
  moreover have "tool_get demo_tool_daemon None ''a'' demo_tool_disk = Ok ?state"
    using demo_tool_pending by (simp add: tool_get_def)
  moreover have "trim ''ok'' = ''ok''" by code_simp
  moreover obtain K1 where "tool_open_log None (demo_tool_disk\<lparr>hk_pictos := store, hk_approvals := f\<rparr>) = (Ok (), K1)"
    by (simp add: tool_open_log_def audit_open_def)
  moreover obtain K2 where "tool_log demo_tool_daemon ?key demo_append (created_event demo_tool_io p) K1 = (Ok (), K2)"
    using demo_log_ok by blast
  moreover obtain K3 where "tool_log demo_tool_daemon ?key demo_append
      (resolved_event demo_approval (res_picto_id demo_approval)) K2 = (Ok (), K3)"
    using demo_log_ok by blast
  ultimately show ?thesis
    by (simp add: approve_request_def demo_tool_io_def load_key_def Let_def)
qed

section \<open>What an approval mints\<close>



section \<open>The blocked call goes through\<close>

lemma lookup_picto_eq:
  assumes "\<And>h. binding = Some h \<Longrightarrow> is_canonical_input_hash h"
  shows "lookup_picto D now binding scope store =
     find_verified_match_for_optional_input (de_extern D) store scope binding now (de_vk D)"
  "consume_picto D now binding pid store =
     consume_verified_for_optional_input (de_extern D) store pid binding now (de_vk D)"
  using assms
  by (simp_all add: lookup_picto_def consume_picto_def find_verified_match_def find_verified_match_for_input_def
      consume_verified_def consume_verified_for_input_def split: option.split)

lemma log_event_outcome:
  obtains s' where "log_event D io event s = (Ok (), s')" "ds_rt s' = ds_rt s"
  | e s' where "log_event D io event s = (Err (AuditError e), s')" "ds_rt s' = ds_rt s"
proof -
  obtain r s' where l: "log_event D io event s = (r, s')" by (meson surj_pair)
  then have "r = Ok () \<or> (\<exists>e. r = Err (AuditError e))"
    by (auto simp: log_event_def and_then_def map_err_def split: prod.splits sum.splits)
  with l log_event_rt [OF l] that show thesis by blast
qed

lemma log_decision_outcome:
  obtains s' where "log_decision D io call eval s = (Ok (), s')" "ds_rt s' = ds_rt s"
  | e s' where "log_decision D io call eval s = (Err (AuditError e), s')" "ds_rt s' = ds_rt s"
proof -
  obtain r s' where l: "log_decision D io call eval s = (r, s')" by (meson surj_pair)
  then have "r = Ok () \<or> (\<exists>e. r = Err (AuditError e))"
    by (auto simp: log_decision_def and_then_def map_err_def split: prod.splits sum.splits)
  with l log_decision_rt [OF l] that show thesis by blast
qed

text \<open>C15. Approving unblocks: take an approval by the key that the daemon holds, with times that can be
  formatted, and a daemon with the store that it left, whose policy asks for the request's
  scope for this call, which is the request's own input if the rule binds it. Before the grant
  expires, unless the store had a row of that scope at least as new that could pay (whether its
  signature verifies or not), the daemon spends the one use of the new grant on the call and answers
  that it is allowed, or, if it cannot write the audit log, with that error.\<close>

theorem approved_call_is_allowed:
  assumes "approve_request D io rid n ttl reason K = (Ok rep, K')"
    and "get_approval (de_approvals D) (ti_read io) rid (hk_approvals K) = Ok (Some state)"
    and "load_key (ti_key io) = Ok (de_key D)" and "crypto_ok (de_extern D)" and "store_ok (hk_pictos K)"
    and "timestamp_in_range (de_extern D) (unix_timestamp (ti_create_now io))"
    and "timestamp_in_range (de_extern D) (unix_timestamp (ti_create_now io) + ttl)"
    and "evaluate (de_glob D) (map_call (rt_mapper (ds_rt s)) call) (rt_policy (ds_rt s)) = Some eval"
    and "eval_decision eval = AskPicto (req_required_scope (ap_request state)) why (req_bind_input (ap_request state))"
    and "req_bind_input (ap_request state) \<Longrightarrow> req_input_hash (ap_request state) = input_hash (de_extern D) call"
    and "rt_pictos (ds_rt s) = hk_pictos K'"
    and "unix_timestamp (ri_now rio) < unix_timestamp (ti_create_now io) + ttl"
    and "\<And>q. q \<in> set (hk_pictos K) \<Longrightarrow> row_scope q = req_required_scope (ap_request state) \<Longrightarrow>
           usable_row (request_binding (ap_request state)) (ri_now rio) q \<Longrightarrow>
           row_created q < unix_timestamp (ti_create_now io)"
  shows "\<exists>answer s'. handle_request D rio (Decide call) s = (Some answer, s') \<and>
    (answer = Ok (Verdict (eval\<lparr>eval_decision := Allow\<rparr>)) \<or> (\<exists>e. answer = Err (DecideFailed (AuditError e)))) \<and>
    uses_of (hk_pictos K') (''picto_'' @ ti_uuid io) = 0 \<and>
    uses_of (rt_pictos (ds_rt s')) (''picto_'' @ ti_uuid io) = 1 \<and>
    ((\<forall>event t. is_ok (fst (log_event D (ri_event1 rio) event t))) \<and>
     (\<forall>verdict t. is_ok (fst (log_decision D (ri_final rio) call verdict t))) \<longrightarrow>
       answer = Ok (Verdict (eval\<lparr>eval_decision := Allow\<rparr>)))"
proof -
  let ?pid = "''picto_'' @ ti_uuid io" and ?r = "ap_request state"
  let ?why = "if trim reason = [] then ''approved request '' @ rid else reason"
  obtain state' sk p store resolution K4 K5 K6 where st:
    "get_approval (de_approvals D) (ti_read io) rid (hk_approvals K) = Ok (Some state')" "load_key (ti_key io) = Ok sk"
    "create_with_input_hash (de_extern D) (ti_create_now io) sk (hk_pictos K) ?pid
       (req_required_scope (ap_request state')) (request_binding (ap_request state')) n ttl ?why False = Ok (p, store)"
    and *: "tool_resolve D (ti_faults io) (ti_resolve_now io) rid Approved ?why (Some (picto_id p))
       (K\<lparr>hk_pictos := store\<rparr>) = (Ok resolution, K4)"
    "tool_open_log (ti_audit_fault io) K4 = (Ok (), K5)"
    "tool_log D sk (ti_event1 io) (created_event io p) K5 = (Ok (), K6)"
    "tool_log D sk (ti_event2 io) (resolved_event resolution (res_picto_id resolution)) K6 = (Ok (), K')"
    by (rule approve_stages [OF assms(1)])
  have "state' = state" "sk = de_key D" using st(1,2) assms(2,3) by simp_all
  with st(3) have created: "create_with_input_hash (de_extern D) (ti_create_now io) (de_key D) (hk_pictos K) ?pid
       (req_required_scope ?r) (request_binding ?r) n ttl ?why False = Ok (p, store)" by simp
  have store: "rt_pictos (ds_rt s) = store"
    using tool_resolve_disk [OF *(1)] tool_log_disk(2) [OF *(2)] tool_log_disk(1) [OF *(3)] tool_log_disk(1) [OF *(4)]
    by (simp add: assms(11))
  have bind: "(if req_bind_input ?r then Some (input_hash (de_extern D) call) else None) = request_binding ?r"
    using assms(10) by (simp add: request_binding_def)
  have vk: "de_vk D = ed_public (de_extern D) (de_key D)" by (simp add: de_vk_def)
  from created_grant_is_usable [OF assms(4,5) created assms(6,7,12,13)] obtain g q store'' where g:
      "lookup_picto D (ri_now rio) (request_binding ?r) (req_required_scope ?r) store = LookupVerified g" "picto_id g = ?pid"
      "consume_picto D (ri_now rio) (request_binding ?r) ?pid store = (Consumed q, store'')" "uses_of store'' ?pid = 1"
    using create_cases(6) [OF created] lookup_picto_eq [OF create_cases(15) [OF created]]
    by (auto simp: vk row_to_picto_def picto_to_row_def)
  let ?allowed = "eval\<lparr>eval_decision := Allow\<rparr>" and ?paid = "set_pictos store'' s"
  have ask: "resolve_ask D rio call eval s =
      then_do (log_event D (ri_event1 rio) (picto_consumed_event q) ?paid) (\<lambda>_ s1. (Ok ?allowed, s1))"
    using g by (simp add: resolve_ask_def assms(9) bind store spend_picto_def Let_def)
  have decide: "decide_and_audit D rio call s =
      then_do (resolve_ask D rio call eval s) (\<lambda>eval' s1.
        then_do (log_decision D (ri_final rio) call eval' s1) (\<lambda>_ s2. (Ok eval', s2)))"
    by (simp add: decide_and_audit_def assms(8))
  have fresh: "uses_of (hk_pictos K') ?pid = 0"
    using create_cases(4,5,6) [OF created] store assms(11) create_cases(9) [OF created]
    by (simp add: uses_of_def row_of_append_new picto_to_row_def)
  have spent: "uses_of (rt_pictos (ds_rt s1)) ?pid = 1" if "ds_rt s1 = ds_rt ?paid" for s1
    using g(4) that by simp
  show ?thesis
  proof (cases rule: log_event_outcome [of D "ri_event1 rio" "picto_consumed_event q" ?paid])
    case l: (1 s1)
    show ?thesis
    proof (cases rule: log_decision_outcome [of D "ri_final rio" call ?allowed s1])
      case d: (1 s2)
      with l ask decide fresh spent [of s2] show ?thesis by (simp add: handle_request_def)
    next
      case d: (2 e s2)
      then have "\<not> (\<forall>verdict t. is_ok (fst (log_decision D (ri_final rio) call verdict t)))"
        by (metis fst_conv is_ok_simps(2))
      with d l ask decide fresh spent [of s2] show ?thesis by (simp add: handle_request_def)
    qed
  next
    case l: (2 e s1)
    then have "\<not> (\<forall>event t. is_ok (fst (log_event D (ri_event1 rio) event t)))"
      by (metis fst_conv is_ok_simps(2))
    with l ask decide fresh spent [of s1] show ?thesis by (simp add: handle_request_def)
  qed
qed

definition demo_unblocked_state :: daemon_state where
  "demo_unblocked_state = demo_state\<lparr>ds_rt := demo_runtime
     \<lparr>rt_policy := \<lparr>policy_rules = [demo_ask_rule\<lparr>rule_required_scope := Some ''s''\<rparr>], policy_version = ''p''\<rparr>,
      rt_pictos := hk_pictos (snd (approve_request demo_tool_daemon demo_tool_io ''a'' 1 600 ''ok'' demo_tool_disk))\<rparr>\<rparr>"

lemma demo_unblocked_asks:
  "evaluate (de_glob demo_tool_daemon) (map_call (rt_mapper (ds_rt demo_unblocked_state)) demo_deploy_call)
     (rt_policy (ds_rt demo_unblocked_state)) =
   Some (demo_allowed\<lparr>eval_decision := AskPicto ''s'' ''needs a grant'' False\<rparr>)"
proof -
  have "map_call (rt_mapper (ds_rt demo_unblocked_state)) demo_deploy_call = [''deploy:prod'']"
    using demo_caps by (simp add: demo_unblocked_state_def demo_state_def)
  moreover have "de_glob demo_tool_daemon = (\<lambda>p t. False)"
    by (simp add: demo_tool_daemon_def demo_hook_daemon_def demo_daemon_def)
  moreover have "rt_policy (ds_rt demo_unblocked_state) =
      \<lparr>policy_rules = [demo_ask_rule\<lparr>rule_required_scope := Some ''s''\<rparr>], policy_version = ''p''\<rparr>"
    by (simp add: demo_unblocked_state_def)
  moreover have "evaluate (\<lambda>p t. False) [''deploy:prod'']
      \<lparr>policy_rules = [demo_ask_rule\<lparr>rule_required_scope := Some ''s''\<rparr>], policy_version = ''p''\<rparr> =
    Some (demo_allowed\<lparr>eval_decision := AskPicto ''s'' ''needs a grant'' False\<rparr>)"
    by code_simp
  ultimately show ?thesis by simp
qed

theorem approved_call_is_allowed_witness:
  "\<exists>answer s'. handle_request demo_tool_daemon demo_io (Decide demo_deploy_call) demo_unblocked_state = (Some answer, s') \<and>
     uses_of (rt_pictos (ds_rt s')) ''picto_u'' = 1"
proof -
  let ?a = "approve_request demo_tool_daemon demo_tool_io ''a'' 1 600 ''ok'' demo_tool_disk"
  let ?state = "\<lparr>ap_request = demo_request ''a'' ''s'', ap_status = Pending, ap_resolution = None\<rparr>"
  obtain rep where a: "?a = (Ok rep, snd ?a)" using demo_approve_ok by (cases ?a) (auto simp: is_ok_iff)
  have g: "get_approval (de_approvals demo_tool_daemon) (ti_read demo_tool_io) ''a'' (hk_approvals demo_tool_disk) =
      Ok (Some ?state)"
    using demo_tool_pending by (simp add: demo_tool_io_def)
  have k: "load_key (ti_key demo_tool_io) = Ok (de_key demo_tool_daemon)"
    by (simp add: demo_tool_io_def load_key_def)
  have e: "crypto_ok (de_extern demo_tool_daemon)" using crypto_ok_demo by simp
  have o: "store_ok (hk_pictos demo_tool_disk)" by (simp add: demo_tool_disk_def store_ok_def)
  have t: "timestamp_in_range (de_extern demo_tool_daemon) (unix_timestamp (ti_create_now demo_tool_io))"
    "timestamp_in_range (de_extern demo_tool_daemon) (unix_timestamp (ti_create_now demo_tool_io) + 600)"
    "unix_timestamp (ri_now demo_io) < unix_timestamp (ti_create_now demo_tool_io) + 600"
    unfolding demo_tool_parts by code_simp+
  have p: "rt_pictos (ds_rt demo_unblocked_state) = hk_pictos (snd ?a)" by (simp add: demo_unblocked_state_def)
  have u: "ti_uuid demo_tool_io = ''u''" by (simp add: demo_tool_io_def)
  show ?thesis
    using approved_call_is_allowed [OF a g k e o t(1,2) demo_unblocked_asks _ _ p t(3), of "''needs a grant''"]
    by (auto simp: demo_request_def demo_tool_disk_def u)
qed

section \<open>A failure in between\<close>

text \<open>C17. Approving is not atomic: the grant is created first. If the resolution then cannot be written, the
  command fails and the request stays pending, but the store keeps an active grant of its scope that
  no line of the audit log mentions, and the daemon lets calls pay with it.\<close>

theorem failed_approval_leaves_grant:
  assumes "get_approval (de_approvals D) (ti_read io) rid (hk_approvals K) = Ok (Some state)"
    and "ap_status state = Pending" and "ti_ensured io = Ok ()" and "load_key (ti_key io) = Ok sk"
    and "ti_sqlite io = Ok ()"
    and "create_with_input_hash (de_extern D) (ti_create_now io) sk (hk_pictos K) (''picto_'' @ ti_uuid io)
       (req_required_scope (ap_request state)) (request_binding (ap_request state)) n ttl
       (if trim reason = [] then ''approved request '' @ rid else reason) False = Ok (p, store)"
    and "on_write (ti_faults io) = Unopened e"
  shows "\<exists>K' err. approve_request D io rid n ttl reason K = (Err err, K') \<and>
    hk_pictos K' = hk_pictos K @ [picto_to_row p (request_binding (ap_request state))] \<and> picto_status p = Active \<and>
    hk_audit K' = hk_audit K \<and> hk_approvals K' = hk_approvals K"
proof -
  let ?why = "if trim reason = [] then ''approved request '' @ rid else reason"
  have "tool_get D (ti_read io) rid K = Ok state" using assms(1) by (simp add: tool_get_Ok)
  moreover have "create_grant D io sk (ap_request state) n ttl ?why K = (Ok p, K\<lparr>hk_pictos := store\<rparr>)"
    by (simp only: create_grant_unfold assms(6)) simp
  moreover obtain e' where "tool_resolve D (ti_faults io) (ti_resolve_now io) rid Approved ?why (Some (picto_id p))
      (K\<lparr>hk_pictos := store\<rparr>) = (Err e', K\<lparr>hk_pictos := store\<rparr>)"
  proof -
    obtain r f where r: "resolve (de_approvals D) (ti_faults io) (ti_resolve_now io) rid Approved ?why
        (Some (picto_id p)) (hk_approvals K) = (r, f)" by fastforce
    then have "f = hk_approvals K \<and> (\<exists>x. r = Err x)"
    proof (cases rule: resolve_cases)
      case (resolved states s d res')
      then show ?thesis using assms(7) by (auto simp: append_record_def append_line_def)
    qed simp
    with r that show thesis by (auto simp: tool_resolve_def)
  qed
  ultimately show ?thesis
    using assms(2-5) create_cases(5,12) [OF assms(6)]
    by (simp add: approve_request_def Let_def)
qed

theorem failed_approval_leaves_grant_witness:
  "\<exists>K' err row. approve_request demo_tool_daemon
       (demo_tool_io\<lparr>ti_faults := \<lparr>on_read = None, on_write = Unopened ''disk full''\<rparr>\<rparr>) ''a'' 1 600 ''ok'' demo_tool_disk =
       (Err err, K') \<and> hk_pictos K' = [row] \<and> hk_audit K' = None"
proof -
  let ?io = "demo_tool_io\<lparr>ti_faults := \<lparr>on_read = None, on_write = Unopened ''disk full''\<rparr>\<rparr>"
  let ?state = "\<lparr>ap_request = demo_request ''a'' ''s'', ap_status = Pending, ap_resolution = None\<rparr>"
  let ?key = "''12345678901234567890123456789012''"
  have g: "get_approval (de_approvals demo_tool_daemon) (ti_read ?io) ''a'' (hk_approvals demo_tool_disk) = Ok (Some ?state)"
    using demo_tool_pending by (simp add: demo_tool_io_def)
  have "is_ok (create_with_input_hash demo_extern 0 ?key [] ''picto_u'' ''s'' None 1 600 ''ok'' False)" by code_simp
  then obtain p store where p: "create_with_input_hash demo_extern 0 ?key [] ''picto_u'' ''s'' None 1 600 ''ok'' False = Ok (p, store)"
    by (auto simp: is_ok_iff)
  have trim: "trim ''ok'' = ''ok''" by code_simp
  from p have c: "create_with_input_hash (de_extern demo_tool_daemon) (ti_create_now ?io) ?key (hk_pictos demo_tool_disk)
      (''picto_'' @ ti_uuid ?io) (req_required_scope (ap_request ?state)) (request_binding (ap_request ?state)) 1 600
      (if trim ''ok'' = [] then ''approved request '' @ ''a'' else ''ok'') False = Ok (p, store)"
    by (simp add: demo_tool_io_def demo_tool_disk_def demo_request_def request_binding_def trim)
  have i: "ap_status ?state = Pending" "ti_ensured ?io = Ok ()" "load_key (ti_key ?io) = Ok ?key" "ti_sqlite ?io = Ok ()"
    "on_write (ti_faults ?io) = Unopened ''disk full''"
    by (simp_all add: demo_tool_io_def load_key_def)
  have d: "hk_pictos demo_tool_disk = []" "hk_audit demo_tool_disk = None" by (simp_all add: demo_tool_disk_def)
  from failed_approval_leaves_grant [OF g i(1-4) c i(5)] show ?thesis unfolding d by auto
qed

section \<open>Callbacks\<close>

lemma verification_passes:
  "wv_error (verify_webhook_body E now content secret ts sig max_age) = None \<longleftrightarrow>
     (\<exists>t. rfc3339_parse E ts = Some t \<and> \<bar>now - t\<bar> div nanos_per_second \<le> max_age) \<and>
     sig = webhook_signature E content secret ts"
  by (auto simp: verify_webhook_body_def Let_def constant_time_eq_iff split: option.splits)

lemma request_check_passes:
  "callback_request_check D fault msg K = Ok (waiting, nonce_match, []) \<Longrightarrow>
     \<exists>state. get_approval (de_approvals D) fault (cb_request_id msg) (hk_approvals K) = Ok (Some state) \<and>
       ap_status state = Pending \<and> cb_nonce msg = approval_callback_nonce (de_extern D) (ap_request state)"
  by (auto simp: callback_request_check_def and_then_Ok_iff Let_def split: option.splits if_splits)

text \<open>Everything is in order for acting.\<close>

definition callback_clean ::
  "daemon_env \<Rightarrow> (string \<Rightarrow> (string, callback_payload) result) \<Rightarrow> callback_options \<Rightarrow> read_fault \<Rightarrow> hook_disk \<Rightarrow>
     string \<Rightarrow> callback_payload \<Rightarrow> bool" where
  "callback_clean D parse opts fault K content msg \<longleftrightarrow>
     co_body opts = Ok content \<and> parse content = Ok msg \<and> \<not> co_dry_run opts \<and>
     wv_error (verify_webhook_body (de_extern D) (co_now opts) content (co_secret opts) (co_timestamp opts)
       (co_signature opts) (co_max_age opts)) = None \<and>
     cb_kind msg = Some ''gommage_approval_callback'' \<and>
     (\<exists>waiting nonce. callback_request_check D fault msg K = Ok (waiting, nonce, []))"

lemma callback_idle:
  assumes "approval_callback D parse opts io fault K = (res, K')"
    and "\<And>content msg. \<not> callback_clean D parse opts fault K content msg"
  shows "K' = K"
proof (cases "co_body opts")
  case content: (Inr content)
  show ?thesis
  proof (cases "parse content")
    case msg: (Inr msg)
    show ?thesis
    proof (cases "callback_request_check D fault msg K")
      case (Inr c)
      then show ?thesis
        using assms(1) assms(2) [of content msg] content msg
        by (cases c) (auto simp: approval_callback_def callback_clean_def Let_def split: if_splits option.splits)
    qed (use assms(1) content msg in \<open>simp add: approval_callback_def Let_def\<close>)
  qed (use assms(1) content in \<open>auto simp: approval_callback_def Let_def split: option.splits if_splits\<close>)
qed (use assms(1) in \<open>auto simp: approval_callback_def\<close>)

lemma callback_applies:
  assumes "approval_callback D parse opts io fault K = (res, K')" and "callback_clean D parse opts fault K content msg"
  shows "snd (apply_callback D io msg K) = K' \<and> (\<forall>rep. res = Ok rep \<longrightarrow> callback_exit_code rep = 0)"
  using assms
  by (cases "apply_callback D io msg K"; cases "fst (apply_callback D io msg K)")
    (auto simp: approval_callback_def callback_clean_def callback_exit_code_def Let_def)

text \<open>C16. A callback acts only with authority: the store, the inbox and the log stay as they are unless
  it is no dry run and the body has the signature that the secret gives it, made with a timestamp not
  older or newer than the limit, and says it is an approval callback for a request that is pending
  and whose nonce it knows; and a report that is not a success comes with an untouched disk.\<close>

theorem callback_acts_only_with_authority:
  assumes "approval_callback D parse opts io fault K = (res, K')"
  shows "(K' \<noteq> K \<longrightarrow> \<not> co_dry_run opts \<and>
      (\<exists>content msg state t. co_body opts = Ok content \<and> parse content = Ok msg \<and>
         rfc3339_parse (de_extern D) (co_timestamp opts) = Some t \<and>
         \<bar>co_now opts - t\<bar> div nanos_per_second \<le> co_max_age opts \<and>
         co_signature opts = webhook_signature (de_extern D) content (co_secret opts) (co_timestamp opts) \<and>
         cb_kind msg = Some ''gommage_approval_callback'' \<and>
         get_approval (de_approvals D) fault (cb_request_id msg) (hk_approvals K) = Ok (Some state) \<and>
         ap_status state = Pending \<and> cb_nonce msg = approval_callback_nonce (de_extern D) (ap_request state) \<and>
         snd (apply_callback D io msg K) = K')) \<and>
    (\<forall>rep. res = Ok rep \<and> callback_exit_code rep \<noteq> 0 \<longrightarrow> K' = K)"
proof (cases "\<exists>content msg. callback_clean D parse opts fault K content msg")
  case True
  then obtain content msg where c: "callback_clean D parse opts fault K content msg" by blast
  then obtain waiting nonce where "callback_request_check D fault msg K = Ok (waiting, nonce, [])"
    by (auto simp: callback_clean_def)
  from request_check_passes [OF this] c callback_applies [OF assms c] show ?thesis
    unfolding callback_clean_def verification_passes by auto
next
  case False
  with callback_idle [OF assms] show ?thesis by simp
qed

definition demo_callback :: callback_payload where
  "demo_callback =
     \<lparr>cb_kind = Some ''gommage_approval_callback'', cb_request_id = ''a'', cb_action = CallbackApprove,
      cb_nonce = approval_callback_nonce demo_extern (demo_request ''a'' ''s''), cb_reason = Some ''ok'',
      cb_ttl = Some 600, cb_uses = Some 1\<rparr>"

definition demo_callback_options :: callback_options where
  "demo_callback_options =
     \<lparr>co_body = Ok ''{}'', co_signature = webhook_signature demo_extern ''{}'' ''secret'' ''0'', co_timestamp = ''0'',
      co_secret = ''secret'', co_max_age = 300, co_now = 0, co_dry_run = False\<rparr>"

theorem callback_acts_only_with_authority_witness:
  "snd (approval_callback demo_tool_daemon (\<lambda>s. Ok demo_callback) demo_callback_options demo_tool_io None demo_tool_disk) \<noteq>
     demo_tool_disk \<and>
   snd (apply_callback demo_tool_daemon demo_tool_io demo_callback demo_tool_disk) =
     snd (approval_callback demo_tool_daemon (\<lambda>s. Ok demo_callback) demo_callback_options demo_tool_io None demo_tool_disk)"
proof -
  let ?a = "approve_request demo_tool_daemon demo_tool_io ''a'' 1 600 ''ok'' demo_tool_disk"
  let ?c = "approval_callback demo_tool_daemon (\<lambda>s. Ok demo_callback) demo_callback_options demo_tool_io None demo_tool_disk"
  obtain rep where a: "?a = (Ok rep, snd ?a)" using demo_approve_ok by (cases ?a) (auto simp: is_ok_iff)
  have verified: "wv_error (verify_webhook_body demo_extern (co_now demo_callback_options) ''{}'' (co_secret demo_callback_options)
      (co_timestamp demo_callback_options) (co_signature demo_callback_options) (co_max_age demo_callback_options)) = None"
    unfolding verification_passes
    by (auto simp: demo_callback_options_def demo_extern_def nanos_per_second_def undec_digits_def)
  have "callback_request_check demo_tool_daemon None demo_callback demo_tool_disk = Ok (True, True, [])"
    using demo_tool_pending by (simp add: callback_request_check_def demo_callback_def)
  moreover have "apply_callback demo_tool_daemon demo_tool_io demo_callback demo_tool_disk = ?a"
    by (simp add: apply_callback_def demo_callback_def)
  moreover have "co_body demo_callback_options = Ok ''{}''" "\<not> co_dry_run demo_callback_options"
      "cb_kind demo_callback = Some ''gommage_approval_callback''"
    by (simp_all add: demo_callback_options_def demo_callback_def)
  ultimately have "snd ?c = snd ?a"
    using a verified by (simp add: approval_callback_def Let_def then_do_def split: prod.splits sum.splits)
  moreover have "hk_pictos (snd ?a) \<noteq> hk_pictos demo_tool_disk"
  proof -
    have "hk_pictos demo_tool_disk = []" by (simp add: demo_tool_disk_def)
    with approve_adds_row [OF a] show ?thesis by auto
  qed
  ultimately have changed: "snd ?c \<noteq> demo_tool_disk" by auto
  have c: "?c = (fst ?c, snd ?c)" by simp
  from callback_acts_only_with_authority [OF c] changed show ?thesis
    by (auto simp: demo_callback_options_def)
qed

end
