(* ===== verification/Config_Files.thy ===== *)
theory Config_Files
  imports Jsonl Json "HOL-Library.AList"
begin

text \<open>
  Files of other programs that the command line edits (\<open>crates/gommage-cli/src/util.rs\<close> and the
  backups of \<open>agent_uninstall.rs\<close>): a JSON file read as an object, a text written with a backup of
  what it replaces, and the newest backup brought back. The regular files are a finite tree of
  texts; the outcome of each system call is an argument.
\<close>

section \<open>Paths\<close>

definition parent_path :: "path \<Rightarrow> path option" where
  "parent_path p = (if p = [] \<or> p = [''/''] then None else Some (butlast p))"

definition file_name :: "path \<Rightarrow> string option" where
  "file_name p = (if p = [] \<or> p = [''/''] \<or> last p = ''..'' then None else Some (last p))"

definition with_file_name :: "path \<Rightarrow> string \<Rightarrow> path" where
  "with_file_name p n = (if file_name p = None then p else butlast p) @ [n]"

section \<open>The tree of files\<close>

type_synonym file_tree = "(path \<times> string) list"

text \<open>A write that is cut off leaves the beginning of the text: the file was truncated when it was opened.\<close>

definition put_file :: "write_outcome \<Rightarrow> path \<Rightarrow> string \<Rightarrow> file_tree \<Rightarrow> (string, unit) result \<times> file_tree" where
  "put_file w p t T =
     (case w of
        Wrote \<Rightarrow> (Ok (), AList.update p t T)
      | Unopened e \<Rightarrow> (Err e, T)
      | Torn k e \<Rightarrow> (Err e, AList.update p (take k t) T))"

section \<open>Backups\<close>

definition backup_candidate :: "path \<Rightarrow> int \<Rightarrow> path" where
  "backup_candidate p ts =
     with_file_name p ((case file_name p of Some n \<Rightarrow> n | None \<Rightarrow> ''config'') @ ''.gommage-bak-'' @ dec_int ts)"

lemma backup_candidate_inj: "backup_candidate p ts = backup_candidate p ts' \<longleftrightarrow> ts = ts'"
  by (simp add: backup_candidate_def with_file_name_def)

lemma finite_taken: "finite {ts. a \<le> ts \<and> backup_candidate p ts \<in> fst ` set T}"
proof -
  have "inj (backup_candidate p)" by (simp add: inj_def backup_candidate_inj)
  then have "finite (backup_candidate p -` (fst ` set T))" by (intro finite_vimageI) auto
  then show ?thesis by (rule rev_finite_subset) auto
qed

function backup_path :: "file_tree \<Rightarrow> path \<Rightarrow> int \<Rightarrow> path" where
  "backup_path T p ts =
     (if map_of T (backup_candidate p ts) = None then backup_candidate p ts else backup_path T p (ts + 1))"
  by pat_completeness auto

text \<open>The loop ends: finitely many of the names that are left to try are taken.\<close>

termination
proof (relation "measure (\<lambda>(T, p, ts). card {u. ts \<le> u \<and> backup_candidate p u \<in> fst ` set T})")
  fix T p ts
  assume "map_of T (backup_candidate p ts) \<noteq> None"
  then have "backup_candidate p ts \<in> fst ` set T" by (simp add: map_of_eq_None_iff)
  then have psub: "{u. ts + 1 \<le> u \<and> backup_candidate p u \<in> fst ` set T} \<subset>
      {u. ts \<le> u \<and> backup_candidate p u \<in> fst ` set T}"
    by (intro psubsetI subsetI) (auto simp: set_eq_iff intro: exI [of _ ts])
  then show "((T, p, ts + 1), T, p, ts) \<in>
      measure (\<lambda>(T, p, ts). card {u. ts \<le> u \<and> backup_candidate p u \<in> fst ` set T})"
    using psubset_card_mono [OF finite_taken psub] by simp
qed simp

declare backup_path.simps [simp del]

lemma backup_path_fresh: "map_of T (backup_path T p ts) = None"
proof (induction T p ts rule: backup_path.induct)
  case (1 T p ts)
  then show ?case by (subst backup_path.simps) simp
qed

lemma backup_path_name: "\<exists>u \<ge> ts. backup_path T p ts = backup_candidate p u"
proof (induction T p ts rule: backup_path.induct)
  case (1 T p ts)
  show ?case
  proof (cases "map_of T (backup_candidate p ts) = None")
    case True
    then show ?thesis by (subst backup_path.simps) auto
  next
    case False
    then obtain u where "u \<ge> ts + 1" "backup_path T p (ts + 1) = backup_candidate p u" using 1 by blast
    with False show ?thesis by (subst backup_path.simps) (auto intro: exI [of _ u])
  qed
qed

section \<open>Writing a text\<close>

record write_io =
  wo_read :: "string option"
  wo_mkdir :: "string option"
  wo_copy :: write_outcome
  wo_write :: write_outcome
  wo_now :: time

datatype text_written = TextUnchanged | TextPlanned | TextWritten "path option"

definition write_text ::
  "write_io \<Rightarrow> path \<Rightarrow> string \<Rightarrow> bool \<Rightarrow> file_tree \<Rightarrow> (string, text_written) result \<times> file_tree" where
  "write_text io p contents dry_run T =
     then_do
       ((case (map_of T p, wo_read io) of
           (None, _) \<Rightarrow> Ok None
         | (Some t, None) \<Rightarrow> Ok (Some t)
         | (Some _, Some e) \<Rightarrow> Err e), T)
       (\<lambda>old T0.
         if old = Some contents then (Ok TextUnchanged, T0)
         else if dry_run then (Ok TextPlanned, T0)
         else
           then_do
             ((case (parent_path p, wo_mkdir io) of (Some _, Some e) \<Rightarrow> Err e | _ \<Rightarrow> Ok ()), T0)
             (\<lambda>_ T1.
               case old of
                 None \<Rightarrow> then_do (put_file (wo_write io) p contents T1) (\<lambda>_ T2. (Ok (TextWritten None), T2))
               | Some t \<Rightarrow>
                   (let backup = backup_path T1 p (wo_now io)
                    in then_do (put_file (wo_copy io) backup t T1) (\<lambda>_ T2.
                       then_do (put_file (wo_write io) p contents T2) (\<lambda>_ T3.
                         (Ok (TextWritten (Some backup)), T3))))))"

text \<open>The reader and the pretty printer of JSON.\<close>

record json_codec =
  jc_parse :: "string \<Rightarrow> (string, json) result"
  jc_pretty :: "json \<Rightarrow> (string, string) result"

definition read_json_object ::
  "json_codec \<Rightarrow> string option \<Rightarrow> path \<Rightarrow> file_tree \<Rightarrow> (string, json) result" where
  "read_json_object J fault p T =
     (case map_of T p of
        None \<Rightarrow> Ok (JObject [])
      | Some raw \<Rightarrow>
          (case fault of
             Some e \<Rightarrow> Err (''reading '' @ path_text p @ '': '' @ e)
           | None \<Rightarrow>
               if is_blank raw then Ok (JObject [])
               else
                 and_then (map_err (\<lambda>e. ''parsing '' @ path_text p @ '': '' @ e) (jc_parse J raw)) (\<lambda>v.
                   case v of
                     JObject ms \<Rightarrow> Ok v
                   | _ \<Rightarrow> Err (path_text p @ '' must contain a JSON object''))))"

definition write_json ::
  "json_codec \<Rightarrow> write_io \<Rightarrow> path \<Rightarrow> json \<Rightarrow> bool \<Rightarrow> file_tree \<Rightarrow> (string, text_written) result \<times> file_tree" where
  "write_json J io p v dry_run T =
     then_do (jc_pretty J v, T) (\<lambda>raw T0. write_text io p (raw @ [NL]) dry_run T0)"

definition env_path_or_home :: "env \<Rightarrow> path option \<Rightarrow> string \<Rightarrow> string list \<Rightarrow> path" where
  "env_path_or_home vars os_home var components =
     (case vars var of
        Some p \<Rightarrow> path_of p
      | None \<Rightarrow> fold (\<lambda>c p. path_join p c) components (case os_home of Some h \<Rightarrow> h | None \<Rightarrow> path_of ''.''))"

section \<open>Bringing a backup back\<close>

text \<open>\<open>i64::parse\<close> of digits, with \<open>unwrap_or(0)\<close>.\<close>

definition backup_stamp :: "path \<Rightarrow> path \<Rightarrow> int option" where
  "backup_stamp p q =
     (case (file_name p, file_name q) of
        (Some n, Some m) \<Rightarrow>
          (case strip_prefix m (n @ ''.gommage-bak-'') of
             Some raw \<Rightarrow>
               if raw = [] \<or> \<not> list_all is_ascii_digit raw then None
               else Some (if undec_digits raw < 2 ^ 63 then int (undec_digits raw) else 0)
           | None \<Rightarrow> None)
      | _ \<Rightarrow> None)"

fun newest_backup :: "path \<Rightarrow> path list \<Rightarrow> (int \<times> path) option \<Rightarrow> (int \<times> path) option" where
  "newest_backup p [] latest = latest"
| "newest_backup p (q # qs) latest =
     newest_backup p qs
       (case backup_stamp p q of
          None \<Rightarrow> latest
        | Some ts \<Rightarrow>
            (case latest of
               None \<Rightarrow> Some (ts, q)
             | Some (current, _) \<Rightarrow> if current < ts then Some (ts, q) else latest))"

definition latest_gommage_backup :: "string option \<Rightarrow> path \<Rightarrow> file_tree \<Rightarrow> (string, path option) result" where
  "latest_gommage_backup fault p T =
     (case (parent_path p, file_name p) of
        (Some parent, Some _) \<Rightarrow>
          (let entries = filter (\<lambda>q. parent_path q = Some parent) (map fst T)
           in case fault of
                Some e \<Rightarrow> Err e
              | None \<Rightarrow> Ok (map_option snd (newest_backup p entries None)))
      | _ \<Rightarrow> Ok None)"

definition restore_latest_backup ::
  "string option \<Rightarrow> write_io \<Rightarrow> path \<Rightarrow> bool \<Rightarrow> file_tree \<Rightarrow> (string, bool) result \<times> file_tree" where
  "restore_latest_backup fault io p dry_run T =
     then_do (latest_gommage_backup fault p T, T) (\<lambda>found T0.
       case found of
         None \<Rightarrow> (Ok False, T0)
       | Some backup \<Rightarrow>
           if dry_run then (Ok True, T0)
           else
             (case (wo_mkdir io, map_of T0 backup) of
                (Some e, _) \<Rightarrow> (Err e, T0)
              | (None, None) \<Rightarrow> (Err ''No such file'', T0)
              | (None, Some t) \<Rightarrow>
                  then_do (put_file (wo_copy io) p t T0) (\<lambda>_ T1. (Ok True, T1))))"

section \<open>Laws\<close>

text \<open>No text of the files is lost: what a path held is still held by some path.\<close>

definition keeps_texts :: "file_tree \<Rightarrow> file_tree \<Rightarrow> bool" where
  "keeps_texts T T' \<longleftrightarrow> ran (map_of T) \<subseteq> ran (map_of T')"

lemma keeps_texts_refl [simp]: "keeps_texts T T"
  by (simp add: keeps_texts_def)

lemma transp_keeps_texts: "transp keeps_texts"
  by (auto simp: keeps_texts_def transp_def)

lemma keeps_texts_trans: "keeps_texts T T1 \<Longrightarrow> keeps_texts T1 T2 \<Longrightarrow> keeps_texts T T2"
  using transp_keeps_texts by (blast dest: transpD)

lemma map_of_put_file:
  "put_file w p t T = (res, T') \<Longrightarrow>
     (\<forall>q. q \<noteq> p \<longrightarrow> map_of T' q = map_of T q) \<and> (res = Ok () \<longrightarrow> map_of T' p = Some t)"
  by (cases w) (auto simp: put_file_def update_conv')

lemma put_file_new:
  assumes "put_file w p t T = (res, T')" and "map_of T p = None"
  shows "keeps_texts T T'"
proof -
  have "map_of T' q = Some u" if "map_of T q = Some u" for q u
  proof -
    from that assms(2) have "q \<noteq> p" by auto
    with map_of_put_file [OF assms(1)] that show ?thesis by simp
  qed
  then show ?thesis by (auto simp: keeps_texts_def ran_def)
qed

lemma put_file_kept:
  assumes "put_file w p t T = (res, T')" and "map_of T p = Some u" and "map_of T q = Some u" and "q \<noteq> p"
  shows "keeps_texts T T'"
proof -
  have other: "map_of T' r = map_of T r" if "r \<noteq> p" for r
    using map_of_put_file [OF assms(1)] that by simp
  have "u' \<in> ran (map_of T')" if "map_of T r = Some u'" for r u'
  proof (cases "r = p")
    case True
    with that assms(2) have "u' = u" by simp
    with assms(3) other [OF assms(4)] show ?thesis by (auto intro: ranI [of _ q])
  next
    case False
    with that other [OF False] show ?thesis by (auto intro: ranI [of _ r])
  qed
  then show ?thesis by (auto simp: keeps_texts_def ran_def)
qed

lemma write_text_cases:
  assumes "write_text io p contents dry_run T = (res, T')"
  obtains (unread) e where "res = Err e" "T' = T"
  | (unchanged) "map_of T p = Some contents" "res = Ok TextUnchanged" "T' = T"
  | (planned) "dry_run" "res = Ok TextPlanned" "T' = T"
  | (fresh) res1 where "\<not> dry_run" "map_of T p = None" "put_file (wo_write io) p contents T = (res1, T')"
      "res = and_then res1 (\<lambda>_. Ok (TextWritten None))"
  | (uncopied) t e where "\<not> dry_run" "map_of T p = Some t"
      "put_file (wo_copy io) (backup_path T p (wo_now io)) t T = (Err e, T')" "res = Err e"
  | (replaced) t res1 T1 where "\<not> dry_run" "map_of T p = Some t"
      "put_file (wo_copy io) (backup_path T p (wo_now io)) t T = (Ok (), T1)"
      "put_file (wo_write io) p contents T1 = (res1, T')"
      "res = and_then res1 (\<lambda>_. Ok (TextWritten (Some (backup_path T p (wo_now io)))))"
proof (cases "map_of T p")
  case None
  show thesis
  proof (cases "dry_run \<or> (parent_path p \<noteq> None \<and> wo_mkdir io \<noteq> None)")
    case True
    with assms None unread planned show thesis
      by (auto simp: write_text_def split: option.splits if_splits)
  next
    case False
    obtain res1 T1 where w: "put_file (wo_write io) p contents T = (res1, T1)" by fastforce
    have "(case (parent_path p, wo_mkdir io) of (Some x, Some e) \<Rightarrow> Err e | _ \<Rightarrow> Ok ()) = (Ok () :: (string, unit) result)"
      using False by (auto split: option.splits)
    with assms None False w have "T' = T1" "res = and_then res1 (\<lambda>_. Ok (TextWritten None))"
      by (auto simp: write_text_def then_do_def and_then_def split: sum.splits)
    with fresh [of res1] None False w show thesis by blast
  qed
next
  case (Some t)
  show thesis
  proof (cases "wo_read io \<noteq> None \<or> t = contents \<or> dry_run \<or> (parent_path p \<noteq> None \<and> wo_mkdir io \<noteq> None)")
    case True
    with assms Some unread unchanged planned show thesis
      by (auto simp: write_text_def split: option.splits if_splits)
  next
    case False
    obtain res1 T1 where w: "put_file (wo_copy io) (backup_path T p (wo_now io)) t T = (res1, T1)" by fastforce
    have ok: "(case (parent_path p, wo_mkdir io) of (Some x, Some e) \<Rightarrow> Err e | _ \<Rightarrow> Ok ()) = (Ok () :: (string, unit) result)"
      using False by (auto split: option.splits)
    show thesis
    proof (cases res1)
      case (Inl e)
      with assms Some False w ok have "T' = T1" "res = Err e"
        by (auto simp: write_text_def Let_def)
      with uncopied [of t e] Some False w Inl show thesis by blast
    next
      case (Inr u)
      obtain res2 T2 where w2: "put_file (wo_write io) p contents T1 = (res2, T2)" by fastforce
      from assms Some False w ok Inr w2 have "T' = T2"
          "res = and_then res2 (\<lambda>_. Ok (TextWritten (Some (backup_path T p (wo_now io)))))"
        by (auto simp: write_text_def Let_def then_do_def and_then_def split: sum.splits)
      with replaced [of t T1 res2] Some False w Inr w2 show thesis by auto
    qed
  qed
qed

lemma write_text_keeps_texts:
  assumes "write_text io p contents dry_run T = (res, T')"
  shows "keeps_texts T T'"
  using assms
proof (cases rule: write_text_cases)
  case (fresh res1)
  then show ?thesis by (auto intro: put_file_new)
next
  case (uncopied t e)
  then show ?thesis by (auto intro: put_file_new backup_path_fresh)
next
  case (replaced t res1 T1)
  let ?b = "backup_path T p (wo_now io)"
  have b: "?b \<noteq> p" using replaced(2) backup_path_fresh [of T p "wo_now io"] by auto
  from map_of_put_file [OF replaced(3)] b replaced(2)
  have "map_of T1 ?b = Some t" "map_of T1 p = Some t" by auto
  with put_file_kept [OF replaced(4)] b have "keeps_texts T1 T'" by blast
  moreover have "keeps_texts T T1" using put_file_new [OF replaced(3) backup_path_fresh] .
  ultimately show ?thesis by (rule keeps_texts_trans [rotated])
qed simp_all

text \<open>What a successful write leaves at the path, and what it leaves alone: of the names it does not
  replace, only a fresh backup is new.\<close>

lemma write_text_Ok:
  assumes "write_text io p contents dry_run T = (Ok w, T')"
  shows "(dry_run \<longrightarrow> T' = T) \<and> (\<not> dry_run \<longrightarrow> map_of T' p = Some contents) \<and>
    (\<forall>q. q \<noteq> p \<and> map_of T' q \<noteq> map_of T q \<longrightarrow>
       w = TextWritten (Some q) \<and> map_of T q = None \<and> map_of T' q = map_of T p)"
  using assms
proof (cases rule: write_text_cases)
  case (fresh res1)
  then have "res1 = Ok ()" by (cases res1) auto
  with map_of_put_file [OF fresh(3)] fresh(1) show ?thesis by auto
next
  case (replaced t res1 T1)
  from replaced(5) have r: "res1 = Ok ()" "w = TextWritten (Some (backup_path T p (wo_now io)))"
    by (cases res1; simp)+
  let ?b = "backup_path T p (wo_now io)"
  have w1: "\<And>q. q \<noteq> ?b \<Longrightarrow> map_of T1 q = map_of T q" "map_of T1 ?b = Some t"
    using map_of_put_file [OF replaced(3)] by auto
  have w2: "\<And>q. q \<noteq> p \<Longrightarrow> map_of T' q = map_of T1 q" "map_of T' p = Some contents"
    using map_of_put_file [OF replaced(4)] r(1) by auto
  have b: "?b \<noteq> p" "map_of T ?b = None" using replaced(2) backup_path_fresh [of T p "wo_now io"] by auto
  have "w = TextWritten (Some q) \<and> map_of T q = None \<and> map_of T' q = map_of T p"
    if q: "q \<noteq> p" "map_of T' q \<noteq> map_of T q" for q
  proof (cases "q = ?b")
    case True
    with w1(2) w2(1) [OF b(1)] b(2) r(2) replaced(2) show ?thesis by simp
  next
    case False
    with q w1(1) [OF False] w2(1) [OF q(1)] show ?thesis by simp
  qed
  with w2(2) replaced(1) show ?thesis by blast
qed auto

lemma write_text_dry: "write_text io p contents True T = (res, T') \<Longrightarrow> T' = T"
  by (erule write_text_cases) auto

lemma write_text_others:
  assumes "write_text io p contents dry_run T = (res, T')" and "map_of T q \<noteq> None" and "q \<noteq> p"
  shows "map_of T' q = map_of T q"
  using assms(1)
proof (cases rule: write_text_cases)
  case (fresh res1)
  with map_of_put_file [OF fresh(3)] assms(3) show ?thesis by auto
next
  case (uncopied t e)
  have "q \<noteq> backup_path T p (wo_now io)" using assms(2) backup_path_fresh by metis
  with map_of_put_file [OF uncopied(3)] show ?thesis by auto
next
  case (replaced t res1 T1)
  have "q \<noteq> backup_path T p (wo_now io)" using assms(2) backup_path_fresh by metis
  with map_of_put_file [OF replaced(3)] map_of_put_file [OF replaced(4)] assms(3) show ?thesis by auto
qed simp_all

lemma write_json_steps:
  assumes "write_json J io p v dry_run T = (res, T')"
  shows "(\<exists>e. jc_pretty J v = Err e \<and> res = Err e \<and> T' = T) \<or>
    (\<exists>raw. jc_pretty J v = Ok raw \<and> write_text io p (raw @ [NL]) dry_run T = (res, T'))"
  using assms by (cases "jc_pretty J v") (auto simp: write_json_def)

lemma write_json_keeps_texts: "write_json J io p v dry_run T = (res, T') \<Longrightarrow> keeps_texts T T'"
  by (drule write_json_steps) (auto intro: write_text_keeps_texts)

lemma write_json_dry: "write_json J io p v True T = (res, T') \<Longrightarrow> T' = T"
  by (drule write_json_steps) (auto dest: write_text_dry)

end
