(* ===== verification/Agent_Hooks.thy ===== *)
theory Agent_Hooks
  imports Config_Files Runtime Audit_Log
begin

text \<open>
  The integration with the agents (\<open>crates/gommage-cli/src/agent.rs\<close>, \<open>agent_uninstall.rs\<close>,
  \<open>codex_config.rs\<close>): the hook group in an agent's settings, the native permissions imported as
  policy files, the policy posture, and their removal. A TOML document is a parameter, as are the
  texts of the two posture files; what is printed is left out.
\<close>

section \<open>JSON by path\<close>

text \<open>\<open>Value::pointer\<close> for keys that are no array indices.\<close>

fun json_pointer :: "string list \<Rightarrow> json \<Rightarrow> json option" where
  "json_pointer [] v = Some v"
| "json_pointer (k # ks) v =
     (case v of JObject ms \<Rightarrow> (case map_of ms k of None \<Rightarrow> None | Some w \<Rightarrow> json_pointer ks w) | _ \<Rightarrow> None)"

definition array_at :: "string list \<Rightarrow> json \<Rightarrow> json list option" where
  "array_at ks v = (case json_pointer ks v of None \<Rightarrow> None | Some w \<Rightarrow> as_array w)"

text \<open>The array a path leads to, created with its objects where they are missing, and changed by \<open>f\<close>.\<close>

fun change_array_path :: "string list \<Rightarrow> (json list \<Rightarrow> json list) \<Rightarrow> json \<Rightarrow> (string, json) result" where
  "change_array_path [] f v = Err ''empty path''"
| "change_array_path [key] f v =
     (case v of
        JObject ms \<Rightarrow>
          (case map_of ms key of
             None \<Rightarrow> Ok (JObject (member_insert key (JArray (f [])) ms))
           | Some (JArray a) \<Rightarrow> Ok (JObject (member_insert key (JArray (f a)) ms))
           | Some _ \<Rightarrow> Err (key @ '' exists but is not an array''))
      | _ \<Rightarrow> Err (''expected JSON object while creating '' @ key))"
| "change_array_path (key # k # ks) f v =
     (case v of
        JObject ms \<Rightarrow>
          and_then (change_array_path (k # ks) f (case map_of ms key of None \<Rightarrow> JObject [] | Some w \<Rightarrow> w))
            (\<lambda>w. Ok (JObject (member_insert key w ms)))
      | _ \<Rightarrow> Err (''expected JSON object while creating '' @ key))"

section \<open>The hook group\<close>

datatype agent_kind = AgentClaude | AgentCodex

definition agent_str :: "agent_kind \<Rightarrow> string" where
  "agent_str a = (case a of AgentClaude \<Rightarrow> ''claude'' | AgentCodex \<Rightarrow> ''codex'')"

definition CODEX_GOMMAGE_MATCHER :: string where
  "CODEX_GOMMAGE_MATCHER = ''^Bash$|^apply_patch$|^mcp__.*$''"

definition CLAUDE_GOMMAGE_HOOK_COMMAND :: string where
  "CLAUDE_GOMMAGE_HOOK_COMMAND = ''gommage hook --agent claude''"

definition CODEX_GOMMAGE_HOOK_COMMAND :: string where
  "CODEX_GOMMAGE_HOOK_COMMAND = ''gommage hook --agent codex''"

definition claude_hook_path :: "string list" where
  "claude_hook_path = [''hooks'', ''PreToolUse'']"

definition codex_pre_tool_use_path :: "json \<Rightarrow> string list" where
  "codex_pre_tool_use_path root =
     (if json_pointer [''hooks'', ''PreToolUse''] root \<noteq> None then [''hooks'', ''PreToolUse'']
      else [''PreToolUse''])"

definition hook_mentions :: "string \<Rightarrow> json \<Rightarrow> bool" where
  "hook_mentions needle hook \<longleftrightarrow>
     (case (case json_get hook ''command'' of None \<Rightarrow> None | Some c \<Rightarrow> as_str c) of
        None \<Rightarrow> False
      | Some command \<Rightarrow> contains_str (map to_ascii_lowercase command) needle)"

definition json_hook_entry_contains_command :: "string \<Rightarrow> json \<Rightarrow> bool" where
  "json_hook_entry_contains_command needle entry \<longleftrightarrow>
     (case (case json_get entry ''hooks'' of None \<Rightarrow> None | Some h \<Rightarrow> as_array h) of
        None \<Rightarrow> False
      | Some hooks \<Rightarrow> list_ex (hook_mentions needle) hooks)"

definition install_json_hook_group :: "string list \<Rightarrow> json \<Rightarrow> bool \<Rightarrow> json \<Rightarrow> (string, json) result" where
  "install_json_hook_group path grp replace_hooks root =
     change_array_path path (\<lambda>entries.
       (if replace_hooks then []
        else filter (\<lambda>e. \<not> json_hook_entry_contains_command ''gommage'' e) entries) @ [grp]) root"

definition claude_group :: "string \<Rightarrow> json" where
  "claude_group matcher =
     JObject [(''matcher'', JString matcher),
       (''hooks'', JArray [JObject [(''type'', JString ''command''),
          (''command'', JString CLAUDE_GOMMAGE_HOOK_COMMAND), (''timeout'', JNumber (JInt 10))]])]"

definition codex_group :: json where
  "codex_group =
     JObject [(''matcher'', JString CODEX_GOMMAGE_MATCHER),
       (''hooks'', JArray [JObject [(''type'', JString ''command''),
          (''command'', JString CODEX_GOMMAGE_HOOK_COMMAND)]])]"

section \<open>Native permissions\<close>

definition native_permission_rules :: "json \<Rightarrow> string list \<Rightarrow> string list" where
  "native_permission_rules settings pointer =
     (case array_at pointer settings of None \<Rightarrow> [] | Some a \<Rightarrow> List.map_filter as_str a)"

definition normalize_native_path_pattern :: "string \<Rightarrow> string" where
  "normalize_native_path_pattern raw =
     (if raw = ''*'' \<or> raw = ''**'' then ''**''
      else if raw = ''~'' then ''${HOME}''
      else case strip_prefix raw ''~/'' of
             Some rest \<Rightarrow> ''${HOME}/'' @ rest
           | None \<Rightarrow>
               if raw = ''.'' \<or> raw = ''./'' then ''${EXPEDITION_ROOT}/**''
               else case strip_prefix raw ''./'' of
                      Some rest \<Rightarrow> ''${EXPEDITION_ROOT}/'' @ rest
                    | None \<Rightarrow> raw)"

definition normalize_bash_permission_pattern :: "string \<Rightarrow> string" where
  "normalize_bash_permission_pattern raw = str_replace '':*'' ''*'' raw"

definition write_tools :: "string list" where
  "write_tools = [''Write'', ''Edit'', ''MultiEdit'', ''NotebookEdit'']"

definition specified_capability :: "string \<Rightarrow> string \<Rightarrow> string option" where
  "specified_capability tname value =
     (if tname \<in> {''Read'', ''Glob''} then Some (''fs.read:'' @ normalize_native_path_pattern value)
      else if tname = ''Grep'' then Some (''fs.search:'' @ normalize_native_path_pattern value)
      else if tname \<in> set write_tools then Some (''fs.write:'' @ normalize_native_path_pattern value)
      else if tname = ''Bash'' then Some (''proc.exec:'' @ normalize_bash_permission_pattern value)
      else if tname = ''WebFetch''
        then Some (''net.fetch:'' @ (case strip_prefix value ''domain:'' of Some d \<Rightarrow> d | None \<Rightarrow> value))
      else if starts_with tname ''mcp__'' then Some (''mcp.call:'' @ tname)
      else None)"

definition whole_tool_capability :: "string \<Rightarrow> string option" where
  "whole_tool_capability raw =
     (if raw = ''*'' then Some ''**''
      else if raw \<in> {''Read'', ''Glob''} then Some ''fs.read:**''
      else if raw = ''Grep'' then Some ''fs.search:**''
      else if raw \<in> set write_tools then Some ''fs.write:**''
      else if raw = ''Bash'' then Some ''proc.exec:*''
      else if raw = ''WebFetch'' then Some ''net.fetch:*''
      else if raw = ''WebSearch'' then Some ''net.search:web''
      else if starts_with raw ''mcp__'' \<and> 2 \<le> count_matches ''__'' raw then Some (''mcp.call:'' @ raw)
      else None)"

definition translate_claude_permission_specifier :: "string \<Rightarrow> string option" where
  "translate_claude_permission_specifier raw =
     (case split_once (CHR ''('') raw of
        Some (tname, rest) \<Rightarrow>
          (case strip_suffix rest '')'' of None \<Rightarrow> None | Some value \<Rightarrow> specified_capability tname value)
      | None \<Rightarrow> whole_tool_capability raw)"

record native_permission_import =
  ni_raw :: string
  ni_capability :: string

definition translate_claude_native_rules ::
  "string list \<Rightarrow> (string \<Rightarrow> string option) \<Rightarrow> native_permission_import list \<times> string list" where
  "translate_claude_native_rules rules translate =
     foldl (\<lambda>(translated, skipped) raw.
       case translate raw of
         Some capability \<Rightarrow> (translated @ [\<lparr>ni_raw = raw, ni_capability = capability\<rparr>], skipped)
       | None \<Rightarrow> (translated, skipped @ [raw])) ([], []) rules"

record native_permission_group =
  ng_capability :: string
  ng_raws :: "string list"

fun add_native :: "native_permission_import \<Rightarrow> native_permission_group list \<Rightarrow> native_permission_group list" where
  "add_native i [] = [\<lparr>ng_capability = ni_capability i, ng_raws = [ni_raw i]\<rparr>]"
| "add_native i (g # gs) =
     (if ng_capability g = ni_capability i then g\<lparr>ng_raws := ng_raws g @ [ni_raw i]\<rparr> # gs
      else g # add_native i gs)"

definition group_native_permission_imports ::
  "native_permission_import list \<Rightarrow> native_permission_group list" where
  "group_native_permission_imports translated = foldl (\<lambda>gs i. add_native i gs) [] translated"

text \<open>\<open>{:02}\<close>.\<close>

definition two_digits :: "nat \<Rightarrow> string" where
  "two_digits n = (if n < 10 then ''0'' @ dec_nat n else dec_nat n)"

definition import_rule_yaml :: "string \<Rightarrow> string \<Rightarrow> string \<Rightarrow> nat \<Rightarrow> native_permission_group \<Rightarrow> string" where
  "import_rule_yaml source_label name_prefix decision index g =
     ''- name: '' @ name_prefix @ ''-'' @ two_digits (index + 1) @ [NL] @
     ''  decision: '' @ decision @ [NL] @
     ''  match:'' @ [NL] @
     ''    any_capability:'' @ [NL] @
     ''      - '' @ serde_string (ng_capability g) @ [NL] @
     ''  reason: '' @
       serde_string (''imported from '' @ source_label @ '': '' @ join '', '' (ng_raws g)) @ [NL, NL]"

definition import_yaml :: "string \<Rightarrow> string \<Rightarrow> string \<Rightarrow> string \<Rightarrow> native_permission_group list \<Rightarrow> string" where
  "import_yaml source_label ordering_note name_prefix decision groups =
     ''# Generated by `gommage quickstart` from '' @ source_label @ ''.'' @ [NL] @
     ''# Review before sharing; native permission syntax is broader than Gommage capabilities.'' @ [NL] @
     ''# '' @ ordering_note @ [NL, NL] @
     concat (map (\<lambda>(i, g). import_rule_yaml source_label name_prefix decision i g)
       (zip [0..<length groups] groups))"

definition write_claude_permission_import ::
  "write_io \<Rightarrow> path \<Rightarrow> string \<Rightarrow> string \<Rightarrow> string \<Rightarrow> string \<Rightarrow> native_permission_import list \<Rightarrow> bool \<Rightarrow> bool \<Rightarrow>
     file_tree \<Rightarrow> (string, unit) result \<times> file_tree" where
  "write_claude_permission_import io import_path source_label ordering_note name_prefix decision translated
      force dry_run T =
     (if translated = [] then (Ok (), T)
      else
        (let yaml = import_yaml source_label ordering_note name_prefix decision
               (group_native_permission_imports translated)
         in if map_of T import_path \<noteq> None \<and> \<not> force
            then (case wo_read io of Some e \<Rightarrow> (Err e, T) | None \<Rightarrow> (Ok (), T))
            else then_do (write_text io import_path yaml dry_run T) (\<lambda>_ T1. (Ok (), T1))))"

definition deny_import_file :: string where
  "deny_import_file = ''05-claude-import.yaml''"

definition allow_import_file :: string where
  "allow_import_file = ''90-claude-allow-import.yaml''"

text \<open>What one command meets: the outcome of \<open>ensure\<close>, and of its reads and writes in their order.\<close>

record agent_io =
  ag_ensured :: "(string, unit) result"
  ag_read :: "nat \<Rightarrow> string option"
  ag_write :: "nat \<Rightarrow> write_io"

definition import_claude_permissions ::
  "agent_io \<Rightarrow> json \<Rightarrow> home_layout \<Rightarrow> bool \<Rightarrow> bool \<Rightarrow> file_tree \<Rightarrow> (string, unit) result \<times> file_tree" where
  "import_claude_permissions io settings L force dry_run T =
     (let denies = fst (translate_claude_native_rules
            (native_permission_rules settings [''permissions'', ''deny'']) translate_claude_permission_specifier);
          allow_rules = native_permission_rules settings [''permissions'', ''allow''];
          allows = fst (translate_claude_native_rules allow_rules translate_claude_permission_specifier)
      in then_do
           (write_claude_permission_import (ag_write io 2) (path_join (hl_policy_dir L) deny_import_file)
             ''Claude Code permissions.deny''
             ''Deny imports live before stdlib allow rules so native blocks remain fail-closed.''
             ''claude-import-deny'' ''gommage'' denies force dry_run T)
           (\<lambda>_ T1.
             if allow_rules = [] then (Ok (), T1)
             else
               write_claude_permission_import (ag_write io 3) (path_join (hl_policy_dir L) allow_import_file)
                 ''Claude Code permissions.allow''
                 ''Allow imports load late so Gommage hard-stop, deny, and ask rules win first.''
                 ''claude-import-allow'' ''allow'' allows force dry_run T1))"

section \<open>The matcher\<close>

definition MAPPED_TOOLS :: "string list" where
  "MAPPED_TOOLS =
     [''Bash'', ''Read'', ''Write'', ''Edit'', ''MultiEdit'', ''NotebookEdit'', ''Glob'', ''Grep'', ''WebFetch'',
      ''WebSearch'', ''mcp__.*'']"

definition claude_allow_covers_tool :: "json list \<Rightarrow> string \<Rightarrow> bool" where
  "claude_allow_covers_tool rules tname \<longleftrightarrow>
     list_ex (\<lambda>rule.
       rule = ''*'' \<or> rule = tname \<or>
       (case strip_prefix rule tname of Some rest \<Rightarrow> starts_with rest ''('' | None \<Rightarrow> False) \<or>
       (tname = ''mcp__.*'' \<and> starts_with rule ''mcp__''))
       (List.map_filter as_str rules)"

definition claude_matched_tools :: "json \<Rightarrow> string list" where
  "claude_matched_tools settings =
     filter (\<lambda>tname. case array_at [''permissions'', ''allow''] settings of
         None \<Rightarrow> True
       | Some rules \<Rightarrow> claude_allow_covers_tool rules tname) MAPPED_TOOLS"

definition claude_gommage_matcher :: "json \<Rightarrow> string" where
  "claude_gommage_matcher settings = join ''|'' (claude_matched_tools settings)"

section \<open>Installing\<close>

definition write_agent_posture_policy ::
  "string \<times> string \<Rightarrow> agent_io \<Rightarrow> home_layout \<Rightarrow> bool \<Rightarrow> file_tree \<Rightarrow> (string, unit) result \<times> file_tree" where
  "write_agent_posture_policy posture io L dry_run T =
     then_do (write_text (ag_write io 0) (path_join (hl_policy_dir L) ''06-agent-config-writable.yaml'')
         (fst posture) dry_run T) (\<lambda>_ T1.
     then_do (write_text (ag_write io 1) (path_join (hl_policy_dir L) ''95-agent-catch-all.yaml'')
         (snd posture) dry_run T1) (\<lambda>_ T2. (Ok (), T2)))"

definition install_claude ::
  "json_codec \<Rightarrow> agent_io \<Rightarrow> path \<Rightarrow> home_layout \<Rightarrow> bool \<Rightarrow> bool \<Rightarrow> bool \<Rightarrow> file_tree \<Rightarrow>
     (string, unit) result \<times> file_tree" where
  "install_claude J io settings_path L replace_hooks import_native dry_run T =
     then_do (read_json_object J (ag_read io 0) settings_path T, T) (\<lambda>settings T0.
     then_do (if import_native then import_claude_permissions io settings L replace_hooks dry_run T0 else (Ok (), T0))
       (\<lambda>_ T1.
         (let matcher = claude_gommage_matcher settings
          in if matcher = [] then (Ok (), T1)
             else
               then_do (install_json_hook_group claude_hook_path (claude_group matcher) replace_hooks settings, T1)
                 (\<lambda>changed T2.
               then_do (write_json J (ag_write io 4) settings_path changed dry_run T2) (\<lambda>_ T3. (Ok (), T3))))))"

text \<open>A TOML document: its reader and printer, the Boolean \<open>features.key\<close>, and the assignment
  \<open>config["features"][key]\<close>, which panics on a document that has no room for it.\<close>

record 'd toml_lib =
  tl_new :: 'd
  tl_parse :: "string \<Rightarrow> (string, 'd) result"
  tl_print :: "'d \<Rightarrow> string"
  tl_feature :: "'d \<Rightarrow> string \<Rightarrow> bool option"
  tl_set_feature :: "'d \<Rightarrow> string \<Rightarrow> bool \<Rightarrow> 'd option"

datatype agent_error = AgentText string | AgentPanic

definition agent_step :: "(string, 'a) result \<times> file_tree \<Rightarrow> (agent_error, 'a) result \<times> file_tree" where
  "agent_step r = (map_err AgentText (fst r), snd r)"

definition set_feature :: "'d toml_lib \<Rightarrow> 'd \<Rightarrow> string \<Rightarrow> bool \<Rightarrow> (agent_error, 'd) result" where
  "set_feature M d key b = (case tl_set_feature M d key b of None \<Rightarrow> Err AgentPanic | Some d' \<Rightarrow> Ok d')"

definition read_toml_document ::
  "'d toml_lib \<Rightarrow> string option \<Rightarrow> path \<Rightarrow> file_tree \<Rightarrow> (string, 'd) result" where
  "read_toml_document M fault p T =
     (case map_of T p of
        None \<Rightarrow> Ok (tl_new M)
      | Some raw \<Rightarrow>
          (case fault of
             Some e \<Rightarrow> Err (''reading '' @ path_text p @ '': '' @ e)
           | None \<Rightarrow> map_err (\<lambda>e. ''parsing '' @ path_text p @ '': '' @ e) (tl_parse M raw)))"

definition enable_codex_hooks_feature :: "'d toml_lib \<Rightarrow> 'd \<Rightarrow> (agent_error, 'd) result" where
  "enable_codex_hooks_feature M d = set_feature M d ''hooks'' True"

definition disable_existing_feature ::
  "'d toml_lib \<Rightarrow> string \<Rightarrow> 'd \<times> string list \<Rightarrow> (agent_error, 'd \<times> string list) result" where
  "disable_existing_feature M key st =
     (if tl_feature M (fst st) key \<noteq> None
      then and_then (set_feature M (fst st) key False) (\<lambda>d. Ok (d, snd st @ [''features.'' @ key]))
      else Ok st)"

definition disable_existing_codex_hooks_features :: "'d toml_lib \<Rightarrow> 'd \<Rightarrow> (agent_error, 'd \<times> string list) result" where
  "disable_existing_codex_hooks_features M d =
     and_then (disable_existing_feature M ''hooks'' (d, [])) (disable_existing_feature M ''codex_hooks'')"

definition install_codex ::
  "'d toml_lib \<Rightarrow> json_codec \<Rightarrow> agent_io \<Rightarrow> path \<Rightarrow> path \<Rightarrow> bool \<Rightarrow> bool \<Rightarrow> file_tree \<Rightarrow>
     (agent_error, unit) result \<times> file_tree" where
  "install_codex M J io hooks_path config_path replace_hooks dry_run T =
     then_do (agent_step (read_json_object J (ag_read io 0) hooks_path T, T)) (\<lambda>hooks T0.
     then_do (agent_step (install_json_hook_group (codex_pre_tool_use_path hooks) codex_group replace_hooks hooks, T0))
       (\<lambda>changed T1.
     then_do (agent_step (write_json J (ag_write io 2) hooks_path changed dry_run T1)) (\<lambda>_ T2.
     then_do (agent_step (read_toml_document M (ag_read io 1) config_path T2, T2)) (\<lambda>config T3.
     then_do (enable_codex_hooks_feature M config, T3) (\<lambda>enabled T4.
     then_do (agent_step (write_text (ag_write io 3) config_path (tl_print M enabled) dry_run T4)) (\<lambda>_ T5.
       (Ok (), T5)))))))"

text \<open>Where the files of the agents are.\<close>

record agent_paths =
  ap_claude_settings :: path
  ap_codex_hooks :: path
  ap_codex_config :: path

definition agent_paths_from :: "env \<Rightarrow> path option \<Rightarrow> agent_paths" where
  "agent_paths_from vars os_home =
     \<lparr>ap_claude_settings = env_path_or_home vars os_home ''GOMMAGE_CLAUDE_SETTINGS'' [''.claude'', ''settings.json''],
      ap_codex_hooks = env_path_or_home vars os_home ''GOMMAGE_CODEX_HOOKS'' [''.codex'', ''hooks.json''],
      ap_codex_config = env_path_or_home vars os_home ''GOMMAGE_CODEX_CONFIG'' [''.codex'', ''config.toml'']\<rparr>"

definition install_agent ::
  "'d toml_lib \<Rightarrow> json_codec \<Rightarrow> string \<times> string \<Rightarrow> agent_io \<Rightarrow> agent_paths \<Rightarrow> agent_kind \<Rightarrow> home_layout \<Rightarrow> bool \<Rightarrow>
     bool \<Rightarrow> bool \<Rightarrow> file_tree \<Rightarrow> (agent_error, unit) result \<times> file_tree" where
  "install_agent M J posture io A agent L replace_hooks import_native dry_run T =
     then_do (agent_step (if dry_run then Ok () else ag_ensured io, T)) (\<lambda>_ T0.
     then_do (agent_step (write_agent_posture_policy posture io L dry_run T0)) (\<lambda>_ T1.
       case agent of
         AgentClaude \<Rightarrow>
           agent_step (install_claude J io (ap_claude_settings A) L replace_hooks import_native dry_run T1)
       | AgentCodex \<Rightarrow>
           install_codex M J io (ap_codex_hooks A) (ap_codex_config A) replace_hooks dry_run T1))"

section \<open>Uninstalling\<close>

text \<open>\<open>pointer_mut\<close> and \<open>retain\<close>: the number of groups removed and the document without them.\<close>

definition remove_json_hook_groups :: "string list \<Rightarrow> string \<Rightarrow> json \<Rightarrow> nat \<times> json" where
  "remove_json_hook_groups path needle root =
     (case array_at path root of
        None \<Rightarrow> (0, root)
      | Some entries \<Rightarrow>
          (let kept = filter (\<lambda>e. \<not> json_hook_entry_contains_command needle e) entries
           in (length entries - length kept,
               case change_array_path path (\<lambda>_. kept) root of Ok root' \<Rightarrow> root' | Err _ \<Rightarrow> root)))"

definition json_has_codex_hook_groups :: "json \<Rightarrow> bool" where
  "json_has_codex_hook_groups root \<longleftrightarrow>
     list_ex (\<lambda>path. case array_at path root of Some entries \<Rightarrow> entries \<noteq> [] | None \<Rightarrow> False)
       [[''hooks'', ''PreToolUse''], [''PreToolUse'']]"

definition uninstall_claude ::
  "json_codec \<Rightarrow> string option \<Rightarrow> agent_io \<Rightarrow> path \<Rightarrow> bool \<Rightarrow> bool \<Rightarrow> file_tree \<Rightarrow>
     (string, unit) result \<times> file_tree" where
  "uninstall_claude J listing io settings_path restore_backup dry_run T =
     then_do (if restore_backup then restore_latest_backup listing (ag_write io 0) settings_path dry_run T
              else (Ok False, T)) (\<lambda>restored T0.
       if restored then (Ok (), T0)
       else if map_of T0 settings_path = None then (Ok (), T0)
       else
         then_do (read_json_object J (ag_read io 0) settings_path T0, T0) (\<lambda>settings T1.
           case remove_json_hook_groups claude_hook_path ''gommage'' settings of
             (removed, changed) \<Rightarrow>
               if removed = 0 then (Ok (), T1)
               else then_do (write_json J (ag_write io 1) settings_path changed dry_run T1) (\<lambda>_ T2. (Ok (), T2))))"

text \<open>The hooks of Codex: whether groups were removed and whether others remain.\<close>

definition uninstall_codex_hooks ::
  "json_codec \<Rightarrow> agent_io \<Rightarrow> path \<Rightarrow> bool \<Rightarrow> file_tree \<Rightarrow> (string, bool \<times> bool) result \<times> file_tree" where
  "uninstall_codex_hooks J io hooks_path dry_run T =
     (if map_of T hooks_path = None then (Ok (False, False), T)
      else
        then_do (read_json_object J (ag_read io 0) hooks_path T, T) (\<lambda>hooks T1.
          let primary = codex_pre_tool_use_path hooks;
              secondary = (if primary = [''hooks'', ''PreToolUse''] then [''PreToolUse''] else [''hooks'', ''PreToolUse''])
          in case remove_json_hook_groups primary ''gommage'' hooks of
               (n1, hooks1) \<Rightarrow>
                 (case remove_json_hook_groups secondary ''gommage'' hooks1 of
                    (n2, hooks2) \<Rightarrow>
                      if 0 < n1 + n2
                      then then_do (write_json J (ag_write io 2) hooks_path hooks2 dry_run T1)
                             (\<lambda>_ T2. (Ok (True, json_has_codex_hook_groups hooks2), T2))
                      else (Ok (False, False), T1))))"

definition uninstall_codex ::
  "'d toml_lib \<Rightarrow> json_codec \<Rightarrow> string option \<Rightarrow> agent_io \<Rightarrow> path \<Rightarrow> path \<Rightarrow> bool \<Rightarrow> bool \<Rightarrow> file_tree \<Rightarrow>
     (agent_error, unit) result \<times> file_tree" where
  "uninstall_codex M J listing io hooks_path config_path restore_backup dry_run T =
     then_do (agent_step (if restore_backup then restore_latest_backup listing (ag_write io 0) hooks_path dry_run T
              else (Ok False, T))) (\<lambda>hooks_restored Ta.
     then_do (agent_step (if restore_backup then restore_latest_backup listing (ag_write io 1) config_path dry_run Ta
              else (Ok False, Ta))) (\<lambda>config_restored T0.
       if hooks_restored \<or> config_restored then (Ok (), T0)
       else
         then_do (agent_step (uninstall_codex_hooks J io hooks_path dry_run T0)) (\<lambda>(removed, remain) T1.
           if removed \<and> map_of T1 config_path \<noteq> None \<and> \<not> remain
           then
             then_do (agent_step (read_toml_document M (ag_read io 1) config_path T1, T1)) (\<lambda>config T2.
             then_do (disable_existing_codex_hooks_features M config, T2) (\<lambda>(disabled, labels) T3.
               if labels = [] then (Ok (), T3)
               else then_do (agent_step (write_text (ag_write io 3) config_path (tl_print M disabled) dry_run T3))
                      (\<lambda>_ T4. (Ok (), T4))))
           else (Ok (), T1))))"

datatype uninstall_target = TargetClaude | TargetCodex | TargetAll

definition target_agents :: "uninstall_target \<Rightarrow> agent_kind list" where
  "target_agents t =
     (case t of TargetClaude \<Rightarrow> [AgentClaude] | TargetCodex \<Rightarrow> [AgentCodex] | TargetAll \<Rightarrow> [AgentClaude, AgentCodex])"

definition uninstall_agent ::
  "'d toml_lib \<Rightarrow> json_codec \<Rightarrow> string option \<Rightarrow> (agent_kind \<Rightarrow> agent_io) \<Rightarrow> agent_paths \<Rightarrow> bool \<Rightarrow> bool \<Rightarrow> agent_kind \<Rightarrow>
     file_tree \<Rightarrow> (agent_error, unit) result \<times> file_tree" where
  "uninstall_agent M J listing ios A restore_backup dry_run agent T =
     (case agent of
        AgentClaude \<Rightarrow>
          agent_step (uninstall_claude J listing (ios agent) (ap_claude_settings A) restore_backup dry_run T)
      | AgentCodex \<Rightarrow>
          uninstall_codex M J listing (ios agent) (ap_codex_hooks A) (ap_codex_config A) restore_backup dry_run T)"

fun uninstall_agents ::
  "'d toml_lib \<Rightarrow> json_codec \<Rightarrow> string option \<Rightarrow> (agent_kind \<Rightarrow> agent_io) \<Rightarrow> agent_paths \<Rightarrow> bool \<Rightarrow> bool \<Rightarrow>
     agent_kind list \<Rightarrow> file_tree \<Rightarrow> (agent_error, unit) result \<times> file_tree" where
  "uninstall_agents M J listing ios A restore_backup dry_run [] T = (Ok (), T)"
| "uninstall_agents M J listing ios A restore_backup dry_run (a # rest) T =
     then_do (uninstall_agent M J listing ios A restore_backup dry_run a T)
       (\<lambda>_ T1. uninstall_agents M J listing ios A restore_backup dry_run rest T1)"

definition uninstall_agent_target ::
  "'d toml_lib \<Rightarrow> json_codec \<Rightarrow> string option \<Rightarrow> (agent_kind \<Rightarrow> agent_io) \<Rightarrow> agent_paths \<Rightarrow> uninstall_target \<Rightarrow> bool \<Rightarrow>
     bool \<Rightarrow> file_tree \<Rightarrow> (agent_error, unit) result \<times> file_tree" where
  "uninstall_agent_target M J listing ios A target restore_backup dry_run T =
     uninstall_agents M J listing ios A restore_backup dry_run (target_agents target) T"

end
