(* ===== verification/Agent_Laws.thy ===== *)
theory Agent_Laws
  imports Agent_Hooks
begin

text \<open>
  What the installers change in the files of an agent: the hook array and nothing beside it, no text
  lost, nothing in a dry run; and where they leave less, or more, than their names say.
\<close>

section \<open>An array in a document\<close>

lemma json_insert_same: "map_of ms k = Some v \<Longrightarrow> member_insert k v ms = ms"
  by (induction k v ms rule: member_insert.induct) (auto split: if_splits)

lemma member_insert_twice: "member_insert k v (member_insert k u ms) = member_insert k v ms"
  by (induction k v ms rule: member_insert.induct) auto

definition entries_at :: "string list \<Rightarrow> json \<Rightarrow> json list" where
  "entries_at path v = (case array_at path v of None \<Rightarrow> [] | Some a \<Rightarrow> a)"

lemma array_at_Cons:
  "array_at (k # ks) v =
     (case v of JObject ms \<Rightarrow> (case map_of ms k of None \<Rightarrow> None | Some w \<Rightarrow> array_at ks w) | _ \<Rightarrow> None)"
  by (simp add: array_at_def split: json.split option.split)

lemma array_at_Nil: "array_at [] v = as_array v"
  by (simp add: array_at_def)

lemma entries_at_empty: "ks \<noteq> [] \<Longrightarrow> entries_at ks (JObject []) = []"
  by (cases ks) (auto simp: entries_at_def array_at_Cons)

lemma change_array_path_step:
  assumes "change_array_path (key # ks) f v = Ok v'"
  obtains (last) ms a where "ks = []" "v = JObject ms" "map_of ms key = None \<and> a = [] \<or> map_of ms key = Some (JArray a)"
      "v' = JObject (member_insert key (JArray (f a)) ms)"
  | (deeper) ms w w' where "ks \<noteq> []" "v = JObject ms"
      "w = (case map_of ms key of None \<Rightarrow> JObject [] | Some w \<Rightarrow> w)" "change_array_path ks f w = Ok w'"
      "v' = JObject (member_insert key w' ms)"
proof (cases ks)
  case Nil
  with assms last show thesis by (auto split: json.splits option.splits)
next
  case (Cons k ks')
  with assms deeper show thesis by (cases v) (auto simp: and_then_Ok_iff)
qed

lemma change_array_path_at:
  "change_array_path path f v = Ok v' \<Longrightarrow> array_at path v' = Some (f (entries_at path v))"
proof (induction path arbitrary: v v')
  case (Cons key ks)
  from Cons.prems show ?case
  proof (cases rule: change_array_path_step)
    case (last ms a)
    then show ?thesis by (auto simp: array_at_Cons array_at_Nil entries_at_def map_of_member_insert)
  next
    case (deeper ms w w')
    with Cons.IH [OF deeper(4)] have "array_at (key # ks) v' = Some (f (entries_at ks w))"
      by (simp add: array_at_Cons map_of_member_insert)
    moreover have "entries_at ks w = entries_at (key # ks) v"
      using deeper(1-3) entries_at_empty [OF deeper(1)]
      by (auto simp: entries_at_def array_at_Cons split: option.splits)
    ultimately show ?thesis by simp
  qed
qed simp

text \<open>A pointer that neither leads to the array nor through it sees what it saw.\<close>

lemma change_array_path_elsewhere:
  "change_array_path path f v = Ok v' \<Longrightarrow> \<not> prefix path q \<Longrightarrow> \<not> prefix q path \<Longrightarrow>
     json_pointer q v' = json_pointer q v"
proof (induction path arbitrary: v v' q)
  case (Cons key ks)
  from Cons.prems(3) obtain k q' where q: "q = k # q'" by (cases q) auto
  from Cons.prems(1) show ?case
  proof (cases rule: change_array_path_step)
    case (last ms a)
    with Cons.prems(2,3) q show ?thesis by (auto simp: map_of_member_insert)
  next
    case (deeper ms w w')
    show ?thesis
    proof (cases "k = key")
      case True
      with Cons.prems(2,3) q have away: "\<not> prefix ks q'" "\<not> prefix q' ks" by auto
      then have "json_pointer q' (JObject []) = None" by (cases q') auto
      with Cons.IH [OF deeper(4) away] deeper(2,3,5) True q show ?thesis by (simp add: map_of_member_insert split: option.split)
    next
      case False
      with deeper(2,5) q show ?thesis by (simp add: map_of_member_insert)
    qed
  qed
qed simp

lemma change_array_path_again:
  "change_array_path path f v = Ok v' \<Longrightarrow> change_array_path path g v' = change_array_path path (\<lambda>a. g (f a)) v"
proof (induction path arbitrary: v v')
  case (Cons key ks)
  from Cons.prems show ?case
  proof (cases rule: change_array_path_step)
    case (last ms a)
    then show ?thesis by (auto simp: map_of_member_insert member_insert_twice)
  next
    case (deeper ms w w')
    from deeper(1) obtain k ks' where "ks = k # ks'" by (cases ks) auto
    with deeper Cons.IH [OF deeper(4)] show ?thesis
      by (simp add: map_of_member_insert member_insert_twice)
  qed
qed simp

lemma change_array_path_same:
  "path \<noteq> [] \<Longrightarrow> array_at path v = Some a \<Longrightarrow> f a = a \<Longrightarrow> change_array_path path f v = Ok v"
proof (induction path arbitrary: v)
  case (Cons key ks)
  from Cons.prems(2) obtain ms w where v: "v = JObject ms" "map_of ms key = Some w" "array_at ks w = Some a"
    by (auto simp: array_at_Cons split: json.splits option.splits)
  show ?case
  proof (cases ks)
    case Nil
    with v Cons.prems(3) show ?thesis
      by (cases w) (auto simp: array_at_Nil json_insert_same)
  next
    case (Cons k ks')
    with Cons.IH [of w] v Cons.prems(3) show ?thesis by (simp add: json_insert_same)
  qed
qed simp

lemma change_array_path_ok: "is_ok (change_array_path path f v) \<longleftrightarrow> is_ok (change_array_path path g v)"
proof (induction path f v rule: change_array_path.induct)
  case (3 key k ks f v)
  then show ?case by (cases v) (auto simp: is_ok_iff and_then_Ok_iff)
qed (auto split: json.split option.split)

section \<open>The hook group\<close>

definition foreign :: "json list \<Rightarrow> json list" where
  "foreign entries = filter (\<lambda>e. \<not> json_hook_entry_contains_command ''gommage'' e) entries"

lemma foreign_own: "json_hook_entry_contains_command ''gommage'' g \<Longrightarrow> foreign (es @ [g]) = foreign es"
  by (simp add: foreign_def)

lemma foreign_idem [simp]: "foreign (foreign es) = foreign es"
  by (simp add: foreign_def)

lemma remove_groups_at:
  assumes "array_at path root = Some es" and "path \<noteq> []"
  shows "remove_json_hook_groups path ''gommage'' root =
    (length es - length (foreign es),
     case change_array_path path (\<lambda>_. foreign es) root of Ok r \<Rightarrow> r | Err _ \<Rightarrow> root)"
  using assms by (simp add: remove_json_hook_groups_def foreign_def Let_def)

lemma own_groups:
  "json_hook_entry_contains_command ''gommage'' (claude_group matcher)"
  "json_hook_entry_contains_command ''gommage'' codex_group"
proof -
  have "hook_mentions ''gommage'' (JObject [(''type'', JString ''command''),
          (''command'', JString CLAUDE_GOMMAGE_HOOK_COMMAND), (''timeout'', JNumber (JInt 10))])"
    by code_simp
  then show "json_hook_entry_contains_command ''gommage'' (claude_group matcher)"
    by (simp add: json_hook_entry_contains_command_def claude_group_def)
  show "json_hook_entry_contains_command ''gommage'' codex_group" by code_simp
qed

text \<open>The groups that installing keeps: with \<open>--replace-hooks\<close> none.\<close>

definition kept :: "bool \<Rightarrow> json list \<Rightarrow> json list" where
  "kept replace_hooks entries = (if replace_hooks then [] else foreign entries)"

lemma foreign_kept [simp]: "foreign (kept b es) = kept b es"
  by (simp add: kept_def) (simp add: foreign_def)

lemma kept_own: "json_hook_entry_contains_command ''gommage'' g \<Longrightarrow> kept b (kept b es @ [g]) = kept b es"
  by (simp add: kept_def foreign_own)

lemma install_is_kept:
  "install_json_hook_group path grp b = change_array_path path (\<lambda>es. kept b es @ [grp])"
  by (cases b) (simp_all add: install_json_hook_group_def kept_def foreign_def fun_eq_iff)

text \<open>C19. Installing the hook group of an agent in settings of which the array of hook groups can be
  reached leaves in that array the groups no command of which mentions Gommage, in order, or with
  \<open>--replace-hooks\<close> none of the groups it held, and after them the one new group; every other part of
  the settings is as before; installing again changes nothing. Removing Gommage's groups then takes
  away exactly that one and leaves the groups that installing kept, and every other part as it was
  before the installation; so it gives the original settings back where the array was there and held
  just the groups kept, and not where a group had been dropped or there had been no array.\<close>

theorem hook_install_exact:
  assumes "install_json_hook_group path grp replace_hooks root = Ok root'" and "path \<noteq> []"
    and "json_hook_entry_contains_command ''gommage'' grp"
  shows "array_at path root' = Some (kept replace_hooks (entries_at path root) @ [grp]) \<and>
    (\<forall>q. \<not> prefix path q \<and> \<not> prefix q path \<longrightarrow> json_pointer q root' = json_pointer q root) \<and>
    install_json_hook_group path grp replace_hooks root' = Ok root' \<and>
    (\<exists>root''. remove_json_hook_groups path ''gommage'' root' = (1, root'') \<and>
       array_at path root'' = Some (kept replace_hooks (entries_at path root)) \<and>
       (\<forall>q. \<not> prefix path q \<and> \<not> prefix q path \<longrightarrow> json_pointer q root'' = json_pointer q root) \<and>
       (root'' = root \<longleftrightarrow> array_at path root = Some (kept replace_hooks (entries_at path root))))"
proof -
  let ?f = "\<lambda>es. kept replace_hooks es @ [grp]" and ?es = "kept replace_hooks (entries_at path root)"
  have c: "change_array_path path ?f root = Ok root'"
    using assms(1) by (simp add: install_is_kept)
  note at = change_array_path_at [OF c]
  have again: "change_array_path path ?f root' = Ok root'"
    using change_array_path_same [OF assms(2) at] assms(3) by (simp add: kept_own)
  have rm: "change_array_path path (\<lambda>_. ?es) root' = change_array_path path (\<lambda>_. ?es) root"
    by (rule change_array_path_again [OF c])
  have "is_ok (change_array_path path (\<lambda>_. ?es) root)"
    using change_array_path_ok [of path ?f root "\<lambda>_. ?es"] c by simp
  then obtain root'' where r: "change_array_path path (\<lambda>_. ?es) root = Ok root''"
    by (auto simp: is_ok_iff)
  have "remove_json_hook_groups path ''gommage'' root' = (1, root'')"
    using remove_groups_at [OF at assms(2)] rm r assms(3) by (simp add: foreign_own)
  moreover have "array_at path root'' = Some ?es" using change_array_path_at [OF r] by simp
  moreover from this have "root'' = root \<longleftrightarrow> array_at path root = Some ?es"
    using change_array_path_same [OF assms(2), of root ?es "\<lambda>_. ?es"] r by auto
  ultimately show ?thesis
    using at again change_array_path_elsewhere [OF c] change_array_path_elsewhere [OF r]
    by (auto simp: install_is_kept)
qed

definition demo_lint_group :: json where
  "demo_lint_group =
     JObject [(''matcher'', JString ''Bash''),
       (''hooks'', JArray [JObject [(''type'', JString ''command''), (''command'', JString ''lint.sh'')]])]"

definition demo_settings :: json where
  "demo_settings =
     JObject [(''theme'', JString ''dark''),
       (''hooks'', JObject [(''PreToolUse'', JArray [demo_lint_group]), (''Stop'', JArray [])])]"

theorem hook_install_exact_witness:
  "\<exists>root'. install_json_hook_group claude_hook_path (claude_group ''Bash'') False demo_settings = Ok root' \<and>
     array_at claude_hook_path root' = Some [demo_lint_group, claude_group ''Bash''] \<and>
     remove_json_hook_groups claude_hook_path ''gommage'' root' = (1, demo_settings)"
proof -
  have "is_ok (install_json_hook_group claude_hook_path (claude_group ''Bash'') False demo_settings)"
    by code_simp
  then obtain root' where r: "install_json_hook_group claude_hook_path (claude_group ''Bash'') False demo_settings = Ok root'"
    by (auto simp: is_ok_iff)
  have e: "foreign (entries_at claude_hook_path demo_settings) = [demo_lint_group]"
    "array_at claude_hook_path demo_settings = Some [demo_lint_group]" "claude_hook_path \<noteq> []"
    by code_simp+
  from hook_install_exact [OF r e(3) own_groups(1)] e(1,2) have
    "array_at claude_hook_path root' = Some [demo_lint_group, claude_group ''Bash'']"
    "remove_json_hook_groups claude_hook_path ''gommage'' root' = (1, demo_settings)"
    by (auto simp: kept_def)
  with r show ?thesis by blast
qed

section \<open>What the commands do to the files\<close>

definition edit_ok :: "bool \<Rightarrow> file_tree \<Rightarrow> file_tree \<Rightarrow> bool" where
  "edit_ok dry_run T T' \<longleftrightarrow> keeps_texts T T' \<and> (dry_run \<longrightarrow> T' = T)"

lemma edit_ok_refl [simp]: "edit_ok d T T"
  by (simp add: edit_ok_def)

lemma edit_ok_trans: "edit_ok d T T1 \<Longrightarrow> edit_ok d T1 T2 \<Longrightarrow> edit_ok d T T2"
  by (auto simp: edit_ok_def intro: keeps_texts_trans)

lemma edit_ok_do:
  "edit_ok d T (snd r) \<Longrightarrow> (\<And>x T1. r = (Ok x, T1) \<Longrightarrow> edit_ok d T1 (snd (k x T1))) \<Longrightarrow>
     edit_ok d T (snd (then_do r k))"
  by (cases r; cases "fst r") (auto intro: edit_ok_trans)

lemma edit_ok_leaf [simp]: "edit_ok d T (snd (res, T))"
  by simp

lemma edit_ok_step [simp]: "edit_ok d T (snd (agent_step r)) \<longleftrightarrow> edit_ok d T (snd r)"
  by (simp add: agent_step_def)

lemma edit_ok_write_text: "edit_ok d T (snd (write_text io p t d T))"
  using write_text_keeps_texts [of io p t d T] write_text_dry [of io p t T]
  by (cases "write_text io p t d T") (auto simp: edit_ok_def)

lemma edit_ok_write_json: "edit_ok d T (snd (write_json J io p v d T))"
  by (auto simp: write_json_def intro!: edit_ok_do edit_ok_write_text)

lemma edit_ok_write_import: "edit_ok d T (snd (write_claude_permission_import io p l n pre dec tr force d T))"
  by (auto simp: write_claude_permission_import_def Let_def intro!: edit_ok_do edit_ok_write_text split: option.split)

lemma edit_ok_import: "edit_ok d T (snd (import_claude_permissions io settings L force d T))"
  by (auto simp: import_claude_permissions_def Let_def intro!: edit_ok_do edit_ok_write_import)

lemma edit_ok_posture: "edit_ok d T (snd (write_agent_posture_policy posture io L d T))"
  by (auto simp: write_agent_posture_policy_def intro!: edit_ok_do edit_ok_write_text)

lemma edit_ok_install_claude: "edit_ok d T (snd (install_claude J io p L r n d T))"
  by (auto simp: install_claude_def Let_def intro!: edit_ok_do edit_ok_write_json edit_ok_import)

lemma edit_ok_install_codex: "edit_ok d T (snd (install_codex M J io p q r d T))"
  by (auto simp: install_codex_def intro!: edit_ok_do edit_ok_write_json edit_ok_write_text)

lemma edit_ok_install: "edit_ok d T (snd (install_agent M J posture io A agent L r n d T))"
  by (auto simp: install_agent_def intro!: edit_ok_do edit_ok_posture edit_ok_install_claude edit_ok_install_codex
      split: agent_kind.split)

lemma edit_ok_uninstall_claude: "edit_ok d T (snd (uninstall_claude J listing io p False d T))"
  by (auto simp: uninstall_claude_def intro!: edit_ok_do edit_ok_write_json split: prod.split)

lemma edit_ok_uninstall_codex_hooks: "edit_ok d T (snd (uninstall_codex_hooks J io p d T))"
  by (auto simp: uninstall_codex_hooks_def Let_def case_prod_beta intro!: edit_ok_do edit_ok_write_json)

lemma edit_ok_uninstall_codex: "edit_ok d T (snd (uninstall_codex M J listing io p q False d T))"
  by (auto simp: uninstall_codex_def intro!: edit_ok_do edit_ok_write_text edit_ok_uninstall_codex_hooks split: prod.split)

lemma edit_ok_uninstall: "edit_ok d T (snd (uninstall_agents M J listing ios A False d agents T))"
  by (induction agents arbitrary: T)
    (auto simp: uninstall_agent_def split: agent_kind.split
      intro!: edit_ok_do edit_ok_uninstall_claude edit_ok_uninstall_codex)

text \<open>C20. Whatever fails on the way, and in whatever way, installing the integration of an agent and
  removing it without a backup lose no text of any file: what a file held before is held afterwards by
  that file or by a backup of it; a dry run changes no file.\<close>

theorem agent_commands_keep_texts:
  assumes "install_agent M J posture io A agent L replace_hooks import_native dry_run T = (res, T') \<or>
    uninstall_agent_target M J listing ios A target False dry_run T = (res, T')"
  shows "(\<forall>p t. map_of T p = Some t \<longrightarrow> (\<exists>q. map_of T' q = Some t)) \<and> (dry_run \<longrightarrow> T' = T)"
proof -
  have "edit_ok dry_run T T'"
    using assms edit_ok_install [of dry_run T M J posture io A agent L replace_hooks import_native]
      edit_ok_uninstall [of dry_run T M J listing ios A "target_agents target"]
    by (auto simp: uninstall_agent_target_def)
  then show ?thesis by (fastforce simp: edit_ok_def keeps_texts_def ran_def)
qed

section \<open>A disk for the examples\<close>

text \<open>A codec that knows four documents, and a TOML library of one.\<close>

definition demo_hooked :: "string \<Rightarrow> json" where
  "demo_hooked matcher = JObject [(''hooks'', JObject [(''PreToolUse'', JArray [claude_group matcher])])]"

definition demo_hooked_bash :: json where
  "demo_hooked_bash =
     JObject [(''permissions'', JObject [(''allow'', JArray [JString ''Bash''])]),
       (''hooks'', JObject [(''PreToolUse'', JArray [claude_group ''Bash''])])]"

definition demo_json :: json_codec where
  "demo_json =
     \<lparr>jc_parse = (\<lambda>s.
        if s = ''A'' then Ok (JObject [(''permissions'', JObject [(''allow'', JArray [JString ''Bash''])])])
        else if s = ''B'' @ [NL] then Ok demo_hooked_bash
        else if s = ''N'' then Ok (JObject [(''permissions'', JObject [(''allow'', JArray [JString ''Task''])])])
        else Err ''syntax''),
      jc_pretty = (\<lambda>v. if v = demo_hooked_bash then Ok ''B'' else Ok ''other'')\<rparr>"

definition demo_write :: "int \<Rightarrow> write_io" where
  "demo_write ts = \<lparr>wo_read = None, wo_mkdir = None, wo_copy = Wrote, wo_write = Wrote, wo_now = ts\<rparr>"

definition demo_agent_io :: agent_io where
  "demo_agent_io = \<lparr>ag_ensured = Ok (), ag_read = (\<lambda>_. None), ag_write = (\<lambda>_. demo_write 7)\<rparr>"

definition demo_toml :: "unit toml_lib" where
  "demo_toml =
     \<lparr>tl_new = (), tl_parse = (\<lambda>_. Ok ()), tl_print = (\<lambda>_. ''t''), tl_feature = (\<lambda>_ _. None),
      tl_set_feature = (\<lambda>_ _ _. Some ())\<rparr>"

definition demo_agent_paths :: agent_paths where
  "demo_agent_paths =
     \<lparr>ap_claude_settings = [''/'', ''s''], ap_codex_hooks = [''/'', ''h''], ap_codex_config = [''/'', ''c'']\<rparr>"

definition demo_agent_install :: "file_tree \<Rightarrow> (agent_error, unit) result \<times> file_tree" where
  "demo_agent_install T =
     install_agent demo_toml demo_json (''p'', ''q'') demo_agent_io demo_agent_paths AgentClaude
       (home_layout_at [''/'', ''g'']) False False False T"

theorem agent_commands_keep_texts_witness:
  "\<exists>T'. demo_agent_install [([''/'', ''s''], ''A'')] = (Ok (), T') \<and>
     map_of T' [''/'', ''s''] = Some (''B'' @ [NL]) \<and> (\<exists>q. map_of T' q = Some ''A'')"
proof -
  have r: "is_ok (fst (demo_agent_install [([''/'', ''s''], ''A'')]))"
    "map_of (snd (demo_agent_install [([''/'', ''s''], ''A'')])) [''/'', ''s''] = Some (''B'' @ [NL])"
    by code_simp+
  then obtain T' where T': "demo_agent_install [([''/'', ''s''], ''A'')] = (Ok (), T')"
    by (cases "demo_agent_install [([''/'', ''s''], ''A'')]") (auto simp: is_ok_iff)
  from agent_commands_keep_texts [OF disjI1 [OF T' [unfolded demo_agent_install_def]]]
  have "\<exists>q. map_of T' q = Some ''A''" by auto
  with T' r(2) show ?thesis by auto
qed

section \<open>Where the names promise more\<close>

lemma newest_backup_name:
  "newest_backup p qs latest = Some (ts, b) \<Longrightarrow> latest = Some (ts, b) \<or> b \<in> set qs \<and> backup_stamp p b = Some ts"
  by (induction qs arbitrary: latest) (fastforce split: option.splits if_splits)+

lemma backup_stamp_other: "backup_stamp p q = Some ts \<Longrightarrow> q \<noteq> p"
  by (auto simp: backup_stamp_def strip_prefix_Some_iff split: option.splits)

lemma latest_backup_stamp:
  "latest_gommage_backup fault p T = Ok (Some b) \<Longrightarrow> \<exists>ts. backup_stamp p b = Some ts \<and> map_of T b \<noteq> None"
  by (auto simp: latest_gommage_backup_def Let_def map_of_eq_None_iff dest!: newest_backup_name split: option.splits)

text \<open>Removing the integration with the backup does not look at what the newest backup holds: it is
  copied over the settings, so the settings are then its text, with every hook of Gommage that text has,
  nothing else is changed, and a text that only the settings held is lost.\<close>

theorem restore_discards_settings:
  assumes "latest_gommage_backup listing p T = Ok (Some b)" and "map_of T b = Some t"
    and "uninstall_claude J listing io p True False T = (Ok (), T')"
  shows "map_of T' p = Some t \<and> (\<forall>q. q \<noteq> p \<longrightarrow> map_of T' q = map_of T q) \<and>
    (\<forall>cur. map_of T p = Some cur \<and> cur \<noteq> t \<and> (\<forall>q. q \<noteq> p \<longrightarrow> map_of T q \<noteq> Some cur) \<longrightarrow>
       (\<forall>q. map_of T' q \<noteq> Some cur))"
proof -
  obtain res T1 where w: "put_file (wo_copy (ag_write io 0)) p t T = (res, T1)" by fastforce
  have "wo_mkdir (ag_write io 0) = None"
    using assms by (auto simp: uninstall_claude_def restore_latest_backup_def split: option.splits)
  with assms w have r: "res = Ok ()" "T' = T1"
    by (cases res; auto simp: uninstall_claude_def restore_latest_backup_def)+
  from map_of_put_file [OF w] r have T': "map_of T' p = Some t" "\<And>q. q \<noteq> p \<Longrightarrow> map_of T' q = map_of T q"
    by auto
  then show ?thesis by (metis option.inject)
qed

text \<open>Settings, installed twice with an edit between: the newest backup has the hook.\<close>

definition demo_twice :: file_tree where
  "demo_twice =
     [([''/'', ''s''], ''C''), ([''/'', ''s.gommage-bak-7''], ''A''), ([''/'', ''s.gommage-bak-9''], ''B'' @ [NL])]"

theorem restore_discards_settings_witness:
  "\<exists>T'. uninstall_claude demo_json None demo_agent_io [''/'', ''s''] True False demo_twice = (Ok (), T') \<and>
     map_of T' [''/'', ''s''] = Some (''B'' @ [NL]) \<and> (\<forall>q. map_of T' q \<noteq> Some ''C'')"
proof -
  have l: "latest_gommage_backup None [''/'', ''s''] demo_twice = Ok (Some [''/'', ''s.gommage-bak-9''])"
    by (simp add: latest_gommage_backup_def demo_twice_def backup_stamp_def file_name_def parent_path_def
        undec_digits_def is_ascii_digit_def char_between_def)
  moreover have b: "map_of demo_twice [''/'', ''s.gommage-bak-9''] = Some (''B'' @ [NL])"
    by (simp add: demo_twice_def)
  ultimately have "is_ok (fst (uninstall_claude demo_json None demo_agent_io [''/'', ''s''] True False demo_twice))"
    by (simp add: uninstall_claude_def restore_latest_backup_def demo_agent_io_def demo_write_def put_file_def)
  then obtain T' where T': "uninstall_claude demo_json None demo_agent_io [''/'', ''s''] True False demo_twice = (Ok (), T')"
    by (cases "uninstall_claude demo_json None demo_agent_io [''/'', ''s''] True False demo_twice")
      (auto simp: is_ok_iff)
  have "map_of demo_twice [''/'', ''s''] = Some ''C''" "\<forall>q. q \<noteq> [''/'', ''s''] \<longrightarrow> map_of demo_twice q \<noteq> Some ''C''"
    by (simp_all add: demo_twice_def)
  with restore_discards_settings [OF l b T'] T' show ?thesis by auto
qed

text \<open>When the native allow list is there and covers none of the tools that the matcher knows, as
  an empty list does not, the installation of the Claude integration succeeds without a hook: the settings
  are left as they are.\<close>

theorem install_without_hook:
  assumes "read_json_object J (ag_read io 0) settings_path T = Ok settings"
    and "array_at [''permissions'', ''allow''] settings = Some rules"
    and "\<forall>tname \<in> set MAPPED_TOOLS. \<not> claude_allow_covers_tool rules tname"
  shows "install_claude J io settings_path L replace_hooks False dry_run T = (Ok (), T)"
proof -
  have "claude_gommage_matcher settings = []"
    using assms(2,3) by (simp add: claude_gommage_matcher_def claude_matched_tools_def filter_empty_conv)
  with assms(1) show ?thesis by (simp add: install_claude_def)
qed

theorem install_without_hook_witness:
  "install_claude demo_json demo_agent_io [''/'', ''s''] (home_layout_at [''/'', ''g'']) False False False
     [([''/'', ''s''], ''N'')] = (Ok (), [([''/'', ''s''], ''N'')])"
proof -
  have r: "read_json_object demo_json (ag_read demo_agent_io 0) [''/'', ''s''] [([''/'', ''s''], ''N'')] =
      Ok (JObject [(''permissions'', JObject [(''allow'', JArray [JString ''Task''])])])" by code_simp
  have a: "array_at [''permissions'', ''allow'']
        (JObject [(''permissions'', JObject [(''allow'', JArray [JString ''Task''])])]) = Some [JString ''Task'']"
    "\<forall>tname \<in> set MAPPED_TOOLS. \<not> claude_allow_covers_tool [JString ''Task''] tname"
    by code_simp+
  show ?thesis by (rule install_without_hook [OF r a])
qed

section \<open>Native permissions\<close>

lemma translate_rules:
  "translate_claude_native_rules rules translate =
     (List.map_filter (\<lambda>raw. map_option (\<lambda>c. \<lparr>ni_raw = raw, ni_capability = c\<rparr>) (translate raw)) rules,
      filter (\<lambda>raw. translate raw = None) rules)"
proof -
  have "foldl (\<lambda>(translated, skipped) raw.
       case translate raw of
         Some capability \<Rightarrow> (translated @ [\<lparr>ni_raw = raw, ni_capability = capability\<rparr>], skipped)
       | None \<Rightarrow> (translated, skipped @ [raw])) (tr, sk) rules =
     (tr @ List.map_filter (\<lambda>raw. map_option (\<lambda>c. \<lparr>ni_raw = raw, ni_capability = c\<rparr>) (translate raw)) rules,
      sk @ filter (\<lambda>raw. translate raw = None) rules)" for tr sk
    by (induction rules arbitrary: tr sk) (auto simp: List.map_filter_simps split: option.split)
  from this [of "[]" "[]"] show ?thesis by (simp add: translate_claude_native_rules_def)
qed

definition raws_of :: "string \<Rightarrow> native_permission_import list \<Rightarrow> string list" where
  "raws_of c is = map ni_raw (filter (\<lambda>i. ni_capability i = c) is)"

definition grouped :: "native_permission_import list \<Rightarrow> native_permission_group list \<Rightarrow> bool" where
  "grouped is gs \<longleftrightarrow>
     distinct (map ng_capability gs) \<and> ng_capability ` set gs = ni_capability ` set is \<and>
     (\<forall>g \<in> set gs. ng_raws g = raws_of (ng_capability g) is)"

lemma add_native_caps: "ng_capability ` set (add_native i gs) = insert (ni_capability i) (ng_capability ` set gs)"
  by (induction gs) auto

lemma add_native_distinct:
  "distinct (map ng_capability gs) \<Longrightarrow> distinct (map ng_capability (add_native i gs))"
  by (induction gs) (auto simp: add_native_caps)

lemma add_native_member:
  "distinct (map ng_capability gs) \<Longrightarrow> g \<in> set (add_native i gs) \<Longrightarrow>
     (ng_capability g \<noteq> ni_capability i \<and> g \<in> set gs) \<or>
     (ng_capability g = ni_capability i \<and>
       (ng_raws g = [ni_raw i] \<and> ni_capability i \<notin> ng_capability ` set gs \<or>
        (\<exists>g0 \<in> set gs. ng_capability g0 = ni_capability i \<and> ng_raws g = ng_raws g0 @ [ni_raw i])))"
proof (induction gs)
  case (Cons a gs)
  show ?case
  proof (cases "ng_capability a = ni_capability i")
    case True
    with Cons.prems have "ng_capability h \<noteq> ni_capability i" if "h \<in> set gs" for h
      using that by (metis distinct.simps(2) image_eqI list.simps(9) set_map)
    with Cons.prems True show ?thesis by auto
  next
    case False
    with Cons show ?thesis by auto
  qed
qed simp

lemma grouped_add:
  assumes "grouped is gs"
  shows "grouped (is @ [i]) (add_native i gs)"
proof -
  have d: "distinct (map ng_capability gs)" and caps: "ng_capability ` set gs = ni_capability ` set is"
    and raws: "\<And>g. g \<in> set gs \<Longrightarrow> ng_raws g = raws_of (ng_capability g) is"
    using assms by (auto simp: grouped_def)
  have "ng_raws g = raws_of (ng_capability g) (is @ [i])" if g: "g \<in> set (add_native i gs)" for g
    using add_native_member [OF d g]
  proof (elim disjE conjE bexE)
    assume g1: "ng_raws g = [ni_raw i]" "ni_capability i \<notin> ng_capability ` set gs" "ng_capability g = ni_capability i"
    from g1(2) caps have "ni_capability i \<notin> ni_capability ` set is" by simp
    then have "ni_capability j \<noteq> ni_capability i" if "j \<in> set is" for j
      using imageI [OF that, of ni_capability] by auto
    then have "filter (\<lambda>j. ni_capability j = ni_capability i) is = []" by (simp add: filter_empty_conv)
    with g1 show ?thesis by (simp add: raws_of_def)
  qed (auto simp: raws_of_def dest!: raws)
  with add_native_distinct [OF d, of i] caps show ?thesis
    by (auto simp: grouped_def add_native_caps)
qed

lemma grouped_native: "grouped is (group_native_permission_imports is)"
proof (induction "is" rule: rev_induct)
  case Nil
  then show ?case by (simp add: group_native_permission_imports_def grouped_def)
next
  case (snoc i js)
  from grouped_add [OF this, of i] show ?case by (simp add: group_native_permission_imports_def)
qed

text \<open>The groups that a list of native rules gives.\<close>

definition native_groups :: "string list \<Rightarrow> native_permission_group list" where
  "native_groups rules =
     group_native_permission_imports (fst (translate_claude_native_rules rules translate_claude_permission_specifier))"

lemma native_groups_Nil_iff:
  "native_groups rules = [] \<longleftrightarrow> fst (translate_claude_native_rules rules translate_claude_permission_specifier) = []"
proof -
  let ?tr = "fst (translate_claude_native_rules rules translate_claude_permission_specifier)"
  have "ng_capability ` set (native_groups rules) = ni_capability ` set ?tr"
    using grouped_native [of ?tr] by (simp add: native_groups_def grouped_def)
  then show ?thesis by (metis image_is_empty set_empty)
qed

lemma raws_of_translated:
  "raws_of c (fst (translate_claude_native_rules rules translate)) = filter (\<lambda>raw. translate raw = Some c) rules"
  by (induction rules) (auto simp: translate_rules raws_of_def List.map_filter_simps split: option.split)

lemma native_groups_exact:
  "distinct (map ng_capability (native_groups rules)) \<and>
   ng_capability ` set (native_groups rules) =
     {c. \<exists>raw \<in> set rules. translate_claude_permission_specifier raw = Some c} \<and>
   (\<forall>g \<in> set (native_groups rules).
      ng_raws g = filter (\<lambda>raw. translate_claude_permission_specifier raw = Some (ng_capability g)) rules)"
proof -
  let ?tr = "fst (translate_claude_native_rules rules translate_claude_permission_specifier)"
  have "ni_capability ` set ?tr = {c. \<exists>raw \<in> set rules. translate_claude_permission_specifier raw = Some c}"
    by (induction rules) (auto simp: translate_rules List.map_filter_simps split: option.splits)
  with grouped_native [of ?tr] show ?thesis
    by (simp add: native_groups_def grouped_def raws_of_translated)
qed

definition deny_import_text :: "json \<Rightarrow> string" where
  "deny_import_text settings =
     import_yaml ''Claude Code permissions.deny''
       ''Deny imports live before stdlib allow rules so native blocks remain fail-closed.''
       ''claude-import-deny'' ''gommage'' (native_groups (native_permission_rules settings [''permissions'', ''deny'']))"

lemma write_import_others:
  assumes "write_claude_permission_import io p l n pre dec tr force d T = (res, T')"
    and "map_of T q \<noteq> None" and "q \<noteq> p"
  shows "map_of T' q = map_of T q"
proof -
  have "map_of T1 q = map_of T q" if "write_text io p t d T = (r, T1)" for t r T1
    using write_text_others [OF that assms(2,3)] .
  with assms(1) show ?thesis
    by (auto simp: write_claude_permission_import_def Let_def then_do_def
        split: if_splits option.splits prod.splits sum.splits)
qed

text \<open>Importing the native deny rules of Claude writes one deny rule for each capability that some
  rule translates to, with the rules it comes from, in order, as its reason, if the import file is not
  there or may be replaced; an import file that is there is otherwise left as it was, whatever the native
  rules say now.\<close>

theorem native_denies_imported:
  assumes "import_claude_permissions io settings L force False T = (Ok (), T')"
    and "deny = path_join (hl_policy_dir L) deny_import_file"
    and "rules = native_permission_rules settings [''permissions'', ''deny'']"
    and "native_groups rules \<noteq> []"
  shows "map_of T' deny =
      (if map_of T deny = None \<or> force then Some (deny_import_text settings) else map_of T deny) \<and>
    distinct (map ng_capability (native_groups rules)) \<and>
    ng_capability ` set (native_groups rules) =
      {c. \<exists>raw \<in> set rules. translate_claude_permission_specifier raw = Some c} \<and>
    (\<forall>g \<in> set (native_groups rules).
       ng_raws g = filter (\<lambda>raw. translate_claude_permission_specifier raw = Some (ng_capability g)) rules)"
proof -
  let ?allow = "path_join (hl_policy_dir L) allow_import_file"
  let ?tr = "fst (translate_claude_native_rules rules translate_claude_permission_specifier)"
  have tr: "?tr \<noteq> []" using assms(4) native_groups_Nil_iff by blast
  have ne: "deny \<noteq> ?allow" unfolding assms(2) deny_import_file_def allow_import_file_def path_join_def path_of_def
    by simp
  obtain T1 where w: "write_claude_permission_import (ag_write io 2) deny ''Claude Code permissions.deny''
       ''Deny imports live before stdlib allow rules so native blocks remain fail-closed.''
       ''claude-import-deny'' ''gommage'' ?tr force False T = (Ok (), T1)"
    and rest: "T' = T1 \<or> (\<exists>tr'. write_claude_permission_import (ag_write io 3) ?allow ''Claude Code permissions.allow''
       ''Allow imports load late so Gommage hard-stop, deny, and ask rules win first.''
       ''claude-import-allow'' ''allow'' tr' force False T1 = (Ok (), T'))"
    using assms(1) by (auto simp: import_claude_permissions_def Let_def then_do_Ok_iff assms(2,3) split: if_splits)
  have T1: "map_of T1 deny =
      (if map_of T deny = None \<or> force then Some (deny_import_text settings) else map_of T deny)"
  proof (cases "map_of T deny = None \<or> force")
    case True
    then obtain r where "write_text (ag_write io 2) deny (deny_import_text settings) False T = (Ok r, T1)"
      using w tr by (auto simp: write_claude_permission_import_def deny_import_text_def native_groups_def
          assms(3) Let_def then_do_Ok_iff)
    from write_text_Ok [OF this] True show ?thesis by simp
  next
    case False
    with w tr show ?thesis by (auto simp: write_claude_permission_import_def Let_def split: option.splits)
  qed
  have "map_of T1 deny \<noteq> None" using T1 by (auto split: if_splits)
  with rest ne have "map_of T' deny = map_of T1 deny" by (auto dest: write_import_others)
  with T1 native_groups_exact [of rules] show ?thesis by simp
qed

definition demo_denies :: json where
  "demo_denies =
     JObject [(''permissions'', JObject [(''deny'', JArray (map JString [''Read(./.env)'', ''Bash'', ''Bash(*)'', ''Task'']))])]"

theorem native_denies_imported_witness:
  "\<exists>T'. import_claude_permissions demo_agent_io demo_denies (home_layout_at [''/'', ''g'']) False False [] = (Ok (), T') \<and>
     map_of T' [''/'', ''g'', ''policy.d'', ''05-claude-import.yaml''] = Some (deny_import_text demo_denies) \<and>
     ng_capability ` set (native_groups [''Read(./.env)'', ''Bash'', ''Bash(*)'', ''Task'']) =
       {''fs.read:${EXPEDITION_ROOT}/.env'', ''proc.exec:*''}"
proof -
  have r: "is_ok (fst (import_claude_permissions demo_agent_io demo_denies (home_layout_at [''/'', ''g'']) False False []))"
    "native_permission_rules demo_denies [''permissions'', ''deny''] = [''Read(./.env)'', ''Bash'', ''Bash(*)'', ''Task'']"
    "path_join (hl_policy_dir (home_layout_at [''/'', ''g''])) deny_import_file =
       [''/'', ''g'', ''policy.d'', ''05-claude-import.yaml'']"
    "map ng_capability (native_groups [''Read(./.env)'', ''Bash'', ''Bash(*)'', ''Task'']) =
       [''fs.read:${EXPEDITION_ROOT}/.env'', ''proc.exec:*'']"
    by code_simp+
  then obtain T' where T': "import_claude_permissions demo_agent_io demo_denies (home_layout_at [''/'', ''g'']) False False []
      = (Ok (), T')"
    by (cases "import_claude_permissions demo_agent_io demo_denies (home_layout_at [''/'', ''g'']) False False []")
      (auto simp: is_ok_iff)
  from r(4) have "native_groups [''Read(./.env)'', ''Bash'', ''Bash(*)'', ''Task''] \<noteq> []" by auto
  from native_denies_imported [OF T' r(3) [symmetric] r(2) [symmetric] this] T' r(4)
  show ?thesis by (auto simp flip: set_map)
qed

end
