(* ===== verification/State_Index.thy ===== *)
theory State_Index
  imports Audit_Stream Runtime Webhook
begin

text \<open>
  The index of the audit log, \<open>state.sqlite\<close> (\<open>crates/gommage-cli/src/state.rs\<close>): rebuilding it from
  the signed log, telling whether it is current, and what is read from it. The database is its three
  tables; a rebuild is one transaction, so a failure in it leaves them as they were. The log is read three
  times, and may have grown in between.
\<close>

section \<open>Rows\<close>

record state_counters =
  ct_audit_entries :: nat
  ct_decisions :: nat
  ct_events :: nat
  ct_allows :: nat
  ct_asks :: nat
  ct_denies :: nat
  ct_hard_stops :: nat
  ct_approval_requests :: nat
  ct_approval_resolutions :: nat
  ct_picto_creations :: nat
  ct_picto_consumptions :: nat
  ct_picto_rejections :: nat
  ct_webhook_dead_letters :: nat

record indexed_record =
  ir_line :: nat
  ir_id :: string
  ir_ts :: string
  ir_record_kind :: string
  ir_summary :: string
  ir_detail :: string
  ir_tool :: "string option"
  ir_input_hash :: "string option"
  ir_decision_kind :: "string option"
  ir_hard_stop :: bool
  ir_required_scope :: "string option"
  ir_matched_rule_name :: "string option"
  ir_matched_rule_file :: "string option"
  ir_matched_rule_index :: "nat option"
  ir_policy_version :: "string option"
  ir_expedition :: "string option"
  ir_event_type :: "string option"
  ir_event_subject_id :: "string option"
  ir_capabilities :: "string list"
  ir_raw_json :: string

definition decision_index_fields :: "decision \<Rightarrow> string \<times> bool \<times> string option" where
  "decision_index_fields d =
     (case d of
        Allow \<Rightarrow> (''allow'', False, None)
      | AskPicto scope reason b \<Rightarrow> (''ask_picto'', False, Some scope)
      | Gommage reason hard_stop \<Rightarrow> (''gommage'', hard_stop, None))"

definition index_decision :: "nat \<Rightarrow> audit_entry \<Rightarrow> string \<Rightarrow> indexed_record" where
  "index_decision line entry raw =
     (case decision_index_fields (ae_decision entry) of
        (decision_kind, hard_stop, required_scope) \<Rightarrow>
          \<lparr>ir_line = line, ir_id = ae_id entry, ir_ts = ae_ts entry, ir_record_kind = ''decision'',
           ir_summary =
             (if hard_stop then ''deny hard-stop '' @ ae_tool entry
              else ''decision '' @ decision_kind @ '' '' @ ae_tool entry),
           ir_detail = ''input='' @ ae_input_hash entry @ '' policy='' @ ae_policy_version entry @
             '' capabilities='' @ dec_nat (length (ae_capabilities entry)),
           ir_tool = Some (ae_tool entry), ir_input_hash = Some (ae_input_hash entry),
           ir_decision_kind = Some decision_kind, ir_hard_stop = hard_stop,
           ir_required_scope = required_scope,
           ir_matched_rule_name = map_option matched_name (ae_matched_rule entry),
           ir_matched_rule_file = map_option matched_file (ae_matched_rule entry),
           ir_matched_rule_index = map_option matched_index (ae_matched_rule entry),
           ir_policy_version = Some (ae_policy_version entry), ir_expedition = ae_expedition entry,
           ir_event_type = None, ir_event_subject_id = None, ir_capabilities = ae_capabilities entry,
           ir_raw_json = raw\<rparr>)"

fun event_index_fields :: "audit_event \<Rightarrow> string \<times> string option \<times> string \<times> string" where
  "event_index_fields (PictoCreated i scope max_uses ttl confirming) =
     (''picto_created'', Some i, ''picto created '' @ i, ''scope='' @ scope)"
| "event_index_fields (PictoConfirmed i) = (''picto_confirmed'', Some i, ''picto confirmed '' @ i, [])"
| "event_index_fields (PictoRevoked i) = (''picto_revoked'', Some i, ''picto revoked '' @ i, [])"
| "event_index_fields (PictoConsumed i scope n max_uses status) =
     (''picto_consumed'', Some i, ''picto consumed '' @ i, ''scope='' @ scope @ '' status='' @ status)"
| "event_index_fields (PictoRejected i scope reason) =
     (''picto_rejected'', Some i, ''picto rejected '' @ i, ''scope='' @ scope @ '' reason='' @ reason)"
| "event_index_fields (ApprovalRequested i tname hash scope reason version) =
     (''approval_requested'', Some i, ''approval requested '' @ i,
      ''tool='' @ tname @ '' scope='' @ scope @ '' input='' @ hash)"
| "event_index_fields (ApprovalResolved i status reason picto) =
     (''approval_resolved'', Some i, ''approval '' @ status @ '' '' @ i, ''picto='' @ unwrap_or picto ''none'')"
| "event_index_fields (ApprovalWebhookDelivered i url status attempts source sig) =
     (''approval_webhook_delivered'', Some i, ''webhook delivered '' @ i,
      ''http='' @ (case status of None \<Rightarrow> ''unknown'' | Some s \<Rightarrow> dec_int s) @ '' attempts='' @
      show_u32 attempts @ '' source='' @ source @ '' signed='' @ show_bool (sig \<noteq> None))"
| "event_index_fields (ApprovalWebhookFailed i url error attempts source sig) =
     (''approval_webhook_failed'', Some i, ''webhook failed '' @ i,
      ''attempts='' @ show_u32 attempts @ '' source='' @ source @ '' signed='' @ show_bool (sig \<noteq> None) @
      '' error='' @ error)"
| "event_index_fields (ApprovalWebhookDeadLettered i url dlq provider attempts source error sig) =
     (''approval_webhook_dead_lettered'', Some i, ''webhook dead-lettered '' @ i,
      ''dlq='' @ dlq @ '' provider='' @ provider @ '' attempts='' @ show_u32 attempts @
      '' source='' @ source @ '' error='' @ error)"
| "event_index_fields (PictosExpired n) = (''pictos_expired'', None, ''pictos expired'', ''count='' @ dec_nat n)"
| "event_index_fields (PolicyReloaded source rs ms version fingerprint picto) =
     (''policy_reloaded'', None, ''policy reloaded'',
      ''source='' @ source @ '' rules='' @ dec_nat rs @ '' mapper_rules='' @ dec_nat ms @
      '' policy='' @ version @
      (case fingerprint of None \<Rightarrow> [] | Some f \<Rightarrow> '' fingerprint='' @ f) @
      (case picto of None \<Rightarrow> [] | Some p \<Rightarrow> '' picto='' @ p))"
| "event_index_fields (PolicyReloadRefused source scope loaded disk reason) =
     (''policy_reload_refused'', None, ''policy reload refused'',
      ''source='' @ source @ '' scope='' @ scope @ '' loaded='' @ loaded @ '' disk='' @ disk @
      '' reason='' @ reason)"
| "event_index_fields (ConfigDriftAtStartup recorded loaded) =
     (''config_drift_at_startup'', None, ''config drift at startup'',
      ''recorded='' @ recorded @ '' loaded='' @ loaded)"
| "event_index_fields (BypassActivated tname hash caps odecision oreason hard_stop bdecision) =
     (''bypass_activated'', None, ''bypass '' @ bdecision @ '' '' @ tname, ''hard_stop='' @ show_bool hard_stop)"

definition index_event :: "nat \<Rightarrow> audit_event_entry \<Rightarrow> string \<Rightarrow> indexed_record" where
  "index_event line entry raw =
     (case event_index_fields (ev_event entry) of
        (event_type, subject, summary, detail) \<Rightarrow>
          \<lparr>ir_line = line, ir_id = ev_id entry, ir_ts = ev_ts entry, ir_record_kind = ''event'',
           ir_summary = summary, ir_detail = detail, ir_tool = None, ir_input_hash = None,
           ir_decision_kind = None, ir_hard_stop = False, ir_required_scope = None,
           ir_matched_rule_name = None, ir_matched_rule_file = None, ir_matched_rule_index = None,
           ir_policy_version = None, ir_expedition = None, ir_event_type = Some event_type,
           ir_event_subject_id = subject, ir_capabilities = [], ir_raw_json = raw\<rparr>)"

text \<open>The three contexts of an error name the line; the message of the cause follows.\<close>

definition line_context :: "string \<Rightarrow> nat \<Rightarrow> string \<Rightarrow> string" where
  "line_context what n e = what @ '' '' @ dec_nat n @ '': '' @ e"

definition index_line :: "audit_codec \<Rightarrow> nat \<Rightarrow> string \<Rightarrow> (string, indexed_record) result" where
  "index_line C n line =
     and_then (map_err (line_context ''parsing audit line'' n) (parse_json C line)) (\<lambda>value.
       if (case json_get value ''kind'' of None \<Rightarrow> None | Some v \<Rightarrow> as_str v) = Some ''event''
       then and_then (map_err (line_context ''parsing audit event line'' n) (event_of_json C value))
              (\<lambda>entry. Ok (index_event n entry line))
       else and_then (map_err (line_context ''parsing audit decision line'' n) (entry_of_json C value))
              (\<lambda>entry. Ok (index_decision n entry line)))"

fun index_lines ::
  "audit_codec \<Rightarrow> nat \<Rightarrow> (string, string) result list \<Rightarrow> (string, indexed_record list) result" where
  "index_lines C i [] = Ok []"
| "index_lines C i (l # ls) =
     and_then (map_err (line_context ''reading audit line'' (i + 1)) l) (\<lambda>line.
       if is_blank line then index_lines C (i + 1) ls
       else and_then (index_line C (i + 1) line) (\<lambda>r. and_then (index_lines C (i + 1) ls) (\<lambda>rs. Ok (r # rs))))"

definition read_indexed_records ::
  "audit_codec \<Rightarrow> read_fault \<Rightarrow> text_file \<Rightarrow> (string, indexed_record list) result" where
  "read_indexed_records C fault f =
     (case f of None \<Rightarrow> Ok [] | Some t \<Rightarrow> index_lines C 0 (read_lines fault t))"

section \<open>Counters\<close>

definition zero_counters :: state_counters where
  "zero_counters =
     \<lparr>ct_audit_entries = 0, ct_decisions = 0, ct_events = 0, ct_allows = 0, ct_asks = 0, ct_denies = 0,
      ct_hard_stops = 0, ct_approval_requests = 0, ct_approval_resolutions = 0, ct_picto_creations = 0,
      ct_picto_consumptions = 0, ct_picto_rejections = 0, ct_webhook_dead_letters = 0\<rparr>"

definition count_decision_kind :: "string option \<Rightarrow> state_counters \<Rightarrow> state_counters" where
  "count_decision_kind k c =
     (if k = Some ''allow'' then c\<lparr>ct_allows := ct_allows c + 1\<rparr>
      else if k = Some ''ask_picto'' then c\<lparr>ct_asks := ct_asks c + 1\<rparr>
      else if k = Some ''gommage'' then c\<lparr>ct_denies := ct_denies c + 1\<rparr>
      else c)"

definition count_event_type :: "string option \<Rightarrow> state_counters \<Rightarrow> state_counters" where
  "count_event_type k c =
     (if k = Some ''approval_requested'' then c\<lparr>ct_approval_requests := ct_approval_requests c + 1\<rparr>
      else if k = Some ''approval_resolved'' then c\<lparr>ct_approval_resolutions := ct_approval_resolutions c + 1\<rparr>
      else if k = Some ''picto_created'' then c\<lparr>ct_picto_creations := ct_picto_creations c + 1\<rparr>
      else if k = Some ''picto_consumed'' then c\<lparr>ct_picto_consumptions := ct_picto_consumptions c + 1\<rparr>
      else if k = Some ''picto_rejected'' then c\<lparr>ct_picto_rejections := ct_picto_rejections c + 1\<rparr>
      else if k = Some ''approval_webhook_dead_lettered''
        then c\<lparr>ct_webhook_dead_letters := ct_webhook_dead_letters c + 1\<rparr>
      else c)"

definition count_indexed :: "state_counters \<Rightarrow> indexed_record \<Rightarrow> state_counters" where
  "count_indexed c r =
     (if ir_record_kind r = ''decision''
      then
        (let c1 = count_decision_kind (ir_decision_kind r) (c\<lparr>ct_decisions := ct_decisions c + 1\<rparr>)
         in if ir_hard_stop r then c1\<lparr>ct_hard_stops := ct_hard_stops c1 + 1\<rparr> else c1)
      else if ir_record_kind r = ''event''
      then count_event_type (ir_event_type r) (c\<lparr>ct_events := ct_events c + 1\<rparr>)
      else c)"

definition counters_from_records :: "indexed_record list \<Rightarrow> state_counters" where
  "counters_from_records records =
     foldl count_indexed (zero_counters\<lparr>ct_audit_entries := length records\<rparr>) records"

section \<open>The database\<close>

record state_db =
  db_meta :: "(string \<times> string) list"
  db_records :: "indexed_record list"
  db_capabilities :: "(nat \<times> nat \<times> string) list"

definition empty_state_db :: state_db where
  "empty_state_db = \<lparr>db_meta = [], db_records = [], db_capabilities = []\<rparr>"

definition count_rows :: "(indexed_record \<Rightarrow> bool) \<Rightarrow> state_db \<Rightarrow> nat" where
  "count_rows P db = length (filter P (db_records db))"

definition load_counters :: "state_db \<Rightarrow> state_counters" where
  "load_counters db =
     \<lparr>ct_audit_entries = count_rows (\<lambda>r. True) db,
      ct_decisions = count_rows (\<lambda>r. ir_record_kind r = ''decision'') db,
      ct_events = count_rows (\<lambda>r. ir_record_kind r = ''event'') db,
      ct_allows = count_rows (\<lambda>r. ir_decision_kind r = Some ''allow'') db,
      ct_asks = count_rows (\<lambda>r. ir_decision_kind r = Some ''ask_picto'') db,
      ct_denies = count_rows (\<lambda>r. ir_decision_kind r = Some ''gommage'') db,
      ct_hard_stops = count_rows ir_hard_stop db,
      ct_approval_requests = count_rows (\<lambda>r. ir_event_type r = Some ''approval_requested'') db,
      ct_approval_resolutions = count_rows (\<lambda>r. ir_event_type r = Some ''approval_resolved'') db,
      ct_picto_creations = count_rows (\<lambda>r. ir_event_type r = Some ''picto_created'') db,
      ct_picto_consumptions = count_rows (\<lambda>r. ir_event_type r = Some ''picto_consumed'') db,
      ct_picto_rejections = count_rows (\<lambda>r. ir_event_type r = Some ''picto_rejected'') db,
      ct_webhook_dead_letters = count_rows (\<lambda>r. ir_event_type r = Some ''approval_webhook_dead_lettered'') db\<rparr>"

definition row_item :: "indexed_record \<Rightarrow> stream_item" where
  "row_item r =
     \<lparr>si_line = ir_line r, si_id = ir_id r, si_ts = ir_ts r, si_kind = ir_record_kind r,
      si_summary = ir_summary r, si_detail = ir_detail r\<rparr>"

text \<open>\<open>ORDER BY line DESC LIMIT n\<close>, turned around.\<close>

definition load_recent_items :: "state_db \<Rightarrow> nat \<Rightarrow> stream_item list" where
  "load_recent_items db limit =
     rev (map row_item (take (min (max limit 1) 100) (rev (sort_key ir_line (db_records db)))))"

section \<open>The fingerprint of the log\<close>

definition EMPTY_SHA256 :: string where
  "EMPTY_SHA256 = ''e3b0c44298fc1c149afbf4c8996fb92427ae41e4649b934ca495991b7852b855''"

record log_fingerprint =
  fp_size_bytes :: nat
  fp_modified_unix_nanos :: string
  fp_sha256 :: string

text \<open>What the system says of the file: whether it can be asked and read, and its modification time.\<close>

record log_stat =
  ls_read :: "string option"
  ls_stat :: "string option"
  ls_modified :: "nat option"

definition absent_log :: log_fingerprint where
  "absent_log = \<lparr>fp_size_bytes = 0, fp_modified_unix_nanos = ''0'', fp_sha256 = EMPTY_SHA256\<rparr>"

definition audit_fingerprint_quick :: "log_stat \<Rightarrow> text_file \<Rightarrow> (string, log_fingerprint) result" where
  "audit_fingerprint_quick st f =
     (case f of
        None \<Rightarrow> Ok absent_log
      | Some t \<Rightarrow>
          (case ls_stat st of
             Some e \<Rightarrow> Err e
           | None \<Rightarrow>
               Ok \<lparr>fp_size_bytes = length t,
                   fp_modified_unix_nanos = (case ls_modified st of Some n \<Rightarrow> dec_nat n | None \<Rightarrow> ''0''),
                   fp_sha256 = []\<rparr>))"

definition audit_fingerprint :: "extern \<Rightarrow> log_stat \<Rightarrow> text_file \<Rightarrow> (string, log_fingerprint) result" where
  "audit_fingerprint E st f =
     (case f of
        None \<Rightarrow> Ok absent_log
      | Some t \<Rightarrow>
          (case ls_read st of
             Some e \<Rightarrow> Err e
           | None \<Rightarrow>
               and_then (audit_fingerprint_quick st f) (\<lambda>fp. Ok (fp\<lparr>fp_sha256 := sha256_hex E t\<rparr>))))"

section \<open>Rebuilding\<close>

definition critical_anomaly :: "anomaly \<Rightarrow> bool" where
  "critical_anomaly a \<longleftrightarrow>
     (case a of
        MalformedEntry line e \<Rightarrow> True
      | BadSignatureAt line i \<Rightarrow> True
      | HardStopBypassAttempt line tname reason \<Rightarrow> True
      | _ \<Rightarrow> False)"

definition critical_anomaly_count :: "anomaly list \<Rightarrow> nat" where
  "critical_anomaly_count as = length (filter critical_anomaly as)"

record rebuild_report =
  rb_state_db :: string
  rb_audit_log :: string
  rb_rebuilt_at :: string
  rb_size_bytes :: nat
  rb_sha256 :: string
  rb_indexed :: state_counters
  rb_forensic_anomalies :: nat
  rb_non_blocking_anomalies :: nat

text \<open>What a rebuild meets: the three readings of the log, the key, the clock, SQLite.\<close>

record rebuild_io =
  ro_stat :: log_stat
  ro_first :: text_file
  ro_second :: text_file
  ro_third :: text_file
  ro_missing :: string
  ro_verify_fault :: read_fault
  ro_index_fault :: read_fault
  ro_key :: "(string, string) result"
  ro_now :: "(string, string) result"
  ro_open :: "(string, unit) result"
  ro_commit :: "(string, unit) result"

definition audit_error_text :: "audit_error \<Rightarrow> string" where
  "audit_error_text e =
     (case e of
        AuditIo m \<Rightarrow> ''io: '' @ m
      | AuditJson m \<Rightarrow> ''json: '' @ m
      | AuditBadSignature n \<Rightarrow> ''signature verification failed at line '' @ dec_nat n
      | AuditTime m \<Rightarrow> ''time: '' @ m)"

definition rebuild_verify ::
  "extern \<Rightarrow> audit_codec \<Rightarrow> rebuild_io \<Rightarrow> (string, verify_report option) result" where
  "rebuild_verify E C io =
     (case ro_second io of
        None \<Rightarrow> Ok None
      | Some t \<Rightarrow>
          and_then (map_err error_text (load_verifying_key E (ro_key io))) (\<lambda>vk.
          and_then (map_err (\<lambda>e. ''verifying audit before indexing: '' @ audit_error_text e)
                     (explain_log E C (ro_missing io) vk (ro_verify_fault io) (ro_second io)))
            (\<lambda>rep. Ok (Some rep))))"

definition index_capabilities :: "indexed_record list \<Rightarrow> (nat \<times> nat \<times> string) list" where
  "index_capabilities records =
     concat (map (\<lambda>r. map (\<lambda>(i, c). (ir_line r, i, c))
       (zip [0..<length (ir_capabilities r)] (ir_capabilities r))) records)"

definition rebuild_meta :: "home_layout \<Rightarrow> string \<Rightarrow> log_fingerprint \<Rightarrow> state_counters \<Rightarrow> (string \<times> string) list" where
  "rebuild_meta L rebuilt_at fp c =
     [(''schema_version'', ''1''), (''source_of_truth'', ''audit.log''), (''rebuilt_at'', rebuilt_at),
      (''audit_path'', path_text (hl_audit_log L)), (''audit_size_bytes'', dec_nat (fp_size_bytes fp)),
      (''audit_modified_unix_nanos'', fp_modified_unix_nanos fp), (''audit_sha256'', fp_sha256 fp),
      (''audit_entries'', dec_nat (ct_audit_entries c)), (''audit_decisions'', dec_nat (ct_decisions c)),
      (''audit_events'', dec_nat (ct_events c))]"

text \<open>The transaction: \<open>audit_records_id_idx\<close> is unique.\<close>

definition fill_state_db ::
  "rebuild_io \<Rightarrow> (string \<times> string) list \<Rightarrow> indexed_record list \<Rightarrow> state_db \<Rightarrow> (string, unit) result \<times> state_db" where
  "fill_state_db io meta records db =
     (if \<not> distinct (map ir_id records) then (Err ''UNIQUE constraint failed: audit_records.id'', db)
      else
        (case ro_commit io of
           Err e \<Rightarrow> (Err e, db)
         | Ok _ \<Rightarrow>
             (Ok (), \<lparr>db_meta = meta, db_records = records, db_capabilities = index_capabilities records\<rparr>)))"

definition rebuild_state ::
  "extern \<Rightarrow> audit_codec \<Rightarrow> home_layout \<Rightarrow> rebuild_io \<Rightarrow> state_db option \<Rightarrow>
     (string, rebuild_report) result \<times> state_db option" where
  "rebuild_state E C L io db =
     then_do (audit_fingerprint E (ro_stat io) (ro_first io), db) (\<lambda>fp db.
     then_do (rebuild_verify E C io, db) (\<lambda>rep db.
       let critical = (case rep of Some r \<Rightarrow> critical_anomaly_count (vr_anomalies r) | None \<Rightarrow> 0)
       in if 0 < critical
          then (Err (''audit log has '' @ dec_nat critical @
                 '' critical forensic anomaly marker(s); run `gommage audit-verify --explain` before rebuilding state''), db)
          else
            (let non_blocking = (case rep of Some r \<Rightarrow> length (vr_anomalies r) - critical | None \<Rightarrow> 0)
             in then_do (read_indexed_records C (ro_index_fault io) (ro_third io), db) (\<lambda>records db.
                let counters = counters_from_records records
                in then_do (ro_now io, db) (\<lambda>rebuilt_at db.
                   then_do (ro_open io, db) (\<lambda>_ db.
                     (case fill_state_db io (rebuild_meta L rebuilt_at fp counters) records
                             (case db of Some d \<Rightarrow> d | None \<Rightarrow> empty_state_db) of
                        (res, db') \<Rightarrow>
                          (and_then res (\<lambda>_. Ok
                             \<lparr>rb_state_db = path_text (hl_state_db L), rb_audit_log = path_text (hl_audit_log L),
                              rb_rebuilt_at = rebuilt_at, rb_size_bytes = fp_size_bytes fp,
                              rb_sha256 = fp_sha256 fp, rb_indexed = counters,
                              rb_forensic_anomalies = critical, rb_non_blocking_anomalies = non_blocking\<rparr>),
                           Some db')))))))) "

section \<open>Is it current?\<close>

record state_readiness =
  sr_status :: string
  sr_current :: bool
  sr_reason :: string
  sr_state_db :: string
  sr_audit_log :: string
  sr_indexed_size :: "nat option"
  sr_current_size :: nat
  sr_indexed_sha256 :: "string option"
  sr_current_sha256 :: "string option"
  sr_entries_indexed :: "nat option"

definition meta_number :: "(string \<times> string) list \<Rightarrow> string \<Rightarrow> nat option" where
  "meta_number meta k = (case map_of meta k of None \<Rightarrow> None | Some v \<Rightarrow> parse_unsigned (2 ^ 64) v)"

definition schema_ok :: "(string \<times> string) list \<Rightarrow> bool" where
  "schema_ok meta \<longleftrightarrow>
     (case map_of meta ''schema_version'' of None \<Rightarrow> False | Some v \<Rightarrow> parse_unsigned (2 ^ 63) v = Some 1)"

definition source_ok :: "(string \<times> string) list \<Rightarrow> bool" where
  "source_ok meta \<longleftrightarrow> map_of meta ''source_of_truth'' = Some ''audit.log''"

definition path_ok :: "home_layout \<Rightarrow> (string \<times> string) list \<Rightarrow> bool" where
  "path_ok L meta \<longleftrightarrow> map_of meta ''audit_path'' = Some (path_text (hl_audit_log L))"

definition unread_state :: "home_layout \<Rightarrow> bool \<Rightarrow> log_fingerprint \<Rightarrow> string \<Rightarrow> string \<Rightarrow> state_readiness" where
  "unread_state L strong_hash fp status reason =
     \<lparr>sr_status = status, sr_current = False, sr_reason = reason, sr_state_db = path_text (hl_state_db L),
      sr_audit_log = path_text (hl_audit_log L), sr_indexed_size = None, sr_current_size = fp_size_bytes fp,
      sr_indexed_sha256 = None, sr_current_sha256 = (if strong_hash then Some (fp_sha256 fp) else None),
      sr_entries_indexed = None\<rparr>"

definition state_verdict :: "home_layout \<Rightarrow> bool \<Rightarrow> log_fingerprint \<Rightarrow> (string \<times> string) list \<Rightarrow> bool \<times> string \<times> string" where
  "state_verdict L strong_hash fp meta =
     (let size_ok = (meta_number meta ''audit_size_bytes'' = Some (fp_size_bytes fp));
          hash_ok = (\<not> strong_hash \<or> map_of meta ''audit_sha256'' = Some (fp_sha256 fp))
      in if schema_ok meta \<and> source_ok meta \<and> path_ok L meta \<and> size_ok \<and> hash_ok
         then (True, ''ok'', ''state.sqlite matches the current audit ledger'')
         else if \<not> schema_ok meta
         then (False, ''warn'', ''state.sqlite schema is missing or outdated; run `gommage state rebuild`'')
         else if \<not> source_ok meta
         then (False, ''warn'', ''state.sqlite source metadata is invalid; run `gommage state rebuild`'')
         else if \<not> path_ok L meta
         then (False, ''warn'', ''state.sqlite was built for a different audit path; run `gommage state rebuild`'')
         else if \<not> size_ok
         then (False, ''warn'', ''audit.log changed after state.sqlite was built; run `gommage state rebuild`'')
         else (False, ''warn'', ''audit.log hash differs from state.sqlite; run `gommage state rebuild`''))"

text \<open>\<open>opened\<close> and \<open>readable\<close> are what opening the database and selecting from it give.\<close>

definition verify_state ::
  "extern \<Rightarrow> home_layout \<Rightarrow> bool \<Rightarrow> log_stat \<Rightarrow> (string, unit) result \<Rightarrow> (string, unit) result \<Rightarrow> text_file \<Rightarrow>
     state_db option \<Rightarrow> (string, state_readiness) result" where
  "verify_state E L strong_hash st opened readable f db =
     and_then (audit_fingerprint E st f) (\<lambda>fp.
       case db of
         None \<Rightarrow> Ok (unread_state L strong_hash fp ''warn'' ''state.sqlite is missing; run `gommage state rebuild`'')
       | Some d \<Rightarrow>
           (case opened of
              Err e \<Rightarrow> Ok (unread_state L strong_hash fp ''fail'' (''state.sqlite cannot be opened: '' @ e))
            | Ok _ \<Rightarrow>
                and_then readable (\<lambda>_.
                  case state_verdict L strong_hash fp (db_meta d) of
                    (is_current, status, reason) \<Rightarrow>
                      Ok \<lparr>sr_status = status, sr_current = is_current, sr_reason = reason,
                          sr_state_db = path_text (hl_state_db L), sr_audit_log = path_text (hl_audit_log L),
                          sr_indexed_size = meta_number (db_meta d) ''audit_size_bytes'',
                          sr_current_size = fp_size_bytes fp, sr_indexed_sha256 = map_of (db_meta d) ''audit_sha256'',
                          sr_current_sha256 = (if strong_hash then Some (fp_sha256 fp) else None),
                          sr_entries_indexed = meta_number (db_meta d) ''audit_entries''\<rparr>)))"

definition quick_current ::
  "home_layout \<Rightarrow> log_stat \<Rightarrow> (string, unit) result \<Rightarrow> (string, unit) result \<Rightarrow> text_file \<Rightarrow> state_db option \<Rightarrow> bool" where
  "quick_current L st opened readable f db \<longleftrightarrow>
     (case (audit_fingerprint_quick st f, db, opened, readable) of
        (Ok fp, Some d, Ok _, Ok _) \<Rightarrow>
          schema_ok (db_meta d) \<and> source_ok (db_meta d) \<and> path_ok L (db_meta d) \<and>
          meta_number (db_meta d) ''audit_size_bytes'' = Some (fp_size_bytes fp) \<and>
          map_of (db_meta d) ''audit_modified_unix_nanos'' = Some (fp_modified_unix_nanos fp)
      | _ \<Rightarrow> False)"

definition load_counters_if_quick_current ::
  "home_layout \<Rightarrow> log_stat \<Rightarrow> (string, unit) result \<Rightarrow> (string, unit) result \<Rightarrow> text_file \<Rightarrow> state_db option \<Rightarrow>
     state_counters option" where
  "load_counters_if_quick_current L st opened readable f db =
     (if quick_current L st opened readable f db then map_option load_counters db else None)"

definition recent_items_if_quick_current ::
  "home_layout \<Rightarrow> log_stat \<Rightarrow> (string, unit) result \<Rightarrow> (string, unit) result \<Rightarrow> text_file \<Rightarrow> state_db option \<Rightarrow>
     nat \<Rightarrow> stream_item list option" where
  "recent_items_if_quick_current L st opened readable f db limit =
     (if quick_current L st opened readable f db then map_option (\<lambda>d. load_recent_items d limit) db else None)"

section \<open>Statistics, vacuum, reset\<close>

record state_stats =
  ss_status :: string
  ss_current :: bool
  ss_reason :: string
  ss_counters :: state_counters

definition state_stats_report ::
  "extern \<Rightarrow> home_layout \<Rightarrow> log_stat \<Rightarrow> (string, unit) result \<Rightarrow> (string, unit) result \<Rightarrow> text_file \<Rightarrow>
     state_db option \<Rightarrow> (string, state_stats) result" where
  "state_stats_report E L st opened readable f db =
     and_then (verify_state E L False st opened readable f db) (\<lambda>r.
       Ok \<lparr>ss_status = sr_status r, ss_current = sr_current r, ss_reason = sr_reason r,
           ss_counters =
             (case (db, opened, readable) of
                (Some d, Ok _, Ok _) \<Rightarrow> load_counters d
              | _ \<Rightarrow> zero_counters)\<rparr>)"

definition state_exit_code :: "state_readiness \<Rightarrow> nat" where
  "state_exit_code r = (if sr_status r = ''fail'' then 1 else 0)"

definition state_vacuum :: "(string, unit) result \<Rightarrow> state_db option \<Rightarrow> (string, unit) result \<times> state_db option" where
  "state_vacuum opened db =
     (case db of
        None \<Rightarrow> (Err ''state.sqlite is missing; run `gommage state rebuild` first'', None)
      | Some d \<Rightarrow> (opened, Some d))"

text \<open>The database file with its two companions, of which only the presence matters.\<close>

definition state_storage_paths :: "path \<Rightarrow> path list" where
  "state_storage_paths p =
     (let name = (if p = [] \<or> last p = ''..'' then ''state.sqlite'' else last p)
      in [p, butlast p @ [name @ ''-wal''], butlast p @ [name @ ''-shm'']])"

fun state_reset_files ::
  "path list \<Rightarrow> (path \<Rightarrow> string option) \<Rightarrow> path list \<Rightarrow> nat \<Rightarrow> (string, nat) result \<times> path list" where
  "state_reset_files [] fault present removed = (Ok removed, present)"
| "state_reset_files (p # ps) fault present removed =
     (if p \<notin> set present then state_reset_files ps fault present removed
      else
        (case fault p of
           Some e \<Rightarrow> (Err (''removing '' @ path_text p @ '': '' @ e), present)
         | None \<Rightarrow> state_reset_files ps fault (removeAll p present) (removed + 1)))"

definition state_reset ::
  "home_layout \<Rightarrow> bool \<Rightarrow> (path \<Rightarrow> string option) \<Rightarrow> path list \<Rightarrow> state_db option \<Rightarrow>
     (string, nat) result \<times> path list \<times> state_db option" where
  "state_reset L dry_run fault present db =
     (if dry_run then (Ok 0, present, db)
      else
        (case state_reset_files (state_storage_paths (hl_state_db L)) fault present 0 of
           (res, present') \<Rightarrow> (res, present', if hl_state_db L \<in> set present' then db else None)))"

section \<open>The live stream\<close>

text \<open>The items of a frame (\<open>tui_stream.rs\<close>): from the daemon if it answers, from the index if it is current,
  from the log otherwise; an unreadable log has none.\<close>

record stream_snapshot =
  sn_source :: string
  sn_items :: "stream_item list"

definition clamp_limit :: "nat \<Rightarrow> nat" where
  "clamp_limit limit = min (max limit 1) 100"

definition load_stream_snapshot ::
  "stream_item list option \<Rightarrow> stream_item list option \<Rightarrow> (audit_error, stream_item list) result \<Rightarrow> stream_snapshot" where
  "load_stream_snapshot daemon index log =
     (case daemon of
        Some items \<Rightarrow> \<lparr>sn_source = ''daemon-ipc'', sn_items = items\<rparr>
      | None \<Rightarrow>
          (case index of
             Some items \<Rightarrow> \<lparr>sn_source = ''state.sqlite'', sn_items = items\<rparr>
           | None \<Rightarrow>
               \<lparr>sn_source = ''audit-log'', sn_items = (case log of Ok items \<Rightarrow> items | Err e \<Rightarrow> [])\<rparr>))"

end
