(* ===== verification/State_Laws.thy ===== *)
theory State_Laws
  imports State_Index Audit_Laws
begin

text \<open>
  What the index is worth: its rows are well formed whatever happens, it is what the log says whenever it
  is reported current, and the items shown from it are those shown from the log.
\<close>

section \<open>Rows\<close>

definition decision_row :: "indexed_record \<Rightarrow> bool" where
  "decision_row r \<longleftrightarrow>
     ir_record_kind r = ''decision'' \<and> ir_tool r \<noteq> None \<and> ir_input_hash r \<noteq> None \<and> ir_policy_version r \<noteq> None \<and>
     ir_decision_kind r \<in> {Some ''allow'', Some ''ask_picto'', Some ''gommage''} \<and>
     (ir_hard_stop r \<longrightarrow> ir_decision_kind r = Some ''gommage'') \<and>
     (ir_required_scope r \<noteq> None \<longleftrightarrow> ir_decision_kind r = Some ''ask_picto'') \<and>
     (ir_matched_rule_name r = None \<longleftrightarrow> ir_matched_rule_file r = None) \<and>
     (ir_matched_rule_name r = None \<longleftrightarrow> ir_matched_rule_index r = None) \<and>
     ir_event_type r = None \<and> ir_event_subject_id r = None"

definition event_row :: "indexed_record \<Rightarrow> bool" where
  "event_row r \<longleftrightarrow>
     ir_record_kind r = ''event'' \<and> ir_event_type r \<noteq> None \<and> ir_tool r = None \<and> ir_input_hash r = None \<and>
     ir_decision_kind r = None \<and> \<not> ir_hard_stop r \<and> ir_required_scope r = None \<and>
     ir_matched_rule_name r = None \<and> ir_policy_version r = None \<and> ir_expedition r = None \<and>
     ir_capabilities r = []"

definition rows_ok :: "state_db \<Rightarrow> bool" where
  "rows_ok db \<longleftrightarrow>
     sorted_wrt (<) (map ir_line (db_records db)) \<and> distinct (map ir_id (db_records db)) \<and>
     list_all (\<lambda>r. decision_row r \<or> event_row r) (db_records db) \<and>
     db_capabilities db = index_capabilities (db_records db)"

lemma index_decision_row: "decision_row (index_decision n e raw)"
  by (simp add: decision_row_def index_decision_def decision_index_fields_def split: decision.split)

lemma index_event_row: "event_row (index_event n e raw)"
  by (simp add: event_row_def index_event_def split: prod.split)

lemma index_line_row:
  assumes "index_line C n l = Ok r"
  shows "(decision_row r \<or> event_row r) \<and> ir_line r = n \<and> ir_raw_json r = l"
proof -
  have "ir_line (index_decision n e l) = n" "ir_raw_json (index_decision n e l) = l"
    "ir_line (index_event n v l) = n" "ir_raw_json (index_event n v l) = l" for e v
    by (simp_all add: index_decision_def index_event_def split: prod.split)
  with assms show ?thesis
    by (auto simp: index_line_def and_then_Ok_iff map_err_Ok_iff index_decision_row index_event_row split: if_splits)
qed

lemma index_lines_rows:
  "index_lines C i ls = Ok rs \<Longrightarrow>
     list_all (\<lambda>r. decision_row r \<or> event_row r) rs \<and> sorted_wrt (<) (map ir_line rs) \<and>
     (\<forall>r \<in> set rs. i < ir_line r)"
proof (induction ls arbitrary: i rs)
  case (Cons l ls)
  from Cons.prems obtain line where "l = Ok line" by (auto simp: and_then_Ok_iff map_err_Ok_iff)
  show ?case
  proof (cases "is_blank line")
    case True
    with Cons.IH [of "i + 1" rs] Cons.prems \<open>l = Ok line\<close> show ?thesis by fastforce
  next
    case False
    with Cons.prems \<open>l = Ok line\<close> obtain r rs' where r: "index_line C (i + 1) line = Ok r"
        "index_lines C (i + 1) ls = Ok rs'" "rs = r # rs'"
      by (auto simp: and_then_Ok_iff)
    from index_line_row [OF r(1)] Cons.IH [OF r(2)] r(3) show ?thesis by fastforce
  qed
qed simp

lemma read_indexed_rows:
  "read_indexed_records C fault f = Ok rs \<Longrightarrow>
     list_all (\<lambda>r. decision_row r \<or> event_row r) rs \<and> sorted_wrt (<) (map ir_line rs)"
  by (auto simp: read_indexed_records_def dest: index_lines_rows split: option.splits)

section \<open>Counters\<close>

lemma count_rows_typed:
  assumes "list_all (\<lambda>r. decision_row r \<or> event_row r) rs"
  shows "foldl count_indexed c rs =
    \<lparr>ct_audit_entries = ct_audit_entries c,
     ct_decisions = ct_decisions c + length (filter (\<lambda>r. ir_record_kind r = ''decision'') rs),
     ct_events = ct_events c + length (filter (\<lambda>r. ir_record_kind r = ''event'') rs),
     ct_allows = ct_allows c + length (filter (\<lambda>r. ir_decision_kind r = Some ''allow'') rs),
     ct_asks = ct_asks c + length (filter (\<lambda>r. ir_decision_kind r = Some ''ask_picto'') rs),
     ct_denies = ct_denies c + length (filter (\<lambda>r. ir_decision_kind r = Some ''gommage'') rs),
     ct_hard_stops = ct_hard_stops c + length (filter ir_hard_stop rs),
     ct_approval_requests = ct_approval_requests c + length (filter (\<lambda>r. ir_event_type r = Some ''approval_requested'') rs),
     ct_approval_resolutions = ct_approval_resolutions c + length (filter (\<lambda>r. ir_event_type r = Some ''approval_resolved'') rs),
     ct_picto_creations = ct_picto_creations c + length (filter (\<lambda>r. ir_event_type r = Some ''picto_created'') rs),
     ct_picto_consumptions = ct_picto_consumptions c + length (filter (\<lambda>r. ir_event_type r = Some ''picto_consumed'') rs),
     ct_picto_rejections = ct_picto_rejections c + length (filter (\<lambda>r. ir_event_type r = Some ''picto_rejected'') rs),
     ct_webhook_dead_letters = ct_webhook_dead_letters c +
       length (filter (\<lambda>r. ir_event_type r = Some ''approval_webhook_dead_lettered'') rs)\<rparr>"
  using assms
proof (induction rs arbitrary: c)
  case Nil
  then show ?case by simp
next
  case (Cons r rs)
  then have IH: "list_all (\<lambda>r. decision_row r \<or> event_row r) rs" and r: "decision_row r \<or> event_row r" by auto
  from r show ?case
  proof
    assume "decision_row r"
    then show ?thesis
      unfolding foldl_Cons Cons.IH [OF IH]
      by (auto simp: decision_row_def count_indexed_def count_decision_kind_def Let_def)
  next
    assume "event_row r"
    then show ?thesis
      unfolding foldl_Cons Cons.IH [OF IH]
      by (auto simp: event_row_def count_indexed_def count_event_type_def Let_def)
  qed
qed

lemma load_counters_rows:
  "rows_ok db \<Longrightarrow> load_counters db = counters_from_records (db_records db)"
  by (simp add: counters_from_records_def rows_ok_def count_rows_typed load_counters_def count_rows_def zero_counters_def)

lemma typed_sums:
  "list_all (\<lambda>r. decision_row r \<or> event_row r) rs \<Longrightarrow>
     length rs = length (filter (\<lambda>r. ir_record_kind r = ''decision'') rs) + length (filter (\<lambda>r. ir_record_kind r = ''event'') rs) \<and>
     length (filter (\<lambda>r. ir_record_kind r = ''decision'') rs) =
       length (filter (\<lambda>r. ir_decision_kind r = Some ''allow'') rs) +
       length (filter (\<lambda>r. ir_decision_kind r = Some ''ask_picto'') rs) +
       length (filter (\<lambda>r. ir_decision_kind r = Some ''gommage'') rs) \<and>
     length (filter ir_hard_stop rs) \<le> length (filter (\<lambda>r. ir_decision_kind r = Some ''gommage'') rs)"
proof (induction rs)
  case (Cons r rs)
  from Cons.prems have r: "decision_row r \<or> event_row r" by simp
  show ?case using r
  proof
    assume d: "decision_row r"
    then have k: "ir_record_kind r = ''decision''" "ir_hard_stop r \<Longrightarrow> ir_decision_kind r = Some ''gommage''"
      by (simp_all add: decision_row_def)
    from d consider "ir_decision_kind r = Some ''allow''" | "ir_decision_kind r = Some ''ask_picto''"
      | "ir_decision_kind r = Some ''gommage''" by (auto simp: decision_row_def)
    then show ?thesis using Cons k by cases (cases "ir_hard_stop r"; simp)+
  next
    assume "event_row r"
    then have "ir_record_kind r = ''event''" "\<not> ir_hard_stop r" "ir_decision_kind r = None"
      by (simp_all add: event_row_def)
    with Cons show ?thesis by simp
  qed
qed simp

section \<open>A rebuild\<close>

lemma fill_state_db_cases:
  assumes "fill_state_db io meta records db = (res, db')"
  shows "(\<exists>e. res = Err e \<and> db' = db) \<or>
    (res = Ok () \<and> distinct (map ir_id records) \<and>
     db' = \<lparr>db_meta = meta, db_records = records, db_capabilities = index_capabilities records\<rparr>)"
proof (cases "distinct (map ir_id records)")
  case False
  with assms show ?thesis by (auto simp: fill_state_db_def)
next
  case True
  with assms show ?thesis by (cases "ro_commit io"; simp add: fill_state_db_def) metis
qed

lemma rebuild_stages:
  assumes "rebuild_state E C L io db = (res, db')"
  obtains (refused) e where "res = Err e" "db' = db"
  | (rolled_back) e where "res = Err e" "db' = Some (case db of Some d \<Rightarrow> d | None \<Rightarrow> empty_state_db)"
  | (filled) fp rep records now rb where
      "audit_fingerprint E (ro_stat io) (ro_first io) = Ok fp" "rebuild_verify E C io = Ok rep"
      "(case rep of Some r \<Rightarrow> critical_anomaly_count (vr_anomalies r) | None \<Rightarrow> 0) = 0"
      "read_indexed_records C (ro_index_fault io) (ro_third io) = Ok records" "distinct (map ir_id records)"
      "res = Ok rb" "rb_indexed rb = counters_from_records records"
      "db' = Some \<lparr>db_meta = rebuild_meta L now fp (counters_from_records records), db_records = records,
         db_capabilities = index_capabilities records\<rparr>"
proof (cases "audit_fingerprint E (ro_stat io) (ro_first io)")
  case (Inl e)
  with assms have "res = Err e" "db' = db" by (auto simp: rebuild_state_def)
  with refused show thesis by blast
next
  case fp: (Inr fp)
  show thesis
  proof (cases "rebuild_verify E C io")
    case (Inl e)
    with fp assms have "res = Err e" "db' = db" by (auto simp: rebuild_state_def)
    with refused show thesis by blast
  next
    case rep: (Inr rep)
    let ?critical = "case rep of Some r \<Rightarrow> critical_anomaly_count (vr_anomalies r) | None \<Rightarrow> 0"
    show thesis
    proof (cases "0 < ?critical")
      case True
      with fp rep assms have "\<exists>e. res = Err e" "db' = db" by (auto simp: rebuild_state_def Let_def)
      with refused show thesis by blast
    next
      case False
      note start = fp rep False
      show thesis
      proof (cases "is_ok (read_indexed_records C (ro_index_fault io) (ro_third io)) \<and> is_ok (ro_now io) \<and> is_ok (ro_open io)")
        case False
        with start assms have "\<exists>e. res = Err e" "db' = db"
          by (cases "read_indexed_records C (ro_index_fault io) (ro_third io)"; cases "ro_now io"; cases "ro_open io";
              auto simp: rebuild_state_def Let_def)+
        with refused show thesis by blast
      next
        case True
        then obtain records now u where ok: "read_indexed_records C (ro_index_fault io) (ro_third io) = Ok records"
            "ro_now io = Ok now" "ro_open io = Ok u" by (auto simp: is_ok_iff)
        let ?d = "case db of Some d \<Rightarrow> d | None \<Rightarrow> empty_state_db"
        obtain r d' where f: "fill_state_db io (rebuild_meta L now fp (counters_from_records records)) records ?d = (r, d')"
          by fastforce
        with start ok assms have fin: "db' = Some d'" "r = Ok () \<Longrightarrow> \<exists>rb. res = Ok rb \<and> rb_indexed rb = counters_from_records records"
            "\<And>e. r = Err e \<Longrightarrow> res = Err e"
          by (auto simp: rebuild_state_def Let_def)
        from fill_state_db_cases [OF f] show thesis
        proof (elim disjE exE conjE)
          fix e assume "r = Err e" "d' = ?d"
          with fin rolled_back show thesis by simp
        next
          assume "r = Ok ()" "distinct (map ir_id records)" and
            d': "d' = \<lparr>db_meta = rebuild_meta L now fp (counters_from_records records), db_records = records,
               db_capabilities = index_capabilities records\<rparr>"
          moreover from this fin(2) obtain rb where "res = Ok rb" "rb_indexed rb = counters_from_records records"
            by blast
          moreover have "?critical = 0" using start(3) by simp
          ultimately show thesis using filled [OF start(1,2) _ ok(1)] fin(1) by blast
        qed
      qed
    qed
  qed
qed

section \<open>An index that is current\<close>

lemma parse_dec_nat: "n < b \<Longrightarrow> parse_unsigned b (dec_nat n) = Some n"
proof -
  assume "n < b"
  have digits: "list_all is_ascii_digit (dec_nat n)" by (auto simp: list_all_iff dest: dec_nat_digits)
  then have "CHR ''+'' \<notin> set (dec_nat n)" by (auto simp: list_all_iff is_ascii_digit_def char_between_def)
  then have "(case dec_nat n of c # r \<Rightarrow> if c = CHR ''+'' then r else dec_nat n | [] \<Rightarrow> []) = dec_nat n"
    by (cases "dec_nat n") auto
  then show ?thesis using digits \<open>n < b\<close> by (simp add: parse_unsigned_def Let_def)
qed

lemma rebuild_meta_at [simp]:
  "map_of (rebuild_meta L now fp c) ''audit_size_bytes'' = Some (dec_nat (fp_size_bytes fp))"
  "map_of (rebuild_meta L now fp c) ''audit_sha256'' = Some (fp_sha256 fp)"
  by (simp_all add: rebuild_meta_def)

lemma audit_fingerprint_size:
  "audit_fingerprint E st (Some t) = Ok fp \<Longrightarrow> fp_size_bytes fp = length t"
  "audit_fingerprint_quick st (Some t) = Ok fp \<Longrightarrow> fp_size_bytes fp = length t"
  by (auto simp: audit_fingerprint_def audit_fingerprint_quick_def and_then_Ok_iff split: option.splits)

lemma current_size:
  assumes "quick_current L st opened readable (Some t) (Some d) \<or>
      verify_state E L strong_hash st opened readable (Some t) (Some d) = Ok r \<and> sr_current r"
  shows "meta_number (db_meta d) ''audit_size_bytes'' = Some (length t)"
  using assms
proof (elim disjE conjE)
  assume "quick_current L st opened readable (Some t) (Some d)"
  then show ?thesis
    by (auto simp: quick_current_def audit_fingerprint_size(2) split: sum.splits)
next
  assume v: "verify_state E L strong_hash st opened readable (Some t) (Some d) = Ok r" and "sr_current r"
  from v obtain fp where fp: "audit_fingerprint E st (Some t) = Ok fp"
    by (auto simp: verify_state_def and_then_Ok_iff)
  obtain c s w where sv: "state_verdict L strong_hash fp (db_meta d) = (c, s, w)" by (cases "state_verdict L strong_hash fp (db_meta d)")
  from v fp \<open>sr_current r\<close> have c
    by (auto simp: verify_state_def and_then_Ok_iff sv unread_state_def split: sum.splits)
  with sv audit_fingerprint_size(1) [OF fp] show ?thesis
    by (simp add: state_verdict_def Let_def split: if_splits)
qed

lemma critical_corrupt: "critical_anomaly_count as = 0 \<Longrightarrow> corrupt as = []"
proof -
  have "is_corrupt a \<Longrightarrow> critical_anomaly a" for a by (cases a) (simp_all add: critical_anomaly_def)
  then show "critical_anomaly_count as = 0 \<Longrightarrow> corrupt as = []"
    by (auto simp: critical_anomaly_count_def corrupt_def filter_empty_conv)
qed

lemma rebuilt_is_current:
  assumes "rebuild_state E C L io db = (Ok rb, Some d)" "ro_first io = Some t" "length t < 2 ^ 64"
    and "opened = Ok ()" "readable = Ok ()"
  shows "\<exists>r. verify_state E L strong_hash (ro_stat io) opened readable (Some t) (Some d) = Ok r \<and> sr_current r"
  using assms(1)
proof (cases rule: rebuild_stages)
  case (filled fp rep records now rb')
  from filled(1) assms(2) have fp: "audit_fingerprint E (ro_stat io) (Some t) = Ok fp" by simp
  from filled(8) have d: "db_meta d = rebuild_meta L now fp (counters_from_records records)" by simp
  have "dec_nat 1 = ''1''" by code_simp
  then have "parse_unsigned (2 ^ 63) ''1'' = Some 1" using parse_dec_nat [of 1 "2 ^ 63"] by simp
  then have "schema_ok (db_meta d)" "source_ok (db_meta d)" "path_ok L (db_meta d)"
    by (simp_all add: d rebuild_meta_def schema_ok_def source_ok_def path_ok_def)
  moreover have "meta_number (db_meta d) ''audit_size_bytes'' = Some (fp_size_bytes fp)"
    using parse_dec_nat [OF assms(3)] audit_fingerprint_size(1) [OF fp] by (simp add: meta_number_def d)
  moreover have "map_of (db_meta d) ''audit_sha256'' = Some (fp_sha256 fp)" by (simp add: d)
  ultimately have "state_verdict L strong_hash fp (db_meta d) =
      (True, ''ok'', ''state.sqlite matches the current audit ledger'')"
    by (simp add: state_verdict_def Let_def)
  with fp assms(4,5) show ?thesis by (simp add: verify_state_def)
qed auto

section \<open>A log for the examples\<close>

text \<open>One event, signed with a key of the right length.\<close>

definition demo_key :: string where
  "demo_key = replicate 32 (CHR ''k'')"

definition demo_index_entry :: audit_event_entry where
  "demo_index_entry =
     (let e = \<lparr>ev_version = AUDIT_SCHEMA_VERSION, ev_id = ''i'', ev_ts = ''t'', ev_kind = ''event'',
                ev_event = PictoConfirmed ''p'', ev_sig = []\<rparr>
      in e\<lparr>ev_sig := ed25519_sig demo_extern demo_key (canonical_event_bytes e)\<rparr>)"

definition demo_index_codec :: audit_codec where
  "demo_index_codec = demo_audit_codec
     \<lparr>parse_json := (\<lambda>l. if l = ''{}'' then Ok (JObject [(''kind'', JString ''event''), (''id'', JString ''i''), (''ts'', JString ''t'')])
                        else Err ''syntax''),
      event_of_json := (\<lambda>v. Ok demo_index_entry)\<rparr>"

definition demo_index_text :: string where
  "demo_index_text = ''{}'' @ [NL]"

definition demo_rebuild_io :: rebuild_io where
  "demo_rebuild_io =
     \<lparr>ro_stat = \<lparr>ls_read = None, ls_stat = None, ls_modified = Some 7\<rparr>, ro_first = Some demo_index_text,
      ro_second = Some demo_index_text, ro_third = Some demo_index_text, ro_missing = [], ro_verify_fault = None,
      ro_index_fault = None, ro_key = Ok demo_key, ro_now = Ok ''now'', ro_open = Ok (), ro_commit = Ok ()\<rparr>"

lemma demo_rebuilt:
  obtains rb d where "rebuild_state demo_extern demo_index_codec (home_layout_at [''/'', ''h'']) demo_rebuild_io None = (Ok rb, Some d)"
proof -
  have "case rebuild_state demo_extern demo_index_codec (home_layout_at [''/'', ''h'']) demo_rebuild_io None of
      (Ok rb, Some d) \<Rightarrow> True | _ \<Rightarrow> False"
    by code_simp
  with that show thesis by (auto split: prod.splits sum.splits option.splits)
qed

section \<open>Properties\<close>

text \<open>C21. The rows of the index are well formed whatever is done to it, and whatever fails: lines ascend,
  identifiers are distinct, each row is that of a decision or of an event, with the columns of its kind and
  no others, and the capability table is that of the rows; a command that fails leaves the rows; and the
  counters of such a table add up.\<close>

theorem index_rows_typed:
  assumes "case db of Some d \<Rightarrow> rows_ok d | None \<Rightarrow> True"
    and "rebuild_state E C L io db = (res, db') \<or> state_vacuum opened db = (vac, db') \<or>
      state_reset L dry_run fault present db = (removed, present', db')"
  shows "(case db' of Some d \<Rightarrow> rows_ok d | None \<Rightarrow> True) \<and>
    (\<forall>e d. rebuild_state E C L io db = (Err e, db') \<and> db = Some d \<longrightarrow> db' = db) \<and>
    (\<forall>d. db' = Some d \<longrightarrow>
      ct_audit_entries (load_counters d) = ct_decisions (load_counters d) + ct_events (load_counters d) \<and>
      ct_decisions (load_counters d) =
        ct_allows (load_counters d) + ct_asks (load_counters d) + ct_denies (load_counters d) \<and>
      ct_hard_stops (load_counters d) \<le> ct_denies (load_counters d))"
proof -
  have kept: "db' = db" if "rebuild_state E C L io db = (Err e, db')" "db = Some d" for e d
    using that(1) by (cases rule: rebuild_stages) (use that(2) in auto)
  have ok: "case db' of Some d \<Rightarrow> rows_ok d | None \<Rightarrow> True"
    using assms(2)
  proof (elim disjE)
    assume "rebuild_state E C L io db = (res, db')"
    then show ?thesis
    proof (cases rule: rebuild_stages)
      case (rolled_back e)
      with assms(1) show ?thesis
        by (cases db) (simp_all add: rows_ok_def empty_state_db_def index_capabilities_def)
    next
      case (filled fp rep records now rb)
      with read_indexed_rows [OF filled(4)] show ?thesis by (simp add: rows_ok_def)
    qed (use assms(1) in simp)
  qed (use assms(1) in \<open>auto simp: state_vacuum_def state_reset_def split: option.splits if_splits prod.splits\<close>)
  then have "rows_ok d" if "db' = Some d" for d using that by simp
  then have "ct_audit_entries (load_counters d) = ct_decisions (load_counters d) + ct_events (load_counters d) \<and>
      ct_decisions (load_counters d) =
        ct_allows (load_counters d) + ct_asks (load_counters d) + ct_denies (load_counters d) \<and>
      ct_hard_stops (load_counters d) \<le> ct_denies (load_counters d)" if "db' = Some d" for d
    using that typed_sums [of "db_records d"] by (simp add: load_counters_def count_rows_def rows_ok_def)
  with ok kept show ?thesis by blast
qed

theorem index_rows_typed_witness:
  "\<exists>rb d. rebuild_state demo_extern demo_index_codec (home_layout_at [''/'', ''h'']) demo_rebuild_io None = (Ok rb, Some d) \<and>
     rows_ok d \<and> ct_audit_entries (load_counters d) = ct_decisions (load_counters d) + ct_events (load_counters d)"
proof -
  obtain rb d where r: "rebuild_state demo_extern demo_index_codec (home_layout_at [''/'', ''h'']) demo_rebuild_io None = (Ok rb, Some d)"
    by (rule demo_rebuilt)
  moreover have "case None of Some d \<Rightarrow> rows_ok d | None \<Rightarrow> True" by simp
  from index_rows_typed [OF this disjI1 [OF r]] have "rows_ok d"
      "ct_audit_entries (load_counters d) = ct_decisions (load_counters d) + ct_events (load_counters d)" by simp_all
  ultimately show ?thesis by blast
qed

text \<open>C22. An index reported current, by size and hash, by size alone or by the quick test, of a log that only
  grows, is that log: however the log grew while the index was built from three readings of it and since,
  every entry of the log verifies under the key, the rows are those of the log, and the counters are those
  the rebuild reported.\<close>

theorem current_index_is_the_log:
  assumes "rebuild_state E C L io db = (Ok rb, Some d)"
    and "ro_first io = Some first" "ro_second io = Some (first @ grown)" "ro_third io = Some (first @ grown @ later)"
    and "ro_verify_fault io = None" "ro_index_fault io = None" "length first < 2 ^ 64"
    and "quick_current L st opened readable (Some (first @ grown @ later @ since)) (Some d) \<or>
      verify_state E L strong_hash st opened readable (Some (first @ grown @ later @ since)) (Some d) = Ok r \<and> sr_current r"
  shows "grown @ later @ since = [] \<and> read_indexed_records C None (Some first) = Ok (db_records d) \<and>
    load_counters d = rb_indexed rb \<and>
    (\<exists>vk. load_verifying_key E (ro_key io) = Ok vk \<and>
      list_all (line_verifies E C vk) (entries (str_lines first)))"
  using assms(1)
proof (cases rule: rebuild_stages)
  case (filled fp rep records now rb')
  from filled(8) have d: "db_records d = records" "db_meta d = rebuild_meta L now fp (counters_from_records records)"
      "db_capabilities d = index_capabilities records"
    by simp_all
  from audit_fingerprint_size(1) filled(1) assms(2) have "fp_size_bytes fp = length first" by metis
  then have "meta_number (db_meta d) ''audit_size_bytes'' = Some (length first)"
    using parse_dec_nat [OF assms(7)] by (simp add: meta_number_def d(2))
  with current_size [OF assms(8)] have grown: "grown @ later @ since = []" by simp
  have rows: "rows_ok d" using read_indexed_rows [OF filled(4)] filled(5) d by (simp add: rows_ok_def)
  from filled(2) assms(3,5) grown obtain vk rep' where vk: "load_verifying_key E (ro_key io) = Ok vk"
      "explain_log E C (ro_missing io) vk None (Some first) = Ok rep'" "rep = Some rep'"
    by (auto simp: rebuild_verify_def and_then_Ok_iff map_err_Ok_iff)
  then have "corruptions E C vk 0 (str_lines first) = []"
    using explain_log_tallies [of E C "ro_missing io" vk first] critical_corrupt filled(3) by fastforce
  with grown filled(4,6,7) assms(4,6) vk(1) d load_counters_rows [OF rows] show ?thesis
    by (simp add: corruptions_Nil_iff)
qed auto

theorem current_index_is_the_log_witness:
  "\<exists>rb d. rebuild_state demo_extern demo_index_codec (home_layout_at [''/'', ''h'']) demo_rebuild_io None = (Ok rb, Some d) \<and>
     read_indexed_records demo_index_codec None (Some demo_index_text) = Ok (db_records d) \<and> load_counters d = rb_indexed rb"
proof -
  obtain rb d where r: "rebuild_state demo_extern demo_index_codec (home_layout_at [''/'', ''h'']) demo_rebuild_io None = (Ok rb, Some d)"
    by (rule demo_rebuilt)
  have l: "length demo_index_text < 2 ^ 64" by (simp add: demo_index_text_def)
  have "\<exists>s. verify_state demo_extern (home_layout_at [''/'', ''h'']) True (ro_stat demo_rebuild_io) (Ok ()) (Ok ())
      (Some (demo_index_text @ [] @ [] @ [])) (Some d) = Ok s \<and> sr_current s"
    using rebuilt_is_current [OF r _ l refl refl] by (simp add: demo_rebuild_io_def)
  then obtain s where "verify_state demo_extern (home_layout_at [''/'', ''h'']) True (ro_stat demo_rebuild_io) (Ok ()) (Ok ())
      (Some (demo_index_text @ [] @ [] @ [])) (Some d) = Ok s \<and> sr_current s" by blast
  from current_index_is_the_log [OF r _ _ _ _ _ l disjI2 [OF this]] r show ?thesis
    by (simp add: demo_rebuild_io_def)
qed

section \<open>The live stream\<close>

text \<open>A line as the writer writes it, which the two readers read alike.\<close>

definition plainly_written :: "audit_codec \<Rightarrow> stream_codec \<Rightarrow> string \<Rightarrow> bool" where
  "plainly_written C SC l \<longleftrightarrow>
     sc_parse_json SC l = parse_json C l \<and>
     (case parse_json C l of
        Err _ \<Rightarrow> True
      | Ok v \<Rightarrow>
          (case parse_record C l of
             Err _ \<Rightarrow> True
           | Ok (DecisionRecord e) \<Rightarrow>
               (case entry_object e of JObject ms \<Rightarrow> list_all (\<lambda>(k, w). json_get v k = Some w) ms | _ \<Rightarrow> False)
           | Ok (EventRecord e) \<Rightarrow>
               get_str v ''id'' = Some (ev_id e) \<and> get_str v ''ts'' = Some (ev_ts e) \<and>
               sc_event_of_value SC (json_index v ''event'') = Ok (ev_event e)))"

lemma event_index_summary:
  "event_index_fields e = (k, subject, summary, detail) \<Longrightarrow> event_summary e = (summary, detail)"
  by (cases e) auto

lemma index_line_stream:
  assumes "index_line C n l = Ok r" "plainly_written C SC l"
  shows "stream_item_from_line SC n l = Ok (row_item r)"
proof -
  from assms(1) obtain v where v: "parse_json C l = Ok v" by (auto simp: index_line_def and_then_Ok_iff map_err_Ok_iff)
  have sc: "sc_parse_json SC l = Ok v" using assms(2) v by (simp add: plainly_written_def)
  show ?thesis
  proof (cases "get_str v ''kind'' = Some ''event''")
    case True
    with v assms(1) obtain e where e: "event_of_json C v = Ok e" "r = index_event n e l"
      by (auto simp: index_line_def get_str_def and_then_Ok_iff map_err_Ok_iff)
    with True v have "parse_record C l = Ok (EventRecord e)" by (simp add: parse_record_def get_str_def)
    with assms(2) v have "get_str v ''id'' = Some (ev_id e)" "get_str v ''ts'' = Some (ev_ts e)"
      "sc_event_of_value SC (json_index v ''event'') = Ok (ev_event e)" by (simp_all add: plainly_written_def)
    moreover obtain k subject summary detail where "event_index_fields (ev_event e) = (k, subject, summary, detail)"
      by (cases "event_index_fields (ev_event e)")
    ultimately show ?thesis using True sc
      by (simp add: stream_item_from_line_def event_item_def e(2) index_event_def row_item_def string_field_def
          unwrap_or_def event_index_summary)
  next
    case False
    with v assms(1) obtain e where e: "entry_of_json C v = Ok e" "r = index_decision n e l"
      by (auto simp: index_line_def get_str_def and_then_Ok_iff map_err_Ok_iff)
    with False v have "parse_record C l = Ok (DecisionRecord e)" by (simp add: parse_record_def get_str_def)
    with assms(2) v have "list_all (\<lambda>(k, w). json_get v k = Some w)
        (case entry_object e of JObject ms \<Rightarrow> ms | _ \<Rightarrow> [])" by (simp add: plainly_written_def entry_object_def)
    then have "stream_item_from_line SC n l = Ok (decision_item n (entry_object e))"
      using False sc
      by (simp add: stream_item_from_line_def entry_object_def decision_item_def Let_def string_field_def
          get_str_def json_index_def)
    moreover have "decision_item n (entry_object e) = row_item r"
      by (cases "ae_decision e")
        (simp_all add: e(2) decision_item_def Let_def string_field_def get_str_def json_index_def entry_object_def
          decision_json_def capabilities_json_def unwrap_or_def row_item_def index_decision_def decision_index_fields_def)
    ultimately show ?thesis by simp
  qed
qed

lemma index_lines_stream:
  "index_lines C i (map Ok ls) = Ok rs \<Longrightarrow> list_all (plainly_written C SC) ls \<Longrightarrow>
     items_of SC i ls = map row_item rs"
proof (induction ls arbitrary: i rs)
  case (Cons l ls)
  show ?case
  proof (cases "is_blank l")
    case True
    with Cons show ?thesis by simp
  next
    case False
    with Cons.prems obtain r rs' where r: "index_line C (i + 1) l = Ok r"
        "index_lines C (i + 1) (map Ok ls) = Ok rs'" "rs = r # rs'"
      by (auto simp: and_then_Ok_iff map_err_Ok_iff)
    with Cons False index_line_stream [OF r(1)] show ?thesis by simp
  qed
qed simp

text \<open>The live stream is the same whichever source it is read from: where the index holds the rows of a
  log whose lines are as the writer writes them, the items of a frame taken from the index are those taken
  from the log, whatever limit was asked for.\<close>

theorem index_shows_the_stream:
  assumes "read_indexed_records C None (Some t) = Ok (db_records d)"
    and "list_all (plainly_written C SC) (str_lines t)"
  shows "sn_items (load_stream_snapshot None (Some (load_recent_items d (clamp_limit limit))) skipped) =
    sn_items (load_stream_snapshot None None (recent_stream_items SC None None (Some t) (clamp_limit limit)))"
proof -
  let ?n = "clamp_limit limit" and ?rs = "db_records d"
  have n: "max ?n (Suc 0) = ?n" "min ?n 100 = ?n" by (auto simp: clamp_limit_def)
  from assms(1) have "sorted_wrt (<) (map ir_line ?rs)" by (auto dest: read_indexed_rows)
  then have "sort_key ir_line ?rs = ?rs" by (intro sort_key_id_if_sorted) (simp add: strict_sorted_iff)
  then have db: "load_recent_items d ?n = map row_item (drop (length ?rs - ?n) ?rs)"
    by (simp add: load_recent_items_def n take_rev rev_map)
  have items: "items_of SC 0 (str_lines t) = map row_item ?rs"
    using assms by (intro index_lines_stream) (simp_all add: read_indexed_records_def read_lines_def)
  have "recent_stream_items SC None None (Some t) ?n = Ok (map row_item (drop (length ?rs - ?n) ?rs))"
    by (simp add: recent_stream_items_def read_lines_def stream_lines_items items Let_def n(1) drop_map)
  with db show ?thesis by (simp add: load_stream_snapshot_def)
qed

lemma demo_index_row: "\<exists>row. read_indexed_records demo_index_codec None (Some demo_index_text) = Ok [row]"
proof -
  have "case read_indexed_records demo_index_codec None (Some demo_index_text) of Ok [row] \<Rightarrow> True | _ \<Rightarrow> False"
    by code_simp
  then show ?thesis by (auto split: sum.splits list.splits)
qed

lemma demo_plainly_written:
  "list_all (plainly_written demo_index_codec
     \<lparr>sc_parse_json = parse_json demo_index_codec, sc_event_of_value = (\<lambda>v. Ok (PictoConfirmed ''p''))\<rparr>)
     (str_lines demo_index_text)"
proof -
  have lines: "str_lines demo_index_text = [''{}'']" by code_simp
  show ?thesis
    unfolding lines
    by (simp add: plainly_written_def demo_index_codec_def parse_record_def get_str_def json_index_def
        demo_index_entry_def Let_def)
qed

theorem index_shows_the_stream_witness:
  "\<exists>d. load_recent_items d 1 \<noteq> [] \<and>
     sn_items (load_stream_snapshot None (Some (load_recent_items d (clamp_limit 5))) (Ok [])) =
     sn_items (load_stream_snapshot None None (recent_stream_items
       \<lparr>sc_parse_json = parse_json demo_index_codec, sc_event_of_value = (\<lambda>v. Ok (PictoConfirmed ''p''))\<rparr>
       None None (Some demo_index_text) (clamp_limit 5)))"
proof -
  obtain row where row: "read_indexed_records demo_index_codec None (Some demo_index_text) = Ok [row]"
    using demo_index_row by blast
  let ?d = "empty_state_db\<lparr>db_records := [row]\<rparr>"
  from index_shows_the_stream [OF _ demo_plainly_written, of ?d 5 "Ok []"] row
  have "sn_items (load_stream_snapshot None (Some (load_recent_items ?d (clamp_limit 5))) (Ok [])) =
     sn_items (load_stream_snapshot None None (recent_stream_items
       \<lparr>sc_parse_json = parse_json demo_index_codec, sc_event_of_value = (\<lambda>v. Ok (PictoConfirmed ''p''))\<rparr>
       None None (Some demo_index_text) (clamp_limit 5)))" by simp
  moreover have "load_recent_items ?d 1 \<noteq> []" by (simp add: load_recent_items_def)
  ultimately show ?thesis by blast
qed

end
