(* ===== verification/Explain.thy ===== *)
theory Explain
  imports Replay State_Index
begin

text \<open>
  Reading the audit log by hand (\<open>crates/gommage-cli/src/audit_cmd.rs\<close>): \<open>gommage audit-verify\<close>,
  \<open>gommage explain\<close> and the trace of a logged decision through the active policy. What a command prints
  is the list of its lines; a report printed as JSON is the report itself.
\<close>

section \<open>The trace of the rules\<close>

record rule_trace =
  tr_order :: nat
  tr_name :: string
  tr_file :: string
  tr_index :: nat
  tr_decision :: rule_decision
  tr_required_scope :: "string option"
  tr_hard_stop :: bool
  tr_reason :: string
  tr_matched :: bool
  tr_evaluated :: bool
  tr_outcome :: string

definition trace_rule :: "nat \<Rightarrow> rule \<Rightarrow> capability list \<Rightarrow> bool \<Rightarrow> nat option \<Rightarrow> rule_trace" where
  "trace_rule order r caps hard_stop winning_index =
     (let matched = matches (rule_match r) caps;
          evaluated = (\<not> hard_stop \<and> (case winning_index of None \<Rightarrow> True | Some winner \<Rightarrow> order \<le> winner));
          outcome =
            (if hard_stop then ''not_evaluated_hard_stop''
             else if winning_index = Some order then ''matched''
             else if evaluated then ''not_matched''
             else if matched then ''shadowed''
             else ''not_evaluated_after_match'')
      in \<lparr>tr_order = order, tr_name = rule_name r, tr_file = path_text (source_file r), tr_index = source_index r,
          tr_decision = rule_decision r, tr_required_scope = rule_required_scope r, tr_hard_stop = rule_hard_stop r,
          tr_reason = rule_reason r, tr_matched = matched, tr_evaluated = evaluated, tr_outcome = outcome\<rparr>)"

text \<open>\<open>position\<close>.\<close>

fun index_where :: "('a \<Rightarrow> bool) \<Rightarrow> 'a list \<Rightarrow> nat option" where
  "index_where P [] = None"
| "index_where P (x # xs) = (if P x then Some 0 else map_option Suc (index_where P xs))"

definition build_rule_trace :: "policy \<Rightarrow> capability list \<Rightarrow> bool \<Rightarrow> rule_trace list" where
  "build_rule_trace p caps hard_stop =
     (let winning_index =
        (if hard_stop then None else index_where (\<lambda>r. matches (rule_match r) caps) (policy_rules p))
      in map (\<lambda>(order, r). trace_rule order r caps hard_stop winning_index)
           (zip [0..<length (policy_rules p)] (policy_rules p)))"

section \<open>The report on a decision\<close>

text \<open>The members that the source copies from the entry are the entry.\<close>

record decision_trace =
  dt_entry :: audit_entry
  dt_active_policy_version :: string
  dt_active_decision :: decision
  dt_active_matched_rule :: "matched_rule option"
  dt_policy_version_matches :: bool
  dt_decision_matches :: bool
  dt_hard_stop :: "hard_stop_hit option"
  dt_rules :: "rule_trace list"
  dt_shadowed :: "rule_trace list"
  dt_fixture_hints :: "string list"

definition fixture_hints :: "home_layout \<Rightarrow> string list" where
  "fixture_hints L =
     [''original tool input is not stored in the audit log; use `gommage policy snapshot --name <case>` '' @
        ''with a captured ToolCall to create a fixture'',
      ''replay this audit log with `gommage replay --audit '' @ path_text (hl_audit_log L) @ '' --policy <dir> --json`'',
      ''compare candidate policy with `gommage policy diff --from '' @ path_text (hl_policy_dir L) @
        '' --to <dir> --against '' @ path_text (hl_audit_log L) @ '' --json`'']"

definition decision_trace_of ::
  "(string \<Rightarrow> string \<Rightarrow> bool) \<Rightarrow> home_layout \<Rightarrow> audit_entry \<Rightarrow> policy \<Rightarrow> eval_result \<Rightarrow> decision_trace" where
  "decision_trace_of is_match L entry p active =
     (let hard_stop = hardstop_check is_match (ae_capabilities entry);
          traced = build_rule_trace p (ae_capabilities entry) (hard_stop \<noteq> None)
      in \<lparr>dt_entry = entry, dt_active_policy_version = eval_policy_version active,
          dt_active_decision = eval_decision active, dt_active_matched_rule = eval_matched active,
          dt_policy_version_matches = (ae_policy_version entry = eval_policy_version active),
          dt_decision_matches = (ae_decision entry = eval_decision active),
          dt_hard_stop = hard_stop, dt_rules = traced,
          dt_shadowed = filter (\<lambda>t. tr_outcome t = ''shadowed'') traced, dt_fixture_hints = fixture_hints L\<rparr>)"

definition build_decision_trace_report ::
  "extern \<Rightarrow> runtime_lib \<Rightarrow> (string \<Rightarrow> string \<Rightarrow> bool) \<Rightarrow> env \<Rightarrow> fs \<Rightarrow> home_layout \<Rightarrow> audit_entry \<Rightarrow>
     (cli_error, decision_trace) result" where
  "build_decision_trace_report E RL is_match vars F L entry =
     and_then (map_err (\<lambda>e. CliText (error_text e)) (expedition_load (rl_expedition RL) F (hl_expedition_file L))) (\<lambda>ex.
       let env = (case ex of Some x \<Rightarrow> policy_env vars x | None \<Rightarrow> default_policy_env vars)
       in and_then (map_err (CliCore ''loading active policy for explain trace'')
                     (load_active_policy E (rl_policy RL) vars F L ex env)) (\<lambda>p.
          and_then (evaluated (evaluate is_match (ae_capabilities entry) p)) (\<lambda>active.
            Ok (decision_trace_of is_match L entry p active))))"

section \<open>What is printed\<close>

definition rule_decision_debug :: "rule_decision \<Rightarrow> string" where
  "rule_decision_debug d =
     (case d of RuleAllow \<Rightarrow> ''Allow'' | RuleGommage \<Rightarrow> ''Gommage'' | RuleAskPicto \<Rightarrow> ''AskPicto'')"

definition matched_line :: "string \<Rightarrow> matched_rule option \<Rightarrow> string" where
  "matched_line label m =
     (case m of
        None \<Rightarrow> label @ '': <none>''
      | Some r \<Rightarrow> label @ '': '' @ matched_name r @ '' ('' @ matched_file r @ '':'' @ dec_nat (matched_index r) @ '')'')"

definition expedition_lines :: "string option \<Rightarrow> string list" where
  "expedition_lines ex = (case ex of None \<Rightarrow> [] | Some x \<Rightarrow> [''expedition: '' @ x])"

definition trace_line :: "rule_trace \<Rightarrow> string" where
  "trace_line t =
     ''  - #'' @ dec_nat (tr_order t) @ '' '' @ tr_name t @ '' ['' @ tr_outcome t @ ''] matched='' @
     show_bool (tr_matched t) @ '' evaluated='' @ show_bool (tr_evaluated t) @ '' decision='' @
     rule_decision_debug (tr_decision t)"

definition decision_trace_lines :: "decision_trace \<Rightarrow> string list" where
  "decision_trace_lines r =
     (let entry = dt_entry r
      in [''audit_id: '' @ ae_id entry, ''timestamp: '' @ ae_ts entry, ''kind: decision'', ''tool: '' @ ae_tool entry,
          ''input_hash: '' @ ae_input_hash entry, ''input_available: false'',
          ''input_note: audit decision entries store input_hash and capabilities, not raw tool input'',
          ''audited_decision: '' @ decision_summary (ae_decision entry),
          ''audit_policy_version: '' @ ae_policy_version entry,
          ''active_policy_version: '' @ dt_active_policy_version r,
          ''policy_version_matches_audit: '' @ show_bool (dt_policy_version_matches r),
          ''active_decision: '' @ decision_summary (dt_active_decision r),
          ''decision_matches_audit: '' @ show_bool (dt_decision_matches r),
          matched_line ''audited_matched_rule'' (ae_matched_rule entry),
          matched_line ''active_matched_rule'' (dt_active_matched_rule r),
          (case dt_hard_stop r of
             None \<Rightarrow> ''hard_stop: none''
           | Some h \<Rightarrow> ''hard_stop: '' @ hit_name h @ '' pattern='' @ hit_pattern h @ '' capability='' @ hit_capability h)] @
         expedition_lines (ae_expedition entry) @
         ''capabilities:'' # map (\<lambda>c. ''  - '' @ c) (ae_capabilities entry) @
         ''rule_trace:'' # map trace_line (dt_rules r) @
         (if dt_shadowed r = [] then [''shadowed_rules: none'']
          else ''shadowed_rules:'' #
            map (\<lambda>t. ''  - #'' @ dec_nat (tr_order t) @ '' '' @ tr_name t @ '' ('' @ tr_file t @ '')'') (dt_shadowed r)) @
         ''fixture_hints:'' # map (\<lambda>h. ''  - '' @ h) (dt_fixture_hints r))"

text \<open>The compact JSON text of a decision and of an event is serde's.\<close>

record explain_lib =
  xl_codec :: audit_codec
  xl_decision_text :: "decision \<Rightarrow> (string, string) result"
  xl_event_text :: "audit_event \<Rightarrow> (string, string) result"

definition decision_explain_lines :: "explain_lib \<Rightarrow> audit_entry \<Rightarrow> (cli_error, string list) result" where
  "decision_explain_lines X entry =
     and_then (map_err CliText (xl_decision_text X (ae_decision entry))) (\<lambda>d. Ok
       ([''audit_id: '' @ ae_id entry, ''timestamp: '' @ ae_ts entry, ''kind: decision'', ''tool: '' @ ae_tool entry,
         ''input_hash: '' @ ae_input_hash entry, ''decision: '' @ d,
         matched_line ''matched_rule'' (ae_matched_rule entry), ''policy_version: '' @ ae_policy_version entry] @
        expedition_lines (ae_expedition entry) @
        ''capabilities:'' # map (\<lambda>c. ''  - '' @ c) (ae_capabilities entry)))"

definition event_explain_lines :: "explain_lib \<Rightarrow> audit_event_entry \<Rightarrow> (cli_error, string list) result" where
  "event_explain_lines X entry =
     and_then (map_err CliText (xl_event_text X (ev_event entry))) (\<lambda>t. Ok
       [''audit_id: '' @ ev_id entry, ''timestamp: '' @ ev_ts entry, ''kind: event'', ''event: '' @ t])"

definition format_anomaly :: "anomaly \<Rightarrow> string" where
  "format_anomaly a =
     (case a of
        MalformedEntry line e \<Rightarrow> ''line '' @ dec_nat line @ '': malformed_entry error='' @ e
      | BadSignatureAt line i \<Rightarrow> ''line '' @ dec_nat line @ '': bad_signature entry_id='' @ i
      | TimestampOutOfOrder line prev now \<Rightarrow>
          ''line '' @ dec_nat line @ '': timestamp_out_of_order previous_ts='' @ prev @ '' current_ts='' @ now
      | PolicyVersionChanged line from new \<Rightarrow>
          ''line '' @ dec_nat line @ '': policy_version_changed from='' @ from @ '' to='' @ new
      | HardStopBypassAttempt line tname reason \<Rightarrow>
          ''line '' @ dec_nat line @ '': hard_stop_bypass_attempt tool='' @ tname @ '' original_reason='' @ reason)"

definition string_list_lines :: "string \<Rightarrow> string list \<Rightarrow> string list" where
  "string_list_lines label values =
     (if values = [] then [label @ '': none''] else (label @ '':'') # map (\<lambda>v. ''  - '' @ v) values)"

definition verify_report_lines :: "verify_report \<Rightarrow> string list" where
  "verify_report_lines r =
     [''audit verification report'',
      ''status: '' @ (if vr_anomalies r = [] then ''ok'' else ''anomaly''),
      ''entries: '' @ dec_nat (vr_entries_total r) @ '' total, '' @ dec_nat (vr_entries_verified r) @ '' verified'',
      ''key_fingerprint: '' @ vr_key_fingerprint r,
      ''bypass_activations: '' @ dec_nat (vr_bypass_activations r),
      ''hard_stop_bypass_attempts: '' @ dec_nat (vr_hard_stop_bypass_attempts r)] @
     string_list_lines ''policy_versions'' (vr_policy_versions_seen r) @
     string_list_lines ''expeditions'' (vr_expeditions_seen r) @
     (if vr_anomalies r = [] then [''anomalies: none'']
      else ''anomalies:'' # map (\<lambda>a. ''  - '' @ format_anomaly a) (vr_anomalies r))"

section \<open>The commands\<close>

datatype printed =
    PrintedLines "string list"
  | PrintedValue json
  | PrintedVerification verify_report
  | PrintedDecisionTrace decision_trace
  | PrintedEventTrace audit_event_entry string

datatype explain_format = FormatJson | FormatHuman

definition cmd_audit_verify ::
  "extern \<Rightarrow> audit_codec \<Rightarrow> (string, string) result \<Rightarrow> string \<Rightarrow> read_fault \<Rightarrow> text_file \<Rightarrow> bool \<Rightarrow>
     explain_format option \<Rightarrow> bool \<Rightarrow> (cli_error, printed \<times> nat) result" where
  "cmd_audit_verify E C key missing fault f explain format json =
     (if json \<and> format = Some FormatHuman then Err (CliText ''--json cannot be combined with --format human'')
      else
        and_then (map_err (\<lambda>e. CliText (error_text e)) (load_verifying_key E key)) (\<lambda>vk.
          if explain
          then
            and_then (map_err (\<lambda>e. CliText (''explaining audit log: '' @ audit_error_text e))
                       (explain_log E C missing vk fault f)) (\<lambda>r. Ok
              (if json \<or> format \<noteq> Some FormatHuman then PrintedVerification r
               else PrintedLines (verify_report_lines r),
               if vr_anomalies r \<noteq> [] then 1 else 0))
          else
            and_then (map_err (\<lambda>e. CliText (''verifying audit log: '' @ audit_error_text e))
                       (verify_log E C missing vk fault f)) (\<lambda>n. Ok
              (PrintedLines [''ok '' @ dec_nat n @ '' entries verified''], 0))))"

text \<open>The loop of \<open>cmd_explain\<close>: the value of the first line with this \<open>id\<close>.\<close>

fun find_entry :: "audit_codec \<Rightarrow> string \<Rightarrow> (string, string) result list \<Rightarrow> (cli_error, json option) result" where
  "find_entry C i [] = Ok None"
| "find_entry C i (l # ls) =
     and_then (map_err CliText l) (\<lambda>line.
     and_then (map_err CliText (parse_json C line)) (\<lambda>value.
       if get_str value ''id'' \<noteq> Some i then find_entry C i ls else Ok (Some value)))"

definition trace_unavailable :: string where
  "trace_unavailable = ''policy traces are only available for audit decision entries''"

definition explain_value ::
  "explain_lib \<Rightarrow> (audit_entry \<Rightarrow> (cli_error, decision_trace) result) \<Rightarrow> bool \<Rightarrow> bool \<Rightarrow> json \<Rightarrow> (cli_error, printed) result" where
  "explain_value X report json trace value =
     (let is_event = (get_str value ''kind'' = Some ''event'')
      in if trace
         then
           (if is_event
            then and_then (map_err CliText (event_of_json (xl_codec X) value)) (\<lambda>entry.
                   if json then Ok (PrintedEventTrace entry trace_unavailable)
                   else and_then (event_explain_lines X entry) (\<lambda>ls.
                     Ok (PrintedLines (ls @ [''trace_available: false'', ''trace_reason: '' @ trace_unavailable]))))
            else and_then (map_err CliText (entry_of_json (xl_codec X) value)) (\<lambda>entry.
                 and_then (report entry) (\<lambda>r.
                   Ok (if json then PrintedDecisionTrace r else PrintedLines (decision_trace_lines r)))))
         else if json then Ok (PrintedValue value)
         else if is_event
         then and_then (map_err CliText (event_of_json (xl_codec X) value)) (\<lambda>entry.
              and_then (event_explain_lines X entry) (\<lambda>ls. Ok (PrintedLines ls)))
         else and_then (map_err CliText (entry_of_json (xl_codec X) value)) (\<lambda>entry.
              and_then (decision_explain_lines X entry) (\<lambda>ls. Ok (PrintedLines ls))))"

text \<open>An entry that is not there is named on the error output, with exit code 1.\<close>

definition cmd_explain ::
  "extern \<Rightarrow> explain_lib \<Rightarrow> runtime_lib \<Rightarrow> (string \<Rightarrow> string \<Rightarrow> bool) \<Rightarrow> env \<Rightarrow> fs \<Rightarrow> home_layout \<Rightarrow> string \<Rightarrow>
     read_fault \<Rightarrow> text_file \<Rightarrow> string \<Rightarrow> bool \<Rightarrow> bool \<Rightarrow> (cli_error, printed \<times> nat) result" where
  "cmd_explain E X RL is_match vars F L missing fault f i json trace =
     (case f of
        None \<Rightarrow> Err (CliText (''opening audit log: '' @ missing))
      | Some t \<Rightarrow>
          and_then (find_entry (xl_codec X) i (read_lines fault t)) (\<lambda>found.
            case found of
              None \<Rightarrow> Ok (PrintedLines [], 1)
            | Some value \<Rightarrow>
                and_then (explain_value X (build_decision_trace_report E RL is_match vars F L) json trace value)
                  (\<lambda>p. Ok (p, 0))))"

text \<open>\<open>gommage tail\<close> without \<open>--follow\<close>.\<close>

fun print_lines :: "(string, string) result list \<Rightarrow> string list \<times> (cli_error, unit) result" where
  "print_lines [] = ([], Ok ())"
| "print_lines (l # ls) =
     (case l of
        Err e \<Rightarrow> ([], Err (CliText e))
      | Ok line \<Rightarrow> (case print_lines ls of (out, res) \<Rightarrow> (line # out, res)))"

definition print_log :: "path \<Rightarrow> read_fault \<Rightarrow> text_file \<Rightarrow> string list \<times> (cli_error, unit) result" where
  "print_log p fault f =
     (case f of
        None \<Rightarrow> ([''(no audit log yet at '' @ path_text p @ '')''], Ok ())
      | Some t \<Rightarrow> print_lines (read_lines fault t))"

end
