(* ===== verification/Explain_Laws.thy ===== *)
theory Explain_Laws
  imports Explain Replay_Laws State_Laws
begin

text \<open>
  What the trace of a decision says: each rule is marked by what the evaluator did with it, and the rules
  marked as matched decide alone what the policy decides. What \<open>explain\<close> finds, and where it stops.
\<close>

section \<open>Positions\<close>

lemma index_where_None_iff: "index_where P xs = None \<longleftrightarrow> (\<forall>j < length xs. \<not> P (xs ! j))"
proof (induction xs)
  case (Cons x xs)
  then show ?case by (auto simp: less_Suc_eq_0_disj)
qed simp

lemma index_where_Some_iff:
  "index_where P xs = Some k \<longleftrightarrow> k < length xs \<and> P (xs ! k) \<and> (\<forall>j < k. \<not> P (xs ! j))"
proof (induction xs arbitrary: k)
  case (Cons x xs)
  show ?case
  proof (cases k)
    case 0
    then show ?thesis by auto
  next
    case (Suc m)
    with Cons.IH [of m] show ?thesis by (auto simp: less_Suc_eq_0_disj)
  qed
qed simp

lemma find_index_where:
  "find P xs = (case index_where P xs of None \<Rightarrow> None | Some k \<Rightarrow> Some (xs ! k))"
  by (induction xs) (auto split: option.splits)

lemma filter_position:
  "k < length xs \<Longrightarrow> filter (\<lambda>(i, x). i = m + k) (zip [m..<m + length xs] xs) = [(m + k, xs ! k)]"
proof (induction xs arbitrary: m k)
  case (Cons x xs)
  have zip: "zip [m..<m + length (x # xs)] (x # xs) = (m, x) # zip [Suc m..<Suc m + length xs] xs"
    by (simp add: upt_conv_Cons del: upt_Suc)
  show ?case
  proof (cases k)
    case 0
    have "filter (\<lambda>(i, x). i = m) (zip [Suc m..<Suc m + length xs] xs) = []"
      by (auto simp: filter_empty_conv dest: set_zip_leftD)
    with 0 show ?thesis unfolding zip by simp
  next
    case (Suc j)
    with Cons.IH [of j "Suc m"] Cons.prems show ?thesis unfolding zip by simp
  qed
qed simp

section \<open>The trace\<close>

definition rules_matched :: "(rule_trace \<times> rule) list \<Rightarrow> rule list" where
  "rules_matched trs = map snd (filter (\<lambda>(t, r). tr_outcome t = ''matched'') trs)"

lemma trace_outcome:
  "tr_outcome (trace_rule order r caps hs w) =
     (if hs then ''not_evaluated_hard_stop''
      else if w = Some order then ''matched''
      else if (case w of None \<Rightarrow> True | Some winner \<Rightarrow> order \<le> winner) then ''not_matched''
      else if matches (rule_match r) caps then ''shadowed'' else ''not_evaluated_after_match'')"
  by (simp add: trace_rule_def Let_def)

lemma build_rule_trace_nth:
  "i < length (policy_rules p) \<Longrightarrow>
     build_rule_trace p caps hs ! i = trace_rule i (policy_rules p ! i) caps hs
       (if hs then None else index_where (\<lambda>r. matches (rule_match r) caps) (policy_rules p))"
  by (simp add: build_rule_trace_def Let_def)

lemma build_rule_trace_length [simp]: "length (build_rule_trace p caps hs) = length (policy_rules p)"
  by (simp add: build_rule_trace_def)

lemma rules_matched_trace:
  "rules_matched (zip (build_rule_trace p caps hs) (policy_rules p)) =
     (case (if hs then None else index_where (\<lambda>r. matches (rule_match r) caps) (policy_rules p)) of
        None \<Rightarrow> [] | Some k \<Rightarrow> [policy_rules p ! k])"
proof -
  let ?rs = "policy_rules p"
  let ?w = "if hs then None else index_where (\<lambda>r. matches (rule_match r) caps) ?rs"
  have marked: "map snd (filter (\<lambda>(t, r). tr_outcome t = ''matched'')
      (zip (map (\<lambda>(order, r). trace_rule order r caps hs w) (zip is rs)) rs)) =
    map snd (filter (\<lambda>(i, r). w = Some i) (zip is rs))" if "length is = length rs" "hs \<Longrightarrow> w = None" for w "is" rs
    using that by (induction "is" rs rule: list_induct2) (auto simp: trace_outcome)
  have
    "rules_matched (zip (build_rule_trace p caps hs) ?rs) =
     map snd (filter (\<lambda>(i, r). ?w = Some i) (zip [0..<length ?rs] ?rs))"
    using marked [of "[0..<length ?rs]" ?rs ?w] by (simp add: rules_matched_def build_rule_trace_def Let_def)
  moreover have "filter (\<lambda>(i, r). ?w = Some i) (zip [0..<length ?rs] ?rs) =
      (case ?w of None \<Rightarrow> [] | Some k \<Rightarrow> [(k, ?rs ! k)])"
  proof (cases ?w)
    case None
    then show ?thesis by simp
  next
    case (Some k)
    then have "k < length ?rs" by (auto simp: index_where_Some_iff split: if_splits)
    then have "filter (\<lambda>(i, r). i = k) (zip [0..<length ?rs] ?rs) = [(k, ?rs ! k)]"
      using filter_position [of k ?rs 0] by simp
    moreover have "(\<lambda>(i, r::rule). ?w = Some i) = (\<lambda>(i, r). i = k)" using Some by auto
    ultimately show ?thesis using Some by simp
  qed
  ultimately show ?thesis by (simp split: option.split)
qed

section \<open>Properties\<close>

text \<open>C26. The trace of a logged decision explains what the active policy decides for its capabilities: each
  rule is marked by what became of it, hit by a hard stop, not matching, the first that matches, matching
  but shadowed by it, or not reached, and the policy made of the rules marked as matched alone decides as
  the whole policy does.\<close>

theorem rule_trace_explains_decision:
  assumes "evaluate is_match (ae_capabilities entry) p = Some active"
    and "rep = decision_trace_of is_match L entry p active"
    and "hit = (hardstop_check is_match (ae_capabilities entry) \<noteq> None)"
    and "holds = (\<lambda>j. matches (rule_match (policy_rules p ! j)) (ae_capabilities entry))"
  shows "length (dt_rules rep) = length (policy_rules p) \<and>
    evaluate is_match (ae_capabilities entry)
      (p\<lparr>policy_rules := rules_matched (zip (dt_rules rep) (policy_rules p))\<rparr>) = Some active \<and>
    (\<forall>i < length (policy_rules p).
      tr_outcome (dt_rules rep ! i) =
        (if hit then ''not_evaluated_hard_stop''
         else if \<exists>j < i. holds j then (if holds i then ''shadowed'' else ''not_evaluated_after_match'')
         else if holds i then ''matched'' else ''not_matched''))"
proof -
  let ?caps = "ae_capabilities entry" and ?rs = "policy_rules p"
  let ?w = "index_where (\<lambda>r. matches (rule_match r) ?caps) ?rs"
  have rules: "dt_rules rep = build_rule_trace p ?caps hit" by (simp add: assms(2,3) decision_trace_of_def Let_def)
  have "evaluate is_match ?caps (p\<lparr>policy_rules := rules_matched (zip (dt_rules rep) ?rs)\<rparr>) = Some active"
  proof (cases "hardstop_check is_match ?caps")
    case (Some h)
    with assms(1) show ?thesis by (simp add: evaluate_def)
  next
    case None
    then have m: "rules_matched (zip (dt_rules rep) ?rs) = (case ?w of None \<Rightarrow> [] | Some k \<Rightarrow> [?rs ! k])"
      using rules assms(3) by (simp add: rules_matched_trace)
    show ?thesis
    proof (cases ?w)
      case None
      with m \<open>hardstop_check _ _ = None\<close> assms(1) show ?thesis by (simp add: evaluate_def find_index_where)
    next
      case (Some k)
      then have "matches (rule_match (?rs ! k)) ?caps" by (simp add: index_where_Some_iff)
      with Some m \<open>hardstop_check _ _ = None\<close> assms(1) show ?thesis
        by (simp add: evaluate_def find_index_where rule_result_def)
    qed
  qed
  moreover have "tr_outcome (dt_rules rep ! i) =
        (if hit then ''not_evaluated_hard_stop''
         else if \<exists>j < i. holds j then (if holds i then ''shadowed'' else ''not_evaluated_after_match'')
         else if holds i then ''matched'' else ''not_matched'')" if i: "i < length ?rs" for i
  proof (cases ?w)
    case None
    then have "\<not> holds j" if "j < length ?rs" for j using that by (simp add: index_where_None_iff assms(4))
    with i have "\<not> holds i" "\<not> (\<exists>j < i. holds j)" by (meson less_trans)+
    with i None show ?thesis by (auto simp: rules build_rule_trace_nth trace_outcome)
  next
    case (Some k)
    then have k: "k < length ?rs" "holds k" "\<forall>j < k. \<not> holds j" by (simp_all add: index_where_Some_iff assms(4))
    have "(\<exists>j < i. holds j) \<longleftrightarrow> k < i"
    proof
      assume "\<exists>j < i. holds j"
      then obtain j where "j < i" "holds j" by blast
      with k(3) have "\<not> j < k" by blast
      with \<open>j < i\<close> show "k < i" by simp
    qed (use k(2) in blast)
    moreover have "\<not> k < i \<and> holds i \<longleftrightarrow> i = k" using k(2,3) by (auto simp: not_less le_eq_less_or_eq)
    ultimately show ?thesis using i Some
      by (cases "i = k") (auto simp: rules build_rule_trace_nth trace_outcome assms(4))
  qed
  ultimately show ?thesis by (simp add: rules)
qed

definition demo_two_rules :: policy where
  "demo_two_rules =
     (let m = \<lparr>any_capability = [\<lambda>c. True], all_capability = [], none_capability = []\<rparr>;
          r = \<lparr>rule_name = ''first'', rule_decision = RuleAllow, rule_hard_stop = False, rule_required_scope = None,
               rule_bind_input = False, rule_match = m, rule_reason = [], source_file = [''p''], source_index = 0\<rparr>
      in \<lparr>policy_rules = [r\<lparr>rule_match := m\<lparr>any_capability := [\<lambda>c. False]\<rparr>\<rparr>, r, r\<lparr>rule_decision := RuleGommage\<rparr>],
          policy_version = ''v''\<rparr>)"

theorem rule_trace_explains_decision_witness:
  "\<exists>active rep. evaluate (\<lambda>p t. False) [''fs.read:/x''] demo_two_rules = Some active \<and>
     rep = decision_trace_of (\<lambda>p t. False) (home_layout_at [''/'', ''h''])
       (demo_decision_entry\<lparr>ae_capabilities := [''fs.read:/x'']\<rparr>) demo_two_rules active \<and>
     tr_outcome (dt_rules rep ! 0) = ''not_matched'' \<and> tr_outcome (dt_rules rep ! 1) = ''matched'' \<and>
     tr_outcome (dt_rules rep ! 2) = ''shadowed''"
proof -
  let ?e = "demo_decision_entry\<lparr>ae_capabilities := [''fs.read:/x'']\<rparr>" and ?p = demo_two_rules
  have hs: "hardstop_check (\<lambda>p t. False) [''fs.read:/x''] = None" by code_simp
  then obtain active where a: "evaluate (\<lambda>p t. False) (ae_capabilities ?e) ?p = Some active"
    by (simp add: evaluate_def demo_two_rules_def Let_def matches_def rule_result_def decision_from_rule_def)
  let ?rep = "decision_trace_of (\<lambda>p t. False) (home_layout_at [''/'', ''h'']) ?e ?p active"
  have m: "length (policy_rules ?p) = 3" "matches (rule_match (policy_rules ?p ! 0)) [''fs.read:/x''] = False"
    "matches (rule_match (policy_rules ?p ! 1)) [''fs.read:/x''] = True"
    "matches (rule_match (policy_rules ?p ! 2)) [''fs.read:/x''] = True"
    by (simp_all add: demo_two_rules_def Let_def matches_def)
  note out = rule_trace_explains_decision [OF a refl refl refl, of "home_layout_at [''/'', ''h'']"]
  then have each: "i < 3 \<Longrightarrow> tr_outcome (dt_rules ?rep ! i) =
      (if \<exists>j < i. matches (rule_match (policy_rules ?p ! j)) [''fs.read:/x'']
       then (if matches (rule_match (policy_rules ?p ! i)) [''fs.read:/x''] then ''shadowed'' else ''not_evaluated_after_match'')
       else if matches (rule_match (policy_rules ?p ! i)) [''fs.read:/x''] then ''matched'' else ''not_matched'')" for i
    using m(1) hs by simp
  have "\<not> (\<exists>j < 1. matches (rule_match (policy_rules ?p ! j)) [''fs.read:/x''])"
    "\<exists>j < 2. matches (rule_match (policy_rules ?p ! j)) [''fs.read:/x'']"
    using m by (auto intro: exI [of _ 1])
  with each [of 0] each [of 1] each [of 2] m have "tr_outcome (dt_rules ?rep ! 0) = ''not_matched''"
      "tr_outcome (dt_rules ?rep ! 1) = ''matched''" "tr_outcome (dt_rules ?rep ! 2) = ''shadowed''" by simp_all
  with a show ?thesis by auto
qed

lemma found_in_Cons:
  "(\<exists>before l after. x # ls = before @ l # after \<and> list_all P before \<and> Q l) \<longleftrightarrow>
     Q x \<or> P x \<and> (\<exists>before l after. ls = before @ l # after \<and> list_all P before \<and> Q l)"
  (is "?found \<longleftrightarrow> ?here \<or> ?later")
proof
  assume ?found
  then obtain before l after where f: "x # ls = before @ l # after" "list_all P before" "Q l" by blast
  show "?here \<or> ?later"
  proof (cases before)
    case Nil
    with f show ?thesis by simp
  next
    case (Cons y rest)
    with f have "ls = rest @ l # after" "list_all P rest" "P x" by simp_all
    with f(3) show ?thesis by blast
  qed
next
  assume "?here \<or> ?later"
  then show ?found
  proof
    assume ?here
    then have "x # ls = [] @ x # ls \<and> list_all P [] \<and> Q x" by simp
    then show ?thesis by blast
  next
    assume ?later
    then obtain before l after where "ls = before @ l # after" "list_all P before" "Q l" "P x" by blast
    then have "x # ls = (x # before) @ l # after \<and> list_all P (x # before) \<and> Q l" by simp
    then show ?thesis by blast
  qed
qed

text \<open>C27. \<open>explain\<close> shows the first line of the log that carries the identifier, if every line before it is
  JSON; the first line that is not, a blank one as well, ends the command with its error, whatever comes
  after it; and it reports that there is no such entry only if every line was read.\<close>

theorem explain_finds_first:
  assumes "skips = (\<lambda>l. \<exists>w. parse_json C l = Ok w \<and> get_str w ''id'' \<noteq> Some i)"
  shows "(find_entry C i (map Ok ls) = Ok None \<longleftrightarrow> list_all skips ls) \<and>
    (\<forall>v. find_entry C i (map Ok ls) = Ok (Some v) \<longleftrightarrow>
      (\<exists>before l after. ls = before @ l # after \<and> list_all skips before \<and>
        (parse_json C l = Ok v \<and> get_str v ''id'' = Some i))) \<and>
    (\<forall>e. find_entry C i (map Ok ls) = Err (CliText e) \<longleftrightarrow>
      (\<exists>before l after. ls = before @ l # after \<and> list_all skips before \<and> parse_json C l = Err e))"
proof (induction ls)
  case (Cons x ls)
  note split = found_in_Cons [of x ls skips]
  show ?case
  proof (cases "parse_json C x")
    case (Inl e)
    then have "\<not> skips x" by (simp add: assms)
    with Inl show ?thesis unfolding split by simp
  next
    case (Inr w)
    show ?thesis
    proof (cases "get_str w ''id'' = Some i")
      case True
      with Inr have "\<not> skips x" by (simp add: assms)
      with Inr True show ?thesis unfolding split by auto
    next
      case False
      with Inr have "skips x" by (simp add: assms)
      have other: "(parse_json C x = Ok v \<and> get_str v ''id'' = Some i) = False" for v using Inr False by auto
      from \<open>skips x\<close> Inr False Cons.IH show ?thesis unfolding split other by simp
    qed
  qed
qed simp

text \<open>A blank line, which the verifier passes over, hides what comes after it.\<close>

theorem explain_finds_first_witness:
  "find_entry (demo_index_codec) ''i'' (map Ok [[], ''{}'']) = Err (CliText ''syntax'') \<and>
   (\<exists>v. find_entry (demo_index_codec) ''i'' (map Ok [''{}'', []]) = Ok (Some v))"
proof -
  let ?skips = "\<lambda>l. \<exists>w. parse_json demo_index_codec l = Ok w \<and> get_str w ''id'' \<noteq> Some ''i''"
  let ?v = "JObject [(''kind'', JString ''event''), (''id'', JString ''i''), (''ts'', JString ''t'')]"
  have v: "parse_json demo_index_codec ''{}'' = Ok ?v" "get_str ?v ''id'' = Some ''i''"
    "parse_json demo_index_codec [] = Err ''syntax''"
    by (simp_all add: demo_index_codec_def get_str_def)
  note found = explain_finds_first [OF refl, of demo_index_codec "''i''"]
  have "[[], ''{}''] = [] @ [] # [''{}''] \<and> list_all ?skips [] \<and> parse_json demo_index_codec [] = Err ''syntax''"
    using v(3) by simp
  then have "find_entry demo_index_codec ''i'' (map Ok [[], ''{}'']) = Err (CliText ''syntax'')"
    using found [of "[[], ''{}'']"] by blast
  moreover have "[''{}'', []] = [] @ ''{}'' # [[]] \<and> list_all ?skips [] \<and>
      (parse_json demo_index_codec ''{}'' = Ok ?v \<and> get_str ?v ''id'' = Some ''i'')"
    using v(1,2) by simp
  then have "find_entry demo_index_codec ''i'' (map Ok [''{}'', []]) = Ok (Some ?v)"
    using found [of "[''{}'', []]"] by blast
  ultimately show ?thesis by blast
qed

text \<open>An ask that the daemon recorded a request for is never shown as agreeing with the policy, not even with
  the policy that decided it.\<close>

theorem trace_disagrees_on_asks:
  assumes "evaluate (de_glob D) (map_call (rt_mapper (ds_rt s)) call) (rt_policy (ds_rt s)) = Some eval"
    and "eval_decision eval = AskPicto scope reason b"
    and "lookup_picto D (ri_now io) (ask_binding D call b) scope (rt_pictos (ds_rt s)) = LookupNone"
    and "decide_and_audit D io call s = (Ok res, s')"
    and "ae_capabilities entry = eval_capabilities res" and "ae_decision entry = eval_decision res"
    and "ae_policy_version entry = eval_policy_version res"
  shows "\<exists>ev. evaluate (de_glob D) (ae_capabilities entry) (rt_policy (ds_rt s)) = Some ev \<and>
    dt_policy_version_matches (decision_trace_of (de_glob D) L entry (rt_policy (ds_rt s)) ev) \<and>
    \<not> dt_decision_matches (decision_trace_of (de_glob D) L entry (rt_policy (ds_rt s)) ev)"
  using replay_flags_every_ask [OF assms] by (auto simp: replay_entry_of_def decision_trace_of_def Let_def)

end
