(* ===== verification/Stats.thy ===== *)
theory Stats
  imports Approval Audit_Stream
begin

text \<open>
  \<open>gommage stats\<close> (\<open>crates/gommage-cli/src/stats.rs\<close>): the counters of the audit log and of the inbox, the
  friction of each rule, the denials that repeat, and what follows from them. The lines of the log are an
  iterator, which may go on for ever: a reader that keeps failing gives an error each time it is asked, and
  the loop goes on after an error. A quotient is the pair of its terms.
\<close>

section \<open>Records\<close>

record audit_totals =
  at_audit_records :: nat
  at_decisions :: nat
  at_events :: nat
  at_allows :: nat
  at_asks :: nat
  at_denies :: nat
  at_hard_stops :: nat
  at_malformed :: nat
  at_null_tool :: nat
  at_null_decision :: nat
  at_unknown_decision :: nat

record approval_totals =
  apt_total :: nat
  apt_pending :: nat
  apt_approved :: nat
  apt_denied :: nat
  apt_stale_pending :: nat
  apt_rate :: "(nat \<times> nat) option"
  apt_average :: "(nat \<times> nat) option"
  apt_oldest_pending :: "nat option"
  apt_error :: "string option"

record rule_identity =
  rid_name :: string
  rid_file :: string

record rule_stats_builder =
  rsb_rule :: string
  rsb_file :: string
  rsb_total_asks :: nat
  rsb_window_asks :: nat
  rsb_required_scope :: "string option"
  rsb_last_seen :: "time option"
  rsb_requests :: nat
  rsb_pending :: nat
  rsb_approved :: nat
  rsb_denied :: nat
  rsb_resolution_seconds :: nat
  rsb_resolutions :: nat

record rule_stats =
  rst_rule :: string
  rst_file :: string
  rst_total_asks :: nat
  rst_window_asks :: nat
  rst_required_scope :: "string option"
  rst_last_seen :: "string option"
  rst_requests :: nat
  rst_pending :: nat
  rst_approved :: nat
  rst_denied :: nat
  rst_rate :: "(nat \<times> nat) option"
  rst_average :: "(nat \<times> nat) option"

record deny_loop_builder =
  dlb_tool :: string
  dlb_input_hash :: string
  dlb_rule :: string
  dlb_file :: string
  dlb_occurrences :: nat
  dlb_window :: nat
  dlb_hard_stop :: bool
  dlb_last_seen :: "time option"

record deny_loop =
  loop_tool :: string
  loop_input_hash :: string
  loop_rule :: string
  loop_file :: string
  loop_occurrences :: nat
  loop_window :: nat
  loop_hard_stop :: bool
  loop_last_seen :: "string option"

record reclassification =
  rc_rule :: string
  rc_file :: string
  rc_kind :: string
  rc_reason :: string

record watch_item =
  wi_severity :: string
  wi_kind :: string
  wi_message :: string
  wi_command :: "string option"

text \<open>What the loop over the log carries.\<close>

record audit_stats =
  as_totals :: audit_totals
  as_versions :: "(string, nat) btree"
  as_rules :: "(string, rule_stats_builder) btree"
  as_loops :: "(string, deny_loop_builder) btree"

definition zero_totals :: audit_totals where
  "zero_totals =
     \<lparr>at_audit_records = 0, at_decisions = 0, at_events = 0, at_allows = 0, at_asks = 0, at_denies = 0,
      at_hard_stops = 0, at_malformed = 0, at_null_tool = 0, at_null_decision = 0, at_unknown_decision = 0\<rparr>"

definition start_stats :: audit_stats where
  "start_stats = \<lparr>as_totals = zero_totals, as_versions = bt_empty, as_rules = bt_empty, as_loops = bt_empty\<rparr>"

section \<open>Identities, times, quotients\<close>

definition NUL_sep :: char where "NUL_sep = CHR 0x00"

definition identity_key :: "rule_identity \<Rightarrow> string" where
  "identity_key i = rid_file i @ [NUL_sep] @ rid_name i"

definition rule_identity_from_value :: "json \<Rightarrow> rule_identity" where
  "rule_identity_from_value value =
     (let matched = json_get value ''matched_rule'';
          member = (\<lambda>k. unwrap_or (case matched of None \<Rightarrow> None | Some m \<Rightarrow> get_str m k) ''<none>'')
      in \<lparr>rid_name = member ''name'', rid_file = member ''file''\<rparr>)"

definition rule_identity_from_approval :: "approval_state \<Rightarrow> rule_identity" where
  "rule_identity_from_approval state =
     (case req_matched_rule (ap_request state) of
        Some m \<Rightarrow> \<lparr>rid_name = matched_name m, rid_file = matched_file m\<rparr>
      | None \<Rightarrow> \<lparr>rid_name = ''<none>'', rid_file = ''<none>''\<rparr>)"

definition new_rule_stats :: "rule_identity \<Rightarrow> rule_stats_builder" where
  "new_rule_stats i =
     \<lparr>rsb_rule = rid_name i, rsb_file = rid_file i, rsb_total_asks = 0, rsb_window_asks = 0,
      rsb_required_scope = None, rsb_last_seen = None, rsb_requests = 0, rsb_pending = 0, rsb_approved = 0,
      rsb_denied = 0, rsb_resolution_seconds = 0, rsb_resolutions = 0\<rparr>"

definition max_time :: "time option \<Rightarrow> time option \<Rightarrow> time option" where
  "max_time a b =
     (case (a, b) of
        (Some x, Some y) \<Rightarrow> Some (max x y)
      | (None, Some y) \<Rightarrow> Some y
      | (x, None) \<Rightarrow> x)"

definition quotient :: "nat \<Rightarrow> nat \<Rightarrow> (nat \<times> nat) option" where
  "quotient n d = (if d = 0 then None else Some (n, d))"

section \<open>The audit log\<close>

definition count_schema_version :: "json \<Rightarrow> (string, nat) btree \<Rightarrow> (string, nat) btree" where
  "count_schema_version value versions =
     (let k = (case json_get value ''v'' of
                 Some (JNumber n) \<Rightarrow> number_to_string n
               | Some (JString s) \<Rightarrow> s
               | Some JNull \<Rightarrow> ''null''
               | Some _ \<Rightarrow> ''other''
               | None \<Rightarrow> ''missing'')
      in bt_modify k Suc (bt_or_insert k 0 versions))"

definition count_deny_loop ::
  "json \<Rightarrow> rule_identity \<Rightarrow> time option \<Rightarrow> bool \<Rightarrow> bool \<Rightarrow> (string, deny_loop_builder) btree \<Rightarrow>
     (string, deny_loop_builder) btree" where
  "count_deny_loop value identity ts in_window hard_stop loops =
     (let tname = unwrap_or (get_str value ''tool'') ''<unknown>'';
          hash = unwrap_or (get_str value ''input_hash'') ''<missing>'';
          k = tname @ [NUL_sep] @ hash @ [NUL_sep] @ identity_key identity
      in bt_modify k
           (\<lambda>b. b\<lparr>dlb_occurrences := dlb_occurrences b + 1,
                  dlb_window := dlb_window b + (if in_window then 1 else 0),
                  dlb_hard_stop := dlb_hard_stop b \<or> hard_stop,
                  dlb_last_seen := max_time (dlb_last_seen b) ts\<rparr>)
           (bt_or_insert k
             \<lparr>dlb_tool = tname, dlb_input_hash = hash, dlb_rule = rid_name identity, dlb_file = rid_file identity,
              dlb_occurrences = 0, dlb_window = 0, dlb_hard_stop = hard_stop, dlb_last_seen = None\<rparr> loops))"

definition count_ask ::
  "rule_identity \<Rightarrow> string option \<Rightarrow> time option \<Rightarrow> bool \<Rightarrow> (string, rule_stats_builder) btree \<Rightarrow>
     (string, rule_stats_builder) btree" where
  "count_ask identity scope ts in_window rules =
     bt_modify (identity_key identity)
       (\<lambda>b. b\<lparr>rsb_total_asks := rsb_total_asks b + 1,
              rsb_window_asks := rsb_window_asks b + (if in_window then 1 else 0),
              rsb_required_scope := (case rsb_required_scope b of None \<Rightarrow> scope | s \<Rightarrow> s),
              rsb_last_seen := max_time (rsb_last_seen b) ts\<rparr>)
       (bt_or_insert (identity_key identity) (new_rule_stats identity) rules)"

definition null_member :: "json \<Rightarrow> string \<Rightarrow> bool" where
  "null_member value k \<longleftrightarrow> (case json_get value k of None \<Rightarrow> True | Some v \<Rightarrow> v = JNull)"

definition count_decision ::
  "extern \<Rightarrow> time \<Rightarrow> json \<Rightarrow> audit_stats \<Rightarrow> audit_stats" where
  "count_decision E window_start value s =
     (let t = as_totals s;
          decision = json_index value ''decision'';
          ts = (case get_str value ''ts'' of None \<Rightarrow> None | Some x \<Rightarrow> rfc3339_parse E x);
          in_window = (case ts of None \<Rightarrow> False | Some x \<Rightarrow> window_start \<le> x);
          identity = rule_identity_from_value value;
          kind = get_str decision ''kind''
      in if kind = Some ''allow''
         then s\<lparr>as_totals := t\<lparr>at_decisions := at_decisions t + 1, at_allows := at_allows t + 1\<rparr>\<rparr>
         else if kind = Some ''ask_picto''
         then s\<lparr>as_totals := t\<lparr>at_decisions := at_decisions t + 1, at_asks := at_asks t + 1\<rparr>,
                as_rules := count_ask identity (get_str decision ''required_scope'') ts in_window (as_rules s)\<rparr>
         else if kind = Some ''gommage''
         then
           (let hard_stop =
              unwrap_or (case json_get decision ''hard_stop'' of None \<Rightarrow> None | Some b \<Rightarrow> as_bool b) False
            in s\<lparr>as_totals := t\<lparr>at_decisions := at_decisions t + 1, at_denies := at_denies t + 1,
                    at_hard_stops := at_hard_stops t + (if hard_stop then 1 else 0)\<rparr>,
                 as_loops := count_deny_loop value identity ts in_window hard_stop (as_loops s)\<rparr>)
         else s\<lparr>as_totals := t\<lparr>at_unknown_decision := at_unknown_decision t + 1\<rparr>\<rparr>)"

definition count_value :: "extern \<Rightarrow> time \<Rightarrow> json \<Rightarrow> audit_stats \<Rightarrow> audit_stats" where
  "count_value E window_start value s0 =
     (let s1 = s0\<lparr>as_totals := (as_totals s0)\<lparr>at_audit_records := at_audit_records (as_totals s0) + 1\<rparr>,
                  as_versions := count_schema_version value (as_versions s0)\<rparr>
      in if get_str value ''kind'' = Some ''event''
         then s1\<lparr>as_totals := (as_totals s1)\<lparr>at_events := at_events (as_totals s1) + 1\<rparr>\<rparr>
         else
           (let s2 = (if null_member value ''tool''
                      then s1\<lparr>as_totals := (as_totals s1)\<lparr>at_null_tool := at_null_tool (as_totals s1) + 1\<rparr>\<rparr>
                      else s1)
            in if null_member value ''decision''
               then s2\<lparr>as_totals := (as_totals s2)\<lparr>at_null_decision := at_null_decision (as_totals s2) + 1\<rparr>\<rparr>
               else count_decision E window_start value s2))"

definition count_malformed :: "audit_stats \<Rightarrow> audit_stats" where
  "count_malformed s = s\<lparr>as_totals := (as_totals s)\<lparr>at_malformed := at_malformed (as_totals s) + 1\<rparr>\<rparr>"

definition count_line ::
  "extern \<Rightarrow> (string \<Rightarrow> (string, json) result) \<Rightarrow> time \<Rightarrow> (string, string) result \<Rightarrow> audit_stats \<Rightarrow> audit_stats" where
  "count_line E parse window_start item s =
     (case item of
        Err _ \<Rightarrow> count_malformed s
      | Ok line \<Rightarrow>
          if is_blank line then s
          else (case parse line of Err _ \<Rightarrow> count_malformed s | Ok value \<Rightarrow> count_value E window_start value s))"

text \<open>\<open>it n\<close> is what the iterator gives when it is asked for the \<open>n\<close>-th time; \<open>None\<close> ends it.\<close>

type_synonym line_iterator = "nat \<Rightarrow> (string, string) result option"

partial_function (option) count_lines ::
  "extern \<Rightarrow> (string \<Rightarrow> (string, json) result) \<Rightarrow> time \<Rightarrow> line_iterator \<Rightarrow> nat \<Rightarrow> audit_stats \<Rightarrow> audit_stats option" where
  "count_lines E parse window_start it n s =
     (case it n of
        None \<Rightarrow> Some s
      | Some item \<Rightarrow> count_lines E parse window_start it (n + 1) (count_line E parse window_start item s))"

declare count_lines.simps [code]

text \<open>A log that cannot be opened has no records.\<close>

definition add_audit_stats ::
  "extern \<Rightarrow> (string \<Rightarrow> (string, json) result) \<Rightarrow> time \<Rightarrow> line_iterator option \<Rightarrow> audit_stats option" where
  "add_audit_stats E parse window_start opened =
     (case opened of
        None \<Rightarrow> Some start_stats
      | Some it \<Rightarrow> count_lines E parse window_start it 0 start_stats)"

section \<open>The inbox\<close>

definition STALE_PENDING_APPROVAL_HOURS :: nat where
  "STALE_PENDING_APPROVAL_HOURS = 24"

text \<open>The whole seconds of a duration that is not negative.\<close>

definition seconds_between :: "time \<Rightarrow> time \<Rightarrow> nat option" where
  "seconds_between earlier later =
     (let duration = later - earlier
      in if duration < 0 then None else Some (nat (duration div nanos_per_second)))"

definition pending_age_seconds :: "approval_state \<Rightarrow> time \<Rightarrow> nat option" where
  "pending_age_seconds state now =
     (if ap_status state \<noteq> Pending then None else seconds_between (req_created_at (ap_request state)) now)"

definition resolution_seconds :: "approval_state \<Rightarrow> nat option" where
  "resolution_seconds state =
     (case ap_resolution state of
        None \<Rightarrow> None
      | Some r \<Rightarrow> seconds_between (req_created_at (ap_request state)) (res_resolved_at r))"

definition zero_approvals :: approval_totals where
  "zero_approvals =
     \<lparr>apt_total = 0, apt_pending = 0, apt_approved = 0, apt_denied = 0, apt_stale_pending = 0, apt_rate = None,
      apt_average = None, apt_oldest_pending = None, apt_error = None\<rparr>"

definition count_pending :: "nat option \<Rightarrow> approval_totals \<Rightarrow> approval_totals" where
  "count_pending age t =
     (let t1 = t\<lparr>apt_pending := apt_pending t + 1\<rparr>
      in case age of
           None \<Rightarrow> t1
         | Some a \<Rightarrow>
             t1\<lparr>apt_oldest_pending := Some (case apt_oldest_pending t1 of None \<Rightarrow> a | Some b \<Rightarrow> max b a),
                apt_stale_pending := apt_stale_pending t1 +
                  (if STALE_PENDING_APPROVAL_HOURS * 60 * 60 \<le> a then 1 else 0)\<rparr>)"

definition count_request :: "approval_status \<Rightarrow> nat option \<Rightarrow> rule_stats_builder \<Rightarrow> rule_stats_builder" where
  "count_request status seconds b0 =
     (let b1 = b0\<lparr>rsb_requests := rsb_requests b0 + 1\<rparr>;
          b2 = (case status of
                  Pending \<Rightarrow> b1\<lparr>rsb_pending := rsb_pending b1 + 1\<rparr>
                | Approved \<Rightarrow> b1\<lparr>rsb_approved := rsb_approved b1 + 1\<rparr>
                | Denied \<Rightarrow> b1\<lparr>rsb_denied := rsb_denied b1 + 1\<rparr>)
      in case seconds of
           None \<Rightarrow> b2
         | Some n \<Rightarrow>
             b2\<lparr>rsb_resolution_seconds := rsb_resolution_seconds b2 + n, rsb_resolutions := rsb_resolutions b2 + 1\<rparr>)"

record inbox_stats =
  is_totals :: approval_totals
  is_rules :: "(string, rule_stats_builder) btree"
  is_seconds :: nat
  is_count :: nat

definition count_approval :: "time \<Rightarrow> inbox_stats \<Rightarrow> approval_state \<Rightarrow> inbox_stats" where
  "count_approval now s state =
     (let t = (is_totals s)\<lparr>apt_total := apt_total (is_totals s) + 1\<rparr>;
          t' = (case ap_status state of
                  Pending \<Rightarrow> count_pending (pending_age_seconds state now) t
                | Approved \<Rightarrow> t\<lparr>apt_approved := apt_approved t + 1\<rparr>
                | Denied \<Rightarrow> t\<lparr>apt_denied := apt_denied t + 1\<rparr>);
          identity = rule_identity_from_approval state;
          seconds = resolution_seconds state
      in \<lparr>is_totals = t',
          is_rules = bt_modify (identity_key identity) (count_request (ap_status state) seconds)
            (bt_or_insert (identity_key identity) (new_rule_stats identity) (is_rules s)),
          is_seconds = is_seconds s + unwrap_or seconds 0,
          is_count = is_count s + (if seconds = None then 0 else 1)\<rparr>)"

definition add_approval_stats ::
  "approval_record codec \<Rightarrow> read_fault \<Rightarrow> text_file \<Rightarrow> time \<Rightarrow> (string, rule_stats_builder) btree \<Rightarrow>
     approval_totals \<times> (string, rule_stats_builder) btree" where
  "add_approval_stats C fault f now rules =
     (case list_states C fault f of
        Err e \<Rightarrow> (zero_approvals\<lparr>apt_error := Some (error_text e)\<rparr>, rules)
      | Ok states \<Rightarrow>
          (let s = foldl (count_approval now)
                     \<lparr>is_totals = zero_approvals, is_rules = rules, is_seconds = 0, is_count = 0\<rparr> states;
               t = is_totals s
           in (t\<lparr>apt_rate := quotient (apt_approved t) (apt_approved t + apt_denied t),
                 apt_average := quotient (is_seconds s) (is_count s)\<rparr>, is_rules s)))"

section \<open>What follows\<close>

definition finish_rule :: "extern \<Rightarrow> rule_stats_builder \<Rightarrow> rule_stats" where
  "finish_rule E b =
     \<lparr>rst_rule = rsb_rule b, rst_file = rsb_file b, rst_total_asks = rsb_total_asks b,
      rst_window_asks = rsb_window_asks b, rst_required_scope = rsb_required_scope b,
      rst_last_seen = map_option (rfc3339_format E) (rsb_last_seen b), rst_requests = rsb_requests b,
      rst_pending = rsb_pending b, rst_approved = rsb_approved b, rst_denied = rsb_denied b,
      rst_rate = quotient (rsb_approved b) (rsb_approved b + rsb_denied b),
      rst_average = quotient (rsb_resolution_seconds b) (rsb_resolutions b)\<rparr>"

definition finish_loop :: "extern \<Rightarrow> deny_loop_builder \<Rightarrow> deny_loop" where
  "finish_loop E b =
     \<lparr>loop_tool = dlb_tool b, loop_input_hash = dlb_input_hash b, loop_rule = dlb_rule b, loop_file = dlb_file b,
      loop_occurrences = dlb_occurrences b, loop_window = dlb_window b, loop_hard_stop = dlb_hard_stop b,
      loop_last_seen = map_option (rfc3339_format E) (dlb_last_seen b)\<rparr>"

text \<open>\<open>sort_by\<close> is stable: sorting by the last key first gives the order of the three.\<close>

definition sort_rules :: "rule_stats list \<Rightarrow> rule_stats list" where
  "sort_rules rs =
     sort_key (\<lambda>r. - int (rst_window_asks r)) (sort_key (\<lambda>r. - int (rst_total_asks r)) (sort_key rst_rule rs))"

definition sort_loops :: "deny_loop list \<Rightarrow> deny_loop list" where
  "sort_loops ls =
     sort_key (\<lambda>l. - int (loop_window l)) (sort_key (\<lambda>l. - int (loop_occurrences l)) (sort_key loop_rule ls))"

definition deny_loops_of :: "extern \<Rightarrow> (string, deny_loop_builder) btree \<Rightarrow> deny_loop list" where
  "deny_loops_of E loops =
     sort_loops (map (finish_loop E) (filter (\<lambda>b. 1 < dlb_occurrences b) (bt_values loops)))"

definition HIGH_FRICTION_WINDOW_ASKS :: nat where
  "HIGH_FRICTION_WINDOW_ASKS = 10"

definition LARGE_PENDING_APPROVAL_BACKLOG :: nat where
  "LARGE_PENDING_APPROVAL_BACKLOG = 25"

definition candidate_rule :: "rule_stats \<Rightarrow> reclassification option" where
  "candidate_rule r =
     (let resolved = rst_approved r + rst_denied r;
          make = (\<lambda>kind reason. Some \<lparr>rc_rule = rst_rule r, rc_file = rst_file r, rc_kind = kind, rc_reason = reason\<rparr>)
      in if 3 \<le> rst_approved r \<and> rst_denied r = 0
         then make ''candidate_allow'' (dec_nat (rst_approved r) @
                '' approval(s), 0 denials; review whether this gate should become allow or narrower'')
         else if HIGH_FRICTION_WINDOW_ASKS \<le> rst_window_asks r
         then make ''high_friction_review'' (dec_nat (rst_window_asks r) @
                '' ask(s) in the last reporting window; review policy/docs posture'')
         else if 3 \<le> resolved \<and> 0 < rst_denied r
         then make ''keep_or_tighten'' (dec_nat (rst_approved r) @ '' approval(s), '' @ dec_nat (rst_denied r) @
                '' denial(s); this gate is making real distinctions'')
         else None)"

definition candidate_rules :: "rule_stats list \<Rightarrow> reclassification list" where
  "candidate_rules rules = concat (map (\<lambda>r. case candidate_rule r of None \<Rightarrow> [] | Some c \<Rightarrow> [c]) rules)"

definition hygiene_item :: "audit_totals \<Rightarrow> watch_item list" where
  "hygiene_item t =
     (if 0 < at_malformed t \<or> 0 < at_null_tool t \<or> 0 < at_null_decision t \<or> 0 < at_unknown_decision t
      then [\<lparr>wi_severity = ''action'', wi_kind = ''audit_hygiene'',
             wi_message = ''audit log contains '' @ dec_nat (at_malformed t) @ '' malformed, '' @
               dec_nat (at_null_tool t) @ '' null-tool, '' @ dec_nat (at_null_decision t) @ '' null-decision, and '' @
               dec_nat (at_unknown_decision t) @
               '' unknown-decision record(s); verify the signed log before trusting derived metrics'',
             wi_command = Some ''gommage audit-verify --explain''\<rparr>]
      else [])"

definition approval_item :: "approval_totals \<Rightarrow> watch_item list" where
  "approval_item a =
     (if 0 < apt_stale_pending a
      then [\<lparr>wi_severity = ''review'', wi_kind = ''stale_approvals'',
             wi_message = dec_nat (apt_stale_pending a) @ '' pending approval request(s) are older than '' @
               dec_nat STALE_PENDING_APPROVAL_HOURS @
               '' hours; stale asks should be denied or re-requested so current work is visible'',
             wi_command = Some ''gommage approval deny-stale --older-than 24h --json''\<rparr>]
      else if LARGE_PENDING_APPROVAL_BACKLOG \<le> apt_pending a
      then [\<lparr>wi_severity = ''review'', wi_kind = ''approval_backlog'',
             wi_message = dec_nat (apt_pending a) @
               '' approval request(s) are pending; clear old requests so real current prompts do not get buried'',
             wi_command = Some ''gommage approval list --status all --json''\<rparr>]
      else [])"

definition loop_item :: "deny_loop list \<Rightarrow> watch_item list" where
  "loop_item ls =
     (case find loop_hard_stop ls of
        Some l \<Rightarrow>
          [\<lparr>wi_severity = ''action'', wi_kind = ''hard_stop_loop'',
            wi_message = ''hard-stop loop detected for '' @ loop_tool l @ '' via '' @ loop_rule l @
              ''; repeated hard-stops usually mean an agent is retrying an operation that cannot be approved'',
            wi_command = Some ''gommage stats --json''\<rparr>]
      | None \<Rightarrow>
          (case ls of
             [] \<Rightarrow> []
           | l # _ \<Rightarrow>
               [\<lparr>wi_severity = ''review'', wi_kind = ''deny_loop'',
                 wi_message = ''repeated deny loop detected for '' @ loop_tool l @ '' via '' @ loop_rule l @
                   ''; inspect the command pattern or add safer workflow guidance'',
                 wi_command = Some ''gommage stats --json''\<rparr>]))"

definition candidate_item :: "string \<Rightarrow> reclassification \<Rightarrow> watch_item" where
  "candidate_item audit_log c =
     \<lparr>wi_severity =
        (if rc_kind c \<in> {''keep_or_tighten'', ''high_friction_review'', ''candidate_allow''} then ''review'' else ''info''),
      wi_kind = rc_kind c, wi_message = rc_rule c @ '': '' @ rc_reason c,
      wi_command =
        Some (if rc_kind c = ''candidate_allow'' then ''gommage policy suggest --audit '' @ audit_log @ '' --json''
              else ''gommage stats --json'')\<rparr>"

definition build_watchlist ::
  "string \<Rightarrow> audit_totals \<Rightarrow> approval_totals \<Rightarrow> rule_stats list \<Rightarrow> deny_loop list \<Rightarrow> reclassification list \<Rightarrow>
     watch_item list" where
  "build_watchlist audit_log totals approvals asks loops candidates =
     (let items = hygiene_item totals @ approval_item approvals @ loop_item loops @
            map (candidate_item audit_log) candidates
      in if items = [] \<and> asks = [] \<and> loops = []
         then [\<lparr>wi_severity = ''info'', wi_kind = ''quiet_window'',
                wi_message = ''no ask-picto friction or deny loops were observed in this reporting window'',
                wi_command = None\<rparr>]
         else items)"

section \<open>The report\<close>

record stats_report =
  sp_generated_at :: string
  sp_window_days :: nat
  sp_audit_log :: string
  sp_approvals_log :: string
  sp_totals :: audit_totals
  sp_approvals :: approval_totals
  sp_asks :: "rule_stats list"
  sp_loops :: "deny_loop list"
  sp_candidates :: "reclassification list"
  sp_watchlist :: "watch_item list"
  sp_versions :: "(string, nat) btree"

datatype stats_outcome =
    StatsPanic
  | StatsHangs
  | StatsReport stats_report

text \<open>The subtraction of the window panics where the result is no time.\<close>

definition build_stats_report ::
  "extern \<Rightarrow> (string \<Rightarrow> (string, json) result) \<Rightarrow> approval_record codec \<Rightarrow> time \<Rightarrow> string \<Rightarrow> line_iterator option \<Rightarrow>
     string \<Rightarrow> read_fault \<Rightarrow> text_file \<Rightarrow> nat \<Rightarrow> stats_outcome" where
  "build_stats_report E parse C now audit_log opened approvals_log fault inbox window_days =
     (let window_start = now - of_seconds (int window_days * 86400)
      in if \<not> timestamp_in_range E (unix_timestamp window_start) then StatsPanic
         else
           (case add_audit_stats E parse window_start opened of
              None \<Rightarrow> StatsHangs
            | Some s \<Rightarrow>
                (case add_approval_stats C fault inbox now (as_rules s) of
                   (approvals, rules) \<Rightarrow>
                     (let asks = sort_rules (map (finish_rule E) (bt_values rules));
                          loops = deny_loops_of E (as_loops s);
                          candidates = candidate_rules asks
                      in StatsReport
                           \<lparr>sp_generated_at = rfc3339_format E now, sp_window_days = window_days,
                            sp_audit_log = audit_log, sp_approvals_log = approvals_log, sp_totals = as_totals s,
                            sp_approvals = approvals, sp_asks = asks, sp_loops = loops,
                            sp_candidates = candidates,
                            sp_watchlist = build_watchlist audit_log (as_totals s) approvals asks loops candidates,
                            sp_versions = as_versions s\<rparr>))))"

text \<open>A window of no days is one of one day.\<close>

definition cmd_stats ::
  "extern \<Rightarrow> (string \<Rightarrow> (string, json) result) \<Rightarrow> approval_record codec \<Rightarrow> time \<Rightarrow> string \<Rightarrow> line_iterator option \<Rightarrow>
     string \<Rightarrow> read_fault \<Rightarrow> text_file \<Rightarrow> 32 word \<Rightarrow> stats_outcome" where
  "cmd_stats E parse C now audit_log opened approvals_log fault inbox window_days =
     build_stats_report E parse C now audit_log opened approvals_log fault inbox (max (unat window_days) 1)"

section \<open>What is printed\<close>

definition rule_line :: "rule_stats \<Rightarrow> string" where
  "rule_line r =
     ''  '' @ rst_rule r @ '' total='' @ dec_nat (rst_total_asks r) @ '' window='' @ dec_nat (rst_window_asks r) @
     '' approvals='' @ dec_nat (rst_approved r) @ ''/'' @ dec_nat (rst_requests r) @ '' pending='' @
     dec_nat (rst_pending r)"

definition watch_line :: "watch_item \<Rightarrow> string" where
  "watch_line w =
     ''  '' @ wi_severity w @ '' '' @ wi_kind w @ '': '' @ wi_message w @
     (case wi_command w of None \<Rightarrow> [] | Some c \<Rightarrow> '' ('' @ c @ '')'')"

definition titled_lines :: "string \<Rightarrow> string list \<Rightarrow> string list" where
  "titled_lines title ls = (if ls = [] then [] else title # ls)"

definition human_report_lines :: "stats_report \<Rightarrow> string list" where
  "human_report_lines r =
     (let t = sp_totals r; a = sp_approvals r
      in [''gommage stats ('' @ sp_generated_at r @ '')'',
          ''audit: '' @ dec_nat (at_audit_records t) @ '' records, '' @ dec_nat (at_decisions t) @ '' decisions, '' @
            dec_nat (at_malformed t) @ '' malformed, '' @ dec_nat (at_null_tool t) @ '' null tool, '' @
            dec_nat (at_null_decision t) @ '' null decision'',
          ''decisions: '' @ dec_nat (at_allows t) @ '' allow, '' @ dec_nat (at_asks t) @ '' ask, '' @
            dec_nat (at_denies t) @ '' deny, '' @ dec_nat (at_hard_stops t) @ '' hard-stop'',
          ''approvals: '' @ dec_nat (apt_total a) @ '' total, '' @ dec_nat (apt_pending a) @ '' pending ('' @
            dec_nat (apt_stale_pending a) @ '' stale), '' @ dec_nat (apt_approved a) @ '' approved, '' @
            dec_nat (apt_denied a) @ '' denied''] @
         (if sp_asks r = [] then [''asks by rule: none''] else ''asks by rule:'' # map rule_line (sp_asks r)) @
         titled_lines ''deny loops:''
           (map (\<lambda>l. ''  '' @ loop_tool l @ '' '' @ loop_rule l @ '' occurrences='' @ dec_nat (loop_occurrences l) @
              '' window='' @ dec_nat (loop_window l)) (sp_loops r)) @
         titled_lines ''reclassification candidates:''
           (map (\<lambda>c. ''  '' @ rc_rule c @ '' ['' @ rc_kind c @ ''] '' @ rc_reason c) (sp_candidates r)) @
         titled_lines ''watchlist:'' (map watch_line (sp_watchlist r)))"

end
