(* ===== verification/Stats_Laws.thy ===== *)
theory Stats_Laws
  imports Stats State_Laws
begin

text \<open>
  What the statistics are worth: the counters add up and are those of the entries counted, they are the
  counters of the index where there is one, and the command ends exactly when the lines of the log do.
\<close>

section \<open>Counting in a map\<close>

definition bt_sum :: "('v \<Rightarrow> nat) \<Rightarrow> ('k, 'v) btree \<Rightarrow> nat" where
  "bt_sum g m = sum_list (map g (bt_values m))"

lemma bt_get_less: "bt_wf ((k', v) # m) \<Longrightarrow> k < k' \<Longrightarrow> bt_get ((k', v) # m) k = None"
  by (auto simp: bt_wf_def bt_get_def map_of_eq_None_iff)

lemma bt_sum_insert:
  "bt_wf m \<Longrightarrow> bt_sum g (bt_insert k v m) + (case bt_get m k of None \<Rightarrow> 0 | Some x \<Rightarrow> g x) = g v + bt_sum g m"
proof (induction k v m rule: bt_insert.induct)
  case (1 k v)
  then show ?case by (simp add: bt_sum_def bt_values_def bt_get_def)
next
  case (2 k v k' v' m)
  then have wf: "bt_wf m" by (simp add: bt_wf_def)
  consider "k < k'" | "k = k'" | "k' < k" by fastforce
  then show ?case
  proof cases
    case 1
    with bt_get_less [OF 2(2)] show ?thesis by (simp add: bt_sum_def bt_values_def)
  next
    case 2
    then show ?thesis by (simp add: bt_sum_def bt_values_def bt_get_def)
  next
    case 3
    with 2(1) [OF _ _ wf] have "bt_sum g (bt_insert k v m) + (case bt_get m k of None \<Rightarrow> 0 | Some x \<Rightarrow> g x) = g v + bt_sum g m"
      by auto
    with 3 have "\<not> k < k'" "k \<noteq> k'" by auto
    with \<open>bt_sum g (bt_insert k v m) + _ = _\<close> show ?thesis by (simp add: bt_sum_def bt_values_def bt_get_def)
  qed
qed

text \<open>An entry is made where there is none, then counted.\<close>

lemma bt_sum_count:
  assumes "bt_wf m" and "g d = 0" and "\<And>b. g (f b) = g b + n"
  shows "bt_sum g (bt_modify k f (bt_or_insert k d m)) = bt_sum g m + n"
proof (cases "bt_get m k")
  case None
  let ?m = "bt_insert k d m"
  have wf: "bt_wf ?m" and get: "bt_get ?m k = Some d" using assms(1) by (simp_all add: bt_laws)
  from None bt_sum_insert [OF assms(1), of g k d] have "bt_sum g ?m = bt_sum g m" by (simp add: assms(2))
  moreover from bt_sum_insert [OF wf, of g k "f d"] get have "bt_sum g (bt_insert k (f d) ?m) + g d = g (f d) + bt_sum g ?m"
    by simp
  ultimately show ?thesis using None get by (simp add: bt_or_insert_def bt_modify_def assms)
next
  case (Some b)
  with bt_sum_insert [OF assms(1), of g k "f b"] show ?thesis
    by (simp add: bt_or_insert_def bt_modify_def assms)
qed

lemma bt_values_insert: "set (bt_values (bt_insert k v m)) \<subseteq> insert v (set (bt_values m))"
  by (induction k v m rule: bt_insert.induct) (auto simp: bt_values_def)

lemma bt_all_count:
  assumes "\<forall>b \<in> set (bt_values m). P b" and "\<And>b. P b \<or> b = d \<Longrightarrow> P (f b)"
  shows "\<forall>b \<in> set (bt_values (bt_modify k f (bt_or_insert k d m))). P b"
proof (cases "bt_get m k")
  case None
  let ?m = "bt_insert k d m"
  have "set (bt_values (bt_insert k x ?m)) \<subseteq> insert x (set (bt_values ?m))" for x by (rule bt_values_insert)
  have get: "bt_get ?m k = Some d" by (induction k d m rule: bt_insert.induct) (auto simp: bt_get_def)
  have drop: "set (bt_values (bt_insert k x (bt_insert k d m))) \<subseteq> insert x (set (bt_values m))" for x
    by (induction k d m rule: bt_insert.induct) (auto simp: bt_values_def)
  with None get assms show ?thesis by (auto simp: bt_or_insert_def bt_modify_def)
next
  case (Some b)
  then have "b \<in> set (bt_values m)" by (auto simp: bt_get_def bt_values_def dest: map_of_SomeD intro: rev_image_eqI)
  with Some assms bt_values_insert [of k "f b" m] show ?thesis by (auto simp: bt_or_insert_def bt_modify_def)
qed

lemma bt_wf_count: "bt_wf m \<Longrightarrow> bt_wf (bt_modify k f (bt_or_insert k d m))"
  by (simp add: bt_wf_modify bt_wf_or_insert)

section \<open>The invariant of the loop\<close>

definition totals_ok :: "audit_totals \<Rightarrow> bool" where
  "totals_ok t \<longleftrightarrow>
     at_audit_records t = at_events t + at_null_decision t + at_decisions t + at_unknown_decision t \<and>
     at_decisions t = at_allows t + at_asks t + at_denies t \<and> at_hard_stops t \<le> at_denies t"

definition stats_ok :: "audit_stats \<Rightarrow> bool" where
  "stats_ok s \<longleftrightarrow>
     totals_ok (as_totals s) \<and> bt_wf (as_versions s) \<and> bt_wf (as_rules s) \<and> bt_wf (as_loops s) \<and>
     bt_sum (\<lambda>n. n) (as_versions s) = at_audit_records (as_totals s) \<and>
     bt_sum rsb_total_asks (as_rules s) = at_asks (as_totals s) \<and>
     bt_sum rsb_requests (as_rules s) = 0 \<and>
     bt_sum dlb_occurrences (as_loops s) = at_denies (as_totals s) \<and>
     (\<forall>b \<in> set (bt_values (as_rules s)). rsb_window_asks b \<le> rsb_total_asks b) \<and>
     (\<forall>b \<in> set (bt_values (as_loops s)). dlb_window b \<le> dlb_occurrences b)"

lemma start_stats_ok: "stats_ok start_stats"
  by (simp add: stats_ok_def totals_ok_def start_stats_def zero_totals_def bt_sum_def bt_values_def bt_empty_def bt_wf_def)

lemma count_version_laws:
  assumes "bt_wf m"
  shows "bt_wf (count_schema_version value m)"
    "bt_sum (\<lambda>n. n) (count_schema_version value m) = bt_sum (\<lambda>n. n) m + 1"
  unfolding count_schema_version_def Let_def
  by (rule bt_wf_count [OF assms], rule bt_sum_count) (use assms in simp_all)

lemma count_ask_laws:
  assumes "bt_wf m"
  shows "bt_wf (count_ask i scope ts w m)"
    "bt_sum rsb_total_asks (count_ask i scope ts w m) = bt_sum rsb_total_asks m + 1"
    "bt_sum rsb_requests (count_ask i scope ts w m) = bt_sum rsb_requests m"
    "(\<forall>b \<in> set (bt_values m). rsb_window_asks b \<le> rsb_total_asks b) \<Longrightarrow>
     \<forall>b \<in> set (bt_values (count_ask i scope ts w m)). rsb_window_asks b \<le> rsb_total_asks b"
  unfolding count_ask_def
     apply (rule bt_wf_count [OF assms])
    apply (rule bt_sum_count; use assms in \<open>simp add: new_rule_stats_def\<close>)
   apply (rule bt_sum_count [where n = 0, simplified]; use assms in \<open>simp add: new_rule_stats_def\<close>)
  apply (rule bt_all_count; auto simp: new_rule_stats_def)
  done

lemma count_deny_laws:
  assumes "bt_wf m"
  shows "bt_wf (count_deny_loop value i ts w h m)"
    "bt_sum dlb_occurrences (count_deny_loop value i ts w h m) = bt_sum dlb_occurrences m + 1"
    "(\<forall>b \<in> set (bt_values m). dlb_window b \<le> dlb_occurrences b) \<Longrightarrow>
     \<forall>b \<in> set (bt_values (count_deny_loop value i ts w h m)). dlb_window b \<le> dlb_occurrences b"
  unfolding count_deny_loop_def Let_def
    apply (rule bt_wf_count [OF assms])
   apply (rule bt_sum_count; use assms in simp)
  apply (rule bt_all_count; auto)
  done

lemma count_value_ok:
  assumes "stats_ok s"
  shows "stats_ok (count_value E w value s)"
proof -
  from assms have ok: "bt_wf (as_versions s)" "bt_wf (as_rules s)" "bt_wf (as_loops s)"
    and rules: "\<forall>b \<in> set (bt_values (as_rules s)). rsb_window_asks b \<le> rsb_total_asks b"
    and loops: "\<forall>b \<in> set (bt_values (as_loops s)). dlb_window b \<le> dlb_occurrences b"
    by (simp_all add: stats_ok_def)
  note laws = count_version_laws [OF ok(1)] count_ask_laws(1-3) [OF ok(2)] count_ask_laws(4) [OF ok(2) rules]
    count_deny_laws(1,2) [OF ok(3)] count_deny_laws(3) [OF ok(3) loops]
  from assms show ?thesis
    by (simp add: count_value_def count_decision_def stats_ok_def totals_ok_def Let_def laws)
qed

lemma count_line_ok: "stats_ok s \<Longrightarrow> stats_ok (count_line E parse w item s)"
  by (simp add: count_line_def count_value_ok split: sum.split) (simp add: stats_ok_def totals_ok_def count_malformed_def)

lemma count_items_ok: "stats_ok s \<Longrightarrow> stats_ok (foldl (\<lambda>s item. count_line E parse w item s) s items)"
  by (induction items arbitrary: s) (simp_all add: count_line_ok)

section \<open>The loop ends when the lines end\<close>

lemma count_lines_run:
  assumes "it (n + length items) = None" and "\<forall>i < length items. it (n + i) = Some (items ! i)"
  shows "count_lines E parse w it n s = Some (foldl (\<lambda>s item. count_line E parse w item s) s items)"
  using assms
proof (induction items arbitrary: n s)
  case Nil
  then show ?case by (simp add: count_lines.simps)
next
  case (Cons x xs)
  have "it n = Some x" using Cons.prems(2) by force
  moreover have "\<forall>i < length xs. it (n + 1 + i) = Some (xs ! i)"
    using Cons.prems(2) by (metis Suc_less_eq add.assoc length_Cons nth_Cons_Suc plus_1_eq_Suc)
  ultimately show ?case using Cons.IH [of "n + 1"] Cons.prems(1) by (subst count_lines.simps) simp
qed

lemma count_lines_ends:
  assumes "count_lines E parse w it n s = Some r"
  shows "\<exists>m \<ge> n. it m = None"
proof (rule count_lines.raw_induct [where P = "\<lambda>E parse w it n s r. \<exists>m \<ge> n. it m = None", OF _ assms])
  fix f E parse w n s r and it :: line_iterator
  assume IH: "\<And>E parse w it n s r. f E parse w it n s = Some r \<Longrightarrow> \<exists>m \<ge> n. it m = None"
    and step: "(case it n of None \<Rightarrow> Some s
      | Some item \<Rightarrow> f E parse w it (n + 1) (count_line E parse w item s)) = Some r"
  show "\<exists>m \<ge> n. it m = None"
  proof (cases "it n")
    case None
    then show ?thesis by blast
  next
    case (Some item)
    with step have "f E parse w it (n + 1) (count_line E parse w item s) = Some r" by simp
    from IH [OF this] show ?thesis by (meson add_leD1)
  qed
qed

lemma first_end:
  fixes "it" :: line_iterator
  assumes "it m = None"
  obtains items where "it (length items) = None" "\<forall>i < length items. it i = Some (items ! i)"
proof -
  define k where "k = (LEAST n. it n = None)"
  have "it k = None" unfolding k_def using assms by (rule LeastI)
  have all: "it i \<noteq> None" if "i < k" for i using not_less_Least that unfolding k_def by blast
  let ?items = "map (\<lambda>i. the (it i)) [0..<k]"
  show thesis
  proof (rule that [of ?items])
    show "it (length ?items) = None" using \<open>it k = None\<close> by simp
    show "\<forall>i < length ?items. it i = Some (?items ! i)" using all by auto
  qed
qed

section \<open>Properties\<close>

text \<open>C23. \<open>stats\<close> reads the log to its end or never returns: it returns exactly when the lines end, and then
  the counters add up: every record is an event, a decision or a record without one, every decision is
  counted once by kind, every ask by its rule, every denial by its call and rule, every record by its
  schema version. A reader that fails each time it is asked keeps the command busy for ever.\<close>

theorem stats_end_and_add_up:
  "(add_audit_stats E parse w (Some it) \<noteq> None \<longleftrightarrow> (\<exists>n. it n = None)) \<and>
   (\<forall>s. add_audit_stats E parse w (Some it) = Some s \<longrightarrow> stats_ok s)"
proof -
  have "\<exists>s. add_audit_stats E parse w (Some it) = Some s \<and> stats_ok s" if "it n = None" for n
  proof -
    from first_end [of "it", OF that] obtain items where
      "it (length items) = None" "\<forall>i < length items. it i = Some (items ! i)" .
    then have "count_lines E parse w it 0 start_stats =
        Some (foldl (\<lambda>s item. count_line E parse w item s) start_stats items)"
      using count_lines_run [of "it" 0 items] by simp
    with count_items_ok [OF start_stats_ok] show ?thesis by (simp add: add_audit_stats_def)
  qed
  moreover have "\<exists>n. it n = None" if "add_audit_stats E parse w (Some it) = Some s" for s
    using that count_lines_ends by (fastforce simp: add_audit_stats_def)
  ultimately show ?thesis by fastforce
qed

theorem stats_end_and_add_up_witness: "add_audit_stats demo_extern (\<lambda>l. Err []) 0 (Some (\<lambda>n. Some (Err ''is a directory''))) = None"
  using stats_end_and_add_up [of demo_extern "\<lambda>l. Err []" 0 "\<lambda>n. Some (Err ''is a directory'')"] by simp

section \<open>The statistics and the index\<close>

definition lines_of :: "string list \<Rightarrow> line_iterator" where
  "lines_of ls n = (if n < length ls then Some (Ok (ls ! n)) else None)"

definition add_row :: "indexed_record \<Rightarrow> audit_totals \<Rightarrow> audit_totals" where
  "add_row r t = t
     \<lparr>at_audit_records := at_audit_records t + 1,
      at_decisions := at_decisions t + (if ir_record_kind r = ''decision'' then 1 else 0),
      at_events := at_events t + (if ir_record_kind r = ''event'' then 1 else 0),
      at_allows := at_allows t + (if ir_decision_kind r = Some ''allow'' then 1 else 0),
      at_asks := at_asks t + (if ir_decision_kind r = Some ''ask_picto'' then 1 else 0),
      at_denies := at_denies t + (if ir_decision_kind r = Some ''gommage'' then 1 else 0),
      at_hard_stops := at_hard_stops t + (if ir_hard_stop r then 1 else 0)\<rparr>"

lemma count_line_row:
  assumes "index_line C n l = Ok r" "plainly_written C SC l" "\<not> is_blank l"
  shows "as_totals (count_line E (parse_json C) w (Ok l) s) = add_row r (as_totals s)"
proof -
  from assms(1) obtain v where v: "parse_json C l = Ok v" by (auto simp: index_line_def and_then_Ok_iff map_err_Ok_iff)
  show ?thesis
  proof (cases "get_str v ''kind'' = Some ''event''")
    case True
    with v assms(1) obtain e where e: "r = index_event n e l"
      by (auto simp: index_line_def get_str_def and_then_Ok_iff map_err_Ok_iff)
    obtain k subject summary detail where "event_index_fields (ev_event e) = (k, subject, summary, detail)"
      by (cases "event_index_fields (ev_event e)")
    with True v assms(3) e show ?thesis
      by (simp add: count_line_def count_value_def add_row_def index_event_def Let_def)
  next
    case False
    with v assms(1) obtain e where e: "entry_of_json C v = Ok e" "r = index_decision n e l"
      by (auto simp: index_line_def get_str_def and_then_Ok_iff map_err_Ok_iff)
    with False v have "parse_record C l = Ok (DecisionRecord e)" by (simp add: parse_record_def get_str_def)
    with assms(2) v have "list_all (\<lambda>(k, w). json_get v k = Some w)
        (case entry_object e of JObject ms \<Rightarrow> ms | _ \<Rightarrow> [])" by (simp add: plainly_written_def entry_object_def)
    then have m: "json_get v ''tool'' = Some (jstr (ae_tool e))" "json_get v ''decision'' = Some (decision_json (ae_decision e))"
      by (simp_all add: entry_object_def)
    have d: "\<not> null_member v ''tool''" "\<not> null_member v ''decision''" "json_index v ''decision'' = decision_json (ae_decision e)"
      by (simp_all add: null_member_def m json_index_def decision_json_def split: decision.split)
    show ?thesis
      using False v assms(3)
      by (cases "ae_decision e")
        (simp_all add: count_line_def count_value_def count_decision_def d Let_def e(2) index_decision_def
          decision_index_fields_def add_row_def decision_json_def get_str_def unwrap_or_def)
  qed
qed

lemma count_rows_fold:
  "index_lines C i (map Ok ls) = Ok rs \<Longrightarrow> list_all (plainly_written C SC) ls \<Longrightarrow>
     as_totals (foldl (\<lambda>s item. count_line E (parse_json C) w item s) s (map Ok ls)) =
       foldl (\<lambda>t r. add_row r t) (as_totals s) rs"
proof (induction ls arbitrary: i rs s)
  case (Cons l ls)
  show ?case
  proof (cases "is_blank l")
    case True
    with Cons show ?thesis by (simp add: count_line_def)
  next
    case False
    with Cons.prems obtain r rs' where r: "index_line C (i + 1) l = Ok r"
        "index_lines C (i + 1) (map Ok ls) = Ok rs'" "rs = r # rs'"
      by (auto simp: and_then_Ok_iff map_err_Ok_iff)
    have "plainly_written C SC l" using Cons.prems(2) by simp
    from count_line_row [OF r(1) this False] r Cons.IH [OF r(2)] Cons.prems(2) show ?thesis by simp
  qed
qed simp

lemma add_rows_counts:
  "foldl (\<lambda>t r. add_row r t) t rs = t
     \<lparr>at_audit_records := at_audit_records t + length rs,
      at_decisions := at_decisions t + length (filter (\<lambda>r. ir_record_kind r = ''decision'') rs),
      at_events := at_events t + length (filter (\<lambda>r. ir_record_kind r = ''event'') rs),
      at_allows := at_allows t + length (filter (\<lambda>r. ir_decision_kind r = Some ''allow'') rs),
      at_asks := at_asks t + length (filter (\<lambda>r. ir_decision_kind r = Some ''ask_picto'') rs),
      at_denies := at_denies t + length (filter (\<lambda>r. ir_decision_kind r = Some ''gommage'') rs),
      at_hard_stops := at_hard_stops t + length (filter ir_hard_stop rs)\<rparr>"
  by (induction rs arbitrary: t) (simp_all add: add_row_def)

text \<open>C24. The statistics and the index count alike: of a log whose lines are as the writer writes them and
  whose rows the index holds, \<open>stats\<close> reports the numbers of records, decisions and events, of allows, asks,
  denials and hard stops that the counters of the index are, and nothing malformed.\<close>

theorem stats_agree_with_index:
  assumes "read_indexed_records C None (Some t) = Ok (db_records d)"
    and "list_all (plainly_written C SC) (str_lines t)"
  shows "\<exists>s. add_audit_stats E (parse_json C) w (Some (lines_of (str_lines t))) = Some s \<and>
    as_totals s = zero_totals
      \<lparr>at_audit_records := ct_audit_entries (load_counters d), at_decisions := ct_decisions (load_counters d),
       at_events := ct_events (load_counters d), at_allows := ct_allows (load_counters d),
       at_asks := ct_asks (load_counters d), at_denies := ct_denies (load_counters d),
       at_hard_stops := ct_hard_stops (load_counters d)\<rparr>"
proof -
  let ?ls = "str_lines t" and ?count = "\<lambda>s item. count_line E (parse_json C) w item s"
  have "count_lines E (parse_json C) w (lines_of ?ls) 0 start_stats = Some (foldl ?count start_stats (map Ok ?ls))"
    using count_lines_run [of "lines_of ?ls" 0 "map Ok ?ls"] by (simp add: lines_of_def)
  moreover have "index_lines C 0 (map Ok ?ls) = Ok (db_records d)"
    using assms(1) by (simp add: read_indexed_records_def read_lines_def)
  from count_rows_fold [OF this assms(2)] have "as_totals (foldl ?count start_stats (map Ok ?ls)) =
      foldl (\<lambda>t r. add_row r t) zero_totals (db_records d)" by (simp add: start_stats_def)
  ultimately show ?thesis
    by (simp add: add_audit_stats_def add_rows_counts load_counters_def count_rows_def zero_totals_def)
qed

theorem stats_agree_with_index_witness:
  "\<exists>d s. add_audit_stats demo_extern (parse_json demo_index_codec) 0 (Some (lines_of (str_lines demo_index_text))) = Some s \<and>
     at_events (as_totals s) = ct_events (load_counters d) \<and> db_records d \<noteq> []"
proof -
  obtain row where row: "read_indexed_records demo_index_codec None (Some demo_index_text) = Ok [row]"
    using demo_index_row by blast
  let ?d = "empty_state_db\<lparr>db_records := [row]\<rparr>"
  have "read_indexed_records demo_index_codec None (Some demo_index_text) = Ok (db_records ?d)" by (simp add: row)
  from stats_agree_with_index [OF this demo_plainly_written, of demo_extern 0] obtain s where
    "add_audit_stats demo_extern (parse_json demo_index_codec) 0 (Some (lines_of (str_lines demo_index_text))) = Some s"
    "at_events (as_totals s) = ct_events (load_counters ?d)" by (auto simp: zero_totals_def)
  then show ?thesis by (intro exI [of _ ?d]) auto
qed

section \<open>The inbox\<close>

definition approvals_ok :: "approval_totals \<Rightarrow> bool" where
  "approvals_ok t \<longleftrightarrow> apt_total t = apt_pending t + apt_approved t + apt_denied t \<and> apt_stale_pending t \<le> apt_pending t"

lemma count_approval_laws:
  assumes "bt_wf (is_rules s)" "approvals_ok (is_totals s)"
  shows "bt_wf (is_rules (count_approval now s state))" "approvals_ok (is_totals (count_approval now s state))"
    "apt_total (is_totals (count_approval now s state)) = apt_total (is_totals s) + 1"
    "bt_sum rsb_requests (is_rules (count_approval now s state)) = bt_sum rsb_requests (is_rules s) + 1"
    "bt_sum rsb_total_asks (is_rules (count_approval now s state)) = bt_sum rsb_total_asks (is_rules s)"
proof -
  let ?i = "rule_identity_from_approval state" and ?f = "count_request (ap_status state) (resolution_seconds state)"
  have rules: "is_rules (count_approval now s state) =
      bt_modify (identity_key ?i) ?f (bt_or_insert (identity_key ?i) (new_rule_stats ?i) (is_rules s))"
    by (simp add: count_approval_def Let_def)
  have f: "rsb_requests (?f b) = rsb_requests b + 1" "rsb_total_asks (?f b) = rsb_total_asks b" for b
    by (simp_all add: count_request_def Let_def split: approval_status.split option.split)
  show "bt_wf (is_rules (count_approval now s state))" unfolding rules by (rule bt_wf_count [OF assms(1)])
  show "bt_sum rsb_requests (is_rules (count_approval now s state)) = bt_sum rsb_requests (is_rules s) + 1"
    unfolding rules by (rule bt_sum_count) (simp_all add: assms(1) new_rule_stats_def f)
  show "bt_sum rsb_total_asks (is_rules (count_approval now s state)) = bt_sum rsb_total_asks (is_rules s)"
    unfolding rules
    by (rule bt_sum_count [where n = 0, simplified]) (simp_all add: assms(1) new_rule_stats_def f)
  show "approvals_ok (is_totals (count_approval now s state))"
    "apt_total (is_totals (count_approval now s state)) = apt_total (is_totals s) + 1"
    using assms(2)
    by (auto simp: count_approval_def count_pending_def approvals_ok_def Let_def split: approval_status.split option.split)
qed

lemma count_approvals:
  assumes "bt_wf (is_rules s)" "approvals_ok (is_totals s)" "s' = foldl (count_approval now) s states"
  shows "approvals_ok (is_totals s') \<and> apt_total (is_totals s') = apt_total (is_totals s) + length states \<and>
    bt_sum rsb_requests (is_rules s') = bt_sum rsb_requests (is_rules s) + length states \<and>
    bt_sum rsb_total_asks (is_rules s') = bt_sum rsb_total_asks (is_rules s)"
  using assms
proof (induction states arbitrary: s)
  case (Cons state states)
  note step = count_approval_laws [OF Cons.prems(1,2), of now state]
  have "s' = foldl (count_approval now) (count_approval now s state) states" using Cons.prems(3) by simp
  from Cons.IH [OF step(1,2) this] step(3-5) show ?case by simp
qed simp

text \<open>Every request is counted once, by its status and by its rule, and the asks of the log stay as they were.\<close>

theorem inbox_stats_add_up:
  assumes "list_states C fault f = Ok states" and "stats_ok s"
    and "add_approval_stats C fault f now (as_rules s) = (t, rules)"
  shows "apt_total t = length states \<and> apt_total t = apt_pending t + apt_approved t + apt_denied t \<and>
    apt_stale_pending t \<le> apt_pending t \<and> bt_sum rsb_requests rules = length states \<and>
    bt_sum rsb_total_asks rules = at_asks (as_totals s)"
proof -
  let ?s0 = "\<lparr>is_totals = zero_approvals, is_rules = as_rules s, is_seconds = 0, is_count = 0\<rparr>"
  have "bt_wf (is_rules ?s0)" "approvals_ok (is_totals ?s0)"
    using assms(2) by (simp_all add: stats_ok_def approvals_ok_def zero_approvals_def)
  from count_approvals [OF this refl, of now states] assms show ?thesis
    by (auto simp: add_approval_stats_def Let_def approvals_ok_def zero_approvals_def stats_ok_def)
qed

text \<open>A window that reaches back before the first time there is ends the command with a panic, at a time of now and
  the largest number of days that the option takes.\<close>

lemma stats_window_panics:
  "cmd_stats demo_extern parse C 0 log opened inbox_log fault inbox 4294967295 = StatsPanic"
proof -
  have "unix_timestamp (- of_seconds (int 4294967295 * 86400)) = - (4294967295 * 86400)"
    by (simp add: unix_timestamp_def of_seconds_def nanos_per_second_def)
  then show ?thesis
    by (simp add: cmd_stats_def build_stats_report_def demo_extern_def)
qed

end
