(* ===== verification/Operator.thy ===== *)
theory Operator
  imports Inbox
begin

text \<open>
  The operator's commands on grants and calls (\<open>crates/gommage-cli/src/main.rs\<close>, with \<open>map.rs\<close> and the
  reading of a call from \<open>input.rs\<close>): \<open>grant\<close>, \<open>list\<close>, \<open>revoke\<close>, \<open>confirm\<close>, \<open>decide\<close>, \<open>map\<close> and
  \<open>expedition\<close>. What a command prints is the list of its lines, and the exit code comes with it.
\<close>

section \<open>The lifetime of a grant\<close>

definition grant_ttl_parts :: "string \<Rightarrow> (string, string \<times> int) result" where
  "grant_ttl_parts raw =
     (let c = last raw
      in if c \<in> {CHR ''s'', CHR ''S''} then Ok (butlast raw, 1)
         else if c \<in> {CHR ''m'', CHR ''M''} then Ok (butlast raw, 60)
         else if c \<in> {CHR ''h'', CHR ''H''} then Ok (butlast raw, 3600)
         else if c \<in> {CHR ''d'', CHR ''D''} then Ok (butlast raw, 86400)
         else if is_ascii_digit c then Ok (raw, 1)
         else Err (''unsupported ttl suffix '' @ debug_char_literal c @ ''; use s, m, h, or d''))"

definition grant_ttl_seconds :: "string \<Rightarrow> (string, int) result" where
  "grant_ttl_seconds raw0 =
     (let raw = trim raw0
      in if raw = [] then Err ''ttl cannot be empty''
         else
           and_then (grant_ttl_parts raw) (\<lambda>(number, multiplier).
             case parse_i64 number of
               None \<Rightarrow> Err ''ttl must start with a positive integer''
             | Some n \<Rightarrow>
                 (let seconds = n * multiplier
                  in if seconds < - (2 ^ 63) \<or> 2 ^ 63 \<le> seconds then Err ''ttl is too large''
                     else if \<not> (1 \<le> seconds \<and> seconds \<le> 86400)
                     then Err ''ttl must be between 1 second and 24 hours'' else Ok seconds)))"

section \<open>Scopes that no rule asks for\<close>

definition known_scopes :: "policy \<Rightarrow> string list" where
  "known_scopes p =
     concat (map (\<lambda>r. case rule_required_scope r of None \<Rightarrow> [] | Some s \<Rightarrow> [s]) (policy_rules p)) @
     [CONFIG_ACTIVATION_SCOPE]"

definition warn_if_scope_unknown :: "policy \<Rightarrow> string \<Rightarrow> string option" where
  "warn_if_scope_unknown p scope =
     (if scope \<in> set (known_scopes p) then None
      else Some (''warning: scope '' @ debug_str scope @ '' matches no ask_picto rule in the loaded policy; '' @
        ''this picto can never be consumed. Known scopes: '' @ join '', '' (remdups_adj (sort (known_scopes p)))))"

section \<open>Grants\<close>

text \<open>Opening the runtime: the read model and the store, or an error.\<close>

definition open_model ::
  "daemon_env \<Rightarrow> fs \<Rightarrow> home_layout \<Rightarrow> tool_io \<Rightarrow> (tool_error, read_model) result" where
  "open_model D F L io =
     map_err ToolCore (and_then (ti_ensured io) (\<lambda>_.
       and_then (read_model_load (de_extern D) (de_lib D) (de_vars D) F L) (\<lambda>m.
       and_then (ti_sqlite io) (\<lambda>_. Ok m))))"

definition granted_lines :: "tool_io \<Rightarrow> bool \<Rightarrow> picto \<Rightarrow> string list" where
  "granted_lines io require_confirmation p =
     [''granted '' @ picto_id p, ''  scope:   '' @ picto_scope p,
      ''  uses:    '' @ dec_nat (unat (picto_uses p)) @ ''/'' @ dec_nat (unat (picto_max_uses p)),
      ''  expires: '' @ ti_show_time io (picto_ttl_expires_at p)] @
     (if require_confirmation
      then [''  status:  pending confirmation '' @ [CHR 0xE2, CHR 0x80, CHR 0x94] @ '' run `gommage confirm '' @
              picto_id p @ ''` to activate'']
      else [])"

definition grant_event :: "tool_io \<Rightarrow> bool \<Rightarrow> picto \<Rightarrow> audit_event" where
  "grant_event io require_confirmation p =
     PictoCreated (picto_id p) (picto_scope p) (picto_max_uses p) (ti_show_time io (picto_ttl_expires_at p))
       require_confirmation"

record grant_output =
  go_warning :: "string option"
  go_lines :: "string list"

definition cmd_grant ::
  "daemon_env \<Rightarrow> fs \<Rightarrow> home_layout \<Rightarrow> tool_io \<Rightarrow> string \<Rightarrow> 32 word \<Rightarrow> int \<Rightarrow> string \<Rightarrow> bool \<Rightarrow> hook_disk \<Rightarrow>
     (tool_error, grant_output) result \<times> hook_disk" where
  "cmd_grant D F L io scope uses ttl reason require_confirmation K =
     then_do (and_then (map_err ToolCore (ti_ensured io)) (\<lambda>_. map_err ToolCore (load_key (ti_key io))), K) (\<lambda>sk K0.
     then_do (open_model D F L io, K0) (\<lambda>m K1.
     then_do
       (case create (de_extern D) (ti_create_now io) sk (hk_pictos K1) (''picto_'' @ ti_uuid io) scope uses ttl reason
               require_confirmation of
          Err e \<Rightarrow> (Err (ToolCore e), K1)
        | Ok (p, store) \<Rightarrow> (Ok p, K1\<lparr>hk_pictos := store\<rparr>)) (\<lambda>p K2.
     then_do (tool_open_log (ti_audit_fault io) K2) (\<lambda>_ K3.
     then_do (tool_log D sk (ti_event1 io) (grant_event io require_confirmation p) K3) (\<lambda>_ K4.
       (Ok \<lparr>go_warning = warn_if_scope_unknown (rm_policy m) scope,
            go_lines = granted_lines io require_confirmation p\<rparr>, K4))))))"

definition status_debug :: "picto_status \<Rightarrow> string" where
  "status_debug s =
     (case s of
        Active \<Rightarrow> ''Active'' | PendingConfirmation \<Rightarrow> ''PendingConfirmation'' | Spent \<Rightarrow> ''Spent''
      | Revoked \<Rightarrow> ''Revoked'' | Expired \<Rightarrow> ''Expired'')"

definition picto_line :: "tool_io \<Rightarrow> picto \<Rightarrow> string" where
  "picto_line io p =
     picto_id p @ '' ['' @ status_debug (picto_status p) @ ''] scope='' @ picto_scope p @ '' uses='' @
     dec_nat (unat (picto_uses p)) @ ''/'' @ dec_nat (unat (picto_max_uses p)) @ '' ttl='' @
     ti_show_time io (picto_ttl_expires_at p) @ '' reason='' @ debug_str (picto_reason p)"

definition cmd_list :: "daemon_env \<Rightarrow> fs \<Rightarrow> home_layout \<Rightarrow> tool_io \<Rightarrow> hook_disk \<Rightarrow> (tool_error, string list) result" where
  "cmd_list D F L io K =
     and_then (open_model D F L io) (\<lambda>_.
       let pictos = list_pictos (de_extern D) (hk_pictos K)
       in Ok (if pictos = [] then [''no pictos''] else map (picto_line io) pictos))"

text \<open>\<open>revoke\<close> and \<open>confirm\<close> share their shape: an operation of the store that tells whether it changed a
  row, the event that logs it, and what is printed in either case.\<close>

definition change_grant ::
  "daemon_env \<Rightarrow> fs \<Rightarrow> home_layout \<Rightarrow> tool_io \<Rightarrow> (picto_store \<Rightarrow> bool \<times> picto_store) \<Rightarrow> audit_event \<Rightarrow> string \<Rightarrow> string \<Rightarrow>
     hook_disk \<Rightarrow> (tool_error, string list \<times> nat) result \<times> hook_disk" where
  "change_grant D F L io operation event done refused K =
     then_do (map_err ToolCore (load_key (ti_key io)), K) (\<lambda>sk K0.
     then_do (open_model D F L io, K0) (\<lambda>_ K1.
       case operation (hk_pictos K1) of
         (changed, store) \<Rightarrow>
           (let K2 = K1\<lparr>hk_pictos := store\<rparr>
            in if changed
               then
                 then_do (tool_open_log (ti_audit_fault io) K2) (\<lambda>_ K3.
                 then_do (tool_log D sk (ti_event1 io) event K3) (\<lambda>_ K4. (Ok ([done], 0), K4)))
               else (Ok ([refused], 1), K2))))"

definition cmd_revoke ::
  "daemon_env \<Rightarrow> fs \<Rightarrow> home_layout \<Rightarrow> tool_io \<Rightarrow> string \<Rightarrow> hook_disk \<Rightarrow>
     (tool_error, string list \<times> nat) result \<times> hook_disk" where
  "cmd_revoke D F L io i K =
     change_grant D F L io (\<lambda>store. revoke store i) (PictoRevoked i) (''revoked '' @ i)
       (''no active picto with id '' @ i) K"

definition cmd_confirm ::
  "daemon_env \<Rightarrow> fs \<Rightarrow> home_layout \<Rightarrow> tool_io \<Rightarrow> string \<Rightarrow> hook_disk \<Rightarrow>
     (tool_error, string list \<times> nat) result \<times> hook_disk" where
  "cmd_confirm D F L io i K =
     change_grant D F L io (\<lambda>store. confirm store i) (PictoConfirmed i) (''activated '' @ i)
       (''no pending-confirmation picto with id '' @ i) K"

section \<open>Calls from standard input\<close>

text \<open>\<open>parse\<close> and \<open>as_call\<close> are serde's readers of a value and of a \<open>ToolCall\<close>.\<close>

definition read_tool_call ::
  "hook_world \<Rightarrow> (string \<Rightarrow> (string, json) result) \<Rightarrow> (json \<Rightarrow> (string, toolcall) result) \<Rightarrow> bool \<Rightarrow>
     (string, string) result \<Rightarrow> (string, toolcall) result" where
  "read_tool_call W parse as_call hook stdin =
     and_then stdin (\<lambda>buf.
       if hook
       then and_then (map_err (\<lambda>e. ''parsing stdin as hook payload: '' @ e) (parse buf)) (tool_call_from_hook_payload W)
       else
         and_then (map_err (\<lambda>e. ''parsing stdin as ToolCall: '' @ e) (parse buf)) (\<lambda>v.
           if looks_like_hook_payload v
           then Err (''parsing stdin as ToolCall: received a PreToolUse hook payload; use --hook when passing '' @
                  ''tool_name/tool_input JSON'')
           else map_err (\<lambda>e. ''parsing stdin as ToolCall: '' @ e) (as_call v)))"

definition evaluate_only :: "(string \<Rightarrow> string \<Rightarrow> bool) \<Rightarrow> mapper \<Rightarrow> policy \<Rightarrow> toolcall \<Rightarrow> eval_result option" where
  "evaluate_only is_match m p call = evaluate is_match (map_call m call) p"

text \<open>\<open>gommage decide\<close>: the result, which is printed as JSON; nothing is spent and nothing is logged.\<close>

definition cmd_decide ::
  "daemon_env \<Rightarrow> fs \<Rightarrow> home_layout \<Rightarrow> tool_io \<Rightarrow> (string, toolcall) result \<Rightarrow> (tool_error, eval_result option) result" where
  "cmd_decide D F L io call =
     and_then (map_err ToolText call) (\<lambda>c.
     and_then (open_model D F L io) (\<lambda>m.
       Ok (evaluate_only (de_glob D) (rm_mapper m) (rm_policy m) c)))"

record map_report =
  mr_input_hash :: string
  mr_tool :: string
  mr_capabilities_dir :: string
  mr_mapper_rules :: nat
  mr_capabilities :: "capability list"

definition build_map_report ::
  "extern \<Rightarrow> mapper_lib \<Rightarrow> fs \<Rightarrow> home_layout \<Rightarrow> toolcall \<Rightarrow> (tool_error, map_report) result" where
  "build_map_report E ML F L call =
     and_then (map_err ToolCore (load_mapper_from_dir E ML F (hl_capabilities_dir L))) (\<lambda>m.
       Ok \<lparr>mr_input_hash = input_hash E call, mr_tool = tool call,
           mr_capabilities_dir = path_text (hl_capabilities_dir L), mr_mapper_rules = length (mapper_rules m),
           mr_capabilities = map_call m call\<rparr>)"

definition map_report_lines :: "map_report \<Rightarrow> string list" where
  "map_report_lines r =
     [''input_hash: '' @ mr_input_hash r, ''tool: '' @ mr_tool r, ''capabilities_dir: '' @ mr_capabilities_dir r,
      ''mapper_rules: '' @ dec_nat (mr_mapper_rules r)] @
     (if mr_capabilities r = [] then [''capabilities: none'']
      else ''capabilities:'' # map (\<lambda>c. ''- '' @ c) (mr_capabilities r))"

definition cmd_map ::
  "extern \<Rightarrow> mapper_lib \<Rightarrow> fs \<Rightarrow> home_layout \<Rightarrow> (string, toolcall) result \<Rightarrow> (tool_error, map_report) result" where
  "cmd_map E ML F L call = and_then (map_err ToolText call) (build_map_report E ML F L)"

section \<open>Expeditions\<close>

datatype expedition_cmd =
    ExpeditionStart string "path option"
  | ExpeditionEnd
  | ExpeditionStatus

text \<open>\<open>cwd\<close> is the current directory or the error of asking for it, \<open>loaded\<close> what loading the file
  gives, \<open>written\<close> and \<open>fault\<close> what writing and removing it meet, \<open>show_time\<close> the \<open>Display\<close> of
  a time.\<close>

definition cmd_expedition ::
  "expedition_codec \<Rightarrow> (gommage_error, unit) result \<Rightarrow> (string, path) result \<Rightarrow> time \<Rightarrow> (time \<Rightarrow> string) \<Rightarrow>
     write_outcome \<Rightarrow> string option \<Rightarrow> (gommage_error, expedition option) result \<Rightarrow> expedition_cmd \<Rightarrow> text_file \<Rightarrow>
     (tool_error, string list) result \<times> text_file" where
  "cmd_expedition C ensured cwd now show_time written fault loaded sub f =
     then_do (map_err ToolCore ensured, f) (\<lambda>_ f.
       case sub of
         ExpeditionStart name root \<Rightarrow>
           then_do ((case root of Some r \<Rightarrow> Ok r | None \<Rightarrow> map_err ToolText cwd), f) (\<lambda>r f.
             (case expedition_save C written \<lparr>ex_name = name, ex_root = r, ex_started_at = now\<rparr> f of
                (res, f') \<Rightarrow>
                  (and_then (map_err ToolCore res) (\<lambda>_.
                     Ok [''started expedition '' @ name @ '' at '' @ path_text r]), f')))
       | ExpeditionEnd \<Rightarrow>
           then_do (map_err ToolCore loaded, f) (\<lambda>found f.
             case found of
               None \<Rightarrow> (Ok [''no active expedition''], f)
             | Some _ \<Rightarrow>
                 (case expedition_clear fault f of
                    (res, f') \<Rightarrow> (and_then (map_err ToolCore res) (\<lambda>_. Ok [''expedition ended'']), f')))
       | ExpeditionStatus \<Rightarrow>
           then_do (map_err ToolCore loaded, f) (\<lambda>found f.
             (Ok (case found of
                    None \<Rightarrow> [''no active expedition'']
                  | Some ex \<Rightarrow>
                      [''active: '' @ ex_name ex, ''  root:    '' @ path_text (ex_root ex),
                       ''  started: '' @ show_time (ex_started_at ex)]), f)))"

end
