(* ===== verification/Operator_Laws.thy ===== *)
theory Operator_Laws
  imports Operator Inbox_Laws
begin

text \<open>
  What the operator's commands do: which lifetimes they take, that a warned scope is asked for by no rule,
  and that every grant, revocation and confirmation that is reported as done is in the store and, signed, in
  the audit log.
\<close>

section \<open>Lifetimes\<close>

text \<open>The two readers of a lifetime, of \<open>gommage grant\<close> and of \<open>gommage approval approve\<close>, accept the same texts
  and give them the same meaning; what they accept is from one second to a day.\<close>

theorem ttl_readers_agree:
  "(grant_ttl_seconds raw = Ok n \<longleftrightarrow> parse_ttl_seconds raw = Ok n) \<and>
   (grant_ttl_seconds raw = Ok n \<longrightarrow> 1 \<le> n \<and> n \<le> 86400)"
proof (cases "trim raw = []")
  case True
  then show ?thesis by (simp add: grant_ttl_seconds_def parse_ttl_seconds_def parse_positive_duration_seconds_def)
next
  case False
  have parts: "grant_ttl_parts t = Ok q \<longleftrightarrow> duration_parts t = Ok q" for t q
    by (simp add: grant_ttl_parts_def duration_parts_def Let_def)
  show ?thesis
  proof (cases "grant_ttl_parts (trim raw)")
    case (Inl e)
    then have "duration_parts (trim raw) \<noteq> Ok q" for q using parts [of "trim raw" q] by auto
    then obtain e' where "duration_parts (trim raw) = Err e'" by (cases "duration_parts (trim raw)") auto
    with Inl False show ?thesis
      by (simp add: grant_ttl_seconds_def parse_ttl_seconds_def parse_positive_duration_seconds_def Let_def)
  next
    case (Inr q)
    moreover have "duration_parts (trim raw) = Ok q" using Inr parts by blast
    moreover obtain number multiplier where "q = (number, multiplier)" by fastforce
    ultimately show ?thesis using False
      by (cases "parse_i64 number")
        (simp_all add: grant_ttl_seconds_def parse_ttl_seconds_def parse_positive_duration_seconds_def Let_def)
  qed
qed

section \<open>Scopes\<close>

lemma known_scopes_iff:
  "scope \<in> set (known_scopes p) \<longleftrightarrow>
     scope = CONFIG_ACTIVATION_SCOPE \<or> (\<exists>r \<in> set (policy_rules p). rule_required_scope r = Some scope)"
  by (auto simp: known_scopes_def split: option.splits intro: sym dest: sym)

text \<open>A scope that \<open>grant\<close> warns about is one that no call is asked for under the loaded policy, nor a reload.\<close>

theorem warned_scope_is_never_asked:
  assumes "warn_if_scope_unknown p scope = Some warning" and "evaluate is_match caps p = Some eval"
  shows "eval_decision eval \<noteq> AskPicto scope reason b \<and> scope \<noteq> CONFIG_ACTIVATION_SCOPE"
proof -
  from assms(1) have no: "scope \<notin> set (known_scopes p)" by (auto simp: warn_if_scope_unknown_def split: if_splits)
  then have rules: "rule_required_scope r \<noteq> Some scope" if "r \<in> set (policy_rules p)" for r
    using that by (auto simp: known_scopes_iff)
  have "eval_decision eval \<noteq> AskPicto scope reason b"
  proof (cases "hardstop_check is_match caps")
    case (Some hit)
    with assms(2) show ?thesis by (auto simp: evaluate_def hard_stop_decision_def)
  next
    case None
    show ?thesis
    proof (cases "find (\<lambda>r. matches (rule_match r) caps) (policy_rules p)")
      case (Some r)
      then have "r \<in> set (policy_rules p)" by (simp add: find_member)
      with rules Some None assms(2) show ?thesis
        by (auto simp: evaluate_def rule_result_def decision_from_rule_def split: rule_decision.splits)
    qed (use None assms(2) in \<open>auto simp: evaluate_def\<close>)
  qed
  with no show ?thesis by (simp add: known_scopes_iff)
qed

section \<open>Grants in the store and in the log\<close>

definition event_logged :: "daemon_env \<Rightarrow> tool_io \<Rightarrow> audit_event \<Rightarrow> text_file \<Rightarrow> text_file \<Rightarrow> bool" where
  "event_logged D io event f f' \<longleftrightarrow>
     (\<exists>sk entry line. load_key (ti_key io) = Ok sk \<and> ev_event entry = event \<and>
        ev_sig entry = ed25519_sig (de_extern D) sk (canonical_event_bytes entry) \<and>
        event_line (de_audit D) entry = Ok line \<and> f' = Some (file_text f @ line @ [NL]))"

lemma append_event_Ok:
  assumes "append_event E C key st w event f = (Ok entry, f')"
  shows "ev_event entry = event \<and> ev_sig entry = ed25519_sig E key (canonical_event_bytes entry) \<and>
    (\<exists>line. event_line C entry = Ok line \<and> f' = Some (file_text f @ line @ [NL]))"
proof -
  from assms obtain ts where ts: "stamp_ts st = Ok ts" by (cases "stamp_ts st") (auto simp: append_event_def)
  let ?e = "\<lparr>ev_version = AUDIT_SCHEMA_VERSION, ev_id = stamp_id st, ev_ts = ts,
    ev_kind = ''event'', ev_event = event, ev_sig = []\<rparr>"
  let ?r = "?e\<lparr>ev_sig := ed25519_sig E key (canonical_event_bytes ?e)\<rparr>"
  obtain res g where w: "write_record C w (EventRecord ?r) f = (res, g)" by (cases "write_record C w (EventRecord ?r) f")
  with assms ts have ok: "res = Ok ()" "entry = ?r" "f' = g"
    by (auto simp: append_event_def Let_def and_then_Ok_iff)
  from w ok obtain line where line: "event_line C entry = Ok line" "f' = Some (file_text f @ line @ [NL])"
    by (cases rule: write_record_cases) simp_all
  have "canonical_event_bytes entry = canonical_event_bytes ?e" unfolding ok(2) by (rule payload_sig_update)
  then have "ev_sig entry = ed25519_sig E key (canonical_event_bytes entry)" unfolding ok(2) by simp
  moreover have "ev_event entry = event" unfolding ok(2) by simp
  ultimately show ?thesis using line by blast
qed

lemma logged_by_tool:
  assumes "load_key (ti_key io) = Ok sk" "tool_open_log fault K1 = (Ok (), K2)" "tool_log D sk st event K2 = (Ok (), K3)"
  shows "event_logged D io event (hk_audit K1) (hk_audit K3) \<and> hk_pictos K3 = hk_pictos K1"
proof -
  have f: "hk_audit K2 = Some (file_text (hk_audit K1))" using assms(2)
    by (cases fault) (auto simp: tool_open_log_def audit_open_def)
  from assms(3) obtain entry where "append_event (de_extern D) (de_audit D) sk (fst st) (snd st) event (hk_audit K2) =
      (Ok entry, hk_audit K3)"
    by (auto simp: tool_log_def and_then_Ok_iff map_err_Ok_iff split: prod.splits)
  from append_event_Ok [OF this] assms(1) f tool_log_disk(1) [OF assms(3)] tool_log_disk(2) [OF assms(2)] show ?thesis
    unfolding event_logged_def by fastforce
qed

lemma stored_Ok_iff:
  "(case r of Err e \<Rightarrow> (Err (f e), K) | Ok (p, store) \<Rightarrow> (Ok p, g store)) = (Ok x, K') \<longleftrightarrow>
     (\<exists>store. r = Ok (x, store) \<and> K' = g store)"
  by (cases r) auto

lemma update_none: "update_rows P f store = (0, store') \<Longrightarrow> store' = store"
  by (auto simp: update_rows_def filter_empty_conv intro!: map_idI)

lemma change_grant_done:
  assumes "change_grant D F L io operation event done refused K = (Ok (out, code), K')"
    and "\<And>store. operation (hk_pictos K) = (False, store) \<Longrightarrow> store = hk_pictos K"
  shows "(code = 1 \<and> K' = K \<and> \<not> fst (operation (hk_pictos K))) \<or>
    (code = 0 \<and> operation (hk_pictos K) = (True, hk_pictos K') \<and> event_logged D io event (hk_audit K) (hk_audit K'))"
proof -
  obtain changed store where operation: "operation (hk_pictos K) = (changed, store)" by fastforce
  show ?thesis
  proof (cases changed)
    case True
    with operation assms(1) obtain sk K3 where "load_key (ti_key io) = Ok sk"
        "tool_open_log (ti_audit_fault io) (K\<lparr>hk_pictos := store\<rparr>) = (Ok (), K3)"
        "tool_log D sk (ti_event1 io) event K3 = (Ok (), K')" "code = 0"
      by (auto simp: change_grant_def then_do_Ok_iff map_err_Ok_iff Let_def)
    with logged_by_tool [OF this(1,2,3)] operation True show ?thesis by simp
  next
    case False
    with operation assms have "code = 1" "K' = K\<lparr>hk_pictos := store\<rparr>" "store = hk_pictos K"
      by (auto simp: change_grant_def then_do_Ok_iff Let_def)
    with operation False show ?thesis by simp
  qed
qed

text \<open>What an error leaves: everything as it was, or, if the audit log failed, the change in the store.\<close>

definition log_behind :: "hook_disk \<Rightarrow> hook_disk \<Rightarrow> bool" where
  "log_behind K K' \<longleftrightarrow>
     prefix (file_text (hk_audit K)) (file_text (hk_audit K')) \<and>
     hk_approvals K' = hk_approvals K \<and> hk_letters K' = hk_letters K"

lemma log_failed:
  assumes "then_do (tool_open_log fault K1) (\<lambda>_ K2. then_do (tool_log D sk st event K2) (\<lambda>_ K3. (Ok out, K3))) =
    (Err e, K')"
  shows "hk_pictos K' = hk_pictos K1 \<and> log_behind K1 K'"
proof -
  have log: "prefix (file_text (hk_audit K2)) (file_text (hk_audit K3))"
    if "tool_log D sk st event K2 = (res, K3)" for K2 res K3
  proof -
    obtain r f where a: "append_event (de_extern D) (de_audit D) sk (fst st) (snd st) event (hk_audit K2) = (r, f)"
      by (meson surj_pair)
    then have "audit_do (de_extern D) (de_audit D) sk (LogEvent (fst st) (snd st) event) (hk_audit K2) =
        (and_then r (\<lambda>e. Ok (EventRecord e)), f)" by simp
    then have "prefix (file_text (hk_audit K2)) (file_text f)" by (cases rule: audit_do_cases) auto
    with that a show ?thesis by (auto simp: tool_log_def)
  qed
  obtain r K2 where o: "tool_open_log fault K1 = (r, K2)" by (meson surj_pair)
  then have k2: "file_text (hk_audit K2) = file_text (hk_audit K1)"
    by (cases fault) (auto simp: tool_open_log_def audit_open_def)
  show ?thesis
  proof (cases r)
    case (Inl e')
    with assms o k2 tool_log_disk(2) [OF o] show ?thesis by (simp add: log_behind_def)
  next
    case (Inr u)
    obtain r3 K3 where l: "tool_log D sk st event K2 = (r3, K3)" by (meson surj_pair)
    with assms o Inr have "K' = K3" by (cases r3) auto
    with log [OF l] k2 tool_log_disk(2) [OF o] tool_log_disk(1) [OF l] show ?thesis by (simp add: log_behind_def)
  qed
qed

lemma change_grant_failed:
  assumes "change_grant D F L io operation event done refused K = (Err e, K')"
  shows "K' = K \<or> operation (hk_pictos K) = (True, hk_pictos K') \<and> log_behind K K'"
proof -
  obtain changed store where operation: "operation (hk_pictos K) = (changed, store)" by fastforce
  show ?thesis
  proof (cases "\<exists>sk m. load_key (ti_key io) = Ok sk \<and> open_model D F L io = Ok m")
    case True
    then obtain sk m where k: "load_key (ti_key io) = Ok sk" "open_model D F L io = Ok m" by blast
    with assms operation have c: "changed"
      and "then_do (tool_open_log (ti_audit_fault io) (K\<lparr>hk_pictos := store\<rparr>)) (\<lambda>_ K3.
        then_do (tool_log D sk (ti_event1 io) event K3) (\<lambda>_ K4. (Ok ([done], 0 :: nat), K4))) = (Err e, K')"
      by (auto simp: change_grant_def Let_def split: if_splits)
    from log_failed [OF this(2)] c operation show ?thesis by (simp add: log_behind_def)
  next
    case False
    with assms show ?thesis
      by (cases "load_key (ti_key io)"; cases "open_model D F L io") (auto simp: change_grant_def)
  qed
qed

text \<open>The change of a store that gives the rows of one id the status \<open>to\<close>, if they have one of \<open>from\<close>, and
  leaves every other row and every other field as it was.\<close>

definition status_changed :: "string \<Rightarrow> string set \<Rightarrow> string \<Rightarrow> picto_store \<Rightarrow> picto_store \<Rightarrow> bool" where
  "status_changed i from to store store' \<longleftrightarrow>
     (\<exists>r \<in> set store. row_id r = i \<and> row_status r \<in> from) \<and>
     list_all2 (\<lambda>r r'. r' = (if row_id r = i \<and> row_status r \<in> from then r\<lparr>row_status := to\<rparr> else r)) store store'"

lemma revoke_spec:
  "revoke store i = (True, store') \<Longrightarrow> status_changed i {''active'', ''pending_confirmation''} ''revoked'' store store'"
  "\<not> fst (revoke store i) \<Longrightarrow> snd (revoke store i) = store \<and> \<not> (\<exists>r \<in> set store. row_id r = i \<and> row_status r \<in> {''active'', ''pending_confirmation''})"
  by (auto simp: revoke_def update_rows_def live_status_def status_changed_def list_all2_map2 filter_empty_conv
      list.rel_refl intro!: map_idI)

lemma confirm_spec:
  "confirm store i = (True, store') \<Longrightarrow> status_changed i {''pending_confirmation''} ''active'' store store'"
  "\<not> fst (confirm store i) \<Longrightarrow> snd (confirm store i) = store \<and> \<not> (\<exists>r \<in> set store. row_id r = i \<and> row_status r \<in> {''pending_confirmation''})"
  by (auto simp: confirm_def update_rows_def status_changed_def list_all2_map2 filter_empty_conv
      list.rel_refl intro!: map_idI)

text \<open>The new row of a grant.\<close>

definition grant_added ::
  "tool_io \<Rightarrow> string \<Rightarrow> 32 word \<Rightarrow> int \<Rightarrow> bool \<Rightarrow> picto_row \<Rightarrow> picto_store \<Rightarrow> picto_store \<Rightarrow> bool" where
  "grant_added io scope n ttl confirming row store store' \<longleftrightarrow>
     store' = store @ [row] \<and> row_id row \<notin> set (map row_id store) \<and>
     row_scope row = scope \<and> row_max_uses row = n \<and> 0 < n \<and> row_uses row = 0 \<and> row_input_hash row = None \<and>
     row_status row = (if confirming then ''pending_confirmation'' else ''active'') \<and>
     row_ttl row = unix_timestamp (ti_create_now io) + ttl \<and> 1 \<le> ttl \<and> ttl \<le> 86400"

lemma grant_added_row:
  assumes "create_with_input_hash E (ti_create_now io) sk store pid scope None n ttl reason confirming = Ok (p, store')"
  shows "grant_added io scope n ttl confirming (picto_to_row p None) store store'"
  using create_cases [OF assms]
  by (auto simp: grant_added_def picto_to_row_def unix_timestamp_add status_str_def)

lemma grant_outcome:
  "case cmd_grant D F L io scope n ttl reason confirming K of
      (Ok _, K') \<Rightarrow>
        \<exists>row shown. grant_added io scope n ttl confirming row (hk_pictos K) (hk_pictos K') \<and>
          event_logged D io (PictoCreated (row_id row) scope n shown confirming) (hk_audit K) (hk_audit K')
    | (Err _, K') \<Rightarrow>
        K' = K \<or> (\<exists>row. grant_added io scope n ttl confirming row (hk_pictos K) (hk_pictos K')) \<and> log_behind K K'"
proof (cases "\<exists>sk m p store. ti_ensured io = Ok () \<and> load_key (ti_key io) = Ok sk \<and> open_model D F L io = Ok m \<and>
    create_with_input_hash (de_extern D) (ti_create_now io) sk (hk_pictos K) (''picto_'' @ ti_uuid io) scope None n ttl
      reason confirming = Ok (p, store)")
  case True
  then obtain sk m p store where k: "ti_ensured io = Ok ()" "load_key (ti_key io) = Ok sk" "open_model D F L io = Ok m"
    and c: "create_with_input_hash (de_extern D) (ti_create_now io) sk (hk_pictos K) (''picto_'' @ ti_uuid io) scope None n ttl
      reason confirming = Ok (p, store)" by blast
  let ?K1 = "K\<lparr>hk_pictos := store\<rparr>" and ?event = "grant_event io confirming p"
  let ?out = "\<lparr>go_warning = warn_if_scope_unknown (rm_policy m) scope, go_lines = granted_lines io confirming p\<rparr>"
  have run: "cmd_grant D F L io scope n ttl reason confirming K =
      then_do (tool_open_log (ti_audit_fault io) ?K1) (\<lambda>_ K3.
        then_do (tool_log D sk (ti_event1 io) ?event K3) (\<lambda>_ K4. (Ok ?out, K4)))"
    using k c by (simp add: cmd_grant_def create_def)
  note row = grant_added_row [OF c]
  obtain res K' where r: "cmd_grant D F L io scope n ttl reason confirming K = (res, K')" by (meson surj_pair)
  show ?thesis
  proof (cases res)
    case (Inl e)
    from log_failed [OF run [symmetric, unfolded r Inl]] row r Inl show ?thesis by (auto simp: log_behind_def)
  next
    case (Inr x)
    with r run obtain K3 where "tool_open_log (ti_audit_fault io) ?K1 = (Ok (), K3)"
        "tool_log D sk (ti_event1 io) ?event K3 = (Ok (), K')"
      by (auto simp: then_do_Ok_iff)
    from logged_by_tool [OF k(2) this] row r Inr create_cases(6,7,8) [OF c]
    show ?thesis
      by (simp add: r Inr, intro exI [of _ "picto_to_row p None"]) (auto simp: grant_event_def picto_to_row_def)
  qed
next
  case False
  then have "\<exists>e. cmd_grant D F L io scope n ttl reason confirming K = (Err e, K)"
    by (cases "ti_ensured io"; cases "load_key (ti_key io)"; cases "open_model D F L io")
      (auto simp: cmd_grant_def create_def split: sum.split)
  then show ?thesis by auto
qed

text \<open>What a revocation or confirmation may come to.\<close>

definition change_outcome ::
  "daemon_env \<Rightarrow> tool_io \<Rightarrow> audit_event \<Rightarrow> string \<Rightarrow> string set \<Rightarrow> string \<Rightarrow> hook_disk \<Rightarrow>
     (tool_error, string list \<times> nat) result \<times> hook_disk \<Rightarrow> bool" where
  "change_outcome D io event i from to K result \<longleftrightarrow>
     (case result of
        (Ok (_, code), K') \<Rightarrow>
          code = 1 \<and> K' = K \<and> \<not> (\<exists>r \<in> set (hk_pictos K). row_id r = i \<and> row_status r \<in> from) \<or>
          code = 0 \<and> status_changed i from to (hk_pictos K) (hk_pictos K') \<and>
            event_logged D io event (hk_audit K) (hk_audit K')
      | (Err _, K') \<Rightarrow> K' = K \<or> status_changed i from to (hk_pictos K) (hk_pictos K') \<and> log_behind K K')"

lemma change_grant_outcome:
  assumes "\<And>store. operation (hk_pictos K) = (True, store) \<Longrightarrow> status_changed i from to (hk_pictos K) store"
    and "\<not> fst (operation (hk_pictos K)) \<Longrightarrow>
      snd (operation (hk_pictos K)) = hk_pictos K \<and> \<not> (\<exists>r \<in> set (hk_pictos K). row_id r = i \<and> row_status r \<in> from)"
  shows "change_outcome D io event i from to K (change_grant D F L io operation event done refused K)"
proof -
  obtain res K' where r: "change_grant D F L io operation event done refused K = (res, K')" by (meson surj_pair)
  show ?thesis
  proof (cases res)
    case (Inl e)
    from change_grant_failed [OF r [unfolded Inl]] assms(1) show ?thesis
      by (auto simp: change_outcome_def r Inl)
  next
    case (Inr x)
    obtain out code where x: "x = (out, code)" by fastforce
    have "store = hk_pictos K" if "operation (hk_pictos K) = (False, store)" for store
      using assms(2) that by simp
    from change_grant_done [OF r [unfolded Inr x] this] assms show ?thesis
      by (auto simp: change_outcome_def r Inr x)
  qed
qed

text \<open>C25. What the operator's commands report as done is done and logged: \<open>grant\<close> adds one row, of the scope and
  budget given, unspent, not bound to an input, with a lifetime of at most a day, which waits for its
  confirmation if that was asked for; \<open>revoke\<close> gives the status revoked to the rows of that id that were active
  or waiting for confirmation, \<open>confirm\<close> the status active to those that were waiting for it, of which there was
  one, and every other row and field stays as it was; and each appends the event that says so, signed with the
  key, to the audit log. A revocation or confirmation that reports that it found nothing found no such row and
  leaves everything as it was. A command that ends in an error leaves everything as it was, or, when it was
  the audit log that could not be written, has changed the store in just that way; the log then ends in at most
  what the failed append left.\<close>

theorem operator_changes_are_logged:
  "(case cmd_grant D F L io scope n ttl reason confirming K of
      (Ok _, K') \<Rightarrow>
        \<exists>row shown. grant_added io scope n ttl confirming row (hk_pictos K) (hk_pictos K') \<and>
          event_logged D io (PictoCreated (row_id row) scope n shown confirming) (hk_audit K) (hk_audit K')
    | (Err _, K') \<Rightarrow>
        K' = K \<or> (\<exists>row. grant_added io scope n ttl confirming row (hk_pictos K) (hk_pictos K')) \<and> log_behind K K') \<and>
   change_outcome D io (PictoRevoked i) i {''active'', ''pending_confirmation''} ''revoked'' K (cmd_revoke D F L io i K) \<and>
   change_outcome D io (PictoConfirmed i) i {''pending_confirmation''} ''active'' K (cmd_confirm D F L io i K)"
proof (intro conjI)
  show "change_outcome D io (PictoRevoked i) i {''active'', ''pending_confirmation''} ''revoked'' K (cmd_revoke D F L io i K)"
    unfolding cmd_revoke_def by (rule change_grant_outcome) (use revoke_spec [of "hk_pictos K" i] in auto)
  show "change_outcome D io (PictoConfirmed i) i {''pending_confirmation''} ''active'' K (cmd_confirm D F L io i K)"
    unfolding cmd_confirm_def by (rule change_grant_outcome) (use confirm_spec [of "hk_pictos K" i] in auto)
qed (rule grant_outcome)

definition demo_granted_disk :: hook_disk where
  "demo_granted_disk = demo_tool_disk\<lparr>hk_pictos :=
     [\<lparr>row_id = ''p'', row_scope = ''s'', row_max_uses = 2, row_uses = 1, row_ttl = 9, row_created = 0,
       row_status = ''active'', row_reason = ''r'', row_signature = [], row_input_hash = None\<rparr>]\<rparr>"

lemma demo_opens: "is_ok (open_model demo_tool_daemon (memory_fs []) (home_layout_at [''/'', ''h'']) demo_tool_io)"
proof -
  have "is_ok (read_model_load demo_extern (de_lib demo_daemon) (\<lambda>_. None) (memory_fs []) (home_layout_at [''/'', ''h'']))"
    by (simp add: read_model_load_def expedition_load_def memory_fs_def load_mapper_from_dir_def yaml_files_def
        load_active_policy_def active_policy_layers_def explicit_policy_dir_def push_policy_layer_def
        load_from_layers_def load_from_dir_def collect_policy_files_def load_policy_files_def Let_def)
  then show ?thesis
    by (simp add: open_model_def demo_tool_io_def demo_tool_daemon_def demo_hook_daemon_def demo_daemon_def
        is_ok_def and_then_def split: sum.splits)
qed

theorem operator_changes_are_logged_witness:
  "\<exists>out K'. cmd_revoke demo_tool_daemon (memory_fs []) (home_layout_at [''/'', ''h'']) demo_tool_io ''p'' demo_granted_disk =
      (Ok (out, 0), K') \<and> map row_status (hk_pictos K') = [''revoked''] \<and>
      event_logged demo_tool_daemon demo_tool_io (PictoRevoked ''p'') None (hk_audit K')"
proof -
  let ?revoke = "cmd_revoke demo_tool_daemon (memory_fs []) (home_layout_at [''/'', ''h'']) demo_tool_io ''p''"
  obtain m where m: "open_model demo_tool_daemon (memory_fs []) (home_layout_at [''/'', ''h'']) demo_tool_io = Ok m"
    using demo_opens by (auto simp: is_ok_iff)
  have key: "load_key (ti_key demo_tool_io) = Ok ''12345678901234567890123456789012''"
    by (simp add: load_key_def demo_tool_io_def)
  obtain store where r: "revoke (hk_pictos demo_granted_disk) ''p'' = (True, store)" "map row_status store = [''revoked'']"
    by (simp add: demo_granted_disk_def revoke_def update_rows_def live_status_def)
  obtain K2 where K2: "tool_open_log (ti_audit_fault demo_tool_io) (demo_granted_disk\<lparr>hk_pictos := store\<rparr>) = (Ok (), K2)"
    by (simp add: tool_open_log_def audit_open_def demo_tool_io_def)
  obtain K3 where "tool_log demo_tool_daemon ''12345678901234567890123456789012'' (ti_event1 demo_tool_io) (PictoRevoked ''p'') K2 =
      (Ok (), K3)"
    using demo_log_ok [of "''12345678901234567890123456789012''" "PictoRevoked ''p''" K2] by (auto simp: demo_tool_io_def)
  with m key r K2 have "?revoke demo_granted_disk = (Ok ([''revoked p''], 0), K3)"
    by (simp add: cmd_revoke_def change_grant_def Let_def)
  moreover from operator_changes_are_logged [THEN conjunct2, THEN conjunct1, of demo_tool_daemon demo_tool_io "''p''"
      demo_granted_disk "memory_fs []" "home_layout_at [''/'', ''h'']"] this
  have "status_changed ''p'' {''active'', ''pending_confirmation''} ''revoked'' (hk_pictos demo_granted_disk) (hk_pictos K3)"
      "event_logged demo_tool_daemon demo_tool_io (PictoRevoked ''p'') (hk_audit demo_granted_disk) (hk_audit K3)"
    by (simp_all add: change_outcome_def)
  ultimately show ?thesis by (auto simp: demo_granted_disk_def demo_tool_disk_def status_changed_def list_all2_Cons1)
qed

end
