(* ===== verification/Spec2Isabelle.thy ===== *)
theory Spec2Isabelle
  imports
    Json_Canonical
    Btree_Map
    Shell_Targets
    Hardstop_Laws
    Evaluator
    Picto_Grants
    Mapper_Laws
    Approval_Laws
    Audit_Payload
    Audit_Laws
    Audit_Stream
    Webhook_Laws
    Runtime_Laws
    Fingerprint
    Daemon_Run
    Gateway_Laws
    Replay_Laws
    Policy_Suggest_Laws
    Inbox_Sweep_Laws
    Agent_Laws
    State_Laws
    Explain_Laws
    Stats_Laws
    Operator_Laws
begin

text \<open>
  Gommage decides whether a coding agent may make a tool call, and keeps a signed record of what
  it decided. This library models its core, its audit log, its daemon, the adapters that agents call
  and the tools that check and replay policies (\<open>src/crates\<close>).

  The program. A tool call (\<open>gommage-core/src/toolcall.rs\<close>) is mapped to capabilities, strings
  \<open>namespace:payload\<close>, by rules of regular expressions (\<open>mapper.rs\<close>); for shell tools the rules
  also see the commands hidden inside the command line, which the scanners of \<open>shell.rs\<close> find. The
  evaluator (\<open>evaluator.rs\<close>) first asks the compiled-in hard stops (\<open>hardstop.rs\<close>), then takes the
  first matching rule of the policy (\<open>policy.rs\<close>), and denies if there is none. A rule may allow,
  deny, or ask for a picto: a signed grant with a scope, a budget of uses, an expiry and optionally
  a binding to one input, kept in SQLite (\<open>picto.rs\<close>). The daemon (\<open>gommage-daemon/src/main.rs\<close>)
  serves requests on a socket: it decides, looks for a usable grant when the rule asks, spends one
  use, or records a request in the approval inbox (\<open>approval.rs\<close>) and announces it by webhook
  (\<open>approval_webhook.rs\<close>, \<open>webhook_signature.rs\<close>), and appends the outcome to the signed audit log
  (\<open>gommage-audit/src/lib.rs\<close>), which \<open>stream.rs\<close> summarizes. A changed policy on disk takes
  effect only through a reload that spends a grant for it (\<open>runtime.rs\<close> loads and fingerprints
  the configuration).
  Agents reach the daemon through adapters: \<open>gommage hook\<close> (\<open>gommage-cli/src/mcp.rs\<close>, \<open>input.rs\<close>) and
  \<open>gommage-mcp/src/main.rs\<close> turn a hook payload into a call, ask the daemon, decide in their own
  process when there is none, and answer in the agent's format; \<open>gommage-mcp\<close> is also a gateway that
  stands between an MCP client and a server and stops the tool calls that are not allowed. The
  operator's tools read the audit log and the policy files: \<open>replay.rs\<close> and \<open>policy_diff.rs\<close> decide
  the log again, \<open>policy_cmd.rs\<close> tests, lints and suggests rules, and \<open>approval_cmd.rs\<close> and
  \<open>approval_workflow.rs\<close> resolve requests: approving one creates the grant it asked for. \<open>agent.rs\<close> installs the hooks in the
  settings of the agents, \<open>state.rs\<close> keeps an index of the audit log in SQLite, \<open>stats.rs\<close> counts its
  records, and \<open>main.rs\<close> holds the commands that create, revoke and confirm grants by hand.

  The theories, in the order of their imports.
  \<^item> \<open>Prelude\<close>: results (\<open>Ok\<close>, \<open>Err\<close>), the part of \<open>str\<close> and iterators the sources use. \<open>Machine\<close>:
    runs of step relations, the contracts \<open>use_budget\<close> and \<open>append_log\<close>. \<open>Btree_Map\<close>: the ordered
    map as a contract and its implementation. \<open>Extern\<close>, \<open>Files\<close>, \<open>Json\<close>, \<open>Jsonl\<close>: libraries and
    system as parameters; errors (\<open>error.rs\<close>), paths, JSON values, line-delimited files.
  \<^item> \<open>Json\<close>, \<open>Json_Canonical\<close>: \<open>toolcall.rs\<close>; the canonical text of a call and what its hash binds.
  \<^item> \<open>Heredoc\<close>, \<open>Shell\<close>, \<open>Shell_Targets\<close>, \<open>Shell_Laws\<close>: \<open>shell.rs\<close>.
  \<^item> \<open>Capability\<close>, \<open>Hardstop\<close>, \<open>Hardstop_Laws\<close>: \<open>capability.rs\<close> and \<open>hardstop.rs\<close>, and why the
    shape of a command cannot hide a destructive part of it.
  \<^item> \<open>Policy\<close>, \<open>Evaluator\<close>: \<open>policy.rs\<close> and \<open>evaluator.rs\<close>.
  \<^item> \<open>Mapper\<close>, \<open>Mapper_Laws\<close>: \<open>mapper.rs\<close>; the candidates of a command as an inductive derivation
    that the bounded recursion computes exactly.
  \<^item> \<open>Picto\<close>, \<open>Picto_Laws\<close>, \<open>Picto_Grants\<close>: \<open>picto.rs\<close>; the store as a list of rows, its invariant
    \<open>store_ok\<close>, its steps, and what a found grant is worth.
  \<^item> \<open>Approval\<close>, \<open>Approval_Laws\<close>: \<open>approval.rs\<close>; the inbox file and its replay.
  \<^item> \<open>Audit_Log\<close>, \<open>Audit_Payload\<close>, \<open>Audit_Laws\<close>, \<open>Audit_Stream\<close>: the audit crate.
  \<^item> \<open>Webhook\<close>, \<open>Webhook_Laws\<close>: signatures with HMAC written out, deliveries, the dead-letter queue.
  \<^item> \<open>Runtime\<close>, \<open>Runtime_Laws\<close>, \<open>Fingerprint\<close>: \<open>runtime.rs\<close>; home directory and key, layers,
    read model, and what the configuration fingerprint pins.
  \<^item> \<open>Daemon\<close>, \<open>Daemon_Laws\<close>, \<open>Daemon_Log\<close>, \<open>Daemon_Reload\<close>, \<open>Daemon_Run\<close>: the daemon; decisions,
    the log behind them, reloads, and runs in which requests, reloads, restarts and the operators'
    tools interleave.
  \<^item> \<open>Hook_Input\<close>, \<open>Hook_Laws\<close>: \<open>input.rs\<close>; payloads, paths, patches and branch notes. \<open>Hook\<close>,
    \<open>Adapter_Laws\<close>: the two adapters, their fallback and their bypass.
  \<^item> \<open>Gateway\<close>, \<open>Gateway_Laws\<close>: the MCP gateway, its messages and its loop.
  \<^item> \<open>Replay\<close>, \<open>Replay_Laws\<close>: \<open>audit_replay.rs\<close>, \<open>replay.rs\<close>, \<open>policy_diff.rs\<close>.
  \<^item> \<open>Policy_Tools\<close>, \<open>Policy_Tools_Laws\<close>, \<open>Policy_Suggest\<close>, \<open>Policy_Suggest_Laws\<close>: \<open>policy_cmd.rs\<close>;
    fixtures, snapshots, the strict lint, the layers, suggestions.
  \<^item> \<open>Inbox\<close>, \<open>Inbox_Laws\<close>, \<open>Inbox_Sweep\<close>, \<open>Inbox_Sweep_Laws\<close>: \<open>approval_cmd.rs\<close> and
    \<open>approval_workflow.rs\<close>; approving, denying, callbacks, the sweep, deliveries, evidence.
  \<^item> \<open>Config_Files\<close>, \<open>Agent_Hooks\<close>, \<open>Agent_Laws\<close>: \<open>util.rs\<close>, \<open>agent.rs\<close>, \<open>codex_config.rs\<close> and
    \<open>agent_uninstall.rs\<close>; writing settings with backups, hook groups, native permissions, removal.
  \<^item> \<open>State_Index\<close>, \<open>State_Laws\<close>: \<open>state.rs\<close> and the source of a frame of \<open>tui_stream.rs\<close>; the SQLite
    index of the audit log. \<open>Explain\<close>, \<open>Explain_Laws\<close>: \<open>audit_cmd.rs\<close>; \<open>audit-verify\<close>, \<open>explain\<close> and the trace
    of the rules.
  \<^item> \<open>Stats\<close>, \<open>Stats_Laws\<close>: \<open>stats.rs\<close>; counters, loops, watchlist. \<open>Operator\<close>, \<open>Operator_Laws\<close>:
    \<open>main.rs\<close> and \<open>map.rs\<close>; \<open>grant\<close>, \<open>list\<close>, \<open>revoke\<close>, \<open>confirm\<close>, \<open>decide\<close>, \<open>map\<close>, \<open>expedition\<close>.

  State and operations. A structure is a record with the source's fields (\<open>rule\<close>, \<open>picto\<close>,
  \<open>approval_request\<close>, \<open>runtime\<close>, \<open>daemon_state\<close>), an enum a datatype, and an operation on \<open>&mut self\<close>
  a function that returns its result and the new state. Every \<open>?\<close>, early return and panic is a
  branch: fallible code returns \<open>gommage_error + 'a\<close> (or the error type of its crate), the panic of
  the evaluator is \<open>None\<close>. Uses, budgets, ports of retries and back-off times are words of the
  width the source gives them. A file is \<open>string option\<close>, its text or its absence; an append is
  given its outcome: written, not opened, or torn after some characters.

  What the lemmas show. Scanners: every segment is made of non-empty words, plain and quoted words
  come back, separators compose, masking keeps the text's shape; the candidates are exactly the
  derivable texts. Hard stops: wrappers, scripts, substitutions and separators cannot hide a
  destructive command, quoted data is no hit. Evaluation: hard stops come first, an allow needs an
  allow rule, loaded policies never panic. Grants: no run of the store spends more than a budget,
  ended grants stay ended, a verified lookup is sound, and what the signed text pins and does not
  pin. Inbox: one pending request per tuple, resolutions are final, an append cut short can at worst
  stop every further operation, and when a reopened request is lost. Audit log: what is appended
  behind a complete line verifies, the signed bytes determine the entry, the two verifiers agree,
  and what a torn line costs. Webhooks: verification is exact, deliveries end. Daemon: an
  allow comes from a rule or a spent grant, the log of a daemon that answered ends with the signed
  record of the verdict, changed configuration needs a grant, equal fingerprints decide alike, every
  line of a connection is answered up to its first read or write error, and no grant pays for more
  verdicts than it allows. Adapters: they fail closed, with the disk before and after the run named
  where a grant on disk pays, decide as the daemon would, and their bypass keeps the hard stops;
  what a payload can and cannot forge. Gateway: only calls allowed on the disk that the lines before
  them left reach the server, and a batch is not looked at. Tools: the diff and the replay
  report what they should, a snapshot passes, a rule linted as shadowed is dead, and when and what
  a suggested rule decides. Inbox commands: an approval mints what was asked and unblocks the call,
  what it leaves behind when it fails, what a callback and the sweep may change. Agent integration:
  what an installation adds and a removal takes away, that no text is lost on the way, what the import
  of native rules writes. Index: its rows are typed, it is the log when it is reported current, and the
  live stream is the same from either. Explanations: what the trace of the rules means and what
  \<open>explain\<close> finds. Statistics: when they come to an end, that they add up and agree with the index.
  Operator commands: what is reported as done is in the store and, signed, in the log, and what an
  error leaves; lifetimes and scopes.

  Contracts. \<open>use_budget\<close> is interpreted on the steps of the picto store (\<open>picto_budget\<close>) and on
  the steps of the running daemon (\<open>daemon_budget\<close>); \<open>append_log\<close> on the inbox (\<open>approval_log\<close>),
  the audit log (\<open>audit_trail\<close>) and the dead-letter queue (\<open>dlq_log\<close>); the ordered map on the
  association list that the inbox replays into.

  Bounds and termination. No definition takes fuel. The statistics read an iterator that may
  never end, so their loop is a partial function and not returning is \<open>None\<close>. The scanners and the semantic scan recurse on
  shorter texts; the mapper's candidates stop at \<open>MAX_CANDIDATE_DEPTH\<close> as in the source, with the
  remaining depth as measure; a delivery counts its attempts, of which the settings allow at most
  ten. Texts are lists of 8-bit characters: a byte string is exact, and a text outside ASCII is its
  UTF-8 bytes, on which the scanners' arms, all for ASCII characters, act alike; only
  \<open>char::is_whitespace\<close> on non-ASCII characters and the counting of characters in truncations differ.

  Parameters. Code that is not under \<open>src\<close> is an argument: SHA-256, hex, base64, ed25519 and RFC 3339
  (\<open>extern\<close>, with \<open>crypto_ok\<close> for what signing promises), the YAML readers, the glob and regular
  expression compilers (\<open>policy_lib\<close>, \<open>mapper_lib\<close>), serde's printers and readers (codecs, with
  the round trip as their law, and where appends may be cut short \<open>refuses_torn\<close>: that the reader takes
  neither the beginning of a record nor a record with something behind it), TOML documents, the file system (\<open>fs\<close>), the environment, clocks, UUIDs and
  the outcome of each \<open>curl\<close> run. A property that needs a law of a parameter names it as a
  hypothesis, and its witness runs it on a concrete instance.

  Not modelled. Opening and migrating the SQLite file and its errors, concurrent writers within one
  SQL statement (each store operation is one step); the async runtime, the socket, signals and
  the probe of a live socket, \<open>main\<close> and the parsing of command lines; the printing of reports; the
  terminal interface, the installers and the collections of facts about an installation in
  \<open>gommage-cli\<close>, which are I/O around libraries that are not here; the bundled rule files
  (\<open>gommage-stdlib\<close>), which are data; tests, scripts and documents.
\<close>

end
